(* ===== verification/Py_Prelude.thy ===== *)
theory Py_Prelude
  imports Main "HOL-Library.List_Lexorder" "HOL-Library.Code_Target_Numeral"
begin

text \<open>
  The part of the Python language that every component uses.

  A Python \<^verbatim>\<open>str\<close> is a list of Unicode code points (\<open>pystr\<close>, a \<open>nat list\<close>), because the
  programs measure strings in code points, encode them as UTF-8 and reject or pass on
  characters far outside ASCII. A \<^verbatim>\<open>bytes\<close> value is a list of numbers below 256
  (\<open>pybytes\<close>). The function \<open>U\<close> turns an ASCII literal into a \<open>pystr\<close>.

  An exception is a value of \<open>pyexn\<close>; a computation that may raise has the type
  \<open>'a res\<close> = \<open>pyexn + 'a\<close> and is sequenced with \<open>res_bind\<close>. The tables below
  (white space, decimal digits, case folding) are those of CPython's Unicode database,
  restricted to what a comparison with ASCII text can observe.
\<close>

section \<open>Strings, bytes, exceptions\<close>

type_synonym pystr = "nat list"
type_synonym pybytes = "nat list"

definition U :: "string \<Rightarrow> pystr" where
  "U s = map of_char s"

datatype pyexn =
    ValueError pystr
  | JSONDecodeError
  | UnicodeDecodeError
  | UnicodeEncodeError
  | FixtureError pystr
  | TypeError
  | OverflowError
  | AttributeError
  | KeyError pystr
  | IndexError
  | RecursionError
  | OSError
  | HTTPException
  | HttpError
  | ConfigError pystr
  | PsycopgError pystr
  | ContractError pystr
  | EnvironmentFailure pystr
  | StopIteration
  | SubprocessError
  | RuntimeError pystr
  | AssertionError

text \<open>The subclasses of \<^verbatim>\<open>ValueError\<close>: what an \<^verbatim>\<open>except ValueError\<close> clause catches.\<close>

fun is_ValueError :: "pyexn \<Rightarrow> bool" where
  "is_ValueError (ValueError _) = True"
| "is_ValueError JSONDecodeError = True"
| "is_ValueError UnicodeDecodeError = True"
| "is_ValueError UnicodeEncodeError = True"
| "is_ValueError (FixtureError _) = True"
| "is_ValueError _ = False"

type_synonym 'a res = "pyexn + 'a"

definition res_bind :: "'e + 'a \<Rightarrow> ('a \<Rightarrow> 'e + 'b) \<Rightarrow> 'e + 'b" where
  "res_bind r f = (case r of Inl e \<Rightarrow> Inl e | Inr x \<Rightarrow> f x)"

text \<open>\<^verbatim>\<open>if not cond: raise exn\<close>\<close>

definition ensure :: "bool \<Rightarrow> 'e \<Rightarrow> 'e + unit" where
  "ensure b e = (if b then Inr () else Inl e)"

text \<open>A loop whose body may raise: the first exception ends it.\<close>

fun for_each :: "('a \<Rightarrow> 'e + unit) \<Rightarrow> 'a list \<Rightarrow> 'e + unit" where
  "for_each f [] = Inr ()"
| "for_each f (x # xs) = res_bind (f x) (\<lambda>_. for_each f xs)"

text \<open>A comprehension whose body may raise.\<close>

fun res_map :: "('a \<Rightarrow> 'e + 'b) \<Rightarrow> 'a list \<Rightarrow> 'e + 'b list" where
  "res_map f [] = Inr []"
| "res_map f (x # xs) = res_bind (f x) (\<lambda>y. res_bind (res_map f xs) (\<lambda>ys. Inr (y # ys)))"

text \<open>A loop that updates an accumulator and may raise.\<close>

fun res_fold :: "('a \<Rightarrow> 's \<Rightarrow> 'e + 's) \<Rightarrow> 'a list \<Rightarrow> 's \<Rightarrow> 'e + 's" where
  "res_fold f [] s = Inr s"
| "res_fold f (x # xs) s = res_bind (f x s) (res_fold f xs)"

lemma res_bind_simps [simp]:
  "res_bind (Inl e) f = Inl e"
  "res_bind (Inr x) f = f x"
  by (simp_all add: res_bind_def)

lemma res_bind_eq_Inr [simp]:
  "res_bind r f = Inr y \<longleftrightarrow> (\<exists>x. r = Inr x \<and> f x = Inr y)"
  by (cases r) auto

lemma res_bind_eq_Inl:
  "res_bind r f = Inl e \<longleftrightarrow> r = Inl e \<or> (\<exists>x. r = Inr x \<and> f x = Inl e)"
  by (cases r) auto

lemma not_isl_Inr: "isl x = False \<Longrightarrow> \<exists>y. x = Inr y"
  by (cases x) auto

lemma res_bind_assoc: "res_bind (res_bind r f) g = res_bind r (\<lambda>x. res_bind (f x) g)"
  by (cases r) auto

lemma res_bind_cong [fundef_cong]:
  "r = r' \<Longrightarrow> (\<And>x. r' = Inr x \<Longrightarrow> f x = g x) \<Longrightarrow> res_bind r f = res_bind r' g"
  by (cases r') auto

lemma res_map_cong [fundef_cong]:
  "xs = ys \<Longrightarrow> (\<And>x. x \<in> set ys \<Longrightarrow> f x = g x) \<Longrightarrow> res_map f xs = res_map g ys"
  by (induction xs arbitrary: ys) auto

lemma ensure_simps [simp]:
  "ensure True e = Inr ()"
  "ensure False e = Inl e"
  by (simp_all add: ensure_def)

lemma ensure_eq_Inr [simp]: "ensure b e = Inr u \<longleftrightarrow> b"
  by (simp add: ensure_def)

lemma ensure_eq_Inl [simp]: "ensure b e = Inl x \<longleftrightarrow> \<not> b \<and> x = e"
  by (auto simp: ensure_def)

lemma for_each_eq_Inr [simp]: "for_each f xs = Inr u \<longleftrightarrow> (\<forall>x\<in>set xs. f x = Inr ())"
  by (induction xs) auto

lemma for_each_Inl: "for_each f xs = Inl e \<Longrightarrow> \<exists>x\<in>set xs. f x = Inl e"
  by (induction xs) (auto simp: res_bind_eq_Inl)

lemma res_map_eq_Inr: "res_map f xs = Inr ys \<longleftrightarrow> list_all2 (\<lambda>x y. f x = Inr y) xs ys"
  by (induction xs arbitrary: ys) (auto simp: list_all2_Cons1)

lemma res_map_list_all:
  "res_map f xs = Inr ys \<Longrightarrow> (\<And>x y. x \<in> set xs \<Longrightarrow> f x = Inr y \<Longrightarrow> P y) \<Longrightarrow> list_all P ys"
  unfolding res_map_eq_Inr list_all2_conv_all_nth list_all_length by (metis nth_mem)

lemma res_map_Inl: "res_map f xs = Inl e \<Longrightarrow> \<exists>x\<in>set xs. f x = Inl e"
  by (induction xs) (auto simp: res_bind_eq_Inl)

lemma res_fold_invariant:
  assumes "res_fold f xs s = Inr s'" "I s" "\<And>x s s'. f x s = Inr s' \<Longrightarrow> I s \<Longrightarrow> I s'"
  shows "I s'"
  using assms(1,2) by (induction xs arbitrary: s) (auto dest: assms(3))

lemma res_fold_Inl:
  "res_fold f xs s = Inl e \<Longrightarrow> (\<And>x s e. f x s = Inl e \<Longrightarrow> P e) \<Longrightarrow> P e"
  by (induction xs arbitrary: s) (auto simp: res_bind_eq_Inl)

lemma find_SomeD: "find P xs = Some x \<Longrightarrow> x \<in> set xs \<and> P x"
  by (auto simp: find_Some_iff)

lemma find_NoneD: "find P xs = None \<Longrightarrow> x \<in> set xs \<Longrightarrow> \<not> P x"
  by (auto simp: find_None_iff)

lemma U_inject [simp]: "U a = U b \<longleftrightarrow> a = b"
  by (auto simp: U_def inj_map_eq_map inj_on_def)

lemma U_append: "U (a @ b) = U a @ U b"
  by (simp add: U_def)

lemma length_U [simp]: "length (U s) = length s"
  by (simp add: U_def)

lemma U_Nil [simp]: "U [] = []"
  by (simp add: U_def)

lemma U_eq_Nil [simp]: "U s = [] \<longleftrightarrow> s = []"
  by (simp add: U_def)

lemma Nil_eq_U [simp]: "[] = U s \<longleftrightarrow> s = []"
  by (auto simp: U_def)

lemma U_less_256: "c \<in> set (U s) \<Longrightarrow> c < 256"
  by (auto simp: U_def of_char_of[symmetric])

section \<open>Operations of \<^verbatim>\<open>str\<close>\<close>

definition startswith :: "pystr \<Rightarrow> pystr \<Rightarrow> bool" where
  "startswith s p = (take (length p) s = p)"

definition endswith :: "pystr \<Rightarrow> pystr \<Rightarrow> bool" where
  "endswith s p = (length p \<le> length s \<and> drop (length s - length p) s = p)"

fun find_sub :: "pystr \<Rightarrow> pystr \<Rightarrow> nat option" where
  "find_sub n [] = (if n = [] then Some 0 else None)"
| "find_sub n (c # cs) =
     (if take (length n) (c # cs) = n then Some 0 else map_option Suc (find_sub n cs))"

definition contains :: "pystr \<Rightarrow> pystr \<Rightarrow> bool" where
  "contains needle s = (find_sub needle s \<noteq> None)"

text \<open>\<^verbatim>\<open>s.partition(sep)\<close> for a non-empty separator.\<close>

definition partition_str :: "pystr \<Rightarrow> pystr \<Rightarrow> pystr \<times> pystr \<times> pystr" where
  "partition_str sep s =
     (case find_sub sep s of
        None \<Rightarrow> (s, [], [])
      | Some i \<Rightarrow> (take i s, sep, drop (i + length sep) s))"

text \<open>\<^verbatim>\<open>s.split(sep, 1)[0]\<close> and \<^verbatim>\<open>s.split(sep, 1)[-1]\<close>\<close>

definition split1_head :: "pystr \<Rightarrow> pystr \<Rightarrow> pystr" where
  "split1_head sep s = fst (partition_str sep s)"

definition split1_last :: "pystr \<Rightarrow> pystr \<Rightarrow> pystr" where
  "split1_last sep s = (case partition_str sep s of (h, m, t) \<Rightarrow> if m = [] then h else t)"

text \<open>\<^verbatim>\<open>s.split(sep)\<close> for a separator of one character.\<close>

fun split_ch :: "nat \<Rightarrow> pystr \<Rightarrow> pystr list" where
  "split_ch sep [] = [[]]"
| "split_ch sep (c # cs) =
     (if c = sep then [] # split_ch sep cs
      else (case split_ch sep cs of [] \<Rightarrow> [[c]] | p # ps \<Rightarrow> (c # p) # ps))"

text \<open>\<^verbatim>\<open>s.rsplit(sep, n)\<close> for a separator of one character.\<close>

definition rsplit_ch :: "nat \<Rightarrow> nat \<Rightarrow> pystr \<Rightarrow> pystr list" where
  "rsplit_ch sep n s =
     (let ps = split_ch sep s; k = length ps - Suc n
      in if k = 0 then ps
         else foldl (\<lambda>a p. a @ sep # p) (hd ps) (take k (tl ps)) # drop (Suc k) ps)"

fun join_str :: "pystr \<Rightarrow> pystr list \<Rightarrow> pystr" where
  "join_str sep [] = []"
| "join_str sep [p] = p"
| "join_str sep (p # q # ps) = p @ sep @ join_str sep (q # ps)"

text \<open>\<^verbatim>\<open>s.replace(old, new)\<close>: left to right, occurrences do not overlap; an empty \<^verbatim>\<open>old\<close>
  matches before every character and at the end.\<close>

function replace_ne :: "pystr \<Rightarrow> pystr \<Rightarrow> pystr \<Rightarrow> pystr" where
  "replace_ne old new s =
     (if s = [] \<or> old = [] then s
      else if take (length old) s = old then new @ replace_ne old new (drop (length old) s)
      else hd s # replace_ne old new (tl s))"
  by pat_completeness auto
termination
  by (relation "measure (\<lambda>(old, new, s). length s)") (auto simp: neq_Nil_conv)

declare replace_ne.simps [simp del]

definition replace_str :: "pystr \<Rightarrow> pystr \<Rightarrow> pystr \<Rightarrow> pystr" where
  "replace_str old new s =
     (if old = [] then new @ concat (map (\<lambda>c. c # new) s) else replace_ne old new s)"

text \<open>\<^verbatim>\<open>str.isspace\<close> of one character, which is also the class \<^verbatim>\<open>\s\<close> of \<^verbatim>\<open>re\<close>.\<close>

definition is_space :: "nat \<Rightarrow> bool" where
  "is_space c = (9 \<le> c \<and> c \<le> 13 \<or> 28 \<le> c \<and> c \<le> 32 \<or> c = 133 \<or> c = 160 \<or> c = 5760
     \<or> 8192 \<le> c \<and> c \<le> 8202 \<or> c = 8232 \<or> c = 8233 \<or> c = 8239 \<or> c = 8287 \<or> c = 12288)"

definition lstrip_by :: "(nat \<Rightarrow> bool) \<Rightarrow> pystr \<Rightarrow> pystr" where
  "lstrip_by p s = dropWhile p s"

definition rstrip_by :: "(nat \<Rightarrow> bool) \<Rightarrow> pystr \<Rightarrow> pystr" where
  "rstrip_by p s = rev (dropWhile p (rev s))"

definition strip_by :: "(nat \<Rightarrow> bool) \<Rightarrow> pystr \<Rightarrow> pystr" where
  "strip_by p s = rstrip_by p (lstrip_by p s)"

abbreviation strip :: "pystr \<Rightarrow> pystr" where
  "strip s \<equiv> strip_by is_space s"

text \<open>\<^verbatim>\<open>str.splitlines()\<close>: no line is added after a final line break.\<close>

definition is_line_break :: "nat \<Rightarrow> bool" where
  "is_line_break c = (10 \<le> c \<and> c \<le> 13 \<or> 28 \<le> c \<and> c \<le> 30 \<or> c = 133 \<or> c = 8232 \<or> c = 8233)"

fun splitlines_acc :: "pystr \<Rightarrow> pystr \<Rightarrow> pystr list" where
  "splitlines_acc acc [] = (if acc = [] then [] else [rev acc])"
| "splitlines_acc acc [c] = (if is_line_break c then [rev acc] else [rev (c # acc)])"
| "splitlines_acc acc (c # d # cs) =
     (if c = 13 \<and> d = 10 then rev acc # splitlines_acc [] cs
      else if is_line_break c then rev acc # splitlines_acc [] (d # cs)
      else splitlines_acc (c # acc) (d # cs))"

definition splitlines :: "pystr \<Rightarrow> pystr list" where
  "splitlines s = splitlines_acc [] s"

text \<open>
  Decimal digits (general category Nd): \<^verbatim>\<open>\d\<close> of \<^verbatim>\<open>re\<close> and the digits \<^verbatim>\<open>int()\<close> takes. Each
  number below is the code point of a digit zero; the nine that follow it are 1 to 9.
\<close>

definition digit_zeros :: "nat list" where
  "digit_zeros = [48, 1632, 1776, 1984, 2406, 2534, 2662, 2790, 2918, 3046, 3174, 3302, 3430,
     3558, 3664, 3792, 3872, 4160, 4240, 6112, 6160, 6470, 6608, 6784, 6800, 6992, 7088, 7232,
     7248, 42528, 43216, 43264, 43472, 43504, 43600, 44016, 65296, 66720, 68912, 69734, 69872,
     69942, 70096, 70384, 70736, 70864, 71248, 71360, 71472, 71904, 72016, 72784, 73040, 73120,
     73552, 92768, 92864, 93008, 120782, 120792, 120802, 120812, 120822, 123200, 123632, 124144,
     125264, 130032]"

definition digit_value :: "nat \<Rightarrow> nat option" where
  "digit_value c = (case find (\<lambda>z. z \<le> c \<and> c \<le> z + 9) digit_zeros of
     None \<Rightarrow> None | Some z \<Rightarrow> Some (c - z))"

definition is_digit :: "nat \<Rightarrow> bool" where
  "is_digit c = (digit_value c \<noteq> None)"

text \<open>
  \<^verbatim>\<open>int(s)\<close> for a string: surrounding white space, a sign, digits with single underscores
  between them, at most 4300 digits.
\<close>

fun digits_value :: "bool \<Rightarrow> nat \<Rightarrow> nat \<Rightarrow> pystr \<Rightarrow> (nat \<times> nat) option" where
  "digits_value prev acc n [] = (if prev then Some (acc, n) else None)"
| "digits_value prev acc n (c # cs) =
     (if c = 95 then (if prev then digits_value False acc n cs else None)
      else case digit_value c of
        None \<Rightarrow> None
      | Some d \<Rightarrow> digits_value True (10 * acc + d) (Suc n) cs)"

definition int_of_str :: "pystr \<Rightarrow> int res" where
  "int_of_str s =
     (let t = strip s;
          neg = (t \<noteq> [] \<and> hd t = 45);
          u = (if t \<noteq> [] \<and> (hd t = 45 \<or> hd t = 43) then tl t else t)
      in case digits_value False 0 0 u of
           None \<Rightarrow> Inl (ValueError (U ''invalid literal for int()''))
         | Some (v, n) \<Rightarrow>
             if n > 4300 then Inl (ValueError (U ''Exceeds the limit for integer string conversion''))
             else Inr (if neg then - int v else int v))"

text \<open>\<^verbatim>\<open>str(n)\<close> for an integer.\<close>

fun str_of_nat :: "nat \<Rightarrow> pystr" where
  "str_of_nat n = (if n < 10 then [48 + n] else str_of_nat (n div 10) @ [48 + n mod 10])"

declare str_of_nat.simps [simp del]

definition str_of_int :: "int \<Rightarrow> pystr" where
  "str_of_int i = (if i < 0 then 45 # str_of_nat (nat (- i)) else str_of_nat (nat i))"

text \<open>
  \<^verbatim>\<open>str.lower\<close> and \<^verbatim>\<open>str.casefold\<close>. Every character whose image contains an ASCII character
  is mapped as CPython maps it. The other characters outside ASCII are left as they are: their
  images contain no ASCII character, so a comparison with ASCII text has the same result.
\<close>

definition lower_char :: "nat \<Rightarrow> pystr" where
  "lower_char c =
     (if 65 \<le> c \<and> c \<le> 90 then [c + 32]
      else if c = 304 then [105, 775]
      else if c = 8490 then [107]
      else [c])"

definition lower :: "pystr \<Rightarrow> pystr" where
  "lower s = concat (map lower_char s)"

definition casefold_table :: "(nat \<times> pystr) list" where
  "casefold_table = [(223, [115, 115]), (304, [105, 775]), (329, [700, 110]), (383, [115]),
     (496, [106, 780]), (7830, [104, 817]), (7831, [116, 776]), (7832, [119, 778]),
     (7833, [121, 778]), (7834, [97, 702]), (7838, [115, 115]), (8490, [107]),
     (64256, [102, 102]), (64257, [102, 105]), (64258, [102, 108]), (64259, [102, 102, 105]),
     (64260, [102, 102, 108]), (64261, [115, 116]), (64262, [115, 116])]"

definition casefold_char :: "nat \<Rightarrow> pystr" where
  "casefold_char c =
     (if 65 \<le> c \<and> c \<le> 90 then [c + 32]
      else case map_of casefold_table c of None \<Rightarrow> [c] | Some t \<Rightarrow> t)"

definition casefold :: "pystr \<Rightarrow> pystr" where
  "casefold s = concat (map casefold_char s)"

section \<open>Shared facts\<close>

lemma digits_value_Some_digits:
  "digits_value p a n s = Some r \<Longrightarrow> c \<in> set s \<Longrightarrow> c = 95 \<or> is_digit c"
  by (induction p a n s rule: digits_value.induct)
    (auto simp: is_digit_def split: if_splits option.splits)

lemma find_sub_Some: "find_sub n s = Some i \<Longrightarrow> \<exists>a b. s = a @ n @ b \<and> length a = i"
proof (induction n s arbitrary: i rule: find_sub.induct)
  case (1 n)
  then show ?case by (auto split: if_splits)
next
  case (2 n c cs)
  show ?case
  proof (cases "take (length n) (c # cs) = n")
    case True
    with "2.prems" have "i = 0" by simp
    moreover have "c # cs = [] @ n @ drop (length n) (c # cs)"
      using True by (metis append_Nil append_take_drop_id)
    ultimately show ?thesis by (metis list.size(3))
  next
    case False
    with "2.prems" obtain j where j: "find_sub n cs = Some j" "i = Suc j" by auto
    from "2.IH" [OF False j(1)] obtain a b where "cs = a @ n @ b" "length a = j" by blast
    then have "c # cs = (c # a) @ n @ b \<and> length (c # a) = i" using j(2) by simp
    then show ?thesis by blast
  qed
qed

lemma find_sub_append: "find_sub n (a @ n @ b) \<noteq> None"
proof (induction a)
  case Nil
  have "take (length n) (n @ b) = n" by simp
  then show ?case by (cases "n @ b") (auto simp del: take_append)
next
  case (Cons x a)
  then show ?case by auto
qed

lemma contains_iff: "contains n s \<longleftrightarrow> (\<exists>a b. s = a @ n @ b)"
  unfolding contains_def using find_sub_Some find_sub_append by fastforce

lemma contains_append: "contains n s \<Longrightarrow> contains n (a @ s @ b)"
  unfolding contains_iff by (metis append.assoc)

lemma partition_str_concat:
  "partition_str sep s = (h, m, t) \<Longrightarrow> s = h @ m @ t"
  by (auto simp: partition_str_def split: option.splits dest!: find_sub_Some)

lemma startswith_iff: "startswith s p \<longleftrightarrow> (\<exists>t. s = p @ t)"
  by (metis append_eq_conv_conj startswith_def)

lemma endswith_iff: "endswith s p \<longleftrightarrow> (\<exists>t. s = t @ p)"
proof
  assume "endswith s p"
  then show "\<exists>t. s = t @ p"
    unfolding endswith_def by (metis append_take_drop_id)
next
  assume "\<exists>t. s = t @ p"
  then show "endswith s p" by (auto simp: endswith_def)
qed

lemma join_split_ch: "join_str [sep] (split_ch sep s) = s"
proof (induction s)
  case (Cons c cs)
  have ne: "split_ch sep cs \<noteq> []" by (cases cs) (auto split: list.splits)
  then obtain p ps where ps: "split_ch sep cs = p # ps" by (meson neq_Nil_conv)
  with Cons show ?case by (cases ps) auto
qed simp

lemma split_ch_no_sep: "p \<in> set (split_ch sep s) \<Longrightarrow> sep \<notin> set p"
  by (induction s arbitrary: p) (auto split: if_splits list.splits)

lemma split_ch_ne: "split_ch sep s \<noteq> []"
  by (cases s) (auto split: list.splits)

lemma split_ch_none: "sep \<notin> set s \<Longrightarrow> split_ch sep s = [s]"
  by (induction s) auto

lemma int_of_str_Inl: "int_of_str s = Inl e \<Longrightarrow> is_ValueError e"
  by (auto simp: int_of_str_def Let_def split: option.splits if_splits prod.splits)

end
