(* ===== verification/Py_Value.thy ===== *)
theory Py_Value
  imports Py_Prelude
begin

text \<open>
  Dynamic Python values: what \<^verbatim>\<open>json.loads\<close> returns, what a Compose configuration, a
  database row or a report is made of. A \<^verbatim>\<open>dict\<close> is an association list with distinct keys
  in insertion order; \<^verbatim>\<open>set\<close> values are duplicate-free lists. Integers are unbounded,
  floats are IEEE doubles (\<open>m * 2^e\<close>, or infinite, or NaN) with correctly rounded
  conversion from decimal text and the shortest round-trip \<^verbatim>\<open>repr\<close>.
\<close>

section \<open>Floats\<close>

datatype pyfloat = FNum bool nat int | FInf bool | FNaN

fun bit_len :: "nat \<Rightarrow> nat" where
  "bit_len n = (if n = 0 then 0 else Suc (bit_len (n div 2)))"

declare bit_len.simps [simp del]

text \<open>\<open>n / d\<close> rounded to the nearest integer, ties to even.\<close>

definition round_div :: "nat \<Rightarrow> nat \<Rightarrow> nat" where
  "round_div n d =
     (let q = n div d; r = n mod d
      in if 2 * r < d then q else if d < 2 * r then Suc q else if even q then q else Suc q)"

text \<open>The double nearest to \<open>n / d\<close>.\<close>

definition double_of_ratio :: "bool \<Rightarrow> nat \<Rightarrow> nat \<Rightarrow> pyfloat" where
  "double_of_ratio neg n d =
     (if n = 0 then FNum neg 0 0 else
      let scale = (\<lambda>k::int. if 0 \<le> k then (n, d * 2 ^ nat k) else (n * 2 ^ nat (- k), d));
          k0 = int (bit_len n) - int (bit_len d) - 53;
          k1 = (let (a, b) = scale k0 in if 2 ^ 53 * b \<le> a then k0 + 1 else k0);
          k = max k1 (- 1074);
          m = (let (a, b) = scale k in round_div a b);
          (m', k') = (if m = 2 ^ 53 then (2 ^ 52, k + 1) else (m, k))
      in if 971 < k' then FInf neg else FNum neg m' k')"

definition double_of_decimal :: "bool \<Rightarrow> nat \<Rightarrow> int \<Rightarrow> pyfloat" where
  "double_of_decimal neg n e =
     (if 0 \<le> e then double_of_ratio neg (n * 10 ^ nat e) 1
      else double_of_ratio neg n (10 ^ nat (- e)))"

function dec_shift :: "nat \<Rightarrow> nat \<Rightarrow> nat" where
  "dec_shift n d = (if n = 0 \<or> d \<le> n then 0 else Suc (dec_shift (10 * n) d))"
  by pat_completeness auto
termination
  by (relation "measure (\<lambda>(n, d). d - n)") auto

declare dec_shift.simps [simp del]

text \<open>The decimal point position \<open>k\<close>: \<open>10^(k-1) \<le> n/d < 10^k\<close>.\<close>

definition dec_point :: "nat \<Rightarrow> nat \<Rightarrow> int" where
  "dec_point n d =
     (if d \<le> n then int (length (str_of_nat (n div d))) else 1 - int (dec_shift n d))"

text \<open>The \<open>p\<close>-digit decimals next to \<open>n/d\<close> that read back as the same double, nearest first.\<close>

definition repr_candidate :: "nat \<Rightarrow> int \<Rightarrow> nat \<Rightarrow> nat option" where
  "repr_candidate m e p =
     (let (n, d) = (if 0 \<le> e then (m * 2 ^ nat e, 1) else (m, 2 ^ nat (- e)));
          k = dec_point n d;
          sh = int p - k;
          (a, b) = (if 0 \<le> sh then (n * 10 ^ nat sh, d) else (n, d * 10 ^ nat (- sh)));
          lo = a div b; hi = Suc lo; x = FNum False m e;
          ok = (\<lambda>c. double_of_decimal False c (- sh) = x);
          near_lo = (2 * (a mod b) < b \<or> 2 * (a mod b) = b \<and> even lo)
      in if ok lo \<and> (near_lo \<or> \<not> ok hi) then Some lo else if ok hi then Some hi else None)"

fun first_repr :: "nat \<Rightarrow> int \<Rightarrow> nat list \<Rightarrow> nat \<times> nat" where
  "first_repr m e [] = (0, 0)"
| "first_repr m e (p # ps) =
     (case repr_candidate m e p of None \<Rightarrow> first_repr m e ps | Some c \<Rightarrow> (c, p))"

definition float_repr :: "pyfloat \<Rightarrow> pystr" where
  "float_repr f = (case f of
     FNaN \<Rightarrow> U ''nan''
   | FInf neg \<Rightarrow> (if neg then U ''-inf'' else U ''inf'')
   | FNum neg m e \<Rightarrow>
       (if neg then U ''-'' else []) @
       (if m = 0 then U ''0.0'' else
        let (n, d) = (if 0 \<le> e then (m * 2 ^ nat e, 1) else (m, 2 ^ nat (- e)));
            (c, p) = first_repr m e [1..<18];
            full = str_of_nat c;
            k = dec_point n d + (if p < length full then 1 else 0);
            ds = rstrip_by (\<lambda>x. x = 48) full;
            nd = length ds
        in if -4 < k \<and> k \<le> 16 then
             (if k \<le> 0 then U ''0.'' @ replicate (nat (- k)) 48 @ ds
              else if nd \<le> nat k then ds @ replicate (nat k - nd) 48 @ U ''.0''
              else take (nat k) ds @ U ''.'' @ drop (nat k) ds)
           else take 1 ds @ (if 1 < nd then U ''.'' @ drop 1 ds else []) @ U ''e''
             @ (if k - 1 < 0 then U ''-'' else U ''+'')
             @ (let ex = str_of_nat (nat \<bar>k - 1\<bar>) in if length ex < 2 then 48 # ex else ex)))"

section \<open>Values\<close>

datatype pyval =
    PNone
  | PBool bool
  | PInt int
  | PFloat pyfloat
  | PStr pystr
  | PList "pyval list"
  | PTuple "pyval list"
  | PSet "pyval list"
  | PDict "(pystr \<times> pyval) list"

type_synonym pydict = "(pystr \<times> pyval) list"

fun is_str :: "pyval \<Rightarrow> bool" where
  "is_str (PStr _) = True" | "is_str _ = False"

fun is_dict :: "pyval \<Rightarrow> bool" where
  "is_dict (PDict _) = True" | "is_dict _ = False"

fun is_list :: "pyval \<Rightarrow> bool" where
  "is_list (PList _) = True" | "is_list _ = False"

text \<open>\<^verbatim>\<open>isinstance(x, int) and not isinstance(x, bool)\<close>\<close>

fun is_int :: "pyval \<Rightarrow> bool" where
  "is_int (PInt _) = True" | "is_int _ = False"

fun is_bool :: "pyval \<Rightarrow> bool" where
  "is_bool (PBool _) = True" | "is_bool _ = False"

text \<open>\<^verbatim>\<open>bool(x)\<close>\<close>

fun truthy :: "pyval \<Rightarrow> bool" where
  "truthy PNone = False"
| "truthy (PBool b) = b"
| "truthy (PInt i) = (i \<noteq> 0)"
| "truthy (PFloat f) = (case f of FNum _ m _ \<Rightarrow> m \<noteq> 0 | _ \<Rightarrow> True)"
| "truthy (PStr s) = (s \<noteq> [])"
| "truthy (PList xs) = (xs \<noteq> [])"
| "truthy (PTuple xs) = (xs \<noteq> [])"
| "truthy (PSet xs) = (xs \<noteq> [])"
| "truthy (PDict d) = (d \<noteq> [])"

text \<open>
  Numbers compare by value across \<^verbatim>\<open>bool\<close>, \<^verbatim>\<open>int\<close> and \<^verbatim>\<open>float\<close>: \<open>num_val\<close> gives the value
  of a finite number as mantissa and binary exponent.
\<close>

fun num_val :: "pyval \<Rightarrow> (int \<times> int) option" where
  "num_val (PBool b) = Some (if b then 1 else 0, 0)"
| "num_val (PInt i) = Some (i, 0)"
| "num_val (PFloat (FNum neg m e)) = Some (if neg then - int m else int m, e)"
| "num_val _ = None"

definition num_scale :: "int \<times> int \<Rightarrow> int \<times> int \<Rightarrow> int \<times> int" where
  "num_scale a b =
     (let k = min (snd a) (snd b)
      in (fst a * 2 ^ nat (snd a - k), fst b * 2 ^ nat (snd b - k)))"

definition num_eq :: "int \<times> int \<Rightarrow> int \<times> int \<Rightarrow> bool" where
  "num_eq a b = (let (x, y) = num_scale a b in x = y)"

definition num_less :: "int \<times> int \<Rightarrow> int \<times> int \<Rightarrow> bool" where
  "num_less a b = (let (x, y) = num_scale a b in x < y)"

definition scalar_eq :: "pyval \<Rightarrow> pyval \<Rightarrow> bool" where
  "scalar_eq a b =
     (case (num_val a, num_val b) of
        (Some x, Some y) \<Rightarrow> num_eq x y
      | _ \<Rightarrow> (case (a, b) of
            (PNone, PNone) \<Rightarrow> True
          | (PStr s, PStr t) \<Rightarrow> s = t
          | (PFloat (FInf s), PFloat (FInf t)) \<Rightarrow> s = t
          | _ \<Rightarrow> False))"

text \<open>\<^verbatim>\<open>a == b\<close>\<close>

function py_eq :: "pyval \<Rightarrow> pyval \<Rightarrow> bool" where
  "py_eq a b =
     (case (a, b) of
        (PList xs, PList ys) \<Rightarrow> list_all2 py_eq xs ys
      | (PTuple xs, PTuple ys) \<Rightarrow> list_all2 py_eq xs ys
      | (PSet xs, PSet ys) \<Rightarrow>
          length xs = length ys \<and> list_all (\<lambda>x. list_ex (\<lambda>y. py_eq x y) ys) xs
      | (PDict d, PDict d') \<Rightarrow>
          length d = length d' \<and>
          list_all (\<lambda>(k, v). case map_of d' k of None \<Rightarrow> False | Some w \<Rightarrow> py_eq v w) d
      | _ \<Rightarrow> scalar_eq a b)"
  by pat_completeness auto
termination
proof (relation "measure (\<lambda>(a, b). size a)", goal_cases)
  case (5 a b x y d d' kv k v w)
  then have "size_prod (\<lambda>x. 0) size (k, v) \<le> size_list (size_prod (\<lambda>x. 0) size) d"
    by (intro size_list_estimation' [of "(k, v)"]) auto
  with 5 show ?case by auto
qed (auto simp: less_Suc_eq_le intro: size_list_estimation')

declare py_eq.simps [simp del]

lemma py_eq_PNone [simp]:
  "py_eq PNone b \<longleftrightarrow> b = PNone"
  "py_eq a PNone \<longleftrightarrow> a = PNone"
  by (cases b; simp add: py_eq.simps scalar_eq_def split: option.splits)
    (cases a; auto simp: py_eq.simps scalar_eq_def split: option.splits pyfloat.splits)

lemma py_eq_PStr [simp]:
  "py_eq (PStr s) b \<longleftrightarrow> b = PStr s"
  "py_eq a (PStr s) \<longleftrightarrow> a = PStr s"
  by (cases b; auto simp: py_eq.simps scalar_eq_def split: option.splits)
    (cases a; auto simp: py_eq.simps scalar_eq_def split: option.splits pyfloat.splits)

lemma py_eq_PInt [simp]: "py_eq (PInt i) (PInt j) \<longleftrightarrow> i = j"
  by (simp add: py_eq.simps scalar_eq_def num_eq_def num_scale_def)

lemma py_eq_PList [simp]: "py_eq (PList xs) (PList ys) \<longleftrightarrow> list_all2 py_eq xs ys"
  by (simp add: py_eq.simps)

text \<open>\<^verbatim>\<open>x in xs\<close> for a list or tuple.\<close>

definition py_in :: "pyval \<Rightarrow> pyval list \<Rightarrow> bool" where
  "py_in x xs = list_ex (\<lambda>y. py_eq x y) xs"

section \<open>Dictionaries\<close>

definition dget :: "pydict \<Rightarrow> pystr \<Rightarrow> pyval option" where
  "dget d k = map_of d k"

text \<open>\<^verbatim>\<open>d.get(k)\<close> and \<^verbatim>\<open>d.get(k, default)\<close>\<close>

definition dget_def :: "pyval \<Rightarrow> pydict \<Rightarrow> pystr \<Rightarrow> pyval" where
  "dget_def def d k = (case map_of d k of None \<Rightarrow> def | Some v \<Rightarrow> v)"

abbreviation dget_none :: "pydict \<Rightarrow> pystr \<Rightarrow> pyval" where
  "dget_none \<equiv> dget_def PNone"

text \<open>\<^verbatim>\<open>d[k]\<close>\<close>

definition ditem :: "(pystr \<times> 'v) list \<Rightarrow> pystr \<Rightarrow> 'v res" where
  "ditem d k = (case map_of d k of None \<Rightarrow> Inl (KeyError k) | Some v \<Rightarrow> Inr v)"

text \<open>\<^verbatim>\<open>d[k] = v\<close>: a present key keeps its place.\<close>

fun dput :: "'k \<Rightarrow> 'v \<Rightarrow> ('k \<times> 'v) list \<Rightarrow> ('k \<times> 'v) list" where
  "dput k v [] = [(k, v)]"
| "dput k v ((k', v') # d) = (if k = k' then (k, v) # d else (k', v') # dput k v d)"

text \<open>\<^verbatim>\<open>d.pop(k, None)\<close>\<close>

definition dpop :: "'k \<Rightarrow> ('k \<times> 'v) list \<Rightarrow> ('k \<times> 'v) list" where
  "dpop k d = filter (\<lambda>(k', v). k' \<noteq> k) d"

definition dkeys :: "('k \<times> 'v) list \<Rightarrow> 'k set" where
  "dkeys d = set (map fst d)"

definition dict_of :: "('k \<times> 'v) list \<Rightarrow> ('k \<times> 'v) list" where
  "dict_of kvs = foldl (\<lambda>d (k, v). dput k v d) [] kvs"

lemma dget_none_PStr: "dget_none d k = PStr s \<longleftrightarrow> map_of d k = Some (PStr s)"
  by (auto simp: dget_def_def split: option.splits)

lemma map_of_dput [simp]: "map_of (dput k v d) = (map_of d)(k \<mapsto> v)"
  by (induction k v d rule: dput.induct) auto

lemma dkeys_dput [simp]: "dkeys (dput k v d) = insert k (dkeys d)"
  by (induction k v d rule: dput.induct) (auto simp: dkeys_def)

lemma distinct_dput: "distinct (map fst d) \<Longrightarrow> distinct (map fst (dput k v d))"
proof (induction k v d rule: dput.induct)
  case (2 k v k' v' d)
  moreover have "set (map fst (dput k v d)) = insert k (set (map fst d))"
    using dkeys_dput unfolding dkeys_def by metis
  ultimately show ?case by auto
qed simp

lemma distinct_foldl_dput:
  "distinct (map fst d) \<Longrightarrow> distinct (map fst (foldl (\<lambda>d (k, v). dput k v d) d kvs))"
  by (induction kvs arbitrary: d) (auto intro: distinct_dput)

lemma distinct_dict_of: "distinct (map fst (dict_of kvs))"
  unfolding dict_of_def by (rule distinct_foldl_dput) simp

lemma map_of_dpop [simp]: "map_of (dpop k d) = (map_of d)(k := None)"
  by (induction d) (auto simp: dpop_def)

lemma foldl_dput_fresh:
  "distinct (map fst kvs) \<Longrightarrow> set (map fst kvs) \<inter> set (map fst d) = {} \<Longrightarrow>
   foldl (\<lambda>d (k, v). dput k v d) d kvs = d @ kvs"
proof (induction kvs arbitrary: d)
  case (Cons kv kvs)
  obtain k v where kv: "kv = (k, v)" by force
  have fresh: "dput k v d = d @ [(k, v)]" if "k \<notin> set (map fst d)" for d
    using that by (induction d) auto
  show ?case using Cons.prems Cons.IH [of "d @ [(k, v)]"] by (auto simp: kv fresh)
qed simp

lemma dict_of_distinct: "distinct (map fst kvs) \<Longrightarrow> dict_of kvs = kvs"
  by (simp add: dict_of_def foldl_dput_fresh)

section \<open>\<^verbatim>\<open>str\<close> and \<^verbatim>\<open>repr\<close>\<close>

definition hex_digit :: "nat \<Rightarrow> nat" where
  "hex_digit n = (if n < 10 then 48 + n else 87 + n)"

text \<open>
  \<^verbatim>\<open>repr\<close> of a string. The characters of Latin-1 that are not printable are escaped; every
  character above is taken as printable.
\<close>

definition repr_char :: "nat \<Rightarrow> nat \<Rightarrow> pystr" where
  "repr_char q c =
     (if c = q \<or> c = 92 then [92, c]
      else if c = 10 then [92, 110] else if c = 13 then [92, 114] else if c = 9 then [92, 116]
      else if c < 32 \<or> 127 \<le> c \<and> c \<le> 160 \<or> c = 173
      then [92, 120, hex_digit (c div 16), hex_digit (c mod 16)]
      else [c])"

definition repr_str :: "pystr \<Rightarrow> pystr" where
  "repr_str s =
     (let q = (if 39 \<in> set s \<and> 34 \<notin> set s then 34 else 39)
      in q # concat (map (repr_char q) s) @ [q])"

fun py_repr :: "pyval \<Rightarrow> pystr" where
  "py_repr PNone = U ''None''"
| "py_repr (PBool b) = (if b then U ''True'' else U ''False'')"
| "py_repr (PInt i) = str_of_int i"
| "py_repr (PFloat f) = float_repr f"
| "py_repr (PStr s) = repr_str s"
| "py_repr (PList xs) = U ''['' @ join_str (U '', '') (map py_repr xs) @ U '']''"
| "py_repr (PTuple xs) =
     (case xs of [x] \<Rightarrow> U ''('' @ join_str [] (map py_repr xs) @ U '',)''
      | _ \<Rightarrow> U ''('' @ join_str (U '', '') (map py_repr xs) @ U '')'')"
| "py_repr (PSet xs) =
     (if xs = [] then U ''set()''
      else U ''{'' @ join_str (U '', '') (map py_repr xs) @ U ''}'')"
| "py_repr (PDict d) =
     U ''{'' @ join_str (U '', '') (map (\<lambda>(k, v). repr_str k @ U '': '' @ py_repr v) d) @ U ''}''"

fun py_str :: "pyval \<Rightarrow> pystr" where
  "py_str (PStr s) = s"
| "py_str v = py_repr v"

text \<open>\<^verbatim>\<open>int(x)\<close>: a string is parsed, a float truncated, a container raises \<^verbatim>\<open>TypeError\<close>.\<close>

fun py_int :: "pyval \<Rightarrow> int res" where
  "py_int (PBool b) = Inr (if b then 1 else 0)"
| "py_int (PInt i) = Inr i"
| "py_int (PFloat (FNum neg m e)) =
     (let n = (if 0 \<le> e then m * 2 ^ nat e else m div 2 ^ nat (- e))
      in Inr (if neg then - int n else int n))"
| "py_int (PFloat FNaN) = Inl (ValueError (U ''cannot convert float NaN to integer''))"
| "py_int (PFloat (FInf _)) = Inl OverflowError"
| "py_int (PStr s) = int_of_str s"
| "py_int _ = Inl TypeError"

end
