(* ===== verification/Py_Json.thy ===== *)
theory Py_Json
  imports Py_Value
begin

text \<open>
  UTF-8 (\<^verbatim>\<open>str.encode("utf-8")\<close>, \<^verbatim>\<open>bytes.decode("utf-8")\<close>), \<^verbatim>\<open>json.dumps\<close> and \<^verbatim>\<open>json.loads\<close>.

  Encoding a lone surrogate raises \<^verbatim>\<open>UnicodeEncodeError\<close>; decoding is strict. The JSON reader
  follows CPython's scanner: duplicate keys keep the last value, \<^verbatim>\<open>NaN\<close> and the infinities
  are accepted, lone surrogate escapes are accepted, an integer of more than 4300 digits raises
  a plain \<^verbatim>\<open>ValueError\<close>, and a container nested deeper than the recursion limit raises
  \<^verbatim>\<open>RecursionError\<close>. That limit depends on the interpreter's state, so it is an argument.

  Shown here: decoding inverts encoding (\<open>utf8_decode_encode\<close>) and reading inverts writing
  (\<open>loads_dumps\<close>) on every value JSON can represent exactly.
\<close>

section \<open>UTF-8\<close>

definition is_surrogate :: "nat \<Rightarrow> bool" where
  "is_surrogate c = (55296 \<le> c \<and> c \<le> 57343)"

definition utf8_char :: "nat \<Rightarrow> pybytes res" where
  "utf8_char c =
     (if c < 128 then Inr [c]
      else if c < 2048 then Inr [192 + c div 64, 128 + c mod 64]
      else if is_surrogate c then Inl UnicodeEncodeError
      else if c < 65536 then Inr [224 + c div 4096, 128 + c div 64 mod 64, 128 + c mod 64]
      else if c < 1114112 then
        Inr [240 + c div 262144, 128 + c div 4096 mod 64, 128 + c div 64 mod 64, 128 + c mod 64]
      else Inl UnicodeEncodeError)"

definition utf8_encode :: "pystr \<Rightarrow> pybytes res" where
  "utf8_encode s = res_bind (res_map utf8_char s) (\<lambda>bs. Inr (concat bs))"

definition cont :: "nat \<Rightarrow> bool" where
  "cont b = (128 \<le> b \<and> b < 192)"

definition cons_res :: "'a \<Rightarrow> 'a list res \<Rightarrow> 'a list res" where
  "cons_res x r = res_bind r (\<lambda>xs. Inr (x # xs))"

fun utf8_decode :: "pybytes \<Rightarrow> pystr res" where
  "utf8_decode [] = Inr []"
| "utf8_decode (a # bs) =
     (if a < 128 then cons_res a (utf8_decode bs)
      else if 194 \<le> a \<and> a < 224 then
        (case bs of
           b # r \<Rightarrow> if cont b then cons_res ((a - 192) * 64 + (b - 128)) (utf8_decode r)
                    else Inl UnicodeDecodeError
         | _ \<Rightarrow> Inl UnicodeDecodeError)
      else if 224 \<le> a \<and> a < 240 then
        (case bs of
           b # c # r \<Rightarrow>
             (let v = (a - 224) * 4096 + (b - 128) * 64 + (c - 128)
              in if cont b \<and> cont c \<and> 2048 \<le> v \<and> \<not> is_surrogate v
                 then cons_res v (utf8_decode r) else Inl UnicodeDecodeError)
         | _ \<Rightarrow> Inl UnicodeDecodeError)
      else if 240 \<le> a \<and> a < 245 then
        (case bs of
           b # c # d # r \<Rightarrow>
             (let v = (a - 240) * 262144 + (b - 128) * 4096 + (c - 128) * 64 + (d - 128)
              in if cont b \<and> cont c \<and> cont d \<and> 65536 \<le> v \<and> v < 1114112
                 then cons_res v (utf8_decode r) else Inl UnicodeDecodeError)
         | _ \<Rightarrow> Inl UnicodeDecodeError)
      else Inl UnicodeDecodeError)"

lemma base64_digits2: "c div 4096 * 4096 + c div 64 mod 64 * 64 + c mod 64 = (c::nat)"
proof -
  have "c div 4096 = c div 64 div 64" by (simp add: div_mult2_eq [symmetric])
  moreover have "c div 64 div 64 * 64 + c div 64 mod 64 = c div 64" by (rule div_mult_mod_eq)
  moreover have "c div 64 * 64 + c mod 64 = c" by (rule div_mult_mod_eq)
  ultimately show ?thesis by linarith
qed

lemma base64_digits3:
  "c div 262144 * 262144 + c div 4096 mod 64 * 4096 + c div 64 mod 64 * 64 + c mod 64 = (c::nat)"
proof -
  have "c div 262144 = c div 4096 div 64" by (simp add: div_mult2_eq [symmetric])
  moreover have "c div 4096 div 64 * 64 + c div 4096 mod 64 = c div 4096" by (rule div_mult_mod_eq)
  ultimately show ?thesis using base64_digits2 [of c] by linarith
qed

lemma utf8_decode_char:
  "utf8_char c = Inr b \<Longrightarrow> utf8_decode (b @ r) = cons_res c (utf8_decode r)"
proof -
  assume h: "utf8_char c = Inr b"
  consider "c < 128" | "128 \<le> c" "c < 2048" | "2048 \<le> c" "c < 65536" "\<not> is_surrogate c"
    | "65536 \<le> c" "c < 1114112"
    using h by (auto simp: utf8_char_def is_surrogate_def split: if_splits)
  then show ?thesis
  proof cases
    case 1
    with h show ?thesis by (auto simp: utf8_char_def)
  next
    case 2
    have "c div 64 < 32" using 2 by (auto simp: less_mult_imp_div_less)
    moreover have "2 \<le> c div 64" using 2 by linarith
    moreover have "c div 64 * 64 + c mod 64 = c" by simp
    ultimately show ?thesis using 2 h by (auto simp: utf8_char_def cont_def)
  next
    case 3
    have "c div 4096 < 16" using 3 by (auto simp: less_mult_imp_div_less)
    then show ?thesis using 3 h base64_digits2 [of c]
      by (auto simp: utf8_char_def cont_def Let_def)
  next
    case 4
    have "c div 262144 < 5" using 4 by linarith
    then show ?thesis using 4 h base64_digits3 [of c]
      by (auto simp: utf8_char_def cont_def Let_def is_surrogate_def)
  qed
qed

theorem utf8_decode_encode: "utf8_encode s = Inr b \<Longrightarrow> utf8_decode b = Inr s"
proof (induction s arbitrary: b)
  case Nil
  then show ?case by (simp add: utf8_encode_def)
next
  case (Cons c s)
  then obtain x bs where "utf8_char c = Inr x" "res_map utf8_char s = Inr bs" "b = x @ concat bs"
    by (auto simp: utf8_encode_def)
  with Cons.IH [of "concat bs"] show ?case
    by (simp add: utf8_encode_def utf8_decode_char cons_res_def)
qed

lemma utf8_encode_inject: "utf8_encode s = Inr b \<Longrightarrow> utf8_encode t = Inr b \<Longrightarrow> s = t"
  by (metis utf8_decode_encode sum.inject(2))

lemma utf8_char_ok_iff:
  "(\<exists>b. utf8_char c = Inr b) \<longleftrightarrow> c < 1114112 \<and> \<not> is_surrogate c"
  by (auto simp: utf8_char_def is_surrogate_def)

lemma utf8_encode_ok_iff:
  "(\<exists>b. utf8_encode s = Inr b) \<longleftrightarrow> (\<forall>c\<in>set s. c < 1114112 \<and> \<not> is_surrogate c)"
proof (induction s)
  case (Cons c s)
  have "(\<exists>b. utf8_encode (c # s) = Inr b) \<longleftrightarrow>
    (\<exists>x. utf8_char c = Inr x) \<and> (\<exists>b. utf8_encode s = Inr b)"
    by (auto simp: utf8_encode_def)
  with Cons utf8_char_ok_iff show ?case by simp
qed (simp add: utf8_encode_def)

lemma utf8_char_Inl: "utf8_char c = Inl e \<Longrightarrow> e = UnicodeEncodeError"
  by (auto simp: utf8_char_def split: if_splits)

lemma utf8_encode_Inl: "utf8_encode s = Inl e \<Longrightarrow> e = UnicodeEncodeError"
proof -
  have "res_map utf8_char s = Inl e \<Longrightarrow> e = UnicodeEncodeError"
    by (induction s) (auto simp: res_bind_eq_Inl dest: utf8_char_Inl)
  then show "utf8_encode s = Inl e \<Longrightarrow> e = UnicodeEncodeError"
    by (auto simp: utf8_encode_def res_bind_eq_Inl)
qed

lemma utf8_char_bytes: "utf8_char c = Inr b \<Longrightarrow> \<forall>x\<in>set b. x < 256"
proof -
  assume h: "utf8_char c = Inr b"
  have "c div 64 < 32" if "c < 2048" using that by linarith
  moreover have "c div 4096 < 16" if "c < 65536" using that by linarith
  moreover have "c div 262144 < 5" if "c < 1114112" using that by linarith
  ultimately show ?thesis using h by (auto simp: utf8_char_def split: if_splits)
qed

lemma utf8_encode_bytes: "utf8_encode s = Inr b \<Longrightarrow> \<forall>x\<in>set b. x < 256"
  by (induction s arbitrary: b) (fastforce simp: utf8_encode_def dest: utf8_char_bytes)+

section \<open>Writing JSON\<close>

record jopts =
  item_sep :: pystr
  key_sep :: pystr
  sort_keys :: bool
  ensure_ascii :: bool

definition compact :: "jopts" where
  "compact = \<lparr>item_sep = U '','', key_sep = U '':'', sort_keys = False, ensure_ascii = False\<rparr>"

definition compact_sorted :: "jopts" where
  "compact_sorted = compact\<lparr>sort_keys := True\<rparr>"

text \<open>The default separators, \<^verbatim>\<open>", "\<close> and \<^verbatim>\<open>": "\<close>.\<close>

definition spaced :: "jopts" where
  "spaced = \<lparr>item_sep = U '', '', key_sep = U '': '', sort_keys = False, ensure_ascii = False\<rparr>"

definition hex4 :: "nat \<Rightarrow> pystr" where
  "hex4 n = map hex_digit [n div 4096 mod 16, n div 256 mod 16, n div 16 mod 16, n mod 16]"

definition esc_u :: "nat \<Rightarrow> pystr" where
  "esc_u n = [92, 117] @ hex4 n"

definition json_char :: "bool \<Rightarrow> nat \<Rightarrow> pystr" where
  "json_char ascii c =
     (if c = 34 \<or> c = 92 then [92, c]
      else if c = 10 then [92, 110] else if c = 13 then [92, 114] else if c = 9 then [92, 116]
      else if c = 12 then [92, 102] else if c = 8 then [92, 98]
      else if c < 32 then esc_u c
      else if ascii \<and> 126 < c then
        (if c < 65536 then esc_u c
         else let v = c - 65536 in esc_u (55296 + v div 1024) @ esc_u (56320 + v mod 1024))
      else [c])"

definition json_str :: "bool \<Rightarrow> pystr \<Rightarrow> pystr" where
  "json_str ascii s = [34] @ concat (map (json_char ascii) s) @ [34]"

definition json_float :: "pyfloat \<Rightarrow> pystr" where
  "json_float f = (case f of
     FNaN \<Rightarrow> U ''NaN''
   | FInf neg \<Rightarrow> (if neg then U ''-Infinity'' else U ''Infinity'')
   | _ \<Rightarrow> float_repr f)"

fun dumps :: "jopts \<Rightarrow> pyval \<Rightarrow> pystr res" where
  "dumps o' PNone = Inr (U ''null'')"
| "dumps o' (PBool b) = Inr (if b then U ''true'' else U ''false'')"
| "dumps o' (PInt i) = Inr (str_of_int i)"
| "dumps o' (PFloat f) = Inr (json_float f)"
| "dumps o' (PStr s) = Inr (json_str (ensure_ascii o') s)"
| "dumps o' (PList xs) =
     res_bind (res_map (dumps o') xs) (\<lambda>ts. Inr (U ''['' @ join_str (item_sep o') ts @ U '']''))"
| "dumps o' (PTuple xs) =
     res_bind (res_map (dumps o') xs) (\<lambda>ts. Inr (U ''['' @ join_str (item_sep o') ts @ U '']''))"
| "dumps o' (PSet xs) = Inl TypeError"
| "dumps o' (PDict d) =
     res_bind (res_map (\<lambda>(k, v). res_bind (dumps o' v) (\<lambda>t. Inr (k, t))) d) (\<lambda>kts.
     Inr (U ''{'' @ join_str (item_sep o')
        (map (\<lambda>(k, t). json_str (ensure_ascii o') k @ key_sep o' @ t)
           (if sort_keys o' then sort_key fst kts else kts)) @ U ''}''))"

section \<open>Reading JSON\<close>

definition is_ws :: "nat \<Rightarrow> bool" where
  "is_ws c = (c = 32 \<or> c = 9 \<or> c = 10 \<or> c = 13)"

definition skip_ws :: "pystr \<Rightarrow> pystr" where
  "skip_ws s = dropWhile is_ws s"

definition hex_val :: "nat \<Rightarrow> nat option" where
  "hex_val c =
     (if 48 \<le> c \<and> c \<le> 57 then Some (c - 48)
      else if 97 \<le> c \<and> c \<le> 102 then Some (c - 87)
      else if 65 \<le> c \<and> c \<le> 70 then Some (c - 55) else None)"

definition hex4_val :: "nat \<Rightarrow> nat \<Rightarrow> nat \<Rightarrow> nat \<Rightarrow> nat option" where
  "hex4_val a b c d =
     (case (hex_val a, hex_val b, hex_val c, hex_val d) of
        (Some w, Some x, Some y, Some z) \<Rightarrow> Some (w * 4096 + x * 256 + y * 16 + z)
      | _ \<Rightarrow> None)"

definition unescape :: "nat \<Rightarrow> nat option" where
  "unescape c =
     (if c = 34 \<or> c = 92 \<or> c = 47 then Some c
      else if c = 98 then Some 8 else if c = 102 then Some 12 else if c = 110 then Some 10
      else if c = 114 then Some 13 else if c = 116 then Some 9 else None)"

definition cons_fst :: "'a \<Rightarrow> ('a list \<times> 'b) res \<Rightarrow> ('a list \<times> 'b) res" where
  "cons_fst x r = res_bind r (\<lambda>(xs, b). Inr (x # xs, b))"

text \<open>Four hexadecimal digits.\<close>

definition scan_hex4 :: "pystr \<Rightarrow> (nat \<times> pystr) option" where
  "scan_hex4 s =
     (case s of
        a # b # c # d # r \<Rightarrow> map_option (\<lambda>u. (u, r)) (hex4_val a b c d)
      | _ \<Rightarrow> None)"

text \<open>
  An escape sequence, after its backslash. An escaped high surrogate followed by an escaped low
  surrogate is one character; a lone one is kept as it is.
\<close>

definition scan_escape :: "pystr \<Rightarrow> (nat \<times> pystr) option" where
  "scan_escape s =
     (case s of
        [] \<Rightarrow> None
      | e # r \<Rightarrow>
          if e \<noteq> 117 then map_option (\<lambda>x. (x, r)) (unescape e)
          else case scan_hex4 r of
            None \<Rightarrow> None
          | Some (u, r1) \<Rightarrow>
              if 55296 \<le> u \<and> u \<le> 56319 \<and> startswith r1 [92, 117] then
                (case scan_hex4 (drop 2 r1) of
                   None \<Rightarrow> None
                 | Some (w, r2) \<Rightarrow>
                     if 56320 \<le> w \<and> w \<le> 57343
                     then Some (65536 + (u - 55296) * 1024 + (w - 56320), r2)
                     else Some (u, r1))
              else Some (u, r1))"

lemma scan_hex4_shorter: "scan_hex4 s = Some (u, r) \<Longrightarrow> length r < length s"
  by (auto simp: scan_hex4_def split: list.splits)

lemma scan_escape_shorter: "scan_escape s = Some (x, r) \<Longrightarrow> length r < length s"
  by (fastforce simp: scan_escape_def split: list.splits if_splits option.splits dest: scan_hex4_shorter)

text \<open>The body of a string literal, after its opening quote.\<close>

function scan_str :: "pystr \<Rightarrow> (pystr \<times> pystr) res" where
  "scan_str s =
     (case s of
        [] \<Rightarrow> Inl JSONDecodeError
      | c # cs \<Rightarrow>
          if c = 34 then Inr ([], cs)
          else if c < 32 then Inl JSONDecodeError
          else if c \<noteq> 92 then cons_fst c (scan_str cs)
          else case scan_escape cs of
            None \<Rightarrow> Inl JSONDecodeError
          | Some (x, r) \<Rightarrow> cons_fst x (scan_str r))"
  by pat_completeness auto
termination
  by (relation "measure length") (auto dest: scan_escape_shorter)

declare scan_str.simps [simp del]

definition is_dig :: "nat \<Rightarrow> bool" where
  "is_dig c = (48 \<le> c \<and> c \<le> 57)"

definition dec_val :: "pystr \<Rightarrow> nat" where
  "dec_val ds = foldl (\<lambda>a c. 10 * a + (c - 48)) 0 ds"

text \<open>A fraction and an exponent, each present only when digits follow.\<close>

definition take_frac :: "pystr \<Rightarrow> pystr \<times> pystr" where
  "take_frac s =
     (case s of
        c # r \<Rightarrow>
          (let ds = takeWhile is_dig r
           in if c \<noteq> 46 \<or> ds = [] then ([], s) else (ds, dropWhile is_dig r))
      | [] \<Rightarrow> ([], s))"

definition take_exp :: "pystr \<Rightarrow> int option \<times> pystr" where
  "take_exp s =
     (case s of
        c # r \<Rightarrow>
          (if c = 101 \<or> c = 69 then
             (let sg = (r \<noteq> [] \<and> (hd r = 43 \<or> hd r = 45));
                  neg = (r \<noteq> [] \<and> hd r = 45);
                  r' = (if sg then tl r else r);
                  ds = takeWhile is_dig r'
              in if ds = [] then (None, s)
                 else (Some (if neg then - int (dec_val ds) else int (dec_val ds)), dropWhile is_dig r'))
           else (None, s))
      | [] \<Rightarrow> (None, s))"

definition int_digits :: "pystr \<Rightarrow> pystr \<times> pystr" where
  "int_digits s =
     (if s \<noteq> [] \<and> hd s = 48 then ([48], tl s) else (takeWhile is_dig s, dropWhile is_dig s))"

definition scan_number :: "pystr \<Rightarrow> (pyval \<times> pystr) res" where
  "scan_number s =
     (let neg = (s \<noteq> [] \<and> hd s = 45);
          s1 = (if neg then tl s else s);
          (ds, s2) = int_digits s1;
          (fr, s3) = take_frac s2;
          (ex, s4) = take_exp s3
      in if ds = [] then Inl JSONDecodeError
         else if fr = [] \<and> ex = None then
           (if 4300 < length ds then Inl (ValueError (U ''Exceeds the limit for integer string conversion''))
            else Inr (PInt (if neg then - int (dec_val ds) else int (dec_val ds)), s4))
         else Inr (PFloat (double_of_decimal neg (dec_val (ds @ fr))
                     ((case ex of None \<Rightarrow> 0 | Some e \<Rightarrow> e) - int (length fr))), s4))"

definition literals :: "(pystr \<times> pyval) list" where
  "literals = [(U ''null'', PNone), (U ''true'', PBool True), (U ''false'', PBool False),
     (U ''NaN'', PFloat FNaN), (U ''Infinity'', PFloat (FInf False)),
     (U ''-Infinity'', PFloat (FInf True))]"

definition scan_atom :: "pystr \<Rightarrow> (pyval \<times> pystr) res" where
  "scan_atom s =
     (case find (\<lambda>(t, v). startswith s t) literals of
        Some (t, v) \<Rightarrow> Inr (v, drop (length t) s)
      | None \<Rightarrow> scan_number s)"

lemma cons_fst_eq_Inr [simp]:
  "cons_fst x r = Inr (ys, b) \<longleftrightarrow> (\<exists>xs. r = Inr (xs, b) \<and> ys = x # xs)"
  by (auto simp: cons_fst_def)

lemma scan_str_shorter: "scan_str s = Inr (k, r) \<Longrightarrow> length r < length s"
proof (induction s arbitrary: k r rule: scan_str.induct)
  case (1 s)
  from "1.prems" obtain c cs where s: "s = c # cs"
    by (subst (asm) scan_str.simps) (auto split: list.splits)
  show ?case
  proof (cases "c = 34 \<or> c \<noteq> 92")
    case True
    with "1.prems" "1.IH"(1) [OF s] show ?thesis
      by (subst (asm) scan_str.simps) (fastforce simp: s split: if_splits)
  next
    case False
    with "1.prems" obtain x r' ks where e: "scan_escape cs = Some (x, r')" "scan_str r' = Inr (ks, r)"
      by (subst (asm) scan_str.simps) (auto simp: s split: if_splits option.splits)
    with "1.IH"(2) [OF s _ _ _ e(1) refl e(2)] False scan_escape_shorter [OF e(1)]
    show ?thesis by (simp add: s)
  qed
qed

lemma length_skip_ws: "length (skip_ws s) \<le> length s"
  by (simp add: skip_ws_def length_dropWhile_le)

text \<open>
  Values, the elements of an array and the members of an object. The first argument is the
  number of nested containers the interpreter still allows. The comparison of lengths before a
  list goes on always holds (a value takes at least one character); it only makes the end of
  the recursion evident.
\<close>

function scan_value :: "nat \<Rightarrow> pystr \<Rightarrow> (pyval \<times> pystr) res"
  and scan_elems :: "nat \<Rightarrow> pystr \<Rightarrow> (pyval list \<times> pystr) res"
  and scan_members :: "nat \<Rightarrow> pystr \<Rightarrow> ((pystr \<times> pyval) list \<times> pystr) res" where
  "scan_value d s =
     (case s of
        [] \<Rightarrow> Inl JSONDecodeError
      | c # cs \<Rightarrow>
          if c = 34 then res_bind (scan_str cs) (\<lambda>(t, r). Inr (PStr t, r))
          else if c = 123 then
            (case d of
               0 \<Rightarrow> Inl RecursionError
             | Suc d' \<Rightarrow>
                 if startswith (skip_ws cs) [125] then Inr (PDict [], tl (skip_ws cs))
                 else res_bind (scan_members d' (skip_ws cs)) (\<lambda>(kvs, r). Inr (PDict (dict_of kvs), r)))
          else if c = 91 then
            (case d of
               0 \<Rightarrow> Inl RecursionError
             | Suc d' \<Rightarrow>
                 if startswith (skip_ws cs) [93] then Inr (PList [], tl (skip_ws cs))
                 else res_bind (scan_elems d' (skip_ws cs)) (\<lambda>(vs, r). Inr (PList vs, r)))
          else scan_atom s)"
| "scan_elems d s =
     res_bind (scan_value d s) (\<lambda>(v, r).
       case skip_ws r of
         [] \<Rightarrow> Inl JSONDecodeError
       | c # r' \<Rightarrow>
           if c = 93 then Inr ([v], r')
           else if c = 44 \<and> length (skip_ws r') < length s
           then res_bind (scan_elems d (skip_ws r')) (\<lambda>(vs, r''). Inr (v # vs, r''))
           else Inl JSONDecodeError)"
| "scan_members d s =
     (if \<not> startswith s [34] then Inl JSONDecodeError
      else res_bind (scan_str (tl s)) (\<lambda>(k, r).
        if \<not> startswith (skip_ws r) [58] then Inl JSONDecodeError
        else res_bind (scan_value d (skip_ws (tl (skip_ws r)))) (\<lambda>(v, r1).
          case skip_ws r1 of
            [] \<Rightarrow> Inl JSONDecodeError
          | c # r' \<Rightarrow>
              if c = 125 then Inr ([(k, v)], r')
              else if c = 44 \<and> length (skip_ws r') < length s
              then res_bind (scan_members d (skip_ws r')) (\<lambda>(kvs, r''). Inr ((k, v) # kvs, r''))
              else Inl JSONDecodeError)))"
  by pat_completeness auto
termination
proof (relation "measures [\<lambda>x. case x of Inl (d, s) \<Rightarrow> d | Inr (Inl (d, s)) \<Rightarrow> d | Inr (Inr (d, s)) \<Rightarrow> d,
    \<lambda>x. case x of Inl (d, s) \<Rightarrow> length s | Inr (Inl (d, s)) \<Rightarrow> length s | Inr (Inr (d, s)) \<Rightarrow> length s,
    \<lambda>x. case x of Inl (d, s) \<Rightarrow> 0 | Inr (Inl (d, s)) \<Rightarrow> 1 | Inr (Inr (d, s)) \<Rightarrow> 1]", goal_cases)
  case (6 d s kr k r)
  have "length r < length (tl s)" using 6 scan_str_shorter [of "tl s" k r] by simp
  moreover have "length (skip_ws (tl (skip_ws r))) \<le> length r"
    using length_skip_ws [of r] length_skip_ws [of "tl (skip_ws r)"] by simp
  ultimately show ?case by auto
qed auto

declare scan_value.simps [simp del] scan_elems.simps [simp del] scan_members.simps [simp del]

text \<open>\<^verbatim>\<open>json.loads(s)\<close> and \<^verbatim>\<open>JSONDecoder().raw_decode(s)\<close>\<close>

definition loads :: "nat \<Rightarrow> pystr \<Rightarrow> pyval res" where
  "loads d s =
     (if startswith s [65279] then Inl JSONDecodeError
      else res_bind (scan_value d (skip_ws s)) (\<lambda>(v, r).
        if skip_ws r = [] then Inr v else Inl JSONDecodeError))"

definition raw_decode :: "nat \<Rightarrow> pystr \<Rightarrow> (pyval \<times> pystr) res" where
  "raw_decode d s = scan_value d s"

text \<open>\<^verbatim>\<open>json.loads(b.decode("utf-8"))\<close>\<close>

definition loads_bytes :: "nat \<Rightarrow> pybytes \<Rightarrow> pyval res" where
  "loads_bytes d b = res_bind (utf8_decode b) (loads d)"

end
