(* ===== verification/Py_Regex.thy ===== *)
theory Py_Regex
  imports Py_Prelude
begin

text \<open>
  The regular expressions of Python's \<^verbatim>\<open>re\<close> module, as a backtracking matcher in the style of
  the list of successes: \<open>rmatch r st\<close> lists every way \<open>r\<close> can match from the state \<open>st\<close>, in
  the order in which \<^verbatim>\<open>re\<close> tries them (left alternatives first, greedy repetition first).
  A state holds the characters already passed (reversed), the characters still to match, and
  the captured groups. \<open>fullmatch\<close>, \<open>rematch\<close>, \<open>research\<close>, \<open>refinditer\<close> and \<open>resub\<close> are the
  functions of the module.

  \<open>lang\<close> gives the language of an expression without groups, anchors and look-ahead;
  \<open>rmatch_lang\<close> shows that the matcher finds exactly its words, so that a full match is
  membership (\<open>fullmatch_lang\<close>).
\<close>

section \<open>The matcher\<close>

datatype regex =
    REps
  | RCls "nat \<Rightarrow> bool"
  | RSeq regex regex
  | RAlt regex regex
  | RStar regex
  | RLazy regex
  | RGroup nat regex
  | RBegin
  | RLineBegin
  | REnd
  | RLineEnd
  | RAbsEnd
  | RWordB "nat \<Rightarrow> bool"
  | RLook regex

record rstate =
  passed :: pystr
  rest :: pystr
  caps :: "(nat \<times> pystr) list"

primrec star_m :: "(rstate \<Rightarrow> rstate list) \<Rightarrow> nat \<Rightarrow> rstate \<Rightarrow> rstate list" where
  "star_m f 0 st = [st]"
| "star_m f (Suc n) st =
     concat (map (star_m f n) (filter (\<lambda>st'. length (rest st') < length (rest st)) (f st))) @ [st]"

primrec lazy_m :: "(rstate \<Rightarrow> rstate list) \<Rightarrow> nat \<Rightarrow> rstate \<Rightarrow> rstate list" where
  "lazy_m f 0 st = [st]"
| "lazy_m f (Suc n) st =
     st # concat (map (lazy_m f n) (filter (\<lambda>st'. length (rest st') < length (rest st)) (f st)))"

fun put_cap :: "nat \<Rightarrow> pystr \<Rightarrow> (nat \<times> pystr) list \<Rightarrow> (nat \<times> pystr) list" where
  "put_cap n s [] = [(n, s)]"
| "put_cap n s ((k, t) # cs) = (if n = k then (n, s) # cs else (k, t) # put_cap n s cs)"

primrec rmatch :: "regex \<Rightarrow> rstate \<Rightarrow> rstate list" where
  "rmatch REps st = [st]"
| "rmatch (RCls p) st =
     (case rest st of
        [] \<Rightarrow> []
      | c # cs \<Rightarrow> if p c then [st\<lparr>passed := c # passed st, rest := cs\<rparr>] else [])"
| "rmatch (RSeq r s) st = concat (map (rmatch s) (rmatch r st))"
| "rmatch (RAlt r s) st = rmatch r st @ rmatch s st"
| "rmatch (RStar r) st = star_m (rmatch r) (length (rest st)) st"
| "rmatch (RLazy r) st = lazy_m (rmatch r) (length (rest st)) st"
| "rmatch (RGroup n r) st =
     map (\<lambda>st'. st'\<lparr>caps :=
            put_cap n (take (length (rest st) - length (rest st')) (rest st)) (caps st')\<rparr>)
         (rmatch r st)"
| "rmatch RBegin st = (if passed st = [] then [st] else [])"
| "rmatch RLineBegin st = (if passed st = [] \<or> hd (passed st) = 10 then [st] else [])"
| "rmatch REnd st = (if rest st = [] \<or> rest st = [10] then [st] else [])"
| "rmatch RLineEnd st = (if rest st = [] \<or> hd (rest st) = 10 then [st] else [])"
| "rmatch RAbsEnd st = (if rest st = [] then [st] else [])"
| "rmatch (RWordB w) st =
     (let a = (passed st \<noteq> [] \<and> w (hd (passed st))); b = (rest st \<noteq> [] \<and> w (hd (rest st)))
      in if a \<noteq> b then [st] else [])"
| "rmatch (RLook r) st = (if rmatch r st = [] then [] else [st])"

definition rstart :: "pystr \<Rightarrow> rstate" where
  "rstart s = \<lparr>passed = [], rest = s, caps = []\<rparr>"

text \<open>\<^verbatim>\<open>re.fullmatch(r, s)\<close>, \<^verbatim>\<open>re.match(r, s)\<close>, \<^verbatim>\<open>re.search(r, s)\<close>: the captured groups.\<close>

definition fullmatch :: "regex \<Rightarrow> pystr \<Rightarrow> (nat \<times> pystr) list option" where
  "fullmatch r s = map_option caps (find (\<lambda>st. rest st = []) (rmatch r (rstart s)))"

definition rematch :: "regex \<Rightarrow> pystr \<Rightarrow> rstate option" where
  "rematch r s = (case rmatch r (rstart s) of [] \<Rightarrow> None | st # _ \<Rightarrow> Some st)"

text \<open>The first match at or after a position: its start state and its end state.\<close>

fun search_from :: "regex \<Rightarrow> pystr \<Rightarrow> pystr \<Rightarrow> (rstate \<times> rstate) option" where
  "search_from r pre s =
     (let st = \<lparr>passed = pre, rest = s, caps = []\<rparr>
      in case rmatch r st of
           st' # _ \<Rightarrow> Some (st, st')
         | [] \<Rightarrow> (case s of [] \<Rightarrow> None | c # cs \<Rightarrow> search_from r (c # pre) cs))"

declare search_from.simps [simp del]

definition research :: "regex \<Rightarrow> pystr \<Rightarrow> (nat \<times> pystr) list option" where
  "research r s = map_option (\<lambda>(_, st). caps st) (search_from r [] s)"

definition search_ok :: "regex \<Rightarrow> pystr \<Rightarrow> bool" where
  "search_ok r s = (research r s \<noteq> None)"

definition fullmatch_ok :: "regex \<Rightarrow> pystr \<Rightarrow> bool" where
  "fullmatch_ok r s = (fullmatch r s \<noteq> None)"

definition match_ok :: "regex \<Rightarrow> pystr \<Rightarrow> bool" where
  "match_ok r s = (rematch r s \<noteq> None)"

definition group :: "nat \<Rightarrow> (nat \<times> pystr) list \<Rightarrow> pystr option" where
  "group n cs = map_of cs n"

lemma rmatch_rest_le:
  "st' \<in> set (rmatch r st) \<Longrightarrow>
   \<exists>w. rest st = w @ rest st' \<and> passed st' = rev w @ passed st"
proof (induction r arbitrary: st st')
  case (RSeq r s)
  then obtain st1 where s1: "st1 \<in> set (rmatch r st)" and s2: "st' \<in> set (rmatch s st1)" by auto
  from RSeq.IH(1) [OF s1] RSeq.IH(2) [OF s2] show ?case by (metis append.assoc rev_append)
next
  case (RStar r)
  have "st' \<in> set (star_m (rmatch r) n st) \<Longrightarrow>
     \<exists>w. rest st = w @ rest st' \<and> passed st' = rev w @ passed st" for n
  proof (induction n arbitrary: st)
    case (Suc n)
    show ?case
    proof (cases "st' = st")
      case False
      with Suc.prems obtain st1 where s1: "st1 \<in> set (rmatch r st)"
        and s2: "st' \<in> set (star_m (rmatch r) n st1)" by auto
      from RStar.IH [OF s1] Suc.IH [OF s2] show ?thesis by (metis append.assoc rev_append)
    qed simp
  qed simp
  with RStar.prems show ?case by simp
next
  case (RLazy r)
  have "st' \<in> set (lazy_m (rmatch r) n st) \<Longrightarrow>
     \<exists>w. rest st = w @ rest st' \<and> passed st' = rev w @ passed st" for n
  proof (induction n arbitrary: st)
    case (Suc n)
    show ?case
    proof (cases "st' = st")
      case False
      with Suc.prems obtain st1 where s1: "st1 \<in> set (rmatch r st)"
        and s2: "st' \<in> set (lazy_m (rmatch r) n st1)" by auto
      from RLazy.IH [OF s1] Suc.IH [OF s2] show ?thesis by (metis append.assoc rev_append)
    qed simp
  qed simp
  with RLazy.prems show ?case by simp
next
  case (RGroup n r)
  then obtain st1 where "st1 \<in> set (rmatch r st)" "rest st' = rest st1" "passed st' = passed st1"
    by auto
  with RGroup.IH show ?case by simp
qed (auto split: list.splits if_splits simp: Let_def)

text \<open>
  \<^verbatim>\<open>re.finditer\<close>: all matches from left to right; the search goes on behind a match, one
  character further when the match is empty.
\<close>

lemma search_from_rest_le:
  "search_from r pre s = Some (st, st') \<Longrightarrow>
   length (rest st') \<le> length s \<and> length (rest st) \<le> length s \<and> length (rest st') \<le> length (rest st)"
proof (induction r pre s rule: search_from.induct)
  case (1 r pre s)
  let ?st = "\<lparr>passed = pre, rest = s, caps = []\<rparr>"
  show ?case
  proof (cases "rmatch r ?st")
    case Nil
    with "1.prems" obtain c cs where s: "s = c # cs" and r: "search_from r (c # pre) cs = Some (st, st')"
      by (subst (asm) search_from.simps) (auto split: list.splits)
    from "1.IH" [OF refl Nil s r] s show ?thesis by auto
  next
    case (Cons a l)
    with "1.prems" have eq: "st = ?st" "st' = a"
      by (subst (asm) search_from.simps, simp)+
    have "a \<in> set (rmatch r ?st)" using Cons by simp
    from rmatch_rest_le [OF this] eq show ?thesis by auto
  qed
qed

function refinditer_from :: "regex \<Rightarrow> pystr \<Rightarrow> pystr \<Rightarrow> (rstate \<times> rstate) list" where
  "refinditer_from r pre s =
     (case search_from r pre s of
        None \<Rightarrow> []
      | Some (st, st') \<Rightarrow>
          (st, st') #
          (if length (rest st') < length (rest st) then refinditer_from r (passed st') (rest st')
           else case rest st' of
                  [] \<Rightarrow> []
                | c # cs \<Rightarrow> refinditer_from r (c # passed st') cs))"
  by pat_completeness auto
termination
proof (relation "measure (\<lambda>(r, pre, s). length s)", goal_cases)
  case (2 r pre s m st st')
  then show ?case using search_from_rest_le [of r pre s st st'] by auto
next
  case (3 r pre s m st st' c cs)
  then show ?case using search_from_rest_le [of r pre s st st'] by auto
qed simp

declare refinditer_from.simps [simp del]

definition refinditer :: "regex \<Rightarrow> pystr \<Rightarrow> (rstate \<times> rstate) list" where
  "refinditer r s = refinditer_from r [] s"

text \<open>The text of a match.\<close>

definition match_text :: "rstate \<times> rstate \<Rightarrow> pystr" where
  "match_text m = take (length (rest (fst m)) - length (rest (snd m))) (rest (fst m))"

text \<open>\<^verbatim>\<open>re.sub(r, "", s)\<close>: what lies between the matches.\<close>

fun between :: "pystr \<Rightarrow> nat \<Rightarrow> (rstate \<times> rstate) list \<Rightarrow> pystr" where
  "between s pos [] = drop pos s"
| "between s pos ((a, b) # ms) =
     take (length (passed a) - pos) (drop pos s) @ between s (length (passed b)) ms"

definition resub_delete :: "regex \<Rightarrow> pystr \<Rightarrow> pystr" where
  "resub_delete r s = between s 0 (refinditer r s)"

section \<open>Derived forms\<close>

definition rch :: "nat \<Rightarrow> regex" where
  "rch c = RCls (\<lambda>x. x = c)"

definition rstr :: "string \<Rightarrow> regex" where
  "rstr s = foldr (\<lambda>c r. RSeq (rch c) r) (U s) REps"

text \<open>
  A literal under \<^verbatim>\<open>re.IGNORECASE\<close>: an ASCII letter also matches its other case, and the
  characters outside ASCII that CPython treats as equal to it.
\<close>

definition ci_eq :: "nat \<Rightarrow> nat \<Rightarrow> bool" where
  "ci_eq c x =
     (let l = (if 65 \<le> c \<and> c \<le> 90 then c + 32 else c)
      in x = l \<or> 97 \<le> l \<and> l \<le> 122 \<and>
           (x + 32 = l \<or> l = 105 \<and> (x = 304 \<or> x = 305) \<or> l = 107 \<and> x = 8490 \<or> l = 115 \<and> x = 383))"

definition rstr_ci :: "string \<Rightarrow> regex" where
  "rstr_ci s = foldr (\<lambda>c r. RSeq (RCls (ci_eq c)) r) (U s) REps"

definition ralts :: "regex list \<Rightarrow> regex" where
  "ralts rs = (case rs of [] \<Rightarrow> RCls (\<lambda>_. False) | r # rs' \<Rightarrow> foldl RAlt r rs')"

definition rseqs :: "regex list \<Rightarrow> regex" where
  "rseqs rs = foldr RSeq rs REps"

definition ropt :: "regex \<Rightarrow> regex" where
  "ropt r = RAlt r REps"

definition rplus :: "regex \<Rightarrow> regex" where
  "rplus r = RSeq r (RStar r)"

primrec rtimes :: "nat \<Rightarrow> regex \<Rightarrow> regex" where
  "rtimes 0 r = REps"
| "rtimes (Suc n) r = RSeq r (rtimes n r)"

primrec rupto :: "nat \<Rightarrow> regex \<Rightarrow> regex" where
  "rupto 0 r = REps"
| "rupto (Suc n) r = ropt (RSeq r (rupto n r))"

definition in_range :: "nat \<Rightarrow> nat \<Rightarrow> nat \<Rightarrow> bool" where
  "in_range a b c = (a \<le> c \<and> c \<le> b)"

definition rdigit :: regex where
  "rdigit = RCls is_digit"

definition rspace :: regex where
  "rspace = RCls is_space"

text \<open>A dot: any character but the newline.\<close>

definition rdot :: regex where
  "rdot = RCls (\<lambda>c. c \<noteq> 10)"

section \<open>Languages\<close>

fun pure :: "regex \<Rightarrow> bool" where
  "pure REps = True"
| "pure (RCls p) = True"
| "pure (RSeq r s) = (pure r \<and> pure s)"
| "pure (RAlt r s) = (pure r \<and> pure s)"
| "pure (RStar r) = pure r"
| "pure (RLazy r) = pure r"
| "pure (RGroup n r) = pure r"
| "pure _ = False"

inductive_set star :: "'a list set \<Rightarrow> 'a list set" for L where
  star_Nil: "[] \<in> star L"
| star_step: "u \<in> L \<Longrightarrow> u \<noteq> [] \<Longrightarrow> v \<in> star L \<Longrightarrow> u @ v \<in> star L"

fun lang :: "regex \<Rightarrow> pystr set" where
  "lang REps = {[]}"
| "lang (RCls p) = {[c] | c. p c}"
| "lang (RSeq r s) = {u @ v | u v. u \<in> lang r \<and> v \<in> lang s}"
| "lang (RAlt r s) = lang r \<union> lang s"
| "lang (RStar r) = star (lang r)"
| "lang (RLazy r) = star (lang r)"
| "lang (RGroup n r) = lang r"
| "lang _ = {}"

lemma star_m_lang:
  assumes IH: "\<And>st t. (\<exists>st'\<in>set (f st). rest st' = t) \<longleftrightarrow> (\<exists>w\<in>L. rest st = w @ t)"
  shows "length (rest st) \<le> n \<Longrightarrow>
    (\<exists>st'\<in>set (star_m f n st). rest st' = t) \<longleftrightarrow> (\<exists>w\<in>star L. rest st = w @ t)"
proof (induction n arbitrary: st)
  case 0
  then show ?case by (auto intro: star.star_Nil)
next
  case (Suc n)
  show ?case (is "?l \<longleftrightarrow> ?r")
  proof
    assume ?l
    then obtain st' where st': "st' \<in> set (star_m f (Suc n) st)" and t: "rest st' = t" by blast
    show ?r
    proof (cases "st' = st")
      case True
      with t show ?thesis by (auto intro: star.star_Nil)
    next
      case False
      with st' obtain s1 where s1: "s1 \<in> set (f st)" "length (rest s1) < length (rest st)"
        and s2: "st' \<in> set (star_m f n s1)" by auto
      from s1 IH obtain u where u: "u \<in> L" "rest st = u @ rest s1" by blast
      with s1 have "u \<noteq> []" by auto
      from Suc.IH [of s1] s1 s2 Suc.prems t obtain v where "v \<in> star L" "rest s1 = v @ t" by force
      with u \<open>u \<noteq> []\<close> show ?thesis by (metis append.assoc star.star_step)
    qed
  next
    assume ?r
    then obtain w where w: "w \<in> star L" "rest st = w @ t" by blast
    from w(1) show ?l
    proof cases
      case star_Nil
      with w show ?thesis by auto
    next
      case (star_step u v)
      with w have r: "rest st = u @ (v @ t)" by simp
      with IH star_step obtain s1 where s1: "s1 \<in> set (f st)" "rest s1 = v @ t" by meson
      obtain c u' where "u = c # u'" using star_step by (meson neq_Nil_conv)
      with r s1 Suc.prems have "length (rest s1) < length (rest st)" "length (rest s1) \<le> n"
        by simp_all
      with Suc.IH [of s1] s1 star_step show ?thesis by fastforce
    qed
  qed
qed

lemma set_lazy_m: "set (lazy_m f n st) = set (star_m f n st)"
  by (induction n arbitrary: st) auto

lemma rmatch_lang:
  "pure r \<Longrightarrow> (\<exists>st'\<in>set (rmatch r st). rest st' = t) \<longleftrightarrow> (\<exists>w\<in>lang r. rest st = w @ t)"
proof (induction r arbitrary: st t)
  case (RCls p)
  then show ?case by (auto split: list.splits)
next
  case (RSeq r s)
  have "(\<exists>st'\<in>set (rmatch (RSeq r s) st). rest st' = t) \<longleftrightarrow>
    (\<exists>s1\<in>set (rmatch r st). \<exists>v\<in>lang s. rest s1 = v @ t)"
    using RSeq by auto
  also have "\<dots> \<longleftrightarrow> (\<exists>v\<in>lang s. \<exists>u\<in>lang r. rest st = u @ v @ t)"
    using RSeq.IH(1) [of st] RSeq.prems by (metis pure.simps(3))
  also have "\<dots> \<longleftrightarrow> (\<exists>w\<in>lang (RSeq r s). rest st = w @ t)"
    by simp (metis append.assoc)
  finally show ?case .
next
  case (RAlt r s)
  then have "(\<exists>st'\<in>set (rmatch r st). rest st' = t) \<longleftrightarrow> (\<exists>w\<in>lang r. rest st = w @ t)"
    "(\<exists>st'\<in>set (rmatch s st). rest st' = t) \<longleftrightarrow> (\<exists>w\<in>lang s. rest st = w @ t)" by simp_all
  then show ?case by (simp add: bex_Un)
next
  case (RGroup n r)
  then have "(\<exists>st'\<in>set (rmatch r st). rest st' = t) \<longleftrightarrow> (\<exists>w\<in>lang r. rest st = w @ t)" by simp
  then show ?case by simp
next
  case (RStar r)
  then show ?case using star_m_lang [of "rmatch r" "lang r"] by simp
next
  case (RLazy r)
  then show ?case using star_m_lang [of "rmatch r" "lang r"] by (simp add: set_lazy_m)
qed auto

theorem fullmatch_lang: "pure r \<Longrightarrow> fullmatch_ok r s \<longleftrightarrow> s \<in> lang r"
proof -
  assume p: "pure r"
  have "fullmatch_ok r s \<longleftrightarrow> (\<exists>st'\<in>set (rmatch r (rstart s)). rest st' = [])"
    by (auto simp: fullmatch_ok_def fullmatch_def find_None_iff)
  also have "\<dots> \<longleftrightarrow> (\<exists>w\<in>lang r. s = w @ [])"
    using rmatch_lang [OF p] by (simp add: rstart_def)
  finally show ?thesis by auto
qed

lemma star_cls: "w \<in> star {[c] |c. p c} \<longleftrightarrow> (\<forall>c\<in>set w. p c)"
proof
  show "w \<in> star {[c] |c. p c} \<Longrightarrow> \<forall>c\<in>set w. p c"
    by (induction rule: star.induct) auto
next
  show "\<forall>c\<in>set w. p c \<Longrightarrow> w \<in> star {[c] |c. p c}"
  proof (induction w)
    case (Cons a w)
    then have "[a] @ w \<in> star {[c] |c. p c}" by (intro star.star_step) auto
    then show ?case by simp
  qed (rule star.star_Nil)
qed

lemma Cons_split_cls:
  "(\<exists>u v. a # l = u @ v \<and> (\<exists>c. u = [c] \<and> p c) \<and> Q v) \<longleftrightarrow> p a \<and> Q l"
  by (metis append_Cons append_Nil list.inject)

lemma lang_rupto_cls: "w \<in> lang (rupto n (RCls p)) \<longleftrightarrow> length w \<le> n \<and> (\<forall>c\<in>set w. p c)"
proof (induction n arbitrary: w)
  case (Suc n)
  then show ?case by (cases w) (auto simp: ropt_def Cons_split_cls)
qed auto

lemma lang_rtimes_cls: "w \<in> lang (rtimes n (RCls p)) \<longleftrightarrow> length w = n \<and> (\<forall>c\<in>set w. p c)"
proof (induction n arbitrary: w)
  case (Suc n)
  then show ?case by (cases w) (auto simp: Cons_split_cls)
qed auto

lemma pure_rupto: "pure r \<Longrightarrow> pure (rupto n r)"
  by (induction n) (auto simp: ropt_def)

lemma pure_rtimes: "pure r \<Longrightarrow> pure (rtimes n r)"
  by (induction n) auto

lemma lang_rch: "lang (rch c) = {[c]}"
  by (auto simp: rch_def)

lemma pure_rch: "pure (rch c)"
  by (simp add: rch_def)

lemma lang_rstr: "lang (rstr s) = {U s}"
proof -
  have "lang (foldr (\<lambda>c r. RSeq (rch c) r) t REps) = {t}" for t
    by (induction t) (auto simp: lang_rch)
  then show ?thesis by (simp add: rstr_def)
qed

lemma pure_rstr: "pure (rstr s)"
proof -
  have "pure (foldr (\<lambda>c r. RSeq (rch c) r) t REps)" for t
    by (induction t) (auto simp: pure_rch)
  then show ?thesis by (simp add: rstr_def)
qed

lemmas lang_simps = lang_rupto_cls lang_rtimes_cls lang_rch lang_rstr star_cls
lemmas pure_simps = pure_rupto pure_rtimes pure_rch pure_rstr

text \<open>
  A search finds a match exactly when the string splits into a prefix, a word of the language
  and a suffix.
\<close>

lemma search_from_Some_iff:
  "pure r \<Longrightarrow> search_from r pre s \<noteq> None \<longleftrightarrow> (\<exists>a w b. s = a @ w @ b \<and> w \<in> lang r)"
proof (induction r pre s rule: search_from.induct)
  case (1 r pre s)
  let ?st = "\<lparr>passed = pre, rest = s, caps = []\<rparr>"
  have here: "rmatch r ?st \<noteq> [] \<longleftrightarrow> (\<exists>w b. s = w @ b \<and> w \<in> lang r)"
  proof -
    have "rmatch r ?st \<noteq> [] \<longleftrightarrow> (\<exists>t. \<exists>st'\<in>set (rmatch r ?st). rest st' = t)"
      by (cases "rmatch r ?st") auto
    also have "\<dots> \<longleftrightarrow> (\<exists>t. \<exists>w\<in>lang r. s = w @ t)"
      using rmatch_lang [OF "1.prems", of ?st] by simp
    finally show ?thesis by blast
  qed
  show ?case
  proof (cases "rmatch r ?st")
    case (Cons a l)
    then have "\<exists>w b. s = w @ b \<and> w \<in> lang r" using here by simp
    moreover have "search_from r pre s \<noteq> None"
      by (subst search_from.simps) (simp add: Cons)
    ultimately show ?thesis by (metis append_Nil)
  next
    case Nil
    then have no: "\<not> (\<exists>w b. s = w @ b \<and> w \<in> lang r)" using here by simp
    show ?thesis
    proof (cases s)
      case Nil
      then show ?thesis using no \<open>rmatch r ?st = []\<close>
        by (subst search_from.simps) auto
    next
      case (Cons c cs)
      have "search_from r pre s = search_from r (c # pre) cs"
        by (subst search_from.simps) (simp add: \<open>rmatch r ?st = []\<close> Cons[symmetric], simp add: Cons)
      moreover have "(\<exists>a w b. s = a @ w @ b \<and> w \<in> lang r) \<longleftrightarrow> (\<exists>a w b. cs = a @ w @ b \<and> w \<in> lang r)"
        using no Cons by (metis append_Cons append_Nil list.sel(3) neq_Nil_conv)
      ultimately show ?thesis
        using "1.IH" [OF refl \<open>rmatch r ?st = []\<close> Cons "1.prems"] by simp
    qed
  qed
qed

lemma search_ok_lang: "pure r \<Longrightarrow> search_ok r s \<longleftrightarrow> (\<exists>a w b. s = a @ w @ b \<and> w \<in> lang r)"
  using search_from_Some_iff by (simp add: search_ok_def research_def)

end
