(* ===== verification/Py_Url.thy ===== *)
theory Py_Url
  imports Py_Regex
begin

text \<open>
  \<^verbatim>\<open>urllib.parse.urlsplit\<close> with the attributes of its result, \<^verbatim>\<open>urllib.parse.unquote\<close>, and the texts that are IP addresses.
  The two checks of the network location that need other tables of the standard library (an
  address in brackets, normalisation of characters outside ASCII) are the parameter
  \<open>netloc_ok\<close>: it is asked only about a location with brackets or with characters outside
  ASCII, and a location it refuses raises \<^verbatim>\<open>ValueError\<close>.
\<close>

section \<open>Splitting\<close>

record url =
  url_scheme :: pystr
  url_netloc :: pystr
  url_path :: pystr
  url_query :: pystr
  url_fragment :: pystr

definition scheme_char :: "nat \<Rightarrow> bool" where
  "scheme_char c = (in_range 65 90 c \<or> in_range 97 122 c \<or> in_range 48 57 c \<or> c = 43 \<or> c = 45 \<or> c = 46)"

definition split_scheme :: "pystr \<Rightarrow> pystr \<times> pystr" where
  "split_scheme s = (case partition_str (U '':'') s of (h, m, t) \<Rightarrow>
     if m \<noteq> [] \<and> h \<noteq> [] \<and> (in_range 65 90 (hd h) \<or> in_range 97 122 (hd h)) \<and> list_all scheme_char h
     then (lower h, t) else ([], s))"

definition split_netloc :: "pystr \<Rightarrow> pystr \<times> pystr" where
  "split_netloc s =
     (if startswith s (U ''//'')
      then (takeWhile (\<lambda>c. c \<noteq> 47 \<and> c \<noteq> 63 \<and> c \<noteq> 35) (drop 2 s), dropWhile (\<lambda>c. c \<noteq> 47 \<and> c \<noteq> 63 \<and> c \<noteq> 35) (drop 2 s))
      else ([], s))"

definition netloc_valid :: "(pystr \<Rightarrow> bool) \<Rightarrow> pystr \<Rightarrow> bool" where
  "netloc_valid netloc_ok n =
     ((91 \<in> set n \<longleftrightarrow> 93 \<in> set n) \<and> ((91 \<in> set n \<or> list_ex (\<lambda>c. 128 \<le> c) n) \<longrightarrow> netloc_ok n))"

definition urlsplit :: "(pystr \<Rightarrow> bool) \<Rightarrow> pystr \<Rightarrow> url res" where
  "urlsplit netloc_ok s =
     (let s1 = filter (\<lambda>c. c \<noteq> 9 \<and> c \<noteq> 10 \<and> c \<noteq> 13) (lstrip_by (\<lambda>c. c \<le> 32) s);
          (sch, s2) = split_scheme s1;
          (loc, s3) = split_netloc s2;
          (s4, _, fragment) = partition_str (U ''#'') s3;
          (p, _, query) = partition_str (U ''?'') s4
      in if netloc_valid netloc_ok loc
         then Inr \<lparr>url_scheme = sch, url_netloc = loc, url_path = p, url_query = query, url_fragment = fragment\<rparr>
         else Inl (ValueError (U ''Invalid netloc'')))"

section \<open>Attributes\<close>

text \<open>\<^verbatim>\<open>netloc.rpartition('@')\<close>: what is before the last \<^verbatim>\<open>@\<close>, if there is one, and what follows.\<close>

definition split_at_sign :: "pystr \<Rightarrow> pystr option \<times> pystr" where
  "split_at_sign n =
     (if 64 \<in> set n
      then (let r = rev n in (Some (rev (drop 1 (dropWhile (\<lambda>c. c \<noteq> 64) r))), rev (takeWhile (\<lambda>c. c \<noteq> 64) r)))
      else (None, n))"

definition url_username :: "url \<Rightarrow> pystr option" where
  "url_username u = map_option (split1_head (U '':'')) (fst (split_at_sign (url_netloc u)))"

definition url_password :: "url \<Rightarrow> pystr option" where
  "url_password u = (case fst (split_at_sign (url_netloc u)) of
     None \<Rightarrow> None
   | Some info \<Rightarrow> (case partition_str (U '':'') info of (_, m, t) \<Rightarrow> if m = [] then None else Some t))"

definition host_port :: "url \<Rightarrow> pystr \<times> pystr" where
  "host_port u =
     (let h = snd (split_at_sign (url_netloc u)) in
      case partition_str (U ''['') h of (_, opening, bracketed) \<Rightarrow>
        if opening \<noteq> []
        then (case partition_str (U '']'') bracketed of (name, _, r) \<Rightarrow> (name, snd (snd (partition_str (U '':'') r))))
        else (case partition_str (U '':'') h of (name, _, r) \<Rightarrow> (name, r)))"

definition url_hostname :: "url \<Rightarrow> pystr option" where
  "url_hostname u =
     (let name = fst (host_port u) in
      if name = [] then None
      else (case partition_str (U ''%'') name of (h, percent, zone) \<Rightarrow> Some (lower h @ percent @ zone)))"

definition url_port :: "url \<Rightarrow> int option res" where
  "url_port u =
     (let p = snd (host_port u) in
      if p = [] then Inr None
      else if list_all (in_range 48 57) p
      then res_bind (int_of_str p) (\<lambda>n. if n \<le> 65535 then Inr (Some n) else Inl (ValueError (U ''Port out of range 0-65535'')))
      else Inl (ValueError (U ''Port could not be cast to integer value'')))"

section \<open>Unquoting\<close>

text \<open>UTF-8 with \<^verbatim>\<open>errors="replace"\<close>: each maximal ill-formed part becomes U+FFFD.\<close>

definition seq_length :: "nat \<Rightarrow> nat" where
  "seq_length b = (if b < 128 then 1 else if in_range 194 223 b then 2 else if in_range 224 239 b then 3
     else if in_range 240 244 b then 4 else 0)"

definition second_ok :: "nat \<Rightarrow> nat \<Rightarrow> bool" where
  "second_ok b c =
     (if b = 224 then in_range 160 191 c else if b = 237 then in_range 128 159 c
      else if b = 240 then in_range 144 191 c else if b = 244 then in_range 128 143 c else in_range 128 191 c)"

text \<open>How many of the bytes after the first belong to the sequence that starts with \<open>b\<close>.\<close>

definition good_tail :: "nat \<Rightarrow> nat list \<Rightarrow> nat" where
  "good_tail b cs = (case cs of
     [] \<Rightarrow> 0
   | c # cs' \<Rightarrow> if second_ok b c then Suc (length (takeWhile (in_range 128 191) (take (seq_length b - 2) cs'))) else 0)"

function utf8_replace :: "nat list \<Rightarrow> pystr" where
  "utf8_replace bs = (case bs of
     [] \<Rightarrow> []
   | b # cs \<Rightarrow>
       let n = seq_length b in
       if n = 1 then b # utf8_replace cs
       else if n = 0 then 65533 # utf8_replace cs
       else let k = good_tail b cs in
         (if Suc k = n
          then foldl (\<lambda>acc c. acc * 64 + (c - 128)) (b - (if n = 2 then 192 else if n = 3 then 224 else 240)) (take k cs)
          else 65533) # utf8_replace (drop k cs))"
  by pat_completeness auto
termination by (relation "measure length") auto

declare utf8_replace.simps [simp del]

definition hex_digit_val :: "nat \<Rightarrow> nat option" where
  "hex_digit_val c = (if in_range 48 57 c then Some (c - 48) else if in_range 97 102 c then Some (c - 87)
     else if in_range 65 70 c then Some (c - 55) else None)"

fun unquote_bytes :: "pystr \<Rightarrow> nat list" where
  "unquote_bytes (p # a # b # cs) =
     (if p = 37
      then (case (hex_digit_val a, hex_digit_val b) of
          (Some x, Some y) \<Rightarrow> (16 * x + y) # unquote_bytes cs
        | _ \<Rightarrow> p # unquote_bytes (a # b # cs))
      else p # unquote_bytes (a # b # cs))"
| "unquote_bytes s = s"

text \<open>Runs of ASCII characters are unquoted, the other characters stay.\<close>

function unquote_runs :: "pystr \<Rightarrow> pystr" where
  "unquote_runs s =
     (if s = [] then []
      else takeWhile (\<lambda>c. 128 \<le> c) s @
        (let r = dropWhile (\<lambda>c. 128 \<le> c) s
         in if r = [] then [] else utf8_replace (unquote_bytes (takeWhile (\<lambda>c. c < 128) r)) @ unquote_runs (dropWhile (\<lambda>c. c < 128) r)))"
  by pat_completeness auto
termination
proof (relation "measure length", goal_cases)
  case (2 s r)
  then obtain c cs where r: "r = c # cs" by (meson neq_Nil_conv)
  with 2 have "\<not> 128 \<le> c" by (metis dropWhile_eq_Cons_conv)
  then have "length (dropWhile (\<lambda>c. c < 128) r) \<le> length cs" by (simp add: r length_dropWhile_le)
  also have "\<dots> < length r" by (simp add: r)
  also have "\<dots> \<le> length s" using 2 by (simp add: length_dropWhile_le)
  finally show ?case by simp
qed simp

declare unquote_runs.simps [simp del]

definition unquote :: "pystr \<Rightarrow> pystr" where
  "unquote s = (if 37 \<in> set s then unquote_runs s else s)"

section \<open>Facts\<close>

lemma urlsplit_Inl: "urlsplit ok s = Inl e \<Longrightarrow> is_ValueError e"
  by (auto simp: urlsplit_def Let_def split: prod.splits if_splits)

lemma url_port_Inl: "url_port u = Inl e \<Longrightarrow> is_ValueError e"
  by (auto simp: url_port_def Let_def res_bind_eq_Inl split: if_splits dest: int_of_str_Inl)

section \<open>Addresses\<close>

text \<open>The texts that are IP addresses: for \<^verbatim>\<open>socket.inet_pton\<close> and for \<^verbatim>\<open>ipaddress.ip_address\<close>, which also reads a zone.\<close>

definition octet :: "pystr \<Rightarrow> bool" where
  "octet s = (1 \<le> length s \<and> length s \<le> 3 \<and> list_all (in_range 48 57) s \<and> (length s = 1 \<or> hd s \<noteq> 48) \<and>
     foldl (\<lambda>v c. 10 * v + (c - 48)) 0 s \<le> 255)"

definition inet4 :: "pystr \<Rightarrow> bool" where
  "inet4 s = (length (split_ch 46 s) = 4 \<and> list_all octet (split_ch 46 s))"

definition hextet :: "pystr \<Rightarrow> bool" where
  "hextet s = (1 \<le> length s \<and> length s \<le> 4 \<and> list_all (\<lambda>c. in_range 48 57 c \<or> in_range 97 102 c \<or> in_range 65 70 c) s)"

text \<open>How many groups of 16 bits a text has: groups of hexadecimal digits, the last one perhaps an IPv4 address.\<close>

fun hextets :: "bool \<Rightarrow> pystr list \<Rightarrow> nat option" where
  "hextets v4 [] = Some 0"
| "hextets v4 [g] = (if hextet g then Some 1 else if v4 \<and> inet4 g then Some 2 else None)"
| "hextets v4 (g # gs) = (if hextet g then map_option Suc (hextets v4 gs) else None)"

definition groups_of :: "pystr \<Rightarrow> pystr list" where
  "groups_of s = (if s = [] then [] else split_ch 58 s)"

definition inet6 :: "pystr \<Rightarrow> bool" where
  "inet6 s = (case find_sub (U ''::'') s of
     None \<Rightarrow> hextets True (groups_of s) = Some 8
   | Some i \<Rightarrow> (case (hextets False (groups_of (take i s)), hextets True (groups_of (drop (i + 2) s))) of
        (Some a, Some b) \<Rightarrow> a + b \<le> 7
      | _ \<Rightarrow> False))"

text \<open>\<^verbatim>\<open>ipaddress.ip_address(s)\<close> does not raise: the zone is what follows a per cent sign, and it is not empty.\<close>

definition ip_address :: "pystr \<Rightarrow> bool" where
  "ip_address s = (let address = takeWhile (\<lambda>c. c \<noteq> 37) s; zone = drop (length address) s in
     inet4 s \<or> 47 \<notin> set s \<and> inet6 address \<and> (zone = [] \<or> 1 < length zone \<and> 37 \<notin> set (tl zone)))"

lemma ip_address_examples:
  "ip_address (U ''172.18.0.2'')" "ip_address (U ''fd00::1:2%eth0'')" "ip_address (U ''::ffff:10.0.0.1'')"
  "\<not> ip_address (U ''172.18.0.02'')" "\<not> ip_address (U ''172.18.0.2/16'')" "\<not> ip_address (U ''1::2::3'')" "\<not> ip_address []"
  by code_simp+

end
