(* ===== verification/Py_Datetime.thy ===== *)
theory Py_Datetime
  imports Py_Prelude
begin

text \<open>
  \<^verbatim>\<open>datetime.fromisoformat\<close> of Python 3.11 and 3.12: calendar and week dates, with or without
  separators, a time with up to six fraction digits kept, and an offset, with the quirks of the
  C implementation (a fraction behind any component, offsets below one second). A value is the number
  of microseconds since the day before 0001-01-01 in local time and the offset in microseconds,
  absent for a naive value.
\<close>

record pydatetime =
  local_us :: int
  offset_us :: "int option"

definition ascii_digit :: "nat \<Rightarrow> bool" where
  "ascii_digit c = (48 \<le> c \<and> c \<le> 57)"

text \<open>Exactly \<open>n\<close> ASCII digits at the start of a string.\<close>

definition take_num :: "nat \<Rightarrow> pystr \<Rightarrow> (nat \<times> pystr) option" where
  "take_num n s =
     (if n \<le> length s \<and> 0 < n \<and> list_all ascii_digit (take n s)
      then Some (foldl (\<lambda>a c. 10 * a + (c - 48)) 0 (take n s), drop n s) else None)"

definition is_leap :: "nat \<Rightarrow> bool" where
  "is_leap y = (4 dvd y \<and> (\<not> 100 dvd y \<or> 400 dvd y))"

definition days_in_month :: "nat \<Rightarrow> nat \<Rightarrow> nat" where
  "days_in_month y m =
     (if m = 2 then (if is_leap y then 29 else 28)
      else if m \<in> {4, 6, 9, 11} then 30 else 31)"

definition days_before_year :: "nat \<Rightarrow> nat" where
  "days_before_year y = (let p = y - 1 in p * 365 + p div 4 - p div 100 + p div 400)"

definition days_before_month :: "nat \<Rightarrow> nat \<Rightarrow> nat" where
  "days_before_month y m = sum_list (map (days_in_month y) [1..<m])"

definition ymd_ord :: "nat \<Rightarrow> nat \<Rightarrow> nat \<Rightarrow> nat option" where
  "ymd_ord y m d =
     (if 1 \<le> y \<and> y \<le> 9999 \<and> 1 \<le> m \<and> m \<le> 12 \<and> 1 \<le> d \<and> d \<le> days_in_month y m
      then Some (days_before_year y + days_before_month y m + d) else None)"

definition isoweek_ord :: "nat \<Rightarrow> nat \<Rightarrow> nat \<Rightarrow> nat option" where
  "isoweek_ord y w d =
     (let first = days_before_year y + 1;
          wd = (first + 6) mod 7;
          monday = int first - int wd + (if 3 < wd then 7 else 0);
          long = (first mod 7 = 4 \<or> first mod 7 = 3 \<and> is_leap y);
          ord = monday + (int w - 1) * 7 + (int d - 1)
      in if 1 \<le> y \<and> y \<le> 9999 \<and> (1 \<le> w \<and> w \<le> 52 \<or> w = 53 \<and> long) \<and> 1 \<le> d \<and> d \<le> 7
            \<and> 1 \<le> ord \<and> ord \<le> 3652059
         then Some (nat ord) else None)"

text \<open>\<^verbatim>\<open>_find_isoformat_datetime_separator\<close>\<close>

definition find_separator :: "pystr \<Rightarrow> nat option" where
  "find_separator s =
     (let n = length s in
      if n = 7 then Some 7
      else if s ! 4 = 45 then
        (if s ! 5 = 87 then
           (if 8 < n \<and> s ! 8 = 45 then
              (if n = 9 then None
               else if 10 < n \<and> ascii_digit (s ! 10) then Some 8 else Some 10)
            else Some 8)
         else Some 10)
      else if s ! 4 = 87 then
        (let i = 7 + length (takeWhile ascii_digit (drop 7 s))
         in if i < 9 then Some i else if even i then Some 7 else Some 8)
      else Some 8)"

text \<open>\<^verbatim>\<open>_parse_isoformat_date\<close>: the proleptic ordinal of the date.\<close>

definition parse_date :: "pystr \<Rightarrow> nat option" where
  "parse_date s =
     (case take_num 4 s of
        None \<Rightarrow> None
      | Some (y, r) \<Rightarrow>
          let sep = startswith r [45]; r1 = (if sep then tl r else r)
          in if startswith r1 [87] then
               (case take_num 2 (tl r1) of
                  None \<Rightarrow> None
                | Some (w, r2) \<Rightarrow>
                    if r2 = [] then isoweek_ord y w 1
                    else if startswith r2 [45] \<noteq> sep then None
                    else case take_num 1 (if sep then tl r2 else r2) of
                      None \<Rightarrow> None
                    | Some (d, r3) \<Rightarrow> if r3 = [] then isoweek_ord y w d else None)
             else
               (case take_num 2 r1 of
                  None \<Rightarrow> None
                | Some (m, r2) \<Rightarrow>
                    if startswith r2 [45] \<noteq> sep then None
                    else case take_num 2 (if sep then tl r2 else r2) of
                      None \<Rightarrow> None
                    | Some (d, r3) \<Rightarrow> if r3 = [] then ymd_ord y m d else None))"

text \<open>
  \<^verbatim>\<open>parse_hh_mm_ss_ff\<close>: the components, and whether the text goes on behind them. The argument
  \<open>goes_on\<close> says that an offset follows the text, so that its end is not the end of the string.
  A fraction may follow any component.
\<close>

definition parse_fraction :: "bool \<Rightarrow> pystr \<Rightarrow> (nat \<times> bool) option" where
  "parse_fraction goes_on f =
     (let k = min 6 (length f)
      in case take_num k f of
           None \<Rightarrow> None
         | Some (v, r) \<Rightarrow> Some (v * 10 ^ (6 - k), goes_on \<or> \<not> list_all ascii_digit r))"

fun parse_hms :: "bool \<Rightarrow> nat \<Rightarrow> bool \<Rightarrow> pystr \<Rightarrow> (nat list \<times> nat \<times> bool) option" where
  "parse_hms goes_on 0 sep s = map_option (\<lambda>(us, b). ([], us, b)) (parse_fraction goes_on s)"
| "parse_hms goes_on (Suc i) sep s =
     (case take_num 2 s of
        None \<Rightarrow> None
      | Some (v, r) \<Rightarrow>
          let sep' = (if i = 2 then startswith r [58] else sep)
          in if r = [] then Some ([v], 0, goes_on)
             else if tl r = [] then Some ([v], 0, True)
             else map_option (\<lambda>(vs, q). (v # vs, q))
               (if sep' \<and> hd r = 58 then parse_hms goes_on i sep' (tl r)
                else if hd r = 46 \<or> hd r = 44 then
                  map_option (\<lambda>(us, b). ([], us, b)) (parse_fraction goes_on (tl r))
                else if \<not> sep' then parse_hms goes_on i sep' r
                else None))"

text \<open>
  \<^verbatim>\<open>parse_isoformat_time\<close>: the time of day in microseconds and the offset, which starts at the
  first plus, minus or \<^verbatim>\<open>Z\<close>. An offset of less than a second counts as zero.
\<close>

definition hms :: "nat list \<Rightarrow> nat \<times> nat \<times> nat" where
  "hms vs = (let ws = vs @ [0, 0, 0] in (ws ! 0, ws ! 1, ws ! 2))"

definition seconds_of :: "nat list \<Rightarrow> int" where
  "seconds_of vs = (case hms vs of (h, m, s) \<Rightarrow> (int h * 60 + int m) * 60 + int s)"

definition valid_time :: "nat list \<Rightarrow> bool" where
  "valid_time vs = (case hms vs of (h, m, s) \<Rightarrow> h < 24 \<and> m < 60 \<and> s < 60)"

definition parse_offset :: "pystr \<Rightarrow> int option" where
  "parse_offset z =
     (if z = [90] then Some 0
      else if hd z = 90 then None
      else case parse_hms False 3 True (tl z) of
        Some (vs, us, False) \<Rightarrow>
          (let off = (if seconds_of vs = 0 then 0 else seconds_of vs * 1000000 + int us)
           in if off < 86400000000 then Some (if hd z = 45 then - off else off) else None)
      | _ \<Rightarrow> None)"

definition parse_time :: "pystr \<Rightarrow> (int \<times> int option) option" where
  "parse_time s =
     (let is_tz = (\<lambda>c. c = 43 \<or> c = 45 \<or> c = 90);
          t = takeWhile (\<lambda>c. \<not> is_tz c) s; z = dropWhile (\<lambda>c. \<not> is_tz c) s
      in case parse_hms (z \<noteq> []) 3 True t of
           None \<Rightarrow> None
         | Some (vs, us, b) \<Rightarrow>
             if \<not> valid_time vs then None
             else if z = [] then (if b then None else Some (seconds_of vs * 1000000 + int us, None))
             else map_option (\<lambda>off. (seconds_of vs * 1000000 + int us, Some off)) (parse_offset z))"

definition fromisoformat :: "pystr \<Rightarrow> pydatetime option" where
  "fromisoformat s =
     (if length s < 7 then None
      else case find_separator s of
        None \<Rightarrow> None
      | Some k \<Rightarrow>
          (case parse_date (take k s) of
             None \<Rightarrow> None
           | Some ord \<Rightarrow>
               let base = int ord * 86400000000
               in if length s \<le> k then Some \<lparr>local_us = base, offset_us = None\<rparr>
                  else map_option (\<lambda>(us, off). \<lparr>local_us = base + us, offset_us = off\<rparr>)
                         (parse_time (drop (Suc k) s))))"

text \<open>\<^verbatim>\<open>a > b\<close>; comparing a naive with an aware value raises \<^verbatim>\<open>TypeError\<close>.\<close>

definition datetime_gt :: "pydatetime \<Rightarrow> pydatetime \<Rightarrow> bool res" where
  "datetime_gt a b =
     (case (offset_us a, offset_us b) of
        (None, None) \<Rightarrow> Inr (local_us b < local_us a)
      | (Some x, Some y) \<Rightarrow> Inr (local_us b - y < local_us a - x)
      | _ \<Rightarrow> Inl TypeError)"

lemma take_num_Some:
  "take_num n s = Some (v, r) \<Longrightarrow> s = take n s @ r \<and> length (take n s) = n \<and> list_all ascii_digit (take n s)"
  by (auto simp: take_num_def split: if_splits)

end
