(* ===== verification/Py_Json_Roundtrip.thy ===== *)
theory Py_Json_Roundtrip
  imports Py_Json
begin

text \<open>
  Reading back what \<^verbatim>\<open>json.dumps\<close> wrote with compact separators and \<^verbatim>\<open>ensure_ascii=False\<close>.
  \<open>json_ok sort d v\<close> says that \<open>v\<close> is a value JSON represents exactly: no float, tuple or set,
  distinct keys (in order when \<^verbatim>\<open>sort_keys\<close> is set), integers of at most 4300 digits, and no
  more than \<open>d\<close> nested containers. \<open>loads_dumps\<close> is the round trip.
\<close>

fun json_ok :: "bool \<Rightarrow> nat \<Rightarrow> pyval \<Rightarrow> bool" where
  "json_ok st d PNone = True"
| "json_ok st d (PBool b) = True"
| "json_ok st d (PInt i) = (length (str_of_nat (nat \<bar>i\<bar>)) \<le> 4300)"
| "json_ok st d (PStr s) = True"
| "json_ok st d (PList xs) = (0 < d \<and> list_all (json_ok st (d - 1)) xs)"
| "json_ok st d (PDict kvs) =
     (0 < d \<and> distinct (map fst kvs) \<and> (st \<longrightarrow> sorted (map fst kvs)) \<and>
      list_all (\<lambda>(k, v). json_ok st (d - 1) v) kvs)"
| "json_ok st d _ = False"

section \<open>Strings\<close>

lemma hex_val_digit: "x < 16 \<Longrightarrow> hex_val (hex_digit x) = Some x"
  by (auto simp: hex_val_def hex_digit_def)

lemma scan_escape_esc_u: "c < 32 \<Longrightarrow> scan_escape (117 # hex4 c @ r) = Some (c, r)"
  by (auto simp: scan_escape_def scan_hex4_def hex4_def hex4_val_def hex_val_digit)

lemma scan_str_json_char: "scan_str (json_char False c @ r) = cons_fst c (scan_str r)"
proof -
  consider "c = 34" | "c = 92" | "c = 10" | "c = 13" | "c = 9" | "c = 12" | "c = 8"
    | "c < 32" "c \<notin> {8, 9, 10, 12, 13}" | "32 \<le> c" "c \<noteq> 34" "c \<noteq> 92" by fastforce
  then show ?thesis
  proof cases
    case 8
    then have "json_char False c = 92 # 117 # hex4 c" by (simp add: json_char_def esc_u_def)
    with 8 show ?thesis by (subst scan_str.simps) (simp add: scan_escape_esc_u)
  qed (subst scan_str.simps; simp add: json_char_def scan_escape_def unescape_def)+
qed

lemma scan_str_json: "scan_str (concat (map (json_char False) s) @ 34 # r) = Inr (s, r)"
proof (induction s)
  case Nil
  show ?case by (subst scan_str.simps) simp
next
  case (Cons c s)
  then show ?case by (simp add: scan_str_json_char cons_fst_def)
qed

section \<open>Integers\<close>

lemma str_of_nat_ne [simp]: "str_of_nat n \<noteq> []"
  by (subst str_of_nat.simps) simp

lemma str_of_nat_digits: "c \<in> set (str_of_nat n) \<Longrightarrow> is_dig c"
proof (induction n rule: str_of_nat.induct)
  case (1 n)
  show ?case
  proof (cases "n < 10")
    case True
    with "1.prems" show ?thesis by (subst (asm) str_of_nat.simps) (simp add: is_dig_def)
  next
    case False
    with "1.prems" have "c \<in> set (str_of_nat (n div 10)) \<or> c = 48 + n mod 10"
      by (subst (asm) str_of_nat.simps) auto
    with "1.IH" [OF False] show ?thesis by (auto simp: is_dig_def)
  qed
qed

lemma dec_val_str_of_nat: "dec_val (str_of_nat n) = n"
proof (induction n rule: str_of_nat.induct)
  case (1 n)
  then show ?case
    by (subst str_of_nat.simps) (auto simp: dec_val_def)
qed

lemma hd_str_of_nat: "hd (str_of_nat n) = 48 \<longleftrightarrow> n = 0"
proof (induction n rule: str_of_nat.induct)
  case (1 n)
  then show ?case by (subst str_of_nat.simps) (auto simp: hd_append)
qed

definition follow :: "pystr \<Rightarrow> bool" where
  "follow r = (r = [] \<or> hd r \<in> {44, 93, 125})"

lemma follow_tails: "follow r \<Longrightarrow> take_frac r = ([], r) \<and> take_exp r = (None, r)"
  by (cases r) (auto simp: follow_def take_frac_def take_exp_def Let_def)

lemma int_digits_str_of_nat: "follow r \<Longrightarrow> int_digits (str_of_nat n @ r) = (str_of_nat n, r)"
proof -
  assume f: "follow r"
  have tw: "takeWhile is_dig (str_of_nat n @ r) = str_of_nat n" "dropWhile is_dig (str_of_nat n @ r) = r"
  proof -
    have "takeWhile is_dig r = []" "dropWhile is_dig r = r"
      using f by (cases r; auto simp: follow_def is_dig_def)+
    with str_of_nat_digits [of _ n] show "takeWhile is_dig (str_of_nat n @ r) = str_of_nat n"
      "dropWhile is_dig (str_of_nat n @ r) = r" by (simp_all add: takeWhile_append dropWhile_append)
  qed
  show ?thesis
  proof (cases "n = 0")
    case True
    then have "str_of_nat n = [48]" by (subst str_of_nat.simps) simp
    then show ?thesis by (simp add: int_digits_def)
  next
    case False
    then have "hd (str_of_nat n @ r) \<noteq> 48" by (simp add: hd_append hd_str_of_nat)
    with tw show ?thesis by (simp add: int_digits_def)
  qed
qed

lemma str_of_nat_hd_dig: "is_dig (hd (str_of_nat n))"
  by (rule str_of_nat_digits [of _ n]) simp

lemma scan_number_int:
  assumes "length (str_of_nat (nat \<bar>i\<bar>)) \<le> 4300" "follow r"
  shows "scan_number (str_of_int i @ r) = Inr (PInt i, r)"
proof -
  let ?n = "nat \<bar>i\<bar>"
  have "hd (str_of_nat ?n) \<noteq> 45" using str_of_nat_hd_dig [of ?n] by (auto simp: is_dig_def)
  then show ?thesis
    using assms int_digits_str_of_nat [of r ?n] follow_tails [of r]
    by (cases "i < 0") (auto simp: scan_number_def str_of_int_def hd_append dec_val_str_of_nat Let_def)
qed

lemma no_literal:
  assumes "\<And>t v. (t, v) \<in> set literals \<Longrightarrow> \<not> startswith s t"
  shows "scan_atom s = scan_number s"
proof -
  have "find (\<lambda>(t, v). startswith s t) literals = None"
    using assms by (auto simp: find_None_iff)
  then show ?thesis by (simp add: scan_atom_def)
qed

lemma U_hd: "s \<noteq> [] \<Longrightarrow> U s = of_char (hd s) # U (tl s)"
  by (cases s) (simp_all add: U_def)

lemma scan_atom_int:
  assumes "length (str_of_nat (nat \<bar>i\<bar>)) \<le> 4300" "follow r"
  shows "scan_atom (str_of_int i @ r) = Inr (PInt i, r)"
proof -
  obtain c cs where n: "str_of_nat (nat \<bar>i\<bar>) = c # cs" by (meson neq_Nil_conv str_of_nat_ne)
  then have "is_dig c" using str_of_nat_hd_dig [of "nat \<bar>i\<bar>"] by simp
  then have "\<not> startswith (str_of_int i @ r) t" if "(t, v) \<in> set literals" for t v
    using that n by (cases "i < 0")
      (auto simp: literals_def startswith_def U_def is_dig_def str_of_int_def)
  then show ?thesis using no_literal scan_number_int [OF assms] by metis
qed

section \<open>Values\<close>

definition good :: "nat \<Rightarrow> pyval \<Rightarrow> pystr \<Rightarrow> bool" where
  "good d v t \<longleftrightarrow> t \<noteq> [] \<and> \<not> is_ws (hd t) \<and> hd t \<noteq> 93 \<and> hd t < 128 \<and>
     (\<forall>r. follow r \<longrightarrow> scan_value d (t @ r) = Inr (v, r))"

lemma skip_ws_nop: "t \<noteq> [] \<Longrightarrow> \<not> is_ws (hd t) \<Longrightarrow> skip_ws (t @ r) = t @ r"
  by (cases t) (auto simp: skip_ws_def)

lemma skip_ws_follow: "follow r \<Longrightarrow> skip_ws r = r"
  by (cases r) (auto simp: skip_ws_def follow_def is_ws_def)

lemma scan_elems_join:
  "list_all2 (good d) xs ts \<Longrightarrow> xs \<noteq> [] \<Longrightarrow>
   scan_elems d (join_str [44] ts @ 93 # r) = Inr (xs, r)"
proof (induction xs arbitrary: ts)
  case (Cons x xs)
  then obtain t ts' where ts: "ts = t # ts'" and g: "good d x t" and gs: "list_all2 (good d) xs ts'"
    by (auto simp: list_all2_Cons1)
  show ?case
  proof (cases xs)
    case Nil
    with gs ts have ts: "ts = [t]" by simp
    have "follow (93 # r)" by (simp add: follow_def)
    with g have "scan_value d (t @ 93 # r) = Inr (x, 93 # r)" by (simp add: good_def)
    moreover have "skip_ws (93 # r) = 93 # r" by (simp add: skip_ws_def is_ws_def)
    ultimately show ?thesis by (subst scan_elems.simps) (simp add: ts Nil)
  next
    case (Cons y ys)
    with gs obtain u us where us: "ts' = u # us" "good d y u" by (auto simp: list_all2_Cons1)
    let ?s = "join_str [44] ts' @ 93 # r"
    have s: "join_str [44] ts @ 93 # r = t @ 44 # ?s" by (simp add: ts us)
    have f: "follow (44 # ?s)" by (simp add: follow_def)
    with g have sv: "scan_value d (t @ 44 # ?s) = Inr (x, 44 # ?s)" by (simp add: good_def)
    obtain u' where u': "join_str [44] ts' = u @ u'" by (cases us) (auto simp: us)
    have "u \<noteq> []" "\<not> is_ws (hd u)" using us(2) by (simp_all add: good_def)
    then have "skip_ws ?s = ?s" using skip_ws_nop [of u "u' @ 93 # r"] by (simp add: u')
    moreover have "skip_ws (44 # ?s) = 44 # ?s" using f by (rule skip_ws_follow)
    moreover have "scan_elems d ?s = Inr (xs, r)" using Cons.IH [OF gs] Cons by simp
    moreover have "t \<noteq> []" using g by (simp add: good_def)
    ultimately show ?thesis unfolding s by (subst scan_elems.simps) (simp add: sv)
  qed
qed simp

definition member_text :: "pystr \<Rightarrow> pystr \<Rightarrow> pystr" where
  "member_text k t = json_str False k @ [58] @ t"

lemma scan_members_join:
  "list_all2 (\<lambda>(k, v) m. \<exists>t. m = member_text k t \<and> good d v t) kvs ms \<Longrightarrow> kvs \<noteq> [] \<Longrightarrow>
   scan_members d (join_str [44] ms @ 125 # r) = Inr (kvs, r)"
proof (induction kvs arbitrary: ms)
  case (Cons kv kvs)
  obtain k v where kv: "kv = (k, v)" by force
  from Cons.prems obtain t ms' where ms: "ms = member_text k t # ms'" and g: "good d v t"
    and gs: "list_all2 (\<lambda>(k, v) m. \<exists>t. m = member_text k t \<and> good d v t) kvs ms'"
    by (auto simp: list_all2_Cons1 kv)
  have tne: "t \<noteq> []" "\<not> is_ws (hd t)" using g by (simp_all add: good_def)
  have step: "scan_str (tl (member_text k t @ q)) = Inr (k, 58 # t @ q)"
    "startswith (member_text k t @ q) [34]" "skip_ws (58 # t @ q) = 58 # t @ q"
    "skip_ws (t @ q) = t @ q" for q
    using scan_str_json [of k "58 # t @ q"] skip_ws_nop [OF tne]
    by (simp_all add: member_text_def json_str_def startswith_def skip_ws_def is_ws_def)
  show ?case
  proof (cases kvs)
    case Nil
    with gs ms have m: "ms = [member_text k t]" by simp
    have "follow (125 # r)" by (simp add: follow_def)
    with g have sv: "scan_value d (t @ 125 # r) = Inr (v, 125 # r)" by (simp add: good_def)
    moreover have "skip_ws (125 # r) = 125 # r" by (simp add: skip_ws_def is_ws_def)
    ultimately show ?thesis using step [of "125 # r"]
      by (subst scan_members.simps) (simp add: m Nil kv startswith_def)
  next
    case (Cons y ys)
    with gs obtain ky vy u us where us: "ms' = member_text ky u # us" "y = (ky, vy)" by (auto simp: list_all2_Cons1)
    let ?s = "join_str [44] ms' @ 125 # r"
    have s: "join_str [44] ms @ 125 # r = member_text k t @ 44 # ?s" by (simp add: ms us)
    have f: "follow (44 # ?s)" by (simp add: follow_def)
    with g have sv: "scan_value d (t @ 44 # ?s) = Inr (v, 44 # ?s)" by (simp add: good_def)
    obtain u' where u': "join_str [44] ms' = member_text ky u @ u'" by (cases us) (auto simp: us)
    then have "skip_ws ?s = ?s"
      using skip_ws_nop [of "member_text ky u" "u' @ 125 # r"] by (simp add: member_text_def json_str_def is_ws_def)
    moreover have "skip_ws (44 # ?s) = 44 # ?s" using f by (rule skip_ws_follow)
    moreover have "scan_members d ?s = Inr (kvs, r)" using Cons.IH [OF gs] Cons by simp
    ultimately show ?thesis unfolding s using step [of "44 # ?s"]
      by (subst scan_members.simps) (simp add: sv kv startswith_def)
  qed
qed simp

definition copts :: "bool \<Rightarrow> jopts" where
  "copts st = compact\<lparr>sort_keys := st\<rparr>"

lemma copts_simps [simp]:
  "item_sep (copts st) = [44]" "key_sep (copts st) = [58]" "sort_keys (copts st) = st"
  "ensure_ascii (copts st) = False"
  by (simp_all add: copts_def compact_def U_def)

lemma good_str: "good d (PStr s) (json_str False s)"
  using scan_str_json [of s]
  by (auto simp: good_def json_str_def is_ws_def scan_value.simps)

lemma good_int:
  assumes "length (str_of_nat (nat \<bar>i\<bar>)) \<le> 4300"
  shows "good d (PInt i) (str_of_int i)"
proof -
  have "hd (str_of_int i) = 45 \<or> is_dig (hd (str_of_int i))" "str_of_int i \<noteq> []"
    using str_of_nat_hd_dig by (auto simp: str_of_int_def)
  then obtain c cs where c: "str_of_int i = c # cs" "c = 45 \<or> is_dig c"
    by (cases "str_of_int i") auto
  then show ?thesis using scan_atom_int [OF assms]
    by (auto simp: good_def is_ws_def is_dig_def scan_value.simps)
qed

lemma good_literal:
  assumes "(t, v) \<in> {(U ''null'', PNone), (U ''true'', PBool True), (U ''false'', PBool False)}"
  shows "good d v t"
  using assms
  by (auto simp: good_def is_ws_def U_def scan_value.simps scan_atom_def literals_def startswith_def)

lemma res_map_members:
  "res_map (\<lambda>(k, v). res_bind (f v) (\<lambda>t. Inr (k, t))) kvs = Inr kts \<longleftrightarrow>
   list_all2 (\<lambda>(k, v) (k', t). k' = k \<and> f v = Inr t) kvs kts"
  by (auto simp: res_map_eq_Inr elim!: list_all2_mono)

lemma dumps_good:
  "json_ok st d v \<Longrightarrow> \<exists>t. dumps (copts st) v = Inr t \<and> good d v t"
proof (induction v arbitrary: d)
  case PNone
  show ?case using good_literal [of "U ''null''" PNone] by simp
next
  case (PBool b)
  show ?case using good_literal [of "U ''true''"] good_literal [of "U ''false''"] by (cases b) auto
next
  case (PInt i)
  then show ?case using good_int by simp
next
  case (PStr s)
  show ?case using good_str by simp
next
  case (PList xs)
  then obtain d' where d: "d = Suc d'" by (auto simp: gr0_conv_Suc)
  have "\<forall>x\<in>set xs. \<exists>t. dumps (copts st) x = Inr t \<and> good d' x t"
    using PList d by (auto simp: list_all_iff)
  then obtain f where f: "\<forall>x\<in>set xs. dumps (copts st) x = Inr (f x) \<and> good d' x (f x)" by metis
  have rm: "res_map (dumps (copts st)) xs = Inr (map f xs)"
    using f by (auto simp: res_map_eq_Inr list_all2_conv_all_nth)
  have g: "list_all2 (good d') xs (map f xs)"
    using f by (auto simp: list_all2_conv_all_nth)
  have "good d (PList xs) (91 # join_str [44] (map f xs) @ [93])"
  proof (cases xs)
    case Nil
    then show ?thesis
      by (simp add: good_def is_ws_def d scan_value.simps skip_ws_def startswith_def)
  next
    case (Cons y ys)
    obtain w where w: "join_str [44] (map f xs) = f y @ w" by (cases ys) (auto simp: Cons)
    have gy: "good d' y (f y)" using f Cons by simp
    then obtain c cs where c: "f y = c # cs" "\<not> is_ws c" "c \<noteq> 93"
      by (cases "f y") (auto simp: good_def)
    have "skip_ws (join_str [44] (map f xs) @ 93 # r) = join_str [44] (map f xs) @ 93 # r" for r
      using c by (simp add: w skip_ws_def)
    moreover have "\<not> startswith (join_str [44] (map f xs) @ 93 # r) [93]" for r
      using c by (simp add: w startswith_def)
    ultimately show ?thesis using scan_elems_join [OF g] Cons
      by (simp add: good_def is_ws_def d scan_value.simps)
  qed
  with rm show ?case by (simp add: U_def)
next
  case (PDict kvs)
  then obtain d' where d: "d = Suc d'" by (auto simp: gr0_conv_Suc)
  have dist: "distinct (map fst kvs)" using PDict.prems by simp
  have "\<forall>kv\<in>set kvs. \<exists>t. dumps (copts st) (snd kv) = Inr t \<and> good d' (snd kv) t"
    using PDict d by (fastforce simp: list_all_iff)
  then obtain f where f: "\<forall>kv\<in>set kvs. dumps (copts st) (snd kv) = Inr (f kv) \<and> good d' (snd kv) (f kv)"
    by metis
  let ?kts = "map (\<lambda>kv. (fst kv, f kv)) kvs"
  have rm: "res_map (\<lambda>(k, v). res_bind (dumps (copts st) v) (\<lambda>t. Inr (k, t))) kvs = Inr ?kts"
    using f by (auto simp: res_map_members list_all2_conv_all_nth split: prod.splits) (metis nth_mem snd_conv)
  have srt: "(if st then sort_key fst ?kts else ?kts) = ?kts"
    using PDict.prems by (auto intro!: sort_key_id_if_sorted simp: comp_def)
  let ?ms = "map (\<lambda>(k, t). member_text k t) ?kts"
  have g: "list_all2 (\<lambda>(k, v) m. \<exists>t. m = member_text k t \<and> good d' v t) kvs ?ms"
    using f by (auto simp: list_all2_conv_all_nth split: prod.splits) (metis nth_mem snd_conv)
  have "good d (PDict kvs) (123 # join_str [44] ?ms @ [125])"
  proof (cases kvs)
    case Nil
    then show ?thesis
      by (simp add: good_def is_ws_def d scan_value.simps skip_ws_def startswith_def)
  next
    case (Cons y ys)
    obtain w where w: "join_str [44] ?ms = 34 # w"
      by (cases ys) (auto simp: Cons member_text_def json_str_def)
    have "skip_ws (join_str [44] ?ms @ 125 # r) = join_str [44] ?ms @ 125 # r" for r
      by (simp only: w) (simp add: skip_ws_def is_ws_def)
    moreover have "\<not> startswith (join_str [44] ?ms @ 125 # r) [125]" for r
      by (simp only: w) (simp add: startswith_def)
    ultimately show ?thesis using scan_members_join [OF g] Cons dict_of_distinct [OF dist]
      by (simp add: good_def is_ws_def d scan_value.simps)
  qed
  with rm srt show ?case by (simp add: U_def member_text_def comp_def)
qed simp_all

theorem loads_dumps:
  "json_ok st d v \<Longrightarrow> \<exists>t. dumps (copts st) v = Inr t \<and> loads d t = Inr v"
proof -
  assume "json_ok st d v"
  then obtain t where t: "dumps (copts st) v = Inr t" "good d v t" using dumps_good by blast
  have "follow []" by (simp add: follow_def)
  with t(2) have "scan_value d (t @ []) = Inr (v, [])" unfolding good_def by blast
  moreover have "skip_ws t = t" using t(2) skip_ws_nop [of t "[]"] by (simp add: good_def)
  moreover have "\<not> startswith t [65279]"
    using t(2) by (cases t) (auto simp: startswith_def good_def)
  ultimately have "loads d t = Inr v" by (simp add: loads_def) (simp add: skip_ws_def)
  with t(1) show ?thesis by blast
qed

section \<open>Integers as text\<close>

lemma digit_value_ascii: "is_dig c \<Longrightarrow> digit_value c = Some (c - 48)"
  by (simp add: digit_value_def digit_zeros_def is_dig_def)

lemma digits_value_digits:
  "list_all is_dig s \<Longrightarrow> s \<noteq> [] \<or> prev \<Longrightarrow>
   digits_value prev acc n s = Some (foldl (\<lambda>a c. 10 * a + (c - 48)) acc s, n + length s)"
proof (induction s arbitrary: prev acc n)
  case (Cons c s)
  then have "is_dig c" by simp
  then have "c \<noteq> 95" "digit_value c = Some (c - 48)" by (auto simp: is_dig_def digit_value_ascii)
  with Cons show ?case by simp
qed simp

lemma strip_digits: "list_all is_dig s \<Longrightarrow> strip s = s"
proof -
  assume a: "list_all is_dig s"
  then have "\<not> is_space c" if "c \<in> set s" for c
    using that by (auto simp: list_all_iff is_dig_def is_space_def)
  moreover from this have "dropWhile is_space s = s" "dropWhile is_space (rev s) = rev s"
    by (metis dropWhile_eq_self_iff list.set_sel(1), metis dropWhile_eq_self_iff list.set_sel(1) set_rev)
  ultimately show ?thesis by (simp add: strip_by_def lstrip_by_def rstrip_by_def)
qed

text \<open>\<^verbatim>\<open>int(str(n)) == n\<close> for a number of at most 4300 digits.\<close>

lemma int_of_str_of_nat:
  assumes "length (str_of_nat n) \<le> 4300"
  shows "int_of_str (str_of_nat n) = Inr (int n)"
proof -
  have d: "list_all is_dig (str_of_nat n)" using str_of_nat_digits by (auto simp: list_all_iff)
  have h: "hd (str_of_nat n) \<noteq> 45" "hd (str_of_nat n) \<noteq> 43"
    using str_of_nat_hd_dig [of n] by (auto simp: is_dig_def)
  have "digits_value False 0 0 (str_of_nat n) = Some (n, length (str_of_nat n))"
    using digits_value_digits [OF d, of False 0 0] dec_val_str_of_nat [of n] by (simp add: dec_val_def)
  with h assms strip_digits [OF d] show ?thesis by (simp add: int_of_str_def Let_def)
qed

lemma length_str_of_nat_le: "n < 10 ^ k \<Longrightarrow> 0 < k \<Longrightarrow> length (str_of_nat n) \<le> k"
proof (induction n arbitrary: k rule: str_of_nat.induct)
  case (1 n)
  show ?case
  proof (cases "n < 10")
    case True
    with "1.prems" show ?thesis by (subst str_of_nat.simps) simp
  next
    case False
    then obtain j where k: "k = Suc j" "0 < j" using "1.prems"
      by (cases k; cases "k - 1") auto
    then have "n div 10 < 10 ^ j" using "1.prems" by (simp add: less_mult_imp_div_less mult.commute)
    with "1.IH" [OF False, of j] k False show ?thesis by (subst str_of_nat.simps) simp
  qed
qed

end
