(* ===== verification/Py_Crypto.thy ===== *)
theory Py_Crypto
  imports Py_Json "HOL-Library.Word"
begin

unbundle bit_operations_syntax

text \<open>
  SHA-256 (\<^verbatim>\<open>hashlib.sha256\<close>), HMAC-SHA-256 (\<^verbatim>\<open>hmac.new(key, msg, hashlib.sha256)\<close>), their
  hexadecimal digests and the URL-safe base64 without padding, as the receipt signature, the
  access tokens and the fixture digests use them. The words are 32-bit and their arithmetic wraps.
\<close>

section \<open>SHA-256\<close>

definition sha_k :: "32 word list" where
  "sha_k = [1116352408, 1899447441, 3049323471, 3921009573, 961987163, 1508970993, 2453635748,
     2870763221, 3624381080, 310598401, 607225278, 1426881987, 1925078388, 2162078206,
     2614888103, 3248222580, 3835390401, 4022224774, 264347078, 604807628, 770255983,
     1249150122, 1555081692, 1996064986, 2554220882, 2821834349, 2952996808, 3210313671,
     3336571891, 3584528711, 113926993, 338241895, 666307205, 773529912, 1294757372,
     1396182291, 1695183700, 1986661051, 2177026350, 2456956037, 2730485921, 2820302411,
     3259730800, 3345764771, 3516065817, 3600352804, 4094571909, 275423344, 430227734,
     506948616, 659060556, 883997877, 958139571, 1322822218, 1537002063, 1747873779,
     1955562222, 2024104815, 2227730452, 2361852424, 2428436474, 2756734187, 3204031479,
     3329325298]"

definition sha_h0 :: "32 word list" where
  "sha_h0 = [1779033703, 3144134277, 1013904242, 2773480762, 1359893119, 2600822924, 528734635,
     1541459225]"

definition be_bytes :: "nat \<Rightarrow> nat \<Rightarrow> pybytes" where
  "be_bytes k n = map (\<lambda>i. n div 256 ^ (k - 1 - i) mod 256) [0..<k]"

definition sha_pad :: "pybytes \<Rightarrow> pybytes" where
  "sha_pad m =
     (let n = length m; z = (119 - n mod 64) mod 64
      in m @ [128] @ replicate z 0 @ be_bytes 8 ((8 * n) mod 2 ^ 64))"

fun chunks :: "nat \<Rightarrow> 'a list \<Rightarrow> 'a list list" where
  "chunks k xs = (if k = 0 \<or> xs = [] then [] else take k xs # chunks k (drop k xs))"

declare chunks.simps [simp del]

definition word_of_bytes :: "pybytes \<Rightarrow> 32 word" where
  "word_of_bytes bs = of_nat (foldl (\<lambda>a b. 256 * a + b) 0 bs)"

definition sha_sched_step :: "nat \<Rightarrow> 32 word list \<Rightarrow> 32 word list" where
  "sha_sched_step t w =
     (let a = w ! (t - 15); b = w ! (t - 2);
          s0 = word_rotr 7 a XOR word_rotr 18 a XOR drop_bit 3 a;
          s1 = word_rotr 17 b XOR word_rotr 19 b XOR drop_bit 10 b
      in w @ [s1 + w ! (t - 7) + s0 + w ! (t - 16)])"

definition sha_schedule :: "pybytes \<Rightarrow> 32 word list" where
  "sha_schedule block = fold sha_sched_step [16..<64] (map word_of_bytes (chunks 4 block))"

definition sha_round :: "32 word \<times> 32 word \<Rightarrow> 32 word list \<Rightarrow> 32 word list" where
  "sha_round kw st =
     (let a = st ! 0; b = st ! 1; c = st ! 2; d = st ! 3; e = st ! 4; f = st ! 5; g = st ! 6;
          h = st ! 7;
          s1 = word_rotr 6 e XOR word_rotr 11 e XOR word_rotr 25 e;
          ch = (e AND f) XOR (NOT e AND g);
          t1 = h + s1 + ch + fst kw + snd kw;
          s0 = word_rotr 2 a XOR word_rotr 13 a XOR word_rotr 22 a;
          maj = (a AND b) XOR (a AND c) XOR (b AND c)
      in [t1 + s0 + maj, a, b, c, d + t1, e, f, g])"

definition sha_block :: "pybytes \<Rightarrow> 32 word list \<Rightarrow> 32 word list" where
  "sha_block block st =
     map2 (+) st (fold sha_round (zip sha_k (sha_schedule block)) st)"

definition sha256 :: "pybytes \<Rightarrow> pybytes" where
  "sha256 m = concat (map (\<lambda>w. be_bytes 4 (unat w)) (fold sha_block (chunks 64 (sha_pad m)) sha_h0))"

section \<open>HMAC and digests\<close>

definition hmac_sha256 :: "pybytes \<Rightarrow> pybytes \<Rightarrow> pybytes" where
  "hmac_sha256 key m =
     (let k0 = (if 64 < length key then sha256 key else key);
          k = k0 @ replicate (64 - length k0) 0
      in sha256 (map (\<lambda>b. b XOR 92) k @ sha256 (map (\<lambda>b. b XOR 54) k @ m)))"

definition hexdigest :: "pybytes \<Rightarrow> pystr" where
  "hexdigest bs = concat (map (\<lambda>b. [hex_digit (b div 16), hex_digit (b mod 16)]) bs)"

definition b64_char :: "nat \<Rightarrow> nat" where
  "b64_char n =
     (if n < 26 then 65 + n else if n < 52 then 71 + n else if n < 62 then n - 4
      else if n = 62 then 45 else 95)"

text \<open>\<^verbatim>\<open>base64.urlsafe_b64encode(value).rstrip(b"=")\<close>\<close>

fun base64url :: "pybytes \<Rightarrow> pystr" where
  "base64url [] = []"
| "base64url [a] = [b64_char (a div 4), b64_char (a mod 4 * 16)]"
| "base64url [a, b] = [b64_char (a div 4), b64_char (a mod 4 * 16 + b div 16), b64_char (b mod 16 * 4)]"
| "base64url (a # b # c # r) =
     [b64_char (a div 4), b64_char (a mod 4 * 16 + b div 16), b64_char (b mod 16 * 4 + c div 64),
      b64_char (c mod 64)] @ base64url r"

lemma length_be_bytes [simp]: "length (be_bytes k n) = k"
  by (simp add: be_bytes_def)

lemma length_sha_round: "length (sha_round kw st) = 8"
  by (simp add: sha_round_def Let_def)

lemma length_fold_sha_round: "length st = 8 \<Longrightarrow> length (fold sha_round xs st) = 8"
  by (induction xs arbitrary: st) (auto simp: length_sha_round)

lemma length_fold_sha_block: "length st = 8 \<Longrightarrow> length (fold sha_block bs st) = 8"
  by (induction bs arbitrary: st) (auto simp: sha_block_def length_fold_sha_round)

lemma length_concat_const: "(\<And>x. x \<in> set xs \<Longrightarrow> length (f x) = k) \<Longrightarrow> length (concat (map f xs)) = k * length xs"
  by (induction xs) auto

lemma length_sha256 [simp]: "length (sha256 m) = 32"
  using length_fold_sha_block [of sha_h0 "chunks 64 (sha_pad m)"]
  by (simp add: sha256_def length_concat_const [where k = 4]) (simp add: sha_h0_def)

lemma length_hmac_sha256 [simp]: "length (hmac_sha256 k m) = 32"
  by (simp add: hmac_sha256_def Let_def)

lemma sha256_bytes: "b \<in> set (sha256 m) \<Longrightarrow> b < 256"
  by (auto simp: sha256_def be_bytes_def)

lemma hmac_sha256_bytes: "b \<in> set (hmac_sha256 k m) \<Longrightarrow> b < 256"
  by (auto simp: hmac_sha256_def Let_def sha256_bytes)

lemma length_hexdigest [simp]: "length (hexdigest bs) = 2 * length bs"
  by (induction bs) (auto simp: hexdigest_def)

lemma hex_digit_char: "n < 16 \<Longrightarrow> 48 \<le> hex_digit n \<and> hex_digit n \<le> 57 \<or> 97 \<le> hex_digit n \<and> hex_digit n \<le> 102"
  by (auto simp: hex_digit_def)

lemma hexdigest_lower_hex:
  assumes "\<And>b. b \<in> set bs \<Longrightarrow> b < 256" and "c \<in> set (hexdigest bs)"
  shows "48 \<le> c \<and> c \<le> 57 \<or> 97 \<le> c \<and> c \<le> 102"
proof -
  from assms(2) obtain b where b: "b \<in> set bs" "c = hex_digit (b div 16) \<or> c = hex_digit (b mod 16)"
    by (auto simp: hexdigest_def)
  then have "b div 16 < 16" using assms(1) [OF b(1)] by linarith
  then show ?thesis using b hex_digit_char [of "b div 16"] hex_digit_char [of "b mod 16"] by auto
qed

lemma b64_char_token: "n < 64 \<Longrightarrow> b64_char n < 128 \<and> b64_char n \<noteq> 46 \<and> b64_char n \<noteq> 61"
  by (auto simp: b64_char_def)

lemma b64_digit_bounds:
  "(a::nat) < 256 \<Longrightarrow> a div 4 < 64"
  "b < 256 \<Longrightarrow> a mod 4 * 16 + b div 16 < (64::nat)"
  "c < 256 \<Longrightarrow> b mod 16 * 4 + c div 64 < (64::nat)"
  "a mod 4 * 16 < (64::nat)" "b mod 16 * 4 < (64::nat)"
proof -
  have 1: "a mod 4 < (4::nat)" "b mod 16 < (16::nat)" by simp_all
  show "a div 4 < 64" if "a < 256" using that by linarith
  show "a mod 4 * 16 + b div 16 < 64" if "b < 256"
  proof -
    have "b div 16 < 16" using that by linarith
    with 1 show ?thesis by linarith
  qed
  show "b mod 16 * 4 + c div 64 < 64" if "c < 256"
  proof -
    have "c div 64 < 4" using that by linarith
    with 1 show ?thesis by linarith
  qed
  show "a mod 4 * 16 < 64" "b mod 16 * 4 < 64" using 1 by linarith+
qed

lemma base64url_chars:
  "(\<And>b. b \<in> set bs \<Longrightarrow> b < 256) \<Longrightarrow> c \<in> set (base64url bs) \<Longrightarrow> c < 128 \<and> c \<noteq> 46 \<and> c \<noteq> 61"
proof (induction bs rule: base64url.induct)
  case (2 a)
  have "a < 256" using "2.prems"(1) by simp
  with "2.prems"(2) show ?case
    using b64_char_token [OF b64_digit_bounds(1)] b64_char_token [OF b64_digit_bounds(4)]
    by auto
next
  case (3 a b)
  have "a < 256" "b < 256" using "3.prems"(1) by simp_all
  with "3.prems"(2) show ?case
    using b64_char_token [OF b64_digit_bounds(1)] b64_char_token [OF b64_digit_bounds(2)]
      b64_char_token [OF b64_digit_bounds(5)] by auto
next
  case (4 a b d r)
  have "a < 256" "b < 256" "d < 256" using "4.prems"(1) by simp_all
  then have "b64_char (a div 4) < 128 \<and> b64_char (a div 4) \<notin> {46, 61}"
    "b64_char (a mod 4 * 16 + b div 16) < 128 \<and> b64_char (a mod 4 * 16 + b div 16) \<notin> {46, 61}"
    "b64_char (b mod 16 * 4 + d div 64) < 128 \<and> b64_char (b mod 16 * 4 + d div 64) \<notin> {46, 61}"
    "b64_char (d mod 64) < 128 \<and> b64_char (d mod 64) \<notin> {46, 61}"
    using b64_char_token [OF b64_digit_bounds(1)] b64_char_token [OF b64_digit_bounds(2)]
      b64_char_token [OF b64_digit_bounds(3)] b64_char_token [of "d mod 64"] by simp_all
  with "4.IH" "4.prems" show ?case by auto
qed simp

end
