(* ===== verification/Receipt_Contract.thy ===== *)
theory Receipt_Contract
  imports Py_Json_Roundtrip Py_Crypto
begin

text \<open>
  The contract of a receipt codec: a function that turns a legacy callback into a receipt of
  version 1, the bytes of a receipt and their signature. The adapter's module and the
  checkers of weeks 3 and 4 each implement it; the locale \<open>receipt_codec\<close> holds what they share.
\<close>

text \<open>\<^verbatim>\<open>"\r" in value or "\n" in value\<close>\<close>

definition has_crlf :: "pystr \<Rightarrow> bool" where
  "has_crlf s = (13 \<in> set s \<or> 10 \<in> set s)"

section \<open>The shape of a receipt\<close>

definition receipt_of :: "pystr \<Rightarrow> pystr \<Rightarrow> pystr \<Rightarrow> pystr \<Rightarrow> pyval" where
  "receipt_of op pid occ result = PDict [(U ''externalRequestId'', PStr op), (U ''messageId'', PStr pid),
     (U ''occurredAt'', PStr occ), (U ''outcome'', PStr result),
     (U ''providerPaymentId'', PStr pid), (U ''version'', PInt 1)]"

definition text_ok :: "pystr \<Rightarrow> bool" where
  "text_ok s = (s \<noteq> [] \<and> length s \<le> 128 \<and> \<not> has_crlf s)"

lemma sorted_receipt_keys:
  "sorted [U ''externalRequestId'', U ''messageId'', U ''occurredAt'', U ''outcome'',
     U ''providerPaymentId'', U ''version'']"
  by code_simp

lemma receipt_json_ok: "0 < d \<Longrightarrow> json_ok True d (receipt_of op pid occ result)"
proof -
  assume "0 < d"
  note sorted_receipt_keys
  moreover have "length (str_of_nat (nat \<bar>1\<bar>)) \<le> 4300" by (simp add: str_of_nat.simps)
  ultimately show ?thesis using \<open>0 < d\<close> by (simp add: receipt_of_def)
qed

lemma compact_sorted_copts: "compact_sorted = copts True"
  by (simp add: compact_sorted_def copts_def)

section \<open>Encoding\<close>

definition encodable :: "pystr \<Rightarrow> bool" where
  "encodable s = list_all (\<lambda>c. c < 1114112 \<and> \<not> is_surrogate c) s"

lemma encodable_append [simp]: "encodable (a @ b) \<longleftrightarrow> encodable a \<and> encodable b"
  by (simp add: encodable_def)

lemma encodable_Cons [simp]: "encodable (c # s) \<longleftrightarrow> c < 1114112 \<and> \<not> is_surrogate c \<and> encodable s"
  by (auto simp: encodable_def)

lemma encodable_Nil [simp]: "encodable []"
  by (simp add: encodable_def)

lemma utf8_encode_cases:
  "utf8_encode s = (if encodable s then Inr (projr (utf8_encode s)) else Inl UnicodeEncodeError)"
proof (cases "utf8_encode s")
  case (Inl e)
  then have "\<not> (\<exists>b. utf8_encode s = Inr b)" by simp
  then have "\<not> encodable s" unfolding utf8_encode_ok_iff encodable_def list_all_iff by blast
  with Inl utf8_encode_Inl [OF Inl] show ?thesis by simp
next
  case (Inr b)
  then have "\<exists>b. utf8_encode s = Inr b" by simp
  then have "encodable s" unfolding utf8_encode_ok_iff encodable_def list_all_iff .
  with Inr show ?thesis by simp
qed

lemma encodable_json_char: "encodable (json_char False c) \<longleftrightarrow> encodable [c]"
  by (auto simp: encodable_def json_char_def is_surrogate_def esc_u_def hex4_def hex_digit_def)

lemma encodable_concat_json: "encodable (concat (map (json_char False) s)) \<longleftrightarrow> encodable s"
proof (induction s)
  case (Cons c s)
  then show ?case using encodable_json_char [of c] by simp
qed simp

lemma encodable_json_str: "encodable (json_str False s) \<longleftrightarrow> encodable s"
  by (simp add: json_str_def encodable_concat_json is_surrogate_def)

lemma encodable_U: "encodable (U s)"
proof -
  have "c < 256" if "c \<in> set (U s)" for c using that by (rule U_less_256)
  then show ?thesis by (fastforce simp: encodable_def list_all_iff is_surrogate_def)
qed

lemma dumps_receipt:
  "\<exists>t. dumps compact_sorted (receipt_of op pid occ result) = Inr t \<and>
     (encodable t \<longleftrightarrow> encodable op \<and> encodable pid \<and> encodable occ \<and> encodable result)"
proof -
  have srt: "sort_key fst [(U ''externalRequestId'', a), (U ''messageId'', b), (U ''occurredAt'', c),
      (U ''outcome'', d), (U ''providerPaymentId'', e), (U ''version'', f)] =
     [(U ''externalRequestId'', a), (U ''messageId'', b), (U ''occurredAt'', c),
      (U ''outcome'', d), (U ''providerPaymentId'', e), (U ''version'', f)]" for a b c d e f :: pystr
    by (rule sort_key_id_if_sorted) (simp only: list.map fst_conv sorted_receipt_keys)
  have ascii: "encodable [44]" "encodable [58]" "encodable (str_of_int 1)"
    by (simp_all add: is_surrogate_def str_of_int_def str_of_nat.simps)
  have ns: "\<not> is_surrogate 44" "\<not> is_surrogate 58" by (simp_all add: is_surrogate_def)
  let ?m = "\<lambda>k t. json_str False (U k) @ [58] @ t"
  let ?t = "U ''{'' @ join_str [44] [?m ''externalRequestId'' (json_str False op),
     ?m ''messageId'' (json_str False pid), ?m ''occurredAt'' (json_str False occ),
     ?m ''outcome'' (json_str False result), ?m ''providerPaymentId'' (json_str False pid),
     ?m ''version'' (str_of_int 1)] @ U ''}''"
  have "dumps compact_sorted (receipt_of op pid occ result) = Inr ?t"
    by (simp add: receipt_of_def compact_sorted_copts srt del: sort_key_simps)
  moreover have "encodable ?t \<longleftrightarrow> encodable op \<and> encodable pid \<and> encodable occ \<and> encodable result"
    by (auto simp: encodable_json_str encodable_U ascii ns)
  ultimately show ?thesis by blast
qed

section \<open>The interface\<close>

text \<open>
  \<open>normalize\<close> yields receipts of this shape only, \<open>encode\<close> writes sorted compact JSON as UTF-8,
  \<open>signature\<close> is the tagged hexadecimal HMAC.
\<close>

locale receipt_codec =
  fixes normalize :: "pyval \<Rightarrow> pyval res"
    and encode :: "pyval \<Rightarrow> pybytes res"
    and signature :: "pystr \<Rightarrow> pybytes \<Rightarrow> pystr res"
  assumes normalize_shape: "normalize v = Inr r \<Longrightarrow> \<exists>op pid occ result. r = receipt_of op pid occ result \<and>
      result \<in> {U ''COMPLETED'', U ''REJECTED''}"
    and encode_sorted: "encode r = res_bind (dumps compact_sorted r) utf8_encode"
    and signature_hmac: "signature secret body =
      res_bind (utf8_encode secret) (\<lambda>key. Inr (U ''v1='' @ hexdigest (hmac_sha256 key body)))"
begin

lemma encode_roundtrip:
  assumes "normalize v = Inr r" and "encode r = Inr b" and "0 < d"
  shows "loads_bytes d b = Inr r"
proof -
  from normalize_shape [OF assms(1)] obtain op pid occ result where r: "r = receipt_of op pid occ result"
    by blast
  obtain t where t: "dumps compact_sorted r = Inr t" "loads d t = Inr r"
    using loads_dumps [OF receipt_json_ok [OF assms(3)]] unfolding r compact_sorted_copts by blast
  with assms(2) have "utf8_encode t = Inr b" by (simp add: encode_sorted)
  with t show ?thesis by (simp add: loads_bytes_def utf8_decode_encode)
qed

lemma encode_inject:
  assumes "normalize v = Inr r" and "normalize v' = Inr r'" and "encode r = Inr b" and "encode r' = Inr b"
  shows "r = r'"
  using encode_roundtrip [OF assms(1,3), of 1] encode_roundtrip [OF assms(2,4), of 1] by simp

lemma encode_error:
  assumes "normalize v = Inr (receipt_of op pid occ result)"
  shows "case encode (receipt_of op pid occ result) of
      Inr b \<Rightarrow> encodable op \<and> encodable pid \<and> encodable occ
    | Inl e \<Rightarrow> e = UnicodeEncodeError \<and> \<not> (encodable op \<and> encodable pid \<and> encodable occ)"
proof -
  have "result \<in> {U ''COMPLETED'', U ''REJECTED''}"
    using normalize_shape [OF assms] by (auto simp: receipt_of_def)
  then have "encodable result" using encodable_U by auto
  moreover obtain t where "dumps compact_sorted (receipt_of op pid occ result) = Inr t"
    "encodable t \<longleftrightarrow> encodable op \<and> encodable pid \<and> encodable occ \<and> encodable result"
    using dumps_receipt by blast
  ultimately show ?thesis
    using utf8_encode_cases [of t] by (auto simp: encode_sorted split: if_splits sum.splits)
qed

lemma signature_format:
  assumes "signature secret body = Inr s"
  shows "\<exists>key hex. utf8_encode secret = Inr key \<and> s = U ''v1='' @ hex \<and>
    hex = hexdigest (hmac_sha256 key body) \<and> length hex = 64 \<and>
    (\<forall>c\<in>set hex. 48 \<le> c \<and> c \<le> 57 \<or> 97 \<le> c \<and> c \<le> 102)"
proof -
  from assms obtain key where "utf8_encode secret = Inr key"
    "s = U ''v1='' @ hexdigest (hmac_sha256 key body)" by (auto simp: signature_hmac)
  moreover have "\<forall>c\<in>set (hexdigest (hmac_sha256 key body)). 48 \<le> c \<and> c \<le> 57 \<or> 97 \<le> c \<and> c \<le> 102"
    using hexdigest_lower_hex hmac_sha256_bytes by meson
  ultimately show ?thesis by auto
qed

end

end
