(* ===== verification/Checker_Common.thy ===== *)
theory Checker_Common
  imports Py_Json Py_Regex Py_Url Py_Datetime Receipt_Contract
begin

text \<open>
  What the checkers of all weeks share: iteration over a value, attribute access on a value that
  may not be a dictionary, comparison and membership across types, paths, addresses, UUIDs,
  percent encoding and a few functions of the standard library.
\<close>

section \<open>Values of unknown type\<close>

text \<open>\<^verbatim>\<open>for x in v\<close>\<close>

fun py_iter :: "pyval \<Rightarrow> pyval list res" where
  "py_iter (PList xs) = Inr xs"
| "py_iter (PTuple xs) = Inr xs"
| "py_iter (PSet xs) = Inr xs"
| "py_iter (PStr s) = Inr (map (\<lambda>c. PStr [c]) s)"
| "py_iter (PDict d) = Inr (map (\<lambda>(k, v). PStr k) d)"
| "py_iter _ = Inl TypeError"

text \<open>\<^verbatim>\<open>a or b\<close>\<close>

definition py_or :: "pyval \<Rightarrow> pyval \<Rightarrow> pyval" where
  "py_or a b = (if truthy a then a else b)"

text \<open>\<^verbatim>\<open>v.get(k, default)\<close> for a value that may not have the method.\<close>

fun get_attr :: "pyval \<Rightarrow> pyval \<Rightarrow> pystr \<Rightarrow> pyval res" where
  "get_attr def (PDict d) k = Inr (dget_def def d k)"
| "get_attr def _ k = Inl AttributeError"

text \<open>\<^verbatim>\<open>x in v\<close>: a dictionary compares hashes first and refuses unhashable values.\<close>

fun hashable :: "pyval \<Rightarrow> bool" where
  "hashable (PList _) = False"
| "hashable (PSet _) = False"
| "hashable (PDict _) = False"
| "hashable (PTuple xs) = list_all hashable xs"
| "hashable _ = True"

fun py_contains :: "pyval \<Rightarrow> pyval \<Rightarrow> bool res" where
  "py_contains x (PList ys) = Inr (py_in x ys)"
| "py_contains x (PTuple ys) = Inr (py_in x ys)"
| "py_contains x (PSet ys) = (if hashable x then Inr (py_in x ys) else Inl TypeError)"
| "py_contains x (PDict d) =
     (if hashable x then Inr (case x of PStr k \<Rightarrow> k \<in> dkeys d | _ \<Rightarrow> False) else Inl TypeError)"
| "py_contains x (PStr s) = (case x of PStr t \<Rightarrow> Inr (contains t s) | _ \<Rightarrow> Inl TypeError)"
| "py_contains x _ = Inl TypeError"

text \<open>\<^verbatim>\<open>a < b\<close> for numbers; an infinity is compared by its sign, a NaN is never smaller.\<close>

fun num_rank :: "pyval \<Rightarrow> int option" where
  "num_rank (PFloat (FInf neg)) = Some (if neg then -1 else 1)"
| "num_rank (PFloat FNaN) = None"
| "num_rank v = (if num_val v = None then None else Some 0)"

fun is_num :: "pyval \<Rightarrow> bool" where
  "is_num (PBool _) = True"
| "is_num (PInt _) = True"
| "is_num (PFloat _) = True"
| "is_num _ = False"

definition py_less :: "pyval \<Rightarrow> pyval \<Rightarrow> bool res" where
  "py_less a b =
     (if \<not> is_num a \<or> \<not> is_num b then Inl TypeError
      else Inr (case (num_val a, num_val b) of
          (Some x, Some y) \<Rightarrow> num_less x y
        | _ \<Rightarrow> (case (num_rank a, num_rank b) of (Some i, Some j) \<Rightarrow> i < j | _ \<Rightarrow> False)))"

text \<open>\<^verbatim>\<open>service.get(key, default) or default\<close>\<close>

definition get_or :: "pyval \<Rightarrow> pydict \<Rightarrow> pystr \<Rightarrow> pyval" where
  "get_or def d k = py_or (dget_def def d k) def"

section \<open>Conditions that may raise\<close>

text \<open>\<^verbatim>\<open>a or b\<close>, where the second operand is evaluated only if the first is false.\<close>

definition res_or :: "bool res \<Rightarrow> bool res \<Rightarrow> bool res" where
  "res_or a b = res_bind a (\<lambda>x. if x then Inr True else b)"

text \<open>\<^verbatim>\<open>any(f(x) for x in xs)\<close> stops at the first true value.\<close>

fun res_any :: "('a \<Rightarrow> bool res) \<Rightarrow> 'a list \<Rightarrow> bool res" where
  "res_any f [] = Inr False"
| "res_any f (x # xs) = res_or (f x) (res_any f xs)"

text \<open>A loop that appends the findings of each element.\<close>

definition res_concat :: "('a \<Rightarrow> 'b list res) \<Rightarrow> 'a list \<Rightarrow> 'b list res" where
  "res_concat f xs = res_bind (res_map f xs) (\<lambda>ys. Inr (concat ys))"

text \<open>\<^verbatim>\<open>if cond: findings.append(message)\<close>\<close>

definition note_if :: "bool \<Rightarrow> 'a \<Rightarrow> 'a list" where
  "note_if b x = (if b then [x] else [])"

text \<open>Two groups of findings, the second computed after the first.\<close>

definition res_append :: "'a list res \<Rightarrow> 'a list res \<Rightarrow> 'a list res" where
  "res_append a b = res_bind a (\<lambda>x. res_bind b (\<lambda>y. Inr (x @ y)))"

lemma res_or_False [simp]: "res_or a b = Inr False \<longleftrightarrow> a = Inr False \<and> b = Inr False"
  by (cases a) (auto simp: res_or_def)

lemma res_any_False: "res_any f xs = Inr False \<longleftrightarrow> (\<forall>x\<in>set xs. f x = Inr False)"
  by (induction xs) auto

lemma res_concat_Nil: "res_concat f xs = Inr [] \<longleftrightarrow> (\<forall>x\<in>set xs. f x = Inr [])"
proof -
  have "(\<exists>ys. res_map f xs = Inr ys \<and> concat ys = []) \<longleftrightarrow> (\<forall>x\<in>set xs. f x = Inr [])"
  proof (induction xs)
    case (Cons x xs)
    then show ?case by (cases "f x") auto
  qed simp
  then show ?thesis by (auto simp: res_concat_def)
qed

lemma res_append_Nil [simp]: "res_append a b = Inr [] \<longleftrightarrow> a = Inr [] \<and> b = Inr []"
  by (auto simp: res_append_def)

lemma note_if_Nil [simp]: "note_if b x = [] \<longleftrightarrow> \<not> b"
  by (simp add: note_if_def)

section \<open>Paths\<close>

text \<open>
  A path is its text; \<open>resolve\<close> stands for \<^verbatim>\<open>Path.resolve\<close>, which reads the file system: it gives
  the components of the real path or raises.
\<close>

definition is_absolute :: "pystr \<Rightarrow> bool" where
  "is_absolute p = startswith p (U ''/'')"

definition path_join :: "pystr \<Rightarrow> pystr \<Rightarrow> pystr" where
  "path_join a b = (if is_absolute b then b else if b = [] then a else a @ U ''/'' @ b)"

text \<open>\<^verbatim>\<open>path.relative_to(root)\<close> raises unless the components of the root come first.\<close>

definition is_relative_to :: "pystr list \<Rightarrow> pystr list \<Rightarrow> bool" where
  "is_relative_to p root = (take (length root) p = root)"

section \<open>Expressions\<close>

text \<open>\<^verbatim>\<open>[a-z]\<close> under \<^verbatim>\<open>re.I\<close> also matches four letters outside ASCII.\<close>

definition letter_ci :: "nat \<Rightarrow> bool" where
  "letter_ci c = (in_range 65 90 c \<or> in_range 97 122 c \<or> c = 304 \<or> c = 305 \<or> c = 383 \<or> c = 8490)"

definition names_ci :: "string list \<Rightarrow> regex" where
  "names_ci ns = ralts (map rstr_ci ns)"

text \<open>
  The class \<^verbatim>\<open>\w\<close>: ASCII letters, digits and the underscore, and what \<open>alnum\<close>, the table of
  \<^verbatim>\<open>str.isalnum\<close>, says of a character outside ASCII.
\<close>

definition is_word :: "(nat \<Rightarrow> bool) \<Rightarrow> nat \<Rightarrow> bool" where
  "is_word alnum c = (in_range 48 57 c \<or> in_range 65 90 c \<or> in_range 97 122 c \<or> c = 95 \<or> 128 \<le> c \<and> alnum c)"

section \<open>UUIDs\<close>

text \<open>\<^verbatim>\<open>int(s, 16)\<close>\<close>

definition digit16 :: "nat \<Rightarrow> nat option" where
  "digit16 c = (if in_range 97 102 c then Some (c - 87) else if in_range 65 70 c then Some (c - 55) else digit_value c)"

fun digits16 :: "bool \<Rightarrow> nat \<Rightarrow> pystr \<Rightarrow> nat option" where
  "digits16 prev acc [] = (if prev then Some acc else None)"
| "digits16 prev acc (c # cs) =
     (if c = 95 then (if prev then digits16 False acc cs else None)
      else case digit16 c of None \<Rightarrow> None | Some d \<Rightarrow> digits16 True (16 * acc + d) cs)"

definition drop_0x :: "pystr \<Rightarrow> pystr" where
  "drop_0x u = (if startswith u (U ''0x'') \<or> startswith u (U ''0X'')
     then (let v = drop 2 u in if startswith v (U ''_'') then drop 1 v else v) else u)"

definition int16 :: "pystr \<Rightarrow> int option" where
  "int16 s =
     (let t = strip s; neg = startswith t (U ''-''); u = (if neg \<or> startswith t (U ''+'') then drop 1 t else t)
      in map_option (\<lambda>n. if neg then - int n else int n) (digits16 False 0 (drop_0x u)))"

text \<open>Whether \<^verbatim>\<open>uuid.UUID(item)\<close> succeeds.\<close>

definition is_uuid :: "pystr \<Rightarrow> bool" where
  "is_uuid item =
     (let h = replace_str (U ''uuid:'') [] (replace_str (U ''urn:'') [] item);
          hex = replace_str (U ''-'') [] (strip_by (\<lambda>c. c = 123 \<or> c = 125) h)
      in length hex = 32 \<and> (case int16 hex of None \<Rightarrow> False | Some n \<Rightarrow> 0 \<le> n))"

section \<open>Further operations on values of unknown type\<close>

text \<open>\<^verbatim>\<open>len(v)\<close> and \<^verbatim>\<open>v[0]\<close>\<close>

fun py_len :: "pyval \<Rightarrow> nat res" where
  "py_len (PStr s) = Inr (length s)"
| "py_len (PList xs) = Inr (length xs)"
| "py_len (PTuple xs) = Inr (length xs)"
| "py_len (PSet xs) = Inr (length xs)"
| "py_len (PDict d) = Inr (length d)"
| "py_len _ = Inl TypeError"

fun py_first :: "pyval \<Rightarrow> pyval res" where
  "py_first (PStr s) = (case s of [] \<Rightarrow> Inl IndexError | c # _ \<Rightarrow> Inr (PStr [c]))"
| "py_first (PList xs) = (case xs of [] \<Rightarrow> Inl IndexError | x # _ \<Rightarrow> Inr x)"
| "py_first (PTuple xs) = (case xs of [] \<Rightarrow> Inl IndexError | x # _ \<Rightarrow> Inr x)"
| "py_first (PDict d) = Inl (KeyError (U ''0''))"
| "py_first _ = Inl TypeError"

text \<open>\<^verbatim>\<open>a and b\<close>, where the second operand is evaluated only if the first is true, and \<^verbatim>\<open>all\<close>.\<close>

definition res_and :: "bool res \<Rightarrow> bool res \<Rightarrow> bool res" where
  "res_and a b = res_bind a (\<lambda>x. if x then b else Inr False)"

fun res_all :: "('a \<Rightarrow> bool res) \<Rightarrow> 'a list \<Rightarrow> bool res" where
  "res_all f [] = Inr True"
| "res_all f (x # xs) = res_and (f x) (res_all f xs)"

lemma res_and_True [simp]: "res_and a b = Inr True \<longleftrightarrow> a = Inr True \<and> b = Inr True"
  by (cases a) (auto simp: res_and_def)

lemma res_all_True: "res_all f xs = Inr True \<longleftrightarrow> (\<forall>x\<in>set xs. f x = Inr True)"
  by (induction xs) auto

text \<open>
  \<^verbatim>\<open>a < b\<close> for any two values: numbers by value, texts and lists from left to right; other
  pairs raise \<^verbatim>\<open>TypeError\<close>.
\<close>

fun py_lt :: "pyval \<Rightarrow> pyval \<Rightarrow> bool res" where
  "py_lt (PStr a) (PStr b) = Inr (a < b)"
| "py_lt (PList (x # xs)) (PList (y # ys)) = (if py_eq x y then py_lt (PList xs) (PList ys) else py_lt x y)"
| "py_lt (PList []) (PList ys) = Inr (ys \<noteq> [])"
| "py_lt (PList xs) (PList []) = Inr False"
| "py_lt a b = py_less a b"

text \<open>\<^verbatim>\<open>sorted(xs)\<close> by insertion from the left; on values that \<^verbatim>\<open><\<close> orders totally every stable sort agrees.\<close>

fun py_insort :: "pyval \<Rightarrow> pyval list \<Rightarrow> pyval list res" where
  "py_insort x [] = Inr [x]"
| "py_insort x (y # ys) = res_bind (py_lt x y) (\<lambda>b. if b then Inr (x # y # ys)
     else res_bind (py_insort x ys) (\<lambda>zs. Inr (y # zs)))"

definition py_sorted :: "pyval list \<Rightarrow> pyval list res" where
  "py_sorted xs = res_fold py_insort xs []"

text \<open>The elements of a set of values, in the order in which they come.\<close>

fun dedup :: "pyval list \<Rightarrow> pyval list" where
  "dedup [] = []"
| "dedup (x # xs) = x # filter (\<lambda>y. \<not> py_eq x y) (dedup xs)"

definition py_set :: "pyval list \<Rightarrow> pyval list res" where
  "py_set xs = (if list_all hashable xs then Inr (dedup xs) else Inl TypeError)"

section \<open>The canonical text of a UUID\<close>

definition uuid_digits :: "pystr \<Rightarrow> pystr" where
  "uuid_digits item = replace_str (U ''-'') [] (strip_by (\<lambda>c. c = 123 \<or> c = 125) (replace_str (U ''uuid:'') [] (replace_str (U ''urn:'') [] item)))"

definition hex32 :: "nat \<Rightarrow> pystr" where
  "hex32 n = map (\<lambda>i. hex_digit (n div 16 ^ i mod 16)) (rev [0..<32])"

definition hyphenated :: "pystr \<Rightarrow> pystr" where
  "hyphenated h = take 8 h @ U ''-'' @ take 4 (drop 8 h) @ U ''-'' @ take 4 (drop 12 h) @ U ''-'' @ take 4 (drop 16 h) @ U ''-'' @ drop 20 h"

text \<open>\<^verbatim>\<open>str(uuid.UUID(item))\<close>\<close>

definition uuid_text :: "pystr \<Rightarrow> pystr option" where
  "uuid_text item = (if is_uuid item then (case int16 (uuid_digits item) of Some n \<Rightarrow> Some (hyphenated (hex32 (nat n))) | None \<Rightarrow> None) else None)"

text \<open>A canonical text has no quote, no semicolon and no line break.\<close>

lemma hex_digit_plain: "n < 16 \<Longrightarrow> in_range 48 57 (hex_digit n) \<or> in_range 97 102 (hex_digit n)"
  by (auto simp: hex_digit_def in_range_def)

lemma hex32_plain: "c \<in> set (hex32 n) \<Longrightarrow> in_range 48 57 c \<or> in_range 97 102 c"
proof -
  assume "c \<in> set (hex32 n)"
  then obtain i where "c = hex_digit (n div 16 ^ i mod 16)" unfolding hex32_def by auto
  moreover have "n div 16 ^ i mod 16 < 16" by simp
  ultimately show ?thesis using hex_digit_plain by blast
qed

lemma hyphenated_set: "c \<in> set (hyphenated u) \<Longrightarrow> c \<in> set u \<or> c = 45"
proof -
  assume "c \<in> set (hyphenated u)"
  moreover have "U ''-'' = [45]" by code_simp
  ultimately show ?thesis unfolding hyphenated_def by (auto dest: in_set_takeD in_set_dropD)
qed

lemma uuid_text_plain: "uuid_text v = Some t \<Longrightarrow> c \<in> set t \<Longrightarrow> in_range 48 57 c \<or> in_range 97 102 c \<or> c = 45"
  by (auto simp: uuid_text_def split: if_splits option.splits dest!: hyphenated_set dest: hex32_plain)

section \<open>Percent encoding\<close>

definition unreserved :: "nat \<Rightarrow> bool" where
  "unreserved c = (in_range 48 57 c \<or> in_range 65 90 c \<or> in_range 97 122 c \<or> c \<in> {45, 46, 95, 126})"

definition upper_hex :: "nat \<Rightarrow> nat" where
  "upper_hex n = (if n < 10 then 48 + n else 55 + n)"

text \<open>\<^verbatim>\<open>quote(s, safe="")\<close>\<close>

definition quote :: "pystr \<Rightarrow> pystr res" where
  "quote s = res_bind (utf8_encode s) (\<lambda>bs.
     Inr (concat (map (\<lambda>b. if unreserved b then [b] else [37, upper_hex (b div 16), upper_hex (b mod 16)]) bs)))"

lemma quote_plain:
  assumes "quote s = Inr t" "c \<in> set t"
  shows "unreserved c \<or> c = 37"
proof -
  from assms(1) obtain bs where bs: "utf8_encode s = Inr bs"
    "t = concat (map (\<lambda>b. if unreserved b then [b] else [37, upper_hex (b div 16), upper_hex (b mod 16)]) bs)"
    by (auto simp: quote_def)
  have u: "unreserved (upper_hex n)" if "n < 16" for n using that by (auto simp: upper_hex_def unreserved_def in_range_def)
  from assms(2) obtain b where b: "b \<in> set bs"
    "c \<in> set (if unreserved b then [b] else [37, upper_hex (b div 16), upper_hex (b mod 16)])"
    unfolding bs(2) set_concat set_map by blast
  from utf8_encode_bytes [OF bs(1)] b(1) have "b < 256" by blast
  then have "b div 16 < 16" "b mod 16 < 16" by auto
  with b(2) u show ?thesis by (auto split: if_splits)
qed

end
