(* ===== verification/Week4_Constants.thy ===== *)
theory Week4_Constants
  imports Checker_Common
begin

text \<open>
  The published tables of \<^verbatim>\<open>task/week4/autocheck/public_check.py\<close>, line for line: services, metrics,
  environment variables with their recipients, views with their columns and the column types.
\<close>

definition MANIFEST_VERSION :: pystr where
  "MANIFEST_VERSION =
     U ''week-4-public-report/v1''"

definition TOOL_VERSION :: pystr where
  "TOOL_VERSION =
     U ''week-4-public-check/0.4''"

definition PUBLISHED_FIXTURE_DIGEST :: pystr where
  "PUBLISHED_FIXTURE_DIGEST =
     U ''f6900512f66ea58afe7fe6b739ac02a433573080a7cc6134e8fed4abfec44813''"

definition PUBLISHED_FIXTURE_GENERATOR :: pystr where
  "PUBLISHED_FIXTURE_GENERATOR =
     U ''week-4.1''"

definition PROVIDER_IMAGE :: pystr where
  "PROVIDER_IMAGE =
     U ''ghcr.io/fintech-dev-lab/internship-provider-simulator:v0.2.0@sha256:70'' @
     U ''e5e0dd9ab8425be84de431ec74516f9bedf5d5529077358e2e2b2037fe0c74''"

definition COMPOSE_NAMES :: "pystr list" where
  "COMPOSE_NAMES =
     map U [''compose.yaml'', ''compose.yml'', ''docker-compose.yml'', ''docker-compose.yaml'']"

definition REQUIRED_SERVICES :: "pystr set" where
  "REQUIRED_SERVICES =
     U ` {''gateway'', ''api'', ''cli'', ''postgres'', ''worker-a'', ''worker-b'',
        ''outbox-dispatcher'', ''outbox-dispatcher-b'', ''receipt-adapter'',
        ''inbox-reconciler'', ''inbox-reconciler-b'', ''provider-simulator''}"

definition RUNNING_SERVICES :: "pystr set" where
  "RUNNING_SERVICES = REQUIRED_SERVICES - {U ''cli''}"

definition PYTHON_SERVICES :: "pystr list" where
  "PYTHON_SERVICES =
     map U [''outbox-dispatcher'', ''outbox-dispatcher-b'', ''receipt-adapter'',
        ''inbox-reconciler'', ''inbox-reconciler-b'']"

definition CSHARP_SERVICES :: "pystr list" where
  "CSHARP_SERVICES =
     map U [''gateway'', ''api'', ''worker-a'', ''worker-b'']"

definition OBSERVABILITY_ENDPOINTS :: "(pystr \<times> pystr) list" where
  "OBSERVABILITY_ENDPOINTS =
     [(U ''api'', U ''http://api:8080''), (U ''worker-a'', U ''http://worker-a:8080''),
      (U ''worker-b'', U ''http://worker-b:8080''),
      (U ''outbox-dispatcher'', U ''http://outbox-dispatcher:8080''),
      (U ''outbox-dispatcher-b'', U ''http://outbox-dispatcher-b:8080''),
      (U ''receipt-adapter'', U ''http://receipt-adapter:8082''),
      (U ''inbox-reconciler'', U ''http://inbox-reconciler:8080''),
      (U ''inbox-reconciler-b'', U ''http://inbox-reconciler-b:8080'')]"

definition INTERNAL_PORTS :: "(pystr \<times> int) list" where
  "INTERNAL_PORTS =
     [(U ''api'', 8080), (U ''worker-a'', 8080), (U ''worker-b'', 8080),
      (U ''outbox-dispatcher'', 8080), (U ''outbox-dispatcher-b'', 8080),
      (U ''receipt-adapter'', 8082), (U ''inbox-reconciler'', 8080),
      (U ''inbox-reconciler-b'', 8080), (U ''postgres'', 5432), (U ''provider-simulator'', 8081)]"

definition REQUIRED_METRICS :: "pystr set" where
  "REQUIRED_METRICS =
     U ` {''workflow_jobs_ready'', ''workflow_job_oldest_age_seconds'',
        ''workflow_processes_waiting'', ''outbox_pending'', ''outbox_oldest_age_seconds'',
        ''workflow_failures_total''}"

definition REQUIRED_METRIC_TYPES :: "(pystr \<times> pystr) list" where
  "REQUIRED_METRIC_TYPES =
     [(U ''workflow_jobs_ready'', U ''gauge''),
      (U ''workflow_job_oldest_age_seconds'', U ''gauge''),
      (U ''workflow_processes_waiting'', U ''gauge''), (U ''outbox_pending'', U ''gauge''),
      (U ''outbox_oldest_age_seconds'', U ''gauge''), (U ''workflow_failures'', U ''counter'')]"

definition FORBIDDEN_METRIC_LABELS :: "pystr set" where
  "FORBIDDEN_METRIC_LABELS =
     U ` {''correlation_id'', ''request_id'', ''operation_id'', ''process_id'',
        ''step_instance_id'', ''job_id'', ''execution_id'', ''attempt_id'', ''outbox_id'',
        ''external_request_id'', ''message_id'', ''decision_id'', ''correlationId'',
        ''requestId'', ''operationId'', ''processId'', ''stepInstanceId'', ''jobId'',
        ''executionId'', ''attemptId'', ''outboxId'', ''externalRequestId'', ''messageId'',
        ''decisionId''}"

definition REQUIRED_ENV_RECIPIENTS :: "(pystr \<times> pystr list) list" where
  "REQUIRED_ENV_RECIPIENTS =
     [(U ''COURSE_GATEWAY_PORT'', map U [''gateway'']),
      (U ''COURSE_TEST_PROFILE'', map U [''gateway'', ''api'', ''worker-a'', ''worker-b'', ''cli'', ''outbox-dispatcher'', ''outbox-dispatcher-b'', ''receipt-adapter'', ''inbox-reconciler'', ''inbox-reconciler-b'']),
      (U ''COURSE_JWT_ISSUER'', map U [''gateway'', ''api'', ''worker-a'', ''worker-b'', ''cli'']),
      (U ''COURSE_JWT_AUDIENCE'', map U [''gateway'', ''api'', ''worker-a'', ''worker-b'', ''cli'']),
      (U ''COURSE_JWT_SIGNING_KEY'', map U [''gateway'', ''api'', ''worker-a'', ''worker-b'', ''cli'']),
      (U ''COURSE_POSTGRES_PASSWORD'', map U [''postgres'']),
      (U ''COURSE_MIGRATOR_PASSWORD'', map U [''postgres'', ''cli'']),
      (U ''COURSE_PUBLISHER_PASSWORD'', map U [''postgres'', ''cli'']),
      (U ''COURSE_RUNTIME_PASSWORD'', map U [''postgres'', ''api'']),
      (U ''COURSE_WORKER_PASSWORD'', map U [''postgres'', ''worker-a'', ''worker-b'']),
      (U ''COURSE_OUTBOX_PASSWORD'', map U [''postgres'', ''outbox-dispatcher'', ''outbox-dispatcher-b'']),
      (U ''COURSE_INBOX_PASSWORD'', map U [''postgres'', ''inbox-reconciler'', ''inbox-reconciler-b'']),
      (U ''COURSE_AUTOCHECK_PASSWORD'', map U [''postgres'']),
      (U ''PROVIDER_URL'', map U [''outbox-dispatcher'', ''outbox-dispatcher-b'']),
      (U ''OUTBOX_OWNER'', map U [''outbox-dispatcher'']),
      (U ''OUTBOX_OWNER_B'', map U [''outbox-dispatcher-b'']),
      (U ''COURSE_FAILPOINT'', map U [''api'', ''worker-a'', ''worker-b'', ''outbox-dispatcher'', ''outbox-dispatcher-b'', ''inbox-reconciler'', ''inbox-reconciler-b'']),
      (U ''COURSE_PROVIDER_TIMEOUT_MS'', map U [''outbox-dispatcher'', ''outbox-dispatcher-b'']),
      (U ''COURSE_OUTBOX_MAX_ATTEMPTS'', map U [''postgres'', ''outbox-dispatcher'', ''outbox-dispatcher-b'']),
      (U ''COURSE_OUTBOX_BACKOFF_BASE_MS'', map U [''postgres'']),
      (U ''COURSE_OUTBOX_BACKOFF_MAX_MS'', map U [''postgres'']),
      (U ''COURSE_OUTBOX_JITTER_MAX_MS'', map U [''postgres'']),
      (U ''COURSE_OUTBOX_LEASE_MS'', map U [''postgres'', ''outbox-dispatcher'', ''outbox-dispatcher-b'']),
      (U ''COURSE_OUTBOX_POLL_MS'', map U [''outbox-dispatcher'', ''outbox-dispatcher-b'']),
      (U ''COURSE_INBOX_POLL_MS'', map U [''inbox-reconciler'', ''inbox-reconciler-b'']),
      (U ''COURSE_JOB_LEASE_MS'', map U [''postgres'', ''worker-a'', ''worker-b'']),
      (U ''COURSE_WORKER_POLL_MS'', map U [''worker-a'', ''worker-b'']),
      (U ''PROVIDER_CALLBACK_CAPABILITY'', map U [''receipt-adapter'', ''provider-simulator'']),
      (U ''PROVIDER_CALLBACK_TOKEN'', map U [''receipt-adapter'']),
      (U ''PROVIDER_HMAC_SECRET'', map U [''receipt-adapter'', ''api'']),
      (U ''RECEIPT_API_URL'', map U [''receipt-adapter'']),
      (U ''PROVIDER_AUDIT_TOKEN'', map U [''provider-simulator''])]"

definition REQUIRED_VIEWS :: "pystr set" where
  "REQUIRED_VIEWS =
     U ` {''contract_info'', ''action_definitions'', ''action_dispatches'', ''operations'',
        ''operation_events'', ''flow_versions'', ''processes'', ''steps'', ''jobs'',
        ''attempts'', ''signals'', ''workflow_events'', ''external_requests'', ''receipts'',
        ''outbox'', ''inbox'', ''decisions''}"

definition REQUIRED_VIEW_COLUMNS :: "(pystr \<times> pystr set) list" where
  "REQUIRED_VIEW_COLUMNS =
     [
     (U ''contract_info'', U ` {''contract_version'', ''generated_at''}),
     (U ''action_definitions'', U ` {''module'', ''action'', ''version'', ''http_method'', ''target_schema'',
        ''target_function'', ''outcomes'', ''enabled'', ''is_default''}),
     (U ''action_dispatches'', U ` {''correlation_id'', ''request_id'', ''module'', ''action'', ''version'', ''principal'',
        ''payload_hash'', ''status'', ''outcome'', ''occurred_at''}),
     (U ''operations'', U ` {''operation_id'', ''request_id'', ''operation_kind'', ''amount'', ''currency'',
        ''status'', ''process_id'', ''created_at'', ''updated_at''}),
     (U ''operation_events'', U ` {''event_id'', ''operation_id'', ''event_type'', ''payload_hash'', ''occurred_at''}),
     (U ''flow_versions'', U ` {''flow_name'', ''flow_version'', ''status'', ''is_active'', ''published_at''}),
     (U ''processes'', U ` {''process_id'', ''business_key'', ''flow_name'', ''flow_version'', ''state'',
        ''current_step_key'', ''created_at'', ''updated_at''}),
     (U ''steps'', U ` {''step_instance_id'', ''process_id'', ''step_key'', ''step_type'', ''state'',
        ''outcome'', ''entered_at'', ''completed_at''}),
     (U ''jobs'', U ` {''job_id'', ''process_id'', ''step_instance_id'', ''execution_id'', ''state'',
        ''lease_owner'', ''lease_version'', ''lease_until'', ''attempt_count'',
        ''next_attempt_at''}),
     (U ''attempts'', U ` {''attempt_id'', ''job_id'', ''execution_id'', ''lease_version'', ''attempt_number'',
        ''status'', ''outcome'', ''error_code'', ''started_at'', ''finished_at''}),
     (U ''signals'', U ` {''message_id'', ''process_id'', ''signal_type'', ''body_hash'', ''status'',
        ''received_at''}),
     (U ''workflow_events'', U ` {''event_id'', ''process_id'', ''step_instance_id'', ''event_type'', ''occurred_at''}),
     (U ''external_requests'', U ` {''external_request_id'', ''operation_id'', ''state'', ''payload_hash'', ''created_at''}),
     (U ''receipts'', U ` {''message_id'', ''external_request_id'', ''message_version'', ''outcome'',
        ''signature_valid'', ''body_hash'', ''received_at'', ''applied_at''}),
     (U ''outbox'', U ` {''outbox_id'', ''external_request_id'', ''state'', ''attempt_count'', ''lease_owner'',
        ''lease_version'', ''lease_until'', ''next_attempt_at'', ''last_error_code'',
        ''created_at'', ''delivered_at'', ''dead_at''}),
     (U ''inbox'', U ` {''message_id'', ''body_hash'', ''state'', ''received_at'', ''applied_at''}),
     (U ''decisions'', U ` {''decision_id'', ''process_id'', ''step_instance_id'', ''source'', ''principal'',
        ''reason_hash'', ''outcome'', ''rule_version'', ''created_at''})]"

definition UUID_COLUMNS :: "pystr set" where
  "UUID_COLUMNS =
     U ` {''attempt_id'', ''correlation_id'', ''decision_id'', ''event_id'', ''execution_id'',
        ''job_id'', ''operation_id'', ''outbox_id'', ''process_id'', ''step_instance_id''}"

definition TIMESTAMPTZ_COLUMNS :: "pystr set" where
  "TIMESTAMPTZ_COLUMNS =
     U ` {''applied_at'', ''completed_at'', ''created_at'', ''dead_at'', ''delivered_at'',
        ''entered_at'', ''finished_at'', ''generated_at'', ''lease_until'', ''next_attempt_at'',
        ''occurred_at'', ''published_at'', ''received_at'', ''started_at'', ''updated_at''}"

definition INTEGER_COLUMNS :: "pystr set" where
  "INTEGER_COLUMNS =
     U ` {''attempt_count'', ''attempt_number'', ''flow_version'', ''message_version'',
        ''version''}"

definition BIGINT_COLUMNS :: "pystr set" where
  "BIGINT_COLUMNS =
     U ` {''lease_version''}"

definition BOOLEAN_COLUMNS :: "pystr set" where
  "BOOLEAN_COLUMNS =
     U ` {''enabled'', ''is_active'', ''is_default'', ''signature_valid''}"

definition JSONB_COLUMNS :: "pystr set" where
  "JSONB_COLUMNS =
     U ` {''outcomes''}"

definition NUMERIC_COLUMNS :: "pystr set" where
  "NUMERIC_COLUMNS =
     U ` {''amount''}"

definition FIXTURE_FILES :: "pystr set" where
  "FIXTURE_FILES =
     U ` {''providerRequest'', ''adapterRequest'', ''reviewAutoRequest'', ''reviewManualRequest''}"


section \<open>The tables fit together\<close>

text \<open>The type that a column must have.\<close>

definition expected_column_type :: "pystr \<Rightarrow> pystr" where
  "expected_column_type column =
     (if column \<in> UUID_COLUMNS then U ''uuid''
      else if column \<in> TIMESTAMPTZ_COLUMNS then U ''timestamp with time zone''
      else if column \<in> INTEGER_COLUMNS then U ''integer''
      else if column \<in> BIGINT_COLUMNS then U ''bigint''
      else if column \<in> BOOLEAN_COLUMNS then U ''boolean''
      else if column \<in> JSONB_COLUMNS then U ''jsonb''
      else if column \<in> NUMERIC_COLUMNS then U ''numeric''
      else U ''text'')"

text \<open>
  The tables agree with one another: every environment variable goes to required services only,
  the views with listed columns are exactly the required views, the required metrics are those
  with a declared type (a counter carries the suffix \<^verbatim>\<open>_total\<close>), and no column is in two type
  classes, so the order in which the classes are tried does not matter.
\<close>

theorem week4_tables_consistent:
  "(\<Union>(v, rs)\<in>set REQUIRED_ENV_RECIPIENTS. set rs) \<subseteq> REQUIRED_SERVICES \<and>
   set (map fst REQUIRED_VIEW_COLUMNS) = REQUIRED_VIEWS \<and>
   (\<lambda>(n, t). if t = U ''counter'' then n @ U ''_total'' else n) ` set REQUIRED_METRIC_TYPES = REQUIRED_METRICS \<and>
   set (map fst OBSERVABILITY_ENDPOINTS) \<subseteq> RUNNING_SERVICES \<and>
   UUID_COLUMNS \<inter> (TIMESTAMPTZ_COLUMNS \<union> INTEGER_COLUMNS \<union> BIGINT_COLUMNS \<union> BOOLEAN_COLUMNS \<union> JSONB_COLUMNS \<union>
     NUMERIC_COLUMNS) = {} \<and>
   TIMESTAMPTZ_COLUMNS \<inter> (INTEGER_COLUMNS \<union> BIGINT_COLUMNS \<union> BOOLEAN_COLUMNS \<union> JSONB_COLUMNS \<union> NUMERIC_COLUMNS) = {} \<and>
   INTEGER_COLUMNS \<inter> (BIGINT_COLUMNS \<union> BOOLEAN_COLUMNS \<union> JSONB_COLUMNS \<union> NUMERIC_COLUMNS) = {} \<and>
   BIGINT_COLUMNS \<inter> (BOOLEAN_COLUMNS \<union> JSONB_COLUMNS \<union> NUMERIC_COLUMNS) = {} \<and>
   BOOLEAN_COLUMNS \<inter> (JSONB_COLUMNS \<union> NUMERIC_COLUMNS) = {} \<and> JSONB_COLUMNS \<inter> NUMERIC_COLUMNS = {} \<and>
   (\<Union>c\<in>{UUID_COLUMNS, TIMESTAMPTZ_COLUMNS, INTEGER_COLUMNS, BIGINT_COLUMNS, BOOLEAN_COLUMNS, JSONB_COLUMNS,
      NUMERIC_COLUMNS}. c) \<subseteq> (\<Union>(v, cs)\<in>set REQUIRED_VIEW_COLUMNS. cs)"
  by code_simp

end
