(* ===== verification/Week4_Fixture.thy ===== *)
theory Week4_Fixture
  imports Week4_Constants Py_Crypto Py_Json_Roundtrip
begin

text \<open>
  Loading the published fixture in week 4. The file system is a parameter: \<open>fs_resolve\<close> is
  \<^verbatim>\<open>Path.resolve\<close>, \<open>fs_file\<close> gives the content of the regular file at a resolved path. The hash
  function is a parameter too, so that every statement holds for \<^verbatim>\<open>hashlib.sha256\<close> (\<open>sha256\<close>) without
  computing it. The fixture is the checker's own trusted input: one file system answers all of its
  readings, so a file that changes between two of them (\<^verbatim>\<open>fixture.json\<close> is read twice) is not modelled.
\<close>

section \<open>Files\<close>

record file_system =
  fs_resolve :: "pystr \<Rightarrow> pystr list res"
  fs_file :: "pystr list \<Rightarrow> pybytes option"

definition read_bytes :: "file_system \<Rightarrow> pystr list \<Rightarrow> pybytes res" where
  "read_bytes fs p = (case fs_file fs p of None \<Rightarrow> Inl OSError | Some b \<Rightarrow> Inr b)"

text \<open>Text mode turns every line end into a newline.\<close>

fun universal_newlines :: "pystr \<Rightarrow> pystr" where
  "universal_newlines [] = []"
| "universal_newlines [c] = [if c = 13 then 10 else c]"
| "universal_newlines (c # d # cs) =
     (if c = 13 \<and> d = 10 then 10 # universal_newlines cs
      else (if c = 13 then 10 else c) # universal_newlines (d # cs))"

definition read_text :: "file_system \<Rightarrow> pystr \<Rightarrow> pystr res" where
  "read_text fs p =
     res_bind (fs_resolve fs p) (\<lambda>q. res_bind (read_bytes fs q) (\<lambda>b. res_bind (utf8_decode b) (\<lambda>s.
       Inr (universal_newlines s))))"

definition read_json :: "file_system \<Rightarrow> nat \<Rightarrow> pystr \<Rightarrow> pyval res" where
  "read_json fs depth p = res_bind (read_text fs p) (loads depth)"

text \<open>\<^verbatim>\<open>except (OSError, json.JSONDecodeError)\<close> around reading the metadata.\<close>

definition read_metadata :: "file_system \<Rightarrow> nat \<Rightarrow> pystr \<Rightarrow> string \<Rightarrow> string \<Rightarrow> pydict res" where
  "read_metadata fs depth root unreadable invalid = (case read_json fs depth (path_join root (U ''fixture.json'')) of
     Inl e \<Rightarrow> Inl (if e = OSError \<or> e = JSONDecodeError then FixtureError (U unreadable) else e)
   | Inr (PDict d) \<Rightarrow> Inr d
   | Inr _ \<Rightarrow> Inl (FixtureError (U invalid)))"

section \<open>Digest\<close>

text \<open>Whether \<^verbatim>\<open>sorted\<close> can compare two values that are not both strings.\<close>

fun comparable :: "pyval \<Rightarrow> pyval \<Rightarrow> bool" where
  "comparable (PStr a) (PStr b) = True"
| "comparable (PList (x # xs)) (PList (y # ys)) =
     (if py_eq x y then comparable (PList xs) (PList ys) else comparable x y)"
| "comparable (PList []) (PList ys) = True"
| "comparable (PList xs) (PList []) = True"
| "comparable a b = (is_num a \<and> is_num b)"

text \<open>
  \<^verbatim>\<open>sorted(files.values())\<close> followed by the test that a path is a string: two values that cannot be
  compared raise \<^verbatim>\<open>TypeError\<close> first.
\<close>

definition sorted_paths :: "pyval list \<Rightarrow> pystr list res" where
  "sorted_paths vs =
     (if list_all is_str vs then Inr (sort (map py_str vs))
      else if list_all (\<lambda>a. list_all (comparable a) vs) vs then Inl (FixtureError (U ''fixture file path is invalid''))
      else Inl TypeError)"

definition fixture_file_bytes :: "file_system \<Rightarrow> pystr \<Rightarrow> pystr \<Rightarrow> pybytes res" where
  "fixture_file_bytes fs root relative =
     res_bind (fs_resolve fs (path_join root relative)) (\<lambda>p.
     res_bind (fs_resolve fs root) (\<lambda>r.
     res_bind (ensure (is_relative_to p r) (FixtureError (U ''fixture path escapes its root''))) (\<lambda>_.
     res_bind (ensure (fs_file fs p \<noteq> None) (FixtureError (U ''fixture file is missing: '' @ relative))) (\<lambda>_.
     res_bind (utf8_encode relative) (\<lambda>rel.
     res_bind (read_bytes fs p) (\<lambda>content.
       Inr ([0] @ rel @ [0] @ content)))))))"

definition file_map_bytes :: "file_system \<Rightarrow> pystr \<Rightarrow> pyval \<Rightarrow> pybytes res" where
  "file_map_bytes fs root files = (case files of
     PDict d \<Rightarrow>
       if dkeys d \<noteq> FIXTURE_FILES then Inl (FixtureError (U ''fixture file map is invalid''))
       else res_bind (sorted_paths (map snd d)) (\<lambda>paths.
            res_bind (res_map (fixture_file_bytes fs root) paths) (\<lambda>parts. Inr (concat parts)))
   | _ \<Rightarrow> Inl (FixtureError (U ''fixture file map is invalid'')))"

text \<open>The bytes that are hashed.\<close>

definition canonical_bytes_of :: "file_system \<Rightarrow> nat \<Rightarrow> pystr \<Rightarrow> pybytes res" where
  "canonical_bytes_of fs depth root =
     res_bind (read_metadata fs depth root ''fixture.json is unreadable'' ''fixture.json must be an object'') (\<lambda>metadata.
     res_bind (dumps compact_sorted (PDict (dput (U ''digest'') (PStr []) metadata))) (\<lambda>canonical.
     res_bind (utf8_encode canonical) (\<lambda>head.
     res_bind (file_map_bytes fs root (dget_none metadata (U ''files''))) (\<lambda>contents.
       Inr (U ''fixture.json'' @ [0] @ head @ contents)))))"

definition canonical_fixture_digest :: "(pybytes \<Rightarrow> pybytes) \<Rightarrow> file_system \<Rightarrow> nat \<Rightarrow> pystr \<Rightarrow> pystr res" where
  "canonical_fixture_digest hash fs depth root =
     res_bind (canonical_bytes_of fs depth root) (\<lambda>bytes. Inr (hexdigest (hash bytes)))"

section \<open>Loading\<close>

text \<open>\<^verbatim>\<open>set(value) != REQUIRED_SERVICES\<close>: the elements must be hashable.\<close>

definition service_names :: "pyval \<Rightarrow> pyval set res" where
  "service_names v = res_bind (py_iter v) (\<lambda>xs. if list_all hashable xs then Inr (set xs) else Inl TypeError)"

text \<open>\<^verbatim>\<open>fixture["files"].values()\<close>\<close>

definition file_values :: "pydict \<Rightarrow> pyval list res" where
  "file_values fixture = res_bind (ditem fixture (U ''files'')) (\<lambda>v. case v of
     PDict files \<Rightarrow> Inr (map snd files) | _ \<Rightarrow> Inl AttributeError)"

definition check_payload :: "file_system \<Rightarrow> nat \<Rightarrow> pystr \<Rightarrow> pyval \<Rightarrow> unit res" where
  "check_payload fs depth root relative = (case relative of
     PStr s \<Rightarrow> res_bind (read_json fs depth (path_join root s)) (\<lambda>v.
       ensure (is_dict v) (FixtureError (U ''fixture payload is not an object: '' @ s)))
   | _ \<Rightarrow> Inl TypeError)"

definition load_fixture :: "(pybytes \<Rightarrow> pybytes) \<Rightarrow> file_system \<Rightarrow> nat \<Rightarrow> pystr \<Rightarrow> pydict res" where
  "load_fixture hash fs depth root =
     res_bind (read_metadata fs depth root ''fixture metadata is unreadable'' ''fixture metadata must be an object'') (\<lambda>fixture.
     res_bind (ensure (dget_none fixture (U ''generatorVersion'') = PStr PUBLISHED_FIXTURE_GENERATOR)
       (FixtureError (U ''fixture generator version is not published''))) (\<lambda>_.
     res_bind (ensure (dget_none fixture (U ''contractVersion'') = PStr (U ''course-1''))
       (FixtureError (U ''fixture contract version is invalid''))) (\<lambda>_.
     res_bind (canonical_fixture_digest hash fs depth root) (\<lambda>actual.
     res_bind (ensure (dget_none fixture (U ''digest'') = PStr actual \<and> actual = PUBLISHED_FIXTURE_DIGEST)
       (FixtureError (U ''fixture digest does not match the published package''))) (\<lambda>_.
     res_bind (get_attr PNone (dget_def (PDict []) fixture (U ''provider'')) (U ''image'')) (\<lambda>image.
     res_bind (ensure (image = PStr PROVIDER_IMAGE) (FixtureError (U ''provider image is not the published digest''))) (\<lambda>_.
     res_bind (service_names (dget_def (PList []) fixture (U ''services''))) (\<lambda>names.
     res_bind (ensure (names = PStr ` REQUIRED_SERVICES) (FixtureError (U ''fixture service seam is invalid''))) (\<lambda>_.
     res_bind (file_values fixture) (\<lambda>values.
     res_bind (for_each (check_payload fs depth root) values) (\<lambda>_.
       Inr fixture)))))))))))"

section \<open>Properties\<close>

lemma read_metadata_same:
  "read_metadata fs depth root a b = Inr d \<Longrightarrow> read_metadata fs depth root a' b' = Inr d"
  by (auto simp: read_metadata_def split: sum.splits pyval.splits)

lemma fixture_file_bytes_Inr:
  assumes "fixture_file_bytes fs root relative = Inr b"
  shows "\<exists>r c content rel. fs_resolve fs root = Inr r \<and> fs_resolve fs (path_join root relative) = Inr (r @ c) \<and>
    fs_file fs (r @ c) = Some content \<and> utf8_encode relative = Inr rel \<and> b = [0] @ rel @ [0] @ content"
proof -
  from assms obtain p r content rel where "fs_resolve fs (path_join root relative) = Inr p" "fs_resolve fs root = Inr r"
    "take (length r) p = r" "utf8_encode relative = Inr rel" "read_bytes fs p = Inr content" "b = [0] @ rel @ [0] @ content"
    unfolding fixture_file_bytes_def is_relative_to_def by auto
  then show ?thesis unfolding read_bytes_def by (metis (no_types, lifting) append_take_drop_id option.case_eq_if
    option.collapse sum.distinct(1) sum.inject(2))
qed

text \<open>Every path of the file map is confined to the root and its content is hashed.\<close>

lemma canonical_bytes_paths:
  assumes "canonical_bytes_of fs depth root = Inr b" "read_metadata fs depth root a1 a2 = Inr metadata"
  shows "\<exists>files. dget_none metadata (U ''files'') = PDict files \<and> dkeys files = FIXTURE_FILES \<and>
    (\<forall>v\<in>set (map snd files). \<exists>s r c content. v = PStr s \<and> fs_resolve fs root = Inr r \<and>
       fs_resolve fs (path_join root s) = Inr (r @ c) \<and> fs_file fs (r @ c) = Some content \<and> contains content b)"
proof -
  from read_metadata_same [OF assms(2)] assms(1) obtain head contents where
    c: "file_map_bytes fs root (dget_none metadata (U ''files'')) = Inr contents"
    and b': "b = U ''fixture.json'' @ [0] @ head @ contents"
    unfolding canonical_bytes_of_def by (auto simp del: dumps.simps)
  from c obtain files paths parts where
    f: "dget_none metadata (U ''files'') = PDict files" "dkeys files = FIXTURE_FILES"
    and paths: "sorted_paths (map snd files) = Inr paths"
    and parts: "res_map (fixture_file_bytes fs root) paths = Inr parts"
    and "contents = concat parts"
    unfolding file_map_bytes_def by (cases "dget_none metadata (U ''files'')") (auto split: if_splits)
  with b' have b: "b = U ''fixture.json'' @ [0] @ head @ concat parts" by simp
  have "\<exists>s r c content. v = PStr s \<and> fs_resolve fs root = Inr r \<and> fs_resolve fs (path_join root s) = Inr (r @ c) \<and>
      fs_file fs (r @ c) = Some content \<and> contains content b" if v: "v \<in> set (map snd files)" for v
  proof -
    from paths have "list_all is_str (map snd files)" "paths = sort (map py_str (map snd files))"
      by (auto simp: sorted_paths_def split: if_splits)
    then have "is_str v" "py_str v \<in> set paths" using v by (auto simp: list_all_iff)
    then obtain s where s: "v = PStr s" "s \<in> set paths" by (induction v rule: is_str.induct) auto
    with parts obtain part where part: "part \<in> set parts" "fixture_file_bytes fs root s = Inr part"
      by (auto simp: res_map_eq_Inr list_all2_conv_all_nth in_set_conv_nth) metis
    from fixture_file_bytes_Inr [OF part(2)] obtain r c content rel where
      rc: "fs_resolve fs root = Inr r" "fs_resolve fs (path_join root s) = Inr (r @ c)" "fs_file fs (r @ c) = Some content"
      "part = [0] @ rel @ [0] @ content" by blast
    from part(1) obtain us vs where "parts = us @ part # vs" by (meson split_list)
    then have "b = (U ''fixture.json'' @ [0] @ head @ concat us @ [0] @ rel @ [0]) @ content @ concat vs"
      by (simp add: b rc(4))
    then have "contains content b" unfolding contains_iff by blast
    with s rc show ?thesis by blast
  qed
  with f show ?thesis by blast
qed

text \<open>
  C34. A fixture that loads is the published one: its metadata names the published generator, contract,
  provider image and services; the digest over its canonical bytes is the published digest; and every
  file it names lies inside its root after resolution of links and is part of what was hashed.
\<close>

theorem fixture_integrity:
  assumes "load_fixture hash fs depth root = Inr fixture"
  shows "dget_none fixture (U ''generatorVersion'') = PStr PUBLISHED_FIXTURE_GENERATOR \<and>
    (\<exists>p. dget_def (PDict []) fixture (U ''provider'') = PDict p \<and> dget_none p (U ''image'') = PStr PROVIDER_IMAGE) \<and>
    service_names (dget_def (PList []) fixture (U ''services'')) = Inr (PStr ` REQUIRED_SERVICES) \<and>
    (\<exists>b files. canonical_bytes_of fs depth root = Inr b \<and> hexdigest (hash b) = PUBLISHED_FIXTURE_DIGEST \<and>
      dget_none fixture (U ''files'') = PDict files \<and> dkeys files = FIXTURE_FILES \<and>
      (\<forall>v\<in>set (map snd files). \<exists>s r c content. v = PStr s \<and> fs_resolve fs root = Inr r \<and>
         fs_resolve fs (path_join root s) = Inr (r @ c) \<and> fs_file fs (r @ c) = Some content \<and> contains content b))"
proof -
  from assms obtain b image names where
    m: "read_metadata fs depth root ''fixture metadata is unreadable'' ''fixture metadata must be an object'' = Inr fixture"
    and g: "dget_none fixture (U ''generatorVersion'') = PStr PUBLISHED_FIXTURE_GENERATOR"
    and b: "canonical_bytes_of fs depth root = Inr b" "hexdigest (hash b) = PUBLISHED_FIXTURE_DIGEST"
    and i: "get_attr PNone (dget_def (PDict []) fixture (U ''provider'')) (U ''image'') = Inr (PStr PROVIDER_IMAGE)"
    and n: "service_names (dget_def (PList []) fixture (U ''services'')) = Inr (PStr ` REQUIRED_SERVICES)"
    unfolding load_fixture_def canonical_fixture_digest_def by auto
  from i have "\<exists>p. dget_def (PDict []) fixture (U ''provider'') = PDict p \<and> dget_none p (U ''image'') = PStr PROVIDER_IMAGE"
    by (cases "dget_def (PDict []) fixture (U ''provider'')") auto
  with g n b canonical_bytes_paths [OF b(1) m] show ?thesis by blast
qed

text \<open>A small fixture that loads under a hash function with the published value.\<close>

definition sample_fixture :: pyval where
  "sample_fixture = PDict [(U ''generatorVersion'', PStr PUBLISHED_FIXTURE_GENERATOR), (U ''contractVersion'', PStr (U ''course-1'')),
     (U ''digest'', PStr PUBLISHED_FIXTURE_DIGEST), (U ''provider'', PDict [(U ''image'', PStr PROVIDER_IMAGE)]),
     (U ''services'', PList (map (\<lambda>s. PStr (U s)) [''gateway'', ''api'', ''cli'', ''postgres'', ''worker-a'', ''worker-b'',
        ''outbox-dispatcher'', ''outbox-dispatcher-b'', ''receipt-adapter'', ''inbox-reconciler'', ''inbox-reconciler-b'', ''provider-simulator''])),
     (U ''files'', PDict (map (\<lambda>k. (U k, PStr (U ''a.json''))) [''providerRequest'', ''adapterRequest'', ''reviewAutoRequest'', ''reviewManualRequest'']))]"

definition sample_fs :: file_system where
  "sample_fs = \<lparr>fs_resolve = (\<lambda>p. Inr (split_ch 47 p)),
     fs_file = (\<lambda>p. if last p = U ''a.json'' then Some (U ''{}'')
       else if last p = U ''fixture.json'' then (case dumps compact sample_fixture of Inr t \<Rightarrow> Some t | Inl _ \<Rightarrow> None)
       else None)\<rparr>"

definition published_hash :: "pybytes \<Rightarrow> pybytes" where
  "published_hash b = map (\<lambda>c. 16 * (case hex_val (hd c) of Some x \<Rightarrow> x | None \<Rightarrow> 0) + (case hex_val (last c) of Some x \<Rightarrow> x | None \<Rightarrow> 0))
     (chunks 2 PUBLISHED_FIXTURE_DIGEST)"

definition sample_members :: pydict where
  "sample_members = (case sample_fixture of PDict d \<Rightarrow> d | _ \<Rightarrow> [])"

lemma sample_text:
  "case dumps compact sample_fixture of Inr t \<Rightarrow> utf8_decode t = Inr t \<and> universal_newlines t = t | Inl _ \<Rightarrow> False"
  by code_simp

lemma sample_metadata: "read_metadata sample_fs 50 (U ''/f'') a b = Inr sample_members"
proof -
  have "json_ok False 50 sample_fixture" by code_simp
  from loads_dumps [OF this] obtain t where t: "dumps compact sample_fixture = Inr t" "loads 50 t = Inr sample_fixture"
    by (auto simp: copts_def compact_def)
  have p: "last (split_ch 47 (path_join (U ''/f'') (U ''fixture.json''))) = U ''fixture.json''" by code_simp
  have "U ''fixture.json'' \<noteq> U ''a.json''" by simp
  with t p sample_text show ?thesis
    by (simp add: read_metadata_def read_json_def read_text_def read_bytes_def sample_fs_def sample_members_def sample_fixture_def
        del: U_inject)
qed

theorem fixture_integrity_witness:
  "\<exists>fixture. load_fixture published_hash sample_fs 50 (U ''/f'') = Inr fixture \<and>
     service_names (dget_def (PList []) fixture (U ''services'')) = Inr (PStr ` REQUIRED_SERVICES)"
proof -
  have "\<not> isl (res_bind (dumps compact_sorted (PDict (dput (U ''digest'') (PStr []) sample_members))) utf8_encode)" by code_simp
  then obtain h where "res_bind (dumps compact_sorted (PDict (dput (U ''digest'') (PStr []) sample_members))) utf8_encode = Inr h"
    using not_isl_Inr by blast
  then obtain c where c: "dumps compact_sorted (PDict (dput (U ''digest'') (PStr []) sample_members)) = Inr c" "utf8_encode c = Inr h"
    unfolding res_bind_eq_Inr by blast
  have "\<not> isl (file_map_bytes sample_fs (U ''/f'') (dget_none sample_members (U ''files'')))" by code_simp
  with not_isl_Inr obtain m where m: "file_map_bytes sample_fs (U ''/f'') (dget_none sample_members (U ''files'')) = Inr m" by blast
  have h: "hexdigest (published_hash b) = PUBLISHED_FIXTURE_DIGEST" for b by code_simp
  have g: "dget_none sample_members (U ''generatorVersion'') = PStr PUBLISHED_FIXTURE_GENERATOR"
    "dget_none sample_members (U ''contractVersion'') = PStr (U ''course-1'')"
    "dget_none sample_members (U ''digest'') = PStr PUBLISHED_FIXTURE_DIGEST"
    "get_attr PNone (dget_def (PDict []) sample_members (U ''provider'')) (U ''image'') = Inr (PStr PROVIDER_IMAGE)"
    "service_names (dget_def (PList []) sample_members (U ''services'')) = Inr (PStr ` REQUIRED_SERVICES)" by code_simp+
  have f: "res_bind (file_values sample_members) (for_each (check_payload sample_fs 50 (U ''/f''))) = Inr ()" by code_simp
  have "load_fixture published_hash sample_fs 50 (U ''/f'') = Inr sample_members"
    using c m h g f by (auto simp: load_fixture_def canonical_fixture_digest_def canonical_bytes_of_def sample_metadata simp del: dumps.simps)
  with fixture_integrity [OF this] show ?thesis by blast
qed

end
