(* ===== verification/Week1_Checker.thy ===== *)
theory Week1_Checker
  imports Week4_Fixture
begin

text \<open>
  The functions of \<^verbatim>\<open>task/week1/autocheck/public_check.py\<close> that judge files, configurations and answers. The
  file system is the record of \<open>Week4_Fixture\<close>; the outcome of a subprocess and of opening a
  URL are arguments.
\<close>

section \<open>Tables\<close>

definition COMPOSE_NAMES :: "pystr list" where
  "COMPOSE_NAMES = map U [''compose.yaml'', ''compose.yml'', ''docker-compose.yml'', ''docker-compose.yaml'']"

definition REQUIRED_SERVICES :: "pystr set" where
  "REQUIRED_SERVICES = U ` {''gateway'', ''api'', ''cli'', ''postgres''}"

definition SOLUTION_HEADINGS :: "pystr set" where
  "SOLUTION_HEADINGS =
     {[1072, 1088, 1093, 1080, 1090, 1077, 1082, 1090, 1091, 1088, 1072],
      [1079, 1072, 1087, 1091, 1089, 1082],
      [1082, 1086, 1085, 1092, 1080, 1075, 1091, 1088, 1072, 1094, 1080, 1103],
      [1084, 1080, 1075, 1088, 1072, 1094, 1080, 1080],
      [1087, 1088, 1086, 1074, 1077, 1088, 1082, 1072],
      [1076, 1080, 1072, 1075, 1085, 1086, 1089, 1090, 1080, 1082, 1072],
      [1086, 1075, 1088, 1072, 1085, 1080, 1095, 1077, 1085, 1080, 1103]}"

definition SOLUTION_LITERALS :: "pystr list" where
  "SOLUTION_LITERALS = map U [''docker compose up -d --build'', ''./check.sh'', ''http://localhost:8080'',
     ''/health/live'', ''/health/ready'', ''/openapi/default.json'', ''COURSE_JWT_ISSUER'', ''gateway'', ''api'',
     ''cli'', ''postgres'', ''C4'', ''ADR'']"

section \<open>Records\<close>

record CommandResult =
  cmd_line :: "pystr list"
  exitCode :: int
  cmd_stdout :: pystr
  cmd_stderr :: pystr

record Response =
  resp_status :: int
  resp_body :: pyval
  resp_text :: pystr
  resp_error :: "pystr option"

record Check =
  chk_name :: pystr
  chk_group :: pystr
  chk_passed :: bool
  chk_expected :: pyval
  chk_actual :: pyval
  chk_required :: bool

section \<open>The README\<close>

text \<open>The word of the section heading; a small Cyrillic letter under \<^verbatim>\<open>(?i)\<close> also matches its capital.\<close>

definition solution_word :: pystr where
  "solution_word = [1088, 1077, 1096, 1077, 1085, 1080, 1077]"

definition blank :: regex where
  "blank = RCls (\<lambda>c. c = 32 \<or> c = 9)"

definition SOLUTION_SECTION :: regex where
  "SOLUTION_SECTION = rseqs ([RLineBegin, rstr ''##'', rplus blank] @
     map (\<lambda>c. RCls (\<lambda>x. x = c \<or> x + 32 = c)) solution_word @ [RStar blank, RLineEnd])"

definition NEXT_SECTION :: regex where
  "NEXT_SECTION = rseqs [RLineBegin, rstr ''##'', rplus blank, RCls (\<lambda>c. \<not> is_space c), RStar rdot, RLineEnd]"

definition SUBSECTION :: regex where
  "SUBSECTION = rseqs [RLineBegin, rstr ''###'', rplus blank, RGroup 1 (RSeq rdot (RLazy rdot)), RStar blank, RLineEnd]"

definition extract_solution_section :: "pystr \<Rightarrow> pystr option" where
  "extract_solution_section s = (case search_from SOLUTION_SECTION [] s of
     None \<Rightarrow> None
   | Some (_, st) \<Rightarrow> (case search_from NEXT_SECTION [] (rest st) of
        None \<Rightarrow> Some (rest st)
      | Some (a, _) \<Rightarrow> Some (take (length (rest st) - length (rest a)) (rest st))))"

text \<open>
  \<^verbatim>\<open>str.casefold\<close> as far as a comparison with Russian text can observe it: the capitals of the alphabet and
  the seven historic letter forms that fold into it.
\<close>

definition casefold_ru :: "pystr \<Rightarrow> pystr" where
  "casefold_ru s = concat (map (\<lambda>c.
     if in_range 1040 1071 c then [c + 32]
     else case map_of [(7296, 1074), (7297, 1076), (7298, 1086), (7299, 1089), (7300, 1090), (7301, 1090), (7302, 1098)] c of
       Some x \<Rightarrow> [x] | None \<Rightarrow> casefold_char c) s)"

definition cap1 :: "(nat \<times> pystr) list \<Rightarrow> pystr" where
  "cap1 cs = (case group 1 cs of None \<Rightarrow> [] | Some t \<Rightarrow> t)"

definition subsection_headings :: "pystr \<Rightarrow> pystr set" where
  "subsection_headings s = set (map (\<lambda>(_, st). casefold_ru (strip (cap1 (caps st)))) (refinditer SUBSECTION s))"

definition solution_findings :: "pystr \<Rightarrow> pystr list" where
  "solution_findings s =
     map (\<lambda>h. U ''missing solution subsection: '' @ h) (sorted_list_of_set (SOLUTION_HEADINGS - subsection_headings s)) @
     map (\<lambda>v. U ''missing solution README value: '' @ v) (filter (\<lambda>v. \<not> contains v s) SOLUTION_LITERALS)"

definition readme_findings :: "file_system \<Rightarrow> pystr \<Rightarrow> pystr list res" where
  "readme_findings fs repo = (case read_text fs (path_join repo (U ''README.md'')) of
     Inl e \<Rightarrow> if e = OSError then Inr [U ''missing root README.md''] else Inl e
   | Inr s \<Rightarrow> Inr (case extract_solution_section s of
        None \<Rightarrow> [U ''missing level-2 section: '' @ [1056] @ tl solution_word]
      | Some sec \<Rightarrow> solution_findings sec))"

section \<open>Repository hygiene\<close>

text \<open>What \<^verbatim>\<open>subprocess.run\<close> does: the exit code and the two streams, or one of the two exceptions.\<close>

datatype run_outcome =
    Completed int pystr pystr
  | TimeoutExpired "pystr option" "pystr option"
  | RunOSError pystr

text \<open>An entry of \<^verbatim>\<open>repo.rglob("*")\<close>: its relative text, its parts, and whether it is a file.\<close>

record walk_entry =
  entry_relative :: pystr
  entry_parts :: "pystr list"
  entry_is_file :: bool

definition walked_paths :: "walk_entry list \<Rightarrow> pystr list" where
  "walked_paths walk = map entry_relative (filter (\<lambda>e. entry_is_file e \<and> U ''.git'' \<notin> set (entry_parts e)) walk)"

definition tracked_paths :: "run_outcome \<Rightarrow> walk_entry list \<Rightarrow> pystr list" where
  "tracked_paths git walk = (case git of
     Completed code out err \<Rightarrow> if code = 0 then filter (\<lambda>v. v \<noteq> []) (split_ch 0 out) else walked_paths walk
   | _ \<Rightarrow> walked_paths walk)"

text \<open>\<^verbatim>\<open>Path(s).parts\<close> without the root, and \<^verbatim>\<open>Path(s).name\<close>.\<close>

definition path_parts :: "pystr \<Rightarrow> pystr list" where
  "path_parts s = filter (\<lambda>p. p \<noteq> [] \<and> p \<noteq> U ''.'') (split_ch 47 s)"

definition path_name :: "pystr \<Rightarrow> pystr" where
  "path_name s = (if path_parts s = [] then [] else last (path_parts s))"

definition path_finding :: "pystr \<Rightarrow> pystr list" where
  "path_finding v =
     (let parts = set (map casefold (path_parts v)); name = casefold (path_name v) in
      if parts \<inter> U ` {''bin'', ''obj'', ''.vs'', ''.idea'', ''__pycache__''} \<noteq> {} then [U ''tracked generated directory: '' @ v]
      else if name = U ''.env'' \<or> startswith name (U ''.env.'') \<and> name \<noteq> U ''.env.example''
      then [U ''tracked environment file: '' @ v]
      else if name = U ''week-1-public-report.json'' \<or> endswith name (U ''.log'')
      then [U ''tracked generated report or log: '' @ v]
      else if name \<in> U ` {''.ds_store'', ''thumbs.db''} then [U ''tracked OS metadata: '' @ v]
      else [])"

definition repository_hygiene_findings :: "run_outcome \<Rightarrow> walk_entry list \<Rightarrow> pystr list" where
  "repository_hygiene_findings git walk =
     (let paths = tracked_paths git walk
      in note_if (U ''.gitignore'' \<notin> set paths) (U ''missing tracked .gitignore'') @ concat (map path_finding paths))"

section \<open>Ports\<close>

definition DEFAULT_PORT :: regex where
  "DEFAULT_PORT = rseqs [rstr '':-'', RGroup 1 (rplus rdigit), rch 125, RLook (rch 58)]"

definition DEFAULT_VALUE :: regex where
  "DEFAULT_VALUE = rseqs [rstr ''${'', rplus (RCls (\<lambda>c. c \<noteq> 125)), rstr '':-'', RGroup 1 (rplus rdigit), rch 125]"

definition port_text :: "pyval \<Rightarrow> pyval" where
  "port_text entry = (case entry of
     PDict d \<Rightarrow> dget_none d (U ''published'')
   | PStr s \<Rightarrow> (case research DEFAULT_PORT s of
        Some cs \<Rightarrow> PStr (cap1 cs)
      | None \<Rightarrow> (let parts = rsplit_ch 58 2 s in if 2 \<le> length parts then PStr (parts ! (length parts - 2)) else PNone))
   | _ \<Rightarrow> PNone)"

definition port_default :: "pyval \<Rightarrow> pyval" where
  "port_default v = (case v of
     PStr s \<Rightarrow> (case fullmatch DEFAULT_VALUE s of Some cs \<Rightarrow> PStr (cap1 cs) | None \<Rightarrow> v)
   | _ \<Rightarrow> v)"

text \<open>What cannot be read as a number is skipped.\<close>

definition port_set :: "pyval \<Rightarrow> int set res" where
  "port_set entry = (case py_int (port_default (port_text entry)) of
     Inr n \<Rightarrow> Inr {n}
   | Inl e \<Rightarrow> if e = TypeError \<or> is_ValueError e then Inr {} else Inl e)"

definition published_ports :: "pyval \<Rightarrow> int set res" where
  "published_ports service = (case service of
     PDict d \<Rightarrow> res_bind (py_iter (get_or (PList []) d (U ''ports''))) (\<lambda>entries.
       res_bind (res_map port_set entries) (\<lambda>ps. Inr (\<Union> (set ps))))
   | _ \<Rightarrow> Inr {})"

section \<open>Tokens\<close>

definition wire :: jopts where
  "wire = compact\<lparr>ensure_ascii := True\<rparr>"

definition dumps_bytes :: "pyval \<Rightarrow> pybytes res" where
  "dumps_bytes v = res_bind (dumps wire v) utf8_encode"

text \<open>\<^verbatim>\<open>json.dumps(v, ensure_ascii=ascii, indent=2)\<close>; \<open>level\<close> is the nesting reached.\<close>

definition new_line :: "nat \<Rightarrow> pystr" where
  "new_line level = 10 # replicate (2 * level) 32"

fun dumps_indent :: "bool \<Rightarrow> nat \<Rightarrow> pyval \<Rightarrow> pystr res" where
  "dumps_indent ascii level (PList xs) =
     (if xs = [] then Inr (U ''[]'') else res_bind (res_map (dumps_indent ascii (Suc level)) xs) (\<lambda>ts.
       Inr (U ''['' @ new_line (Suc level) @ join_str (U '','' @ new_line (Suc level)) ts @ new_line level @ U '']'')))"
| "dumps_indent ascii level (PTuple xs) =
     (if xs = [] then Inr (U ''[]'') else res_bind (res_map (dumps_indent ascii (Suc level)) xs) (\<lambda>ts.
       Inr (U ''['' @ new_line (Suc level) @ join_str (U '','' @ new_line (Suc level)) ts @ new_line level @ U '']'')))"
| "dumps_indent ascii level (PDict d) =
     (if d = [] then Inr (U ''{}'') else res_bind (res_map (\<lambda>(k, v). res_bind (dumps_indent ascii (Suc level) v) (\<lambda>t. Inr (k, t))) d) (\<lambda>kts.
       Inr (U ''{'' @ new_line (Suc level) @ join_str (U '','' @ new_line (Suc level))
         (map (\<lambda>(k, t). json_str ascii k @ U '': '' @ t) kts) @ new_line level @ U ''}'')))"
| "dumps_indent ascii level v = dumps (compact\<lparr>ensure_ascii := ascii\<rparr>) v"

definition b64url :: "pybytes \<Rightarrow> pystr" where
  "b64url v = base64url v"

definition sign_token :: "pystr \<Rightarrow> pydict \<Rightarrow> pystr res" where
  "sign_token secret payload =
     res_bind (dumps_bytes (PDict [(U ''alg'', PStr (U ''HS256'')), (U ''typ'', PStr (U ''JWT''))])) (\<lambda>header.
     res_bind (dumps_bytes (PDict payload)) (\<lambda>body.
     res_bind (utf8_encode secret) (\<lambda>key.
       let signing_input = b64url header @ U ''.'' @ b64url body
       in Inr (signing_input @ U ''.'' @ b64url (hmac_sha256 key signing_input)))))"

definition token_claims :: "pystr \<Rightarrow> pystr \<Rightarrow> pystr list \<Rightarrow> bool \<Rightarrow> int \<Rightarrow> pydict" where
  "token_claims subject consumer scopes expired t = [
     (U ''iss'', PStr (U ''moduledev-course'')), (U ''aud'', PStr (U ''moduledev-api'')), (U ''sub'', PStr subject),
     (U ''consumer'', PStr consumer), (U ''scope'', PStr (join_str (U '' '') scopes)),
     (U ''iat'', PInt (if expired then t - 120 else t)), (U ''exp'', PInt (if expired then t - 60 else t + 3600))]"

definition issue_token :: "pystr \<Rightarrow> pystr \<Rightarrow> pystr \<Rightarrow> pystr list \<Rightarrow> bool \<Rightarrow> int \<Rightarrow> pystr res" where
  "issue_token secret subject consumer scopes expired t = sign_token secret (token_claims subject consumer scopes expired t)"

definition sql_literal :: "pystr \<Rightarrow> pystr" where
  "sql_literal v = [39] @ replace_str [39] [39, 39] v @ [39]"

section \<open>The fixture\<close>

definition FIXTURE_KEYS :: "pystr set" where
  "FIXTURE_KEYS = U ` {''module'', ''action'', ''targetSchema'', ''canaryTable'', ''modeField'', ''valueField'', ''outcome'',
     ''forcedErrorCode'', ''migrationFile'', ''manifestV1'', ''manifestV2''}"

definition rlower :: "nat \<Rightarrow> bool" where
  "rlower c = in_range 97 122 c"

definition ident_char :: "nat \<Rightarrow> bool" where
  "ident_char c = (in_range 97 122 c \<or> in_range 48 57 c \<or> c = 95)"

definition SQL_IDENTIFIER :: regex where
  "SQL_IDENTIFIER = RSeq (RCls rlower) (rupto 62 (RCls ident_char))"

definition OUTCOME :: regex where
  "OUTCOME = RSeq (RCls (in_range 65 90)) (rupto 62 (RCls (\<lambda>c. in_range 65 90 c \<or> in_range 48 57 c \<or> c = 95)))"

definition ERROR_CODE :: regex where
  "ERROR_CODE = (let word = RSeq (RCls rlower) (RStar (RCls ident_char)) in RSeq word (rplus (RSeq (rch 46) word)))"

text \<open>A field that must match an expression, and a field that must be a plain file name.\<close>

definition check_field :: "pydict \<Rightarrow> regex \<Rightarrow> pystr \<Rightarrow> pystr \<Rightarrow> unit res" where
  "check_field d r message field = res_bind (ditem d field) (\<lambda>v.
     ensure (fullmatch_ok r (py_str v)) (ValueError message))"

definition check_filename :: "pydict \<Rightarrow> pystr \<Rightarrow> unit res" where
  "check_filename d field = res_bind (ditem d field) (\<lambda>v.
     ensure (path_name (py_str v) = py_str v) (ValueError (U ''Fixture filename must not contain a directory: '' @ field)))"

definition read_fixture :: "file_system \<Rightarrow> nat \<Rightarrow> pystr \<Rightarrow> pyval res" where
  "read_fixture fs depth fixtures = (case read_json fs depth (path_join fixtures (U ''fixture.json'')) of
     Inl e \<Rightarrow> Inl (if e = OSError \<or> e = JSONDecodeError then ValueError (U ''Invalid fixture metadata'') else e)
   | Inr v \<Rightarrow> Inr v)"

definition check_fixture :: "pydict \<Rightarrow> unit res" where
  "check_fixture d =
     res_bind (ensure (dkeys d = FIXTURE_KEYS) (ValueError (U ''Fixture metadata fields must be exactly the published ones''))) (\<lambda>_.
     res_bind (ensure (list_all (\<lambda>(k, v). is_str v \<and> truthy v) d)
       (ValueError (U ''Fixture metadata values must be non-empty strings''))) (\<lambda>_.
     res_bind (for_each (\<lambda>f. check_field d SQL_IDENTIFIER (U ''Invalid SQL identifier in fixture metadata: '' @ f) f)
       (map U [''module'', ''action'', ''targetSchema'', ''canaryTable'', ''modeField'', ''valueField''])) (\<lambda>_.
     res_bind (check_field d OUTCOME (U ''Invalid fixture outcome'') (U ''outcome'')) (\<lambda>_.
     res_bind (check_field d ERROR_CODE (U ''Invalid fixture error code'') (U ''forcedErrorCode'')) (\<lambda>_.
       for_each (check_filename d) (map U [''migrationFile'', ''manifestV1'', ''manifestV2'']))))))"

definition load_fixture :: "file_system \<Rightarrow> nat \<Rightarrow> pystr \<Rightarrow> pydict res" where
  "load_fixture fs depth fixtures = res_bind (read_fixture fs depth fixtures) (\<lambda>v. case v of
     PDict d \<Rightarrow> res_bind (check_fixture d) (\<lambda>_. Inr d)
   | _ \<Rightarrow> Inl (ValueError (U ''Fixture metadata fields must be exactly the published ones'')))"

text \<open>\<open>is_file\<close> is \<^verbatim>\<open>Path.is_file\<close>; \<open>given\<close> is the resolved option \<^verbatim>\<open>--compose-file\<close>.\<close>

definition resolve_compose_file :: "(pystr \<Rightarrow> bool) \<Rightarrow> pystr option \<Rightarrow> pystr \<Rightarrow> pystr res" where
  "resolve_compose_file is_file given repo = (case given of
     Some p \<Rightarrow> if is_file p then Inr p else Inl (ValueError (U ''Compose file does not exist: '' @ p))
   | None \<Rightarrow> (case find is_file (map (path_join repo) COMPOSE_NAMES) of
        Some p \<Rightarrow> Inr p
      | None \<Rightarrow> Inl (ValueError (U ''No root Compose file found''))))"

text \<open>\<^verbatim>\<open>{self.mode_field: mode, self.value_field: value, **extra}\<close>\<close>

definition probe_payload :: "pystr \<Rightarrow> pystr \<Rightarrow> pystr \<Rightarrow> pystr \<Rightarrow> pydict \<Rightarrow> pydict" where
  "probe_payload mode_field value_field mode v extra = dict_of ([(mode_field, PStr mode), (value_field, PStr v)] @ extra)"

section \<open>The attributes of the checker\<close>

record attributes =
  a_fixture :: pydict
  a_module :: pystr
  a_action :: pystr
  a_target_schema :: pystr
  a_canary_table :: pystr
  a_mode_field :: pystr
  a_value_field :: pystr
  a_outcome :: pystr
  a_forced_error_code :: pystr
  a_route_key :: pystr
  a_action_path :: pystr
  a_compose_file :: pystr
  a_secret :: pystr
  a_tokens :: "(pystr \<times> pystr) list"

text \<open>\<open>clock n\<close> is the \<open>n\<close>-th reading of the clock in whole seconds.\<close>

definition malformed_claims :: "int \<Rightarrow> int \<Rightarrow> pydict" where
  "malformed_claims t u = [(U ''iss'', PInt 42), (U ''aud'', PStr (U ''moduledev-api'')), (U ''sub'', PStr (U ''candidate-client'')),
     (U ''consumer'', PStr (U ''web'')), (U ''scope'', PStr (U ''payment:write'')), (U ''iat'', PInt t), (U ''exp'', PInt (u + 900))]"

definition token_requests :: "(nat \<Rightarrow> int) \<Rightarrow> (string \<times> pydict) list" where
  "token_requests clock =
     (let claims = (\<lambda>subject consumer scopes. token_claims (U subject) (U consumer) (map U scopes)) in
      [(''worker'', claims ''workflow-worker'' ''internal'' [''workflow:execute'', ''payment:internal''] False (clock 0)),
       (''candidate'', claims ''candidate-client'' ''web'' [''payment:write'', ''payment:read'', ''workflow:read''] False (clock 1)),
       (''write'', claims ''write-client'' ''web'' [''payment:write''] False (clock 2)),
       (''read'', claims ''read-client'' ''web'' [''payment:read''] False (clock 3)),
       (''denied'', claims ''denied-client'' ''test'' [] False (clock 4)),
       (''expired'', claims ''candidate-client'' ''web'' [''payment:write''] True (clock 5)),
       (''malformed_claim'', malformed_claims (clock 6) (clock 7))])"

definition issue_tokens :: "pystr \<Rightarrow> (nat \<Rightarrow> int) \<Rightarrow> (pystr \<times> pystr) list res" where
  "issue_tokens secret clock =
     res_map (\<lambda>(name, claims). res_bind (sign_token secret claims) (\<lambda>t. Inr (U name, t))) (token_requests clock)"

definition fixture_text :: "pydict \<Rightarrow> string \<Rightarrow> pystr res" where
  "fixture_text fixture field = res_bind (ditem fixture (U field)) (\<lambda>v. Inr (py_str v))"

definition init_attributes ::
  "file_system \<Rightarrow> nat \<Rightarrow> pystr \<Rightarrow> (pystr \<Rightarrow> bool) \<Rightarrow> pystr option \<Rightarrow> pystr \<Rightarrow> pystr \<Rightarrow> (nat \<Rightarrow> int) \<Rightarrow> attributes res" where
  "init_attributes fs depth fixtures is_file given repo secret clock =
     res_bind (load_fixture fs depth fixtures) (\<lambda>fixture.
     res_bind (fixture_text fixture ''module'') (\<lambda>module.
     res_bind (fixture_text fixture ''action'') (\<lambda>action.
     res_bind (fixture_text fixture ''targetSchema'') (\<lambda>target_schema.
     res_bind (fixture_text fixture ''canaryTable'') (\<lambda>canary_table.
     res_bind (fixture_text fixture ''modeField'') (\<lambda>mode_field.
     res_bind (fixture_text fixture ''valueField'') (\<lambda>value_field.
     res_bind (fixture_text fixture ''outcome'') (\<lambda>outcome.
     res_bind (fixture_text fixture ''forcedErrorCode'') (\<lambda>forced_error_code.
     res_bind (resolve_compose_file is_file given repo) (\<lambda>compose_file.
     res_bind (issue_tokens secret clock) (\<lambda>tokens.
       Inr \<lparr>a_fixture = fixture, a_module = module, a_action = action, a_target_schema = target_schema,
         a_canary_table = canary_table, a_mode_field = mode_field, a_value_field = value_field, a_outcome = outcome,
         a_forced_error_code = forced_error_code, a_route_key = module @ U ''.'' @ action,
         a_action_path = U ''/api/'' @ module @ U ''/'' @ action, a_compose_file = compose_file, a_secret = secret,
         a_tokens = tokens\<rparr>)))))))))))"

text \<open>The statements that the checker sends to the database.\<close>

definition canary_query :: "attributes \<Rightarrow> pystr \<Rightarrow> pystr" where
  "canary_query a marker =
     U ''SELECT count(*) FROM '' @ a_target_schema a @ U ''.'' @ a_canary_table a @ U '' WHERE marker = '' @ sql_literal marker @ U '';''"

section \<open>Requests and answers\<close>

record wire_request =
  req_method :: pystr
  req_url :: pystr
  req_data :: "pybytes option"
  req_headers :: "(pystr \<times> pystr) list"

text \<open>
  What opening a URL does: an answer of any status with its body, an error that the checker
  catches, with the text it prints, or another exception.
\<close>

datatype open_outcome =
    Answered int pybytes
  | NetError pystr
  | Escaped pyexn

definition opt_header :: "string \<Rightarrow> pystr option \<Rightarrow> pystr \<Rightarrow> (pystr \<times> pystr) list" where
  "opt_header name v prefix = (case v of None \<Rightarrow> [] | Some s \<Rightarrow> if s = [] then [] else [(U name, prefix @ s)])"

definition make_request ::
  "pystr \<Rightarrow> pystr \<Rightarrow> pystr \<Rightarrow> pyval option \<Rightarrow> pystr option \<Rightarrow> pystr option \<Rightarrow> pystr option \<Rightarrow> wire_request res" where
  "make_request api_url method path payload token key version =
     res_bind (case payload of None \<Rightarrow> Inr None | Some v \<Rightarrow> res_bind (dumps_bytes v) (\<lambda>b. Inr (Some b))) (\<lambda>data.
       Inr \<lparr>req_method = method, req_url = rstrip_by (\<lambda>c. c = 47) api_url @ path, req_data = data,
         req_headers = (if data = None then [] else [(U ''Content-Type'', U ''application/json'')]) @
           opt_header ''Authorization'' token (U ''Bearer '') @ opt_header ''Idempotency-Key'' key [] @
           (case version of None \<Rightarrow> [] | Some v \<Rightarrow> [(U ''X-Action-Version'', v)])\<rparr>)"

text \<open>\<^verbatim>\<open>json.loads(text) if text else None\<close>, where a malformed text counts as None.\<close>

definition loads_or_none :: "nat \<Rightarrow> pystr \<Rightarrow> pyval res" where
  "loads_or_none depth s =
     (if s = [] then Inr PNone
      else case loads depth s of Inl e \<Rightarrow> if e = JSONDecodeError then Inr PNone else Inl e | Inr v \<Rightarrow> Inr v)"

definition read_response :: "nat \<Rightarrow> nat \<Rightarrow> open_outcome \<Rightarrow> Response res" where
  "read_response max_bytes depth outcome = (case outcome of
     NetError message \<Rightarrow> Inr \<lparr>resp_status = 0, resp_body = PNone, resp_text = [], resp_error = Some message\<rparr>
   | Escaped e \<Rightarrow> Inl e
   | Answered st content \<Rightarrow>
       let raw = take (max_bytes + 1) content in
       if max_bytes < length raw
       then Inr \<lparr>resp_status = st, resp_body = PNone, resp_text = [], resp_error = Some (U ''response body exceeded limit'')\<rparr>
       else let s = utf8_replace raw in res_bind (loads_or_none depth s) (\<lambda>body.
         Inr \<lparr>resp_status = st, resp_body = body, resp_text = s, resp_error = None\<rparr>))"

definition request ::
  "(wire_request \<Rightarrow> open_outcome) \<Rightarrow> nat \<Rightarrow> nat \<Rightarrow> pystr \<Rightarrow> pystr \<Rightarrow> pystr \<Rightarrow> pyval option \<Rightarrow> pystr option \<Rightarrow>
   pystr option \<Rightarrow> pystr option \<Rightarrow> Response res" where
  "request opener max_bytes depth api_url method path payload token key version =
     res_bind (make_request api_url method path payload token key version) (\<lambda>rq. read_response max_bytes depth (opener rq))"

definition error_code :: "Response \<Rightarrow> pyval" where
  "error_code r = (case resp_body r of PDict d \<Rightarrow> dget_none d (U ''code'') | _ \<Rightarrow> PNone)"

definition cli_envelope :: "pyval \<Rightarrow> pystr \<Rightarrow> bool" where
  "cli_envelope body st = (case body of
     PDict d \<Rightarrow> py_eq (dget_none d (U ''status'')) (PStr st) \<and>
       (case dget_none d (U ''meta'') of PDict m \<Rightarrow> py_eq (dget_none m (U ''contractVersion'')) (PStr (U ''course-1'')) | _ \<Rightarrow> False)
   | _ \<Rightarrow> False)"

definition result_of :: "Response \<Rightarrow> pydict" where
  "result_of r = (case resp_body r of
     PDict d \<Rightarrow> (case dget_none d (U ''result'') of PDict x \<Rightarrow> x | _ \<Rightarrow> [])
   | _ \<Rightarrow> [])"

text \<open>The value printed by \<^verbatim>\<open>cli\<close> and \<^verbatim>\<open>psql_json\<close>.\<close>

definition parsed_stdout :: "nat \<Rightarrow> CommandResult \<Rightarrow> pyval res" where
  "parsed_stdout depth r = loads_or_none depth (strip (cmd_stdout r))"

definition counted :: "CommandResult \<Rightarrow> int option" where
  "counted r =
     (if exitCode r \<noteq> 0 then None
      else case int_of_str (strip (cmd_stdout r)) of Inl _ \<Rightarrow> None | Inr n \<Rightarrow> Some n)"

section \<open>Facts\<close>

text \<open>
  How the database reads a quoted text with standard strings: two quotes are one, a single
  quote ends it. The result is the value and what follows.
\<close>

fun read_quoted :: "pystr \<Rightarrow> (pystr \<times> pystr) option" where
  "read_quoted [] = None"
| "read_quoted [c] = (if c = 39 then Some ([], []) else None)"
| "read_quoted (c # d # cs) =
     (if c = 39 then (if d = 39 then map_option (apfst (Cons 39)) (read_quoted cs) else Some ([], d # cs))
      else map_option (apfst (Cons c)) (read_quoted (d # cs)))"

definition read_literal :: "pystr \<Rightarrow> (pystr \<times> pystr) option" where
  "read_literal s = (case s of [] \<Rightarrow> None | c # cs \<Rightarrow> if c = 39 then read_quoted cs else None)"

lemma replace_quote:
  "replace_str [39] [39, 39] [] = []"
  "replace_str [39] [39, 39] (c # cs) = (if c = 39 then [39, 39] else [c]) @ replace_str [39] [39, 39] cs"
  by (simp_all add: replace_str_def replace_ne.simps [of _ _ "_ # _"] replace_ne.simps [of _ _ "[]"])

lemma read_quoted_other: "c \<noteq> 39 \<Longrightarrow> cs \<noteq> [] \<Longrightarrow> read_quoted (c # cs) = map_option (apfst (Cons c)) (read_quoted cs)"
  by (cases cs) auto

lemma read_sql_literal: "c \<noteq> 39 \<Longrightarrow> read_literal (sql_literal v @ c # cs) = Some (v, c # cs)"
proof -
  assume c: "c \<noteq> 39"
  have "read_quoted (replace_str [39] [39, 39] v @ 39 # c # cs) = Some (v, c # cs)"
    by (induction v) (auto simp: replace_quote c read_quoted_other)
  then show ?thesis by (simp add: read_literal_def sql_literal_def)
qed

definition sql_ident :: "pystr \<Rightarrow> bool" where
  "sql_ident s = (s \<noteq> [] \<and> length s \<le> 63 \<and> rlower (hd s) \<and> list_all ident_char s)"

lemma sql_identifier_iff: "fullmatch_ok SQL_IDENTIFIER s \<longleftrightarrow> sql_ident s"
proof -
  have l: "rlower c \<Longrightarrow> ident_char c" for c by (simp add: rlower_def ident_char_def)
  have "s \<in> lang SQL_IDENTIFIER \<longleftrightarrow> sql_ident s"
    by (cases s) (auto simp: SQL_IDENTIFIER_def sql_ident_def Cons_split_cls lang_rupto_cls list_all_iff l)
  then show ?thesis by (simp add: fullmatch_lang SQL_IDENTIFIER_def pure_rupto)
qed

lemma check_fixture_identifier:
  assumes "check_fixture d = Inr ()" "f \<in> {''module'', ''action'', ''targetSchema'', ''canaryTable'', ''modeField'', ''valueField''}"
  shows "\<exists>s. map_of d (U f) = Some (PStr s) \<and> sql_ident s"
proof -
  from assms have str: "list_all (\<lambda>(k, v). is_str v \<and> truthy v) d" by (simp add: check_fixture_def)
  from assms have "check_field d SQL_IDENTIFIER (U ''Invalid SQL identifier in fixture metadata: '' @ U f) (U f) = Inr ()"
    by (auto simp: check_fixture_def)
  then obtain v where v: "map_of d (U f) = Some v" "sql_ident (py_str v)"
    by (auto simp: check_field_def ditem_def sql_identifier_iff split: option.splits)
  from str map_of_SomeD [OF v(1)] have "is_str v" by (auto simp: list_all_iff)
  with v show ?thesis by (cases v) auto
qed

lemma check_fixture_filename:
  assumes "check_fixture d = Inr ()" "f \<in> {''migrationFile'', ''manifestV1'', ''manifestV2''}"
  shows "\<exists>s. map_of d (U f) = Some (PStr s) \<and> s \<noteq> [] \<and> 47 \<notin> set s"
proof -
  from assms have str: "list_all (\<lambda>(k, v). is_str v \<and> truthy v) d" by (simp add: check_fixture_def)
  from assms have "check_filename d (U f) = Inr ()" by (auto simp: check_fixture_def)
  then obtain v where v: "map_of d (U f) = Some v" "path_name (py_str v) = py_str v"
    by (auto simp: check_filename_def ditem_def split: option.splits)
  from str map_of_SomeD [OF v(1)] have "is_str v \<and> truthy v" by (auto simp: list_all_iff)
  then obtain s where s: "v = PStr s" "s \<noteq> []" by (cases v) auto
  with v(2) have "s \<in> set (path_parts s)" by (metis last_in_set path_name_def py_str.simps(1))
  then have "47 \<notin> set s" unfolding path_parts_def using split_ch_no_sep by auto
  with v s show ?thesis by blast
qed

lemma load_fixture_checked: "load_fixture fs depth fixtures = Inr d \<Longrightarrow> check_fixture d = Inr ()"
proof -
  assume "load_fixture fs depth fixtures = Inr d"
  then obtain v where "(case v of PDict d' \<Rightarrow> res_bind (check_fixture d') (\<lambda>_. Inr d')
      | _ \<Rightarrow> Inl (ValueError (U ''Fixture metadata fields must be exactly the published ones''))) = Inr d"
    unfolding load_fixture_def by auto
  then show ?thesis by (cases v) auto
qed

lemma fixture_text_ident:
  "check_fixture d = Inr () \<Longrightarrow> fixture_text d f = Inr s \<Longrightarrow>
     f \<in> {''module'', ''action'', ''targetSchema'', ''canaryTable'', ''modeField'', ''valueField''} \<Longrightarrow> sql_ident s"
  using check_fixture_identifier [of d f] by (auto simp: fixture_text_def ditem_def)

lemma fixture_filenames:
  assumes c: "check_fixture d = Inr ()"
  shows "\<exists>m v1 v2. map (map_of d) (map U [''migrationFile'', ''manifestV1'', ''manifestV2'']) = map (Some \<circ> PStr) [m, v1, v2] \<and>
    47 \<notin> set (m @ v1 @ v2)"
  using check_fixture_filename [OF c, of "''migrationFile''"] check_fixture_filename [OF c, of "''manifestV1''"]
    check_fixture_filename [OF c, of "''manifestV2''"] by auto

section \<open>Properties\<close>

text \<open>
  What the checker puts into its SQL comes from a fixture that it has checked: when the checker starts, the names in
  its queries are plain identifiers, and a literal reads back as the very text it was made of, whatever that is, so that
  neither can change a statement. The names of the files it opens contain no directory.
\<close>

theorem checker_sql_safe:
  assumes "init_attributes fs depth fixtures is_file given repo secret clock = Inr a"
  shows "list_all sql_ident [a_module a, a_action a, a_target_schema a, a_canary_table a, a_mode_field a, a_value_field a] \<and>
    (\<exists>q. canary_query a marker = U ''SELECT count(*) FROM '' @ a_target_schema a @ U ''.'' @ a_canary_table a @ U '' WHERE marker = '' @ q \<and>
       read_literal q = Some (marker, U '';'')) \<and>
    (\<exists>m v1 v2. map (map_of (a_fixture a)) (map U [''migrationFile'', ''manifestV1'', ''manifestV2'']) = map (Some \<circ> PStr) [m, v1, v2] \<and>
       47 \<notin> set (m @ v1 @ v2))"
proof -
  from assms have l: "load_fixture fs depth fixtures = Inr (a_fixture a)"
    and f: "fixture_text (a_fixture a) ''module'' = Inr (a_module a)" "fixture_text (a_fixture a) ''action'' = Inr (a_action a)"
      "fixture_text (a_fixture a) ''targetSchema'' = Inr (a_target_schema a)"
      "fixture_text (a_fixture a) ''canaryTable'' = Inr (a_canary_table a)"
      "fixture_text (a_fixture a) ''modeField'' = Inr (a_mode_field a)"
      "fixture_text (a_fixture a) ''valueField'' = Inr (a_value_field a)"
    unfolding init_attributes_def by auto
  note c = load_fixture_checked [OF l]
  from f have "list_all sql_ident [a_module a, a_action a, a_target_schema a, a_canary_table a, a_mode_field a, a_value_field a]"
    using f [THEN fixture_text_ident [OF c]] by simp
  moreover have "read_literal (sql_literal marker @ U '';'') = Some (marker, U '';'')"
    using read_sql_literal [of 59 marker "[]"] by (simp add: U_def)
  ultimately show ?thesis using fixture_filenames [OF c] by (simp add: canary_query_def)
qed

definition sample_probe :: pydict where
  "sample_probe = map (\<lambda>(k, v). (U k, PStr (U v))) [(''module'', ''a''), (''action'', ''b''), (''targetSchema'', ''s''),
     (''canaryTable'', ''t''), (''modeField'', ''m''), (''valueField'', ''v''), (''outcome'', ''DONE''), (''forcedErrorCode'', ''a.b''),
     (''migrationFile'', ''1.sql''), (''manifestV1'', ''1.json''), (''manifestV2'', ''2.json'')]"

definition probe_fs :: file_system where
  "probe_fs = \<lparr>fs_resolve = (\<lambda>p. Inr (split_ch 47 p)),
     fs_file = (\<lambda>p. case dumps compact (PDict sample_probe) of Inr t \<Rightarrow> Some t | Inl _ \<Rightarrow> None)\<rparr>"

lemma probe_text:
  "case dumps compact (PDict sample_probe) of Inr t \<Rightarrow> utf8_decode t = Inr t \<and> universal_newlines t = t | Inl _ \<Rightarrow> False"
  by code_simp

lemma load_probe: "load_fixture probe_fs 50 (U ''/f'') = Inr sample_probe"
proof -
  have "json_ok False 50 (PDict sample_probe)" by code_simp
  from loads_dumps [OF this] obtain t where t: "dumps compact (PDict sample_probe) = Inr t" "loads 50 t = Inr (PDict sample_probe)"
    by (auto simp: copts_def compact_def)
  have c: "check_fixture sample_probe = Inr ()" by code_simp
  from t probe_text have "read_json probe_fs 50 (path_join (U ''/f'') (U ''fixture.json'')) = Inr (PDict sample_probe)"
    by (simp add: read_json_def read_text_def read_bytes_def probe_fs_def del: dumps.simps)
  with c show ?thesis by (simp add: load_fixture_def read_fixture_def)
qed

lemma sign_token_Inr:
  "isl (dumps_bytes (PDict claims)) = False \<Longrightarrow> isl (utf8_encode secret) = False \<Longrightarrow> \<exists>t. sign_token secret claims = Inr t"
proof -
  assume "isl (dumps_bytes (PDict claims)) = False" "isl (utf8_encode secret) = False"
  then obtain b k where b: "dumps_bytes (PDict claims) = Inr b" "utf8_encode secret = Inr k" using not_isl_Inr by blast
  have "isl (dumps_bytes (PDict [(U ''alg'', PStr (U ''HS256'')), (U ''typ'', PStr (U ''JWT''))])) = False" by code_simp
  then obtain h where "dumps_bytes (PDict [(U ''alg'', PStr (U ''HS256'')), (U ''typ'', PStr (U ''JWT''))]) = Inr h"
    using not_isl_Inr by blast
  with b show ?thesis by (simp add: sign_token_def Let_def)
qed

lemma issue_tokens_probe: "\<exists>ts. issue_tokens (U ''key'') (\<lambda>n. 1000) = Inr ts"
proof -
  have k: "isl (utf8_encode (U ''key'')) = False" by code_simp
  have "list_all (\<lambda>(name, claims). isl (dumps_bytes (PDict claims)) = False) (token_requests (\<lambda>n. 1000))" by code_simp
  then have "\<exists>ts. res_map (\<lambda>(name, claims). res_bind (sign_token (U ''key'') claims) (\<lambda>t. Inr (U name, t))) xs = Inr ts"
    if "set xs \<subseteq> set (token_requests (\<lambda>n. 1000))" for xs
    using that
  proof (induction xs)
    case (Cons x xs)
    then show ?case using sign_token_Inr [OF _ k, of "snd x"] by (auto simp: list_all_iff split: prod.splits)
  qed simp
  then show ?thesis unfolding issue_tokens_def by blast
qed

lemma init_probe:
  "\<exists>a. init_attributes probe_fs 50 (U ''/f'') (\<lambda>p. True) None (U ''/repo'') (U ''key'') (\<lambda>n. 1000) = Inr a \<and> a_target_schema a = U ''s''"
proof -
  obtain ts where ts: "issue_tokens (U ''key'') (\<lambda>n. 1000) = Inr ts" using issue_tokens_probe by blast
  have "resolve_compose_file (\<lambda>p. True) None (U ''/repo'') = Inr (path_join (U ''/repo'') (U ''compose.yaml''))" by code_simp
  with ts show ?thesis
    by (simp add: init_attributes_def load_probe fixture_text_def ditem_def sample_probe_def)
qed

theorem checker_sql_safe_witness:
  "\<exists>a. init_attributes probe_fs 50 (U ''/f'') (\<lambda>p. True) None (U ''/repo'') (U ''key'') (\<lambda>n. 1000) = Inr a \<and> sql_ident (a_target_schema a)"
  using init_probe checker_sql_safe [of probe_fs 50 "U ''/f''" "\<lambda>p. True" None "U ''/repo''" "U ''key''" "\<lambda>n. 1000"] by force

end
