(* ===== verification/Py_State.thy ===== *)
theory Py_State
  imports Py_Prelude
begin

text \<open>
  Python code that changes state and may raise: a function from the state to a result and the
  state left behind, whether the code returned or raised.
\<close>

type_synonym ('s, 'a) py = "'s \<Rightarrow> 'a res \<times> 's"

definition py_return :: "'a \<Rightarrow> ('s, 'a) py" where
  "py_return x = (\<lambda>s. (Inr x, s))"

definition py_raise :: "pyexn \<Rightarrow> ('s, 'a) py" where
  "py_raise e = (\<lambda>s. (Inl e, s))"

definition py_lift :: "'a res \<Rightarrow> ('s, 'a) py" where
  "py_lift r = (\<lambda>s. (r, s))"

definition py_bind :: "('s, 'a) py \<Rightarrow> ('a \<Rightarrow> ('s, 'b) py) \<Rightarrow> ('s, 'b) py" where
  "py_bind m f = (\<lambda>s. case m s of (Inl e, s') \<Rightarrow> (Inl e, s') | (Inr x, s') \<Rightarrow> f x s')"

definition py_seq :: "('s, 'a) py \<Rightarrow> ('s, 'b) py \<Rightarrow> ('s, 'b) py" where
  "py_seq m n = py_bind m (\<lambda>_. n)"

definition py_get :: "('s, 's) py" where
  "py_get = (\<lambda>s. (Inr s, s))"

definition py_modify :: "('s \<Rightarrow> 's) \<Rightarrow> ('s, unit) py" where
  "py_modify f = (\<lambda>s. (Inr (), f s))"

text \<open>\<^verbatim>\<open>try: m except p as e: h\<close>\<close>

definition py_try :: "('s, 'a) py \<Rightarrow> (pyexn \<Rightarrow> bool) \<Rightarrow> (pyexn \<Rightarrow> ('s, 'a) py) \<Rightarrow> ('s, 'a) py" where
  "py_try m p h = (\<lambda>s. case m s of (Inl e, s') \<Rightarrow> if p e then h e s' else (Inl e, s') | r \<Rightarrow> r)"

fun py_for :: "('a \<Rightarrow> ('s, unit) py) \<Rightarrow> 'a list \<Rightarrow> ('s, unit) py" where
  "py_for f [] = py_return ()"
| "py_for f (x # xs) = py_seq (f x) (py_for f xs)"

lemma py_bind_simps [simp]:
  "m s = (Inl e, s') \<Longrightarrow> py_bind m f s = (Inl e, s')"
  "m s = (Inr x, s') \<Longrightarrow> py_bind m f s = f x s'"
  by (simp_all add: py_bind_def)

lemma py_basic_simps [simp]:
  "py_return x s = (Inr x, s)" "py_raise e s = (Inl e, s)" "py_lift r s = (r, s)"
  "py_get s = (Inr s, s)" "py_modify f s = (Inr (), f s)"
  by (simp_all add: py_return_def py_raise_def py_lift_def py_get_def py_modify_def)

lemma py_try_simps [simp]:
  "m s = (Inr x, s') \<Longrightarrow> py_try m p h s = (Inr x, s')"
  "m s = (Inl e, s') \<Longrightarrow> py_try m p h s = (if p e then h e s' else (Inl e, s'))"
  by (simp_all add: py_try_def)

text \<open>What a composition returned normally says of its parts.\<close>

lemma py_bind_eq_Inr: "py_bind m f s = (Inr y, t) \<longleftrightarrow> (\<exists>x s'. m s = (Inr x, s') \<and> f x s' = (Inr y, t))"
  by (auto simp: py_bind_def split: prod.splits sum.splits)

lemma py_seq_eq_Inr: "py_seq m n s = (Inr y, t) \<longleftrightarrow> (\<exists>x s'. m s = (Inr x, s') \<and> n s' = (Inr y, t))"
  by (simp add: py_seq_def py_bind_eq_Inr)

lemma py_seq_simps [simp]:
  "m s = (Inl e, s') \<Longrightarrow> py_seq m n s = (Inl e, s')"
  "m s = (Inr x, s') \<Longrightarrow> py_seq m n s = n s'"
  by (simp_all add: py_seq_def)

lemma py_bind_lift_Inr: "py_bind (py_lift (Inr x)) f = f x"
  by (rule ext) simp

lemmas py_Inr = py_bind_eq_Inr py_seq_eq_Inr

text \<open>The exceptions that the driver raises.\<close>

definition is_PsycopgError :: "pyexn \<Rightarrow> bool" where
  "is_PsycopgError e = (case e of PsycopgError _ \<Rightarrow> True | _ \<Rightarrow> False)"

text \<open>
  What a piece of code keeps of the state: a reflexive and transitive relation between the state
  before and after it is inherited by every composition of such pieces.
\<close>

definition preserves :: "('s \<Rightarrow> 's \<Rightarrow> bool) \<Rightarrow> ('s, 'a) py \<Rightarrow> bool" where
  "preserves R m \<longleftrightarrow> (\<forall>s. R s (snd (m s)))"

locale state_order =
  fixes R :: "'s \<Rightarrow> 's \<Rightarrow> bool"
  assumes refl: "R s s"
    and trans: "R s t \<Longrightarrow> R t u \<Longrightarrow> R s u"
begin

lemma pure: "preserves R (py_return x)" "preserves R (py_raise e)" "preserves R (py_lift r)" "preserves R py_get"
  by (simp_all add: preserves_def refl)

lemma bind:
  assumes "preserves R m" and "\<And>x. preserves R (f x)"
  shows "preserves R (py_bind m f)"
  unfolding preserves_def
proof
  fix s
  obtain r s' where m: "m s = (r, s')" by (cases "m s")
  with assms(1) have "R s s'" unfolding preserves_def by (metis snd_conv)
  moreover have "R s' (snd (f x s'))" for x using assms(2) by (simp add: preserves_def)
  ultimately show "R s (snd (py_bind m f s))" using m trans by (cases r) auto
qed

lemma seq: "preserves R m \<Longrightarrow> preserves R n \<Longrightarrow> preserves R (py_seq m n)"
  unfolding py_seq_def by (rule bind)

lemma catch:
  assumes "preserves R m" and "\<And>e. preserves R (h e)"
  shows "preserves R (py_try m p h)"
  unfolding preserves_def
proof
  fix s
  obtain r s' where m: "m s = (r, s')" by (cases "m s")
  with assms(1) have "R s s'" unfolding preserves_def by (metis snd_conv)
  moreover have "R s' (snd (h e s'))" for e using assms(2) by (simp add: preserves_def)
  ultimately show "R s (snd (py_try m p h s))" using m trans by (cases r) auto
qed

lemma loop: "(\<And>x. preserves R (f x)) \<Longrightarrow> preserves R (py_for f xs)"
  by (induction xs) (simp_all add: pure seq)

lemmas compose = pure bind seq catch loop

end

end
