(* ===== verification/Week1_Session.thy ===== *)
theory Week1_Session
  imports Week1_Checker Py_State
begin

text \<open>
  The state of the class \<^verbatim>\<open>Checker\<close> of \<^verbatim>\<open>task/week1/autocheck/public_check.py\<close> and its operations on it: recording a
  check, running a command, sending a request, waiting. The world outside (subprocesses, answers of the stack, files,
  random identifiers) is the record \<open>world\<close>. Each interaction has a number, and an oracle of the world answers an
  interaction by its number, so that nothing is assumed of how the world changes between two of them.
\<close>

section \<open>State and surroundings\<close>

record session =
  checks :: "Check list"
  commands :: "CommandResult list"
  tick :: nat

text \<open>
  \<open>w_polls n\<close> are the two answers of each round that the waiting loop begins before its deadline; \<open>w_barrier n i\<close>
  says whether the barrier of the concurrent requests let thread \<open>i\<close> pass; \<open>w_exec\<close> and \<open>w_git\<close> are what
  \<^verbatim>\<open>subprocess.run\<close> does, an exception that the code does not catch being an error, such as the
  \<^verbatim>\<open>UnicodeDecodeError\<close> of \<^verbatim>\<open>text=True\<close>; \<open>w_pick\<close> is the position of the first element
  of a set in the order of its iteration.
\<close>

record world =
  w_self :: attributes
  w_repo :: pystr
  w_fixtures :: pystr
  w_temp :: pystr
  w_fs :: file_system
  w_git :: "run_outcome res"
  w_walk :: "walk_entry list"
  w_exec :: "nat \<Rightarrow> pystr list \<Rightarrow> int \<Rightarrow> run_outcome res"
  w_write :: "nat \<Rightarrow> pystr \<Rightarrow> pystr \<Rightarrow> unit res"
  w_mkdir :: "nat \<Rightarrow> pystr \<Rightarrow> unit res"
  w_polls :: "nat \<Rightarrow> (open_outcome \<times> open_outcome) list"
  w_open :: "nat \<Rightarrow> wire_request \<Rightarrow> open_outcome"
  w_hex :: "nat \<Rightarrow> pystr"
  w_uuid :: "nat \<Rightarrow> pystr"
  w_deadline :: "nat \<Rightarrow> pystr"
  w_barrier :: "nat \<Rightarrow> nat \<Rightarrow> bool"
  w_pick :: nat
  w_compose_prefix :: "pystr list"
  w_project :: pystr
  w_override :: pystr
  w_api_url :: pystr
  w_skip_build :: bool
  w_keep_stack :: bool
  w_build_timeout :: int
  w_workers :: nat
  w_max_bytes :: nat
  w_depth :: nat

text \<open>One interaction with the world.\<close>

definition ask :: "(nat \<Rightarrow> 'a) \<Rightarrow> (session, 'a) py" where
  "ask oracle = (\<lambda>s. (Inr (oracle (tick s)), s\<lparr>tick := Suc (tick s)\<rparr>))"

definition ask_res :: "(nat \<Rightarrow> 'a res) \<Rightarrow> (session, 'a) py" where
  "ask_res oracle = py_bind (ask oracle) py_lift"

text \<open>Abbreviations for the values of a report.\<close>

definition ps :: "string \<Rightarrow> pyval" where
  "ps s = PStr (U s)"

definition obj :: "(string \<times> pyval) list \<Rightarrow> pyval" where
  "obj kvs = PDict (map (\<lambda>(k, v). (U k, v)) kvs)"

definition strs :: "pystr list \<Rightarrow> pyval" where
  "strs xs = PList (map PStr xs)"

section \<open>Checks and commands\<close>

definition add_check :: "pystr \<Rightarrow> string \<Rightarrow> bool \<Rightarrow> pyval \<Rightarrow> pyval \<Rightarrow> bool \<Rightarrow> (session, unit) py" where
  "add_check name criterion condition expected actual required = py_modify (\<lambda>s. s\<lparr>checks := checks s @
     [\<lparr>chk_name = name, chk_group = U criterion, chk_passed = condition, chk_expected = expected, chk_actual = actual,
       chk_required = required\<rparr>]\<rparr>)"

text \<open>A required check.\<close>

definition check :: "string \<Rightarrow> string \<Rightarrow> bool \<Rightarrow> pyval \<Rightarrow> pyval \<Rightarrow> (session, unit) py" where
  "check name criterion condition expected actual = add_check (U name) criterion condition expected actual True"

definition command_result :: "pystr list \<Rightarrow> int \<Rightarrow> run_outcome \<Rightarrow> CommandResult" where
  "command_result cmd timeout outcome = (case outcome of
     Completed code out err \<Rightarrow> \<lparr>cmd_line = cmd, exitCode = code, cmd_stdout = out, cmd_stderr = err\<rparr>
   | TimeoutExpired out err \<Rightarrow> \<lparr>cmd_line = cmd, exitCode = 124, cmd_stdout = (case out of None \<Rightarrow> [] | Some t \<Rightarrow> t),
       cmd_stderr = (case err of None \<Rightarrow> [] | Some t \<Rightarrow> t) @ [10] @ U ''Timed out after '' @ str_of_int timeout @ U ''s''\<rparr>
   | RunOSError message \<Rightarrow> \<lparr>cmd_line = cmd, exitCode = 127, cmd_stdout = [], cmd_stderr = message\<rparr>)"

definition command :: "world \<Rightarrow> pystr list \<Rightarrow> int \<Rightarrow> (session, CommandResult) py" where
  "command w cmd timeout =
     py_bind (ask_res (\<lambda>n. w_exec w n cmd timeout)) (\<lambda>outcome.
     let r = command_result cmd timeout outcome in
     py_seq (py_modify (\<lambda>s. s\<lparr>commands := commands s @ [r]\<rparr>)) (py_return r))"

definition compose_line :: "world \<Rightarrow> pystr list \<Rightarrow> pystr list" where
  "compose_line w arguments = w_compose_prefix w @ [U ''--project-name'', w_project w, U ''-f'', a_compose_file (w_self w),
     U ''-f'', w_override w] @ arguments"

definition compose :: "world \<Rightarrow> pystr list \<Rightarrow> int \<Rightarrow> (session, CommandResult) py" where
  "compose w arguments timeout = command w (compose_line w arguments) timeout"

definition psql :: "world \<Rightarrow> pystr \<Rightarrow> (session, CommandResult) py" where
  "psql w sql = compose w (map U [''exec'', ''-T'', ''postgres'', ''psql'', ''-X'', ''-A'', ''-t'', ''-v'', ''ON_ERROR_STOP=1'',
     ''-U'', ''postgres'', ''-d'', ''course'', ''-c''] @ [sql]) 60"

definition psql_json :: "world \<Rightarrow> pystr \<Rightarrow> (session, CommandResult \<times> pyval) py" where
  "psql_json w sql = py_bind (psql w sql) (\<lambda>r. py_bind (py_lift (parsed_stdout (w_depth w) r)) (\<lambda>v. py_return (r, v)))"

text \<open>\<open>source\<close> is the directory that is mounted, resolved.\<close>

definition cli :: "world \<Rightarrow> pystr \<Rightarrow> pystr list \<Rightarrow> (session, CommandResult \<times> pyval) py" where
  "cli w source arguments =
     py_bind (compose w (map U [''run'', ''--rm'', ''-T'', ''--no-deps'', ''-v''] @
       [source @ U '':/autocheck/input:ro'', U ''cli''] @ arguments) 180) (\<lambda>r.
     py_bind (py_lift (parsed_stdout (w_depth w) r)) (\<lambda>v. py_return (r, v)))"

definition canary_count :: "world \<Rightarrow> pystr \<Rightarrow> (session, int option) py" where
  "canary_count w marker = py_bind (psql w (canary_query (w_self w) marker)) (\<lambda>r. py_return (counted r))"

definition opt_int :: "int option \<Rightarrow> pyval" where
  "opt_int c = (case c of None \<Rightarrow> PNone | Some n \<Rightarrow> PInt n)"

text \<open>\<^verbatim>\<open>base and self.canary_count(marker) == n\<close>\<close>

definition and_canary :: "world \<Rightarrow> bool \<Rightarrow> pystr \<Rightarrow> int \<Rightarrow> (session, bool) py" where
  "and_canary w base marker n =
     (if base then py_bind (canary_count w marker) (\<lambda>c. py_return (c = Some n)) else py_return False)"

section \<open>Requests\<close>

text \<open>The token is given by its name in \<^verbatim>\<open>self.tokens\<close>.\<close>

definition send :: "world \<Rightarrow> string \<Rightarrow> pystr \<Rightarrow> pyval option \<Rightarrow> string option \<Rightarrow> pystr option \<Rightarrow> string option \<Rightarrow> (session, Response) py" where
  "send w method path payload token key version =
     py_bind (py_lift (case token of None \<Rightarrow> Inr None
       | Some n \<Rightarrow> res_bind (ditem (a_tokens (w_self w)) (U n)) (\<lambda>t. Inr (Some t)))) (\<lambda>tok.
     py_bind (py_lift (make_request (w_api_url w) (U method) path payload tok key (map_option U version))) (\<lambda>rq.
     ask_res (\<lambda>n. read_response (w_max_bytes w) (w_depth w) (w_open w n rq))))"

definition get :: "world \<Rightarrow> pystr \<Rightarrow> (session, Response) py" where
  "get w path = send w ''GET'' path None None None None"

definition post_as :: "world \<Rightarrow> pystr \<Rightarrow> pyval \<Rightarrow> string \<Rightarrow> pystr \<Rightarrow> string option \<Rightarrow> (session, Response) py" where
  "post_as w path payload token key version = send w ''POST'' path (Some payload) (Some token) (Some key) version"

text \<open>\<^verbatim>\<open>f"{prefix}-{uuid.uuid4().hex}"\<close>\<close>

definition fresh :: "world \<Rightarrow> string \<Rightarrow> (session, pystr) py" where
  "fresh w prefix = py_bind (ask (w_hex w)) (\<lambda>h. py_return (U prefix @ U ''-'' @ h))"

definition probe :: "world \<Rightarrow> string \<Rightarrow> pystr \<Rightarrow> pyval" where
  "probe w mode marker = PDict (probe_payload (a_mode_field (w_self w)) (a_value_field (w_self w)) (U mode) marker [])"

definition asdict_response :: "Response \<Rightarrow> pyval" where
  "asdict_response r = obj [(''status'', PInt (resp_status r)), (''body'', resp_body r), (''text'', PStr (resp_text r)),
     (''error'', case resp_error r of None \<Rightarrow> PNone | Some e \<Rightarrow> PStr e)]"

text \<open>An answer with a status and an error code, and the check that expects it.\<close>

definition rejected :: "Response \<Rightarrow> int \<Rightarrow> string \<Rightarrow> bool" where
  "rejected r st code = (resp_status r = st \<and> py_eq (error_code r) (ps code))"

definition rejection_check :: "string \<Rightarrow> string \<Rightarrow> int \<Rightarrow> string \<Rightarrow> Response \<Rightarrow> (session, unit) py" where
  "rejection_check name criterion st code r =
     check name criterion (rejected r st code) (obj [(''http'', PInt st), (''code'', ps code)]) (asdict_response r)"

text \<open>The same where the request must also have left no trace in the canary table.\<close>

definition untouched_check :: "world \<Rightarrow> string \<Rightarrow> string \<Rightarrow> int \<Rightarrow> string \<Rightarrow> pystr \<Rightarrow> Response \<Rightarrow> (session, unit) py" where
  "untouched_check w name criterion st code marker r =
     py_bind (and_canary w (rejected r st code) marker 0) (\<lambda>ok.
     py_bind (canary_count w marker) (\<lambda>c.
       check name criterion ok (obj [(''http'', PInt st), (''code'', ps code), (''canary'', PInt 0)])
         (obj [(''response'', asdict_response r), (''canary'', opt_int c)])))"

section \<open>Waiting\<close>

definition not_requested :: Response where
  "not_requested = \<lparr>resp_status = 0, resp_body = PNone, resp_text = [], resp_error = Some (U ''not requested'')\<rparr>"

text \<open>The loop of \<^verbatim>\<open>wait_ready\<close> and \<^verbatim>\<open>wait_dependency_unready\<close>: the rounds begun before the deadline.\<close>

fun wait_until :: "(Response \<Rightarrow> Response \<Rightarrow> bool) \<Rightarrow> nat \<Rightarrow> nat \<Rightarrow> (open_outcome \<times> open_outcome) list \<Rightarrow> Response \<times> Response \<Rightarrow>
  (Response \<times> Response) res" where
  "wait_until stop max_bytes depth [] latest = Inr latest"
| "wait_until stop max_bytes depth ((a, b) # polls) latest =
     res_bind (read_response max_bytes depth a) (\<lambda>live.
     res_bind (read_response max_bytes depth b) (\<lambda>ready.
       if stop live ready then Inr (live, ready) else wait_until stop max_bytes depth polls (live, ready)))"

definition both_ready :: "Response \<Rightarrow> Response \<Rightarrow> bool" where
  "both_ready live ready = (resp_status live = 200 \<and> resp_status ready = 200)"

definition wait_for :: "world \<Rightarrow> (Response \<Rightarrow> Response \<Rightarrow> bool) \<Rightarrow> (session, Response \<times> Response) py" where
  "wait_for w stop = ask_res (\<lambda>n. wait_until stop (w_max_bytes w) (w_depth w) (w_polls w n) (not_requested, not_requested))"

definition wait_ready :: "world \<Rightarrow> (session, Response \<times> Response) py" where
  "wait_ready w = wait_for w both_ready"

definition wait_dependency_unready :: "world \<Rightarrow> (session, Response \<times> Response) py" where
  "wait_dependency_unready w = wait_for w (\<lambda>live ready. resp_status live = 200 \<and> resp_status ready \<noteq> 200)"

end
