(* ===== verification/Week1_Start.thy ===== *)
theory Week1_Start
  imports Week1_Session
begin

text \<open>
  \<^verbatim>\<open>Checker.start_stack\<close> of \<^verbatim>\<open>task/week1/autocheck/public_check.py\<close>, block by block, and what it means for the
  submission when it records no failed check of the infrastructure.
\<close>

section \<open>The blocks\<close>

definition readme_check :: "world \<Rightarrow> (session, unit) py" where
  "readme_check w = py_bind (py_lift (readme_findings (w_fs w) (w_repo w))) (\<lambda>issues.
     check ''submission-readme'' ''infrastructure'' (issues = [])
       (PStr (U ''complete README section '' @ [1056] @ tl solution_word)) (strs issues))"

definition hygiene_check :: "world \<Rightarrow> (session, unit) py" where
  "hygiene_check w = py_bind (py_lift (w_git w)) (\<lambda>git. let issues = repository_hygiene_findings git (w_walk w) in
     check ''repository-hygiene'' ''infrastructure'' (issues = []) (ps ''no tracked generated, environment or IDE files'') (strs issues))"

definition override_text :: "pystr \<Rightarrow> pystr" where
  "override_text secret = U ''services:'' @ [10] @ U ''  api:'' @ [10] @ U ''    environment:'' @ [10] @
     U ''      COURSE_JWT_ISSUER: moduledev-course'' @ [10] @ U ''      COURSE_JWT_AUDIENCE: moduledev-api'' @ [10] @
     U ''      COURSE_JWT_SIGNING_KEY: '' @ json_str True secret @ [10]"

definition write_override :: "world \<Rightarrow> (session, unit) py" where
  "write_override w = ask_res (\<lambda>n. w_write w n (w_override w) (override_text (a_secret (w_self w))))"

text \<open>The value of \<^verbatim>\<open>services\<close> and its elements; a text that is not JSON counts as no services.\<close>

definition parse_services :: "nat \<Rightarrow> pystr \<Rightarrow> (pyval \<times> pyval list) res" where
  "parse_services depth out = (case loads depth out of
     Inl e \<Rightarrow> if e = JSONDecodeError then Inr (PDict [], []) else Inl e
   | Inr v \<Rightarrow> res_bind (get_attr (PDict []) v (U ''services'')) (\<lambda>sc. res_bind (py_iter sc) (\<lambda>xs.
       res_bind (py_set xs) (\<lambda>ys. Inr (sc, ys)))))"

definition config_check :: "world \<Rightarrow> (session, pyval option) py" where
  "config_check w =
     py_bind (compose w (map U [''config'', ''--format'', ''json'']) 60) (\<lambda>config.
     py_bind (py_lift (parse_services (w_depth w) (cmd_stdout config))) (\<lambda>(service_config, services).
     py_bind (py_lift (py_sorted services)) (\<lambda>names.
     py_seq (check ''compose-services'' ''infrastructure'' (exitCode config = 0 \<and> PStr ` REQUIRED_SERVICES \<subseteq> set services)
         (strs (sorted_list_of_set REQUIRED_SERVICES))
         (obj [(''exitCode'', PInt (exitCode config)), (''services'', PList names), (''stderr'', PStr (cmd_stderr config))]))
       (py_return (if exitCode config = 0 then Some service_config else None)))))"

definition other_published_ports :: "pyval \<Rightarrow> (pystr \<times> int set) list res" where
  "other_published_ports service_config = (case service_config of
     PDict d \<Rightarrow> res_concat (\<lambda>(name, service).
       if name = U ''gateway'' then Inr []
       else res_bind (published_ports service) (\<lambda>ports. Inr (if ports = {} then [] else [(name, ports)]))) d
   | _ \<Rightarrow> Inl AttributeError)"

definition port_list :: "int set \<Rightarrow> pyval" where
  "port_list ports = PList (map PInt (sorted_list_of_set ports))"

definition entrypoint_check :: "pyval \<Rightarrow> (session, unit) py" where
  "entrypoint_check service_config =
     py_bind (py_lift (get_attr PNone service_config (U ''gateway''))) (\<lambda>gateway.
     py_bind (py_lift (published_ports gateway)) (\<lambda>gateway_ports.
     py_bind (py_lift (other_published_ports service_config)) (\<lambda>other.
       check ''gateway-is-only-public-entrypoint'' ''infrastructure'' (gateway_ports = {8080} \<and> other = [])
         (obj [(''gateway'', PList [PInt 8080]), (''otherServices'', PDict [])])
         (obj [(''gateway'', port_list gateway_ports), (''otherServices'', PDict (map (\<lambda>(n, ports). (n, port_list ports)) other))]))))"

text \<open>A command whose exit code is checked; the result says whether to go on.\<close>

definition exit_check :: "world \<Rightarrow> string \<Rightarrow> pystr list \<Rightarrow> int \<Rightarrow> (session, bool) py" where
  "exit_check w name arguments timeout = py_bind (compose w arguments timeout) (\<lambda>r.
     py_seq (check name ''infrastructure'' (exitCode r = 0) (PInt 0) (PInt (exitCode r))) (py_return (exitCode r = 0)))"

definition build_stack :: "world \<Rightarrow> (session, bool) py" where
  "build_stack w = (if w_skip_build w then py_return True
     else exit_check w ''compose-build'' (map U [''build'', ''--pull'']) (w_build_timeout w))"

definition status_check :: "string \<Rightarrow> int \<Rightarrow> Response \<Rightarrow> (session, unit) py" where
  "status_check name st r = check name ''infrastructure'' (resp_status r = st) (PInt st) (asdict_response r)"

definition health_checks :: "world \<Rightarrow> (session, unit) py" where
  "health_checks w =
     py_bind (wait_ready w) (\<lambda>(live, ready).
     py_seq (status_check ''health-live'' 200 live) (
     py_seq (status_check ''health-ready'' 200 ready) (
     py_bind (get w (U ''/not-part-of-course-contract'')) (\<lambda>unknown_surface.
       status_check ''gateway-route-whitelist'' 404 unknown_surface))))"

definition launch :: "world \<Rightarrow> (session, unit) py" where
  "launch w =
     py_bind (build_stack w) (\<lambda>built.
     if \<not> built then py_return ()
     else py_bind (exit_check w ''compose-up'' (map U [''up'', ''-d'', ''--force-recreate'']) 600) (\<lambda>up.
       if \<not> up then py_return () else health_checks w))"

definition start_stack :: "world \<Rightarrow> (session, unit) py" where
  "start_stack w =
     py_seq (readme_check w) (
     py_seq (hygiene_check w) (
     py_seq (write_override w) (
     py_bind (config_check w) (\<lambda>c. case c of
       None \<Rightarrow> py_return ()
     | Some service_config \<Rightarrow> py_seq (entrypoint_check service_config) (launch w)))))"

section \<open>Failed checks of the infrastructure\<close>

definition infra_failed :: "session \<Rightarrow> bool" where
  "infra_failed s = list_ex (\<lambda>c. chk_required c \<and> \<not> chk_passed c) (filter (\<lambda>c. chk_group c = U ''infrastructure'') (checks s))"

lemma infra_failed_check [simp]:
  "check name criterion ok ex act s = (Inr u, t) \<Longrightarrow> infra_failed t \<longleftrightarrow> infra_failed s \<or> criterion = ''infrastructure'' \<and> \<not> ok"
  by (auto simp: check_def add_check_def infra_failed_def split: if_splits)

lemma infra_failed_compose [simp]: "compose w args timeout s = (Inr r, t) \<Longrightarrow> infra_failed t = infra_failed s"
  by (auto simp: compose_def command_def ask_res_def ask_def infra_failed_def py_Inr Let_def)

lemma infra_failed_ask_res [simp]: "ask_res f s = (Inr r, t) \<Longrightarrow> infra_failed t = infra_failed s"
  by (auto simp: ask_res_def ask_def infra_failed_def py_Inr)

lemma infra_failed_get [simp]: "get w path s = (Inr r, t) \<Longrightarrow> infra_failed t = infra_failed s"
  by (auto simp: get_def send_def py_Inr)

lemma wait_ready_Inr:
  "wait_ready w s = (Inr (live, ready), t) \<Longrightarrow>
     wait_until both_ready (w_max_bytes w) (w_depth w) (w_polls w (tick s)) (not_requested, not_requested) = Inr (live, ready) \<and>
     infra_failed t = infra_failed s"
  by (auto simp: wait_ready_def wait_for_def ask_res_def ask_def py_Inr infra_failed_def)

text \<open>The result of a command of Compose that is interaction number \<open>n\<close>.\<close>

definition compose_result :: "world \<Rightarrow> pystr list \<Rightarrow> int \<Rightarrow> nat \<Rightarrow> CommandResult res" where
  "compose_result w args timeout n = res_bind (w_exec w n (compose_line w args) timeout) (\<lambda>outcome.
     Inr (command_result (compose_line w args) timeout outcome))"

lemma compose_Inr: "compose w args timeout s = (Inr r, t) \<Longrightarrow> compose_result w args timeout (tick s) = Inr r"
  by (auto simp: compose_def command_def ask_res_def ask_def compose_result_def py_Inr Let_def)

section \<open>A start without failed checks\<close>

text \<open>Compose printed a configuration with these services, the required ones among them.\<close>

definition configured :: "world \<Rightarrow> pyval \<Rightarrow> bool" where
  "configured w sc \<longleftrightarrow> (\<exists>n r services. compose_result w (map U [''config'', ''--format'', ''json'']) 60 n = Inr r \<and> exitCode r = 0 \<and>
     parse_services (w_depth w) (cmd_stdout r) = Inr (sc, services) \<and> PStr ` REQUIRED_SERVICES \<subseteq> set services)"

text \<open>The gateway publishes port 8080, and no other service publishes a port.\<close>

definition only_gateway_published :: "pyval \<Rightarrow> bool" where
  "only_gateway_published sc \<longleftrightarrow> (\<exists>d. sc = PDict d \<and> published_ports (dget_none d (U ''gateway'')) = Inr {8080} \<and>
     (\<forall>name service. (name, service) \<in> set d \<longrightarrow> name \<noteq> U ''gateway'' \<longrightarrow> published_ports service = Inr {}))"

text \<open>Some wait for the stack ended with both health requests answered by 200.\<close>

definition healthy :: "world \<Rightarrow> bool" where
  "healthy w \<longleftrightarrow> (\<exists>n live ready. wait_until both_ready (w_max_bytes w) (w_depth w) (w_polls w n) (not_requested, not_requested) =
     Inr (live, ready) \<and> both_ready live ready)"

definition stack_sound :: "world \<Rightarrow> bool" where
  "stack_sound w \<longleftrightarrow> readme_findings (w_fs w) (w_repo w) = Inr [] \<and>
     (\<exists>git. w_git w = Inr git \<and> repository_hygiene_findings git (w_walk w) = []) \<and>
     (\<exists>sc. configured w sc \<and> only_gateway_published sc) \<and> healthy w"

lemma status_check_ok:
  "status_check name st r s = (Inr u, t) \<Longrightarrow> \<not> infra_failed t \<Longrightarrow> resp_status r = st \<and> \<not> infra_failed s"
  unfolding status_check_def by simp

lemma readme_check_ok:
  "readme_check w s = (Inr u, t) \<Longrightarrow> \<not> infra_failed t \<Longrightarrow> readme_findings (w_fs w) (w_repo w) = Inr [] \<and> \<not> infra_failed s"
  unfolding readme_check_def by (auto simp: py_Inr)

lemma hygiene_check_ok:
  "hygiene_check w s = (Inr u, t) \<Longrightarrow> \<not> infra_failed t \<Longrightarrow>
     (\<exists>git. w_git w = Inr git \<and> repository_hygiene_findings git (w_walk w) = []) \<and> \<not> infra_failed s"
  unfolding hygiene_check_def Let_def by (auto simp: py_Inr)

lemma exit_check_ok:
  "exit_check w name args timeout s = (Inr ok, t) \<Longrightarrow> \<not> infra_failed t \<Longrightarrow> ok \<and> \<not> infra_failed s"
  unfolding exit_check_def by (auto simp: py_Inr)

lemma build_stack_ok:
  "build_stack w s = (Inr ok, t) \<Longrightarrow> \<not> infra_failed t \<Longrightarrow> ok \<and> \<not> infra_failed s"
  unfolding build_stack_def by (auto dest: exit_check_ok split: if_splits)

lemma other_published_ports_Nil:
  assumes "other_published_ports sc = Inr []"
  shows "\<exists>d. sc = PDict d \<and> (\<forall>name service. (name, service) \<in> set d \<longrightarrow> name \<noteq> U ''gateway'' \<longrightarrow> published_ports service = Inr {})"
proof -
  from assms obtain d where d: "sc = PDict d" by (cases sc) (auto simp: other_published_ports_def)
  with assms have "\<forall>x\<in>set d. (\<lambda>(name, service). if name = U ''gateway'' then Inr []
       else res_bind (published_ports service) (\<lambda>ports. Inr (if ports = {} then [] else [(name, ports)]))) x = Inr []"
    by (simp add: other_published_ports_def res_concat_Nil)
  then have "published_ports service = Inr {}" if "(name, service) \<in> set d" "name \<noteq> U ''gateway''" for name service
    using that by (force split: if_splits)
  with d show ?thesis by blast
qed

lemma entrypoint_check_ok:
  assumes "entrypoint_check sc s = (Inr u, t)" "\<not> infra_failed t"
  shows "only_gateway_published sc \<and> \<not> infra_failed s"
proof -
  from assms obtain g where g: "get_attr PNone sc (U ''gateway'') = Inr g" "published_ports g = Inr {8080}"
    "other_published_ports sc = Inr []" "\<not> infra_failed s"
    unfolding entrypoint_check_def by (auto simp: py_Inr)
  from other_published_ports_Nil [OF g(3)] g show ?thesis by (auto simp: only_gateway_published_def)
qed

lemma config_check_ok:
  assumes "config_check w s = (Inr c, t)" "\<not> infra_failed t"
  shows "\<exists>sc. c = Some sc \<and> configured w sc \<and> \<not> infra_failed s"
proof -
  let ?args = "map U [''config'', ''--format'', ''json'']"
  from assms obtain r s1 sc services where r: "compose w ?args 60 s = (Inr r, s1)"
    "parse_services (w_depth w) (cmd_stdout r) = Inr (sc, services)" "exitCode r = 0" "PStr ` REQUIRED_SERVICES \<subseteq> set services"
    "c = Some sc" "\<not> infra_failed s1"
    unfolding config_check_def by (auto simp: py_Inr split: prod.splits)
  with compose_Inr [OF r(1)] infra_failed_compose [OF r(1)] show ?thesis unfolding configured_def by metis
qed

lemma health_checks_ok:
  assumes "health_checks w s = (Inr u, t)" "\<not> infra_failed t"
  shows "healthy w \<and> \<not> infra_failed s"
proof -
  from assms(1) obtain live ready s0 s1 s2 s3 r where w: "wait_ready w s = (Inr (live, ready), s0)"
    and s: "status_check ''health-live'' 200 live s0 = (Inr (), s1)" "status_check ''health-ready'' 200 ready s1 = (Inr (), s2)"
    "get w (U ''/not-part-of-course-contract'') s2 = (Inr r, s3)" "status_check ''gateway-route-whitelist'' 404 r s3 = (Inr u, t)"
    unfolding health_checks_def by (auto simp: py_Inr split: prod.splits)
  from status_check_ok [OF s(4) assms(2)] s(3) have "\<not> infra_failed s2" by simp
  with status_check_ok [OF s(2)] status_check_ok [OF s(1)] wait_ready_Inr [OF w] show ?thesis
    unfolding healthy_def both_ready_def by blast
qed

lemma launch_ok:
  assumes "launch w s = (Inr u, t)" "\<not> infra_failed t"
  shows "healthy w \<and> \<not> infra_failed s"
proof -
  let ?up = "exit_check w ''compose-up'' (map U [''up'', ''-d'', ''--force-recreate'']) 600"
  from assms(1) obtain built s1 where b: "build_stack w s = (Inr built, s1)"
    and r: "(if \<not> built then py_return () else py_bind ?up (\<lambda>up. if \<not> up then py_return () else health_checks w)) s1 = (Inr u, t)"
    unfolding launch_def py_bind_eq_Inr by blast
  show ?thesis
  proof (cases built)
    case False
    with r assms(2) build_stack_ok [OF b] show ?thesis by auto
  next
    case True
    with r obtain up s2 where u: "?up s1 = (Inr up, s2)" and h: "(if \<not> up then py_return () else health_checks w) s2 = (Inr u, t)"
      by (auto simp: py_bind_eq_Inr)
    show ?thesis
    proof (cases up)
      case False
      with h assms(2) exit_check_ok [OF u] show ?thesis by auto
    next
      case True
      with h have "health_checks w s2 = (Inr u, t)" by simp
      from health_checks_ok [OF this assms(2)] exit_check_ok [OF u] build_stack_ok [OF b] show ?thesis by blast
    qed
  qed
qed

lemma start_stack_ok:
  assumes "start_stack w s = (Inr (), t)" "\<not> infra_failed t"
  shows "stack_sound w \<and> \<not> infra_failed s"
proof -
  from assms(1) obtain s1 s2 s2' s3 c where
    r: "readme_check w s = (Inr (), s1)" and h: "hygiene_check w s1 = (Inr (), s2)"
    and o: "write_override w s2 = (Inr (), s2')" and c: "config_check w s2' = (Inr c, s3)"
    and t: "(case c of None \<Rightarrow> py_return () | Some sc \<Rightarrow> py_seq (entrypoint_check sc) (launch w)) s3 = (Inr (), t)"
    unfolding start_stack_def by (auto simp: py_Inr)
  show ?thesis
  proof (cases c)
    case None
    with t assms(2) config_check_ok [OF c] show ?thesis by auto
  next
    case (Some sc)
    with t obtain s4 where e: "entrypoint_check sc s3 = (Inr (), s4)" and l: "launch w s4 = (Inr (), t)"
      by (auto simp: py_seq_eq_Inr)
    from launch_ok [OF l assms(2)] have s4: "\<not> infra_failed s4" and w: "healthy w" by auto
    from entrypoint_check_ok [OF e s4] have s3: "\<not> infra_failed s3" and g: "only_gateway_published sc" by auto
    from config_check_ok [OF c s3] Some have s2: "\<not> infra_failed s2'" and p: "configured w sc" by auto
    from s2 o have "\<not> infra_failed s2" by (simp add: write_override_def)
    from hygiene_check_ok [OF h this] readme_check_ok [OF r] w g p show ?thesis unfolding stack_sound_def by blast
  qed
qed

end
