(* ===== verification/Week1_Phases.thy ===== *)
theory Week1_Phases
  imports Week1_Start
begin

text \<open>
  The groups of checks of \<^verbatim>\<open>task/week1/autocheck/public_check.py\<close> that follow the start of the stack: publication,
  authorization, versions, OpenAPI and dispatch evidence, payments, logs, outage of the database.
\<close>

section \<open>Shared parts\<close>

definition envelope_ok :: "CommandResult \<times> pyval \<Rightarrow> bool" where
  "envelope_ok rb = (exitCode (fst rb) = 0 \<and> cli_envelope (snd rb) (U ''ok''))"

definition envelope_error :: "CommandResult \<times> pyval \<Rightarrow> bool" where
  "envelope_error rb = (exitCode (fst rb) \<noteq> 0 \<and> cli_envelope (snd rb) (U ''error''))"

definition exit_and_body :: "CommandResult \<times> pyval \<Rightarrow> pyval" where
  "exit_and_body rb = obj [(''exitCode'', PInt (exitCode (fst rb))), (''body'', snd rb)]"

text \<open>A command of the CLI on the published fixtures that must succeed.\<close>

definition published_check :: "world \<Rightarrow> string \<Rightarrow> string \<Rightarrow> pystr list \<Rightarrow> (session, unit) py" where
  "published_check w name expected arguments = py_bind (cli w (w_fixtures w) arguments) (\<lambda>rb.
     check name ''publication'' (envelope_ok rb) (ps expected) (exit_and_body rb))"

text \<open>A command that must report an error; \<open>source\<close> is what it has mounted.\<close>

definition conflict_check :: "world \<Rightarrow> string \<Rightarrow> string \<Rightarrow> pystr \<Rightarrow> pystr list \<Rightarrow> (session, unit) py" where
  "conflict_check w name expected source arguments = py_bind (cli w source arguments) (\<lambda>rb.
     check name ''publication'' (envelope_error rb) (ps expected) (exit_and_body rb))"

definition fixture_file :: "world \<Rightarrow> string \<Rightarrow> pystr res" where
  "fixture_file w field = fixture_text (a_fixture (w_self w)) field"

definition manifest_path :: "pystr \<Rightarrow> pystr" where
  "manifest_path name = U ''/autocheck/input/manifests/'' @ name"

section \<open>Migrations and publication\<close>

definition image_ids :: "world \<Rightarrow> (session, (pystr \<times> pystr) list) py" where
  "image_ids w =
     py_bind (compose w (map U [''images'', ''-q'', ''gateway'']) 180) (\<lambda>gateway.
     py_bind (compose w (map U [''images'', ''-q'', ''api'']) 180) (\<lambda>api.
       py_return [(U ''gateway'', strip (cmd_stdout gateway)), (U ''api'', strip (cmd_stdout api))]))"

definition str_dict :: "(pystr \<times> pystr) list \<Rightarrow> pyval" where
  "str_dict d = PDict (map (\<lambda>(k, v). (k, PStr v)) d)"

definition migration_apply :: "pystr list" where
  "migration_apply = map U [''migration'', ''apply'', ''/autocheck/input/migrations'']"

definition migration_checks :: "world \<Rightarrow> (session, unit) py" where
  "migration_checks w =
     py_bind (cli w (w_fixtures w) migration_apply) (\<lambda>rb.
     py_seq (check ''migration-apply'' ''publication'' (envelope_ok rb) (ps ''exit 0 and one status=ok JSON'')
         (obj [(''exitCode'', PInt (exitCode (fst rb))), (''stdout'', PStr (cmd_stdout (fst rb))), (''stderr'', PStr (cmd_stderr (fst rb)))]))
       (published_check w ''migration-idempotent-repeat'' ''safe repeat'' migration_apply))"

text \<open>The same migration with another text must be refused.\<close>

definition checksum_check :: "world \<Rightarrow> (session, unit) py" where
  "checksum_check w =
     (let changed_root = path_join (w_temp w) (U ''changed-fixture''); changed_migrations = path_join changed_root (U ''migrations'') in
     py_seq (ask_res (\<lambda>n. w_mkdir w n changed_migrations)) (
     py_bind (py_lift (fixture_file w ''migrationFile'')) (\<lambda>name.
     py_bind (py_lift (read_text (w_fs w) (path_join (path_join (w_fixtures w) (U ''migrations'')) name))) (\<lambda>original.
     py_seq (ask_res (\<lambda>n. w_write w n (path_join changed_migrations (path_name name)) (original @ [10] @ U ''-- checksum conflict'' @ [10]))) (
       conflict_check w ''migration-checksum-conflict'' ''non-zero status=error'' changed_root migration_apply)))))"

definition definitions_query :: "attributes \<Rightarrow> pystr" where
  "definitions_query a = U ''SELECT count(*) FROM autocheck.action_definitions WHERE module = '' @ sql_literal (a_module a) @
     U '' AND action = '' @ sql_literal (a_action a) @ U '';''"

definition manifest_checks :: "world \<Rightarrow> (session, unit) py" where
  "manifest_checks w =
     py_bind (py_lift (fixture_file w ''manifestV1'')) (\<lambda>v1.
     py_seq (published_check w ''manifest-validate'' ''valid manifest'' [U ''action'', U ''validate'', manifest_path v1]) (
     py_bind (psql w (definitions_query (w_self w))) (\<lambda>r.
     py_seq (check ''manifest-validate-has-no-side-effect'' ''publication'' (exitCode r = 0 \<and> strip (cmd_stdout r) = U ''0'') (PInt 0)
         (obj [(''exitCode'', PInt (exitCode r)), (''count'', PStr (strip (cmd_stdout r)))])) (
     py_seq (published_check w ''manifest-publish-v1'' ''published v1'' [U ''action'', U ''publish'', manifest_path v1])
       (published_check w ''manifest-publish-idempotent'' ''safe identical publish'' [U ''action'', U ''publish'', manifest_path v1])))))"

text \<open>\<^verbatim>\<open>manifest["timeout_ms"] = 2001\<close>\<close>

definition with_timeout :: "pyval \<Rightarrow> pyval res" where
  "with_timeout manifest = (case manifest of
     PDict d \<Rightarrow> Inr (PDict (dput (U ''timeout_ms'') (PInt 2001) d))
   | _ \<Rightarrow> Inl TypeError)"

definition immutable_check :: "world \<Rightarrow> (session, unit) py" where
  "immutable_check w =
     (let conflict_root = path_join (w_temp w) (U ''manifest-conflict'') in
     py_seq (ask_res (\<lambda>n. w_mkdir w n conflict_root)) (
     py_bind (py_lift (fixture_file w ''manifestV1'')) (\<lambda>v1.
     py_bind (py_lift (read_json (w_fs w) (w_depth w) (path_join (path_join (w_fixtures w) (U ''manifests'')) v1))) (\<lambda>manifest.
     py_bind (py_lift (with_timeout manifest)) (\<lambda>changed.
     py_bind (py_lift (dumps_indent True 0 changed)) (\<lambda>rendered.
     py_seq (ask_res (\<lambda>n. w_write w n (path_join conflict_root (U ''conflict.json'')) (rendered @ [10]))) (
       conflict_check w ''manifest-immutable-conflict'' ''changed published version rejected'' conflict_root
         (map U [''action'', ''publish'', ''/autocheck/input/conflict.json'']))))))))"

definition check_migrations_and_publication :: "world \<Rightarrow> (session, unit) py" where
  "check_migrations_and_publication w =
     py_bind (image_ids w) (\<lambda>images_before.
     py_seq (migration_checks w) (
     py_seq (checksum_check w) (
     py_seq (manifest_checks w) (
     py_seq (immutable_check w) (
     py_bind (image_ids w) (\<lambda>images_after.
       check ''csharp-images-unchanged-after-publish'' ''publication''
         (list_all (\<lambda>(k, v). v \<noteq> []) images_before \<and> images_before = images_after)
         (str_dict images_before) (str_dict images_after)))))))"

section \<open>Authorization and the contract\<close>

definition token_checks :: "world \<Rightarrow> pyval \<Rightarrow> (session, unit) py" where
  "token_checks w payload =
     (let path = a_action_path (w_self w) in
     py_bind (send w ''POST'' path (Some payload) None (Some (U ''auth-no-token'')) None) (\<lambda>no_auth.
     py_seq (rejection_check ''missing-jwt'' ''authorization'' 401 ''auth.invalid'' no_auth) (
     py_bind (post_as w path payload ''expired'' (U ''auth-expired'') None) (\<lambda>expired.
     py_seq (rejection_check ''expired-jwt'' ''authorization'' 401 ''auth.invalid'' expired) (
     py_bind (post_as w path payload ''malformed_claim'' (U ''auth-malformed-claim'') None) (\<lambda>malformed_claim.
       rejection_check ''malformed-jwt-claim'' ''authorization'' 401 ''auth.invalid'' malformed_claim))))))"

definition policy_check :: "world \<Rightarrow> (session, unit) py" where
  "policy_check w =
     py_bind (fresh w ''denied'') (\<lambda>denied_marker.
     py_bind (fresh w ''key'') (\<lambda>key.
     py_bind (post_as w (a_action_path (w_self w)) (probe w ''ok'' denied_marker) ''denied'' key None) (\<lambda>denied.
       untouched_check w ''http-policy-denied'' ''authorization'' 403 ''access.denied'' denied_marker denied)))"

definition injection_check :: "world \<Rightarrow> (session, unit) py" where
  "injection_check w =
     py_bind (fresh w ''inject'') (\<lambda>marker.
     py_bind (fresh w ''key'') (\<lambda>key.
     py_bind (post_as w (a_action_path (w_self w))
         (PDict (probe_payload (a_mode_field (w_self w)) (a_value_field (w_self w)) (U ''ok'') marker
           [(U ''target_schema'', ps ''pg_catalog''), (U ''target_function'', ps ''pg_sleep''), (U ''sql'', ps ''select 1'')]))
         ''worker'' key None) (\<lambda>injected.
       untouched_check w ''payload-cannot-select-target'' ''target-boundary'' 422 ''payload.invalid'' marker injected)))"

definition boundary_checks :: "world \<Rightarrow> pyval \<Rightarrow> (session, unit) py" where
  "boundary_checks w payload =
     py_bind (send w ''POST'' (a_action_path (w_self w)) (Some payload) (Some ''worker'') None None) (\<lambda>missing_key.
     py_seq (rejection_check ''required-idempotency-key'' ''contract-boundary'' 400 ''idempotency.required'' missing_key) (
     py_seq (injection_check w) (
     py_bind (fresh w ''key'') (\<lambda>key.
     py_bind (post_as w (U ''/api/not_registered/not_registered'') (PDict []) ''worker'' key None) (\<lambda>unknown.
       rejection_check ''unknown-action'' ''target-boundary'' 404 ''action.not_found'' unknown)))))"

definition direct_sql :: "attributes \<Rightarrow> pystr \<Rightarrow> pystr \<Rightarrow> pystr" where
  "direct_sql a context payload = U ''SELECT api.invoke('' @ sql_literal (a_module a) @ U '', '' @ sql_literal (a_action a) @ U '', 1, '' @
     sql_literal context @ U ''::jsonb, '' @ sql_literal payload @ U ''::jsonb)::text;''"

definition denied_context :: "pystr \<Rightarrow> pystr \<Rightarrow> pystr \<Rightarrow> pyval" where
  "denied_context correlation request_id deadline = obj [(''principal'', ps ''denied-client''), (''consumer'', ps ''test''),
     (''scopes'', PList []), (''correlationId'', PStr correlation), (''requestId'', PStr request_id), (''deadline'', PStr deadline)]"

text \<open>\<^verbatim>\<open>isinstance(body, dict) and body.get(k) == v and ...\<close>\<close>

definition has_members :: "pyval \<Rightarrow> (string \<times> pyval) list \<Rightarrow> bool" where
  "has_members body kvs = (case body of
     PDict d \<Rightarrow> list_all (\<lambda>(k, v). py_eq (dget_none d (U k)) v) kvs
   | _ \<Rightarrow> False)"

definition database_policy_check :: "world \<Rightarrow> (session, unit) py" where
  "database_policy_check w =
     py_bind (fresh w ''direct-policy'') (\<lambda>marker.
     py_bind (ask (w_uuid w)) (\<lambda>correlation.
     py_bind (fresh w ''direct'') (\<lambda>request_id.
     py_bind (ask (w_deadline w)) (\<lambda>deadline.
     py_bind (py_lift (dumps wire (denied_context correlation request_id deadline))) (\<lambda>context.
     py_bind (py_lift (dumps wire (probe w ''ok'' marker))) (\<lambda>payload.
     py_bind (psql_json w (direct_sql (w_self w) context payload)) (\<lambda>(r, body).
     py_bind (and_canary w (exitCode r = 0 \<and> has_members body [(''status'', ps ''error''), (''code'', ps ''access.denied'')]) marker 0) (\<lambda>ok.
     py_bind (canary_count w marker) (\<lambda>c.
       check ''database-policy-denied'' ''authorization'' ok
         (obj [(''status'', ps ''error''), (''code'', ps ''access.denied''), (''canary'', PInt 0)])
         (obj [(''exitCode'', PInt (exitCode r)), (''body'', body), (''stderr'', PStr (cmd_stderr r)), (''canary'', opt_int c)]))))))))))"

definition check_auth_and_contract :: "world \<Rightarrow> (session, unit) py" where
  "check_auth_and_contract w =
     py_bind (fresh w ''auth'') (\<lambda>marker.
     let payload = probe w ''ok'' marker in
     py_seq (token_checks w payload) (
     py_seq (policy_check w) (
     py_seq (boundary_checks w payload) (
       database_policy_check w))))"

end
