(* ===== verification/Week1_Versions.thy ===== *)
theory Week1_Versions
  imports Week1_Phases
begin

text \<open>
  The checks of \<^verbatim>\<open>task/week1/autocheck/public_check.py\<close> on versions of an action, on rollback, on the OpenAPI
  documents and on the evidence of dispatches.
\<close>

section \<open>Members of an answer\<close>

definition body_dict :: "Response \<Rightarrow> pydict" where
  "body_dict r = (case resp_body r of PDict d \<Rightarrow> d | _ \<Rightarrow> [])"

definition meta_dict :: "pydict \<Rightarrow> pydict" where
  "meta_dict body = (case dget_none body (U ''meta'') of PDict m \<Rightarrow> m | _ \<Rightarrow> [])"

definition result_is :: "Response \<Rightarrow> string \<Rightarrow> pyval \<Rightarrow> bool" where
  "result_is r key v = py_eq (dget_none (result_of r) (U key)) v"

text \<open>\<^verbatim>\<open>self.probe_payload(mode, f"{prefix}-...")\<close> sent by the worker under a new key.\<close>

definition invoke :: "world \<Rightarrow> string \<Rightarrow> string option \<Rightarrow> (session, Response) py" where
  "invoke w prefix version =
     py_bind (fresh w prefix) (\<lambda>marker.
     py_bind (fresh w ''key'') (\<lambda>key.
       post_as w (a_action_path (w_self w)) (probe w ''ok'' marker) ''worker'' key version))"

section \<open>First call, replay, conflict\<close>

definition first_ok :: "world \<Rightarrow> Response \<Rightarrow> bool" where
  "first_ok w first = (resp_status first = 200 \<and>
     py_eq (dget_none (body_dict first) (U ''status'')) (ps ''ok'') \<and>
     py_eq (dget_none (body_dict first) (U ''outcome'')) (PStr (a_outcome (w_self w))) \<and>
     result_is first ''revision'' (PInt 1) \<and> result_is first ''principal'' (ps ''workflow-worker'') \<and>
     py_eq (dget_none (meta_dict (body_dict first)) (U ''actionVersion'')) (PInt 1) \<and>
     is_str (dget_none (meta_dict (body_dict first)) (U ''correlationId'')))"

definition response_and_canary :: "Response \<Rightarrow> int option \<Rightarrow> pyval" where
  "response_and_canary r c = obj [(''response'', asdict_response r), (''canary'', opt_int c)]"

definition first_checks :: "world \<Rightarrow> pystr \<Rightarrow> pystr \<Rightarrow> (session, Response) py" where
  "first_checks w marker key =
     py_bind (post_as w (a_action_path (w_self w)) (probe w ''ok'' marker) ''worker'' key None) (\<lambda>first.
     let correlation = dget_none (meta_dict (body_dict first)) (U ''correlationId'') in
     py_bind (and_canary w (first_ok w first) marker 1) (\<lambda>ok.
     py_bind (canary_count w marker) (\<lambda>c.
     py_seq (check ''generic-action-default-v1'' ''publication'' ok (ps ''valid v1 envelope, trusted principal and one effect'')
         (response_and_canary first c)) (
     py_seq (check ''server-correlation-uuid'' ''runtime'' (is_uuid (py_str correlation)) (ps ''UUID meta.correlationId'') correlation) (
       py_return first)))))"

definition replay_checks :: "world \<Rightarrow> pystr \<Rightarrow> pystr \<Rightarrow> Response \<Rightarrow> (session, unit) py" where
  "replay_checks w marker key first =
     (let path = a_action_path (w_self w) in
     py_bind (post_as w path (probe w ''ok'' marker) ''worker'' key None) (\<lambda>replay.
     py_bind (and_canary w (resp_status replay = 200 \<and> py_eq (PDict (result_of replay)) (PDict (result_of first))) marker 1) (\<lambda>ok.
     py_bind (canary_count w marker) (\<lambda>c.
     py_seq (check ''generic-action-idempotent-replay'' ''contract-boundary'' ok (ps ''same result and one effect'')
         (response_and_canary replay c)) (
     py_bind (fresh w ''changed'') (\<lambda>changed.
     py_bind (post_as w path (probe w ''ok'' changed) ''worker'' key None) (\<lambda>conflict.
       rejection_check ''generic-action-idempotency-conflict'' ''contract-boundary'' 409 ''idempotency.conflict'' conflict)))))))"

text \<open>A call that must fail without effect; a forced error may also surface as an internal one.\<close>

definition rollback_check :: "world \<Rightarrow> string \<times> pystr \<Rightarrow> (session, unit) py" where
  "rollback_check w = (\<lambda>(mode, expected_code).
     py_bind (fresh w mode) (\<lambda>marker.
     py_bind (fresh w ''key'') (\<lambda>key.
     py_bind (post_as w (a_action_path (w_self w)) (probe w mode marker) ''worker'' key (Some ''1'')) (\<lambda>response.
     py_bind (canary_count w marker) (\<lambda>count.
     py_bind (py_lift (if mode = ''error'' then py_contains (error_code response) (PSet [PStr expected_code, ps ''internal.error''])
         else Inr (py_eq (error_code response) (PStr expected_code)))) (\<lambda>code_ok.
       check (''rollback-'' @ mode) ''contract-boundary'' (400 \<le> resp_status response \<and> code_ok \<and> count = Some 0)
         (obj [(''errorCode'', PStr expected_code), (''canary'', PInt 0)]) (response_and_canary response count)))))))"

definition rollback_modes :: "world \<Rightarrow> (string \<times> pystr) list" where
  "rollback_modes w = [(''error'', a_forced_error_code (w_self w)), (''unknown_outcome'', U ''action.contract_violation''),
     (''invalid_result'', U ''action.contract_violation'')]"

section \<open>Versions\<close>

text \<open>The triples of module, action and version of some items; a set refuses values that cannot be hashed.\<close>

definition version_of :: "pydict \<Rightarrow> pyval list" where
  "version_of item = map (\<lambda>k. dget_none item (U k)) [''module'', ''action'', ''version'']"

definition version_row :: "pydict \<Rightarrow> pyval list res" where
  "version_row item = (let v = version_of item in if list_all hashable v then Inr v else Inl TypeError)"

definition listed_versions :: "pyval \<Rightarrow> pyval list list res" where
  "listed_versions body =
     (case (cli_envelope body (U ''ok''), body) of
        (True, PDict d) \<Rightarrow> (case dget_none d (U ''result'') of
           PDict r \<Rightarrow> res_bind (py_iter (dget_def (PList []) r (U ''items''))) (\<lambda>items.
             res_map version_row (concat (map (\<lambda>item. case item of PDict i \<Rightarrow> [i] | _ \<Rightarrow> []) items)))
         | _ \<Rightarrow> Inr [])
      | _ \<Rightarrow> Inr [])"

definition both_versions :: "attributes \<Rightarrow> pyval list list \<Rightarrow> bool" where
  "both_versions a vs = list_all (\<lambda>n. list_ex (\<lambda>v. list_all2 py_eq v [PStr (a_module a), PStr (a_action a), PInt n]) vs) [1, 2]"

definition listing_check :: "world \<Rightarrow> (session, unit) py" where
  "listing_check w =
     py_bind (cli w (w_fixtures w) (map U [''action'', ''list''])) (\<lambda>(listed, body).
     py_bind (py_lift (listed_versions body)) (\<lambda>vs.
       check ''action-list-machine-readable'' ''publication'' (exitCode listed = 0 \<and> both_versions (w_self w) vs)
         (ps ''both published action versions in result.items'') (exit_and_body (listed, body))))"

definition version_checks :: "world \<Rightarrow> (session, unit) py" where
  "version_checks w =
     py_bind (invoke w ''v2'' (Some ''2'')) (\<lambda>explicit_v2.
     py_seq (check ''explicit-version-v2'' ''contract-boundary'' (resp_status explicit_v2 = 200 \<and> result_is explicit_v2 ''revision'' (PInt 2))
         (ps ''revision 2'') (asdict_response explicit_v2)) (
     py_bind (invoke w ''unknown'' (Some ''999'')) (\<lambda>unknown_version.
       rejection_check ''unknown-version'' ''target-boundary'' 404 ''action.not_found'' unknown_version)))"

definition activation_check :: "world \<Rightarrow> (session, unit) py" where
  "activation_check w =
     py_bind (cli w (w_fixtures w) [U ''action'', U ''activate'', a_route_key (w_self w), U ''--version'', U ''2'']) (\<lambda>rb.
     py_bind (invoke w ''activated'' None) (\<lambda>activated.
       check ''atomic-default-activation'' ''contract-boundary'' (envelope_ok rb \<and> result_is activated ''revision'' (PInt 2))
         (ps ''v2 becomes default'') (obj [(''cli'', snd rb), (''response'', asdict_response activated)])))"

definition replacement_check :: "world \<Rightarrow> (session, unit) py" where
  "replacement_check w =
     py_bind (cli w (w_fixtures w) [U ''action'', U ''disable'', a_route_key (w_self w), U ''--version'', U ''2'',
         U ''--replacement-version'', U ''1'']) (\<lambda>rb.
     py_bind (invoke w ''disabled'' (Some ''2'')) (\<lambda>disabled.
     py_bind (invoke w ''replacement'' None) (\<lambda>replacement.
       check ''disabled-version-and-replacement'' ''target-boundary''
         (envelope_ok rb \<and> rejected disabled 404 ''action.not_found'' \<and> result_is replacement ''revision'' (PInt 1))
         (ps ''v2 disabled and v1 default'')
         (obj [(''cli'', snd rb), (''disabled'', asdict_response disabled), (''default'', asdict_response replacement)]))))"

definition check_versions_and_rollback :: "world \<Rightarrow> (session, unit) py" where
  "check_versions_and_rollback w =
     py_bind (fresh w ''ok'') (\<lambda>marker.
     py_bind (fresh w ''key'') (\<lambda>key.
     py_bind (first_checks w marker key) (\<lambda>first.
     py_seq (replay_checks w marker key first) (
     py_seq (py_for (rollback_check w) (rollback_modes w)) (
     py_bind (py_lift (fixture_file w ''manifestV2'')) (\<lambda>v2.
     py_seq (published_check w ''manifest-publish-v2'' ''published v2'' [U ''action'', U ''publish'', manifest_path v2]) (
     py_seq (listing_check w) (
     py_seq (version_checks w) (
     py_seq (activation_check w) (
       replacement_check w))))))))))"

section \<open>OpenAPI\<close>

text \<open>\<^verbatim>\<open>body.get("paths", {}) if isinstance(body, dict) else {}\<close>\<close>

definition member_or :: "pyval \<Rightarrow> pyval \<Rightarrow> string \<Rightarrow> pyval" where
  "member_or def body key = (case body of PDict d \<Rightarrow> dget_def def d (U key) | _ \<Rightarrow> def)"

text \<open>\<^verbatim>\<open>"post" in paths[path]\<close> where the keys of \<^verbatim>\<open>paths\<close> are just the path.\<close>

definition operation_in :: "pystr \<Rightarrow> pyval \<Rightarrow> bool res" where
  "operation_in path paths = (case paths of
     PDict d \<Rightarrow> res_bind (ditem d path) (\<lambda>v. py_contains (ps ''post'') v)
   | _ \<Rightarrow> Inl TypeError)"

definition openapi_ok :: "attributes \<Rightarrow> Response \<Rightarrow> Response \<Rightarrow> pyval \<Rightarrow> pyval \<Rightarrow> pystr \<Rightarrow> bool res" where
  "openapi_ok a default_document versioned_document default_paths versioned_paths versioned_text =
     (let path = a_action_path a in
     res_and (Inr (resp_status default_document = 200)) (
     res_and (py_contains (PStr path) default_paths) (
     res_and (Inr (resp_status versioned_document = 200)) (
     res_and (res_bind (py_iter versioned_paths) (\<lambda>ks. Inr (list_all2 py_eq ks [PStr path]))) (
     res_and (operation_in path versioned_paths) (
       Inr (list_all (\<lambda>field. contains field versioned_text)
         ([a_mode_field a, a_value_field a] @ map U [''stored'', ''revision'', ''principal'']))))))))"

definition sorted_elements :: "pyval \<Rightarrow> pyval res" where
  "sorted_elements v = res_bind (py_iter v) (\<lambda>xs. res_bind (py_sorted xs) (\<lambda>ys. Inr (PList ys)))"

definition openapi_check :: "world \<Rightarrow> (session, unit) py" where
  "openapi_check w =
     (let a = w_self w in
     py_bind (get w (U ''/openapi/default.json'')) (\<lambda>default_document.
     py_bind (get w (U ''/openapi/actions/'' @ a_module a @ U ''/'' @ a_action a @ U ''/1.json'')) (\<lambda>versioned_document.
     let default_paths = member_or (PDict []) (resp_body default_document) ''paths'';
         versioned_paths = member_or (PDict []) (resp_body versioned_document) ''paths'' in
     py_bind (py_lift (dumps wire (resp_body versioned_document))) (\<lambda>versioned_text.
     py_bind (py_lift (openapi_ok a default_document versioned_document default_paths versioned_paths versioned_text)) (\<lambda>ok.
     py_bind (py_lift (sorted_elements default_paths)) (\<lambda>default_sorted.
     py_bind (py_lift (sorted_elements versioned_paths)) (\<lambda>versioned_sorted.
       check ''manifest-driven-openapi'' ''runtime'' ok (ps ''default route and one exact versioned operation'')
         (obj [(''defaultStatus'', PInt (resp_status default_document)), (''defaultPaths'', default_sorted),
           (''versionedStatus'', PInt (resp_status versioned_document)), (''versionedPaths'', versioned_sorted)]))))))))"

section \<open>Evidence of dispatches\<close>

text \<open>A literal of the statement.\<close>

definition quoted :: "string \<Rightarrow> pystr" where
  "quoted s = [39] @ U s @ [39]"

definition evidence_query :: "attributes \<Rightarrow> pystr" where
  "evidence_query a = [10] @ U ''SELECT jsonb_build_object('' @ [10] @
     U ''  '' @ quoted ''contract'' @ U '', (SELECT coalesce(jsonb_agg(to_jsonb(t)), '' @ quoted ''[]'' @ U ''::jsonb) FROM autocheck.contract_info t),'' @ [10] @
     U ''  '' @ quoted ''definitions'' @ U '', (SELECT coalesce(jsonb_agg(to_jsonb(t)), '' @ quoted ''[]'' @ U ''::jsonb) FROM autocheck.action_definitions t),'' @ [10] @
     U ''  '' @ quoted ''dispatches'' @ U '', (SELECT coalesce(jsonb_agg(to_jsonb(t)), '' @ quoted ''[]'' @ U ''::jsonb) FROM autocheck.action_dispatches t WHERE module = '' @
     sql_literal (a_module a) @ U '' AND action = '' @ sql_literal (a_action a) @ U '')'' @ [10] @ U '')::text;'' @ [10]"

definition HASH :: regex where
  "HASH = rtimes 64 (RCls (\<lambda>c. in_range 48 57 c \<or> in_range 97 102 c))"

definition hash_valid :: "pyval \<Rightarrow> bool res" where
  "hash_valid item = res_bind (get_attr (PStr []) item (U ''payload_hash'')) (\<lambda>h. Inr (fullmatch_ok HASH (py_str h)))"

definition correlation_valid :: "pyval \<Rightarrow> bool res" where
  "correlation_valid item = res_bind (get_attr PNone item (U ''correlation_id'')) (\<lambda>c. Inr (is_uuid (py_str c)))"

text \<open>\<^verbatim>\<open>bool(xs) and all(f(x) for x in xs)\<close>\<close>

definition some_and_all :: "(pyval \<Rightarrow> bool res) \<Rightarrow> pyval \<Rightarrow> bool res" where
  "some_and_all f xs = res_and (Inr (truthy xs)) (res_bind (py_iter xs) (res_all f))"

text \<open>
  The loop over the correlations runs also when \<^verbatim>\<open>bool(dispatches)\<close> is false; a value that cannot be
  iterated raises.
\<close>

definition correlations_valid :: "pyval \<Rightarrow> bool res" where
  "correlations_valid dispatches = res_bind (py_iter dispatches) (\<lambda>xs. res_bind (res_all correlation_valid xs) (\<lambda>b.
     Inr (truthy dispatches \<and> b)))"

definition defined_versions :: "pyval \<Rightarrow> pyval list list res" where
  "defined_versions definitions = res_bind (py_iter definitions) (\<lambda>items.
     res_map (\<lambda>item. case item of PDict d \<Rightarrow> version_row d | _ \<Rightarrow> Inl AttributeError) items)"

definition contract_ok :: "pyval \<Rightarrow> bool res" where
  "contract_ok contract =
     res_and (res_bind (py_len contract) (\<lambda>n. Inr (n = 1)))
       (res_bind (py_first contract) (\<lambda>row. res_bind (get_attr PNone row (U ''contract_version'')) (\<lambda>v. Inr (py_eq v (ps ''course-1'')))))"

definition evidence_check :: "world \<Rightarrow> (session, unit) py" where
  "evidence_check w =
     py_bind (psql_json w (evidence_query (w_self w))) (\<lambda>(r, evidence).
     let contract = member_or (PList []) evidence ''contract''; definitions = member_or (PList []) evidence ''definitions'';
         dispatches = member_or (PList []) evidence ''dispatches'' in
     py_bind (py_lift (some_and_all hash_valid dispatches)) (\<lambda>hashes_ok.
     py_bind (py_lift (correlations_valid dispatches)) (\<lambda>correlations_ok.
     py_bind (py_lift (defined_versions definitions)) (\<lambda>vs.
     py_bind (py_lift (res_and (Inr (exitCode r = 0)) (res_and (contract_ok contract)
         (Inr (both_versions (w_self w) vs \<and> hashes_ok \<and> correlations_ok))))) (\<lambda>ok.
       check ''autocheck-action-evidence'' ''runtime'' ok (ps ''contract row, both definitions, safe dispatch evidence'') evidence)))))"

definition check_openapi_and_dispatch :: "world \<Rightarrow> (session, unit) py" where
  "check_openapi_and_dispatch w = py_seq (openapi_check w) (evidence_check w)"

end
