(* ===== verification/Week1_Payments.thy ===== *)
theory Week1_Payments
  imports Week1_Versions
begin

text \<open>
  The checks of \<^verbatim>\<open>task/week1/autocheck/public_check.py\<close> on payments, on the logs of the stack and on an outage of the
  database.
\<close>

section \<open>Validation and policy\<close>

definition payment_path :: pystr where
  "payment_path = U ''/api/payment/request''"

definition operation_path :: pystr where
  "operation_path = U ''/api/operation/get''"

definition execution_payload :: "pyval \<Rightarrow> string \<Rightarrow> (string \<times> pyval) list \<Rightarrow> pyval" where
  "execution_payload amount currency extra =
     obj ([(''operationKind'', ps ''PAYMENT_EXECUTION''), (''amount'', amount), (''currency'', ps currency)] @ extra)"

definition invalid_cases :: "pyval list" where
  "invalid_cases = [execution_payload (ps ''0'') ''RUB'' [], execution_payload (ps ''1.234'') ''RUB'' [],
     execution_payload (PInt 1) ''RUB'' [], execution_payload (ps ''1.00'') ''USD'' [],
     execution_payload (ps ''1.00'') ''RUB'' [(''status'', ps ''COMPLETED'')]]"

fun py_map :: "('a \<Rightarrow> ('s, 'b) py) \<Rightarrow> 'a list \<Rightarrow> ('s, 'b list) py" where
  "py_map f [] = py_return []"
| "py_map f (x # xs) = py_bind (f x) (\<lambda>y. py_bind (py_map f xs) (\<lambda>ys. py_return (y # ys)))"

definition validation_check :: "world \<Rightarrow> (session, unit) py" where
  "validation_check w =
     py_bind (py_map (\<lambda>payload. py_bind (fresh w ''invalid'') (\<lambda>key. post_as w payment_path payload ''candidate'' key None)) invalid_cases) (\<lambda>rs.
       check ''payment-request-validation'' ''postgresql''
         (list_all (\<lambda>r. resp_status r = 422 \<and> has_members (resp_body r) [(''code'', ps ''payload.invalid'')]) rs)
         (ps ''all invalid payloads return 422 payload.invalid'') (PList (map asdict_response rs)))"

definition write_policy_check :: "world \<Rightarrow> (session, unit) py" where
  "write_policy_check w =
     py_bind (fresh w ''denied'') (\<lambda>key.
     py_bind (post_as w payment_path (execution_payload (ps ''10.00'') ''RUB'' []) ''denied'' key None) (\<lambda>denied.
       rejection_check ''payment-write-policy'' ''authorization'' 403 ''access.denied'' denied))"

section \<open>Concurrent requests\<close>

text \<open>
  The requests of the threads are numbered consecutively; since an oracle answers each number as it likes, every
  interleaving is covered. The results come in the order of the threads, the first exception is raised.
\<close>

definition broken_barrier :: Response where
  "broken_barrier = \<lparr>resp_status = 0, resp_body = PNone, resp_text = [], resp_error = Some (U ''barrier failed'')\<rparr>"

definition concurrent_payment_requests :: "world \<Rightarrow> pystr \<Rightarrow> pyval \<Rightarrow> nat \<Rightarrow> (session, Response list) py" where
  "concurrent_payment_requests w request_id payload workers = (\<lambda>s.
     (res_map (\<lambda>i. if w_barrier w (tick s) i then fst (post_as w payment_path payload ''candidate'' request_id None (s\<lparr>tick := tick s + i\<rparr>))
        else Inr broken_barrier) [0..<workers],
      s\<lparr>tick := tick s + workers\<rparr>))"

definition created :: "Response \<Rightarrow> bool" where
  "created r = (resp_status r = 200 \<and> has_members (resp_body r) [(''status'', ps ''ok''), (''outcome'', ps ''CREATED'')])"

definition created_result :: "pystr \<Rightarrow> pydict \<Rightarrow> bool" where
  "created_result request_id result = has_members (PDict result) [(''requestId'', PStr request_id),
     (''operationKind'', ps ''PAYMENT_EXECUTION''), (''amount'', ps ''734.21''), (''currency'', ps ''RUB''), (''status'', ps ''CREATED'')]"

definition operation_ids :: "pydict list \<Rightarrow> pyval list res" where
  "operation_ids results = py_set (filter truthy (map (\<lambda>result. dget_none result (U ''operationId'')) results))"

text \<open>\<^verbatim>\<open>next(iter(operation_ids), None)\<close>\<close>

definition first_of :: "world \<Rightarrow> pyval list \<Rightarrow> pyval" where
  "first_of w ids = (if ids = [] then PNone else ids ! (w_pick w mod length ids))"

definition concurrency_check :: "world \<Rightarrow> pystr \<Rightarrow> (session, pyval) py" where
  "concurrency_check w request_id =
     py_bind (concurrent_payment_requests w request_id (execution_payload (ps ''734.21'') ''RUB'' []) (w_workers w)) (\<lambda>responses.
     let results = map result_of responses in
     py_bind (py_lift (operation_ids results)) (\<lambda>ids.
     py_seq (check ''concurrent-payment-request'' ''postgresql''
         (list_all created responses \<and> list_all (created_result request_id) results \<and> length ids = 1)
         (obj [(''successfulResponses'', PInt (int (w_workers w))), (''operationIds'', PInt 1)])
         (obj [(''statuses'', PList (map (\<lambda>r. PInt (resp_status r)) responses)), (''operationIds'', strs (sort (map py_str ids))),
           (''results'', PList (map PDict results))]))
       (py_return (first_of w ids))))"

section \<open>Replay, conflict, reading\<close>

definition payment_replay_checks :: "world \<Rightarrow> pystr \<Rightarrow> pyval \<Rightarrow> (session, unit) py" where
  "payment_replay_checks w request_id operation_id =
     py_bind (post_as w payment_path (execution_payload (ps ''734.21'') ''RUB'' []) ''candidate'' request_id None) (\<lambda>replay.
     py_seq (check ''payment-request-replay'' ''postgresql'' (resp_status replay = 200 \<and> result_is replay ''operationId'' operation_id)
         (obj [(''sameOperationId'', operation_id)]) (asdict_response replay)) (
     py_bind (post_as w payment_path (execution_payload (ps ''734.22'') ''RUB'' []) ''candidate'' request_id None) (\<lambda>conflict.
       rejection_check ''payment-request-conflict'' ''postgresql'' 409 ''idempotency.conflict'' conflict)))"

definition read_operation :: "world \<Rightarrow> pyval \<Rightarrow> string \<Rightarrow> (session, Response) py" where
  "read_operation w operation_id token = send w ''POST'' operation_path (Some (obj [(''operationId'', operation_id)])) (Some token) None None"

definition read_checks :: "world \<Rightarrow> pyval \<Rightarrow> (session, unit) py" where
  "read_checks w operation_id =
     py_bind (read_operation w operation_id ''read'') (\<lambda>r.
     py_seq (check ''operation-get'' ''postgresql''
         (resp_status r = 200 \<and> has_members (resp_body r) [(''outcome'', ps ''FOUND'')] \<and> result_is r ''operationId'' operation_id)
         (ps ''FOUND same operation'') (asdict_response r)) (
     py_bind (read_operation w operation_id ''write'') (\<lambda>write_only_get.
       rejection_check ''operation-read-policy'' ''authorization'' 403 ''access.denied'' write_only_get)))"

section \<open>Evidence in the database\<close>

definition payment_query :: "pystr \<Rightarrow> pyval \<Rightarrow> pystr" where
  "payment_query request_id operation_id =
     (let rows = (\<lambda>key view. U ''  '' @ quoted key @ U '', (SELECT coalesce(jsonb_agg(to_jsonb(t)), '' @ quoted ''[]'' @
        U ''::jsonb) FROM autocheck.'' @ U view) in
     [10] @ U ''SELECT jsonb_build_object('' @ [10] @
     rows ''operations'' ''operations t WHERE request_id = '' @ sql_literal request_id @ U ''),'' @ [10] @
     rows ''events'' ''operation_events t WHERE operation_id = '' @ sql_literal (py_str operation_id) @ U ''::uuid),'' @ [10] @
     rows ''dispatches'' ''action_dispatches t WHERE request_id = '' @ sql_literal request_id @ U '')'' @ [10] @ U '')::text;'' @ [10])"

text \<open>\<^verbatim>\<open>rows[0] if len(rows) == 1 else {}\<close>\<close>

definition single_row :: "pyval \<Rightarrow> pyval res" where
  "single_row rows = res_bind (py_len rows) (\<lambda>n. if n = 1 then py_first rows else Inr (PDict []))"

text \<open>\<^verbatim>\<open>row.get(k) == v and ...\<close>, from left to right.\<close>

definition row_has :: "pyval \<Rightarrow> (string \<times> pyval) list \<Rightarrow> bool res" where
  "row_has row = res_all (\<lambda>(k, v). res_bind (get_attr PNone row (U k)) (\<lambda>x. Inr (py_eq x v)))"

definition evidence_ok :: "pystr \<Rightarrow> pyval \<Rightarrow> nat \<Rightarrow> nat \<Rightarrow> pyval \<Rightarrow> pyval \<Rightarrow> bool \<Rightarrow> bool \<Rightarrow> pyval \<Rightarrow> bool res" where
  "evidence_ok request_id operation_id n_operations n_events operation_row event_row id_valid event_hash_valid dispatches =
     res_and (Inr (n_operations = 1 \<and> n_events = 1)) (
     res_and (row_has operation_row [(''operation_id'', operation_id), (''request_id'', PStr request_id),
         (''operation_kind'', ps ''PAYMENT_EXECUTION''), (''status'', ps ''CREATED''), (''process_id'', PNone)]) (
     res_and (res_bind (get_attr PNone operation_row (U ''amount'')) (\<lambda>v. Inr (py_str v \<in> U ` {''734.21'', ''734.2100''}))) (
     res_and (row_has operation_row [(''currency'', ps ''RUB'')]) (
     res_and (row_has event_row [(''operation_id'', operation_id), (''event_type'', ps ''OPERATION_CREATED'')]) (
       Inr (id_valid \<and> event_hash_valid \<and> truthy dispatches))))))"

definition payment_evidence_check :: "world \<Rightarrow> pystr \<Rightarrow> pyval \<Rightarrow> (session, unit) py" where
  "payment_evidence_check w request_id operation_id =
     py_bind (psql_json w (payment_query request_id operation_id)) (\<lambda>(r, evidence).
     let operations = member_or (PList []) evidence ''operations''; events = member_or (PList []) evidence ''events'';
         dispatches = member_or (PList []) evidence ''dispatches'' in
     py_bind (py_lift (single_row operations)) (\<lambda>operation_row.
     py_bind (py_lift (single_row events)) (\<lambda>event_row.
     py_bind (py_lift (get_attr PNone event_row (U ''event_id''))) (\<lambda>event_id.
     py_bind (py_lift (hash_valid event_row)) (\<lambda>event_hash_valid.
     py_bind (py_lift (res_and (Inr (exitCode r = 0)) (
         res_bind (py_len operations) (\<lambda>n_operations. res_bind (py_len events) (\<lambda>n_events.
           evidence_ok request_id operation_id n_operations n_events operation_row event_row (is_uuid (py_str event_id)) event_hash_valid dispatches))))) (\<lambda>ok.
       check ''payment-authoritative-evidence'' ''postgresql'' ok (ps ''one operation, one initial event and dispatch evidence'') evidence))))))"

text \<open>A statement under the runtime's role that must be refused.\<close>

definition mutation_check :: "world \<Rightarrow> string \<Rightarrow> string \<Rightarrow> pystr \<Rightarrow> pyval \<Rightarrow> (session, unit) py" where
  "mutation_check w name expected statement operation_id =
     py_bind (psql w (U ''SET ROLE course_runtime; '' @ statement @ U ''WHERE operation_id = '' @
         sql_literal (py_str operation_id) @ U ''::uuid;'')) (\<lambda>r.
       check name ''postgresql'' (exitCode r \<noteq> 0) (ps expected)
         (obj [(''exitCode'', PInt (exitCode r)), (''stderr'', PStr (drop (length (cmd_stderr r) - 512) (cmd_stderr r)))]))"

section \<open>Persistence over the recreation of a container\<close>

text \<open>Kill, remove and start a service again; \<open>meanwhile\<close> runs after the kill.\<close>

definition recreate :: "world \<Rightarrow> string \<Rightarrow> (session, 'a) py \<Rightarrow> (session, CommandResult \<times> 'a \<times> CommandResult \<times> CommandResult) py" where
  "recreate w service meanwhile =
     py_bind (compose w (map U [''kill'', ''-s'', ''SIGKILL'', service]) 180) (\<lambda>killed.
     py_bind meanwhile (\<lambda>x.
     py_bind (compose w (map U [''rm'', ''-f'', service]) 180) (\<lambda>removed.
     py_bind (compose w (map U [''up'', ''-d'', ''--no-deps'', service]) 180) (\<lambda>started.
       py_return (killed, x, removed, started)))))"

definition api_persistence_check :: "world \<Rightarrow> pyval \<Rightarrow> (session, unit) py" where
  "api_persistence_check w operation_id =
     py_bind (recreate w ''api'' (wait_dependency_unready w)) (\<lambda>(killed, (live, degraded), removed, started).
     py_bind (wait_ready w) (\<lambda>(_, ready).
     py_bind (read_operation w operation_id ''read'') (\<lambda>persisted.
       check ''operation-persists-after-api-recreate'' ''postgresql''
         (exitCode killed = 0 \<and> resp_status live = 200 \<and> resp_status degraded \<noteq> 200 \<and> exitCode removed = 0 \<and> exitCode started = 0 \<and>
          resp_status ready = 200 \<and> resp_status persisted = 200 \<and> result_is persisted ''operationId'' operation_id)
         (ps ''same operation after API container recreation'')
         (obj [(''kill'', PInt (exitCode killed)), (''liveWhileApiDown'', PInt (resp_status live)),
           (''readyWhileApiDown'', PInt (resp_status degraded)), (''rm'', PInt (exitCode removed)), (''up'', PInt (exitCode started)),
           (''ready'', PInt (resp_status ready)), (''response'', asdict_response persisted)]))))"

definition gateway_persistence_check :: "world \<Rightarrow> pyval \<Rightarrow> (session, unit) py" where
  "gateway_persistence_check w operation_id =
     py_bind (recreate w ''gateway'' (py_return ())) (\<lambda>(killed, _, removed, started).
     py_bind (wait_ready w) (\<lambda>(_, ready).
     py_bind (read_operation w operation_id ''read'') (\<lambda>persisted.
       check ''operation-persists-after-gateway-recreate'' ''postgresql''
         (exitCode killed = 0 \<and> exitCode removed = 0 \<and> exitCode started = 0 \<and>
          resp_status ready = 200 \<and> resp_status persisted = 200 \<and> result_is persisted ''operationId'' operation_id)
         (ps ''same operation after gateway container recreation'')
         (obj [(''kill'', PInt (exitCode killed)), (''rm'', PInt (exitCode removed)), (''up'', PInt (exitCode started)),
           (''ready'', PInt (resp_status ready)), (''response'', asdict_response persisted)]))))"

definition check_payment_foundation :: "world \<Rightarrow> (session, unit) py" where
  "check_payment_foundation w =
     py_seq (validation_check w) (
     py_seq (write_policy_check w) (
     py_bind (fresh w ''request'') (\<lambda>request_id.
     py_bind (concurrency_check w request_id) (\<lambda>operation_id.
     py_seq (payment_replay_checks w request_id operation_id) (
     py_seq (read_checks w operation_id) (
     if \<not> truthy operation_id
     then check ''payment-authoritative-evidence'' ''postgresql'' False (ps ''one operation, one initial event and dispatch evidence'')
       (ps ''operationId was not returned'')
     else
       py_seq (payment_evidence_check w request_id operation_id) (
       py_seq (mutation_check w ''runtime-operation-update-denied'' ''course_runtime cannot update operation projections''
         (U ''UPDATE autocheck.operations SET status = '' @ quoted ''COMPLETED'' @ U '' '') operation_id) (
       py_seq (mutation_check w ''runtime-event-delete-denied'' ''course_runtime cannot delete operation events''
         (U ''DELETE FROM autocheck.operation_events '') operation_id) (
       py_seq (api_persistence_check w operation_id)
         (gateway_persistence_check w operation_id))))))))))"

section \<open>Logs and outage\<close>

text \<open>The logs stay in the report only as a remark: the result of the command is changed after it was recorded.\<close>

definition redact_last :: "CommandResult \<Rightarrow> session \<Rightarrow> session" where
  "redact_last logs s = (let note = U ''[runtime logs inspected and redacted]'' in
     s\<lparr>commands := butlast (commands s) @ [logs\<lparr>cmd_stdout := note, cmd_stderr := (if cmd_stderr logs = [] then [] else note)\<rparr>]\<rparr>)"

definition check_runtime_logs :: "world \<Rightarrow> (session, unit) py" where
  "check_runtime_logs w =
     py_bind (compose w (map U [''logs'', ''--no-color'', ''gateway'', ''api'']) 60) (\<lambda>logs.
     let content = cmd_stdout logs @ [10] @ cmd_stderr logs;
         jwt_leak = list_ex (\<lambda>(_, token). contains token content) (a_tokens (w_self w));
         signing_key_leak = contains (a_secret (w_self w)) content in
     py_seq (check ''runtime-logs-do-not-expose-credentials'' ''runtime'' (exitCode logs = 0 \<and> \<not> jwt_leak \<and> \<not> signing_key_leak)
         (obj [(''exitCode'', PInt 0), (''jwtLeak'', PBool False), (''signingKeyLeak'', PBool False)])
         (obj [(''exitCode'', PInt (exitCode logs)), (''jwtLeak'', PBool jwt_leak), (''signingKeyLeak'', PBool signing_key_leak)]))
       (py_modify (redact_last logs)))"

definition check_dependency_outage :: "world \<Rightarrow> (session, unit) py" where
  "check_dependency_outage w =
     py_bind (compose w (map U [''stop'', ''postgres'']) 90) (\<lambda>stopped.
     py_bind (get w (U ''/health/ready'')) (\<lambda>degraded_ready.
     py_bind (fresh w ''dependency'') (\<lambda>marker.
     py_bind (fresh w ''dependency'') (\<lambda>key.
     py_bind (post_as w (a_action_path (w_self w)) (probe w ''ok'' marker) ''worker'' key (Some ''1'')) (\<lambda>degraded_action.
     py_seq (check ''postgres-dependency-unavailable'' ''runtime''
         (exitCode stopped = 0 \<and> resp_status degraded_ready \<noteq> 200 \<and> rejected degraded_action 503 ''dependency.unavailable'')
         (obj [(''ready'', ps ''non-200''), (''http'', PInt 503), (''code'', ps ''dependency.unavailable'')])
         (obj [(''stopExitCode'', PInt (exitCode stopped)), (''ready'', asdict_response degraded_ready),
           (''action'', asdict_response degraded_action)])) (
     py_bind (compose w (map U [''start'', ''postgres'']) 90) (\<lambda>started.
     py_bind (wait_ready w) (\<lambda>(_, recovered_ready).
       add_check (U ''postgres-dependency-recovery'') ''runtime'' (exitCode started = 0 \<and> resp_status recovered_ready = 200)
         (obj [(''startExitCode'', PInt 0), (''ready'', PInt 200)])
         (obj [(''startExitCode'', PInt (exitCode started)), (''ready'', PInt (resp_status recovered_ready))]) False))))))))"

text \<open>The groups in the order of \<^verbatim>\<open>run\<close>.\<close>

definition phases :: "world \<Rightarrow> (session, unit) py list" where
  "phases w = [check_migrations_and_publication w, check_auth_and_contract w, check_versions_and_rollback w,
     check_openapi_and_dispatch w, check_payment_foundation w, check_dependency_outage w, check_runtime_logs w]"

end
