(* ===== verification/Week1_Complete.thy ===== *)
theory Week1_Complete
  imports Week1_Payments
begin

text \<open>
  Which checks the code of \<^verbatim>\<open>task/week1/autocheck/public_check.py\<close> records. No code removes or changes a recorded
  check (\<open>extends\<close>, an interpretation of \<open>state_order\<close>), and a group that returns has recorded its whole list of checks,
  unless it recorded a required check that failed (\<open>adds\<close>).
\<close>

section \<open>Checks are only appended\<close>

definition extends :: "session \<Rightarrow> session \<Rightarrow> bool" where
  "extends s t \<longleftrightarrow> (\<exists>cs. checks t = checks s @ cs)"

interpretation record_order: state_order extends
  by unfold_locales (auto simp: extends_def)

definition failing :: "Check list \<Rightarrow> bool" where
  "failing cs = list_ex (\<lambda>c. chk_required c \<and> \<not> chk_passed c) cs"

definition adds :: "(session, 'a) py \<Rightarrow> pystr list \<Rightarrow> ('a \<Rightarrow> bool) \<Rightarrow> bool" where
  "adds m ns P \<longleftrightarrow> (\<forall>s. \<exists>cs. checks (snd (m s)) = checks s @ cs \<and>
     (\<forall>r. fst (m s) = Inr r \<longrightarrow> P r \<and> map chk_name cs = ns \<or> failing cs))"

abbreviation records :: "(session, 'a) py \<Rightarrow> pystr list \<Rightarrow> bool" where
  "records m ns \<equiv> adds m ns (\<lambda>_. True)"

lemma adds_extends: "adds m ns P \<Longrightarrow> preserves extends m"
  unfolding adds_def preserves_def extends_def by blast

lemma adds1_Inr:
  "adds m ns P \<Longrightarrow> m s = (Inr r, t) \<Longrightarrow> \<exists>cs. checks t = checks s @ cs \<and> (P r \<and> map chk_name cs = ns \<or> failing cs)"
  unfolding adds_def by (metis fst_conv snd_conv)

text \<open>If a guard does not hold, a check failed, and what follows need only keep the record.\<close>

lemma adds1_bind:
  assumes m: "adds m xs P" and f: "\<And>x. P x \<Longrightarrow> adds (f x) ys Q" and e: "\<And>x. preserves extends (f x)"
  shows "adds (py_bind m f) (xs @ ys) Q"
  unfolding adds_def
proof
  fix s
  obtain r s1 where ms: "m s = (r, s1)" by (cases "m s")
  from m obtain cs where cs: "checks s1 = checks s @ cs" "\<And>x. r = Inr x \<Longrightarrow> P x \<and> map chk_name cs = xs \<or> failing cs"
    unfolding adds_def by (metis ms fst_conv snd_conv)
  show "\<exists>cs. checks (snd (py_bind m f s)) = checks s @ cs \<and>
    (\<forall>r. fst (py_bind m f s) = Inr r \<longrightarrow> Q r \<and> map chk_name cs = xs @ ys \<or> failing cs)"
  proof (cases r)
    case (Inl e)
    with ms cs show ?thesis by (intro exI [of _ cs]) simp
  next
    case (Inr x)
    show ?thesis
    proof (cases "failing cs")
      case True
      from e [of x] obtain ds where "checks (snd (f x s1)) = checks s1 @ ds" unfolding preserves_def extends_def by blast
      with True cs Inr ms show ?thesis by (intro exI [of _ "cs @ ds"]) (simp add: failing_def)
    next
      case False
      with cs(2) [OF Inr] have x: "P x" "map chk_name cs = xs" by auto
      from f [OF x(1)] obtain ds where "checks (snd (f x s1)) = checks s1 @ ds"
        "\<forall>r. fst (f x s1) = Inr r \<longrightarrow> Q r \<and> map chk_name ds = ys \<or> failing ds" unfolding adds_def by blast
      with cs x Inr ms show ?thesis by (intro exI [of _ "cs @ ds"]) (auto simp: failing_def)
    qed
  qed
qed

named_theorems record_rules

lemma records_bind [record_rules]:
  "records m xs \<Longrightarrow> (\<And>x. adds (f x) ys Q) \<Longrightarrow> adds (py_bind m f) (xs @ ys) Q"
  by (rule adds1_bind) (auto intro: adds_extends)

lemma records_seq [record_rules]: "records m xs \<Longrightarrow> adds n ys Q \<Longrightarrow> adds (py_seq m n) (xs @ ys) Q"
  unfolding py_seq_def by (rule records_bind)

lemma records_return [record_rules]: "Q x \<Longrightarrow> adds (py_return x) [] Q"
  by (simp add: adds_def)

lemma records_lift [record_rules]: "records (py_lift r) []"
  by (simp add: adds_def)

lemma records_ask [record_rules]: "records (ask f) []"
  by (simp add: adds_def ask_def)

lemma records_ask_res [record_rules]: "records (ask_res f) []"
  by (simp add: adds_def ask_res_def ask_def py_bind_def)

lemma records_modify: "(\<And>s. checks (f s) = checks s) \<Longrightarrow> records (py_modify f) []"
  by (simp add: adds_def)

lemma records_add_check [record_rules]: "records (add_check name criterion ok ex act req) [name]"
  by (simp add: adds_def add_check_def)

lemma records_check [record_rules]: "records (check name criterion ok ex act) [U name]"
  unfolding check_def by (rule records_add_check)

lemma records_failed_check: "records (check name criterion False ex act) ns"
  by (simp add: adds_def check_def add_check_def failing_def)

lemma records_compose [record_rules]: "records (compose w args timeout) []"
  by (simp add: adds_def compose_def command_def ask_res_def ask_def py_bind_def py_seq_def Let_def split: sum.splits)

lemma records_if [record_rules]: "adds m xs Q \<Longrightarrow> adds n xs Q \<Longrightarrow> adds (if b then m else n) xs Q"
  by simp

lemma records_prod [record_rules]: "(\<And>a b. adds (f a b) xs Q) \<Longrightarrow> adds (case p of (a, b) \<Rightarrow> f a b) xs Q"
  by (cases p) simp

lemma records_prod2 [record_rules]: "(\<And>a b. adds (f a b c) xs Q) \<Longrightarrow> adds ((case p of (a, b) \<Rightarrow> f a b) c) xs Q"
  by (cases p) simp

lemma records_eq: "adds m xs Q \<Longrightarrow> xs = ys \<Longrightarrow> adds m ys Q"
  by simp

lemma records_map: "(\<And>x. records (f x) []) \<Longrightarrow> records (py_map f xs) []"
proof (induction xs)
  case (Cons x xs)
  show ?case unfolding py_map.simps
    by (rule records_eq, rule records_bind [OF Cons.prems], rule records_bind [OF Cons.IH [OF Cons.prems]], rule records_return) simp_all
qed (simp add: records_return)

section \<open>The operations\<close>

lemma records_cli [record_rules]: "records (cli w source args) []"
  unfolding cli_def by (rule records_eq, (rule record_rules refl TrueI)+) simp

lemma records_psql [record_rules]: "records (psql w q) []"
  unfolding psql_def by (rule record_rules)

lemma records_psql_json [record_rules]: "records (psql_json w q) []"
  unfolding psql_json_def by (rule records_eq, (rule record_rules TrueI)+) simp

lemma records_canary_count [record_rules]: "records (canary_count w m) []"
  unfolding canary_count_def by (rule records_eq, (rule record_rules TrueI)+) simp

lemma records_and_canary [record_rules]: "records (and_canary w b m n) []"
  unfolding and_canary_def by (rule records_eq, (rule record_rules TrueI)+) (auto intro: record_rules)

lemma records_send [record_rules]: "records (send w method path payload token key version) []"
  unfolding send_def Let_def by (rule records_eq, (rule record_rules TrueI)+) simp

lemma records_get [record_rules]: "records (get w path) []"
  unfolding get_def Let_def by (rule records_eq, (rule record_rules TrueI)+) simp

lemma records_post_as [record_rules]: "records (post_as w path payload token key version) []"
  unfolding post_as_def Let_def by (rule records_eq, (rule record_rules TrueI)+) simp

lemma records_fresh [record_rules]: "records (fresh w prefix) []"
  unfolding fresh_def Let_def by (rule records_eq, (rule record_rules TrueI)+) simp

lemma records_rejection_check [record_rules]: "records (rejection_check name criterion st code r) [U name]"
  unfolding rejection_check_def Let_def by (rule records_eq, (rule record_rules TrueI)+) simp

lemma records_untouched_check [record_rules]: "records (untouched_check w name criterion st code marker r) [U name]"
  unfolding untouched_check_def Let_def by (rule records_eq, (rule record_rules TrueI)+) simp

lemma records_wait_ready [record_rules]: "records (wait_ready w) []"
  unfolding wait_ready_def Let_def wait_for_def by (rule records_eq, (rule record_rules TrueI)+) simp

lemma records_wait_dependency_unready [record_rules]: "records (wait_dependency_unready w) []"
  unfolding wait_dependency_unready_def Let_def wait_for_def by (rule records_eq, (rule record_rules TrueI)+) simp

section \<open>The start\<close>

lemma records_readme_check [record_rules]: "records (readme_check w) (map U [''submission-readme''])"
  unfolding readme_check_def Let_def by (rule records_eq, (rule record_rules TrueI)+) simp

lemma records_hygiene_check [record_rules]: "records (hygiene_check w) (map U [''repository-hygiene''])"
  unfolding hygiene_check_def Let_def by (rule records_eq, (rule record_rules TrueI)+) simp

lemma records_write_override [record_rules]: "records (write_override w) []"
  unfolding write_override_def Let_def by (rule records_eq, (rule record_rules TrueI)+) simp

lemma records_entrypoint_check [record_rules]: "records (entrypoint_check sc) (map U [''gateway-is-only-public-entrypoint''])"
  unfolding entrypoint_check_def Let_def by (rule records_eq, (rule record_rules TrueI)+) simp

lemma records_status_check [record_rules]: "records (status_check name st r) [U name]"
  unfolding status_check_def Let_def by (rule records_eq, (rule record_rules TrueI)+) simp

lemma records_health_checks [record_rules]: "records (health_checks w) (map U [''health-live'', ''health-ready'', ''gateway-route-whitelist''])"
  unfolding health_checks_def Let_def by (rule records_eq, (rule record_rules TrueI)+) simp

section \<open>The groups\<close>

lemma records_published_check [record_rules]: "records (published_check w name expected args) [U name]"
  unfolding published_check_def Let_def by (rule records_eq, (rule record_rules TrueI)+) simp

lemma records_conflict_check [record_rules]: "records (conflict_check w name expected source args) [U name]"
  unfolding conflict_check_def Let_def by (rule records_eq, (rule record_rules TrueI)+) simp

lemma records_image_ids [record_rules]: "records (image_ids w) []"
  unfolding image_ids_def Let_def by (rule records_eq, (rule record_rules TrueI)+) simp

lemma records_migration_checks [record_rules]: "records (migration_checks w) (map U [''migration-apply'', ''migration-idempotent-repeat''])"
  unfolding migration_checks_def Let_def by (rule records_eq, (rule record_rules TrueI)+) simp

lemma records_checksum_check [record_rules]: "records (checksum_check w) (map U [''migration-checksum-conflict''])"
  unfolding checksum_check_def Let_def by (rule records_eq, (rule record_rules TrueI)+) simp

lemma records_manifest_checks [record_rules]: "records (manifest_checks w) (map U [''manifest-validate'', ''manifest-validate-has-no-side-effect'', ''manifest-publish-v1'', ''manifest-publish-idempotent''])"
  unfolding manifest_checks_def Let_def by (rule records_eq, (rule record_rules TrueI)+) simp

lemma records_immutable_check [record_rules]: "records (immutable_check w) (map U [''manifest-immutable-conflict''])"
  unfolding immutable_check_def Let_def by (rule records_eq, (rule record_rules TrueI)+) simp

definition publication_names :: "pystr list" where
  "publication_names = map U [''migration-apply'', ''migration-idempotent-repeat'', ''migration-checksum-conflict'',
     ''manifest-validate'', ''manifest-validate-has-no-side-effect'', ''manifest-publish-v1'',
     ''manifest-publish-idempotent'', ''manifest-immutable-conflict'', ''csharp-images-unchanged-after-publish'']"

lemma records_check_migrations_and_publication [record_rules]: "records (check_migrations_and_publication w) publication_names"
  unfolding check_migrations_and_publication_def Let_def publication_names_def by (rule records_eq, (rule record_rules TrueI)+) simp

lemma records_token_checks [record_rules]: "records (token_checks w payload) (map U [''missing-jwt'', ''expired-jwt'', ''malformed-jwt-claim''])"
  unfolding token_checks_def Let_def by (rule records_eq, (rule record_rules TrueI)+) simp

lemma records_policy_check [record_rules]: "records (policy_check w) (map U [''http-policy-denied''])"
  unfolding policy_check_def Let_def by (rule records_eq, (rule record_rules TrueI)+) simp

lemma records_injection_check [record_rules]: "records (injection_check w) (map U [''payload-cannot-select-target''])"
  unfolding injection_check_def Let_def by (rule records_eq, (rule record_rules TrueI)+) simp

lemma records_boundary_checks [record_rules]: "records (boundary_checks w payload) (map U [''required-idempotency-key'', ''payload-cannot-select-target'', ''unknown-action''])"
  unfolding boundary_checks_def Let_def by (rule records_eq, (rule record_rules TrueI)+) simp

lemma records_database_policy_check [record_rules]: "records (database_policy_check w) (map U [''database-policy-denied''])"
  unfolding database_policy_check_def Let_def by (rule records_eq, (rule record_rules TrueI)+) simp

definition auth_names :: "pystr list" where
  "auth_names = map U [''missing-jwt'', ''expired-jwt'', ''malformed-jwt-claim'',
     ''http-policy-denied'', ''required-idempotency-key'', ''payload-cannot-select-target'',
     ''unknown-action'', ''database-policy-denied'']"

lemma records_check_auth_and_contract [record_rules]: "records (check_auth_and_contract w) auth_names"
  unfolding check_auth_and_contract_def Let_def auth_names_def by (rule records_eq, (rule record_rules TrueI)+) simp

lemma records_invoke [record_rules]: "records (invoke w prefix version) []"
  unfolding invoke_def Let_def by (rule records_eq, (rule record_rules TrueI)+) simp

lemma records_first_checks [record_rules]: "records (first_checks w marker key) (map U [''generic-action-default-v1'', ''server-correlation-uuid''])"
  unfolding first_checks_def Let_def by (rule records_eq, (rule record_rules TrueI)+) simp

lemma records_replay_checks [record_rules]: "records (replay_checks w marker key first) (map U [''generic-action-idempotent-replay'', ''generic-action-idempotency-conflict''])"
  unfolding replay_checks_def Let_def by (rule records_eq, (rule record_rules TrueI)+) simp

lemma records_rollback_check [record_rules]: "records (rollback_check w mc) [U (''rollback-'' @ fst mc)]"
  unfolding rollback_check_def Let_def case_prod_beta by (rule records_eq, (rule record_rules TrueI)+) simp

lemma records_listing_check [record_rules]: "records (listing_check w) (map U [''action-list-machine-readable''])"
  unfolding listing_check_def Let_def by (rule records_eq, (rule record_rules TrueI)+) simp

lemma records_version_checks [record_rules]: "records (version_checks w) (map U [''explicit-version-v2'', ''unknown-version''])"
  unfolding version_checks_def Let_def by (rule records_eq, (rule record_rules TrueI)+) simp

lemma records_activation_check [record_rules]: "records (activation_check w) (map U [''atomic-default-activation''])"
  unfolding activation_check_def Let_def by (rule records_eq, (rule record_rules TrueI)+) simp

lemma records_replacement_check [record_rules]: "records (replacement_check w) (map U [''disabled-version-and-replacement''])"
  unfolding replacement_check_def Let_def by (rule records_eq, (rule record_rules TrueI)+) simp

definition version_names :: "pystr list" where
  "version_names = map U [''generic-action-default-v1'', ''server-correlation-uuid'', ''generic-action-idempotent-replay'',
     ''generic-action-idempotency-conflict'', ''rollback-error'', ''rollback-unknown_outcome'',
     ''rollback-invalid_result'', ''manifest-publish-v2'', ''action-list-machine-readable'',
     ''explicit-version-v2'', ''unknown-version'', ''atomic-default-activation'',
     ''disabled-version-and-replacement'']"

lemma records_check_versions_and_rollback [record_rules]: "records (check_versions_and_rollback w) version_names"
  unfolding check_versions_and_rollback_def Let_def version_names_def rollback_modes_def py_for.simps by (rule records_eq, (rule record_rules TrueI)+) simp

lemma records_openapi_check [record_rules]: "records (openapi_check w) (map U [''manifest-driven-openapi''])"
  unfolding openapi_check_def Let_def by (rule records_eq, (rule record_rules TrueI)+) simp

lemma records_evidence_check [record_rules]: "records (evidence_check w) (map U [''autocheck-action-evidence''])"
  unfolding evidence_check_def Let_def by (rule records_eq, (rule record_rules TrueI)+) simp

lemma records_check_openapi_and_dispatch [record_rules]: "records (check_openapi_and_dispatch w) (map U [''manifest-driven-openapi'', ''autocheck-action-evidence''])"
  unfolding check_openapi_and_dispatch_def Let_def by (rule records_eq, (rule record_rules TrueI)+) simp

lemma records_validation_check [record_rules]: "records (validation_check w) [U ''payment-request-validation'']"
proof -
  have "records (py_bind (fresh w ''invalid'') (\<lambda>key. post_as w payment_path payload ''candidate'' key None)) []" for payload
    by (rule records_eq, (rule record_rules TrueI)+) simp
  then show ?thesis unfolding validation_check_def
    by (intro records_eq [OF records_bind [OF records_map records_check]]) simp_all
qed

lemma records_write_policy_check [record_rules]: "records (write_policy_check w) (map U [''payment-write-policy''])"
  unfolding write_policy_check_def Let_def by (rule records_eq, (rule record_rules TrueI)+) simp

lemma records_concurrent [record_rules]: "records (concurrent_payment_requests w request_id payload workers) []"
  by (simp add: adds_def concurrent_payment_requests_def)

lemma records_concurrency_check [record_rules]: "records (concurrency_check w request_id) (map U [''concurrent-payment-request''])"
  unfolding concurrency_check_def Let_def by (rule records_eq, (rule record_rules TrueI)+) simp

lemma records_payment_replay_checks [record_rules]: "records (payment_replay_checks w request_id operation_id) (map U [''payment-request-replay'', ''payment-request-conflict''])"
  unfolding payment_replay_checks_def Let_def by (rule records_eq, (rule record_rules TrueI)+) simp

lemma records_read_operation [record_rules]: "records (read_operation w operation_id token) []"
  unfolding read_operation_def Let_def by (rule records_eq, (rule record_rules TrueI)+) simp

lemma records_read_checks [record_rules]: "records (read_checks w operation_id) (map U [''operation-get'', ''operation-read-policy''])"
  unfolding read_checks_def Let_def by (rule records_eq, (rule record_rules TrueI)+) simp

lemma records_payment_evidence_check [record_rules]: "records (payment_evidence_check w request_id operation_id) (map U [''payment-authoritative-evidence''])"
  unfolding payment_evidence_check_def Let_def by (rule records_eq, (rule record_rules TrueI)+) simp

lemma records_mutation_check [record_rules]: "records (mutation_check w name expected statement operation_id) [U name]"
  unfolding mutation_check_def Let_def by (rule records_eq, (rule record_rules TrueI)+) simp

lemma records_recreate [record_rules]: "records m [] \<Longrightarrow> records (recreate w service m) []"
  unfolding recreate_def by (rule records_eq, (rule record_rules TrueI | assumption)+) simp

lemma records_api_persistence_check [record_rules]: "records (api_persistence_check w operation_id) (map U [''operation-persists-after-api-recreate''])"
  unfolding api_persistence_check_def Let_def by (rule records_eq, (rule record_rules TrueI)+) simp

lemma records_gateway_persistence_check [record_rules]: "records (gateway_persistence_check w operation_id) (map U [''operation-persists-after-gateway-recreate''])"
  unfolding gateway_persistence_check_def Let_def by (rule records_eq, (rule record_rules TrueI)+) simp

definition payment_names :: "pystr list" where
  "payment_names = map U [''payment-request-validation'', ''payment-write-policy'', ''concurrent-payment-request'',
     ''payment-request-replay'', ''payment-request-conflict'', ''operation-get'',
     ''operation-read-policy'', ''payment-authoritative-evidence'', ''runtime-operation-update-denied'',
     ''runtime-event-delete-denied'', ''operation-persists-after-api-recreate'', ''operation-persists-after-gateway-recreate'']"

lemma records_check_payment_foundation [record_rules]: "records (check_payment_foundation w) payment_names"
proof -
  have "records (if \<not> truthy operation_id
     then check ''payment-authoritative-evidence'' ''postgresql'' False ex act
     else py_seq (payment_evidence_check w request_id operation_id) (
       py_seq (mutation_check w ''runtime-operation-update-denied'' ex1 st1 operation_id) (
       py_seq (mutation_check w ''runtime-event-delete-denied'' ex2 st2 operation_id) (
       py_seq (api_persistence_check w operation_id) (gateway_persistence_check w operation_id)))))
     (map U [''payment-authoritative-evidence'', ''runtime-operation-update-denied'', ''runtime-event-delete-denied'', ''operation-persists-after-api-recreate'', ''operation-persists-after-gateway-recreate''])"
    for operation_id request_id ex act ex1 st1 ex2 st2
    by (rule records_if [OF records_failed_check], rule records_eq, (rule record_rules TrueI)+) simp
  then show ?thesis unfolding check_payment_foundation_def
    by (intro records_eq [OF records_seq [OF records_validation_check records_seq [OF records_write_policy_check
        records_bind [OF records_fresh records_bind [OF records_concurrency_check records_seq [OF records_payment_replay_checks
        records_seq [OF records_read_checks]]]]]]]) (simp_all add: payment_names_def)
qed

lemma records_check_runtime_logs [record_rules]: "records (check_runtime_logs w) [U ''runtime-logs-do-not-expose-credentials'']"
proof -
  have "records (py_modify (redact_last logs)) []" for logs
    by (rule records_modify) (simp add: redact_last_def Let_def)
  then show ?thesis unfolding check_runtime_logs_def Let_def
    by (intro records_eq [OF records_bind [OF records_compose records_seq [OF records_check]]]) simp_all
qed

lemma records_check_dependency_outage [record_rules]: "records (check_dependency_outage w) (map U [''postgres-dependency-unavailable'', ''postgres-dependency-recovery''])"
  unfolding check_dependency_outage_def Let_def by (rule records_eq, (rule record_rules TrueI)+) simp

section \<open>The start, with its early returns\<close>

lemma adds_exit_check: "adds (exit_check w name args timeout) [U name] (\<lambda>ok. ok)"
proof -
  have "\<exists>cs. checks t = checks s @ cs \<and> (ok \<and> map chk_name cs = [U name] \<or> failing cs)"
    if "exit_check w name args timeout s = (Inr ok, t)" for s ok t
    using that by (auto simp: exit_check_def py_Inr compose_def command_def ask_res_def ask_def check_def add_check_def failing_def Let_def)
  moreover have "\<exists>cs. checks (snd (exit_check w name args timeout s)) = checks s @ cs" for s
    by (auto simp: exit_check_def compose_def command_def ask_res_def ask_def check_def add_check_def py_bind_def py_seq_def Let_def
        split: sum.splits)
  ultimately show ?thesis unfolding adds_def by (metis prod.collapse)
qed

definition build_names :: "world \<Rightarrow> pystr list" where
  "build_names w = (if w_skip_build w then [] else [U ''compose-build''])"

lemma adds1_build_stack: "adds (build_stack w) (build_names w) (\<lambda>ok. ok)"
  by (simp add: build_stack_def build_names_def adds_exit_check records_return)

lemma adds_config_check: "adds (config_check w) [U ''compose-services''] (\<lambda>c. c \<noteq> None)"
proof -
  have guard: "adds (py_seq (check n g (exitCode r = 0 \<and> b) ex act) (py_return (if exitCode r = 0 then Some sc else None))) [U n] (\<lambda>c. c \<noteq> None)"
    for n g b ex act sc and r :: CommandResult
    by (simp add: adds_def py_seq_def py_bind_def check_def add_check_def failing_def)
  show ?thesis unfolding config_check_def
    by (rule records_eq, rule records_bind [OF records_compose], rule records_bind [OF records_lift], rule records_prod,
        rule records_bind [OF records_lift],
        rule guard) simp
qed

lemma guard_extends: "preserves extends m \<Longrightarrow> preserves extends (if \<not> ok then py_return () else m)"
  by (simp add: record_order.pure)

definition start_names :: "world \<Rightarrow> pystr list" where
  "start_names w = map U [''submission-readme'', ''repository-hygiene'', ''compose-services'', ''gateway-is-only-public-entrypoint''] @
     build_names w @ map U [''compose-up'', ''health-live'', ''health-ready'', ''gateway-route-whitelist'']"

lemma records_launch:
  "records (launch w) (build_names w @ map U [''compose-up'', ''health-live'', ''health-ready'', ''gateway-route-whitelist''])"
proof -
  let ?health = "\<lambda>up. if \<not> up then py_return () else health_checks w"
  let ?up = "exit_check w ''compose-up'' (map U [''up'', ''-d'', ''--force-recreate'']) 600"
  have h: "preserves extends (?health up)" for up
    by (rule guard_extends, rule adds_extends, rule records_health_checks)
  have "records (py_bind ?up ?health) ([U ''compose-up''] @ map U [''health-live'', ''health-ready'', ''gateway-route-whitelist''])"
    by (rule adds1_bind [OF adds_exit_check _ h]) (simp add: records_health_checks del: list.map)
  then have u: "records (py_bind ?up ?health) (map U [''compose-up'', ''health-live'', ''health-ready'', ''gateway-route-whitelist''])"
    by simp
  show ?thesis unfolding launch_def
    by (rule adds1_bind [OF adds1_build_stack]) (simp add: u del: list.map, rule guard_extends, rule adds_extends, rule u)
qed

lemma records_start_stack: "records (start_stack w) (start_names w)"
proof -
  let ?rest = "\<lambda>c. case c of None \<Rightarrow> py_return () | Some sc \<Rightarrow> py_seq (entrypoint_check sc) (launch w)"
  have l: "records (py_seq (entrypoint_check sc) (launch w)) (map U [''gateway-is-only-public-entrypoint''] @ (build_names w @
      map U [''compose-up'', ''health-live'', ''health-ready'', ''gateway-route-whitelist'']))" for sc
    by (rule records_seq [OF records_entrypoint_check records_launch])
  have e: "preserves extends (?rest c)" for c
    by (cases c) (simp_all add: record_order.pure adds_extends [OF l])
  have "records (py_bind (config_check w) ?rest) ([U ''compose-services''] @ (map U [''gateway-is-only-public-entrypoint''] @ (build_names w @
      map U [''compose-up'', ''health-live'', ''health-ready'', ''gateway-route-whitelist''])))"
    by (rule adds1_bind [OF adds_config_check _ e]) (auto simp del: list.map intro: l)
  from records_seq [OF records_readme_check records_seq [OF records_hygiene_check records_seq [OF records_write_override this]]]
  show ?thesis unfolding start_stack_def start_names_def by simp
qed

text \<open>All checks of a run, in order.\<close>

definition check_names :: "world \<Rightarrow> pystr list" where
  "check_names w = start_names w @ publication_names @ auth_names @ version_names @
     map U [''manifest-driven-openapi'', ''autocheck-action-evidence''] @ payment_names @
     map U [''postgres-dependency-unavailable'', ''postgres-dependency-recovery''] @ [U ''runtime-logs-do-not-expose-credentials'']"

lemma records_phases:
  "records (py_for id (phases w)) (publication_names @ auth_names @ version_names @
     map U [''manifest-driven-openapi'', ''autocheck-action-evidence''] @ payment_names @
     map U [''postgres-dependency-unavailable'', ''postgres-dependency-recovery''] @ [U ''runtime-logs-do-not-expose-credentials''])"
  unfolding phases_def py_for.simps id_apply by (rule records_eq, (rule record_rules TrueI)+) simp

end
