(* ===== verification/Week1_Sample.thy ===== *)
theory Week1_Sample
  imports Week1_Start
begin

text \<open>
  A repository and a stack that the checker of week 1 accepts, to show that the statements about an accepted run are
  not empty.
\<close>

section \<open>A README\<close>

definition sample_headings :: "pystr list" where
  "sample_headings = [[1072, 1088, 1093, 1080, 1090, 1077, 1082, 1090, 1091, 1088, 1072],
      [1079, 1072, 1087, 1091, 1089, 1082],
      [1082, 1086, 1085, 1092, 1080, 1075, 1091, 1088, 1072, 1094, 1080, 1103],
      [1084, 1080, 1075, 1088, 1072, 1094, 1080, 1080],
      [1087, 1088, 1086, 1074, 1077, 1088, 1082, 1072],
      [1076, 1080, 1072, 1075, 1085, 1086, 1089, 1090, 1080, 1082, 1072],
      [1086, 1075, 1088, 1072, 1085, 1080, 1095, 1077, 1085, 1080, 1103]]"

definition sample_readme :: pystr where
  "sample_readme = U ''## '' @ solution_word @ [10] @ concat (map (\<lambda>h. U ''### '' @ h @ [10]) sample_headings) @
     concat (map (\<lambda>v. v @ [10]) SOLUTION_LITERALS)"

definition sample_section :: pystr where
  "sample_section = [10] @ concat (map (\<lambda>h. U ''### '' @ h @ [10]) sample_headings) @
     concat (map (\<lambda>v. v @ [10]) SOLUTION_LITERALS)"

lemma contains_line: "v \<in> set vs \<Longrightarrow> contains v (a @ concat (map (\<lambda>v. v @ [10]) vs))"
proof -
  assume "v \<in> set vs"
  then obtain xs ys where "vs = xs @ v # ys" by (meson split_list)
  then have "a @ concat (map (\<lambda>v. v @ [10]) vs) = (a @ concat (map (\<lambda>v. v @ [10]) xs)) @ v @ ([10] @ concat (map (\<lambda>v. v @ [10]) ys))"
    by simp
  then show ?thesis unfolding contains_iff by blast
qed

lemma sample_section_found: "map_option (rest \<circ> snd) (search_from SOLUTION_SECTION [] sample_readme) = Some sample_section"
  by code_simp

lemma sample_section_last: "search_from NEXT_SECTION [] sample_section = None"
  by code_simp

lemma sample_section_headings: "SOLUTION_HEADINGS \<subseteq> subsection_headings sample_section"
  by code_simp

lemma sample_readme_text:
  "res_bind (utf8_encode sample_readme) (\<lambda>b. res_bind (utf8_decode b) (\<lambda>t. Inr (universal_newlines t))) = Inr sample_readme"
  by code_simp

lemma sample_section_findings: "solution_findings sample_section = []"
proof -
  have "contains v sample_section" if "v \<in> set SOLUTION_LITERALS" for v
    using contains_line [OF that, of "[10] @ concat (map (\<lambda>h. U ''### '' @ h @ [10]) sample_headings)"]
    by (simp add: sample_section_def)
  then have f: "filter (\<lambda>v. \<not> contains v sample_section) SOLUTION_LITERALS = []" by (simp add: filter_empty_conv)
  have e: "SOLUTION_HEADINGS - subsection_headings sample_section = {}" using sample_section_headings by blast
  show ?thesis unfolding solution_findings_def e f by simp
qed

section \<open>A stack\<close>

definition sample_config :: pystr where
  "sample_config = (let q = (\<lambda>s. [34] @ U s @ [34]) in
     U ''{'' @ q ''services'' @ U '':{'' @ q ''gateway'' @ U '':{'' @ q ''ports'' @ U '':[{'' @ q ''published'' @ U '':'' @ q ''8080'' @
     U ''}]},'' @ q ''api'' @ U '':{},'' @ q ''cli'' @ U '':{},'' @ q ''postgres'' @ U '':{}}}'')"

definition sample_self :: attributes where
  "sample_self = \<lparr>a_fixture = sample_probe, a_module = U ''a'', a_action = U ''b'', a_target_schema = U ''s'', a_canary_table = U ''t'',
     a_mode_field = U ''m'', a_value_field = U ''v'', a_outcome = U ''DONE'', a_forced_error_code = U ''a.b'', a_route_key = U ''a.b'',
     a_action_path = U ''/api/a/b'', a_compose_file = U ''/repo/compose.yaml'', a_secret = U ''key'', a_tokens = []\<rparr>"

definition sample_world :: world where
  "sample_world = \<lparr>w_self = sample_self, w_repo = U ''/repo'', w_fixtures = U ''/fixtures'', w_temp = U ''/tmp/check'',
     w_fs = \<lparr>fs_resolve = (\<lambda>p. Inr (split_ch 47 p)),
       fs_file = (\<lambda>p. case utf8_encode sample_readme of Inr b \<Rightarrow> Some b | Inl _ \<Rightarrow> None)\<rparr>,
     w_git = Inr (Completed 0 (U ''.gitignore'' @ [0] @ U ''README.md'' @ [0]) []), w_walk = [],
     w_exec = (\<lambda>n cmd timeout. Inr (Completed 0 sample_config [])), w_write = (\<lambda>n p t. Inr ()), w_mkdir = (\<lambda>n p. Inr ()),
     w_polls = (\<lambda>n. [(Answered 200 [], Answered 200 [])]), w_open = (\<lambda>n r. Answered 404 []),
     w_hex = (\<lambda>n. replicate 32 48), w_uuid = (\<lambda>n. replicate 32 48), w_deadline = (\<lambda>n. []), w_barrier = (\<lambda>n i. True), w_pick = 0,
     w_compose_prefix = [U ''docker'', U ''compose''], w_project = U ''week1'', w_override = U ''/tmp/override.yaml'',
     w_api_url = U ''http://127.0.0.1:8080'', w_skip_build = False, w_keep_stack = False, w_build_timeout = 900, w_workers = 20,
     w_max_bytes = 1048576, w_depth = 50\<rparr>"

lemma sample_readme_findings: "readme_findings (w_fs sample_world) (w_repo sample_world) = Inr []"
proof -
  from sample_readme_text obtain b t where b: "utf8_encode sample_readme = Inr b" "utf8_decode b = Inr t"
    "universal_newlines t = sample_readme" by auto
  then have "read_text (w_fs sample_world) (path_join (w_repo sample_world) (U ''README.md'')) = Inr sample_readme"
    by (simp add: read_text_def read_bytes_def sample_world_def)
  moreover have "extract_solution_section sample_readme = Some sample_section"
    using sample_section_found sample_section_last by (auto simp: extract_solution_section_def)
  ultimately show ?thesis by (simp add: readme_findings_def sample_section_findings)
qed

definition sample_services :: pyval where
  "sample_services = PDict [(U ''gateway'', PDict [(U ''ports'', PList [PDict [(U ''published'', PStr (U ''8080''))]])]),
     (U ''api'', PDict []), (U ''cli'', PDict []), (U ''postgres'', PDict [])]"

definition sample_names :: "pyval list" where
  "sample_names = map (PStr \<circ> U) [''gateway'', ''api'', ''cli'', ''postgres'']"

lemma sample_facts:
  "parse_services 50 sample_config = Inr (sample_services, sample_names)"
  "repository_hygiene_findings (projr (w_git sample_world)) (w_walk sample_world) = []"
  "get_attr PNone sample_services (U ''gateway'') = Inr (PDict [(U ''ports'', PList [PDict [(U ''published'', PStr (U ''8080''))]])])"
  "published_ports (PDict [(U ''ports'', PList [PDict [(U ''published'', PStr (U ''8080''))]])]) = Inr {8080}"
  "other_published_ports sample_services = Inr []"
  "PStr ` REQUIRED_SERVICES \<subseteq> set sample_names"
  "py_sorted sample_names = Inr (map (PStr \<circ> U) [''api'', ''cli'', ''gateway'', ''postgres''])"
  by code_simp+

section \<open>Its start\<close>

text \<open>Values that JSON can represent.\<close>

fun no_sets :: "pyval \<Rightarrow> bool" where
  "no_sets (PSet _) = False"
| "no_sets (PList xs) = list_all no_sets xs"
| "no_sets (PTuple xs) = list_all no_sets xs"
| "no_sets (PDict d) = list_all (\<lambda>(k, v). no_sets v) d"
| "no_sets _ = True"

lemma res_map_Inr: "(\<And>x. x \<in> set xs \<Longrightarrow> \<exists>y. f x = Inr y) \<Longrightarrow> \<exists>ys. res_map f xs = Inr ys"
  by (induction xs) fastforce+

lemma dumps_indent_Inr: "no_sets v \<Longrightarrow> \<exists>t. dumps_indent ascii level v = Inr t"
proof (induction ascii level v rule: dumps_indent.induct)
  case (1 ascii level xs)
  then have "\<exists>ts. res_map (dumps_indent ascii (Suc level)) xs = Inr ts"
    by (cases "xs = []") (auto intro!: res_map_Inr simp: list_all_iff)
  then show ?case by auto
next
  case (2 ascii level xs)
  then have "\<exists>ts. res_map (dumps_indent ascii (Suc level)) xs = Inr ts"
    by (cases "xs = []") (auto intro!: res_map_Inr simp: list_all_iff)
  then show ?case by auto
next
  case (3 ascii level d)
  have "\<exists>y. (\<lambda>(k, v). res_bind (dumps_indent ascii (Suc level) v) (\<lambda>t. Inr (k, t))) x = Inr y" if "x \<in> set d" for x
    using 3 that by (cases x) (force simp: list_all_iff)
  then have "\<exists>ts. res_map (\<lambda>(k, v). res_bind (dumps_indent ascii (Suc level) v) (\<lambda>t. Inr (k, t))) d = Inr ts"
    by (rule res_map_Inr)
  then show ?case by auto
qed auto

lemma no_sets_obj [simp]: "no_sets (obj kvs) = list_all (\<lambda>(k, v). no_sets v) kvs"
  by (auto simp: obj_def list_all_iff)

lemma no_sets_strs [simp]: "no_sets (strs xs)"
  by (simp add: strs_def list_all_iff)

lemma no_sets_ps [simp]: "no_sets (ps s)"
  by (simp add: ps_def)

text \<open>Code that returns from every state of which all checks passed, and leaves such a state behind.\<close>

definition all_passed :: "session \<Rightarrow> bool" where
  "all_passed s \<longleftrightarrow> list_all (\<lambda>c. chk_passed c \<and> no_sets (chk_expected c) \<and> no_sets (chk_actual c)) (checks s)"

definition passes :: "(session, 'a) py \<Rightarrow> ('a \<Rightarrow> bool) \<Rightarrow> bool" where
  "passes m Q \<longleftrightarrow> (\<forall>s. all_passed s \<longrightarrow> (\<exists>x t. m s = (Inr x, t) \<and> Q x \<and> all_passed t))"

lemma passes_bind: "passes m Q \<Longrightarrow> (\<And>x. Q x \<Longrightarrow> passes (f x) R) \<Longrightarrow> passes (py_bind m f) R"
  unfolding passes_def by (metis py_bind_simps(2))

lemma passes_seq: "passes m Q \<Longrightarrow> passes n R \<Longrightarrow> passes (py_seq m n) R"
  unfolding py_seq_def by (rule passes_bind)

lemma passes_return: "Q x \<Longrightarrow> passes (py_return x) Q"
  by (simp add: passes_def)

lemma passes_check: "ok \<Longrightarrow> no_sets ex \<Longrightarrow> no_sets act \<Longrightarrow> passes (check n c ok ex act) (\<lambda>_. True)"
  by (simp add: passes_def check_def add_check_def all_passed_def)

lemma passes_ask_res: "(\<And>n. \<exists>x. f n = Inr x \<and> Q x) \<Longrightarrow> passes (ask_res f) Q"
  unfolding passes_def
proof (intro allI impI)
  fix s
  assume f: "\<And>n. \<exists>x. f n = Inr x \<and> Q x" and s: "all_passed s"
  from f obtain x where "f (tick s) = Inr x" "Q x" by blast
  with s have "ask_res f s = (Inr x, s\<lparr>tick := Suc (tick s)\<rparr>) \<and> Q x \<and> all_passed (s\<lparr>tick := Suc (tick s)\<rparr>)"
    by (simp add: ask_res_def ask_def py_bind_def all_passed_def)
  then show "\<exists>x t. ask_res f s = (Inr x, t) \<and> Q x \<and> all_passed t" by blast
qed

lemma passes_compose: "passes (compose sample_world args timeout) (\<lambda>r. exitCode r = 0 \<and> cmd_stdout r = sample_config)"
  by (simp add: passes_def compose_def command_def command_result_def sample_world_def all_passed_def ask_res_def ask_def
      py_bind_def py_seq_def Let_def)

lemma passes_exit_check: "passes (exit_check sample_world n args timeout) (\<lambda>ok. ok)"
  unfolding exit_check_def
  by (rule passes_bind [OF passes_compose], rule passes_seq [OF passes_check]) (simp_all add: passes_return)

lemma passes_config: "passes (config_check sample_world) (\<lambda>c. c = Some sample_services)"
proof -
  have d: "w_depth sample_world = 50" by (simp add: sample_world_def)
  have *: "passes (py_bind (py_lift (parse_services 50 (cmd_stdout config))) (\<lambda>(service_config, services).
       py_bind (py_lift (py_sorted services)) (\<lambda>names.
       py_seq (check n g (exitCode config = 0 \<and> PStr ` REQUIRED_SERVICES \<subseteq> set services) (strs ex)
         (obj [(a, PInt i), (b, PList names), (c, PStr e)]))
       (py_return (if exitCode config = 0 then Some service_config else None))))) (\<lambda>c. c = Some sample_services)"
    if "exitCode config = 0 \<and> cmd_stdout config = sample_config" for config n g ex a b c e i
    unfolding conjunct2 [OF that] sample_facts(1) py_bind_lift_Inr prod.case sample_facts(7)
    by (rule passes_seq [OF passes_check]) (use that sample_facts(6) in \<open>simp_all add: passes_return list_all_iff\<close>)
  show ?thesis unfolding config_check_def d by (rule passes_bind [OF passes_compose *])
qed

lemma passes_entrypoint: "passes (entrypoint_check sample_services) (\<lambda>_. True)"
  unfolding entrypoint_check_def sample_facts(3) py_bind_lift_Inr sample_facts(4,5)
  by (rule passes_check) (simp_all add: port_list_def list_all_iff)

lemma answer_empty: "read_response (w_max_bytes sample_world) d (Answered n []) =
    Inr \<lparr>resp_status = n, resp_body = PNone, resp_text = [], resp_error = None\<rparr>"
  by (simp add: read_response_def loads_or_none_def utf8_replace.simps)

lemma passes_wait: "passes (wait_ready sample_world)
    (\<lambda>(live, ready). resp_status live = 200 \<and> resp_body live = PNone \<and> resp_status ready = 200 \<and> resp_body ready = PNone)"
proof -
  have p: "w_polls sample_world n = [(Answered 200 [], Answered 200 [])]" for n by (simp add: sample_world_def)
  show ?thesis unfolding wait_ready_def wait_for_def p
    by (rule passes_ask_res) (simp add: answer_empty both_ready_def)
qed

lemma passes_get: "passes (get sample_world p) (\<lambda>r. resp_status r = 404 \<and> resp_body r = PNone)"
proof -
  have o: "w_open sample_world n rq = Answered 404 []" for n rq by (simp add: sample_world_def)
  have m: "\<exists>rq. make_request u m p None None None None = Inr rq" for u m p by (simp add: make_request_def)
  then obtain rq where rq: "make_request (w_api_url sample_world) (U ''GET'') p None None None None = Inr rq" by blast
  show ?thesis unfolding get_def send_def option.case py_bind_lift_Inr option.map o rq answer_empty
    by (rule passes_ask_res) simp
qed

lemma no_sets_response: "no_sets (resp_body r) \<Longrightarrow> no_sets (asdict_response r)"
  by (auto simp: asdict_response_def split: option.splits)

lemma passes_status: "resp_status r = st \<Longrightarrow> resp_body r = PNone \<Longrightarrow> passes (status_check n st r) (\<lambda>_. True)"
  unfolding status_check_def by (rule passes_check) (simp_all add: no_sets_response)

lemma passes_health: "passes (health_checks sample_world) (\<lambda>_. True)"
  unfolding health_checks_def
  by (rule passes_bind [OF passes_wait]) (auto intro!: passes_seq [OF passes_status] passes_bind [OF passes_get] passes_status)

lemma passes_launch: "passes (launch sample_world) (\<lambda>_. True)"
proof -
  have "\<not> w_skip_build sample_world" by (simp add: sample_world_def)
  then show ?thesis unfolding launch_def build_stack_def
    by (auto intro!: passes_bind [OF passes_exit_check] passes_health)
qed

lemma passes_start: "passes (start_stack sample_world) (\<lambda>_. True)"
proof -
  have "w_write sample_world n p t = Inr ()" for n p t by (simp add: sample_world_def)
  then have o: "passes (write_override sample_world) (\<lambda>_. True)" unfolding write_override_def by (intro passes_ask_res) simp
  have r: "passes (readme_check sample_world) (\<lambda>_. True)"
    unfolding readme_check_def sample_readme_findings py_bind_lift_Inr by (rule passes_check) simp_all
  have h: "passes (hygiene_check sample_world) (\<lambda>_. True)"
  proof -
    have "w_git sample_world = Inr (projr (w_git sample_world))" by (simp add: sample_world_def)
    then obtain git where g: "w_git sample_world = Inr git" "git = projr (w_git sample_world)" by blast
    show ?thesis unfolding hygiene_check_def Let_def g(1) py_bind_lift_Inr unfolding g(2) sample_facts(2)
      by (rule passes_check) simp_all
  qed
  show ?thesis unfolding start_stack_def
    by (rule passes_seq [OF r passes_seq [OF h passes_seq [OF o passes_bind [OF passes_config]]]])
      (auto intro!: passes_seq [OF passes_entrypoint] passes_launch)
qed

end
