(* ===== verification/Week1_Run.thy ===== *)
theory Week1_Run
  imports Week1_Complete Week1_Sample
begin

text \<open>
  The report, the run and the exit code of \<^verbatim>\<open>task/week1/autocheck/public_check.py\<close>. \<open>run_with\<close> and \<open>main_with\<close> take the
  groups of checks after the start as an argument, so that what is shown of them does not depend on the groups; \<open>run\<close>
  and \<open>main\<close> are the program.
\<close>

section \<open>Report and exit code\<close>

definition infrastructure :: "session \<Rightarrow> Check list" where
  "infrastructure s = filter (\<lambda>c. chk_group c = U ''infrastructure'' \<and> chk_required c) (checks s)"

definition infrastructure_passed :: "session \<Rightarrow> bool" where
  "infrastructure_passed s = (infrastructure s \<noteq> [] \<and> list_all chk_passed (infrastructure s))"

definition required_failures :: "session \<Rightarrow> pystr list" where
  "required_failures s = map chk_name (filter (\<lambda>c. chk_required c \<and> \<not> chk_passed c) (checks s))"

definition report_status :: "session \<Rightarrow> pystr" where
  "report_status s = (if infrastructure_passed s \<and> required_failures s = [] then U ''passed'' else U ''failed'')"

definition asdict_check :: "Check \<Rightarrow> pyval" where
  "asdict_check c = obj [(''name'', PStr (chk_name c)), (''group'', PStr (chk_group c)), (''passed'', PBool (chk_passed c)),
     (''expected'', chk_expected c), (''actual'', chk_actual c), (''required'', PBool (chk_required c))]"

definition tail_4096 :: "pystr \<Rightarrow> pystr" where
  "tail_4096 s = drop (length s - 4096) s"

definition command_item :: "CommandResult \<Rightarrow> pyval" where
  "command_item r = obj [(''command'', strs (cmd_line r)), (''exitCode'', PInt (exitCode r)),
     (''stdout'', PStr (tail_4096 (cmd_stdout r))), (''stderr'', PStr (tail_4096 (cmd_stderr r)))]"

definition result_report :: "pystr \<Rightarrow> pystr \<Rightarrow> session \<Rightarrow> pydict" where
  "result_report started finished s = [
     (U ''manifestVersion'', ps ''course-1''), (U ''toolVersion'', ps ''1.3-public''),
     (U ''startedAt'', PStr started), (U ''finishedAt'', PStr finished), (U ''status'', PStr (report_status s)),
     (U ''infrastructurePassed'', PBool (infrastructure_passed s)), (U ''failedChecks'', strs (required_failures s)),
     (U ''checks'', PList (map asdict_check (checks s))), (U ''commands'', PList (map command_item (commands s)))]"

definition run_checks :: "world \<Rightarrow> (session, unit) py list \<Rightarrow> (session, unit) py" where
  "run_checks w groups = py_seq (start_stack w) (py_bind py_get (\<lambda>s. if infra_failed s then py_return () else py_for id groups))"

text \<open>\<open>describe\<close> is the text of an exception in the report.\<close>

definition unhandled :: "(pyexn \<Rightarrow> pystr) \<Rightarrow> pyexn \<Rightarrow> (session, unit) py" where
  "unhandled describe e = check ''checker-unhandled-error'' ''infrastructure'' False (ps ''no unhandled exception'') (PStr (describe e))"

definition run_with :: "(pyexn \<Rightarrow> pystr) \<Rightarrow> world \<Rightarrow> (session, unit) py list \<Rightarrow> session \<Rightarrow> session" where
  "run_with describe w groups s = snd (py_try (run_checks w groups) (\<lambda>_. True) (unhandled describe) s)"

definition run :: "(pyexn \<Rightarrow> pystr) \<Rightarrow> world \<Rightarrow> session \<Rightarrow> session" where
  "run describe w s = run_with describe w (phases w) s"

text \<open>\<^verbatim>\<open>close\<close>: \<open>present\<close> is what \<^verbatim>\<open>override.exists()\<close> does; removing the directory ignores errors.\<close>

definition close :: "world \<Rightarrow> bool res \<Rightarrow> (session, unit) py" where
  "close w present = (if w_keep_stack w then py_return ()
     else py_bind (py_lift present) (\<lambda>exists.
       if exists then py_seq (compose w (map U [''down'', ''-v'', ''--remove-orphans'']) 180) (py_return ())
       else py_return ()))"

text \<open>
  The surroundings of \<^verbatim>\<open>main\<close>: the texts of exceptions in the report and on standard error, the two times of the report,
  writing and printing the report, printing an error, and whether the override file exists at the end.
\<close>

record surroundings =
  e_describe :: "pyexn \<Rightarrow> pystr"
  e_stamps :: "pystr \<times> pystr"
  e_emit :: "pystr \<Rightarrow> unit res"
  e_complain :: "pyexn \<Rightarrow> unit res"
  e_override :: "bool res"

text \<open>The \<^verbatim>\<open>try\<close> block after the construction, and the handler of \<^verbatim>\<open>OSError\<close> and \<^verbatim>\<open>ValueError\<close>.\<close>

definition write_result :: "surroundings \<Rightarrow> session \<Rightarrow> int res" where
  "write_result env t =
     (let report = result_report (fst (e_stamps env)) (snd (e_stamps env)) t in
      res_bind (dumps_indent False 0 (PDict report)) (\<lambda>rendered.
      res_bind (e_emit env (rendered @ [10])) (\<lambda>_.
      res_bind (ditem report (U ''status'')) (\<lambda>st.
        Inr (if py_eq st (ps ''passed'') then 0 else 1)))))"

definition handled :: "surroundings \<Rightarrow> int res \<Rightarrow> int res" where
  "handled env r = (case r of
     Inl e \<Rightarrow> if e = OSError \<or> is_ValueError e then res_bind (e_complain env e) (\<lambda>_. Inr 2) else Inl e
   | Inr code \<Rightarrow> Inr code)"

text \<open>
  \<^verbatim>\<open>main\<close>: \<open>constructed\<close> is what the constructor of the checker does. The exit code is the result; other exceptions leave
  the program. The \<^verbatim>\<open>finally\<close> clause closes a checker that was constructed, and an exception of \<^verbatim>\<open>close\<close> takes the place of
  the exit code.
\<close>

definition main_with ::
  "surroundings \<Rightarrow> (world \<times> session) res \<Rightarrow> (world \<Rightarrow> (session, unit) py list) \<Rightarrow> int res" where
  "main_with env constructed groups = (case constructed of
     Inl e \<Rightarrow> handled env (Inl e)
   | Inr (w, s) \<Rightarrow>
       (let t = run_with (e_describe env) w (groups w) s; code = handled env (write_result env t) in
        res_bind (fst (close w (e_override env) t)) (\<lambda>_. code)))"

definition main :: "surroundings \<Rightarrow> (world \<times> session) res \<Rightarrow> int res" where
  "main env constructed = main_with env constructed phases"

section \<open>Facts about reports\<close>

lemma passed_not_failed: "report_status s = U ''passed'' \<Longrightarrow> \<not> infra_failed s"
  by (auto simp: report_status_def infra_failed_def required_failures_def filter_empty_conv list_ex_iff split: if_splits)

lemma passed_checks: "report_status s = U ''passed'' \<Longrightarrow> infrastructure s \<noteq> [] \<and> required_failures s = []"
  by (auto simp: report_status_def infrastructure_passed_def split: if_splits)

lemma status_cases: "report_status s = U ''passed'' \<or> report_status s = U ''failed''"
  by (simp add: report_status_def)

lemma write_result_zero: "write_result env t = Inr 0 \<Longrightarrow> report_status t = U ''passed''"
proof -
  have d: "ditem (result_report a b t) (U ''status'') = Inr (PStr (report_status t))" for a b
    by (simp add: result_report_def ditem_def)
  assume "write_result env t = Inr 0"
  then show ?thesis
    by (auto simp: write_result_def Let_def d ps_def simp del: dumps_indent.simps split: if_splits)
qed

lemma main_zero:
  assumes "main_with env (Inr (w, s)) groups = Inr 0"
  shows "report_status (run_with (e_describe env) w (groups w) s) = U ''passed'' \<and>
    fst (close w (e_override env) (run_with (e_describe env) w (groups w) s)) = Inr ()"
proof -
  let ?t = "run_with (e_describe env) w (groups w) s"
  from assms have c: "fst (close w (e_override env) ?t) = Inr ()" "handled env (write_result env ?t) = Inr 0"
    by (auto simp: main_with_def Let_def)
  from c(2) have "write_result env ?t = Inr 0" by (auto simp: handled_def split: sum.splits if_splits)
  with c(1) write_result_zero show ?thesis by blast
qed

lemma run_passed:
  assumes "report_status (run_with describe w groups s) = U ''passed''"
  shows "run_checks w groups s = (Inr (), run_with describe w groups s)"
proof (cases "run_checks w groups s")
  case (Pair r t)
  show ?thesis
  proof (cases r)
    case (Inl e)
    from Pair Inl have "run_with describe w groups s = snd (unhandled describe e t)" by (simp add: run_with_def)
    moreover have "unhandled describe e t = (Inr (), snd (unhandled describe e t))" by (simp add: unhandled_def check_def add_check_def)
    ultimately have "infra_failed (run_with describe w groups s)" by (metis infra_failed_check unhandled_def)
    with passed_not_failed [OF assms] show ?thesis by blast
  next
    case (Inr u)
    with Pair show ?thesis by (simp add: run_with_def)
  qed
qed

lemma run_checks_ok:
  assumes "run_checks w groups s = (Inr (), t)" "\<not> infra_failed t"
  shows "stack_sound w \<and> (\<exists>s1. start_stack w s = (Inr (), s1) \<and> py_for id groups s1 = (Inr (), t))"
proof -
  from assms(1) obtain s1 where s1: "start_stack w s = (Inr (), s1)"
    and p: "(if infra_failed s1 then py_return () else py_for id groups) s1 = (Inr (), t)"
    unfolding run_checks_def by (auto simp: py_Inr)
  have n: "\<not> infra_failed s1" using p assms(2) by (auto split: if_splits)
  with start_stack_ok [OF s1 n] s1 p show ?thesis by auto
qed

text \<open>The last group reads the logs: no token and no part of the signing key's text may stand in them.\<close>

definition logs_clean :: "world \<Rightarrow> bool" where
  "logs_clean w \<longleftrightarrow> (\<exists>n logs. compose_result w (map U [''logs'', ''--no-color'', ''gateway'', ''api'']) 60 n = Inr logs \<and> exitCode logs = 0 \<and>
     list_all (\<lambda>credential. \<not> contains credential (cmd_stdout logs @ [10] @ cmd_stderr logs)) (a_secret (w_self w) # map snd (a_tokens (w_self w))))"

lemma failing_append [simp]: "failing (a @ b) \<longleftrightarrow> failing a \<or> failing b"
  by (simp add: failing_def)

lemma passed_not_failing: "report_status s = U ''passed'' \<Longrightarrow> \<not> failing (checks s)"
  using passed_checks [of s] by (auto simp: failing_def required_failures_def filter_empty_conv list_ex_iff)

lemma failing_check: "check name g ok ex act s = (Inr u, t) \<Longrightarrow> failing (checks t) \<longleftrightarrow> failing (checks s) \<or> \<not> ok"
  by (auto simp: check_def add_check_def failing_def)

lemma check_runtime_logs_ok:
  assumes "check_runtime_logs w s = (Inr u, t)" "\<not> failing (checks t)"
  shows "logs_clean w"
proof -
  let ?args = "map U [''logs'', ''--no-color'', ''gateway'', ''api'']"
  from assms(1) obtain logs s1 s2 ok ex act where c: "compose w ?args 60 s = (Inr logs, s1)"
    and k: "check ''runtime-logs-do-not-expose-credentials'' ''runtime'' ok ex act s1 = (Inr (), s2)"
    and ok: "ok = (exitCode logs = 0 \<and> \<not> list_ex (\<lambda>(_, token). contains token (cmd_stdout logs @ [10] @ cmd_stderr logs)) (a_tokens (w_self w)) \<and>
      \<not> contains (a_secret (w_self w)) (cmd_stdout logs @ [10] @ cmd_stderr logs))"
    and t: "t = redact_last logs s2"
    unfolding check_runtime_logs_def Let_def by (auto simp: py_Inr)
  from t assms(2) have "\<not> failing (checks s2)" by (simp add: redact_last_def Let_def)
  with failing_check [OF k] ok have "exitCode logs = 0 \<and> list_all (\<lambda>credential. \<not> contains credential (cmd_stdout logs @ [10] @ cmd_stderr logs))
      (a_secret (w_self w) # map snd (a_tokens (w_self w)))" by (auto simp: list_ex_iff list_all_iff)
  with compose_Inr [OF c] show ?thesis unfolding logs_clean_def by blast
qed

lemma phases_end: "py_for id (phases w) s = (Inr (), t) \<Longrightarrow> \<exists>s'. check_runtime_logs w s' = (Inr (), t)"
  unfolding phases_def py_for.simps id_apply py_seq_eq_Inr by auto

lemma run_complete:
  assumes "report_status (run describe w s) = U ''passed''"
  shows "map chk_name (checks (run describe w s)) = map chk_name (checks s) @ check_names w \<and> logs_clean w"
proof -
  let ?t = "run describe w s"
  from assms have p: "report_status (run_with describe w (phases w) s) = U ''passed''" by (simp add: run_def)
  from run_checks_ok [OF run_passed [OF p] passed_not_failed [OF p]] obtain s1 where
    s1: "start_stack w s = (Inr (), s1)" "py_for id (phases w) s1 = (Inr (), ?t)" by (auto simp: run_def)
  note nf = passed_not_failing [OF assms]
  from adds1_Inr [OF records_start_stack s1(1)] obtain cs where
    cs: "checks s1 = checks s @ cs" "map chk_name cs = start_names w \<or> failing cs" by auto
  from adds1_Inr [OF records_phases s1(2)] obtain ds where
    ds: "checks ?t = checks s1 @ ds" "map chk_name ds = publication_names @ auth_names @ version_names @
     map U [''manifest-driven-openapi'', ''autocheck-action-evidence''] @ payment_names @
     map U [''postgres-dependency-unavailable'', ''postgres-dependency-recovery''] @ [U ''runtime-logs-do-not-expose-credentials''] \<or> failing ds" by blast
  from nf cs ds have "\<not> failing cs" "\<not> failing ds" by auto
  with cs ds have "map chk_name (checks ?t) = map chk_name (checks s) @ check_names w" by (simp add: check_names_def)
  with check_runtime_logs_ok [OF _ nf] phases_end [OF s1(2)] show ?thesis by blast
qed

section \<open>Properties\<close>

text \<open>
  C16. The exit code 0 means what a candidate reads it for, whatever the groups of checks are: the start and every group
  ran without an exception, so did closing the stack, there is a required check of the infrastructure, no required check
  failed, the README and
  the tracked files have no findings, Compose printed a configuration with the required services of which the gateway
  alone publishes a port, 8080, and the stack answered both health requests with 200.
\<close>

theorem exit_zero_means_accepted:
  assumes "main_with env (Inr (w, s)) groups = Inr 0"
  shows "stack_sound w \<and> (\<exists>s1 t. start_stack w s = (Inr (), s1) \<and> py_for id (groups w) s1 = (Inr (), t) \<and>
    infrastructure t \<noteq> [] \<and> required_failures t = [] \<and> fst (close w (e_override env) t) = Inr ())"
proof -
  from main_zero [OF assms] have p: "report_status (run_with (e_describe env) w (groups w) s) = U ''passed''"
    and c: "fst (close w (e_override env) (run_with (e_describe env) w (groups w) s)) = Inr ()" by blast+
  from run_checks_ok [OF run_passed [OF p] passed_not_failed [OF p]] passed_checks [OF p] c show ?thesis by blast
qed

lemma all_passed_status: "all_passed t \<Longrightarrow> infrastructure t \<noteq> [] \<Longrightarrow> report_status t = U ''passed''"
  by (auto simp: report_status_def infrastructure_passed_def infrastructure_def required_failures_def filter_empty_conv list_all_iff all_passed_def)

lemma report_dumps: "all_passed t \<Longrightarrow> \<exists>r. dumps_indent False 0 (PDict (result_report a b t)) = Inr r"
proof -
  assume "all_passed t"
  then have "list_all no_sets (map asdict_check (checks t))" by (simp add: all_passed_def asdict_check_def list_all_iff)
  moreover have "list_all no_sets (map command_item (commands t))" by (simp add: command_item_def list_all_iff)
  ultimately show ?thesis by (intro dumps_indent_Inr) (simp add: result_report_def list_all_iff)
qed

definition extra_check :: "(session, unit) py" where
  "extra_check = check ''compose-logs'' ''infrastructure'' True PNone PNone"

theorem exit_zero_means_accepted_witness: "stack_sound sample_world"
proof -
  let ?start = "\<lparr>checks = [], commands = [], tick = 0\<rparr> :: session"
  from passes_start obtain s1 where s1: "start_stack sample_world ?start = (Inr (), s1)" "all_passed s1"
    unfolding passes_def all_passed_def by force
  then have n: "\<not> infra_failed s1" by (auto simp: infra_failed_def list_ex_iff list_all_iff all_passed_def)
  define t where "t = snd (extra_check s1)"
  have a: "all_passed t" and i: "infrastructure t \<noteq> []"
    using s1(2) by (simp_all add: t_def extra_check_def check_def add_check_def all_passed_def infrastructure_def)
  note p = all_passed_status [OF a i]
  have t: "run_checks sample_world [extra_check] ?start = (Inr (), t)"
    using s1(1) n by (simp add: run_checks_def extra_check_def check_def add_check_def t_def)
  obtain r where r: "dumps_indent False 0 (PDict (result_report [] [] t)) = Inr r" using report_dumps [OF a] by blast
  have d: "ditem (result_report [] [] t) (U ''status'') = Inr (PStr (report_status t))" by (simp add: result_report_def ditem_def)
  let ?env = "\<lparr>e_describe = (\<lambda>_. []), e_stamps = ([], []), e_emit = (\<lambda>_. Inr ()), e_complain = (\<lambda>_. Inr ()), e_override = Inr False\<rparr>"
  have "w_keep_stack sample_world = False" by (simp add: sample_world_def)
  then have c: "fst (close sample_world (Inr False) u) = Inr ()" for u by (simp add: close_def)
  have "write_result ?env t = Inr 0" by (simp add: write_result_def p r d Let_def ps_def del: dumps_indent.simps)
  then have "main_with ?env (Inr (sample_world, ?start)) (\<lambda>_. [extra_check]) = Inr 0"
    by (simp add: main_with_def handled_def run_with_def t c Let_def)
  from exit_zero_means_accepted [OF this] show ?thesis by blast
qed

text \<open>
  C17. A passed report is complete: unless the report says failed, it lists every check of the program, each once and in
  order, and the logs of the gateway and the API contained neither a token nor the signing key.
\<close>

theorem passed_run_is_complete:
  "report_status (run describe w s) = U ''failed'' \<or>
   map chk_name (checks (run describe w s)) = map chk_name (checks s) @ check_names w \<and> logs_clean w"
  using run_complete [of describe w s] status_cases [of "run describe w s"] by blast

end
