(* ===== verification/App_Receipt.thy ===== *)
theory App_Receipt
  imports Receipt_Contract Py_Regex Py_Datetime
begin

text \<open>
  \<^verbatim>\<open>Python/app/receipt.py\<close>: validation of the provider's legacy callback, its translation into
  a receipt, the canonical bytes of a receipt and their signature. The definitions follow the
  module from top to bottom.
\<close>

section \<open>The module\<close>

definition REQUIRED_LEGACY_FIELDS :: "pystr set" where
  "REQUIRED_LEGACY_FIELDS = set [U ''providerPaymentId'', U ''operationId'', U ''result'',
     U ''message'', U ''occurredAt'']"

definition TEXT_FIELDS :: "pystr list" where
  "TEXT_FIELDS = [U ''providerPaymentId'', U ''operationId'', U ''occurredAt'']"

definition RFC3339_UTC_RE :: regex where
  "RFC3339_UTC_RE = rseqs [RBegin, rtimes 4 rdigit, rch 45, rtimes 2 rdigit, rch 45,
     rtimes 2 rdigit, rch 84, rtimes 2 rdigit, rch 58, rtimes 2 rdigit, rch 58, rtimes 2 rdigit,
     ropt (RGroup 1 (RSeq (rch 46) (rplus rdigit))), rch 90, REnd]"

definition validate_occurred_at :: "pystr \<Rightarrow> unit res" where
  "validate_occurred_at value =
     (if \<not> fullmatch_ok RFC3339_UTC_RE value then Inl (ValueError (U ''invalid legacy occurredAt''))
      else case fromisoformat (butlast value @ U ''+00:00'') of
        None \<Rightarrow> Inl (ValueError (U ''invalid legacy occurredAt''))
      | Some _ \<Rightarrow> Inr ())"

definition valid_text :: "pyval \<Rightarrow> bool" where
  "valid_text v = (case v of
     PStr s \<Rightarrow> s \<noteq> [] \<and> length s \<le> 128 \<and> \<not> has_crlf s
   | _ \<Rightarrow> False)"

definition valid_message :: "pyval \<Rightarrow> bool" where
  "valid_message v = (case v of PStr s \<Rightarrow> length s \<le> 500 \<and> \<not> has_crlf s | _ \<Rightarrow> False)"

definition validate_legacy :: "pyval \<Rightarrow> unit res" where
  "validate_legacy body = (case body of
     PDict d \<Rightarrow>
       (if dkeys d \<noteq> REQUIRED_LEGACY_FIELDS
        then Inl (ValueError (U ''unknown or missing legacy fields''))
        else
          res_bind (for_each (\<lambda>field.
              ensure (valid_text (dget_none d field)) (ValueError (U ''invalid legacy '' @ field)))
            TEXT_FIELDS) (\<lambda>_.
          res_bind (case dget_none d (U ''occurredAt'') of
              PStr s \<Rightarrow> validate_occurred_at s
            | _ \<Rightarrow> Inl TypeError) (\<lambda>_.
          res_bind (ensure (py_in (dget_none d (U ''result'')) [PStr (U ''COMPLETED''), PStr (U ''REJECTED'')])
              (ValueError (U ''invalid legacy result''))) (\<lambda>_.
          ensure (valid_message (dget_none d (U ''message'')))
              (ValueError (U ''invalid legacy message''))))))
   | _ \<Rightarrow> Inl (ValueError (U ''legacy callback must be an object'')))"

definition normalize_receipt :: "pyval \<Rightarrow> pyval res" where
  "normalize_receipt legacy =
     res_bind (validate_legacy legacy) (\<lambda>_.
       case legacy of
         PDict d \<Rightarrow>
           res_bind (ditem d (U ''operationId'')) (\<lambda>op.
           res_bind (ditem d (U ''providerPaymentId'')) (\<lambda>pid.
           res_bind (ditem d (U ''occurredAt'')) (\<lambda>occ.
           res_bind (ditem d (U ''result'')) (\<lambda>result.
             Inr (PDict [(U ''externalRequestId'', op), (U ''messageId'', pid),
               (U ''occurredAt'', occ), (U ''outcome'', result),
               (U ''providerPaymentId'', pid), (U ''version'', PInt 1)])))))
       | _ \<Rightarrow> Inl TypeError)"

definition canonical_bytes :: "pyval \<Rightarrow> pybytes res" where
  "canonical_bytes receipt = res_bind (dumps compact_sorted receipt) utf8_encode"

definition sign :: "pystr \<Rightarrow> pybytes \<Rightarrow> pystr res" where
  "sign secret body =
     res_bind (utf8_encode secret) (\<lambda>key.
       Inr (U ''v1='' @ hexdigest (hmac_sha256 key body)))"

section \<open>Accepted callbacks\<close>

lemma valid_text_iff: "valid_text v \<longleftrightarrow> (\<exists>s. v = PStr s \<and> text_ok s)"
  by (cases v) (auto simp: valid_text_def text_ok_def)

lemma validate_occurred_at_Inl: "validate_occurred_at s = Inl e \<Longrightarrow> is_ValueError e"
  by (auto simp: validate_occurred_at_def split: if_splits option.splits)

lemma validate_legacy_dict:
  assumes "validate_legacy v = Inr ()"
  obtains d op pid occ result where "v = PDict d" "dkeys d = REQUIRED_LEGACY_FIELDS"
    "map_of d (U ''operationId'') = Some (PStr op)"
    "map_of d (U ''providerPaymentId'') = Some (PStr pid)"
    "map_of d (U ''occurredAt'') = Some (PStr occ)"
    "map_of d (U ''result'') = Some (PStr result)"
    "text_ok op" "text_ok pid" "text_ok occ" "validate_occurred_at occ = Inr ()"
    "result \<in> {U ''COMPLETED'', U ''REJECTED''}"
proof -
  from assms obtain d where d: "v = PDict d" by (cases v) (auto simp: validate_legacy_def)
  with assms have keys: "dkeys d = REQUIRED_LEGACY_FIELDS"
    by (auto simp: validate_legacy_def split: if_splits)
  have tx: "\<exists>s. dget_none d f = PStr s \<and> text_ok s" if "f \<in> set TEXT_FIELDS" for f
    using assms that keys by (auto simp: validate_legacy_def d valid_text_iff[symmetric])
  from tx [of "U ''operationId''"] obtain op where op: "map_of d (U ''operationId'') = Some (PStr op)" "text_ok op"
    by (auto simp: TEXT_FIELDS_def dget_none_PStr)
  from tx [of "U ''providerPaymentId''"] obtain pid where pid: "map_of d (U ''providerPaymentId'') = Some (PStr pid)" "text_ok pid"
    by (auto simp: TEXT_FIELDS_def dget_none_PStr)
  from tx [of "U ''occurredAt''"] obtain occ where occ: "dget_none d (U ''occurredAt'') = PStr occ" "text_ok occ"
    by (auto simp: TEXT_FIELDS_def)
  have "validate_occurred_at occ = Inr ()" "dget_none d (U ''result'') \<in> {PStr (U ''COMPLETED''), PStr (U ''REJECTED'')}"
    using assms keys occ by (auto simp: validate_legacy_def d py_in_def)
  then show ?thesis using that d keys op pid occ by (auto simp: dget_none_PStr)
qed

lemma normalize_receipt_cases:
  assumes "normalize_receipt v = Inr r"
  obtains d op pid occ result where "v = PDict d"
    "map_of d (U ''operationId'') = Some (PStr op)"
    "map_of d (U ''providerPaymentId'') = Some (PStr pid)"
    "map_of d (U ''occurredAt'') = Some (PStr occ)"
    "map_of d (U ''result'') = Some (PStr result)"
    "text_ok op" "text_ok pid" "text_ok occ" "validate_occurred_at occ = Inr ()"
    "result \<in> {U ''COMPLETED'', U ''REJECTED''}" "r = receipt_of op pid occ result"
proof -
  from assms have "validate_legacy v = Inr ()" by (auto simp: normalize_receipt_def)
  then show ?thesis
  proof (rule validate_legacy_dict, goal_cases)
    case (1 d op pid occ result)
    then have "r = receipt_of op pid occ result"
      using assms by (auto simp: normalize_receipt_def ditem_def receipt_of_def)
    with 1 show ?case using that by blast
  qed
qed

lemma validate_legacy_Inl: "validate_legacy v = Inl e \<Longrightarrow> is_ValueError e"
proof (cases v)
  case (PDict d)
  assume h: "validate_legacy v = Inl e"
  have occ: "\<exists>s. dget_none d (U ''occurredAt'') = PStr s"
    if "\<forall>f\<in>set TEXT_FIELDS. valid_text (dget_none d f)"
    using that by (auto simp: TEXT_FIELDS_def valid_text_iff)
  show ?thesis using h occ
    by (auto simp: validate_legacy_def PDict res_bind_eq_Inl dest!: for_each_Inl validate_occurred_at_Inl
        split: if_splits)
qed (auto simp: validate_legacy_def)

interpretation app: receipt_codec normalize_receipt canonical_bytes sign
proof
  fix v r
  assume "normalize_receipt v = Inr r"
  then show "\<exists>op pid occ result. r = receipt_of op pid occ result \<and> result \<in> {U ''COMPLETED'', U ''REJECTED''}"
    by (rule normalize_receipt_cases) blast
qed (simp_all add: canonical_bytes_def sign_def)

lemma normalize_receipt_Inl:
  assumes "normalize_receipt v = Inl e"
  shows "is_ValueError e"
proof (cases "validate_legacy v")
  case (Inl e')
  with assms validate_legacy_Inl show ?thesis by (auto simp: normalize_receipt_def)
next
  case (Inr u)
  then have "validate_legacy v = Inr ()" by simp
  then show ?thesis
    by (rule validate_legacy_dict) (use assms Inr in \<open>auto simp: normalize_receipt_def ditem_def\<close>)
qed

lemma canonical_bytes_Inl:
  assumes "normalize_receipt v = Inr r" and "canonical_bytes r = Inl e"
  shows "e = UnicodeEncodeError"
  using assms(1) by (rule normalize_receipt_cases)
    (use assms app.encode_error in \<open>fastforce split: sum.splits\<close>)

section \<open>Properties\<close>

definition sample_legacy :: pyval where
  "sample_legacy = PDict [(U ''providerPaymentId'', PStr (U ''provider-123'')),
     (U ''operationId'', PStr (U ''external-123'')), (U ''result'', PStr (U ''COMPLETED'')),
     (U ''message'', PStr (U ''Payment completed'')), (U ''occurredAt'', PStr (U ''2026-09-04T12:00:00Z''))]"

definition sample_receipt :: pyval where
  "sample_receipt = receipt_of (U ''external-123'') (U ''provider-123'') (U ''2026-09-04T12:00:00Z'')
     (U ''COMPLETED'')"

lemma sample_normalized: "normalize_receipt sample_legacy = Inr sample_receipt"
  by code_simp

text \<open>
  C14. A callback that \<^verbatim>\<open>normalize_receipt\<close> accepts becomes the receipt with the six fields of
  version 1: \<^verbatim>\<open>externalRequestId\<close> is the callback's \<^verbatim>\<open>operationId\<close>, \<^verbatim>\<open>messageId\<close> and
  \<^verbatim>\<open>providerPaymentId\<close> its \<^verbatim>\<open>providerPaymentId\<close>, \<^verbatim>\<open>outcome\<close> its \<^verbatim>\<open>result\<close>, and \<^verbatim>\<open>occurredAt\<close> is
  kept; all are strings, the first three non-empty, of at most 128 code points and free of line
  breaks.
\<close>

theorem normalize_receipt_fields:
  assumes "normalize_receipt (PDict d) = Inr r"
  shows "\<exists>op pid occ result. r = receipt_of op pid occ result \<and>
    map_of d (U ''operationId'') = Some (PStr op) \<and>
    map_of d (U ''providerPaymentId'') = Some (PStr pid) \<and>
    map_of d (U ''occurredAt'') = Some (PStr occ) \<and>
    map_of d (U ''result'') = Some (PStr result) \<and>
    text_ok op \<and> text_ok pid \<and> text_ok occ \<and> result \<in> {U ''COMPLETED'', U ''REJECTED''}"
  using assms by (rule normalize_receipt_cases) auto

theorem normalize_receipt_fields_witness:
  "\<exists>op pid occ result. sample_receipt = receipt_of op pid occ result \<and> text_ok op"
  using normalize_receipt_fields [OF sample_normalized [unfolded sample_legacy_def]] by blast

text \<open>
  Whatever value the callback is, \<^verbatim>\<open>normalize_receipt\<close> raises nothing but a \<^verbatim>\<open>ValueError\<close>,
  the one exception the adapter's handler catches around it.
\<close>

theorem normalize_receipt_raises_ValueError:
  "(\<exists>r. normalize_receipt v = Inr r) \<or> (\<exists>e. normalize_receipt v = Inl e \<and> is_ValueError e)"
  using normalize_receipt_Inl by (cases "normalize_receipt v") auto

text \<open>
  C15. The canonical bytes of a receipt decode, as UTF-8 and as JSON, to that receipt again: the
  signed bytes determine every field.
\<close>

theorem canonical_bytes_roundtrip:
  assumes "normalize_receipt v = Inr r" and "canonical_bytes r = Inr b" and "0 < d"
  shows "loads_bytes d b = Inr r"
  using assms by (rule app.encode_roundtrip)

theorem canonical_bytes_roundtrip_witness:
  "\<exists>b. canonical_bytes sample_receipt = Inr b \<and> loads_bytes 1 b = Inr sample_receipt"
proof -
  have "isl (canonical_bytes sample_receipt) = False" by code_simp
  then obtain b where "canonical_bytes sample_receipt = Inr b" by (cases "canonical_bytes sample_receipt") auto
  then show ?thesis using canonical_bytes_roundtrip [OF sample_normalized, of b 1] by simp
qed

text \<open>
  The canonical bytes exist exactly when the identifiers and the timestamp hold no lone
  surrogate; otherwise \<^verbatim>\<open>canonical_bytes\<close> raises \<^verbatim>\<open>UnicodeEncodeError\<close>.
\<close>

theorem canonical_bytes_error:
  assumes "normalize_receipt v = Inr (receipt_of op pid occ result)"
  shows "case canonical_bytes (receipt_of op pid occ result) of
      Inr b \<Rightarrow> encodable op \<and> encodable pid \<and> encodable occ
    | Inl e \<Rightarrow> e = UnicodeEncodeError \<and> \<not> (encodable op \<and> encodable pid \<and> encodable occ)"
  using assms by (rule app.encode_error)

definition surrogate_legacy :: pyval where
  "surrogate_legacy = PDict [(U ''providerPaymentId'', PStr [55296]),
     (U ''operationId'', PStr (U ''external-123'')), (U ''result'', PStr (U ''COMPLETED'')),
     (U ''message'', PStr []), (U ''occurredAt'', PStr (U ''2026-09-04T12:00:00Z''))]"

lemma surrogate_normalized:
  "normalize_receipt surrogate_legacy =
     Inr (receipt_of (U ''external-123'') [55296] (U ''2026-09-04T12:00:00Z'') (U ''COMPLETED''))"
  by code_simp

theorem canonical_bytes_error_witness:
  "\<not> encodable [55296] \<and>
   (case canonical_bytes (receipt_of (U ''external-123'') [55296] (U ''2026-09-04T12:00:00Z'') (U ''COMPLETED'')) of
      Inr b \<Rightarrow> False | Inl e \<Rightarrow> e = UnicodeEncodeError)"
  using canonical_bytes_error [OF surrogate_normalized]
  by (auto simp: is_surrogate_def split: sum.splits)

text \<open>
  A signature is the text \<^verbatim>\<open>v1=\<close> followed by 64 lowercase hexadecimal digits, the digest of
  HMAC-SHA-256 under the UTF-8 bytes of the secret over the body as given.
\<close>

theorem sign_format:
  assumes "sign secret body = Inr s"
  shows "\<exists>key hex. utf8_encode secret = Inr key \<and> s = U ''v1='' @ hex \<and>
    hex = hexdigest (hmac_sha256 key body) \<and> length hex = 64 \<and>
    (\<forall>c\<in>set hex. 48 \<le> c \<and> c \<le> 57 \<or> 97 \<le> c \<and> c \<le> 102)"
  using assms by (rule app.signature_format)

theorem sign_format_witness:
  "\<exists>s hex. sign (U ''k'') [123, 125] = Inr s \<and> s = U ''v1='' @ hex \<and> length hex = 64"
proof -
  have "utf8_encode (U ''k'') = Inr (U ''k'')" by code_simp
  then have s: "sign (U ''k'') [123, 125] = Inr (U ''v1='' @ hexdigest (hmac_sha256 (U ''k'') [123, 125]))"
    by (simp add: sign_def)
  from sign_format [OF s] s show ?thesis by auto
qed

text \<open>
  The timestamp check admits digits outside ASCII: \<^verbatim>\<open>\d\<close> matches every decimal digit of
  Unicode and \<^verbatim>\<open>fromisoformat\<close> ignores what follows the sixth digit of a fraction, so a timestamp
  whose seventh digit is an Arabic-Indic one passes.
\<close>

theorem occurred_at_admits_non_ascii:
  "validate_occurred_at (U ''2026-09-04T12:00:00.123456'' @ [1635] @ U ''Z'') = Inr ()"
  by code_simp

end
