(* ===== verification/App_Config.thy ===== *)
theory App_Config
  imports Py_Value
begin

text \<open>
  \<^verbatim>\<open>Python/app/config.py\<close> and \<^verbatim>\<open>Python/app/db.py\<close>: the three processes read their settings from
  the environment, a finite map from names to values. A setting that is missing, empty or not
  an integer raises \<^verbatim>\<open>ConfigError\<close>. The driver's \<^verbatim>\<open>connect\<close> is an argument.
\<close>

section \<open>The module\<close>

type_synonym environ = "(pystr \<times> pystr) list"

definition environ_get :: "environ \<Rightarrow> pystr \<Rightarrow> pystr option" where
  "environ_get env name = map_of env name"

definition require :: "environ \<Rightarrow> pystr \<Rightarrow> pystr option \<Rightarrow> pystr res" where
  "require env name def =
     (let v = (case def of
                 None \<Rightarrow> environ_get env name
               | Some x \<Rightarrow> (case environ_get env name of None \<Rightarrow> Some x | Some y \<Rightarrow> Some y))
      in case v of
           None \<Rightarrow> Inl (ConfigError (U ''missing required environment variable '' @ name))
         | Some s \<Rightarrow>
             if s = [] then Inl (ConfigError (U ''missing required environment variable '' @ name))
             else Inr s)"

definition int_setting :: "environ \<Rightarrow> pystr \<Rightarrow> int \<Rightarrow> int res" where
  "int_setting env name def =
     (let s = (case environ_get env name of None \<Rightarrow> str_of_int def | Some s \<Rightarrow> s)
      in case int_of_str s of
           Inr i \<Rightarrow> Inr i
         | Inl e \<Rightarrow> if is_ValueError e then Inl (ConfigError (U ''invalid integer for '' @ name)) else Inl e)"

definition test_profile :: "environ \<Rightarrow> bool" where
  "test_profile env = (environ_get env (U ''COURSE_TEST_PROFILE'') = Some (U ''1''))"

record PostgresConfig =
  pg_host :: pystr
  pg_port :: int
  pg_database :: pystr
  pg_user :: pystr
  pg_password :: pystr
  pg_appname :: pystr

definition postgres :: "environ \<Rightarrow> pystr \<Rightarrow> PostgresConfig res" where
  "postgres env appname =
     res_bind (require env (U ''PGHOST'') (Some (U ''postgres''))) (\<lambda>host.
     res_bind (int_setting env (U ''PGPORT'') 5432) (\<lambda>port.
     res_bind (require env (U ''PGDATABASE'') (Some (U ''course''))) (\<lambda>database.
     res_bind (require env (U ''PGUSER'') None) (\<lambda>user.
     res_bind (require env (U ''PGPASSWORD'') None) (\<lambda>password.
       Inr \<lparr>pg_host = host, pg_port = port, pg_database = database, pg_user = user,
             pg_password = password, pg_appname = appname\<rparr>)))))"

definition seconds :: "nat \<Rightarrow> pyfloat" where
  "seconds tenths = double_of_decimal False tenths (- 1)"

record DispatcherConfig =
  d_pg :: PostgresConfig
  provider_url :: pystr
  owner :: pystr
  d_poll_interval :: pyfloat
  provider_timeout :: pyfloat
  claim_batch :: int

definition dispatcher_config :: "environ \<Rightarrow> DispatcherConfig res" where
  "dispatcher_config env =
     (let test = test_profile env in
      res_bind (postgres env (U ''outbox-dispatcher'')) (\<lambda>pg.
      res_bind (require env (U ''PROVIDER_URL'') None) (\<lambda>url.
      res_bind (require env (U ''OUTBOX_OWNER'') (Some (U ''outbox-dispatcher''))) (\<lambda>own.
      res_bind (int_setting env (U ''OUTBOX_CLAIM_BATCH'') 5) (\<lambda>batch.
        Inr \<lparr>d_pg = pg, provider_url = url, owner = own,
              d_poll_interval = (if test then seconds 2 else seconds 20),
              provider_timeout = (if test then seconds 5 else seconds 50),
              claim_batch = batch\<rparr>)))))"

record AdapterConfig =
  capability :: pystr
  token :: pystr
  hmac_secret :: pystr
  receipt_api_url :: pystr
  host :: pystr
  port :: int
  api_timeout :: pyfloat

definition adapter_config :: "environ \<Rightarrow> AdapterConfig res" where
  "adapter_config env =
     (let test = test_profile env in
      res_bind (require env (U ''PROVIDER_CALLBACK_CAPABILITY'') None) (\<lambda>cap.
      res_bind (require env (U ''PROVIDER_CALLBACK_TOKEN'') None) (\<lambda>tok.
      res_bind (require env (U ''PROVIDER_HMAC_SECRET'') None) (\<lambda>sec.
      res_bind (require env (U ''RECEIPT_API_URL'') None) (\<lambda>url.
      res_bind (require env (U ''ADAPTER_HOST'') (Some (U ''0.0.0.0''))) (\<lambda>hst.
      res_bind (int_setting env (U ''ADAPTER_PORT'') 8090) (\<lambda>prt.
        Inr \<lparr>capability = cap, token = tok, hmac_secret = sec, receipt_api_url = url,
              host = hst, port = prt,
              api_timeout = (if test then seconds 5 else seconds 50)\<rparr>)))))))"

record ReconcilerConfig =
  r_pg :: PostgresConfig
  r_poll_interval :: pyfloat
  limit :: int

definition reconciler_config :: "environ \<Rightarrow> ReconcilerConfig res" where
  "reconciler_config env =
     (let test = test_profile env in
      res_bind (postgres env (U ''inbox-reconciler'')) (\<lambda>pg.
      res_bind (int_setting env (U ''INBOX_RECONCILE_LIMIT'') 50) (\<lambda>lim.
        Inr \<lparr>r_pg = pg, r_poll_interval = (if test then seconds 2 else seconds 20), limit = lim\<rparr>)))"

section \<open>\<^verbatim>\<open>db.py\<close>\<close>

record connect_args =
  c_host :: pystr
  c_port :: int
  c_dbname :: pystr
  c_user :: pystr
  c_password :: pystr
  c_application_name :: pystr
  c_autocommit :: bool

definition connect :: "(connect_args \<Rightarrow> 'c) \<Rightarrow> PostgresConfig \<Rightarrow> 'c" where
  "connect psycopg_connect cfg =
     psycopg_connect \<lparr>c_host = pg_host cfg, c_port = pg_port cfg, c_dbname = pg_database cfg,
       c_user = pg_user cfg, c_password = pg_password cfg,
       c_application_name = pg_appname cfg, c_autocommit = True\<rparr>"

section \<open>Properties\<close>

lemma require_Inr: "require env name def = Inr s \<Longrightarrow> s \<noteq> [] \<and> (environ_get env name = Some s \<or> def = Some s)"
  by (auto simp: require_def Let_def split: option.splits if_splits)

lemma require_Inl: "require env name def = Inl e \<Longrightarrow> \<exists>m. e = ConfigError m"
  by (auto simp: require_def Let_def split: option.splits if_splits)

lemma int_setting_Inl: "int_setting env name def = Inl e \<Longrightarrow> \<exists>m. e = ConfigError m"
  by (auto simp: int_setting_def Let_def split: option.splits sum.splits if_splits dest: int_of_str_Inl)

lemmas config_Inl = require_Inl int_setting_Inl

lemma postgres_Inl: "postgres env app = Inl e \<Longrightarrow> \<exists>m. e = ConfigError m"
  by (auto simp: postgres_def res_bind_eq_Inl dest: config_Inl)

text \<open>
  A process whose settings are incomplete stops at once: whatever the environment, reading
  the configuration of the dispatcher, the adapter or the reconciler raises no exception but
  \<^verbatim>\<open>ConfigError\<close>.
\<close>

theorem config_raises_ConfigError:
  "(\<forall>e. dispatcher_config env = Inl e \<longrightarrow> (\<exists>m. e = ConfigError m)) \<and>
   (\<forall>e. adapter_config env = Inl e \<longrightarrow> (\<exists>m. e = ConfigError m)) \<and>
   (\<forall>e. reconciler_config env = Inl e \<longrightarrow> (\<exists>m. e = ConfigError m))"
proof (intro conjI allI impI)
  fix e
  show "dispatcher_config env = Inl e \<Longrightarrow> \<exists>m. e = ConfigError m"
    by (auto simp: dispatcher_config_def Let_def res_bind_eq_Inl dest: config_Inl postgres_Inl)
  show "adapter_config env = Inl e \<Longrightarrow> \<exists>m. e = ConfigError m"
    by (auto simp: adapter_config_def Let_def res_bind_eq_Inl dest: config_Inl)
  show "reconciler_config env = Inl e \<Longrightarrow> \<exists>m. e = ConfigError m"
    by (auto simp: reconciler_config_def Let_def res_bind_eq_Inl dest: config_Inl postgres_Inl)
qed

theorem config_raises_ConfigError_witness:
  "adapter_config [] = Inl (ConfigError (U ''missing required environment variable PROVIDER_CALLBACK_CAPABILITY'')) \<and>
   (\<exists>m. ConfigError (U ''missing required environment variable PROVIDER_CALLBACK_CAPABILITY'') = ConfigError m)"
proof -
  have a: "adapter_config [] = Inl (ConfigError (U ''missing required environment variable PROVIDER_CALLBACK_CAPABILITY''))"
    by code_simp
  with config_raises_ConfigError [of "[]"] show ?thesis by blast
qed

text \<open>
  The adapter never starts with an empty secret: an accepted configuration takes the
  callback capability, the access token, the HMAC secret and the API address from the
  environment, and none of them is empty.
\<close>

theorem adapter_config_secrets:
  assumes "adapter_config env = Inr cfg"
  shows "capability cfg \<noteq> [] \<and> token cfg \<noteq> [] \<and> hmac_secret cfg \<noteq> [] \<and> receipt_api_url cfg \<noteq> [] \<and>
    environ_get env (U ''PROVIDER_CALLBACK_CAPABILITY'') = Some (capability cfg) \<and>
    environ_get env (U ''PROVIDER_CALLBACK_TOKEN'') = Some (token cfg) \<and>
    environ_get env (U ''PROVIDER_HMAC_SECRET'') = Some (hmac_secret cfg) \<and>
    environ_get env (U ''RECEIPT_API_URL'') = Some (receipt_api_url cfg)"
  using assms by (auto simp: adapter_config_def Let_def dest: require_Inr)

definition sample_env :: environ where
  "sample_env = [(U ''PROVIDER_CALLBACK_CAPABILITY'', U ''cap1''), (U ''PROVIDER_CALLBACK_TOKEN'', U ''jwt''),
     (U ''PROVIDER_HMAC_SECRET'', U ''secret''), (U ''RECEIPT_API_URL'', U ''http://gateway:8080/api/receipt/accept'')]"

theorem adapter_config_secrets_witness:
  "\<exists>cfg. adapter_config sample_env = Inr cfg \<and> hmac_secret cfg \<noteq> []"
proof -
  have "isl (adapter_config sample_env) = False" by code_simp
  then obtain cfg where "adapter_config sample_env = Inr cfg" by (cases "adapter_config sample_env") auto
  with adapter_config_secrets show ?thesis by blast
qed

end
