(* ===== verification/App_Http.thy ===== *)
theory App_Http
  imports Py_Value
begin

text \<open>
  \<^verbatim>\<open>Python/app/http_client.py\<close>. The network is the argument \<open>urlopen\<close>: for a request it answers
  with a response, with an error response (\<^verbatim>\<open>HTTPError\<close>), or fails. \<open>TransportError\<close> stands for
  \<^verbatim>\<open>URLError\<close>, timeouts and connection failures, which are all \<^verbatim>\<open>OSError\<close>; \<open>ProtocolError\<close> for a
  malformed or truncated response, an \<^verbatim>\<open>HTTPException\<close> of \<^verbatim>\<open>http.client\<close>, which is not one;
  \<open>ErrorBodyFailure\<close> for an error response whose body cannot be read: that \<^verbatim>\<open>OSError\<close> is raised
  inside an \<^verbatim>\<open>except\<close> clause, where the later clauses do not see it; \<open>BadUrl\<close> for the
  \<^verbatim>\<open>ValueError\<close> that \<^verbatim>\<open>Request\<close> raises for an address without a scheme, before \<^verbatim>\<open>urlopen\<close> is
  called. Before a connection is made, \<^verbatim>\<open>http.client\<close> encodes the header values as Latin-1 and
  refuses line breaks in them. A request is counted once for each call of \<^verbatim>\<open>urlopen\<close> whose header
  values pass, as one attempt: what \<^verbatim>\<open>urllib\<close> does inside the call, such as refusing a scheme it has
  no handler for (a \<open>TransportError\<close>) or a GET to the address of a redirect, is part of the answer.
\<close>

section \<open>The module\<close>

type_synonym headers = "(pystr \<times> pystr) list"

record http_request =
  url :: pystr
  payload :: pybytes
  req_headers :: headers
  timeout :: pyfloat

datatype urlopen_result =
    Response int pybytes headers
  | HTTPErrorResponse int pybytes headers
  | TransportError
  | ErrorBodyFailure
  | ProtocolError
  | BadUrl

fun illegal_header_value :: "pystr \<Rightarrow> bool" where
  "illegal_header_value [] = False"
| "illegal_header_value (c # cs) =
     (c = 10 \<and> \<not> (cs \<noteq> [] \<and> hd cs \<in> {32, 9}) \<or>
      c = 13 \<and> \<not> (cs \<noteq> [] \<and> hd cs \<in> {32, 9, 10}) \<or> illegal_header_value cs)"

definition latin1 :: "pystr \<Rightarrow> bool" where
  "latin1 s = list_all (\<lambda>c. c < 256) s"

definition put_header :: "pystr \<times> pystr \<Rightarrow> unit res" where
  "put_header h =
     (if \<not> latin1 (snd h) then Inl UnicodeEncodeError
      else if illegal_header_value (snd h) then Inl (ValueError (U ''Invalid header value''))
      else Inr ())"

text \<open>The \<^verbatim>\<open>try\<close> block of \<^verbatim>\<open>post_json\<close>; in \<^verbatim>\<open>dict(headers.items())\<close> the last of several equal names wins.\<close>

definition response_of :: "urlopen_result \<Rightarrow> (int \<times> pybytes \<times> headers) res" where
  "response_of r = (case r of
     Response st body hs \<Rightarrow> Inr (st, body, dict_of hs)
   | HTTPErrorResponse st body hs \<Rightarrow> Inr (st, body, dict_of hs)
   | TransportError \<Rightarrow> Inl HttpError
   | ErrorBodyFailure \<Rightarrow> Inl OSError
   | ProtocolError \<Rightarrow> Inl HTTPException
   | BadUrl \<Rightarrow> Inl (ValueError (U ''unknown url type'')))"

text \<open>\<^verbatim>\<open>post_json\<close>: the requests handed to \<^verbatim>\<open>urlopen\<close>, and the result.\<close>

definition post_json ::
  "(http_request \<Rightarrow> urlopen_result) \<Rightarrow> http_request \<Rightarrow> http_request list \<times> (int \<times> pybytes \<times> headers) res" where
  "post_json urlopen request =
     (if urlopen request = BadUrl then ([], response_of BadUrl)
      else case for_each put_header (req_headers request) of
        Inl e \<Rightarrow> ([], Inl e)
      | Inr _ \<Rightarrow> ([request], response_of (urlopen request)))"

section \<open>Facts\<close>

lemma put_header_Inl: "put_header h = Inl e \<Longrightarrow> is_ValueError e"
  by (auto simp: put_header_def split: if_splits)

lemma post_json_sent: "rq' \<in> set (fst (post_json u rq)) \<Longrightarrow> rq' = rq"
  by (auto simp: post_json_def split: sum.splits if_splits)

lemma post_json_sent_length: "length (fst (post_json u rq)) \<le> 1"
  by (auto simp: post_json_def split: sum.splits)

lemma post_json_Inl:
  "snd (post_json u rq) = Inl e \<Longrightarrow>
   is_ValueError e \<or> fst (post_json u rq) = [rq] \<and>
     (e = HttpError \<and> u rq = TransportError \<or> e = OSError \<and> u rq = ErrorBodyFailure \<or>
      e = HTTPException \<and> u rq = ProtocolError)"
proof (cases "u rq = BadUrl")
  case False
  assume "snd (post_json u rq) = Inl e"
  with False show ?thesis
    by (cases "for_each put_header (req_headers rq)")
      (auto simp: post_json_def response_of_def split: urlopen_result.splits simp del: for_each_eq_Inr
        dest!: for_each_Inl put_header_Inl)
qed (auto simp: post_json_def response_of_def)

lemma post_json_Inr:
  "snd (post_json u rq) = Inr (st, b, hs) \<Longrightarrow> \<exists>hs'.
   fst (post_json u rq) = [rq] \<and> (u rq = Response st b hs' \<or> u rq = HTTPErrorResponse st b hs')"
  by (cases "for_each put_header (req_headers rq)"; cases "u rq")
    (auto simp: post_json_def response_of_def simp del: for_each_eq_Inr)

lemma illegal_header_value_crlf: "illegal_header_value s \<Longrightarrow> 10 \<in> set s \<or> 13 \<in> set s"
  by (induction s) auto

lemma post_json_ok:
  assumes "\<And>h. h \<in> set (req_headers rq) \<Longrightarrow> latin1 (snd h) \<and> \<not> illegal_header_value (snd h)"
  shows "post_json u rq = (if u rq = BadUrl then [] else [rq], response_of (u rq))"
proof -
  have "for_each put_header (req_headers rq) = Inr ()"
    using assms by (auto simp: put_header_def)
  then show ?thesis by (simp add: post_json_def del: for_each_eq_Inr)
qed

end
