(* ===== verification/Py_Json_Errors.thy ===== *)
theory Py_Json_Errors
  imports Py_Json
begin

text \<open>
  Which exceptions decoding and parsing can raise: UTF-8 decoding raises \<^verbatim>\<open>UnicodeDecodeError\<close>
  only, and \<^verbatim>\<open>json.loads\<close> raises \<^verbatim>\<open>JSONDecodeError\<close>, \<^verbatim>\<open>RecursionError\<close> for deep nesting, or the
  plain \<^verbatim>\<open>ValueError\<close> of an oversized integer.
\<close>

lemma cons_res_Inl [simp]: "cons_res x r = Inl e \<longleftrightarrow> r = Inl e"
  by (auto simp: cons_res_def res_bind_eq_Inl)

lemma utf8_decode_Inl: "utf8_decode b = Inl e \<Longrightarrow> e = UnicodeDecodeError"
proof (induction b rule: utf8_decode.induct)
  case (2 a bs)
  have if_Inl: "(if P then x else Inl u) = Inl e \<Longrightarrow> P \<and> x = Inl e \<or> u = e" for P u and x :: "pystr res"
    by (auto split: if_splits)
  consider "a < 128" | "128 \<le> a" "194 \<le> a \<and> a < 224" | "224 \<le> a \<and> a < 240" | "240 \<le> a \<and> a < 245"
    | "128 \<le> a" "\<not> (194 \<le> a \<and> a < 224)" "\<not> (224 \<le> a \<and> a < 240)" "\<not> (240 \<le> a \<and> a < 245)"
    by linarith
  then show ?case
  proof cases
    case 1
    with 2 show ?thesis by simp
  next
    case 2
    with "2.prems" "2.IH"(2) show ?thesis by (auto split: list.splits dest!: if_Inl)
  next
    case 3
    with "2.prems" "2.IH"(3) show ?thesis by (auto simp: Let_def split: list.splits dest!: if_Inl)
  next
    case 4
    with "2.prems" "2.IH"(4) show ?thesis by (auto simp: Let_def split: list.splits dest!: if_Inl)
  next
    case 5
    with "2.prems" show ?thesis by auto
  qed
qed simp

definition json_error :: "pyexn \<Rightarrow> bool" where
  "json_error e = (e = JSONDecodeError \<or> e = RecursionError \<or>
     e = ValueError (U ''Exceeds the limit for integer string conversion''))"

lemma cons_fst_Inl [simp]: "cons_fst x r = Inl e \<longleftrightarrow> r = Inl e"
  by (auto simp: cons_fst_def res_bind_eq_Inl)

lemma scan_str_Inl: "scan_str s = Inl e \<Longrightarrow> e = JSONDecodeError"
proof (induction s rule: scan_str.induct)
  case (1 s)
  from "1.prems" show ?case
    by (subst (asm) scan_str.simps) (auto split: list.splits if_splits option.splits dest: "1.IH")
qed

lemma scan_atom_Inl: "scan_atom s = Inl e \<Longrightarrow> json_error e"
  by (auto simp: scan_atom_def scan_number_def Let_def json_error_def split: option.splits if_splits prod.splits)

lemma scan_Inl:
  "scan_value d s = Inl e \<Longrightarrow> json_error e"
  "scan_elems d s = Inl e \<Longrightarrow> json_error e"
  "scan_members d s = Inl e \<Longrightarrow> json_error e"
proof (induction d s and d s and d s rule: scan_value_scan_elems_scan_members.induct)
  case (1 d s)
  from "1.prems" show ?case
    by (subst (asm) scan_value.simps)
      (auto simp: res_bind_eq_Inl json_error_def split: list.splits if_splits nat.splits
        dest: scan_str_Inl scan_atom_Inl [unfolded json_error_def] "1.IH" [unfolded json_error_def])
next
  case (2 d s)
  show ?case
  proof (cases "scan_value d s")
    case (Inl e')
    with "2.prems" "2.IH"(1) show ?thesis by (subst (asm) scan_elems.simps) simp
  next
    case (Inr vr)
    obtain v r where vr: "vr = (v, r)" by force
    show ?thesis
    proof (cases "skip_ws r")
      case Nil
      with "2.prems" Inr vr show ?thesis by (subst (asm) scan_elems.simps) (simp add: json_error_def)
    next
      case (Cons c r')
      with "2.prems" Inr vr "2.IH"(2) [OF Inr vr [symmetric] Cons] show ?thesis
        by (subst (asm) scan_elems.simps) (auto simp: json_error_def res_bind_eq_Inl split: if_splits)
    qed
  qed
next
  case (3 d s)
  show ?case
  proof (cases "scan_str (tl s)")
    case (Inl e')
    with "3.prems" scan_str_Inl [OF Inl] show ?thesis
      by (subst (asm) scan_members.simps) (auto simp: json_error_def split: if_splits)
  next
    case (Inr kr)
    obtain k r where kr: "kr = (k, r)" by force
    show ?thesis
    proof (cases "startswith s [34] \<and> startswith (skip_ws r) [58]")
      case False
      with "3.prems" Inr kr show ?thesis
        by (subst (asm) scan_members.simps) (auto simp: json_error_def split: if_splits)
    next
      case True
      show ?thesis
      proof (cases "scan_value d (skip_ws (tl (skip_ws r)))")
        case (Inl e')
        with "3.prems" "3.IH"(1) [OF _ \<open>scan_str (tl s) = Inr kr\<close> kr [symmetric]] True \<open>scan_str (tl s) = Inr kr\<close> kr show ?thesis
          by (subst (asm) scan_members.simps) auto
      next
        case (Inr vr)
        obtain v r1 where vr: "vr = (v, r1)" by force
        show ?thesis
        proof (cases "skip_ws r1")
          case Nil
          with "3.prems" \<open>scan_str (tl s) = Inr kr\<close> Inr kr vr True show ?thesis
            by (subst (asm) scan_members.simps) (auto simp: json_error_def)
        next
          case (Cons c r')
          with "3.prems" \<open>scan_str (tl s) = Inr kr\<close> Inr kr vr True
            "3.IH"(2) [OF _ \<open>scan_str (tl s) = Inr kr\<close> kr [symmetric] _ Inr vr [symmetric] Cons] show ?thesis
            by (subst (asm) scan_members.simps) (auto simp: json_error_def res_bind_eq_Inl split: if_splits)
        qed
      qed
    qed
  qed
qed

lemma loads_bytes_Inl: "loads_bytes d b = Inl e \<Longrightarrow> e = UnicodeDecodeError \<or> json_error e"
  by (auto simp: loads_bytes_def loads_def res_bind_eq_Inl json_error_def split: if_splits
      dest!: utf8_decode_Inl scan_Inl(1) [unfolded json_error_def])

section \<open>Texts that make the reader raise\<close>

text \<open>One bracket more than the interpreter allows.\<close>

lemma deep_nesting_raises: "scan_value d (replicate (Suc d) 91 @ r) = Inl RecursionError"
proof (induction d)
  case 0
  show ?case by (subst scan_value.simps) simp
next
  case (Suc d)
  have "skip_ws (91 # replicate d 91 @ r) = 91 # replicate d 91 @ r"
    by (simp add: skip_ws_def is_ws_def)
  moreover have "scan_elems d (91 # replicate d 91 @ r) = Inl RecursionError"
    using Suc by (subst scan_elems.simps) simp
  ultimately show ?case by (subst scan_value.simps) (simp add: startswith_def)
qed

lemma utf8_decode_ascii: "list_all (\<lambda>c. c < 128) s \<Longrightarrow> utf8_decode s = Inr s"
  by (induction s) (auto simp: cons_res_def)

lemma loads_bytes_deep: "loads_bytes d (replicate (Suc d) 91) = Inl RecursionError"
proof -
  have "utf8_decode (replicate (Suc d) 91) = Inr (replicate (Suc d) 91)"
    by (rule utf8_decode_ascii) (simp add: list_all_iff)
  moreover have "skip_ws (replicate (Suc d) 91) = replicate (Suc d) 91"
    by (simp add: skip_ws_def is_ws_def)
  ultimately show ?thesis using deep_nesting_raises [of d "[]"]
    by (simp add: loads_bytes_def loads_def startswith_def)
qed

lemma loads_bytes_long_integer:
  assumes "4300 < n"
  shows "loads_bytes d (replicate n 49) = Inl (ValueError (U ''Exceeds the limit for integer string conversion''))"
proof -
  define m where "m = n - 2"
  have n: "n = Suc (Suc m)" using assms by (simp add: m_def)
  have "utf8_decode (replicate n 49) = Inr (replicate n 49)"
    by (rule utf8_decode_ascii) (simp add: list_all_iff)
  moreover have "skip_ws (replicate n 49) = replicate n 49"
    by (simp add: skip_ws_def is_ws_def n)
  moreover have "scan_value d (replicate n 49) = scan_atom (replicate n 49)"
    by (subst scan_value.simps) (simp add: n)
  moreover have "scan_atom (replicate n 49) = scan_number (replicate n 49)"
    by (simp add: scan_atom_def literals_def startswith_def U_def n)
  moreover have "scan_number (replicate n 49) =
      Inl (ValueError (U ''Exceeds the limit for integer string conversion''))"
  proof -
    have "takeWhile is_dig (replicate n 49) = replicate n 49" "dropWhile is_dig (replicate n 49) = []"
      by (simp_all add: is_dig_def)
    then have "int_digits (replicate n 49) = (replicate n 49, [])" by (simp add: int_digits_def n)
    then show ?thesis using assms
      by (simp add: scan_number_def Let_def take_frac_def take_exp_def)
  qed
  ultimately show ?thesis by (simp add: loads_bytes_def loads_def startswith_def n)
qed

end
