(* ===== verification/App_Adapter.thy ===== *)
theory App_Adapter
  imports App_Receipt App_Config App_Http Py_Json_Errors
begin

text \<open>
  \<^verbatim>\<open>Python/app/adapter.py\<close>: the callback handler. A call of \<open>do_POST\<close> yields the requests it sent
  upstream and either the reply it wrote or the exception that left the handler, in which case
  the server writes no reply and closes the connection. The network is the argument \<open>urlopen\<close>
  and the interpreter's recursion limit for nested JSON the argument \<open>depth\<close>.
\<close>

section \<open>The module\<close>

definition MAX_BODY_BYTES :: int where
  "MAX_BODY_BYTES = 64 * 1024"

record callback =
  path :: pystr
  content_length :: "pystr option"
  rfile :: pybytes

record reply =
  status :: int
  reply_headers :: headers
  reply_body :: pybytes

definition send_empty :: "int \<Rightarrow> reply" where
  "send_empty st = \<lparr>status = st, reply_headers = [(U ''Content-Length'', U ''0'')], reply_body = []\<rparr>"

definition send_json :: "int \<Rightarrow> pyval \<Rightarrow> reply res" where
  "send_json st v =
     res_bind (dumps compact v) (\<lambda>t. res_bind (utf8_encode t) (\<lambda>body.
       Inr \<lparr>status = st, reply_headers = [(U ''Content-Type'', U ''application/json''),
             (U ''Content-Length'', str_of_nat (length body))], reply_body = body\<rparr>))"

definition send_raw :: "int \<Rightarrow> pybytes \<Rightarrow> pystr option \<Rightarrow> reply" where
  "send_raw st body ctype =
     \<lparr>status = st,
      reply_headers = (case ctype of
          Some c \<Rightarrow> if c = [] then [] else [(U ''Content-Type'', c)]
        | None \<Rightarrow> []) @ [(U ''Content-Length'', str_of_nat (length body))],
      reply_body = body\<rparr>"

text \<open>\<^verbatim>\<open>int(self.headers.get("Content-Length", "0") or 0)\<close>\<close>

definition declared_length :: "callback \<Rightarrow> int res" where
  "declared_length rq =
     (let h = (case content_length rq of None \<Rightarrow> U ''0'' | Some s \<Rightarrow> s)
      in if h = [] then Inr 0 else int_of_str h)"

definition receipt_headers :: "AdapterConfig \<Rightarrow> pystr \<Rightarrow> pystr \<Rightarrow> headers" where
  "receipt_headers cfg mid signature =
     [(U ''Authorization'', U ''Bearer '' @ token cfg),
      (U ''Content-Type'', U ''application/json''),
      (U ''Idempotency-Key'', mid),
      (U ''X-Action-Version'', U ''1''),
      (U ''X-Provider-Signature'', signature)]"

text \<open>The second half of the handler: encode, sign, send, and pass the answer on.\<close>

definition build_request :: "AdapterConfig \<Rightarrow> pyval \<Rightarrow> http_request res" where
  "build_request cfg receipt =
     res_bind (canonical_bytes receipt) (\<lambda>body.
     res_bind (sign (hmac_secret cfg) body) (\<lambda>signature.
     res_bind (case receipt of
         PDict d \<Rightarrow> res_bind (ditem d (U ''messageId'')) (\<lambda>m.
           case m of PStr s \<Rightarrow> Inr s | _ \<Rightarrow> Inl TypeError)
       | _ \<Rightarrow> Inl TypeError) (\<lambda>mid.
       Inr \<lparr>url = receipt_api_url cfg, payload = body,
             req_headers = receipt_headers cfg mid signature, timeout = api_timeout cfg\<rparr>)))"

definition relay :: "(int \<times> pybytes \<times> headers) res \<Rightarrow> reply res" where
  "relay result = (case result of
     Inr (st, body, hs) \<Rightarrow> Inr (send_raw st body (map_of hs (U ''Content-Type'')))
   | Inl e \<Rightarrow>
       if e = HttpError
       then send_json 503 (PDict [(U ''status'', PStr (U ''error'')),
              (U ''code'', PStr (U ''dependency.unavailable''))])
       else Inl e)"

definition forward ::
  "(http_request \<Rightarrow> urlopen_result) \<Rightarrow> AdapterConfig \<Rightarrow> pyval \<Rightarrow> http_request list \<times> reply res" where
  "forward urlopen cfg receipt = (case build_request cfg receipt of
     Inl e \<Rightarrow> ([], Inl e)
   | Inr request \<Rightarrow>
       (fst (post_json urlopen request), relay (snd (post_json urlopen request))))"

definition do_POST ::
  "(http_request \<Rightarrow> urlopen_result) \<Rightarrow> nat \<Rightarrow> AdapterConfig \<Rightarrow> callback \<Rightarrow> http_request list \<times> reply res" where
  "do_POST urlopen depth cfg rq =
     (let expected = U ''/callbacks/provider-v02/'' @ capability cfg in
      if split1_head (U ''?'') (path rq) \<noteq> expected then ([], Inr (send_empty 404))
      else case declared_length rq of
        Inl e \<Rightarrow> ([], if is_ValueError e then Inr (send_empty 400) else Inl e)
      | Inr len \<Rightarrow>
          if len \<le> 0 \<or> MAX_BODY_BYTES < len then ([], Inr (send_empty 400))
          else case loads_bytes depth (take (nat len) (rfile rq)) of
            Inl e \<Rightarrow> ([], if e = UnicodeDecodeError \<or> e = JSONDecodeError then Inr (send_empty 400) else Inl e)
          | Inr legacy \<Rightarrow>
              if \<not> is_dict legacy then ([], Inr (send_empty 400))
              else case normalize_receipt legacy of
                Inl e \<Rightarrow> ([], if is_ValueError e then Inr (send_empty 400) else Inl e)
              | Inr receipt \<Rightarrow> forward urlopen cfg receipt)"

section \<open>Facts about the handler\<close>

lemmas do_POST_defs = do_POST_def forward_def Let_def

lemma send_json_status: "send_json st v = Inr rep \<Longrightarrow> status rep = st"
  by (auto simp: send_json_def)

lemma send_json_503_ok: "\<exists>rep. send_json 503 (PDict [(U ''status'', PStr (U ''error'')),
    (U ''code'', PStr (U ''dependency.unavailable''))]) = Inr rep \<and> status rep = 503"
proof -
  have "isl (send_json 503 (PDict [(U ''status'', PStr (U ''error'')),
    (U ''code'', PStr (U ''dependency.unavailable''))])) = False" by code_simp
  then obtain rep where "send_json 503 (PDict [(U ''status'', PStr (U ''error'')),
    (U ''code'', PStr (U ''dependency.unavailable''))]) = Inr rep"
    using not_isl_Inr by blast
  with send_json_status show ?thesis by blast
qed

definition unavailable :: reply where
  "unavailable = projr (send_json 503 (PDict [(U ''status'', PStr (U ''error'')),
     (U ''code'', PStr (U ''dependency.unavailable''))]))"

lemma send_json_503: "send_json 503 (PDict [(U ''status'', PStr (U ''error'')),
    (U ''code'', PStr (U ''dependency.unavailable''))]) = Inr unavailable" "status unavailable = 503"
  using send_json_503_ok by (auto simp: unavailable_def)

text \<open>The request that carries a receipt upstream.\<close>

definition receipt_request :: "AdapterConfig \<Rightarrow> pyval \<Rightarrow> http_request \<Rightarrow> bool" where
  "receipt_request cfg r rq \<longleftrightarrow>
     (\<exists>op pid occ result signature. r = receipt_of op pid occ result \<and>
       canonical_bytes r = Inr (payload rq) \<and>
       sign (hmac_secret cfg) (payload rq) = Inr signature \<and>
       url rq = receipt_api_url cfg \<and> req_headers rq = receipt_headers cfg pid signature)"

lemma build_request_receipt:
  assumes "normalize_receipt v = Inr r" "build_request cfg r = Inr rq"
  shows "receipt_request cfg r rq"
  using assms(1) by (rule normalize_receipt_cases)
    (use assms(2) in \<open>auto simp: build_request_def receipt_request_def receipt_of_def ditem_def\<close>)

lemma forward_sent:
  assumes "normalize_receipt v = Inr r" "rq \<in> set (fst (forward u cfg r))"
  shows "receipt_request cfg r rq \<and> fst (forward u cfg r) = [rq]"
proof -
  from assms(2) obtain rq' where "build_request cfg r = Inr rq'" "rq \<in> set (fst (post_json u rq'))"
    "fst (forward u cfg r) = fst (post_json u rq')"
    by (auto simp: forward_def split: sum.splits)
  moreover from this have "rq = rq'" using post_json_sent by blast
  moreover from calculation have "fst (post_json u rq') = [rq]"
    using post_json_sent_length [of u rq'] by (cases "fst (post_json u rq')") auto
  ultimately show ?thesis using build_request_receipt [OF assms(1)] by simp
qed

text \<open>Where the handler's result comes from, once for both properties below.\<close>

lemma do_POST_cases:
  obtains (rejected) rep where "do_POST u d cfg c = ([], Inr rep)" "rep = send_empty 404 \<or> rep = send_empty 400"
  | (body_error) e where "do_POST u d cfg c = ([], Inl e)" "json_error e" "e \<noteq> JSONDecodeError"
  | (forwarded) n v r where "do_POST u d cfg c = forward u cfg r" "normalize_receipt v = Inr r"
      "split1_head (U ''?'') (path c) = U ''/callbacks/provider-v02/'' @ capability cfg"
      "declared_length c = Inr n" "0 < n" "n \<le> MAX_BODY_BYTES"
      "loads_bytes d (take (nat n) (rfile c)) = Inr v"
proof -
  have len: "declared_length c = Inl e \<Longrightarrow> is_ValueError e" for e
    by (auto simp: declared_length_def Let_def split: if_splits dest: int_of_str_Inl)
  show ?thesis
  proof (cases "split1_head (U ''?'') (path c) = U ''/callbacks/provider-v02/'' @ capability cfg")
    case False
    then show ?thesis using rejected by (simp add: do_POST_def)
  next
    case p: True
    show ?thesis
    proof (cases "declared_length c")
      case (Inl e)
      then show ?thesis using rejected p len by (simp add: do_POST_def)
    next
      case n: (Inr n)
      show ?thesis
      proof (cases "n \<le> 0 \<or> MAX_BODY_BYTES < n")
        case True
        then show ?thesis using rejected p n by (simp add: do_POST_def)
      next
        case ok: False
        show ?thesis
        proof (cases "loads_bytes d (take (nat n) (rfile c))")
          case (Inl e)
          then show ?thesis using rejected body_error p n ok loads_bytes_Inl [OF Inl]
            by (cases "e = UnicodeDecodeError \<or> e = JSONDecodeError") (auto simp: do_POST_def)
        next
          case v: (Inr v)
          show ?thesis
          proof (cases "normalize_receipt v")
            case (Inl e)
            then show ?thesis using rejected p n ok v normalize_receipt_Inl [OF Inl]
              by (cases "is_dict v") (auto simp: do_POST_def)
          next
            case r: (Inr r)
            then have "is_dict v" by (rule normalize_receipt_cases) simp
            then show ?thesis using forwarded [OF _ r p n _ _ v] p n ok v r by (simp add: do_POST_def)
          qed
        qed
      qed
    qed
  qed
qed

text \<open>The headers that can be sent, and what forwarding then does.\<close>

lemma latin1_append [simp]: "latin1 (a @ b) \<longleftrightarrow> latin1 a \<and> latin1 b"
  by (simp add: latin1_def)

lemma latin1_U [simp]: "latin1 (U s)"
  using U_less_256 by (auto simp: latin1_def list_all_iff)

lemma not_illegal_U: "(\<forall>c\<in>set s. c \<noteq> CHR 0x0A \<and> c \<noteq> CHR 0x0D) \<Longrightarrow> \<not> illegal_header_value (U s)"
proof
  assume a: "\<forall>c\<in>set s. c \<noteq> CHR 0x0A \<and> c \<noteq> CHR 0x0D" "illegal_header_value (U s)"
  then have "10 \<in> set (U s) \<or> 13 \<in> set (U s)" using illegal_header_value_crlf by blast
  then obtain c where c: "c \<in> set s" "of_char c = (10::nat) \<or> of_char c = (13::nat)" by (auto simp: U_def)
  have "of_char (CHR 0x0A) = (10::nat)" "of_char (CHR 0x0D) = (13::nat)" by simp_all
  with c have "c = CHR 0x0A \<or> c = CHR 0x0D" by (metis of_char_eq_iff)
  with a c show False by blast
qed

definition sendable :: "pystr \<Rightarrow> bool" where
  "sendable s = (latin1 s \<and> \<not> illegal_header_value s)"

lemma signature_sendable: "sign secret body = Inr s \<Longrightarrow> sendable s"
proof -
  assume "sign secret body = Inr s"
  then obtain hex where s: "s = U ''v1='' @ hex"
    and h: "\<forall>c\<in>set hex. 48 \<le> c \<and> c \<le> 57 \<or> 97 \<le> c \<and> c \<le> 102" using app.signature_format by blast
  from h have "latin1 hex" by (fastforce simp: latin1_def list_all_iff)
  moreover from h have "10 \<notin> set hex" "13 \<notin> set hex" by fastforce+
  ultimately show ?thesis using illegal_header_value_crlf [of s]
    by (auto simp: sendable_def s U_def latin1_def)
qed

lemma forward_accepts:
  assumes "normalize_receipt v = Inr (receipt_of op pid occ result)"
    and "encodable op" "encodable pid" "encodable occ" "encodable (hmac_secret cfg)"
    and "latin1 pid" "sendable (U ''Bearer '' @ token cfg)"
  shows "\<exists>rq. receipt_request cfg (receipt_of op pid occ result) rq \<and>
    forward u cfg (receipt_of op pid occ result) =
      (if u rq = BadUrl then [] else [rq], relay (response_of (u rq)))"
proof -
  from app.encode_error [OF assms(1)] assms(2-4) obtain body where
    b: "canonical_bytes (receipt_of op pid occ result) = Inr body" by (auto split: sum.splits)
  from utf8_encode_cases [of "hmac_secret cfg"] assms(5) obtain key where "utf8_encode (hmac_secret cfg) = Inr key"
    by metis
  then obtain sg where sg: "sign (hmac_secret cfg) body = Inr sg" by (auto simp: sign_def)
  let ?rq = "\<lparr>url = receipt_api_url cfg, payload = body, req_headers = receipt_headers cfg pid sg,
      timeout = api_timeout cfg\<rparr>"
  have br: "build_request cfg (receipt_of op pid occ result) = Inr ?rq"
    using b sg by (simp add: build_request_def receipt_of_def ditem_def)
  have "text_ok pid" using assms(1) by (rule normalize_receipt_cases) (auto simp: receipt_of_def)
  then have "sendable pid" using assms(6) illegal_header_value_crlf by (auto simp: sendable_def text_ok_def has_crlf_def)
  moreover have "\<not> illegal_header_value (U ''application/json'')" "\<not> illegal_header_value (U ''1'')"
    by (simp_all add: not_illegal_U)
  ultimately have "post_json u ?rq = (if u ?rq = BadUrl then [] else [?rq], response_of (u ?rq))"
    using assms(7) signature_sendable [OF sg]
    by (intro post_json_ok) (auto simp: receipt_headers_def sendable_def)
  with br build_request_receipt [OF assms(1) br] show ?thesis by (auto simp: forward_def)
qed

lemma forward_not_latin1:
  assumes "normalize_receipt v = Inr (receipt_of op pid occ result)" and "\<not> latin1 pid"
    and "encodable (hmac_secret cfg)" "sendable (U ''Bearer '' @ token cfg)" and "\<And>rq. u rq \<noteq> BadUrl"
  shows "forward u cfg (receipt_of op pid occ result) = ([], Inl UnicodeEncodeError)"
proof (cases "canonical_bytes (receipt_of op pid occ result)")
  case (Inl e)
  with canonical_bytes_Inl [OF assms(1)] show ?thesis by (simp add: forward_def build_request_def)
next
  case (Inr body)
  from utf8_encode_cases [of "hmac_secret cfg"] assms(3) obtain key where "utf8_encode (hmac_secret cfg) = Inr key"
    by metis
  then obtain sg where sg: "sign (hmac_secret cfg) body = Inr sg" by (auto simp: sign_def)
  with Inr have br: "build_request cfg (receipt_of op pid occ result) =
      Inr \<lparr>url = receipt_api_url cfg, payload = body, req_headers = receipt_headers cfg pid sg,
        timeout = api_timeout cfg\<rparr>"
    by (simp add: build_request_def receipt_of_def ditem_def)
  have "\<not> illegal_header_value (U ''application/json'')" by (simp add: not_illegal_U)
  then have "for_each put_header (receipt_headers cfg pid sg) = Inl UnicodeEncodeError"
    using assms(2,4) by (simp add: receipt_headers_def put_header_def sendable_def)
  with br assms(5) show ?thesis by (simp add: forward_def post_json_def relay_def)
qed

text \<open>A callback that reaches the handler's path with a body.\<close>

definition callback_with :: "AdapterConfig \<Rightarrow> pybytes \<Rightarrow> callback" where
  "callback_with cfg body = \<lparr>path = U ''/callbacks/provider-v02/'' @ capability cfg,
     content_length = Some (str_of_nat (length body)), rfile = body\<rparr>"

lemma split1_head_none: "63 \<notin> set s \<Longrightarrow> split1_head (U ''?'') s = s"
proof -
  assume a: "63 \<notin> set s"
  have "find_sub (U ''?'') s = None"
  proof (rule ccontr)
    assume "find_sub (U ''?'') s \<noteq> None"
    then obtain a b where "s = a @ U ''?'' @ b" using find_sub_Some by blast
    with a show False by (simp add: U_def)
  qed
  then show ?thesis by (simp add: split1_head_def partition_str_def)
qed

lemma callback_with_simps:
  assumes "63 \<notin> set (capability cfg)" and "0 < length body" and "length body \<le> 65536"
  shows "split1_head (U ''?'') (path (callback_with cfg body)) = U ''/callbacks/provider-v02/'' @ capability cfg"
    and "declared_length (callback_with cfg body) = Inr (int (length body))"
    and "do_POST u d cfg (callback_with cfg body) = (case loads_bytes d body of
        Inl e \<Rightarrow> ([], if e = UnicodeDecodeError \<or> e = JSONDecodeError then Inr (send_empty 400) else Inl e)
      | Inr legacy \<Rightarrow>
          if \<not> is_dict legacy then ([], Inr (send_empty 400))
          else case normalize_receipt legacy of
            Inl e \<Rightarrow> ([], if is_ValueError e then Inr (send_empty 400) else Inl e)
          | Inr receipt \<Rightarrow> forward u cfg receipt)"
proof -
  have "63 \<notin> set (U ''/callbacks/provider-v02/'')" by (simp add: U_def)
  with assms(1) show p: "split1_head (U ''?'') (path (callback_with cfg body)) = U ''/callbacks/provider-v02/'' @ capability cfg"
    by (simp add: callback_with_def split1_head_none)
  have "length (str_of_nat (length body)) \<le> 5" using assms(3) by (intro length_str_of_nat_le) auto
  then show n: "declared_length (callback_with cfg body) = Inr (int (length body))"
    by (simp add: declared_length_def callback_with_def int_of_str_of_nat)
  show "do_POST u d cfg (callback_with cfg body) = (case loads_bytes d body of
        Inl e \<Rightarrow> ([], if e = UnicodeDecodeError \<or> e = JSONDecodeError then Inr (send_empty 400) else Inl e)
      | Inr legacy \<Rightarrow>
          if \<not> is_dict legacy then ([], Inr (send_empty 400))
          else case normalize_receipt legacy of
            Inl e \<Rightarrow> ([], if is_ValueError e then Inr (send_empty 400) else Inl e)
          | Inr receipt \<Rightarrow> forward u cfg receipt)"
    using p n assms by (simp add: do_POST_def MAX_BODY_BYTES_def) (simp add: callback_with_def)
qed

definition sample_cfg :: AdapterConfig where
  "sample_cfg = \<lparr>capability = U ''cap1'', token = U ''jwt-token'', hmac_secret = U ''hmac-secret'',
     receipt_api_url = U ''http://gateway:8080/api/receipt/accept'', host = U ''127.0.0.1'', port = 8090,
     api_timeout = seconds 20\<rparr>"

lemma sample_capability: "63 \<notin> set (capability sample_cfg)"
  by (simp add: sample_cfg_def U_def)

text \<open>The sample callback as the provider sends it.\<close>

definition sample_body :: pybytes where
  "sample_body = projr (res_bind (dumps compact sample_legacy) utf8_encode)"

lemma sample_body_loads: "loads_bytes 10 sample_body = Inr sample_legacy"
  by code_simp

lemma sample_body_length: "0 < length sample_body" "length sample_body \<le> 65536"
proof -
  have "0 < length sample_body \<and> length sample_body \<le> 65536" by code_simp
  then show "0 < length sample_body" "length sample_body \<le> 65536" by blast+
qed

lemma sample_encodable:
  "encodable (U ''external-123'')" "encodable (U ''provider-123'')" "encodable (U ''2026-09-04T12:00:00Z'')"
  "encodable (hmac_secret sample_cfg)" "latin1 (U ''provider-123'')"
  "sendable (U ''Bearer '' @ token sample_cfg)"
proof -
  show "sendable (U ''Bearer '' @ token sample_cfg)" by code_simp
qed (simp_all add: encodable_U sample_cfg_def)

lemma sample_dict: "is_dict sample_legacy"
  by (simp add: sample_legacy_def)

lemma sample_post:
  "\<exists>rq. receipt_request sample_cfg sample_receipt rq \<and>
    do_POST u 10 sample_cfg (callback_with sample_cfg sample_body) =
      (if u rq = BadUrl then [] else [rq], relay (response_of (u rq)))"
  using forward_accepts [OF sample_normalized [unfolded sample_receipt_def] sample_encodable, of u]
    callback_with_simps(3) [OF sample_capability sample_body_length, of u 10]
  by (simp add: sample_body_loads sample_dict sample_normalized flip: sample_receipt_def)

section \<open>Properties\<close>

text \<open>
  C12. Only a well-formed callback is forwarded, at most once, and signed: a request reaches the
  API only when the path carries the capability, the declared length is between 1 and 65536 and
  the body is a legacy callback that normalises to a receipt; the request then carries exactly
  the canonical bytes of that receipt, their signature under the shared secret, the access
  token and the provider's payment id as idempotency key.
\<close>

theorem adapter_forwards_signed_receipt:
  assumes "rq \<in> set (fst (do_POST u d cfg c))"
  shows "fst (do_POST u d cfg c) = [rq] \<and>
    split1_head (U ''?'') (path c) = U ''/callbacks/provider-v02/'' @ capability cfg \<and>
    (\<exists>n v r. declared_length c = Inr n \<and> 0 < n \<and> n \<le> 65536 \<and>
      loads_bytes d (take (nat n) (rfile c)) = Inr v \<and> normalize_receipt v = Inr r \<and>
      receipt_request cfg r rq)"
proof (cases rule: do_POST_cases [where u = u and d = d and cfg = cfg and c = c])
  case (forwarded n v r)
  with assms forward_sent [OF forwarded(2), of rq u cfg] show ?thesis by (auto simp: MAX_BODY_BYTES_def)
qed (use assms in auto)

theorem adapter_forwards_signed_receipt_witness:
  "\<exists>rq r. fst (do_POST (\<lambda>_. TransportError) 10 sample_cfg (callback_with sample_cfg sample_body)) = [rq] \<and>
     receipt_request sample_cfg r rq"
proof -
  obtain rq where "do_POST (\<lambda>_. TransportError) 10 sample_cfg (callback_with sample_cfg sample_body) =
      ([rq], relay (response_of TransportError))"
    using sample_post [of "\<lambda>_. TransportError"] by auto
  then show ?thesis
    using adapter_forwards_signed_receipt [of rq "\<lambda>_. TransportError" 10 sample_cfg "callback_with sample_cfg sample_body"]
    by auto
qed

text \<open>
  What the caller sees: a reply is either an empty 404 or 400 and nothing was sent, or the
  503 envelope after a transport failure, or the API's own status and body.
\<close>

theorem adapter_reply:
  assumes "snd (do_POST u d cfg c) = Inr rep"
  shows "(rep = send_empty 404 \<or> rep = send_empty 400) \<and> fst (do_POST u d cfg c) = [] \<or>
    rep = unavailable \<and> (\<exists>rq. fst (do_POST u d cfg c) = [rq] \<and> u rq = TransportError) \<or>
    (\<exists>rq st b hs. fst (do_POST u d cfg c) = [rq] \<and>
      (u rq = Response st b hs \<or> u rq = HTTPErrorResponse st b hs) \<and> status rep = st \<and> reply_body rep = b)"
proof (cases rule: do_POST_cases [where u = u and d = d and cfg = cfg and c = c])
  case (forwarded n v r)
  then obtain rq where rq: "fst (do_POST u d cfg c) = fst (post_json u rq)" "relay (snd (post_json u rq)) = Inr rep"
    using assms by (auto simp: forward_def split: sum.splits)
  show ?thesis
  proof (cases "snd (post_json u rq)")
    case (Inl e)
    with rq have "rep = unavailable" "e = HttpError" by (auto simp: relay_def send_json_503 split: if_splits)
    with post_json_Inl [OF Inl] rq show ?thesis by auto
  next
    case (Inr x)
    obtain st b hs where x: "x = (st, b, hs)" by (cases x) auto
    from post_json_Inr [OF Inr [unfolded x]] Inr x rq show ?thesis by (auto simp: relay_def send_raw_def)
  qed
qed (use assms in auto)

theorem adapter_reply_witness:
  "\<exists>rep. snd (do_POST (\<lambda>_. Response 202 [123, 125] []) 10 sample_cfg (callback_with sample_cfg sample_body)) = Inr rep \<and>
     status rep = 202 \<and> reply_body rep = [123, 125]"
proof -
  let ?u = "\<lambda>_::http_request. Response 202 [123, 125] []"
  obtain rq where p: "do_POST ?u 10 sample_cfg (callback_with sample_cfg sample_body) =
      ([rq], relay (response_of (Response 202 [123, 125] [])))"
    using sample_post [of ?u] by auto
  then have "snd (do_POST ?u 10 sample_cfg (callback_with sample_cfg sample_body)) = Inr (send_raw 202 [123, 125] (map_of (dict_of []) (U ''Content-Type'')))"
    by (simp add: relay_def response_of_def)
  from adapter_reply [OF this] this p show ?thesis by (auto simp: send_raw_def)
qed

text \<open>
  When the handler dies without a reply: only for a body nested deeper than the interpreter
  allows, for a subclass of \<^verbatim>\<open>ValueError\<close> raised outside the handler's \<^verbatim>\<open>try\<close> blocks (an oversized
  integer, text or a header that cannot be encoded), for a malformed answer of the API, or for
  an error answer whose body cannot be read.
\<close>

theorem adapter_uncaught:
  assumes "snd (do_POST u d cfg c) = Inl e"
  shows "e = RecursionError \<and> fst (do_POST u d cfg c) = [] \<or> is_ValueError e \<or>
    e = HTTPException \<and> (\<exists>rq. fst (do_POST u d cfg c) = [rq] \<and> u rq = ProtocolError) \<or>
    e = OSError \<and> (\<exists>rq. fst (do_POST u d cfg c) = [rq] \<and> u rq = ErrorBodyFailure)"
proof (cases rule: do_POST_cases [where u = u and d = d and cfg = cfg and c = c])
  case (body_error e')
  with assms show ?thesis by (auto simp: json_error_def)
next
  case (forwarded n v r)
  show ?thesis
  proof (cases "build_request cfg r")
    case (Inl e')
    moreover from forwarded(2) have "is_ValueError e'"
    proof (rule normalize_receipt_cases)
      fix dd op pid occ result
      assume r: "r = receipt_of op pid occ result"
      have "canonical_bytes r = Inl x \<Longrightarrow> x = UnicodeEncodeError" for x
        using canonical_bytes_Inl [OF forwarded(2)] by blast
      then show ?thesis using Inl by (auto simp: build_request_def res_bind_eq_Inl sign_def r receipt_of_def ditem_def
            dest: utf8_encode_Inl)
    qed
    ultimately show ?thesis using assms forwarded by (simp add: forward_def)
  next
    case (Inr rq)
    then have rl: "relay (snd (post_json u rq)) = Inl e" "fst (do_POST u d cfg c) = fst (post_json u rq)"
      using assms forwarded by (simp_all add: forward_def)
    then have "snd (post_json u rq) = Inl e \<and> e \<noteq> HttpError"
      by (auto simp: relay_def send_json_503 split: sum.splits prod.splits if_splits)
    with post_json_Inl [of u rq e] rl show ?thesis by auto
  qed
qed (use assms in auto)

theorem adapter_uncaught_witness:
  "\<exists>rq. do_POST (\<lambda>_. ProtocolError) 10 sample_cfg (callback_with sample_cfg sample_body) = ([rq], Inl HTTPException)"
proof -
  let ?u = "\<lambda>_::http_request. ProtocolError"
  obtain rq where p: "do_POST ?u 10 sample_cfg (callback_with sample_cfg sample_body) =
      ([rq], relay (response_of ProtocolError))"
    using sample_post [of ?u] by auto
  then have "snd (do_POST ?u 10 sample_cfg (callback_with sample_cfg sample_body)) = Inl HTTPException"
    by (simp add: relay_def response_of_def)
  from adapter_uncaught [OF this] this p show ?thesis by auto
qed

text \<open>
  C13. A well-formed callback goes through: when the body decodes to a legacy callback that normalises,
  its texts can be encoded and the payment id fits a header, exactly one request is sent (none
  when the API's address has no scheme) and the caller receives the API's status and body, or
  the 503 envelope when the API cannot be reached.
\<close>

theorem adapter_accepts:
  assumes "63 \<notin> set (capability cfg)" and "0 < length body" and "length body \<le> 65536"
    and "loads_bytes d body = Inr v" and "normalize_receipt v = Inr (receipt_of op pid occ result)"
    and "encodable op" "encodable pid" "encodable occ" "latin1 pid"
    and "encodable (hmac_secret cfg)" "sendable (U ''Bearer '' @ token cfg)"
  shows "\<exists>rq. fst (do_POST u d cfg (callback_with cfg body)) = (if u rq = BadUrl then [] else [rq]) \<and>
    receipt_request cfg (receipt_of op pid occ result) rq \<and>
    (\<forall>st b hs. u rq = Response st b hs \<or> u rq = HTTPErrorResponse st b hs \<longrightarrow>
       (\<exists>rep. snd (do_POST u d cfg (callback_with cfg body)) = Inr rep \<and> status rep = st \<and> reply_body rep = b)) \<and>
    (u rq = TransportError \<longrightarrow> snd (do_POST u d cfg (callback_with cfg body)) = Inr unavailable)"
proof -
  from assms(5) have "is_dict v" by (rule normalize_receipt_cases) simp
  then have post: "do_POST u d cfg (callback_with cfg body) = forward u cfg (receipt_of op pid occ result)"
    using callback_with_simps(3) [OF assms(1-3), of u d] assms(4,5) by simp
  obtain rq where "receipt_request cfg (receipt_of op pid occ result) rq"
    "forward u cfg (receipt_of op pid occ result) = (if u rq = BadUrl then [] else [rq], relay (response_of (u rq)))"
    using forward_accepts [OF assms(5-8) assms(10,9,11)] by blast
  with post show ?thesis
    by (auto simp: relay_def response_of_def send_raw_def send_json_503 intro!: exI [of _ rq])
qed

theorem adapter_accepts_witness:
  "snd (do_POST (\<lambda>_. TransportError) 10 sample_cfg (callback_with sample_cfg sample_body)) = Inr unavailable"
  using adapter_accepts [OF sample_capability sample_body_length sample_body_loads
      sample_normalized [unfolded sample_receipt_def] sample_encodable(1-3,5,4,6), of "\<lambda>_. TransportError"]
  by blast

text \<open>
  A payment id that cannot be encoded kills the handler: when the API's address has a scheme and the id of an accepted callback holds
  a character beyond Latin-1, no request is sent and \<^verbatim>\<open>UnicodeEncodeError\<close> leaves the handler,
  although the body passed every check; the caller gets no reply.
\<close>

theorem adapter_dies_on_payment_id:
  assumes "63 \<notin> set (capability cfg)" and "0 < length body" and "length body \<le> 65536"
    and "loads_bytes d body = Inr v" and "normalize_receipt v = Inr (receipt_of op pid occ result)"
    and "\<not> latin1 pid" and "encodable (hmac_secret cfg)" "sendable (U ''Bearer '' @ token cfg)"
    and "\<And>rq. u rq \<noteq> BadUrl"
  shows "do_POST u d cfg (callback_with cfg body) = ([], Inl UnicodeEncodeError)"
proof -
  from assms(5) have "is_dict v" by (rule normalize_receipt_cases) simp
  then have post: "do_POST u d cfg (callback_with cfg body) = forward u cfg (receipt_of op pid occ result)"
    using callback_with_simps(3) [OF assms(1-3), of u d] assms(4,5) by simp
  then show ?thesis using forward_not_latin1 [OF assms(5-9)] by simp
qed

text \<open>A callback whose payment id is the euro sign.\<close>

definition euro_legacy :: pyval where
  "euro_legacy = PDict [(U ''providerPaymentId'', PStr [8364]),
     (U ''operationId'', PStr (U ''external-123'')), (U ''result'', PStr (U ''COMPLETED'')),
     (U ''message'', PStr []), (U ''occurredAt'', PStr (U ''2026-09-04T12:00:00Z''))]"

definition euro_body :: pybytes where
  "euro_body = projr (res_bind (dumps compact euro_legacy) utf8_encode)"

lemma euro_body_facts:
  "0 < length euro_body" "length euro_body \<le> 65536" "loads_bytes 10 euro_body = Inr euro_legacy"
  "normalize_receipt euro_legacy =
     Inr (receipt_of (U ''external-123'') [8364] (U ''2026-09-04T12:00:00Z'') (U ''COMPLETED''))"
proof -
  have "0 < length euro_body \<and> length euro_body \<le> 65536" by code_simp
  then show "0 < length euro_body" "length euro_body \<le> 65536" by blast+
  show "loads_bytes 10 euro_body = Inr euro_legacy" by code_simp
  show "normalize_receipt euro_legacy =
     Inr (receipt_of (U ''external-123'') [8364] (U ''2026-09-04T12:00:00Z'') (U ''COMPLETED''))" by code_simp
qed

theorem adapter_dies_on_payment_id_witness:
  "do_POST (\<lambda>_. TransportError) 10 sample_cfg (callback_with sample_cfg euro_body) = ([], Inl UnicodeEncodeError)"
  using adapter_dies_on_payment_id [OF sample_capability euro_body_facts _ sample_encodable(4,6), of "\<lambda>_. TransportError"]
  by (simp add: latin1_def)

text \<open>
  Two small bodies make the handler die without a reply although the length limit admits
  them: one bracket more than the interpreter's nesting limit, and an integer of 4301 digits.
  The first raises \<^verbatim>\<open>RecursionError\<close>, the second a plain \<^verbatim>\<open>ValueError\<close>; the handler catches neither.
\<close>

theorem adapter_dies_on_json:
  assumes "63 \<notin> set (capability cfg)" and "d < 65536"
  shows "do_POST u d cfg (callback_with cfg (replicate (Suc d) 91)) = ([], Inl RecursionError) \<and>
    do_POST u d cfg (callback_with cfg (replicate 4301 49)) =
      ([], Inl (ValueError (U ''Exceeds the limit for integer string conversion'')))"
proof
  show "do_POST u d cfg (callback_with cfg (replicate (Suc d) 91)) = ([], Inl RecursionError)"
    using assms callback_with_simps(3) [of cfg "replicate (Suc d) 91" u d] loads_bytes_deep [of d] by simp
  show "do_POST u d cfg (callback_with cfg (replicate 4301 49)) =
      ([], Inl (ValueError (U ''Exceeds the limit for integer string conversion'')))"
    using assms callback_with_simps(3) [of cfg "replicate 4301 49" u d] loads_bytes_long_integer [of 4301 d] by simp
qed

theorem adapter_dies_on_json_witness:
  "do_POST (\<lambda>_. TransportError) 995 sample_cfg (callback_with sample_cfg (replicate 996 91)) =
    ([], Inl RecursionError)"
proof -
  have "do_POST (\<lambda>_. TransportError) 995 sample_cfg (callback_with sample_cfg (replicate (Suc 995) 91)) =
    ([], Inl RecursionError)"
    using adapter_dies_on_json [OF sample_capability, of 995 "\<lambda>_. TransportError"] by (rule conjunct1) simp
  moreover have "Suc 995 = 996" by simp
  ultimately show ?thesis by (simp only:)
qed

end
