(* ===== verification/App_Delivery.thy ===== *)
theory App_Delivery
  imports Py_Value "HOL-Library.Product_Lexorder"
begin

text \<open>
  The outbox that the dispatcher works on: the table \<^verbatim>\<open>delivery.outbox\<close> and the SQL functions
  \<^verbatim>\<open>claim_outbox\<close>, \<^verbatim>\<open>succeed_outbox\<close> and \<^verbatim>\<open>fail_outbox\<close> of \<^verbatim>\<open>Api/Migrations/015_week3_actions.sql\<close>,
  with the two other statements that write the table (a new request, an accepted receipt).
  Each function is one transaction. Times are in milliseconds and \<^verbatim>\<open>clock_timestamp()\<close> is read
  once per call; a UUID is its text; \<open>locked\<close> holds the rows that \<^verbatim>\<open>SKIP LOCKED\<close> passes over.
\<close>

section \<open>The tables\<close>

datatype outbox_state = PENDING | LEASED | RETRY_WAIT | DELIVERED | DEAD | CONFIRMED

record outbox_row =
  outbox_id :: pystr
  external_request_id :: pystr
  correlation_id :: pystr
  ostate :: outbox_state
  lease_owner :: "pystr option"
  lease_version :: int
  lease_until :: "int option"
  attempt_count :: int
  next_attempt_at :: "int option"
  last_error_code :: "pystr option"
  created_at :: int
  delivered_at :: "int option"

datatype request_state = CREATED | SENT | REQ_CONFIRMED

record external_request =
  er_id :: pystr
  er_amount :: pystr
  er_currency :: pystr
  er_state :: request_state

record delivery_db =
  outbox :: "outbox_row list"
  requests :: "external_request list"
  now :: int
  max_attempts :: int
  delays_ms :: "int list"

section \<open>\<^verbatim>\<open>delivery.claim_outbox\<close>\<close>

type_synonym claimed_row = "pystr \<times> int \<times> pystr \<times> pystr \<times> pyval \<times> pyval"

definition claimable :: "int \<Rightarrow> outbox_row \<Rightarrow> bool" where
  "claimable t r =
     ((ostate r = PENDING \<or> ostate r = RETRY_WAIT) \<and>
        (case next_attempt_at r of None \<Rightarrow> True | Some n \<Rightarrow> n \<le> t) \<or>
      ostate r = LEASED \<and> (case lease_until r of None \<Rightarrow> False | Some u \<Rightarrow> u < t))"

definition claimed_ids :: "pystr set \<Rightarrow> int \<Rightarrow> delivery_db \<Rightarrow> pystr list" where
  "claimed_ids locked limit db =
     map outbox_id (take (nat limit) (sort_key (\<lambda>r. (created_at r, outbox_id r))
       (filter (\<lambda>r. claimable (now db) r \<and> outbox_id r \<notin> locked) (outbox db))))"

definition lease :: "pystr \<Rightarrow> int \<Rightarrow> outbox_row \<Rightarrow> outbox_row" where
  "lease own t r = r\<lparr>ostate := LEASED, lease_owner := Some own, lease_version := lease_version r + 1,
     lease_until := Some (t + 30000), attempt_count := attempt_count r + 1, next_attempt_at := None\<rparr>"

definition request_column :: "delivery_db \<Rightarrow> (external_request \<Rightarrow> pystr) \<Rightarrow> pystr \<Rightarrow> pyval" where
  "request_column db col ext = (case find (\<lambda>e. er_id e = ext) (requests db) of
     None \<Rightarrow> PNone | Some e \<Rightarrow> PStr (col e))"

definition returned_row :: "delivery_db \<Rightarrow> outbox_row \<Rightarrow> claimed_row" where
  "returned_row db r = (outbox_id r, lease_version r, external_request_id r, correlation_id r,
     request_column db er_amount (external_request_id r),
     request_column db er_currency (external_request_id r))"

text \<open>
  The columns \<^verbatim>\<open>lease_version bigint\<close> and \<^verbatim>\<open>attempt_count integer\<close> do not wrap: a claim that would
  pass their largest value raises and its transaction leaves the table as it was.
\<close>

definition counter_overflow :: "outbox_row \<Rightarrow> bool" where
  "counter_overflow r \<longleftrightarrow> 2 ^ 63 - 1 \<le> lease_version r \<or> 2 ^ 31 - 1 \<le> attempt_count r"

definition overflow_error :: "outbox_row \<Rightarrow> pyexn" where
  "overflow_error r = PsycopgError (if 2 ^ 63 - 1 \<le> lease_version r then U ''bigint out of range''
     else U ''integer out of range'')"

definition claim_outbox ::
  "pystr set \<Rightarrow> pystr \<Rightarrow> int \<Rightarrow> delivery_db \<Rightarrow> claimed_row list res \<times> delivery_db" where
  "claim_outbox locked own limit db =
     (if own = [] then (Inl (PsycopgError (U ''delivery.claim_invalid: owner is required'')), db)
      else if limit < 1 \<or> 100 < limit
      then (Inl (PsycopgError (U ''delivery.claim_invalid: invalid batch size'')), db)
      else let ids = claimed_ids locked limit db;
               table = map (\<lambda>r. if outbox_id r \<in> set ids then lease own (now db) r else r) (outbox db)
           in case find (\<lambda>r. outbox_id r \<in> set ids \<and> counter_overflow r) (outbox db) of
                Some r \<Rightarrow> (Inl (overflow_error r), db)
              | None \<Rightarrow> (Inr (map (returned_row db) (filter (\<lambda>r. outbox_id r \<in> set ids) table)),
                  db\<lparr>outbox := table\<rparr>))"

section \<open>\<^verbatim>\<open>delivery.succeed_outbox\<close> and \<^verbatim>\<open>delivery.fail_outbox\<close>\<close>

definition held :: "pystr \<Rightarrow> pystr \<Rightarrow> int \<Rightarrow> outbox_row \<Rightarrow> bool" where
  "held oid own ver r =
     (outbox_id r = oid \<and> lease_owner r = Some own \<and> lease_version r = ver \<and> ostate r = LEASED)"

definition update_outbox :: "(outbox_row \<Rightarrow> bool) \<Rightarrow> (outbox_row \<Rightarrow> outbox_row) \<Rightarrow> delivery_db \<Rightarrow> delivery_db" where
  "update_outbox P f db = db\<lparr>outbox := map (\<lambda>r. if P r then f r else r) (outbox db)\<rparr>"

definition stale :: pyval where
  "stale = PDict [(U ''status'', PStr (U ''stale''))]"

definition delivered_row :: "int \<Rightarrow> outbox_row \<Rightarrow> outbox_row" where
  "delivered_row t r = r\<lparr>ostate := DELIVERED, lease_owner := None, lease_until := None, delivered_at := Some t\<rparr>"

definition succeed_outbox ::
  "pystr \<Rightarrow> pystr \<Rightarrow> int \<Rightarrow> pystr \<Rightarrow> delivery_db \<Rightarrow> pyval res \<times> delivery_db" where
  "succeed_outbox oid own ver pid db =
     (case find (held oid own ver) (outbox db) of
        None \<Rightarrow> (Inr stale, db)
      | Some r \<Rightarrow>
          let db' = update_outbox (held oid own ver) (delivered_row (now db)) db
          in (Inr (PDict [(U ''status'', PStr (U ''delivered'')), (U ''providerPaymentId'', PStr pid)]),
              db'\<lparr>requests := map (\<lambda>e. if er_id e = external_request_id r \<and> er_state e = CREATED
                                       then e\<lparr>er_state := SENT\<rparr> else e) (requests db')\<rparr>))"

text \<open>\<^verbatim>\<open>COALESCE(delays_ms[v_attempts], 1000)\<close>; SQL arrays start at 1.\<close>

definition retry_delay :: "int list \<Rightarrow> int \<Rightarrow> int" where
  "retry_delay ds n = (if 1 \<le> n \<and> n \<le> int (length ds) then ds ! nat (n - 1) else 1000)"

definition retry_row :: "pystr \<Rightarrow> int \<Rightarrow> outbox_row \<Rightarrow> outbox_row" where
  "retry_row code t r = r\<lparr>ostate := RETRY_WAIT, lease_owner := None, lease_until := None,
     next_attempt_at := Some t, last_error_code := Some code\<rparr>"

definition dead_row :: "pystr \<Rightarrow> outbox_row \<Rightarrow> outbox_row" where
  "dead_row code r = r\<lparr>ostate := DEAD, lease_owner := None, lease_until := None, last_error_code := Some code\<rparr>"

definition fail_outbox ::
  "pystr \<Rightarrow> pystr \<Rightarrow> int \<Rightarrow> pystr \<Rightarrow> delivery_db \<Rightarrow> pyval res \<times> delivery_db" where
  "fail_outbox oid own ver code db =
     (case find (held oid own ver) (outbox db) of
        None \<Rightarrow> (Inr stale, db)
      | Some r \<Rightarrow>
          let delay = retry_delay (delays_ms db) (attempt_count r) in
          if endswith code (U ''.retryable'') \<and> attempt_count r < max_attempts db
          then (Inr (PDict [(U ''status'', PStr (U ''scheduled'')), (U ''nextAttemptAt'', PInt delay)]),
                update_outbox (held oid own ver) (retry_row code (now db + delay)) db)
          else (Inr (PDict [(U ''status'', PStr (U ''dead'')), (U ''errorCode'', PStr code)]),
                update_outbox (held oid own ver) (dead_row code) db))"

section \<open>The other writers\<close>

text \<open>
  The action that prepares a payment creates the external request, unless the operation has
  one, and queues it, unless it is queued. The parameters are the generated ids and the
  operation's amount and currency; \<open>ext\<close> is the id of the operation's request where there is one.
  An accepted receipt confirms the request and its row.
\<close>

definition insert_outbox :: "pystr \<Rightarrow> pystr \<Rightarrow> pystr \<Rightarrow> delivery_db \<Rightarrow> delivery_db" where
  "insert_outbox oid ext corr db = db\<lparr>outbox := outbox db @ [\<lparr>outbox_id = oid,
     external_request_id = ext, correlation_id = corr, ostate = PENDING, lease_owner = None,
     lease_version = 0, lease_until = None, attempt_count = 0, next_attempt_at = Some (now db),
     last_error_code = None, created_at = now db, delivered_at = None\<rparr>]\<rparr>"

definition prepare_payment :: "pystr \<Rightarrow> pystr \<Rightarrow> pystr \<Rightarrow> pystr \<Rightarrow> pystr \<Rightarrow> delivery_db \<Rightarrow> delivery_db" where
  "prepare_payment oid ext corr amount currency db =
     (if \<not> list_ex (\<lambda>e. er_id e = ext) (requests db)
      then insert_outbox oid ext corr (db\<lparr>requests := requests db @ [\<lparr>er_id = ext, er_amount = amount,
             er_currency = currency, er_state = CREATED\<rparr>]\<rparr>)
      else if \<not> list_ex (\<lambda>r. external_request_id r = ext) (outbox db) then insert_outbox oid ext corr db
      else db)"

definition confirmed_row :: "int \<Rightarrow> outbox_row \<Rightarrow> outbox_row" where
  "confirmed_row t r = r\<lparr>ostate := CONFIRMED, lease_owner := None, lease_until := None,
     delivered_at := (case delivered_at r of None \<Rightarrow> Some t | Some d \<Rightarrow> Some d)\<rparr>"

definition confirm_receipt :: "pystr \<Rightarrow> delivery_db \<Rightarrow> delivery_db" where
  "confirm_receipt ext db =
     (let db' = update_outbox (\<lambda>r. external_request_id r = ext \<and> ostate r \<noteq> CONFIRMED) (confirmed_row (now db)) db
      in db'\<lparr>requests := map (\<lambda>e. if er_id e = ext then e\<lparr>er_state := REQ_CONFIRMED\<rparr> else e) (requests db')\<rparr>)"

text \<open>One transaction of any party, or time passing.\<close>

inductive delivery_step :: "delivery_db \<Rightarrow> delivery_db \<Rightarrow> bool" where
  claim: "delivery_step db (snd (claim_outbox locked own limit db))"
| succeed: "delivery_step db (snd (succeed_outbox oid own ver pid db))"
| fail: "delivery_step db (snd (fail_outbox oid own ver code db))"
| prepare: "oid \<notin> outbox_id ` set (outbox db) \<Longrightarrow> delivery_step db (prepare_payment oid ext corr amount currency db)"
| confirm: "delivery_step db (confirm_receipt ext db)"
| tick: "0 \<le> dt \<Longrightarrow> delivery_step db (db\<lparr>now := now db + dt\<rparr>)"

abbreviation delivery_steps :: "delivery_db \<Rightarrow> delivery_db \<Rightarrow> bool" where
  "delivery_steps \<equiv> delivery_step\<^sup>*\<^sup>*"

section \<open>What a step does to a row\<close>

lemmas row_update_defs = lease_def delivered_row_def retry_row_def dead_row_def confirmed_row_def

definition unique_ids :: "delivery_db \<Rightarrow> bool" where
  "unique_ids db = distinct (map outbox_id (outbox db))"

definition find_row :: "delivery_db \<Rightarrow> pystr \<Rightarrow> outbox_row option" where
  "find_row db oid = find (\<lambda>r. outbox_id r = oid) (outbox db)"

inductive row_step :: "delivery_db \<Rightarrow> outbox_row \<Rightarrow> outbox_row \<Rightarrow> bool" for db where
  same: "row_step db r r"
| leased: "claimable (now db) r \<Longrightarrow> row_step db r (lease own t r)"
| delivered: "ostate r = LEASED \<Longrightarrow> row_step db r (delivered_row t r)"
| retried: "ostate r = LEASED \<Longrightarrow> endswith code (U ''.retryable'') \<Longrightarrow> attempt_count r < max_attempts db \<Longrightarrow>
    row_step db r (retry_row code t r)"
| died: "ostate r = LEASED \<Longrightarrow> (endswith code (U ''.retryable'') \<longrightarrow> max_attempts db \<le> attempt_count r) \<Longrightarrow>
    row_step db r (dead_row code r)"
| confirmed: "ostate r \<noteq> CONFIRMED \<Longrightarrow> row_step db r (confirmed_row t r)"

lemmas row_step_intros = same leased delivered retried died confirmed

definition fresh_row :: "outbox_row \<Rightarrow> bool" where
  "fresh_row r \<longleftrightarrow> ostate r = PENDING \<and> lease_owner r = None \<and> lease_until r = None \<and>
     lease_version r = 0 \<and> attempt_count r = 0 \<and> next_attempt_at r \<noteq> None"

text \<open>Every step rewrites each row by \<open>row_step\<close> and at most appends fresh rows.\<close>

definition table_step :: "delivery_db \<Rightarrow> delivery_db \<Rightarrow> bool" where
  "table_step db db' \<longleftrightarrow> (\<exists>f rows. outbox db' = map f (outbox db) @ rows \<and>
     (\<forall>r\<in>set (outbox db). row_step db r (f r)) \<and>
     (\<forall>r\<in>set rows. fresh_row r \<and> outbox_id r \<notin> outbox_id ` set (outbox db)) \<and> distinct (map outbox_id rows)) \<and>
     max_attempts db' = max_attempts db"

lemma table_stepI:
  assumes "outbox db' = map f (outbox db)" and "\<And>r. r \<in> set (outbox db) \<Longrightarrow> row_step db r (f r)"
    and "max_attempts db' = max_attempts db"
  shows "table_step db db'"
  unfolding table_step_def using assms by (intro conjI exI [of _ f] exI [of _ "[]"]) auto

lemma table_step_refl [simp]: "table_step db db"
  by (rule table_stepI [where f = "\<lambda>r. r"]) (auto intro: same)

lemma table_step_update:
  "(\<And>r. r \<in> set (outbox db) \<Longrightarrow> P r \<Longrightarrow> row_step db r (f r)) \<Longrightarrow> table_step db (update_outbox P f db)"
  by (rule table_stepI [where f = "\<lambda>r. if P r then f r else r"]) (auto simp: update_outbox_def intro: same)

lemma unique_row: "unique_ids db \<Longrightarrow> r \<in> set (outbox db) \<Longrightarrow> r' \<in> set (outbox db) \<Longrightarrow>
    outbox_id r = outbox_id r' \<Longrightarrow> r = r'"
  unfolding unique_ids_def distinct_map inj_on_def by blast

lemma claimed_ids_claimable:
  assumes "unique_ids db" "r \<in> set (outbox db)" "outbox_id r \<in> set (claimed_ids locked limit db)"
  shows "claimable (now db) r \<and> outbox_id r \<notin> locked"
proof -
  from assms(3) obtain r' where "outbox_id r' = outbox_id r" "r' \<in> set (outbox db)"
    "claimable (now db) r'" "outbox_id r' \<notin> locked"
    by (auto simp: claimed_ids_def dest!: in_set_takeD)
  with unique_row [OF assms(1,2)] show ?thesis by metis
qed

lemma claim_outbox_table:
  assumes "unique_ids db"
  shows "table_step db (snd (claim_outbox locked own limit db))"
proof -
  let ?f = "\<lambda>r. if outbox_id r \<in> set (claimed_ids locked limit db) then lease own (now db) r else r"
  have "table_step db (db\<lparr>outbox := map ?f (outbox db)\<rparr>)"
    by (rule table_stepI [where f = ?f]) (use claimed_ids_claimable [OF assms] in \<open>auto intro: same leased\<close>)
  then show ?thesis by (simp add: claim_outbox_def Let_def split: option.splits)
qed

lemma table_step_requests: "table_step db (db'\<lparr>requests := q\<rparr>) \<longleftrightarrow> table_step db db'"
  by (simp add: table_step_def)

lemma succeed_outbox_table: "table_step db (snd (succeed_outbox oid own ver pid db))"
proof -
  have "table_step db (update_outbox (held oid own ver) (delivered_row (now db)) db)"
    by (rule table_step_update) (simp add: held_def delivered)
  then show ?thesis by (simp add: succeed_outbox_def Let_def table_step_requests split: option.splits)
qed

lemma find_held:
  assumes "unique_ids db" "find (held oid own ver) (outbox db) = Some r"
    "r' \<in> set (outbox db)" "held oid own ver r'"
  shows "r' = r"
proof -
  from assms(2) have "r \<in> set (outbox db)" "held oid own ver r" by (auto dest: find_SomeD)
  with unique_row [OF assms(1,3)] assms(4) show ?thesis by (simp add: held_def)
qed

lemma fail_outbox_table:
  assumes "unique_ids db"
  shows "table_step db (snd (fail_outbox oid own ver code db))"
proof (cases "find (held oid own ver) (outbox db)")
  case (Some r)
  note eq = find_held [OF assms Some]
  have leased: "held oid own ver r' \<Longrightarrow> ostate r' = LEASED" for r' by (simp add: held_def)
  have "table_step db (update_outbox (held oid own ver) (retry_row code t) db)"
    if "endswith code (U ''.retryable'')" "attempt_count r < max_attempts db" for t
    using that leased eq by (intro table_step_update retried) auto
  moreover have "table_step db (update_outbox (held oid own ver) (dead_row code) db)"
    if "\<not> (endswith code (U ''.retryable'') \<and> attempt_count r < max_attempts db)"
    using that leased eq by (intro table_step_update died) auto
  ultimately show ?thesis using Some by (simp add: fail_outbox_def Let_def)
qed (simp add: fail_outbox_def)

lemma insert_outbox_table:
  assumes "oid \<notin> outbox_id ` set (outbox db)"
  shows "table_step db (insert_outbox oid ext corr db)"
  unfolding table_step_def
proof (intro conjI exI)
  show "outbox (insert_outbox oid ext corr db) =
      map (\<lambda>r. r) (outbox db) @ [last (outbox (insert_outbox oid ext corr db))]"
    by (simp add: insert_outbox_def)
qed (use assms in \<open>simp_all add: insert_outbox_def fresh_row_def same\<close>)

lemma prepare_payment_table:
  assumes "oid \<notin> outbox_id ` set (outbox db)"
  shows "table_step db (prepare_payment oid ext corr amount currency db)"
proof -
  have "table_step db (insert_outbox oid ext corr (db\<lparr>requests := q\<rparr>)) \<longleftrightarrow> table_step db (insert_outbox oid ext corr db)" for q
    by (simp add: table_step_def insert_outbox_def)
  with insert_outbox_table [OF assms] show ?thesis by (simp add: prepare_payment_def)
qed

lemma confirm_receipt_table: "table_step db (confirm_receipt ext db)"
proof -
  have "table_step db (update_outbox (\<lambda>r. external_request_id r = ext \<and> ostate r \<noteq> CONFIRMED) (confirmed_row (now db)) db)"
    by (rule table_step_update) (simp add: confirmed)
  then show ?thesis by (simp add: confirm_receipt_def Let_def table_step_requests)
qed

lemma tick_table: "table_step db (db\<lparr>now := t\<rparr>)"
  by (rule table_stepI [where f = "\<lambda>r. r"]) (simp_all add: same)

lemma delivery_step_table:
  assumes "delivery_step db db'" and "unique_ids db"
  shows "table_step db db'"
  using assms by cases (simp_all add: claim_outbox_table succeed_outbox_table fail_outbox_table
      prepare_payment_table confirm_receipt_table tick_table)

section \<open>The invariant\<close>

definition row_ok :: "int \<Rightarrow> outbox_row \<Rightarrow> bool" where
  "row_ok limit r \<longleftrightarrow>
     attempt_count r = lease_version r \<and> 0 \<le> lease_version r \<and>
     (lease_owner r \<noteq> None \<longleftrightarrow> ostate r = LEASED) \<and> (lease_until r \<noteq> None \<longleftrightarrow> ostate r = LEASED) \<and>
     (case ostate r of
        PENDING \<Rightarrow> attempt_count r = 0
      | LEASED \<Rightarrow> 1 \<le> attempt_count r
      | RETRY_WAIT \<Rightarrow> 1 \<le> attempt_count r \<and> attempt_count r < limit \<and> next_attempt_at r \<noteq> None \<and>
          (\<exists>code. last_error_code r = Some code \<and> endswith code (U ''.retryable''))
      | DELIVERED \<Rightarrow> 1 \<le> attempt_count r \<and> delivered_at r \<noteq> None
      | DEAD \<Rightarrow> 1 \<le> attempt_count r \<and> (\<exists>code. last_error_code r = Some code \<and>
          (endswith code (U ''.retryable'') \<longrightarrow> limit \<le> attempt_count r))
      | CONFIRMED \<Rightarrow> delivered_at r \<noteq> None)"

definition outbox_ok :: "delivery_db \<Rightarrow> bool" where
  "outbox_ok db \<longleftrightarrow> unique_ids db \<and> (\<forall>r\<in>set (outbox db). row_ok (max_attempts db) r)"

lemma row_step_id: "row_step db r r' \<Longrightarrow> outbox_id r' = outbox_id r"
  by (erule row_step.cases) (simp_all add: row_update_defs)

lemma row_step_ok: "row_step db r r' \<Longrightarrow> row_ok (max_attempts db) r \<Longrightarrow> row_ok (max_attempts db) r'"
  by (erule row_step.cases)
    (auto simp: row_update_defs row_ok_def claimable_def split: outbox_state.splits option.splits)

lemma fresh_row_ok: "fresh_row r \<Longrightarrow> row_ok n r"
  by (simp add: fresh_row_def row_ok_def)

lemma table_step_unique: "table_step db db' \<Longrightarrow> unique_ids db \<Longrightarrow> unique_ids db'"
proof -
  assume "table_step db db'" and u: "unique_ids db"
  then obtain f rows where f: "outbox db' = map f (outbox db) @ rows"
    "\<forall>r\<in>set (outbox db). row_step db r (f r)"
    "\<forall>r\<in>set rows. fresh_row r \<and> outbox_id r \<notin> outbox_id ` set (outbox db)" "distinct (map outbox_id rows)"
    unfolding table_step_def by blast
  from f(2) have ids: "map (outbox_id \<circ> f) (outbox db) = map outbox_id (outbox db)"
    by (auto dest: row_step_id)
  have "map outbox_id (outbox db') = map outbox_id (outbox db) @ map outbox_id rows"
    using f(1) ids by simp
  moreover have "set (map outbox_id (outbox db)) \<inter> set (map outbox_id rows) = {}" 
    using f(3) by (simp add: disjoint_iff) blast
  ultimately show ?thesis using f(4) u by (simp add: unique_ids_def)
qed

lemma table_step_ok:
  assumes "table_step db db'" "outbox_ok db"
  shows "outbox_ok db'"
proof -
  from assms(1) obtain f rows where f: "outbox db' = map f (outbox db) @ rows"
    "\<forall>r\<in>set (outbox db). row_step db r (f r)" "\<forall>r\<in>set rows. fresh_row r"
    and m: "max_attempts db' = max_attempts db"
    unfolding table_step_def by blast
  have "row_ok (max_attempts db) (f r)" if "r \<in> set (outbox db)" for r
    using that f(2) assms(2) row_step_ok unfolding outbox_ok_def by blast
  with f fresh_row_ok have "\<forall>r\<in>set (outbox db'). row_ok (max_attempts db') r" by (auto simp: m)
  with table_step_unique [OF assms(1)] assms(2) show ?thesis by (simp add: outbox_ok_def)
qed

lemma delivery_step_ok: "delivery_step db db' \<Longrightarrow> outbox_ok db \<Longrightarrow> outbox_ok db'"
  using delivery_step_table table_step_ok outbox_ok_def by blast

lemma delivery_steps_ok: "delivery_steps db db' \<Longrightarrow> outbox_ok db \<Longrightarrow> outbox_ok db'"
  by (induction rule: rtranclp_induct) (auto dest: delivery_step_ok)

section \<open>How a row evolves\<close>

text \<open>
  The order in which a row may change: its identity stays, its lease version never decreases,
  a lease that is over stays over, and the terminal states are left only towards \<^verbatim>\<open>CONFIRMED\<close>.
\<close>

definition row_le :: "outbox_row \<Rightarrow> outbox_row \<Rightarrow> bool" where
  "row_le r r' \<longleftrightarrow>
     outbox_id r' = outbox_id r \<and> external_request_id r' = external_request_id r \<and>
     correlation_id r' = correlation_id r \<and> lease_version r \<le> lease_version r' \<and>
     (lease_version r' = lease_version r \<and> ostate r' = LEASED \<longrightarrow>
        ostate r = LEASED \<and> lease_owner r' = lease_owner r) \<and>
     (ostate r = CONFIRMED \<longrightarrow> r' = r) \<and>
     (ostate r = DELIVERED \<longrightarrow> lease_version r' = lease_version r \<and> (ostate r' = DELIVERED \<or> ostate r' = CONFIRMED)) \<and>
     (ostate r = DEAD \<longrightarrow> lease_version r' = lease_version r \<and> (ostate r' = DEAD \<or> ostate r' = CONFIRMED))"

lemma row_le_refl: "row_le r r"
  by (simp add: row_le_def)

lemma row_le_trans: "row_le a b \<Longrightarrow> row_le b c \<Longrightarrow> row_le a c"
  unfolding row_le_def by (cases "ostate a"; cases "ostate b"; simp; linarith?)

lemma row_le_version: "row_le r r' \<Longrightarrow> lease_version r \<le> lease_version r'"
  unfolding row_le_def by blast

lemma row_le_over: "row_le r r' \<Longrightarrow> lease_version r' = lease_version r \<Longrightarrow> ostate r' = LEASED \<Longrightarrow> ostate r = LEASED"
  unfolding row_le_def by blast

lemma row_le_held:
  assumes "row_le r r'" "ver < lease_version r \<or> ver = lease_version r \<and> ostate r \<noteq> LEASED"
  shows "\<not> held oid own ver r'"
  using assms row_le_version [OF assms(1)] row_le_over [OF assms(1)] unfolding held_def by linarith

lemma row_step_le: "row_step db r r' \<Longrightarrow> row_le r r'"
  by (erule row_step.cases) (auto simp: row_update_defs row_le_def claimable_def)

lemma find_row_iff: "unique_ids db \<Longrightarrow> find_row db oid = Some r \<longleftrightarrow> r \<in> set (outbox db) \<and> outbox_id r = oid"
proof
  assume u: "unique_ids db" and r: "r \<in> set (outbox db) \<and> outbox_id r = oid"
  then obtain r' where r': "find_row db oid = Some r'"
    by (cases "find_row db oid") (auto simp: find_row_def find_None_iff)
  then have "r' \<in> set (outbox db) \<and> outbox_id r' = oid" unfolding find_row_def by (rule find_SomeD)
  with r r' unique_row [OF u] show "find_row db oid = Some r" by metis
qed (auto simp: find_row_def dest: find_SomeD)

lemma table_step_row:
  assumes "table_step db db'" "unique_ids db" "find_row db oid = Some r"
  shows "\<exists>r'. find_row db' oid = Some r' \<and> row_le r r'"
proof -
  from assms(2,3) have r: "r \<in> set (outbox db)" "outbox_id r = oid" by (simp_all add: find_row_iff)
  from assms(1) obtain f rows where f: "outbox db' = map f (outbox db) @ rows"
    "\<forall>r\<in>set (outbox db). row_step db r (f r)" unfolding table_step_def by blast
  with r have s: "row_step db r (f r)" "f r \<in> set (outbox db')" by auto
  then have "find_row db' oid = Some (f r)"
    using r row_step_id by (simp add: find_row_iff [OF table_step_unique [OF assms(1,2)]])
  with row_step_le [OF s(1)] show ?thesis by blast
qed

lemma delivery_steps_row:
  assumes "delivery_steps db db'" "unique_ids db" "find_row db oid = Some r"
  shows "unique_ids db' \<and> (\<exists>r'. find_row db' oid = Some r' \<and> row_le r r')"
  using assms(1)
proof (induction rule: rtranclp_induct)
  case base
  with assms row_le_refl show ?case by blast
next
  case (step y z)
  then obtain r' where "unique_ids y" "find_row y oid = Some r'" "row_le r r'" by blast
  moreover from step.hyps(2) have "table_step y z" using delivery_step_table \<open>unique_ids y\<close> by blast
  ultimately show ?case using table_step_row table_step_unique row_le_trans by meson
qed

lemma not_held:
  assumes "unique_ids db" "find_row db oid = Some r" "\<not> held oid own ver r"
  shows "find (held oid own ver) (outbox db) = None"
proof (rule ccontr)
  assume "find (held oid own ver) (outbox db) \<noteq> None"
  then obtain r' where "r' \<in> set (outbox db)" "held oid own ver r'" by (auto dest: find_SomeD)
  moreover then have "find_row db oid = Some r'" using assms(1) by (simp add: find_row_iff held_def)
  ultimately show False using assms by simp
qed

lemma not_held_stale:
  assumes "find (held oid own ver) (outbox db) = None"
  shows "succeed_outbox oid own ver pid db = (Inr stale, db)" "fail_outbox oid own ver code db = (Inr stale, db)"
  using assms by (simp_all add: succeed_outbox_def fail_outbox_def)

lemma lease_simps: "outbox_id (lease own t r) = outbox_id r" "lease_version (lease own t r) = lease_version r + 1"
  by (simp_all add: lease_def)

lemma claim_outbox_row:
  assumes "unique_ids db" "claim_outbox locked own limit db = (Inr rows, db')" "(oid, ver, rest) \<in> set rows"
  shows "\<exists>r. find_row db oid = Some r \<and> claimable (now db) r \<and> oid \<notin> locked \<and> ver = lease_version r + 1 \<and>
    find_row db' oid = Some (lease own (now db) r) \<and>
    rest = (external_request_id r, correlation_id r, request_column db er_amount (external_request_id r),
      request_column db er_currency (external_request_id r))"
proof -
  let ?ids = "set (claimed_ids locked limit db)"
  from assms(2) have ob: "outbox db' = map (\<lambda>r. if outbox_id r \<in> ?ids then lease own (now db) r else r) (outbox db)"
    and rows: "rows = map (returned_row db) (filter (\<lambda>r. outbox_id r \<in> ?ids) (outbox db'))"
    by (auto simp: claim_outbox_def Let_def split: if_splits option.splits)
  from rows assms(3) obtain r' where r': "r' \<in> set (outbox db')" "outbox_id r' \<in> ?ids" "oid = outbox_id r'" "ver = lease_version r'"
    "rest = (external_request_id r', correlation_id r', request_column db er_amount (external_request_id r'),
      request_column db er_currency (external_request_id r'))"
    by (auto simp: returned_row_def)
  with ob obtain r where r: "r \<in> set (outbox db)" "r' = (if outbox_id r \<in> ?ids then lease own (now db) r else r)" by auto
  then have id: "outbox_id r = oid" using r' by (auto simp: lease_def split: if_splits)
  with r r' have l: "r' = lease own (now db) r" by auto
  have "unique_ids db'" using claim_outbox_table [OF assms(1), of locked own limit] assms
    by (metis table_step_unique snd_conv)
  with l have "find_row db' oid = Some (lease own (now db) r)" "ver = lease_version r + 1"
    using r' lease_simps by (metis find_row_iff, metis)
  moreover have "find_row db oid = Some r" using assms(1) r(1) id by (simp add: find_row_iff)
  moreover have "rest = (external_request_id r, correlation_id r, request_column db er_amount (external_request_id r),
      request_column db er_currency (external_request_id r))" using r'(5) l by (simp add: lease_def)
  ultimately show ?thesis using claimed_ids_claimable [OF assms(1) r(1)] r' id by metis
qed

text \<open>The amount and currency of a request never change.\<close>

lemma find_map_same:
  assumes "\<And>e. er_id (f e) = er_id e"
  shows "find (\<lambda>e. er_id e = x) (map f es) = map_option f (find (\<lambda>e. er_id e = x) es)"
  by (induction es) (auto simp: assms)

lemma find_append_Some: "find P xs = Some x \<Longrightarrow> find P (xs @ ys) = Some x"
  by (induction xs) (auto split: if_splits)

lemma request_column_map:
  assumes "requests db' = map f (requests db)" "\<And>e. er_id (f e) = er_id e" "\<And>e. col (f e) = col e"
  shows "request_column db' col x = request_column db col x"
  using assms find_map_same [of f x "requests db"] by (auto simp: request_column_def split: option.splits)

lemma delivery_step_request:
  assumes "delivery_step db db'" "request_column db col x \<noteq> PNone" "\<And>e st. col (e\<lparr>er_state := st\<rparr>) = col e"
  shows "request_column db' col x = request_column db col x"
  using assms(1)
proof cases
  case (claim locked own limit)
  then show ?thesis by (simp add: request_column_def claim_outbox_def Let_def split: option.splits)
next
  case (succeed oid own ver pid)
  show ?thesis
  proof (cases "find (held oid own ver) (outbox db)")
    case (Some r)
    with succeed show ?thesis
      by (intro request_column_map [where f = "\<lambda>e. if er_id e = external_request_id r \<and> er_state e = CREATED
              then e\<lparr>er_state := SENT\<rparr> else e"])
        (simp_all add: succeed_outbox_def Let_def update_outbox_def assms(3))
  qed (use succeed in \<open>simp add: succeed_outbox_def\<close>)
next
  case (fail oid own ver code)
  then show ?thesis
    by (cases "find (held oid own ver) (outbox db)")
      (auto simp: fail_outbox_def Let_def update_outbox_def request_column_def)
next
  case (prepare oid ext corr amount currency)
  from assms(2) obtain e where "find (\<lambda>e. er_id e = x) (requests db) = Some e"
    by (auto simp: request_column_def split: option.splits)
  with prepare show ?thesis
    by (simp add: prepare_payment_def insert_outbox_def request_column_def find_append_Some)
next
  case (confirm ext)
  then show ?thesis
    by (intro request_column_map [where f = "\<lambda>e. if er_id e = ext then e\<lparr>er_state := REQ_CONFIRMED\<rparr> else e"])
      (simp_all add: confirm_receipt_def Let_def update_outbox_def assms(3))
next
  case (tick dt)
  then show ?thesis by (simp add: request_column_def)
qed

lemma delivery_steps_request:
  assumes "delivery_steps db db'" "request_column db col x \<noteq> PNone" "\<And>e st. col (e\<lparr>er_state := st\<rparr>) = col e"
  shows "request_column db' col x = request_column db col x"
  using assms(1)
proof (induction rule: rtranclp_induct)
  case (step y z)
  with assms(2,3) delivery_step_request [of y z col x] show ?case by simp
qed simp

section \<open>Transactions of other parties\<close>

text \<open>
  What may happen to the table besides the reports of one owner: claims by anyone, reports by
  other owners, new requests, receipts, time.
\<close>

inductive foreign_step :: "pystr \<Rightarrow> delivery_db \<Rightarrow> delivery_db \<Rightarrow> bool" for own where
  other_claim: "foreign_step own db (snd (claim_outbox locked own' limit db))"
| other_succeed: "own' \<noteq> own \<Longrightarrow> foreign_step own db (snd (succeed_outbox oid own' ver pid db))"
| other_fail: "own' \<noteq> own \<Longrightarrow> foreign_step own db (snd (fail_outbox oid own' ver code db))"
| other_prepare: "oid \<notin> outbox_id ` set (outbox db) \<Longrightarrow>
    foreign_step own db (prepare_payment oid ext corr amount currency db)"
| other_confirm: "foreign_step own db (confirm_receipt ext db)"
| other_tick: "0 \<le> dt \<Longrightarrow> foreign_step own db (db\<lparr>now := now db + dt\<rparr>)"

abbreviation foreign_steps :: "pystr \<Rightarrow> delivery_db \<Rightarrow> delivery_db \<Rightarrow> bool" where
  "foreign_steps own \<equiv> (foreign_step own)\<^sup>*\<^sup>*"

inductive_cases foreign_stepE: "foreign_step own db db'"

lemma foreign_step_delivery: "foreign_step own db db' \<Longrightarrow> delivery_step db db'"
  by (erule foreign_stepE) (auto intro: delivery_step.intros)

lemma foreign_steps_delivery: "foreign_steps own db db' \<Longrightarrow> delivery_steps db db'"
  by (induction rule: rtranclp_induct) (auto dest: foreign_step_delivery intro: rtranclp.rtrancl_into_rtrancl)

lemma find_row_map:
  assumes "\<And>r. outbox_id (f r) = outbox_id r"
  shows "find (\<lambda>r. outbox_id r = oid) (map f rs) = map_option f (find (\<lambda>r. outbox_id r = oid) rs)"
  by (induction rs) (auto simp: assms)

lemma find_row_update:
  assumes "\<And>r. outbox_id (f r) = outbox_id r"
  shows "find_row (update_outbox P f db) oid = map_option (\<lambda>r. if P r then f r else r) (find_row db oid)"
  using find_row_map [of "\<lambda>r. if P r then f r else r"] assms by (simp add: find_row_def update_outbox_def)

lemma find_row_requests [simp]: "find_row (db\<lparr>requests := q\<rparr>) oid = find_row db oid"
  by (simp add: find_row_def)

text \<open>The policy of the retries stays and time does not go back.\<close>

definition policy_le :: "delivery_db \<Rightarrow> delivery_db \<Rightarrow> bool" where
  "policy_le db db' \<longleftrightarrow> max_attempts db' = max_attempts db \<and> delays_ms db' = delays_ms db \<and> now db \<le> now db'"

lemma delivery_step_policy: "delivery_step db db' \<Longrightarrow> policy_le db db'"
  by (erule delivery_step.cases) (auto simp: policy_le_def claim_outbox_def succeed_outbox_def fail_outbox_def
      prepare_payment_def insert_outbox_def confirm_receipt_def update_outbox_def Let_def split: option.splits)

lemma delivery_steps_policy: "delivery_steps db db' \<Longrightarrow> policy_le db db'"
  by (induction rule: rtranclp_induct) (auto simp: policy_le_def dest!: delivery_step_policy)

text \<open>A row that is not leased to someone else stays as it is, is claimed, or is confirmed.\<close>

definition lost :: "int \<Rightarrow> outbox_row \<Rightarrow> bool" where
  "lost ver r \<longleftrightarrow> ver < lease_version r \<or> ostate r = CONFIRMED"

lemma lost_stays:
  assumes "lost ver r" "row_le r r'"
  shows "lost ver r'"
proof (cases "ostate r = CONFIRMED")
  case True
  with assms(2) have "r' = r" unfolding row_le_def by blast
  with assms(1) show ?thesis by simp
qed (use assms(1) row_le_version [OF assms(2)] in \<open>simp add: lost_def\<close>)

lemma foreign_step_row:
  assumes "foreign_step own db db'" "find_row db oid = Some r" "ostate r = LEASED \<Longrightarrow> lease_owner r = Some own"
  shows "\<exists>r'. find_row db' oid = Some r' \<and> (r' = r \<or> lost (lease_version r) r')"
  using assms(1)
proof cases
  case (other_claim locked own' limit)
  have "find_row (db\<lparr>outbox := map (\<lambda>r. if P (outbox_id r) then lease own' (now db) r else r) (outbox db)\<rparr>) oid =
      Some (if P (outbox_id r) then lease own' (now db) r else r)" for P
    using find_row_map [of "\<lambda>r. if P (outbox_id r) then lease own' (now db) r else r"] assms(2)
    by (simp add: find_row_def lease_def)
  from this [of "\<lambda>x. x \<in> set (claimed_ids locked limit db)"] show ?thesis using assms(2) other_claim
    by (auto simp: claim_outbox_def Let_def lost_def lease_simps split: option.splits)
next
  case (other_succeed own' oid' ver pid)
  then have "\<not> held oid' own' ver r" using assms(3) by (auto simp: held_def)
  with other_succeed assms(2) show ?thesis
    by (simp add: succeed_outbox_def Let_def find_row_update delivered_row_def split: option.splits)
next
  case (other_fail own' oid' ver code)
  then have "\<not> held oid' own' ver r" using assms(3) by (auto simp: held_def)
  with other_fail assms(2) show ?thesis
    by (simp add: fail_outbox_def Let_def find_row_update retry_row_def dead_row_def split: option.splits)
next
  case (other_prepare oid' ext corr amount currency)
  have "find_row (insert_outbox oid' ext corr d) oid = Some r" if "outbox d = outbox db" for d
    using assms(2) that by (simp add: find_row_def insert_outbox_def find_append_Some)
  with other_prepare assms(2) show ?thesis by (simp add: prepare_payment_def)
next
  case (other_confirm ext)
  with assms(2) show ?thesis
    by (simp add: confirm_receipt_def Let_def find_row_update confirmed_row_def lost_def)
next
  case (other_tick dt)
  with assms(2) show ?thesis by (simp add: find_row_def)
qed

lemma foreign_steps_row:
  assumes "foreign_steps own db db'" "unique_ids db" "find_row db oid = Some r"
    and "ostate r = LEASED \<Longrightarrow> lease_owner r = Some own"
  shows "\<exists>r'. find_row db' oid = Some r' \<and> (r' = r \<or> lost (lease_version r) r')"
proof -
  from assms(1) have "unique_ids db' \<and> (\<exists>r'. find_row db' oid = Some r' \<and> (r' = r \<or> lost (lease_version r) r'))"
  proof (induction rule: rtranclp_induct)
    case (step y z)
    then obtain r' where r': "unique_ids y" "find_row y oid = Some r'" "r' = r \<or> lost (lease_version r) r'" by blast
    from step.hyps(2) have t: "table_step y z" using foreign_step_delivery delivery_step_table r'(1) by blast
    from table_step_row [OF t r'(1,2)] obtain r2 where r2: "find_row z oid = Some r2" "row_le r' r2" by blast
    have "r2 = r \<or> lost (lease_version r) r2"
    proof (cases "r' = r")
      case True
      with foreign_step_row [OF step.hyps(2)] r'(2) assms(4) r2(1) show ?thesis by fastforce
    qed (use r'(3) r2(2) lost_stays in blast)
    with r2(1) table_step_unique [OF t r'(1)] show ?case by blast
  qed (use assms(2,3) in simp)
  then show ?thesis by blast
qed

section \<open>A sample run\<close>

text \<open>A payment is queued and claimed by \<^verbatim>\<open>d1\<close>; the lease runs out and \<^verbatim>\<open>d2\<close> claims it.\<close>

definition db_start :: delivery_db where
  "db_start = \<lparr>outbox = [], requests = [], now = 1000, max_attempts = 3, delays_ms = [200, 400, 800]\<rparr>"

definition db_queued :: delivery_db where
  "db_queued = prepare_payment (U ''out-1'') (U ''ext-1'') (U ''corr-1'') (U ''10.00'') (U ''RUB'') db_start"

definition db_leased :: delivery_db where
  "db_leased = snd (claim_outbox {} (U ''d1'') 5 db_queued)"

definition db_expired :: delivery_db where
  "db_expired = db_leased\<lparr>now := now db_leased + 31000\<rparr>"

definition db_released :: delivery_db where
  "db_released = snd (claim_outbox {} (U ''d2'') 5 db_expired)"

definition db_delivered :: delivery_db where
  "db_delivered = snd (succeed_outbox (U ''out-1'') (U ''d2'') 2 (U ''pay-1'') db_released)"

lemma sample_steps:
  "delivery_steps db_start db_queued" "delivery_steps db_start db_leased" "delivery_steps db_leased db_expired"
  "delivery_steps db_released db_delivered"
proof -
  have q: "delivery_step db_start db_queued" unfolding db_queued_def by (rule prepare) (simp add: db_start_def)
  then show "delivery_steps db_start db_queued" by blast
  have "delivery_step db_queued db_leased" unfolding db_leased_def by (rule claim)
  with q show "delivery_steps db_start db_leased" by (meson converse_rtranclp_into_rtranclp r_into_rtranclp)
  show "delivery_steps db_leased db_expired" unfolding db_expired_def by (rule r_into_rtranclp, rule tick) simp
  show "delivery_steps db_released db_delivered" unfolding db_delivered_def by (rule r_into_rtranclp) (rule succeed)
qed

lemma sample_rows:
  "unique_ids db_queued" "unique_ids db_released" "unique_ids db_delivered"
  "map_option lease_version (find_row db_released (U ''out-1'')) = Some 2"
  "map_option ostate (find_row db_delivered (U ''out-1'')) = Some DELIVERED"
  "claim_outbox {} (U ''d1'') 5 db_queued =
     (Inr [(U ''out-1'', 1, U ''ext-1'', U ''corr-1'', PStr (U ''10.00''), PStr (U ''RUB''))], db_leased)"
  "claim_outbox {} (U ''d2'') 5 db_expired =
     (Inr [(U ''out-1'', 2, U ''ext-1'', U ''corr-1'', PStr (U ''10.00''), PStr (U ''RUB''))], db_released)"
  by code_simp+

section \<open>Properties\<close>

text \<open>
  C4. In every state the outbox can reach from the empty table, ids are unique and every row is well
  formed: the attempt count is the number of leases handed out, a row has an owner and a
  deadline exactly while it is leased, a row waiting for a retry has a retryable error and
  attempts left, and a dead row failed terminally or used up its attempts.
\<close>

theorem outbox_invariant:
  assumes "delivery_steps db db'" and "outbox db = []"
  shows "outbox_ok db'"
  using delivery_steps_ok [OF assms(1)] assms(2) by (simp add: outbox_ok_def unique_ids_def)

theorem outbox_invariant_witness: "outbox_ok db_leased"
  using outbox_invariant [OF sample_steps(2)] by (simp add: db_start_def)

text \<open>
  C3. Fencing: once the lease with number \<open>ver\<close> on a row is over (the row was claimed again, or is no
  longer leased), whatever happens afterwards, reporting success or failure under that lease
  answers \<^verbatim>\<open>stale\<close> and changes nothing.
\<close>

theorem stale_lease_has_no_effect:
  assumes "unique_ids db" and "find_row db oid = Some r"
    and "ver < lease_version r \<or> ver = lease_version r \<and> ostate r \<noteq> LEASED"
    and "delivery_steps db db'"
  shows "succeed_outbox oid own ver pid db' = (Inr stale, db') \<and> fail_outbox oid own ver code db' = (Inr stale, db')"
proof -
  from delivery_steps_row [OF assms(4,1,2)] obtain r' where
    r': "unique_ids db'" "find_row db' oid = Some r'" "row_le r r'" by blast
  from row_le_held [OF r'(3) assms(3)] have "\<not> held oid own ver r'" .
  from not_held_stale [OF not_held [OF r'(1,2) this]] show ?thesis by blast
qed

theorem stale_lease_has_no_effect_witness:
  "succeed_outbox (U ''out-1'') (U ''d1'') 1 (U ''pay-1'') db_delivered = (Inr stale, db_delivered)"
proof -
  from sample_rows(4) obtain r where "find_row db_released (U ''out-1'') = Some r" "lease_version r = 2" by auto
  with stale_lease_has_no_effect [OF sample_rows(2), of "U ''out-1''" r 1 db_delivered] sample_steps(4)
  show ?thesis by simp
qed

text \<open>
  C7. No two claims hand out the same lease: when a claim returns a row and a later one returns it
  again, whoever the owners are, the later lease has a larger number.
\<close>

theorem claims_hand_out_fresh_leases:
  assumes "unique_ids db"
    and "claim_outbox locked own limit db = (Inr rows, db1)" and "(oid, ver, rest) \<in> set rows"
    and "delivery_steps db1 db2"
    and "claim_outbox locked' own' limit' db2 = (Inr rows', db3)" and "(oid, ver', rest') \<in> set rows'"
  shows "ver < ver'"
proof -
  from claim_outbox_row [OF assms(1-3)] obtain r where
    r: "ver = lease_version r + 1" "find_row db1 oid = Some (lease own (now db) r)" by blast
  have "unique_ids db1" using claim_outbox_table [OF assms(1), of locked own limit] assms(1,2)
    by (metis table_step_unique snd_conv)
  from delivery_steps_row [OF assms(4) this r(2)] obtain r' where
    "unique_ids db2" "find_row db2 oid = Some r'" "row_le (lease own (now db) r) r'" by blast
  moreover from claim_outbox_row [OF \<open>unique_ids db2\<close> assms(5,6)] obtain r2 where
    "find_row db2 oid = Some r2" "ver' = lease_version r2 + 1" by blast
  moreover have "lease_version (lease own (now db) r) = ver" using r by (simp add: lease_def)
  ultimately show ?thesis using row_le_version [of "lease own (now db) r" r'] by simp
qed

theorem claims_hand_out_fresh_leases_witness: "(1::int) < 2 \<and> snd (claim_outbox {} (U ''d2'') 5 db_expired) = db_released"
  using claims_hand_out_fresh_leases [OF sample_rows(1,6) _ sample_steps(3) sample_rows(7),
      of "U ''out-1''" 1 "(U ''ext-1'', U ''corr-1'', PStr (U ''10.00''), PStr (U ''RUB''))" 2
         "(U ''ext-1'', U ''corr-1'', PStr (U ''10.00''), PStr (U ''RUB''))"] sample_rows(7)
  by simp

text \<open>
  C8. Terminal states are final: a delivered or dead row is never leased again, keeps its lease
  number and can only become confirmed, and a confirmed row never changes.
\<close>

theorem terminal_rows_stay:
  assumes "unique_ids db" and "find_row db oid = Some r" and "delivery_steps db db'"
    and "ostate r \<in> {DELIVERED, DEAD, CONFIRMED}"
  shows "\<exists>r'. find_row db' oid = Some r' \<and> ostate r' \<in> {ostate r, CONFIRMED} \<and>
    lease_version r' = lease_version r \<and> (ostate r = CONFIRMED \<longrightarrow> r' = r)"
proof -
  from delivery_steps_row [OF assms(3,1,2)] obtain r' where "find_row db' oid = Some r'" "row_le r r'" by blast
  moreover from \<open>row_le r r'\<close> assms(4) have "ostate r' \<in> {ostate r, CONFIRMED} \<and> lease_version r' = lease_version r"
    unfolding row_le_def by (elim insertE emptyE) (metis insertCI)+
  moreover from \<open>row_le r r'\<close> have "ostate r = CONFIRMED \<longrightarrow> r' = r" unfolding row_le_def by blast
  ultimately show ?thesis by blast
qed

theorem terminal_rows_stay_witness:
  "\<exists>r. find_row (snd (claim_outbox {} (U ''d1'') 5 db_delivered)) (U ''out-1'') = Some r \<and> ostate r \<in> {DELIVERED, CONFIRMED}"
proof -
  from sample_rows(5) obtain r where "find_row db_delivered (U ''out-1'') = Some r" "ostate r = DELIVERED" by auto
  with terminal_rows_stay [OF sample_rows(3), of "U ''out-1''" r "snd (claim_outbox {} (U ''d1'') 5 db_delivered)"]
  show ?thesis using claim [of db_delivered "{}" "U ''d1''" 5] by auto
qed

end
