(* ===== verification/App_Store.thy ===== *)
theory App_Store
  imports App_Delivery Py_State
begin

text \<open>
  The dispatcher's view of the outbox: three calls through the database driver. The contract
  \<open>outbox_store\<close> says what a call may do to the database, \<open>leasing_store\<close> adds what a lease is
  worth. Both are interpreted on the SQL functions behind a connection that may break before or
  after a statement took effect. The driver's conversion of a text parameter is the argument
  \<open>adapt\<close>.
\<close>

section \<open>The interface\<close>

record 'db outbox_ops =
  op_claim :: "pystr \<Rightarrow> int \<Rightarrow> ('db, claimed_row list) py"
  op_succeed :: "pystr \<Rightarrow> pystr \<Rightarrow> int \<Rightarrow> pystr \<Rightarrow> ('db, pyval) py"
  op_fail :: "pystr \<Rightarrow> pystr \<Rightarrow> int \<Rightarrow> pystr \<Rightarrow> ('db, pyval) py"

locale outbox_store = state_order step
  for step :: "'db \<Rightarrow> 'db \<Rightarrow> bool" +
  fixes ops :: "'db outbox_ops"
  assumes claim_step: "preserves step (op_claim ops own n)"
    and succeed_step: "preserves step (op_succeed ops oid own ver pid)"
    and fail_step: "preserves step (op_fail ops oid own ver code)"

text \<open>How the provider answered a claimed row, as it is reported to the store.\<close>

datatype outcome = Accepted | Failed pystr

text \<open>
  The contract of a lease. \<open>interference\<close> is what other parties may do between two calls, \<open>live\<close>
  holds of a lease that was handed out, \<open>settled\<close> of one whose outcome was reported. The two
  persist through interference and through reports on other rows.
\<close>

definition others_kept :: "('db \<Rightarrow> pystr \<Rightarrow> int \<Rightarrow> bool) \<Rightarrow> ('db \<Rightarrow> pystr \<Rightarrow> int \<Rightarrow> outcome \<Rightarrow> bool) \<Rightarrow>
    pystr \<Rightarrow> 'db \<Rightarrow> 'db \<Rightarrow> bool" where
  "others_kept live settled oid s s' \<longleftrightarrow> (\<forall>oid' ver'. oid' \<noteq> oid \<longrightarrow>
     (live s oid' ver' \<longrightarrow> live s' oid' ver') \<and> (\<forall>x. settled s oid' ver' x \<longrightarrow> settled s' oid' ver' x))"

locale leasing_store = outbox_store step ops
  for step :: "'db \<Rightarrow> 'db \<Rightarrow> bool" and ops :: "'db outbox_ops" +
  fixes own :: pystr
    and quiet :: "'db \<Rightarrow> bool"
    and interference :: "'db \<Rightarrow> 'db \<Rightarrow> bool"
    and live :: "'db \<Rightarrow> pystr \<Rightarrow> int \<Rightarrow> bool"
    and settled :: "'db \<Rightarrow> pystr \<Rightarrow> int \<Rightarrow> outcome \<Rightarrow> bool"
    and plain :: "pystr \<Rightarrow> bool"
  assumes claim_live: "quiet s \<Longrightarrow> op_claim ops own n s = (Inr rows, s') \<Longrightarrow>
      quiet s' \<and> distinct (map fst rows) \<and> (\<forall>row\<in>set rows. live s' (fst row) (fst (snd row)))"
    and interference_keeps: "quiet s \<Longrightarrow> interference s s' \<Longrightarrow> quiet s' \<and>
      (live s oid ver \<longrightarrow> live s' oid ver) \<and> (settled s oid ver x \<longrightarrow> settled s' oid ver x)"
    and succeed_settles: "quiet s \<Longrightarrow> live s oid ver \<Longrightarrow> plain pid \<Longrightarrow> plain own \<Longrightarrow>
      \<exists>v s'. op_succeed ops oid own ver pid s = (Inr v, s') \<and> quiet s' \<and> settled s' oid ver Accepted \<and>
        others_kept live settled oid s s'"
    and fail_settles: "quiet s \<Longrightarrow> live s oid ver \<Longrightarrow> plain code \<Longrightarrow> plain own \<Longrightarrow>
      \<exists>v s'. op_fail ops oid own ver code s = (Inr v, s') \<and> quiet s' \<and> settled s' oid ver (Failed code) \<and>
        others_kept live settled oid s s'"

section \<open>The SQL functions behind a connection\<close>

datatype fault = Fine | LostBefore | LostAfter

record pg =
  pgdb :: delivery_db
  faults :: "fault list"
  locked_rows :: "pystr set"

definition connection_lost :: pyexn where
  "connection_lost = PsycopgError (U ''the connection is lost'')"

definition statement :: "(delivery_db \<Rightarrow> 'a res \<times> delivery_db) \<Rightarrow> (pg, 'a) py" where
  "statement f s =
     (let s' = s\<lparr>faults := tl (faults s)\<rparr>; done = s'\<lparr>pgdb := snd (f (pgdb s))\<rparr> in
      case faults s of
        LostBefore # _ \<Rightarrow> (Inl connection_lost, s')
      | LostAfter # _ \<Rightarrow> (Inl connection_lost, done)
      | _ \<Rightarrow> (fst (f (pgdb s)), done))"

definition pg_ops :: "(pystr \<Rightarrow> unit res) \<Rightarrow> pg outbox_ops" where
  "pg_ops adapt =
     \<lparr>op_claim = \<lambda>own n. py_seq (py_lift (adapt own))
        (py_bind py_get (\<lambda>s. statement (claim_outbox (locked_rows s) own n))),
      op_succeed = \<lambda>oid own ver pid. py_seq (py_lift (for_each adapt [own, pid]))
        (statement (succeed_outbox oid own ver pid)),
      op_fail = \<lambda>oid own ver code. py_seq (py_lift (for_each adapt [own, code]))
        (statement (fail_outbox oid own ver code))\<rparr>"

definition pg_step :: "pg \<Rightarrow> pg \<Rightarrow> bool" where
  "pg_step s s' = delivery_steps (pgdb s) (pgdb s')"

definition pg_quiet :: "pg \<Rightarrow> bool" where
  "pg_quiet s \<longleftrightarrow> set (faults s) \<subseteq> {Fine} \<and> outbox_ok (pgdb s)"

text \<open>
  First reading: any transactions of any parties may come in between; a lease that was handed out
  is held or over, and a settled one is over.
\<close>

definition pg_traffic :: "pg \<Rightarrow> pg \<Rightarrow> bool" where
  "pg_traffic s s' \<longleftrightarrow> set (faults s') \<subseteq> {Fine} \<and> delivery_steps (pgdb s) (pgdb s')"

definition over :: "int \<Rightarrow> outbox_row \<Rightarrow> bool" where
  "over ver r \<longleftrightarrow> ver < lease_version r \<or> ver = lease_version r \<and> ostate r \<noteq> LEASED"

definition pg_issued :: "pystr \<Rightarrow> pg \<Rightarrow> pystr \<Rightarrow> int \<Rightarrow> bool" where
  "pg_issued own s oid ver \<longleftrightarrow> (\<exists>r. find_row (pgdb s) oid = Some r \<and> (held oid own ver r \<or> over ver r))"

definition pg_over :: "pg \<Rightarrow> pystr \<Rightarrow> int \<Rightarrow> bool" where
  "pg_over s oid ver \<longleftrightarrow> (\<exists>r. find_row (pgdb s) oid = Some r \<and> over ver r)"

text \<open>
  Second reading: nobody else reports under this owner. A lease that was handed out is held or
  lost, that is, the row was claimed again or confirmed; the row of a settled lease is lost or
  shows the reported outcome. \<open>since\<close> is the time before which no report is made.
\<close>

definition pg_foreign :: "pystr \<Rightarrow> pg \<Rightarrow> pg \<Rightarrow> bool" where
  "pg_foreign own s s' \<longleftrightarrow> set (faults s') \<subseteq> {Fine} \<and> foreign_steps own (pgdb s) (pgdb s')"

definition pg_quiet_since :: "int \<Rightarrow> pg \<Rightarrow> bool" where
  "pg_quiet_since since s \<longleftrightarrow> pg_quiet s \<and> since \<le> now (pgdb s)"

definition pg_live :: "pystr \<Rightarrow> pg \<Rightarrow> pystr \<Rightarrow> int \<Rightarrow> bool" where
  "pg_live own s oid ver \<longleftrightarrow> (\<exists>r. find_row (pgdb s) oid = Some r \<and> (held oid own ver r \<or> lost ver r))"

definition shows_outcome :: "int \<Rightarrow> delivery_db \<Rightarrow> outcome \<Rightarrow> outbox_row \<Rightarrow> bool" where
  "shows_outcome since db x r = (case x of
     Accepted \<Rightarrow> ostate r = DELIVERED
   | Failed code \<Rightarrow> last_error_code r = Some code \<and>
       (if endswith code (U ''.retryable'') \<and> attempt_count r < max_attempts db
        then ostate r = RETRY_WAIT \<and> (\<exists>t. since \<le> t \<and> t \<le> now db \<and>
          next_attempt_at r = Some (t + retry_delay (delays_ms db) (attempt_count r)))
        else ostate r = DEAD))"

definition pg_settled :: "int \<Rightarrow> pg \<Rightarrow> pystr \<Rightarrow> int \<Rightarrow> outcome \<Rightarrow> bool" where
  "pg_settled since s oid ver x \<longleftrightarrow> (\<exists>r. find_row (pgdb s) oid = Some r \<and>
     (lost ver r \<or> lease_version r = ver \<and> shows_outcome since (pgdb s) x r))"

section \<open>Interpretations\<close>

lemma statement_steps:
  assumes "\<And>db. delivery_steps db (snd (f db))"
  shows "pg_step s (snd (statement f s))"
  using assms by (auto simp: statement_def Let_def pg_step_def split: list.splits fault.splits)

interpretation pg_order: state_order pg_step
  by unfold_locales (auto simp: pg_step_def)

lemma pg_claim_steps: "preserves pg_step (py_bind py_get (\<lambda>s. statement (claim_outbox (locked_rows s) own n)))"
  by (rule pg_order.bind) (auto simp: preserves_def pg_order.refl intro!: statement_steps claim)

lemma pg_finish_steps:
  "preserves pg_step (statement (succeed_outbox oid own ver pid))"
  "preserves pg_step (statement (fail_outbox oid own ver code))"
  by (auto simp: preserves_def intro!: statement_steps succeed fail)

interpretation pg_store: outbox_store pg_step "pg_ops adapt" for adapt
  by unfold_locales (simp_all add: pg_ops_def pg_order.seq pg_order.pure pg_claim_steps pg_finish_steps)

lemma statement_quiet:
  assumes "pg_quiet s"
  shows "statement f s = (fst (f (pgdb s)), s\<lparr>faults := tl (faults s), pgdb := snd (f (pgdb s))\<rparr>)"
    and "set (tl (faults s)) \<subseteq> {Fine}"
  using assms by (cases "faults s"; auto simp: statement_def Let_def pg_quiet_def split: fault.splits)+

text \<open>A claim leaves its rows leased, each once.\<close>

lemma pg_claim:
  assumes q: "pg_quiet s" and c: "op_claim (pg_ops adapt) own n s = (Inr rows, s')"
  shows "pg_quiet s'" "now (pgdb s') = now (pgdb s)" "distinct (map fst rows)"
    and "row \<in> set rows \<Longrightarrow> \<exists>r. find_row (pgdb s') (fst row) = Some r \<and> held (fst row) own (fst (snd row)) r"
proof -
  obtain db' where db': "claim_outbox (locked_rows s) own n (pgdb s) = (Inr rows, db')"
    "s' = s\<lparr>faults := tl (faults s), pgdb := db'\<rparr>"
    using c by (cases "adapt own"; cases "claim_outbox (locked_rows s) own n (pgdb s)")
      (auto simp: pg_ops_def py_seq_def py_bind_def statement_quiet [OF q] split: sum.splits prod.splits)
  have u: "unique_ids (pgdb s)" using q by (simp add: pg_quiet_def outbox_ok_def)
  have ok: "outbox_ok db'" using table_step_ok [OF claim_outbox_table [OF u, of "locked_rows s" own n]] q db'
    by (simp add: pg_quiet_def)
  then show "pg_quiet s'" using statement_quiet(2) [OF q] db' by (simp add: pg_quiet_def)
  show "now (pgdb s') = now (pgdb s)" using db'
    by (auto simp: claim_outbox_def Let_def split: if_splits option.splits)
  have "rows = map (returned_row (pgdb s))
      (filter (\<lambda>r. outbox_id r \<in> set (claimed_ids (locked_rows s) n (pgdb s))) (outbox db'))"
    using db'(1) by (auto simp: claim_outbox_def Let_def split: if_splits option.splits)
  then show "distinct (map fst rows)" using ok
    by (simp add: returned_row_def outbox_ok_def unique_ids_def comp_def distinct_map_filter)
  assume "row \<in> set rows"
  moreover obtain oid ver rest where row: "row = (oid, ver, rest)" by (cases row) auto
  ultimately obtain r where "find_row db' oid = Some (lease own (now (pgdb s)) r)"
    "ver = lease_version r + 1" "find_row (pgdb s) oid = Some r"
    using claim_outbox_row [OF u db'(1)] by blast
  then show "\<exists>r. find_row (pgdb s') (fst row) = Some r \<and> held (fst row) own (fst (snd row)) r"
    using u db'(2) row by (simp add: held_def lease_def find_row_iff)
qed

text \<open>A report on a held row rewrites it, a report on any other row is stale; the other rows stay.\<close>

definition reports :: "(delivery_db \<Rightarrow> 'a res \<times> delivery_db) \<Rightarrow> pystr \<Rightarrow> pystr \<Rightarrow> int \<Rightarrow>
    (delivery_db \<Rightarrow> outbox_row \<Rightarrow> outbox_row) \<Rightarrow> bool" where
  "reports op oid own ver f \<longleftrightarrow> (\<forall>db r. unique_ids db \<longrightarrow> find_row db oid = Some r \<longrightarrow>
     (\<exists>v db'. op db = (Inr v, db') \<and> policy_le db db' \<and> now db' = now db \<and>
        find_row db' oid = Some (if held oid own ver r then f db r else r) \<and>
        (\<forall>x. x \<noteq> oid \<longrightarrow> find_row db' x = find_row db x)))"

definition failed_row :: "pystr \<Rightarrow> delivery_db \<Rightarrow> outbox_row \<Rightarrow> outbox_row" where
  "failed_row code db r =
     (if endswith code (U ''.retryable'') \<and> attempt_count r < max_attempts db
      then retry_row code (now db + retry_delay (delays_ms db) (attempt_count r)) r else dead_row code r)"

lemma find_held_row:
  assumes "unique_ids db" "find_row db oid = Some r" "held oid own ver r"
  shows "find (held oid own ver) (outbox db) = Some r"
proof (cases "find (held oid own ver) (outbox db)")
  case None
  with assms show ?thesis using find_NoneD by (fastforce simp: find_row_iff)
next
  case (Some r')
  with find_held [OF assms(1) Some _ assms(3)] assms show ?thesis by (simp add: find_row_iff)
qed

lemma update_held:
  assumes "unique_ids db" "find_row db oid = Some r" "held oid own ver r" "\<And>r. outbox_id (f r) = outbox_id r"
  shows "find_row (update_outbox (held oid own ver) f db) oid = Some (f r)"
    and "x \<noteq> oid \<Longrightarrow> find_row (update_outbox (held oid own ver) f db) x = find_row db x"
proof -
  show "find_row (update_outbox (held oid own ver) f db) oid = Some (f r)"
    using assms by (simp add: find_row_update)
  assume "x \<noteq> oid"
  then have "\<not> held oid own ver r'" if "find_row db x = Some r'" for r'
    using that assms(1) by (auto simp: find_row_iff held_def)
  then show "find_row (update_outbox (held oid own ver) f db) x = find_row db x"
    by (cases "find_row db x") (auto simp: find_row_update assms(4))
qed

lemma row_update_ids:
  "outbox_id (delivered_row t r) = outbox_id r" "outbox_id (retry_row code t r) = outbox_id r"
  "outbox_id (dead_row code r) = outbox_id r"
  by (simp_all add: row_update_defs)

lemma succeed_reports:
  "reports (succeed_outbox oid own ver pid) oid own ver (\<lambda>db. delivered_row (now db))"
  unfolding reports_def
proof (intro allI impI)
  fix db r
  assume u: "unique_ids db" "find_row db oid = Some r"
  show "\<exists>v db'. succeed_outbox oid own ver pid db = (Inr v, db') \<and> policy_le db db' \<and> now db' = now db \<and>
      find_row db' oid = Some (if held oid own ver r then delivered_row (now db) r else r) \<and>
      (\<forall>x. x \<noteq> oid \<longrightarrow> find_row db' x = find_row db x)"
  proof (cases "held oid own ver r")
    case True
    with find_held_row [OF u True] update_held [OF u True, of "delivered_row (now db)"] show ?thesis
      by (simp add: succeed_outbox_def Let_def row_update_ids policy_le_def update_outbox_def)
  qed (use not_held [OF u] u not_held_stale(1) in \<open>simp add: policy_le_def\<close>)
qed

lemma fail_reports: "reports (fail_outbox oid own ver code) oid own ver (failed_row code)"
  unfolding reports_def
proof (intro allI impI)
  fix db r
  assume u: "unique_ids db" "find_row db oid = Some r"
  show "\<exists>v db'. fail_outbox oid own ver code db = (Inr v, db') \<and> policy_le db db' \<and> now db' = now db \<and>
      find_row db' oid = Some (if held oid own ver r then failed_row code db r else r) \<and>
      (\<forall>x. x \<noteq> oid \<longrightarrow> find_row db' x = find_row db x)"
  proof (cases "held oid own ver r")
    case True
    have "policy_le db (update_outbox P f db) \<and> now (update_outbox P f db) = now db" for P f
      by (simp add: policy_le_def update_outbox_def)
    with True find_held_row [OF u True] update_held [OF u True, of "dead_row code"]
      update_held [OF u True, of "retry_row code t" for t] show ?thesis
      by (simp add: fail_outbox_def Let_def row_update_ids failed_row_def)
  qed (use not_held [OF u] u not_held_stale(2) in \<open>simp add: policy_le_def\<close>)
qed

text \<open>The same through the connection.\<close>

definition reported :: "pg \<Rightarrow> pystr \<Rightarrow> outbox_row \<Rightarrow> pg \<Rightarrow> bool" where
  "reported s oid r s' \<longleftrightarrow> pg_quiet s' \<and> policy_le (pgdb s) (pgdb s') \<and> find_row (pgdb s') oid = Some r \<and>
     (\<forall>x. x \<noteq> oid \<longrightarrow> find_row (pgdb s') x = find_row (pgdb s) x)"

lemma statement_reports:
  assumes "pg_quiet s" "reports f oid own ver g" "find_row (pgdb s) oid = Some r"
    and "outbox_ok (snd (f (pgdb s)))"
  shows "\<exists>v s'. statement f s = (Inr v, s') \<and> reported s oid (if held oid own ver r then g (pgdb s) r else r) s'"
proof -
  from assms(1) have "unique_ids (pgdb s)" by (simp add: pg_quiet_def outbox_ok_def)
  with assms(2,3) obtain v db' where "f (pgdb s) = (Inr v, db')" "policy_le (pgdb s) db'"
    "find_row db' oid = Some (if held oid own ver r then g (pgdb s) r else r)"
    "\<forall>x. x \<noteq> oid \<longrightarrow> find_row db' x = find_row (pgdb s) x" unfolding reports_def by blast
  with assms(4) statement_quiet(1) [OF assms(1), where f = f] statement_quiet(2) [OF assms(1)] show ?thesis
    by (simp add: reported_def pg_quiet_def)
qed

lemma pg_reports:
  assumes q: "pg_quiet s" and f: "find_row (pgdb s) oid = Some r" and "adapt t = Inr ()" "adapt own = Inr ()"
  shows "\<exists>v s'. op_succeed (pg_ops adapt) oid own ver t s = (Inr v, s') \<and>
      reported s oid (if held oid own ver r then delivered_row (now (pgdb s)) r else r) s'"
    and "\<exists>v s'. op_fail (pg_ops adapt) oid own ver t s = (Inr v, s') \<and>
      reported s oid (if held oid own ver r then failed_row t (pgdb s) r else r) s'"
proof -
  have ok: "outbox_ok (snd (succeed_outbox oid own ver t (pgdb s)))" "outbox_ok (snd (fail_outbox oid own ver t (pgdb s)))"
    using q delivery_step_ok [OF succeed] delivery_step_ok [OF fail] by (simp_all add: pg_quiet_def)
  show "\<exists>v s'. op_succeed (pg_ops adapt) oid own ver t s = (Inr v, s') \<and>
      reported s oid (if held oid own ver r then delivered_row (now (pgdb s)) r else r) s'"
    using statement_reports [OF q succeed_reports f ok(1)] assms(3,4) by (simp add: pg_ops_def py_seq_def py_bind_def)
  show "\<exists>v s'. op_fail (pg_ops adapt) oid own ver t s = (Inr v, s') \<and>
      reported s oid (if held oid own ver r then failed_row t (pgdb s) r else r) s'"
    using statement_reports [OF q fail_reports f ok(2)] assms(3,4) by (simp add: pg_ops_def py_seq_def py_bind_def)
qed

lemma row_le_over_stays: "row_le r r' \<Longrightarrow> over ver r \<Longrightarrow> over ver r'"
  using row_le_version [of r r'] row_le_over [of r r'] unfolding over_def by fastforce

lemma row_le_issued_stays: "row_le r r' \<Longrightarrow> held oid own ver r \<Longrightarrow> held oid own ver r' \<or> over ver r'"
  unfolding row_le_def held_def over_def by fastforce

lemma failed_row_over: "held oid own ver r \<Longrightarrow> over ver (failed_row code db r)"
  by (simp add: held_def over_def failed_row_def row_update_defs)

lemma delivered_row_over: "held oid own ver r \<Longrightarrow> over ver (delivered_row t r)"
  by (simp add: held_def over_def row_update_defs)

lemma shows_outcome_later: "shows_outcome since db x r \<Longrightarrow> policy_le db db' \<Longrightarrow> shows_outcome since db' x r"
  by (cases x) (fastforce simp: shows_outcome_def policy_le_def)+

lemma shows_outcome_over: "shows_outcome since db x r \<Longrightarrow> ostate r \<noteq> LEASED"
  by (cases x) (auto simp: shows_outcome_def split: if_splits)

lemma reported_shows:
  assumes "held oid own ver r"
  shows "lease_version (delivered_row t r) = ver \<and> shows_outcome since db Accepted (delivered_row t r)"
    and "since \<le> now db \<Longrightarrow> lease_version (failed_row code db r) = ver \<and>
      shows_outcome since db (Failed code) (failed_row code db r)"
  using assms by (auto simp: held_def shows_outcome_def failed_row_def row_update_defs)

interpretation pg_any: leasing_store pg_step "pg_ops adapt" own pg_quiet pg_traffic "pg_issued own"
  "\<lambda>s oid ver _. pg_over s oid ver" "\<lambda>t. adapt t = Inr ()" for adapt own
proof unfold_locales
  fix s n rows s'
  assume c: "pg_quiet s" "op_claim (pg_ops adapt) own n s = (Inr rows, s')"
  then show "pg_quiet s' \<and> distinct (map fst rows) \<and> (\<forall>row\<in>set rows. pg_issued own s' (fst row) (fst (snd row)))"
    using pg_claim [OF c] unfolding pg_issued_def by blast
next
  fix s s' oid ver and x :: outcome
  assume q: "pg_quiet s" and t: "pg_traffic s s'"
  then have st: "delivery_steps (pgdb s) (pgdb s')" "unique_ids (pgdb s)"
    by (simp_all add: pg_traffic_def pg_quiet_def outbox_ok_def)
  from delivery_steps_row [OF st] have row: "\<exists>r'. find_row (pgdb s') oid = Some r' \<and> row_le r r'"
    if "find_row (pgdb s) oid = Some r" for r using that by blast
  have "pg_quiet s'" using t delivery_steps_ok [OF st(1)] q by (simp add: pg_traffic_def pg_quiet_def)
  moreover have "pg_issued own s oid ver \<longrightarrow> pg_issued own s' oid ver"
    unfolding pg_issued_def using row row_le_issued_stays row_le_over_stays by meson
  moreover have "pg_over s oid ver \<longrightarrow> pg_over s' oid ver"
    unfolding pg_over_def using row row_le_over_stays by meson
  ultimately show "pg_quiet s' \<and> (pg_issued own s oid ver \<longrightarrow> pg_issued own s' oid ver) \<and>
      (pg_over s oid ver \<longrightarrow> pg_over s' oid ver)" by blast
next
  fix s oid ver t
  assume h: "pg_quiet s" "pg_issued own s oid ver" "adapt t = Inr ()" "adapt own = Inr ()"
  then obtain r where r: "find_row (pgdb s) oid = Some r" "held oid own ver r \<or> over ver r"
    unfolding pg_issued_def by blast
  have fin: "pg_quiet s' \<and> pg_over s' oid ver \<and> others_kept (pg_issued own) (\<lambda>s oid ver _. pg_over s oid ver) oid s s'"
    if "reported s oid (if held oid own ver r then r' else r) s'" "held oid own ver r \<Longrightarrow> over ver r'" for s' r'
    using that r(2) by (auto simp: reported_def pg_over_def pg_issued_def others_kept_def)
  show "\<exists>v s'. op_succeed (pg_ops adapt) oid own ver t s = (Inr v, s') \<and> pg_quiet s' \<and> pg_over s' oid ver \<and>
      others_kept (pg_issued own) (\<lambda>s oid ver _. pg_over s oid ver) oid s s'"
    using pg_reports(1) [OF h(1) r(1) h(3,4), of ver] fin delivered_row_over by blast
  show "\<exists>v s'. op_fail (pg_ops adapt) oid own ver t s = (Inr v, s') \<and> pg_quiet s' \<and> pg_over s' oid ver \<and>
      others_kept (pg_issued own) (\<lambda>s oid ver _. pg_over s oid ver) oid s s'"
    using pg_reports(2) [OF h(1) r(1) h(3,4), of ver] fin failed_row_over by blast
qed

interpretation pg_own: leasing_store pg_step "pg_ops adapt" own "pg_quiet_since since" "pg_foreign own" "pg_live own"
  "pg_settled since" "\<lambda>t. adapt t = Inr ()" for adapt own since
proof unfold_locales
  fix s n rows s'
  assume c: "pg_quiet_since since s" "op_claim (pg_ops adapt) own n s = (Inr rows, s')"
  then show "pg_quiet_since since s' \<and> distinct (map fst rows) \<and> (\<forall>row\<in>set rows. pg_live own s' (fst row) (fst (snd row)))"
  proof -
    from c(1) have q: "pg_quiet s" "since \<le> now (pgdb s)" by (simp_all add: pg_quiet_since_def)
    note claimed = pg_claim [OF q(1) c(2)]
    from claimed(1-3) q(2) have "pg_quiet_since since s'" "distinct (map fst rows)" by (simp_all add: pg_quiet_since_def)
    with claimed(4) show ?thesis unfolding pg_live_def by blast
  qed
next
  fix s s' oid ver x
  assume q: "pg_quiet_since since s" and t: "pg_foreign own s s'"
  then have st: "foreign_steps own (pgdb s) (pgdb s')" "delivery_steps (pgdb s) (pgdb s')" "unique_ids (pgdb s)"
    using foreign_steps_delivery by (auto simp: pg_foreign_def pg_quiet_since_def pg_quiet_def outbox_ok_def)
  note pol = delivery_steps_policy [OF st(2)]
  have lost: "\<exists>r'. find_row (pgdb s') oid = Some r' \<and> lost ver r'" if "find_row (pgdb s) oid = Some r" "lost ver r" for r
    using delivery_steps_row [OF st(2,3) that(1)] lost_stays [OF that(2)] by blast
  have row: "\<exists>r'. find_row (pgdb s') oid = Some r' \<and> (r' = r \<or> lost ver r')"
    if "find_row (pgdb s) oid = Some r" "lease_version r = ver" "ostate r = LEASED \<Longrightarrow> lease_owner r = Some own" for r
    using foreign_steps_row [OF st(1,3) that(1,3)] that(2) by blast
  have "pg_quiet_since since s'" using q t pol delivery_steps_ok [OF st(2)]
    by (simp add: pg_foreign_def pg_quiet_since_def pg_quiet_def policy_le_def)
  moreover have "pg_live own s' oid ver" if live: "pg_live own s oid ver"
  proof -
    from live obtain r where r: "find_row (pgdb s) oid = Some r" "held oid own ver r \<or> lost ver r"
      unfolding pg_live_def by blast
    show ?thesis
    proof (cases "lost ver r")
      case False
      with r(2) have "held oid own ver r" by blast
      with row [OF r(1)] show ?thesis by (auto simp: pg_live_def held_def)
    qed (use lost r(1) in \<open>auto simp: pg_live_def\<close>)
  qed
  moreover have "pg_settled since s' oid ver x" if settled: "pg_settled since s oid ver x"
  proof -
    from settled obtain r where r: "find_row (pgdb s) oid = Some r"
      "lost ver r \<or> lease_version r = ver \<and> shows_outcome since (pgdb s) x r" unfolding pg_settled_def by blast
    show ?thesis
    proof (cases "lost ver r")
      case False
      with r(2) have sh: "lease_version r = ver" "shows_outcome since (pgdb s) x r" by blast+
      with row [OF r(1)] shows_outcome_over have "\<exists>r'. find_row (pgdb s') oid = Some r' \<and> (r' = r \<or> lost ver r')" by blast
      with sh shows_outcome_later [OF _ pol] show ?thesis unfolding pg_settled_def by blast
    qed (use lost r(1) in \<open>auto simp: pg_settled_def\<close>)
  qed
  ultimately show "pg_quiet_since since s' \<and> (pg_live own s oid ver \<longrightarrow> pg_live own s' oid ver) \<and>
      (pg_settled since s oid ver x \<longrightarrow> pg_settled since s' oid ver x)" by blast
next
  fix s oid ver t
  assume h: "pg_quiet_since since s" "pg_live own s oid ver" "adapt t = Inr ()" "adapt own = Inr ()"
  then obtain r where r: "find_row (pgdb s) oid = Some r" "held oid own ver r \<or> lost ver r"
    unfolding pg_live_def by blast
  from h(1) have q: "pg_quiet s" and since: "since \<le> now (pgdb s)" by (simp_all add: pg_quiet_since_def)
  have fin: "pg_quiet_since since s' \<and> pg_settled since s' oid ver x \<and> others_kept (pg_live own) (pg_settled since) oid s s'"
    if rep: "reported s oid (if held oid own ver r then r' else r) s'"
      and sh: "held oid own ver r \<Longrightarrow> lease_version r' = ver \<and> shows_outcome since (pgdb s) x r'" for s' r' x
  proof -
    from rep have pol: "policy_le (pgdb s) (pgdb s')" by (simp add: reported_def)
    have "pg_settled since s' oid ver x"
      using rep sh shows_outcome_later [OF _ pol] r(2) by (auto simp: reported_def pg_settled_def)
    moreover have "others_kept (pg_live own) (pg_settled since) oid s s'"
      using rep shows_outcome_later [OF _ pol] by (auto simp: reported_def others_kept_def pg_live_def pg_settled_def)
    ultimately show ?thesis using rep since by (simp add: reported_def pg_quiet_since_def policy_le_def)
  qed
  show "\<exists>v s'. op_succeed (pg_ops adapt) oid own ver t s = (Inr v, s') \<and> pg_quiet_since since s' \<and>
      pg_settled since s' oid ver Accepted \<and> others_kept (pg_live own) (pg_settled since) oid s s'"
    using pg_reports(1) [OF q r(1) h(3,4), of ver] fin reported_shows(1) by blast
  show "\<exists>v s'. op_fail (pg_ops adapt) oid own ver t s = (Inr v, s') \<and> pg_quiet_since since s' \<and>
      pg_settled since s' oid ver (Failed t) \<and> others_kept (pg_live own) (pg_settled since) oid s s'"
    using pg_reports(2) [OF q r(1) h(3,4), of ver] fin reported_shows(2) [OF _ since] by blast
qed

end
