(* ===== verification/App_Dispatcher.thy ===== *)
theory App_Dispatcher
  imports App_Store App_Config App_Http Receipt_Contract Py_Json_Errors "HOL-Library.Sublist"
begin

text \<open>
  \<^verbatim>\<open>Python/app/dispatcher.py\<close>. The process claims rows, sends one request per row to the provider
  and reports the outcome. Its state is the database, the requests it sent and the lines it
  printed. What it meets outside is the record \<open>os\<close>: the provider's answer to the k-th request,
  what other parties do to the database while that request is in flight, the clock reading of
  the k-th line, and the interpreter's limit for nested JSON.
\<close>

section \<open>The process and its surroundings\<close>

record 'db world =
  wdb :: 'db
  sent :: "http_request list"
  log :: "pystr list"

record 'db os =
  net :: "nat \<Rightarrow> http_request \<Rightarrow> urlopen_result"
  meanwhile :: "nat \<Rightarrow> 'db \<Rightarrow> 'db"
  clock :: "nat \<Rightarrow> pyfloat"
  json_depth :: nat

text \<open>\<^verbatim>\<open>json.dumps(..., separators=(",", ":"))\<close> with the default \<^verbatim>\<open>ensure_ascii=True\<close>.\<close>

definition log_opts :: jopts where
  "log_opts = compact\<lparr>ensure_ascii := True\<rparr>"

definition emit :: "'db os \<Rightarrow> pydict \<Rightarrow> ('db world, unit) py" where
  "emit os ev = py_bind py_get (\<lambda>w.
     py_bind (py_lift (dumps log_opts (PDict ((U ''ts'', PFloat (clock os (length (log w)))) # ev)))) (\<lambda>line.
       py_modify (\<lambda>w. w\<lparr>log := log w @ [line]\<rparr>)))"

text \<open>A call through the database connection.\<close>

definition query :: "('db, 'a) py \<Rightarrow> ('db world, 'a) py" where
  "query m = (\<lambda>w. let (r, db') = m (wdb w) in (r, w\<lparr>wdb := db'\<rparr>))"

definition post :: "'db os \<Rightarrow> http_request \<Rightarrow> ('db world, int \<times> pybytes \<times> headers) py" where
  "post os request = (\<lambda>w.
     let k = length (sent w); (rqs, r) = post_json (net os k) request
     in (r, w\<lparr>sent := sent w @ rqs, wdb := (if rqs = [] then wdb w else meanwhile os k (wdb w))\<rparr>))"

section \<open>The module\<close>

definition provider_body :: "pystr \<Rightarrow> pyval \<Rightarrow> pyval \<Rightarrow> pybytes res" where
  "provider_body ext amount currency =
     res_bind (dumps compact (PDict [(U ''operationId'', PStr ext), (U ''amount'', amount),
       (U ''currency'', currency)])) utf8_encode"

definition build_provider_request :: "pystr \<Rightarrow> pystr \<Rightarrow> pyval \<Rightarrow> pyval \<Rightarrow> (pybytes \<times> headers) res" where
  "build_provider_request ext corr amount currency =
     res_bind (provider_body ext amount currency) (\<lambda>body.
       Inr (body, [(U ''Content-Type'', U ''application/json''), (U ''Idempotency-Key'', ext),
         (U ''X-Correlation-ID'', corr)]))"

definition succeed_call :: "'db outbox_ops \<Rightarrow> DispatcherConfig \<Rightarrow> pystr \<Rightarrow> int \<Rightarrow> pystr \<Rightarrow> ('db world, unit) py" where
  "succeed_call ops cfg oid ver pid =
     py_seq (query (op_succeed ops oid (owner cfg) ver pid)) (py_return ())"

definition fail_call :: "'db outbox_ops \<Rightarrow> DispatcherConfig \<Rightarrow> pystr \<Rightarrow> int \<Rightarrow> pystr \<Rightarrow> ('db world, unit) py" where
  "fail_call ops cfg oid ver code =
     py_seq (query (op_fail ops oid (owner cfg) ver code)) (py_return ())"

text \<open>The pair of \<^verbatim>\<open>(error_code, provider_payment_id)\<close>.\<close>

definition response_invalid :: pystr where
  "response_invalid = U ''response.invalid.terminal''"

definition accepted_payload :: "pydict \<Rightarrow> bool" where
  "accepted_payload d \<longleftrightarrow> dkeys d = {U ''providerPaymentId'', U ''status''} \<and>
     py_eq (dget_none d (U ''status'')) (PStr (U ''ACCEPTED'')) \<and>
     is_str (dget_none d (U ''providerPaymentId'')) \<and> truthy (dget_none d (U ''providerPaymentId''))"

definition classify_response :: "nat \<Rightarrow> int \<Rightarrow> pybytes \<Rightarrow> (pystr option \<times> pystr option) res" where
  "classify_response depth st body =
     (if st = 202 then
        (case loads_bytes depth body of
           Inl e \<Rightarrow> if e = UnicodeDecodeError \<or> e = JSONDecodeError then Inr (Some response_invalid, None) else Inl e
         | Inr (PDict d) \<Rightarrow>
             if \<not> accepted_payload d then Inr (Some response_invalid, None)
             else (case dget_none d (U ''providerPaymentId'') of PStr pid \<Rightarrow> Inr (None, Some pid) | _ \<Rightarrow> Inl TypeError)
         | Inr _ \<Rightarrow> Inr (Some response_invalid, None))
      else if st = 408 \<or> st = 429 \<or> 500 \<le> st \<and> st \<le> 599
      then Inr (Some (U ''http.'' @ str_of_int st @ U ''.retryable''), None)
      else Inr (Some (U ''http.'' @ str_of_int st @ U ''.terminal''), None))"

definition transport_error :: pystr where
  "transport_error = U ''transport.error.retryable''"

definition payments_url :: "DispatcherConfig \<Rightarrow> pystr" where
  "payments_url cfg = rstrip_by (\<lambda>c. c = 47) (provider_url cfg) @ U ''/payments''"

definition attempt_event :: "string \<Rightarrow> pydict \<Rightarrow> pydict" where
  "attempt_event outcome extra =
     (U ''event'', PStr (U ''dispatcher.attempt'')) # (U ''outcome'', PStr (U outcome)) # extra"

text \<open>What follows the answer.\<close>

definition report :: "'db os \<Rightarrow> 'db outbox_ops \<Rightarrow> DispatcherConfig \<Rightarrow> pystr \<Rightarrow> int \<Rightarrow>
    int \<Rightarrow> pystr option \<times> pystr option \<Rightarrow> ('db world, unit) py" where
  "report os ops cfg oid ver st verdict = (case verdict of
     (None, pid) \<Rightarrow>
       py_seq (succeed_call ops cfg oid ver (the pid))
         (emit os (attempt_event ''delivered'' [(U ''status'', PInt st)]))
   | (Some code, _) \<Rightarrow>
       py_seq (fail_call ops cfg oid ver code)
         (emit os (attempt_event ''failed'' [(U ''error'', PStr code), (U ''status'', PInt st)])))"

definition attempt :: "'db os \<Rightarrow> 'db outbox_ops \<Rightarrow> DispatcherConfig \<Rightarrow> claimed_row \<Rightarrow> ('db world, unit) py" where
  "attempt os ops cfg row = (case row of (oid, ver, ext, corr, amount, currency) \<Rightarrow>
     py_bind (py_lift (build_provider_request ext corr amount currency)) (\<lambda>(body, hs).
     py_bind (py_try
        (py_bind (post os \<lparr>url = payments_url cfg, payload = body, req_headers = hs, timeout = provider_timeout cfg\<rparr>)
           (\<lambda>answer. py_return (Some answer)))
        (\<lambda>e. e = HttpError)
        (\<lambda>e. py_seq (fail_call ops cfg oid ver transport_error)
           (py_seq (emit os (attempt_event ''retryable'' [(U ''error'', PStr transport_error)]))
              (py_return None)))) (\<lambda>answer.
     case answer of
       None \<Rightarrow> py_return ()
     | Some (st, response_body, _) \<Rightarrow>
         py_bind (py_lift (classify_response (json_depth os) st response_body)) (report os ops cfg oid ver st))))"

definition error_event :: "string \<Rightarrow> pyexn \<Rightarrow> pydict" where
  "error_event name e = [(U ''event'', PStr (U name)),
     (U ''error'', PStr (case e of PsycopgError m \<Rightarrow> m | _ \<Rightarrow> []))]"

definition dispatcher_run_once :: "'db os \<Rightarrow> 'db outbox_ops \<Rightarrow> DispatcherConfig \<Rightarrow> ('db world, nat) py" where
  "dispatcher_run_once os ops cfg =
     py_bind (query (op_claim ops (owner cfg) (claim_batch cfg))) (\<lambda>rows.
     py_seq (py_for (\<lambda>row. py_try (attempt os ops cfg row) is_PsycopgError
               (\<lambda>e. emit os (error_event ''dispatcher.db_error'' e))) rows)
       (py_return (length rows)))"

text \<open>
  One round of the endless loop: \<open>enter\<close> is \<^verbatim>\<open>connect\<close>, \<open>leave\<close> the end of the \<^verbatim>\<open>with\<close> block, which
  commits when the block returned and is passed over when it raised.
\<close>

definition dispatcher_round :: "'db os \<Rightarrow> 'db outbox_ops \<Rightarrow> ('db, unit) py \<Rightarrow> ('db, unit) py \<Rightarrow>
    DispatcherConfig \<Rightarrow> ('db world, unit) py" where
  "dispatcher_round os ops enter leave cfg =
     py_try (py_seq (query enter) (py_seq (dispatcher_run_once os ops cfg) (query leave)))
       is_PsycopgError (\<lambda>e. emit os (error_event ''dispatcher.connection_error'' e))"

fun rounds :: "nat \<Rightarrow> ('s, unit) py \<Rightarrow> ('s, unit) py" where
  "rounds 0 m = py_return ()"
| "rounds (Suc n) m = py_seq m (rounds n m)"

text \<open>The first \<open>n\<close> rounds of \<^verbatim>\<open>main\<close>.\<close>

definition dispatcher_main :: "nat \<Rightarrow> 'db os \<Rightarrow> 'db outbox_ops \<Rightarrow> (connect_args \<Rightarrow> ('db, unit) py) \<Rightarrow>
    ('db, unit) py \<Rightarrow> environ \<Rightarrow> ('db world, unit) py" where
  "dispatcher_main n os ops psycopg_connect leave env =
     py_bind (py_lift (dispatcher_config env)) (\<lambda>cfg.
     py_seq (emit os [(U ''event'', PStr (U ''dispatcher.started'')), (U ''owner'', PStr (owner cfg))])
       (rounds n (dispatcher_round os ops (connect psycopg_connect (d_pg cfg)) leave cfg)))"

section \<open>The dispatcher over any store\<close>

sublocale outbox_store \<subseteq> world: state_order "\<lambda>w w'. step (wdb w) (wdb w')"
  by unfold_locales (auto intro: refl trans)

context outbox_store
begin

lemma query_steps: "preserves step m \<Longrightarrow> preserves (\<lambda>w w'. step (wdb w) (wdb w')) (query m)"
  by (auto simp: preserves_def query_def Let_def split: prod.splits) (metis snd_conv)

lemma emit_steps: "preserves (\<lambda>w w'. step (wdb w) (wdb w')) (emit os ev)"
  unfolding emit_def by (intro world.compose) (simp add: preserves_def refl)

lemma post_steps:
  "(\<And>k s. step s (meanwhile os k s)) \<Longrightarrow> preserves (\<lambda>w w'. step (wdb w) (wdb w')) (post os rq)"
  by (auto simp: preserves_def post_def Let_def refl split: prod.splits)

lemma finish_steps:
  "preserves (\<lambda>w w'. step (wdb w) (wdb w')) (succeed_call ops cfg oid ver pid)"
  "preserves (\<lambda>w w'. step (wdb w) (wdb w')) (fail_call ops cfg oid ver code)"
  unfolding succeed_call_def fail_call_def
  by (intro world.compose query_steps succeed_step fail_step)+

lemma report_steps: "preserves (\<lambda>w w'. step (wdb w) (wdb w')) (report os ops cfg oid ver st verdict)"
  unfolding report_def by (auto split: prod.splits option.splits intro!: world.compose finish_steps emit_steps)

lemma attempt_steps:
  assumes "\<And>k s. step s (meanwhile os k s)"
  shows "preserves (\<lambda>w w'. step (wdb w) (wdb w')) (attempt os ops cfg row)"
  unfolding attempt_def
  by (auto split: prod.splits option.splits
      intro!: world.compose finish_steps emit_steps report_steps post_steps assms)

lemma run_once_steps:
  assumes "\<And>k s. step s (meanwhile os k s)"
  shows "preserves (\<lambda>w w'. step (wdb w) (wdb w')) (dispatcher_run_once os ops cfg)"
  unfolding dispatcher_run_once_def
  by (intro world.compose query_steps claim_step attempt_steps emit_steps assms)

lemma round_steps:
  assumes "\<And>k s. step s (meanwhile os k s)" "preserves step enter" "preserves step leave"
  shows "preserves (\<lambda>w w'. step (wdb w) (wdb w')) (dispatcher_round os ops enter leave cfg)"
  unfolding dispatcher_round_def
  by (intro world.compose query_steps run_once_steps emit_steps assms)

lemma rounds_steps:
  "preserves (\<lambda>w w'. step (wdb w) (wdb w')) m \<Longrightarrow> preserves (\<lambda>w w'. step (wdb w) (wdb w')) (rounds n m)"
  by (induction n) (simp_all add: world.pure world.seq)

lemma main_steps:
  assumes "\<And>k s. step s (meanwhile os k s)" "\<And>a. preserves step (psycopg_connect a)" "preserves step leave"
  shows "preserves (\<lambda>w w'. step (wdb w) (wdb w')) (dispatcher_main n os ops psycopg_connect leave env)"
  unfolding dispatcher_main_def connect_def
  by (intro world.compose emit_steps rounds_steps round_steps assms)

end

section \<open>What one attempt sends\<close>

definition row_request :: "DispatcherConfig \<Rightarrow> claimed_row \<Rightarrow> http_request" where
  "row_request cfg row = (case row of (oid, ver, ext, corr, amount, currency) \<Rightarrow>
     \<lparr>url = payments_url cfg, payload = fst (projr (build_provider_request ext corr amount currency)),
      req_headers = snd (projr (build_provider_request ext corr amount currency)),
      timeout = provider_timeout cfg\<rparr>)"

text \<open>Code that sends nothing, and code that sends at most the given requests.\<close>

abbreviation silent :: "('db world, 'a) py \<Rightarrow> bool" where
  "silent \<equiv> preserves (\<lambda>w w'. sent w' = sent w)"

interpretation silence: state_order "\<lambda>w w'. sent w' = sent w"
  by unfold_locales auto

lemma query_silent: "silent (query m)"
  by (auto simp: preserves_def query_def Let_def split: prod.splits)

lemma emit_silent: "silent (emit os ev)"
  unfolding emit_def by (intro silence.compose) (simp add: preserves_def)

lemma finish_silent: "silent (succeed_call ops cfg oid ver pid)" "silent (fail_call ops cfg oid ver code)"
  unfolding succeed_call_def fail_call_def by (intro silence.compose query_silent)+

lemma report_silent: "silent (report os ops cfg oid ver st verdict)"
  unfolding report_def by (auto split: prod.splits option.splits intro!: silence.compose finish_silent emit_silent)

definition sends :: "http_request list \<Rightarrow> ('db world, 'a) py \<Rightarrow> bool" where
  "sends rqs m \<longleftrightarrow> (\<forall>w. \<exists>xs. sent (snd (m w)) = sent w @ xs \<and> subseq xs rqs)"

lemma silent_sends: "silent m \<Longrightarrow> sends rqs m"
  by (auto simp: preserves_def sends_def intro!: exI [of _ "[]"])

lemma sends_bind:
  assumes "sends a m" "\<And>x. sends b (f x)"
  shows "sends (a @ b) (py_bind m f)"
  unfolding sends_def
proof
  fix w
  obtain r w' where m: "m w = (r, w')" by (cases "m w")
  with assms(1) obtain xs where xs: "sent w' = sent w @ xs" "subseq xs a" unfolding sends_def by (metis snd_conv)
  show "\<exists>xs. sent (snd (py_bind m f w)) = sent w @ xs \<and> subseq xs (a @ b)"
  proof (cases r)
    case (Inl e)
    then show ?thesis using m xs by (auto intro: list_emb_prefix)
  next
    case (Inr x)
    from assms(2) obtain ys where "sent (snd (f x w')) = sent w' @ ys" "subseq ys b" unfolding sends_def by blast
    with Inr m xs show ?thesis by (intro exI [of _ "xs @ ys"]) (simp add: list_emb_append_mono)
  qed
qed

lemma sends_bind_silent: "sends a m \<Longrightarrow> (\<And>x. silent (f x)) \<Longrightarrow> sends a (py_bind m f)"
  using sends_bind [of a m "[]" f] silent_sends by auto

lemma sends_lift: "(\<And>x. r = Inr x \<Longrightarrow> sends a (f x)) \<Longrightarrow> sends a (py_bind (py_lift r) f)"
  by (cases r) (auto simp: sends_def py_bind_def)

lemma sends_try:
  assumes "sends a m" "\<And>e. silent (h e)"
  shows "sends a (py_try m p h)"
  unfolding sends_def
proof
  fix w
  obtain r w' where m: "m w = (r, w')" by (cases "m w")
  with assms(1) obtain xs where xs: "sent w' = sent w @ xs" "subseq xs a" unfolding sends_def by (metis snd_conv)
  moreover have "sent (snd (h e w')) = sent w'" for e using assms(2) by (simp add: preserves_def)
  ultimately show "\<exists>xs. sent (snd (py_try m p h w)) = sent w @ xs \<and> subseq xs a" using m by (cases r) auto
qed

lemma sends_for: "(\<And>x. sends [g x] (f x)) \<Longrightarrow> sends (map g xs) (py_for f xs)"
proof (induction xs)
  case (Cons x xs)
  from sends_bind [OF Cons.prems Cons.IH [OF Cons.prems], of x] show ?case by (simp add: py_seq_def)
qed (simp add: silent_sends silence.pure)

lemma post_sends:
  fixes os :: "'a os"
  shows "sends [rq] (post os rq)"
proof -
  have "fst (post_json u rq) = [] \<or> fst (post_json u rq) = [rq]" for u
    by (auto simp: post_json_def split: sum.splits if_splits)
  note cases = this
  show ?thesis unfolding sends_def
  proof
    fix w :: "'a world"
    have "sent (snd (post os rq w)) = sent w @ fst (post_json (net os (length (sent w))) rq)"
      by (simp add: post_def Let_def split: prod.splits)
    with cases [of "net os (length (sent w))"] show "\<exists>xs. sent (snd (post os rq w)) = sent w @ xs \<and> subseq xs [rq]"
      by auto
  qed
qed

lemma attempt_sends:
  fixes os :: "'a os"
  shows "sends [row_request cfg row] (attempt os ops cfg row)"
proof -
  obtain oid ver ext corr amount currency where row: "row = (oid, ver, ext, corr, amount, currency)" by (cases row)
  have core: "sends [rq] (py_bind (py_try (py_bind (post os rq) (\<lambda>answer. py_return (Some answer))) p h) rest)"
    if "\<And>e. silent (h e)" "\<And>x. silent (rest x)" for rq p h and rest :: "(int \<times> pybytes \<times> headers) option \<Rightarrow> ('a world, unit) py"
    using that by (intro sends_bind_silent sends_try post_sends silence.pure)
  show ?thesis
    by (auto simp: attempt_def row row_request_def split: option.splits prod.splits
        intro!: sends_lift core silence.compose finish_silent emit_silent report_silent)
qed

lemma run_once_sends:
  "\<exists>xs. sent (snd (dispatcher_run_once os ops cfg w)) = sent w @ xs \<and>
     (case op_claim ops (owner cfg) (claim_batch cfg) (wdb w) of
        (Inl _, _) \<Rightarrow> xs = []
      | (Inr rows, _) \<Rightarrow> subseq xs (map (row_request cfg) rows))"
proof (cases "op_claim ops (owner cfg) (claim_batch cfg) (wdb w)")
  case (Pair r db')
  let ?body = "\<lambda>row. py_try (attempt os ops cfg row) is_PsycopgError (\<lambda>e. emit os (error_event ''dispatcher.db_error'' e))"
  have q: "query (op_claim ops (owner cfg) (claim_batch cfg)) w = (r, w\<lparr>wdb := db'\<rparr>)"
    by (simp add: query_def Pair)
  show ?thesis
  proof (cases r)
    case (Inr rows)
    have "sends (map (row_request cfg) rows) (py_seq (py_for ?body rows) (py_return (length rows)))"
      unfolding py_seq_def
      by (intro sends_bind_silent sends_for sends_try attempt_sends emit_silent silence.pure)
    then have "\<exists>xs. sent (snd (py_seq (py_for ?body rows) (py_return (length rows)) (w\<lparr>wdb := db'\<rparr>))) =
        sent (w\<lparr>wdb := db'\<rparr>) @ xs \<and> subseq xs (map (row_request cfg) rows)" unfolding sends_def by (rule spec)
    with q Inr Pair show ?thesis by (simp add: dispatcher_run_once_def)
  qed (use q Pair in \<open>simp add: dispatcher_run_once_def\<close>)
qed

section \<open>When every claimed row is settled\<close>

lemma emit_ok:
  assumes "\<forall>kv\<in>set ev. (\<exists>s. snd kv = PStr s) \<or> (\<exists>i. snd kv = PInt i)"
  shows "\<exists>line. emit os ev w = (Inr (), w\<lparr>log := log w @ [line]\<rparr>)"
proof -
  have "\<exists>kts. res_map (\<lambda>(k, v). res_bind (dumps log_opts v) (\<lambda>t. Inr (k, t))) ev = Inr kts"
    using assms by (induction ev) auto
  then have "\<exists>line. dumps log_opts (PDict ((U ''ts'', PFloat (clock os (length (log w)))) # ev)) = Inr line" by auto
  then show ?thesis by (auto simp: emit_def)
qed

lemma attempt_event_ok: "\<forall>kv\<in>set extra. (\<exists>s. snd kv = PStr s) \<or> (\<exists>i. snd kv = PInt i) \<Longrightarrow>
    \<exists>line. emit os (attempt_event outcome extra) w = (Inr (), w\<lparr>log := log w @ [line]\<rparr>)"
  by (rule emit_ok) (auto simp: attempt_event_def)

lemma classify_response_cases:
  assumes "classify_response d st b = Inr verdict"
  obtains (accepted) pid where "verdict = (None, Some pid)" "st = 202"
  | (invalid) "verdict = (Some response_invalid, None)" "st = 202"
  | (retryable) "verdict = (Some (U ''http.'' @ str_of_int st @ U ''.retryable''), None)"
      "st = 408 \<or> st = 429 \<or> 500 \<le> st \<and> st \<le> 599"
  | (terminal) "verdict = (Some (U ''http.'' @ str_of_int st @ U ''.terminal''), None)"
      "st \<noteq> 202 \<and> \<not> (st = 408 \<or> st = 429 \<or> 500 \<le> st \<and> st \<le> 599)"
  using assms by (auto simp: classify_response_def split: if_splits sum.splits pyval.splits)

lemma accepted_payload_iff:
  "accepted_payload m \<longleftrightarrow> dkeys m = {U ''providerPaymentId'', U ''status''} \<and>
     map_of m (U ''status'') = Some (PStr (U ''ACCEPTED'')) \<and>
     (\<exists>pid. pid \<noteq> [] \<and> map_of m (U ''providerPaymentId'') = Some (PStr pid))"
proof -
  have "is_str v \<and> truthy v \<longleftrightarrow> (\<exists>s. s \<noteq> [] \<and> v = PStr s)" for v by (cases v) auto
  then show ?thesis by (simp add: accepted_payload_def flip: dget_none_PStr)
qed

lemma classify_response_accepted:
  "classify_response d st b = Inr (None, Some pid) \<longleftrightarrow> st = 202 \<and> pid \<noteq> [] \<and> (\<exists>m. loads_bytes d b = Inr (PDict m) \<and>
      dkeys m = {U ''providerPaymentId'', U ''status''} \<and> map_of m (U ''providerPaymentId'') = Some (PStr pid) \<and>
      map_of m (U ''status'') = Some (PStr (U ''ACCEPTED'')))"
proof (cases "loads_bytes d b")
  case (Inl e)
  then show ?thesis by (simp add: classify_response_def)
next
  case (Inr v)
  show ?thesis
  proof (cases v)
    case (PDict m)
    show ?thesis
    proof (cases "accepted_payload m")
      case True
      then obtain p where "p \<noteq> []" "map_of m (U ''providerPaymentId'') = Some (PStr p)"
        by (auto simp: accepted_payload_iff)
      with True show ?thesis using Inr PDict
        by (auto simp: classify_response_def dget_def_def accepted_payload_iff)
    next
      case False
      then show ?thesis using Inr PDict by (auto simp: classify_response_def accepted_payload_iff)
    qed
  qed (use Inr in \<open>simp_all add: classify_response_def\<close>)
qed

definition storable :: "pystr \<Rightarrow> bool" where
  "storable t = (encodable t \<and> 0 \<notin> set t)"

lemma storable_U: "(\<forall>c\<in>set s. c \<noteq> CHR 0x00) \<Longrightarrow> storable (U s)"
proof -
  assume a: "\<forall>c\<in>set s. c \<noteq> CHR 0x00"
  have "of_char c \<noteq> (0::nat)" if "c \<in> set s" for c
  proof -
    have "of_char (CHR 0x00) = (0::nat)" by simp
    with a that show ?thesis by (metis of_char_eq_iff)
  qed
  then have "0 \<notin> set (U s)" unfolding U_def by (metis imageE list.set_map)
  then show ?thesis by (simp add: storable_def encodable_U)
qed

lemma storable_append [simp]: "storable (a @ b) \<longleftrightarrow> storable a \<and> storable b"
  by (auto simp: storable_def)

lemma storable_str_of_int: "storable (str_of_int i)"
proof -
  have "48 \<le> c \<and> c \<le> 57" if "c \<in> set (str_of_nat n)" for c n
    using that by (induction n arbitrary: c rule: str_of_nat.induct) (subst (asm) (2) str_of_nat.simps, auto split: if_splits)
  then have "storable (str_of_nat n)" for n
    by (fastforce simp: storable_def encodable_def list_all_iff is_surrogate_def)
  then show ?thesis by (simp add: str_of_int_def storable_def is_surrogate_def)
qed

lemma error_codes_storable:
  "storable transport_error" "storable response_invalid"
  "storable (U ''http.'' @ str_of_int st @ U ''.retryable'')" "storable (U ''http.'' @ str_of_int st @ U ''.terminal'')"
  by (simp_all add: transport_error_def response_invalid_def storable_U storable_str_of_int)

text \<open>An answer the dispatcher can act on, and a row it can send.\<close>

definition answerable :: "'db os \<Rightarrow> bool" where
  "answerable os \<longleftrightarrow> (\<forall>k rq. net os k rq = TransportError \<or>
     (\<exists>st b hs verdict. (net os k rq = Response st b hs \<or> net os k rq = HTTPErrorResponse st b hs) \<and>
        classify_response (json_depth os) st b = Inr verdict \<and> (\<forall>pid. snd verdict = Some pid \<longrightarrow> storable pid)))"

definition row_sendable :: "claimed_row \<Rightarrow> bool" where
  "row_sendable row = (case row of (oid, ver, ext, corr, amount, currency) \<Rightarrow>
     (\<exists>body hs. build_provider_request ext corr amount currency = Inr (body, hs) \<and> for_each put_header hs = Inr ()))"

lemma answerable_cases:
  assumes "answerable os"
  shows "net os k rq = TransportError \<or> (\<exists>st b h verdict. response_of (net os k rq) = Inr (st, b, h) \<and>
    classify_response (json_depth os) st b = Inr verdict \<and> (\<forall>pid. snd verdict = Some pid \<longrightarrow> storable pid))"
proof (cases "net os k rq = TransportError")
  case False
  with assms obtain st b hs verdict where
    "net os k rq = Response st b hs \<or> net os k rq = HTTPErrorResponse st b hs"
    "classify_response (json_depth os) st b = Inr verdict" "\<forall>pid. snd verdict = Some pid \<longrightarrow> storable pid"
    unfolding answerable_def by blast
  then show ?thesis by (intro disjI2 exI [of _ st] exI [of _ b] exI [of _ "dict_of hs"] exI [of _ verdict])
      (auto simp: response_of_def)
qed simp

text \<open>The outcome that an answer stands for.\<close>

definition outcome_of :: "nat \<Rightarrow> urlopen_result \<Rightarrow> outcome" where
  "outcome_of depth answer = (case response_of answer of
     Inl _ \<Rightarrow> Failed transport_error
   | Inr (st, body, _) \<Rightarrow> (case classify_response depth st body of
       Inr (Some code, _) \<Rightarrow> Failed code
     | _ \<Rightarrow> Accepted))"

definition answer_to :: "'db os \<Rightarrow> DispatcherConfig \<Rightarrow> nat \<Rightarrow> claimed_row \<Rightarrow> outcome" where
  "answer_to os cfg k row = outcome_of (json_depth os) (net os k (row_request cfg row))"

lemma others_kept_meanwhile:
  assumes "others_kept live settled oid s1 s2"
    and "\<And>oid ver x. (live s oid ver \<longrightarrow> live s1 oid ver) \<and> (settled s oid ver x \<longrightarrow> settled s1 oid ver x)"
  shows "others_kept live settled oid s s2"
  using assms unfolding others_kept_def by blast

context leasing_store
begin

lemma fail_call_settles:
  assumes "owner cfg = own" "quiet (wdb w)" "live (wdb w) oid ver" "plain code" "plain own"
  shows "\<exists>s'. fail_call ops cfg oid ver code w = (Inr (), w\<lparr>wdb := s'\<rparr>) \<and> quiet s' \<and>
    settled s' oid ver (Failed code) \<and> others_kept live settled oid (wdb w) s'"
  using fail_settles [OF assms(2-5)] assms(1) by (auto simp: fail_call_def py_seq_def query_def)

lemma succeed_call_settles:
  assumes "owner cfg = own" "quiet (wdb w)" "live (wdb w) oid ver" "plain pid" "plain own"
  shows "\<exists>s'. succeed_call ops cfg oid ver pid w = (Inr (), w\<lparr>wdb := s'\<rparr>) \<and> quiet s' \<and>
    settled s' oid ver Accepted \<and> others_kept live settled oid (wdb w) s'"
  using succeed_settles [OF assms(2-5)] assms(1) by (auto simp: succeed_call_def py_seq_def query_def)

lemma report_settles:
  assumes "owner cfg = own" "quiet (wdb w)" "live (wdb w) oid ver" "plain own"
    and "classify_response d st b = Inr verdict" "\<And>t. storable t \<Longrightarrow> plain t"
    and "\<And>pid. snd verdict = Some pid \<Longrightarrow> storable pid"
  shows "\<exists>s' line. report os ops cfg oid ver st verdict w = (Inr (), w\<lparr>wdb := s', log := log w @ [line]\<rparr>) \<and>
    quiet s' \<and> settled s' oid ver (case fst verdict of None \<Rightarrow> Accepted | Some code \<Rightarrow> Failed code) \<and>
    others_kept live settled oid (wdb w) s'"
proof -
  have fails: ?thesis if v: "verdict = (Some code, None)" and c: "storable code" for code
  proof -
    obtain s' where s': "fail_call ops cfg oid ver code w = (Inr (), w\<lparr>wdb := s'\<rparr>)" "quiet s'"
      "settled s' oid ver (Failed code)" "others_kept live settled oid (wdb w) s'"
      using fail_call_settles [OF assms(1-3) assms(6) [OF c] assms(4)] by blast
    moreover obtain line where "emit os (attempt_event ''failed'' [(U ''error'', PStr code), (U ''status'', PInt st)])
        (w\<lparr>wdb := s'\<rparr>) = (Inr (), w\<lparr>wdb := s', log := log w @ [line]\<rparr>)"
      using attempt_event_ok [of "[(U ''error'', PStr code), (U ''status'', PInt st)]" os "''failed''" "w\<lparr>wdb := s'\<rparr>"] by auto
    ultimately show ?thesis by (auto simp: report_def v py_seq_def)
  qed
  from assms(5) show ?thesis
  proof (cases rule: classify_response_cases)
    case (accepted pid)
    with assms(6,7) have "plain pid" by simp
    then obtain s' where s': "succeed_call ops cfg oid ver pid w = (Inr (), w\<lparr>wdb := s'\<rparr>)" "quiet s'"
      "settled s' oid ver Accepted" "others_kept live settled oid (wdb w) s'"
      using succeed_call_settles [OF assms(1-3) _ assms(4)] by blast
    moreover obtain line where "emit os (attempt_event ''delivered'' [(U ''status'', PInt st)])
        (w\<lparr>wdb := s'\<rparr>) = (Inr (), w\<lparr>wdb := s', log := log w @ [line]\<rparr>)"
      using attempt_event_ok [of "[(U ''status'', PInt st)]" os "''delivered''" "w\<lparr>wdb := s'\<rparr>"] by auto
    ultimately show ?thesis by (auto simp: report_def accepted py_seq_def)
  qed (use fails error_codes_storable in auto)
qed

lemma attempt_settles:
  assumes keep: "\<And>k s. quiet s \<Longrightarrow> interference s (meanwhile os k s)"
    and "answerable os" "row_sendable row" "owner cfg = own" "plain own" "\<And>t. storable t \<Longrightarrow> plain t"
    and "quiet (wdb w)" "live (wdb w) (fst row) (fst (snd row))"
  shows "\<exists>w'. attempt os ops cfg row w = (Inr (), w') \<and> quiet (wdb w') \<and>
    settled (wdb w') (fst row) (fst (snd row)) (answer_to os cfg (length (sent w)) row) \<and>
    sent w' = sent w @ [row_request cfg row] \<and> others_kept live settled (fst row) (wdb w) (wdb w')"
proof -
  obtain oid ver ext corr amount currency where row: "row = (oid, ver, ext, corr, amount, currency)" by (cases row)
  from assms(3) obtain body hs where b: "build_provider_request ext corr amount currency = Inr (body, hs)"
    "for_each put_header hs = Inr ()" by (auto simp: row_sendable_def row)
  let ?k = "length (sent w)" and ?rq = "row_request cfg row"
  let ?w = "w\<lparr>sent := sent w @ [?rq], wdb := meanwhile os ?k (wdb w)\<rparr>"
  have rq: "\<lparr>url = payments_url cfg, payload = body, req_headers = hs, timeout = provider_timeout cfg\<rparr> = ?rq"
    by (simp add: row row_request_def b(1))
  from assms(2) consider (transport) "net os ?k ?rq = TransportError"
    | (answer) st rb h verdict where "response_of (net os ?k ?rq) = Inr (st, rb, h)"
        "classify_response (json_depth os) st rb = Inr verdict" "\<forall>pid. snd verdict = Some pid \<longrightarrow> storable pid"
    using answerable_cases by metis
  note answers = this
  have "net os ?k ?rq \<noteq> BadUrl" using answers by cases (auto simp: response_of_def)
  moreover have "req_headers ?rq = hs" using rq by (metis http_request.select_convs(3))
  ultimately have p: "post os ?rq w = (response_of (net os ?k ?rq), ?w)"
    using b(2) by (simp add: post_def post_json_def Let_def del: for_each_eq_Inr)
  note kept = interference_keeps [OF assms(7) keep [OF assms(7)]]
  have q: "quiet (wdb ?w)" "live (wdb ?w) oid ver" using kept assms(8) row by auto
  have others: "others_kept live settled oid (wdb w) s'" if "others_kept live settled oid (wdb ?w) s'" for s'
    by (rule others_kept_meanwhile [OF that]) (use kept in simp)
  from answers show ?thesis
  proof cases
    case transport
    then have t: "post os ?rq w = (Inl HttpError, ?w)" using p by (simp add: response_of_def)
    obtain s' where s': "fail_call ops cfg oid ver transport_error ?w = (Inr (), ?w\<lparr>wdb := s'\<rparr>)" "quiet s'"
      "settled s' oid ver (Failed transport_error)" "others_kept live settled oid (wdb ?w) s'"
      using fail_call_settles [OF assms(4) q assms(6) [OF error_codes_storable(1)] assms(5)] by blast
    obtain line where l: "emit os (attempt_event ''retryable'' [(U ''error'', PStr transport_error)])
        (?w\<lparr>wdb := s'\<rparr>) = (Inr (), ?w\<lparr>wdb := s', log := log w @ [line]\<rparr>)"
      using attempt_event_ok [of "[(U ''error'', PStr transport_error)]" os "''retryable''" "?w\<lparr>wdb := s'\<rparr>"] by auto
    have "attempt os ops cfg row w = (Inr (), ?w\<lparr>wdb := s', log := log w @ [line]\<rparr>)"
      using t s'(1) l by (simp add: attempt_def row b(1) rq [unfolded row] py_seq_def)
    moreover have "answer_to os cfg ?k row = Failed transport_error"
      using transport by (simp add: answer_to_def outcome_of_def response_of_def)
    ultimately show ?thesis using s' others by (simp add: row)
  next
    case answer
    then have a: "post os ?rq w = (Inr (st, rb, h), ?w)" using p by simp
    obtain s' line where s': "report os ops cfg oid ver st verdict ?w = (Inr (), ?w\<lparr>wdb := s', log := log ?w @ [line]\<rparr>)"
      "quiet s'" "settled s' oid ver (case fst verdict of None \<Rightarrow> Accepted | Some code \<Rightarrow> Failed code)"
      "others_kept live settled oid (wdb ?w) s'"
      using report_settles [OF assms(4) q assms(5) answer(2) assms(6)] answer(3) by blast
    have "attempt os ops cfg row w = (Inr (), ?w\<lparr>wdb := s', log := log ?w @ [line]\<rparr>)"
      using a s'(1) answer(2) by (simp add: attempt_def row b(1) rq [unfolded row])
    moreover have "answer_to os cfg ?k row = (case fst verdict of None \<Rightarrow> Accepted | Some code \<Rightarrow> Failed code)"
      using answer(1,2) by (cases verdict) (simp add: answer_to_def outcome_of_def split: option.splits)
    ultimately show ?thesis using s' others by (simp add: row)
  qed
qed

lemma rows_settle:
  assumes keep: "\<And>k s. quiet s \<Longrightarrow> interference s (meanwhile os k s)"
    and "answerable os" "owner cfg = own" "plain own" "\<And>t. storable t \<Longrightarrow> plain t"
    and "\<forall>row\<in>set rows. row_sendable row" "distinct (map fst rows)" "quiet (wdb w)"
    and "\<forall>row\<in>set rows. live (wdb w) (fst row) (fst (snd row))"
  shows "\<exists>w'. py_for (\<lambda>row. py_try (attempt os ops cfg row) is_PsycopgError h) rows w = (Inr (), w') \<and>
    sent w' = sent w @ map (row_request cfg) rows \<and> quiet (wdb w') \<and>
    (\<forall>i<length rows. settled (wdb w') (fst (rows ! i)) (fst (snd (rows ! i)))
       (answer_to os cfg (length (sent w) + i) (rows ! i))) \<and>
    (\<forall>oid' ver' x. oid' \<notin> fst ` set rows \<longrightarrow> settled (wdb w) oid' ver' x \<longrightarrow> settled (wdb w') oid' ver' x)"
  using assms(6-9)
proof (induction rows arbitrary: w)
  case (Cons row rows)
  from attempt_settles [OF keep assms(2) _ assms(3-5), of row w] Cons.prems obtain w1 where
    w1: "attempt os ops cfg row w = (Inr (), w1)" "quiet (wdb w1)"
      "settled (wdb w1) (fst row) (fst (snd row)) (answer_to os cfg (length (sent w)) row)"
      "sent w1 = sent w @ [row_request cfg row]" "others_kept live settled (fst row) (wdb w) (wdb w1)" by auto
  have "\<forall>row\<in>set rows. live (wdb w1) (fst row) (fst (snd row))"
  proof
    fix r
    assume r: "r \<in> set rows"
    then have "fst r \<noteq> fst row" using Cons.prems(2) by simp (metis image_eqI)
    with w1(5) Cons.prems(4) r show "live (wdb w1) (fst r) (fst (snd r))" by (simp add: others_kept_def)
  qed
  with Cons.IH [of w1] Cons.prems w1(2) obtain w2 where
    w2: "py_for (\<lambda>row. py_try (attempt os ops cfg row) is_PsycopgError h) rows w1 = (Inr (), w2)"
      "sent w2 = sent w1 @ map (row_request cfg) rows" "quiet (wdb w2)"
      "\<forall>i<length rows. settled (wdb w2) (fst (rows ! i)) (fst (snd (rows ! i)))
         (answer_to os cfg (length (sent w1) + i) (rows ! i))"
      "\<forall>oid' ver' x. oid' \<notin> fst ` set rows \<longrightarrow> settled (wdb w1) oid' ver' x \<longrightarrow> settled (wdb w2) oid' ver' x" by auto
  have first: "settled (wdb w2) (fst row) (fst (snd row)) (answer_to os cfg (length (sent w)) row)"
    using w2(5) w1(3) Cons.prems(2) by auto
  have "\<forall>i<length (row # rows). settled (wdb w2) (fst ((row # rows) ! i)) (fst (snd ((row # rows) ! i)))
      (answer_to os cfg (length (sent w) + i) ((row # rows) ! i))"
  proof (intro allI impI)
    fix i
    assume "i < length (row # rows)"
    with first w2(4) w1(4) show "settled (wdb w2) (fst ((row # rows) ! i)) (fst (snd ((row # rows) ! i)))
        (answer_to os cfg (length (sent w) + i) ((row # rows) ! i))" by (cases i) auto
  qed
  moreover have "\<forall>oid' ver' x. oid' \<notin> fst ` set (row # rows) \<longrightarrow> settled (wdb w) oid' ver' x \<longrightarrow> settled (wdb w2) oid' ver' x"
    using w1(5) w2(5) by (simp add: others_kept_def)
  ultimately show ?case using w1(1,4) w2(1-3) by (intro exI [of _ w2]) (simp add: py_seq_def)
qed simp

lemma run_once_settles:
  assumes keep: "\<And>k s. quiet s \<Longrightarrow> interference s (meanwhile os k s)"
    and "answerable os" "owner cfg = own" "plain own" "\<And>t. storable t \<Longrightarrow> plain t" "quiet (wdb w)"
    and "op_claim ops (owner cfg) (claim_batch cfg) (wdb w) = (Inr rows, db')" "\<forall>row\<in>set rows. row_sendable row"
  shows "\<exists>w'. dispatcher_run_once os ops cfg w = (Inr (length rows), w') \<and>
    sent w' = sent w @ map (row_request cfg) rows \<and>
    (\<forall>i<length rows. settled (wdb w') (fst (rows ! i)) (fst (snd (rows ! i)))
       (answer_to os cfg (length (sent w) + i) (rows ! i)))"
proof -
  have q: "query (op_claim ops (owner cfg) (claim_batch cfg)) w = (Inr rows, w\<lparr>wdb := db'\<rparr>)"
    using assms(7) by (simp add: query_def)
  from rows_settle [OF keep assms(2-5,8), of "w\<lparr>wdb := db'\<rparr>" "\<lambda>e. emit os (error_event ''dispatcher.db_error'' e)"]
    claim_live [OF assms(6) assms(7) [unfolded assms(3)]] obtain w' where
    "py_for (\<lambda>row. py_try (attempt os ops cfg row) is_PsycopgError (\<lambda>e. emit os (error_event ''dispatcher.db_error'' e))) rows
       (w\<lparr>wdb := db'\<rparr>) = (Inr (), w')"
    "sent w' = sent w @ map (row_request cfg) rows"
    "\<forall>i<length rows. settled (wdb w') (fst (rows ! i)) (fst (snd (rows ! i)))
       (answer_to os cfg (length (sent w) + i) (rows ! i))" by auto
  with q show ?thesis by (auto simp: dispatcher_run_once_def py_seq_def)
qed

end

section \<open>A sample process\<close>

definition sample_dispatcher :: DispatcherConfig where
  "sample_dispatcher = \<lparr>d_pg = \<lparr>pg_host = U ''postgres'', pg_port = 5432, pg_database = U ''course'',
       pg_user = U ''u'', pg_password = U ''p'', pg_appname = U ''outbox-dispatcher''\<rparr>,
     provider_url = U ''http://provider:8080/'', owner = U ''d1'', d_poll_interval = seconds 2,
     provider_timeout = seconds 5, claim_batch = 5\<rparr>"

text \<open>The driver's conversion of texts to UTF-8, which refuses the NUL character.\<close>

definition sample_adapt :: "pystr \<Rightarrow> unit res" where
  "sample_adapt t = (if \<not> encodable t then Inl UnicodeEncodeError
     else if 0 \<in> set t then Inl (PsycopgError (U ''PostgreSQL text fields cannot contain NUL (0x00) bytes''))
     else Inr ())"

definition sample_answer :: pybytes where
  "sample_answer = projr (res_bind (dumps compact (PDict [(U ''providerPaymentId'', PStr (U ''pay-1'')),
     (U ''status'', PStr (U ''ACCEPTED''))])) utf8_encode)"

definition sample_os :: "urlopen_result \<Rightarrow> pg os" where
  "sample_os answer = \<lparr>net = (\<lambda>_ _. answer), meanwhile = (\<lambda>_ s. s), clock = (\<lambda>_. seconds 1), json_depth = 10\<rparr>"

definition sample_world :: "pg world" where
  "sample_world = \<lparr>wdb = \<lparr>pgdb = db_queued, faults = [], locked_rows = {}\<rparr>, sent = [], log = []\<rparr>"

definition sample_row :: claimed_row where
  "sample_row = (U ''out-1'', 1, U ''ext-1'', U ''corr-1'', PStr (U ''10.00''), PStr (U ''RUB''))"

lemma sample_classify: "classify_response 10 202 sample_answer = Inr (None, Some (U ''pay-1''))"
  by code_simp

lemma sample_ok: "outbox_ok db_queued" "pg_quiet (wdb sample_world)"
proof -
  show "outbox_ok db_queued"
    using delivery_steps_ok [OF sample_steps(1)] by (simp add: db_start_def outbox_ok_def unique_ids_def)
  then show "pg_quiet (wdb sample_world)" by (simp add: pg_quiet_def sample_world_def)
qed

lemma sample_claim:
  "op_claim (pg_ops sample_adapt) (U ''d1'') 5 (wdb sample_world) =
     (Inr [sample_row], \<lparr>pgdb = db_leased, faults = [], locked_rows = {}\<rparr>)"
proof -
  have "sample_adapt (U ''d1'') = Inr ()" by code_simp
  then show ?thesis using sample_rows(6)
    by (simp add: pg_ops_def py_seq_def statement_def sample_world_def sample_row_def)
qed

lemma sample_sendable: "row_sendable sample_row"
proof -
  have "isl (build_provider_request (U ''ext-1'') (U ''corr-1'') (PStr (U ''10.00'')) (PStr (U ''RUB''))) = False"
    "isl (for_each put_header (snd (projr (build_provider_request (U ''ext-1'') (U ''corr-1'')
       (PStr (U ''10.00'')) (PStr (U ''RUB'')))))) = False" by code_simp+
  note ok = this
  from ok(1) obtain body hs where p: "build_provider_request (U ''ext-1'') (U ''corr-1'') (PStr (U ''10.00'')) (PStr (U ''RUB'')) =
      Inr (body, hs)" using not_isl_Inr by (metis prod.exhaust)
  with ok(2) have "isl (for_each put_header hs) = False" by simp
  then obtain u where "for_each put_header hs = Inr u" using not_isl_Inr by blast
  with p show ?thesis by (simp add: row_sendable_def sample_row_def del: for_each_eq_Inr)
qed

lemma sample_owner: "owner sample_dispatcher = U ''d1''" "claim_batch sample_dispatcher = 5" "storable (U ''d1'')"
  by (simp_all add: sample_dispatcher_def storable_U)

section \<open>Properties\<close>

text \<open>
  Whatever the provider answers, wherever the connection breaks and whatever other parties do
  meanwhile, the dispatcher moves the outbox along the transitions of the SQL functions only.
\<close>

lemma dispatcher_follows_functions:
  assumes "\<And>k s. delivery_steps (pgdb s) (pgdb (meanwhile os k s))"
    and "\<And>a s. pgdb (snd (psycopg_connect a s)) = pgdb s" and "\<And>s. pgdb (snd (leave s)) = pgdb s"
  shows "delivery_steps (pgdb (wdb w)) (pgdb (wdb (snd (dispatcher_main n os (pg_ops adapt) psycopg_connect leave env w))))"
proof -
  have "preserves (\<lambda>w w'. pg_step (wdb w) (wdb w')) (dispatcher_main n os (pg_ops adapt) psycopg_connect leave env)"
    by (rule pg_store.main_steps) (use assms in \<open>auto simp: pg_step_def preserves_def\<close>)
  then show ?thesis by (simp add: preserves_def pg_step_def)
qed

text \<open>
  C1. No claimed row stays leased: while a request is in flight any transactions of any parties may
  come in between. When the outbox is well-formed, the claim returned and the connection holds (no later
  statement fails), the answers can be read (no
  malformed answer, no 202 body that is nested too deeply or names a payment id that cannot be
  stored), the driver takes texts that are encodable and free of NUL, the owner is such a text
  and the claimed rows can be encoded into requests, one pass returns, has sent exactly one
  request for each claimed row, in order, and the lease that each row was claimed under is over:
  the row is no longer leased, or it was claimed again.
\<close>

theorem dispatcher_settles_claimed_rows:
  assumes "\<And>k s. pg_quiet s \<Longrightarrow> pg_traffic s (meanwhile os k s)"
    and "answerable os" and "\<And>t. storable t \<Longrightarrow> adapt t = Inr ()" and "storable (owner cfg)"
    and "pg_quiet (wdb w)" and "op_claim (pg_ops adapt) (owner cfg) (claim_batch cfg) (wdb w) = (Inr rows, db')"
    and "\<forall>row\<in>set rows. row_sendable row"
  shows "\<exists>w'. dispatcher_run_once os (pg_ops adapt) cfg w = (Inr (length rows), w') \<and>
    sent w' = sent w @ map (row_request cfg) rows \<and>
    (\<forall>row\<in>set rows. \<exists>r. find_row (pgdb (wdb w')) (fst row) = Some r \<and>
       (ostate r \<noteq> LEASED \<and> lease_version r = fst (snd row) \<or> fst (snd row) < lease_version r))"
proof -
  from pg_any.run_once_settles [of os cfg "owner cfg" adapt w rows db'] assms obtain w' where
    w': "dispatcher_run_once os (pg_ops adapt) cfg w = (Inr (length rows), w')"
      "sent w' = sent w @ map (row_request cfg) rows"
      "\<forall>i<length rows. pg_over (wdb w') (fst (rows ! i)) (fst (snd (rows ! i)))" by blast
  from w'(3) have "\<forall>row\<in>set rows. pg_over (wdb w') (fst row) (fst (snd row))" by (metis in_set_conv_nth)
  then have "\<forall>row\<in>set rows. \<exists>r. find_row (pgdb (wdb w')) (fst row) = Some r \<and>
       (ostate r \<noteq> LEASED \<and> lease_version r = fst (snd row) \<or> fst (snd row) < lease_version r)"
    unfolding pg_over_def over_def by fastforce
  with w'(1,2) show ?thesis by blast
qed

text \<open>A receipt that is accepted while the request is in flight.\<close>

definition receipt_os :: "pg os" where
  "receipt_os = (sample_os (Response 202 sample_answer []))\<lparr>meanwhile :=
     (\<lambda>_ s. s\<lparr>pgdb := confirm_receipt (U ''ext-1'') (pgdb s)\<rparr>)\<rparr>"

lemma receipt_traffic: "pg_quiet s \<Longrightarrow> pg_traffic s (meanwhile receipt_os k s)"
  by (simp add: receipt_os_def pg_quiet_def pg_traffic_def) (blast intro: confirm)

lemma sample_answerable: "answerable (sample_os (Response 202 sample_answer []))" "answerable receipt_os"
  using sample_classify storable_U [of "''pay-1''"] by (auto simp: answerable_def sample_os_def receipt_os_def)

lemma sample_adapt_storable: "storable t \<Longrightarrow> sample_adapt t = Inr ()"
  by (simp add: sample_adapt_def storable_def)

theorem dispatcher_settles_claimed_rows_witness:
  "\<exists>w' r. dispatcher_run_once receipt_os (pg_ops sample_adapt) sample_dispatcher sample_world = (Inr 1, w') \<and>
     find_row (pgdb (wdb w')) (U ''out-1'') = Some r \<and> (ostate r \<noteq> LEASED \<or> 1 < lease_version r)"
  using dispatcher_settles_claimed_rows [of receipt_os sample_adapt sample_dispatcher sample_world "[sample_row]", OF receipt_traffic]
    sample_answerable(2) sample_adapt_storable sample_claim sample_owner sample_ok(2) sample_sendable
  by (auto simp: sample_row_def)

text \<open>
  C2. The store shows what the provider answered: under the conditions of C1, when moreover nobody
  else reports under this dispatcher's owner (claims by anyone, reports of other owners, new
  requests, receipts and time passing are free), every claimed row that was not claimed again
  or confirmed in between is still under the lease it was claimed with and shows the outcome of
  the answer to its own request: delivered when the answer was accepted; otherwise its last
  error is the code of the answer, and it waits for a retry, due the policy's delay after a
  moment of the pass, when the code is retryable and attempts are left, and is dead when not.
\<close>

theorem dispatcher_reports_outcomes:
  assumes "\<And>k s. pg_quiet s \<Longrightarrow> pg_foreign (owner cfg) s (meanwhile os k s)"
    and "answerable os" and "\<And>t. storable t \<Longrightarrow> adapt t = Inr ()" and "storable (owner cfg)"
    and "pg_quiet (wdb w)" and "op_claim (pg_ops adapt) (owner cfg) (claim_batch cfg) (wdb w) = (Inr rows, db')"
    and "\<forall>row\<in>set rows. row_sendable row"
  shows "\<exists>w'. dispatcher_run_once os (pg_ops adapt) cfg w = (Inr (length rows), w') \<and>
    (\<forall>i<length rows. \<exists>r. find_row (pgdb (wdb w')) (fst (rows ! i)) = Some r \<and>
       (fst (snd (rows ! i)) < lease_version r \<or> ostate r = CONFIRMED \<or>
        lease_version r = fst (snd (rows ! i)) \<and>
        (case outcome_of (json_depth os) (net os (length (sent w) + i) (row_request cfg (rows ! i))) of
           Accepted \<Rightarrow> ostate r = DELIVERED
         | Failed code \<Rightarrow> last_error_code r = Some code \<and>
             (if endswith code (U ''.retryable'') \<and> attempt_count r < max_attempts (pgdb (wdb w'))
              then ostate r = RETRY_WAIT \<and> (\<exists>t. now (pgdb (wdb w)) \<le> t \<and> t \<le> now (pgdb (wdb w')) \<and>
                next_attempt_at r = Some (t + retry_delay (delays_ms (pgdb (wdb w'))) (attempt_count r)))
              else ostate r = DEAD))))"
proof -
  let ?since = "now (pgdb (wdb w))"
  have "pg_quiet_since ?since (wdb w)" using assms(5) by (simp add: pg_quiet_since_def)
  moreover have "pg_quiet_since ?since s \<Longrightarrow> pg_foreign (owner cfg) s (meanwhile os k s)" for k s
    using assms(1) by (simp add: pg_quiet_since_def)
  ultimately obtain w' where
    w': "dispatcher_run_once os (pg_ops adapt) cfg w = (Inr (length rows), w')"
      "\<forall>i<length rows. pg_settled ?since (wdb w') (fst (rows ! i)) (fst (snd (rows ! i)))
         (answer_to os cfg (length (sent w) + i) (rows ! i))"
    using pg_own.run_once_settles [of ?since "owner cfg" os cfg adapt w rows db'] assms(2-4,6,7) by blast
  note outcomes = w'(2) [unfolded pg_settled_def lost_def shows_outcome_def answer_to_def disj_assoc]
  from w'(1) outcomes show ?thesis by (intro exI [of _ w'] conjI)
qed

theorem dispatcher_reports_outcomes_witness:
  "\<exists>w' r. dispatcher_run_once (sample_os (Response 202 sample_answer [])) (pg_ops sample_adapt) sample_dispatcher
       sample_world = (Inr 1, w') \<and> find_row (pgdb (wdb w')) (U ''out-1'') = Some r \<and>
     (1 < lease_version r \<or> ostate r = CONFIRMED \<or> ostate r = DELIVERED)"
proof -
  let ?os = "sample_os (Response 202 sample_answer [])"
  have "outcome_of (json_depth ?os) (net ?os k rq) = Accepted" for k rq
    using sample_classify by (simp add: outcome_of_def response_of_def sample_os_def)
  moreover have "pg_quiet s \<Longrightarrow> pg_foreign (owner sample_dispatcher) s (meanwhile ?os k s)" for k s
    by (simp add: sample_os_def pg_foreign_def pg_quiet_def)
  ultimately show ?thesis
    using dispatcher_reports_outcomes [of sample_dispatcher ?os sample_adapt sample_world "[sample_row]"]
      sample_answerable(1) sample_adapt_storable sample_claim sample_owner sample_ok(2) sample_sendable
    by (auto simp: sample_row_def)
qed

text \<open>
  C6. One claim, one request: a pass of the dispatcher sends at most one request for each row it
  claimed, in the order of the claim, and nothing else, even when it raises midway; when the
  claim itself fails nothing is sent.
\<close>

theorem dispatcher_one_request_per_row:
  "\<exists>xs. sent (snd (dispatcher_run_once os ops cfg w)) = sent w @ xs \<and>
     (case op_claim ops (owner cfg) (claim_batch cfg) (wdb w) of
        (Inl _, _) \<Rightarrow> xs = []
      | (Inr rows, _) \<Rightarrow> subseq xs (map (row_request cfg) rows))"
  by (rule run_once_sends)

text \<open>
  C5. Every retry repeats the request: two claims of one row, with any transactions of any parties
  between them, lead to requests with the same address, body and headers.
\<close>

theorem retry_repeats_request:
  assumes "unique_ids db"
    and "claim_outbox locked own n db = (Inr rows, db1)" and "(oid, ver, ext, corr, amount, currency) \<in> set rows"
    and "delivery_steps db1 db2"
    and "claim_outbox locked' own' n' db2 = (Inr rows', db3)" and "(oid, ver', rest') \<in> set rows'"
    and "amount \<noteq> PNone" and "currency \<noteq> PNone"
  shows "row_request cfg (oid, ver', rest') = row_request cfg (oid, ver, ext, corr, amount, currency)"
proof -
  from claim_outbox_row [OF assms(1-3)] obtain r where
    r: "find_row db1 oid = Some (lease own (now db) r)"
      "(ext, corr, amount, currency) = (external_request_id r, correlation_id r,
         request_column db er_amount (external_request_id r), request_column db er_currency (external_request_id r))" by blast
  have db1: "delivery_step db db1" using claim [of db locked own n] assms(2) by simp
  then have u: "unique_ids db1" using delivery_step_table table_step_unique assms(1) by blast
  from delivery_steps_row [OF assms(4) u r(1)] obtain r' where
    r': "unique_ids db2" "find_row db2 oid = Some r'" "row_le (lease own (now db) r) r'" by blast
  then have e: "external_request_id r' = external_request_id r" "correlation_id r' = correlation_id r"
    by (simp_all add: row_le_def lease_def)
  have st: "delivery_steps db db2" using db1 assms(4) by (rule converse_rtranclp_into_rtranclp)
  have "request_column db2 er_amount ext = amount" "request_column db2 er_currency ext = currency"
    using delivery_steps_request [OF st, of er_amount ext] delivery_steps_request [OF st, of er_currency ext]
      assms(7,8) r(2) by simp_all
  moreover from claim_outbox_row [OF r'(1) assms(5,6)] r'(2) have "rest' = (external_request_id r', correlation_id r',
      request_column db2 er_amount (external_request_id r'), request_column db2 er_currency (external_request_id r'))" by auto
  ultimately show ?thesis using e r(2) by (simp add: row_request_def)
qed

theorem retry_repeats_request_witness:
  "row_request sample_dispatcher (U ''out-1'', 2, U ''ext-1'', U ''corr-1'', PStr (U ''10.00''), PStr (U ''RUB'')) =
   row_request sample_dispatcher sample_row"
  using retry_repeats_request [OF sample_rows(1,6) _ sample_steps(3) sample_rows(7), of "U ''out-1''" 1 "U ''ext-1''"
      "U ''corr-1''" "PStr (U ''10.00'')" "PStr (U ''RUB'')" 2
      "(U ''ext-1'', U ''corr-1'', PStr (U ''10.00''), PStr (U ''RUB''))" sample_dispatcher]
  by (simp add: sample_row_def)

text \<open>
  C9. How an answer is read: only a 202 whose body is an object with exactly the members
  \<^verbatim>\<open>providerPaymentId\<close>, a non-empty text, and \<^verbatim>\<open>status\<close> equal to \<^verbatim>\<open>ACCEPTED\<close> is a success, and it
  yields that payment id; every other verdict is an error code, which asks for a retry exactly
  for the statuses 408, 429 and 500 to 599.
\<close>

theorem classify_response_verdict:
  assumes "classify_response d st b = Inr verdict"
  shows "(\<forall>pid. verdict = (None, Some pid) \<longleftrightarrow> st = 202 \<and> pid \<noteq> [] \<and> (\<exists>m. loads_bytes d b = Inr (PDict m) \<and>
      dkeys m = {U ''providerPaymentId'', U ''status''} \<and> map_of m (U ''providerPaymentId'') = Some (PStr pid) \<and>
      map_of m (U ''status'') = Some (PStr (U ''ACCEPTED'')))) \<and>
    (fst verdict = None \<longrightarrow> snd verdict \<noteq> None) \<and>
    (\<forall>code. fst verdict = Some code \<longrightarrow> snd verdict = None \<and>
      (endswith code (U ''.retryable'') \<longleftrightarrow> st = 408 \<or> st = 429 \<or> 500 \<le> st \<and> st \<le> 599))"
proof -
  have r: "endswith (U ''http.'' @ str_of_int st @ U ''.retryable'') (U ''.retryable'')"
    by (auto simp: endswith_iff)
  have l: "endswith s (U ''.retryable'') \<Longrightarrow> last s = 101" for s
    by (auto simp: endswith_iff U_def)
  have x: "\<not> endswith (U ''http.'' @ str_of_int st @ U ''.terminal'') (U ''.retryable'')"
    "\<not> endswith response_invalid (U ''.retryable'')"
    by (auto dest!: l simp: response_invalid_def) (simp_all add: U_def)
  have acc: "classify_response d st b = Inr (None, Some pid) \<longleftrightarrow> st = 202 \<and> pid \<noteq> [] \<and> (\<exists>m. loads_bytes d b = Inr (PDict m) \<and>
      dkeys m = {U ''providerPaymentId'', U ''status''} \<and> map_of m (U ''providerPaymentId'') = Some (PStr pid) \<and>
      map_of m (U ''status'') = Some (PStr (U ''ACCEPTED'')))" for pid
    by (rule classify_response_accepted)
  from assms have "fst verdict = None \<longrightarrow> snd verdict \<noteq> None"
    "\<forall>code. fst verdict = Some code \<longrightarrow> snd verdict = None \<and>
      (endswith code (U ''.retryable'') \<longleftrightarrow> st = 408 \<or> st = 429 \<or> 500 \<le> st \<and> st \<le> 599)"
    by (cases rule: classify_response_cases; use r x in auto)+
  with acc assms show ?thesis by simp
qed

theorem classify_response_verdict_witness:
  "\<exists>m. loads_bytes 10 sample_answer = Inr (PDict m) \<and> map_of m (U ''providerPaymentId'') = Some (PStr (U ''pay-1''))"
  using classify_response_verdict [OF sample_classify] by blast

text \<open>
  C11. An answer can stop the process: when the provider answers 202 with brackets nested deeper than
  the interpreter allows, the exception leaves the loop of \<^verbatim>\<open>main\<close>; the request was sent, the
  outcome of the row is not reported and the remaining claimed rows are not attempted.
\<close>

theorem dispatcher_stopped_by_answer:
  assumes "enter (wdb w) = (Inr (), db0)"
    and "op_claim ops (owner cfg) (claim_batch cfg) db0 = (Inr (row # rows), db1)" and "row_sendable row"
    and "net os (length (sent w)) (row_request cfg row) = Response 202 (replicate (Suc (json_depth os)) 91) hs"
  shows "dispatcher_round os ops enter leave cfg w =
    (Inl RecursionError, w\<lparr>wdb := meanwhile os (length (sent w)) db1, sent := sent w @ [row_request cfg row]\<rparr>)"
proof -
  obtain oid ver ext corr amount currency where row: "row = (oid, ver, ext, corr, amount, currency)" by (cases row)
  from assms(3) obtain body hd where b: "build_provider_request ext corr amount currency = Inr (body, hd)"
    "for_each put_header hd = Inr ()" by (auto simp: row_sendable_def row)
  have rq: "\<lparr>url = payments_url cfg, payload = body, req_headers = hd, timeout = provider_timeout cfg\<rparr> = row_request cfg row"
    by (simp add: row row_request_def b(1))
  have "req_headers (row_request cfg row) = hd" using rq by (metis http_request.select_convs(3))
  then have "post os (row_request cfg row) (w\<lparr>wdb := db1\<rparr>) =
      (Inr (202, replicate (Suc (json_depth os)) 91, dict_of hs),
       w\<lparr>wdb := meanwhile os (length (sent w)) db1, sent := sent w @ [row_request cfg row]\<rparr>)"
    using b(2) assms(4) by (simp add: post_def post_json_def response_of_def Let_def del: for_each_eq_Inr)
  moreover have "classify_response (json_depth os) 202 (replicate (Suc (json_depth os)) 91) = Inl RecursionError"
    using loads_bytes_deep [of "json_depth os"] by (simp add: classify_response_def del: replicate_Suc)
  ultimately have "attempt os ops cfg row (w\<lparr>wdb := db1\<rparr>) = (Inl RecursionError,
      w\<lparr>wdb := meanwhile os (length (sent w)) db1, sent := sent w @ [row_request cfg row]\<rparr>)"
    by (simp add: attempt_def row b(1) rq [unfolded row] del: replicate_Suc)
  then have "dispatcher_run_once os ops cfg (w\<lparr>wdb := db0\<rparr>) = (Inl RecursionError,
      w\<lparr>wdb := meanwhile os (length (sent w)) db1, sent := sent w @ [row_request cfg row]\<rparr>)"
    using assms(2) by (simp add: dispatcher_run_once_def query_def py_seq_def is_PsycopgError_def)
  then show ?thesis using assms(1)
    by (simp add: dispatcher_round_def query_def py_seq_def is_PsycopgError_def)
qed

theorem dispatcher_stopped_by_answer_witness:
  "fst (dispatcher_round (sample_os (Response 202 (replicate 11 91) [])) (pg_ops sample_adapt) (py_return ()) (py_return ())
     sample_dispatcher sample_world) = Inl RecursionError"
proof -
  let ?os = "sample_os (Response 202 (replicate 11 91) [])"
  have "Suc (json_depth ?os) = 11" by (simp add: sample_os_def)
  then have "net ?os (length (sent sample_world)) (row_request sample_dispatcher sample_row) =
      Response 202 (replicate (Suc (json_depth ?os)) 91) []" by (simp only:) (simp add: sample_os_def)
  moreover have "op_claim (pg_ops sample_adapt) (owner sample_dispatcher) (claim_batch sample_dispatcher) (wdb sample_world) =
      (Inr (sample_row # []), \<lparr>pgdb = db_leased, faults = [], locked_rows = {}\<rparr>)"
    by (simp only: sample_owner sample_claim)
  moreover have "py_return () (wdb sample_world) = (Inr (), wdb sample_world)" by simp
  ultimately show ?thesis using sample_sendable by (metis dispatcher_stopped_by_answer fst_conv)
qed

end
