(* ===== verification/App_Reconciler.thy ===== *)
theory App_Reconciler
  imports App_Dispatcher
begin

text \<open>
  \<^verbatim>\<open>Python/app/reconciler.py\<close>: a loop that asks the database to apply received receipts. The SQL
  function \<^verbatim>\<open>delivery.reconcile_inbox\<close> is the argument \<open>reconcile\<close>: for a limit it yields the row
  that \<^verbatim>\<open>fetchone\<close> returns, or raises.
\<close>

section \<open>The module\<close>

definition reconciler_run_once ::
  "(int \<Rightarrow> ('db, pyval list option) py) \<Rightarrow> ReconcilerConfig \<Rightarrow> ('db world, int) py" where
  "reconciler_run_once reconcile cfg =
     py_bind (query (reconcile (limit cfg))) (\<lambda>row. case row of
       None \<Rightarrow> py_return 0
     | Some [] \<Rightarrow> py_return 0
     | Some (v # _) \<Rightarrow> py_lift (py_int v))"

definition reconciler_round :: "'db os \<Rightarrow> (int \<Rightarrow> ('db, pyval list option) py) \<Rightarrow> ('db, unit) py \<Rightarrow> ('db, unit) py \<Rightarrow>
    ReconcilerConfig \<Rightarrow> ('db world, unit) py" where
  "reconciler_round os reconcile enter leave cfg =
     py_try
       (py_bind (py_seq (query enter) (py_bind (reconciler_run_once reconcile cfg) (\<lambda>applied.
           py_seq (query leave) (py_return applied)))) (\<lambda>applied.
        if applied \<noteq> 0
        then emit os [(U ''event'', PStr (U ''reconciler.applied'')), (U ''count'', PInt applied)]
        else py_return ()))
       is_PsycopgError (\<lambda>e. emit os (error_event ''reconciler.connection_error'' e))"

definition reconciler_main :: "nat \<Rightarrow> 'db os \<Rightarrow> (int \<Rightarrow> ('db, pyval list option) py) \<Rightarrow> (connect_args \<Rightarrow> ('db, unit) py) \<Rightarrow>
    ('db, unit) py \<Rightarrow> environ \<Rightarrow> ('db world, unit) py" where
  "reconciler_main n os reconcile psycopg_connect leave env =
     py_bind (py_lift (reconciler_config env)) (\<lambda>cfg.
     py_seq (emit os [(U ''event'', PStr (U ''reconciler.started''))])
       (rounds n (reconciler_round os reconcile (connect psycopg_connect (r_pg cfg)) leave cfg)))"

section \<open>Properties\<close>

lemma emit_survives: "\<forall>kv\<in>set ev. (\<exists>s. snd kv = PStr s) \<or> (\<exists>i. snd kv = PInt i) \<Longrightarrow> fst (emit os ev w) = Inr ()"
  using emit_ok [of ev os w] by auto

lemma error_event_survives: "fst (emit os (error_event name e) w) = Inr ()"
  by (rule emit_survives) (auto simp: error_event_def)

text \<open>A block whose exceptions are all the driver's survives inside the \<^verbatim>\<open>try\<close>.\<close>

definition raises_only :: "(pyexn \<Rightarrow> bool) \<Rightarrow> ('s, 'a) py \<Rightarrow> bool" where
  "raises_only p m \<longleftrightarrow> (\<forall>s e. fst (m s) = Inl e \<longrightarrow> p e)"

lemma raises_only_pure: "raises_only p (py_return x)"
  by (simp add: raises_only_def)

lemma raises_only_bind:
  assumes "raises_only p m" "\<And>x. raises_only p (f x)"
  shows "raises_only p (py_bind m f)"
  unfolding raises_only_def
proof (intro allI impI)
  fix s e
  assume e: "fst (py_bind m f s) = Inl e"
  obtain r s' where m: "m s = (r, s')" by (cases "m s")
  show "p e"
  proof (cases r)
    case (Inl e')
    with m e assms(1) show ?thesis unfolding raises_only_def by (metis fst_conv py_bind_simps(1))
  next
    case (Inr x)
    with m e assms(2) show ?thesis unfolding raises_only_def by (metis py_bind_simps(2))
  qed
qed

lemma raises_only_seq: "raises_only p m \<Longrightarrow> raises_only p n \<Longrightarrow> raises_only p (py_seq m n)"
  unfolding py_seq_def by (rule raises_only_bind)

lemma raises_only_try:
  assumes "raises_only p m" "\<And>e s. fst (h e s) = Inr ()"
  shows "fst (py_try m p h s) = Inr ()"
proof -
  obtain r s' where m: "m s = (r, s')" by (cases "m s")
  show ?thesis
  proof (cases r)
    case (Inl e)
    moreover with m assms(1) have "p e" unfolding raises_only_def by (metis fst_conv)
    ultimately show ?thesis using m assms(2) by simp
  qed (use m in simp)
qed

lemma raises_only_query: "raises_only p m \<Longrightarrow> raises_only p (query m)"
  by (auto simp: raises_only_def query_def Let_def split: prod.splits) (metis fst_conv)

lemma rounds_survive: "(\<And>s. fst (m s) = Inr ()) \<Longrightarrow> fst (rounds n m s) = Inr ()"
proof (induction n arbitrary: s)
  case (Suc n)
  obtain s' where "m s = (Inr (), s')" using Suc.prems by (metis prod.collapse)
  with Suc show ?case by (simp add: py_seq_def)
qed simp

text \<open>The row that the SQL function, declared \<^verbatim>\<open>RETURNS integer\<close>, yields.\<close>

definition yields_count :: "('db, pyval list option) py \<Rightarrow> bool" where
  "yields_count m \<longleftrightarrow> raises_only is_PsycopgError m \<and> (\<forall>s row. fst (m s) = Inr row \<longrightarrow> (\<exists>i. row = Some [PInt i]))"

lemma reconciler_run_once_raises:
  assumes "\<And>n. yields_count (reconcile n)"
  shows "raises_only is_PsycopgError (reconciler_run_once reconcile cfg)"
  unfolding raises_only_def
proof (intro allI impI)
  fix w e
  assume e: "fst (reconciler_run_once reconcile cfg w) = Inl e"
  obtain r db' where m: "reconcile (limit cfg) (wdb w) = (r, db')" by (cases "reconcile (limit cfg) (wdb w)")
  then have q: "query (reconcile (limit cfg)) w = (r, w\<lparr>wdb := db'\<rparr>)" by (simp add: query_def)
  show "is_PsycopgError e"
  proof (cases r)
    case (Inl e')
    with q e have "e' = e" by (simp add: reconciler_run_once_def)
    moreover have "fst (reconcile (limit cfg) (wdb w)) = Inl e'" using m Inl by simp
    ultimately show ?thesis using assms [of "limit cfg"] unfolding yields_count_def raises_only_def by blast
  next
    case (Inr row)
    with m have "fst (reconcile (limit cfg) (wdb w)) = Inr row" by simp
    with assms [of "limit cfg"] obtain i where "row = Some [PInt i]" unfolding yields_count_def by blast
    with q e Inr show ?thesis by (simp add: reconciler_run_once_def)
  qed
qed

lemma reconciler_round_survives:
  assumes "raises_only is_PsycopgError enter" "raises_only is_PsycopgError leave" "\<And>n. yields_count (reconcile n)"
  shows "fst (reconciler_round os reconcile enter leave cfg w) = Inr ()"
proof -
  have "raises_only is_PsycopgError (emit os [(U ''event'', PStr (U ''reconciler.applied'')), (U ''count'', PInt n)])" for n
    by (simp add: raises_only_def emit_survives)
  then show ?thesis unfolding reconciler_round_def
    by (intro raises_only_try raises_only_bind raises_only_seq raises_only_query reconciler_run_once_raises
        raises_only_pure error_event_survives assms) (auto intro: raises_only_pure)
qed

text \<open>
  C10. The reconciler survives the database: with settings that are complete, calls of the driver that
  raise nothing but the driver's own errors and a function that answers with a count, no number
  of rounds of \<^verbatim>\<open>main\<close> ends in an exception.
\<close>

theorem reconciler_survives:
  assumes "reconciler_config env = Inr cfg"
    and "\<And>a. raises_only is_PsycopgError (psycopg_connect a)" and "raises_only is_PsycopgError leave"
    and "\<And>n. yields_count (reconcile n)"
  shows "fst (reconciler_main n os reconcile psycopg_connect leave env w) = Inr ()"
proof -
  obtain line where l: "emit os [(U ''event'', PStr (U ''reconciler.started''))] w = (Inr (), w\<lparr>log := log w @ [line]\<rparr>)"
    using emit_ok [of "[(U ''event'', PStr (U ''reconciler.started''))]" os w] by auto
  have "fst (rounds n (reconciler_round os reconcile (connect psycopg_connect (r_pg cfg)) leave cfg) w') = Inr ()" for w'
    by (intro rounds_survive reconciler_round_survives assms) (simp add: connect_def assms(2))
  with l show ?thesis by (simp add: reconciler_main_def assms(1) py_seq_def)
qed

definition reconciler_env :: environ where
  "reconciler_env = [(U ''PGUSER'', U ''inbox_reconciler''), (U ''PGPASSWORD'', U ''inbox'')]"

theorem reconciler_survives_witness:
  "fst (reconciler_main 7 (sample_os TransportError) (\<lambda>_. py_return (Some [PInt 2])) (\<lambda>_. py_raise connection_lost)
     (py_return ()) reconciler_env sample_world) = Inr ()"
proof -
  have "isl (reconciler_config reconciler_env) = False" by code_simp
  then obtain cfg where "reconciler_config reconciler_env = Inr cfg" using not_isl_Inr by blast
  then show ?thesis
    by (rule reconciler_survives)
      (simp_all add: raises_only_def yields_count_def connection_lost_def is_PsycopgError_def)
qed

end
