(* ===== verification/Week4_Services.thy ===== *)
theory Week4_Services
  imports Week4_Constants
begin

text \<open>
  How the checker of week 4 reads one service of a Compose configuration: ports, host addresses,
  environment, build paths, database settings. A configuration is what \<^verbatim>\<open>json.loads\<close> made of
  the output of \<^verbatim>\<open>docker compose config\<close>, so every member may have any type.
\<close>

section \<open>Ports\<close>

definition DEFAULT_PORT :: regex where
  "DEFAULT_PORT = rseqs [rstr '':-'', RGroup 1 (rplus rdigit), rch 125, RLook (rch 58)]"

definition DEFAULT_VALUE :: regex where
  "DEFAULT_VALUE = rseqs [rstr ''${'', rplus (RCls (\<lambda>c. c \<noteq> 125)), rstr '':-'', RGroup 1 (rplus rdigit), rch 125]"

definition PORT_RANGE :: regex where
  "PORT_RANGE = rseqs [rplus rdigit, rch 45, rplus rdigit]"

definition opt_str :: "pystr option \<Rightarrow> pyval" where
  "opt_str x = (case x of None \<Rightarrow> PNone | Some s \<Rightarrow> PStr s)"

definition published_text :: "pystr \<Rightarrow> pyval" where
  "published_text item =
     (let without_protocol = split1_head (U ''/'') item in
      case research DEFAULT_PORT without_protocol of
        Some cs \<Rightarrow> opt_str (group 1 cs)
      | None \<Rightarrow>
          let parts = rsplit_ch 58 2 without_protocol in
          if 2 \<le> length parts then PStr (parts ! (length parts - 2)) else PNone)"

definition strip_default :: "pyval \<Rightarrow> pyval" where
  "strip_default value = (case value of
     PStr s \<Rightarrow> (case fullmatch DEFAULT_VALUE s of Some cs \<Rightarrow> opt_str (group 1 cs) | None \<Rightarrow> value)
   | _ \<Rightarrow> value)"

definition published_value :: "pyval \<Rightarrow> pyval" where
  "published_value item = strip_default (case item of
     PDict d \<Rightarrow> dget_none d (U ''published'')
   | PStr s \<Rightarrow> published_text s
   | _ \<Rightarrow> PNone)"

definition target_value :: "pyval \<Rightarrow> pyval" where
  "target_value item = (case item of
     PDict d \<Rightarrow> dget_none d (U ''target'')
   | PStr s \<Rightarrow> PStr (last (rsplit_ch 58 1 (split1_head (U ''/'') s)))
   | _ \<Rightarrow> PNone)"

text \<open>The ports that one value stands for: a range of at most 1001 ports, or one number.\<close>

definition port_range :: "pystr \<Rightarrow> int set res" where
  "port_range s = (case partition_str (U ''-'') s of (a, _, b) \<Rightarrow>
     res_bind (int_of_str a) (\<lambda>start. res_bind (int_of_str b) (\<lambda>stop.
       Inr (if start \<le> stop \<and> stop - start \<le> 1000 then {start..stop} else {}))))"

definition one_port :: "pyval \<Rightarrow> int set res" where
  "one_port value = (case py_int value of
     Inr n \<Rightarrow> Inr {n}
   | Inl e \<Rightarrow> if e = TypeError \<or> is_ValueError e then Inr {} else Inl e)"

definition ports_of_value :: "pyval \<Rightarrow> int set res" where
  "ports_of_value value = (case value of
     PStr s \<Rightarrow> if fullmatch_ok PORT_RANGE s then port_range s else one_port value
   | _ \<Rightarrow> one_port value)"

text \<open>\<^verbatim>\<open>for item in service.get("ports", []) or []\<close>\<close>

definition port_items :: "pydict \<Rightarrow> pyval list res" where
  "port_items d = py_iter (get_or (PList []) d (U ''ports''))"

definition collect_ports :: "(pyval \<Rightarrow> pyval) \<Rightarrow> pyval \<Rightarrow> int set res" where
  "collect_ports f service = (case service of
     PDict d \<Rightarrow> res_bind (port_items d) (\<lambda>items. res_fold (\<lambda>item result.
       res_bind (ports_of_value (f item)) (\<lambda>ps. Inr (result \<union> ps))) items {})
   | _ \<Rightarrow> Inr {})"

definition published_ports :: "pyval \<Rightarrow> int set res" where
  "published_ports service = collect_ports published_value service"

definition target_ports :: "pyval \<Rightarrow> int set res" where
  "target_ports service = collect_ports target_value service"

definition host_ip :: "pyval \<Rightarrow> pystr list" where
  "host_ip item = (case item of
     PDict d \<Rightarrow> [py_str (py_or (dget_none d (U ''host_ip'')) (PStr []))]
   | PStr s \<Rightarrow> [if startswith (split1_head (U ''/'') s) (U ''127.0.0.1:'') then U ''127.0.0.1'' else []]
   | _ \<Rightarrow> [])"

definition published_host_ips :: "pyval \<Rightarrow> pystr set res" where
  "published_host_ips service = (case service of
     PDict d \<Rightarrow> res_bind (port_items d) (\<lambda>items. Inr (set (concat (map host_ip items))))
   | _ \<Rightarrow> Inr {})"

section \<open>Environment\<close>

type_synonym senv = "(pystr \<times> pystr) list"

definition env_entry :: "pystr \<times> pyval \<Rightarrow> pystr \<times> pystr" where
  "env_entry kv = (fst kv, if snd kv = PNone then [] else py_str (snd kv))"

definition env_line :: "pyval \<Rightarrow> pystr \<times> pystr" where
  "env_line item = (case partition_str (U ''='') (py_str item) of (k, s, v) \<Rightarrow> (k, if s \<noteq> [] then v else []))"

definition service_environment :: "pyval \<Rightarrow> senv" where
  "service_environment service = (case service of
     PDict d \<Rightarrow> (case get_or (PDict []) d (U ''environment'') of
         PDict env \<Rightarrow> dict_of (map env_entry env)
       | PList items \<Rightarrow> dict_of (map env_line items)
       | _ \<Rightarrow> [])
   | _ \<Rightarrow> [])"

section \<open>Paths\<close>

definition REMOTE_PATH :: regex where
  "REMOTE_PATH = RSeq RBegin (RAlt (RSeq (rplus (RCls letter_ci)) (rstr ''://'')) (rstr_ci ''git@''))"

definition path_is_within :: "(pystr \<Rightarrow> pystr list res) \<Rightarrow> pyval \<Rightarrow> pystr \<Rightarrow> pystr \<Rightarrow> bool res" where
  "path_is_within resolve p root base = (case p of
     PStr s \<Rightarrow>
       if s = [] \<or> match_ok REMOTE_PATH s then Inr False
       else (case res_bind (resolve (if is_absolute s then s else path_join base s)) (\<lambda>c.
               res_bind (resolve root) (\<lambda>r. Inr (is_relative_to c r))) of
           Inl e \<Rightarrow> if e = OSError \<or> is_ValueError e then Inr False else Inl e
         | Inr b \<Rightarrow> Inr b)
   | _ \<Rightarrow> Inr False)"

section \<open>Database settings\<close>

definition DB_KEY :: regex where
  "DB_KEY = rseqs [RAlt RBegin (rch 95),
     ralts [RSeq (rstr_ci ''PG'') (names_ci [''HOST'', ''PORT'', ''DATABASE'', ''USER'', ''PASSWORD'', ''SERVICE'']),
       RSeq (rstr_ci ''DB_'') (names_ci [''HOST'', ''PORT'', ''NAME'', ''USER'', ''USERNAME'', ''PASSWORD'']),
       RSeq (rstr_ci ''DB_'') (names_ci [''URL'', ''URI'', ''DSN'']),
       RSeq (rstr_ci ''DATABASE_'') (names_ci [''HOST'', ''PORT'', ''NAME'', ''USER'', ''USERNAME'', ''PASSWORD'', ''URL'', ''URI'', ''DSN'']),
       rseqs [rstr_ci ''POSTGRES'', ropt (rstr_ci ''QL''), rstr_ci ''_'',
         names_ci [''HOST'', ''PORT'', ''DB'', ''DATABASE'', ''USER'', ''USERNAME'', ''PASSWORD'', ''URL'', ''URI'', ''DSN'']],
       rstr_ci ''PGDSN'', rstr_ci ''CONNECTION_STRING'', rstr_ci ''DATABASE_CONNECTION_STRING''],
     RAlt REnd (rch 95)]"

definition POSTGRES_URL :: regex where
  "POSTGRES_URL = rseqs [RBegin, rstr_ci ''postgres'', ropt (rstr_ci ''ql''), rstr ''://'']"

definition DSN_SETTING :: regex where
  "DSN_SETTING = rseqs [RAlt RBegin rspace,
     names_ci [''host'', ''hostaddr'', ''port'', ''dbname'', ''user'', ''password'', ''service''], rch 61]"

definition database_environment_entries :: "senv \<Rightarrow> senv" where
  "database_environment_entries environment =
     foldl (\<lambda>result (k, v).
         let r1 = (if match_ok POSTGRES_URL v then dput k v result else result)
         in if search_ok DSN_SETTING v then dput k v r1 else r1)
       (dict_of (filter (\<lambda>(k, v). search_ok DB_KEY k) environment)) environment"

definition USER_KEY :: regex where
  "USER_KEY = rseqs [RAlt RBegin (rch 95),
     names_ci [''PGUSER'', ''DB_USER'', ''DB_USERNAME'', ''DATABASE_USER'', ''DATABASE_USERNAME'', ''POSTGRES_USER'', ''POSTGRES_USERNAME''],
     RAlt REnd (rch 95)]"

definition DSN_USER :: regex where
  "DSN_USER = rseqs [RAlt RBegin rspace, rstr_ci ''user'', RStar rspace, rch 61, RStar rspace,
     RAlt (rseqs [rch 39, RGroup 1 (RStar (RAlt (RCls (\<lambda>c. c \<noteq> 39)) (RSeq (rch 39) (rch 39)))), rch 39])
       (RGroup 2 (rplus (RCls (\<lambda>c. \<not> is_space c))))]"

definition NPGSQL_USER :: regex where
  "NPGSQL_USER = rseqs [RAlt RBegin (rch 59), RStar rspace,
     RAlt (rseqs [rstr_ci ''user'', RStar rspace, rstr_ci ''id'']) (rstr_ci ''username''),
     RStar rspace, rch 61, RStar rspace, RGroup 1 (rplus (RCls (\<lambda>c. c \<noteq> 59)))]"

definition url_principal :: "(pystr \<Rightarrow> bool) \<Rightarrow> pystr \<Rightarrow> pystr set" where
  "url_principal netloc_ok v =
     (if match_ok POSTGRES_URL v
      then (case urlsplit netloc_ok v of
          Inl _ \<Rightarrow> {}
        | Inr u \<Rightarrow> (case url_username u of None \<Rightarrow> {} | Some n \<Rightarrow> if n = [] then {} else {unquote n}))
      else {})"

text \<open>
  \<^verbatim>\<open>(dsn_user.group(1) or dsn_user.group(2)).replace("''", "'")\<close>: an empty quoted name leaves
  the second group, which is not set, and \<^verbatim>\<open>None\<close> has no \<^verbatim>\<open>replace\<close>.
\<close>

definition dsn_principal :: "pystr \<Rightarrow> pystr set res" where
  "dsn_principal v = (case research DSN_USER v of
     None \<Rightarrow> Inr {}
   | Some cs \<Rightarrow>
       (case py_or (opt_str (group 1 cs)) (opt_str (group 2 cs)) of
          PStr n \<Rightarrow> Inr {replace_str (U [CHR 0x27, CHR 0x27]) (U [CHR 0x27]) n}
        | _ \<Rightarrow> Inl AttributeError))"

definition npgsql_principal :: "pystr \<Rightarrow> pystr set" where
  "npgsql_principal v = (case research NPGSQL_USER v of
     None \<Rightarrow> {}
   | Some cs \<Rightarrow> (case group 1 cs of None \<Rightarrow> {} | Some n \<Rightarrow> {strip n}))"

definition entry_principals :: "(pystr \<Rightarrow> bool) \<Rightarrow> pystr \<times> pystr \<Rightarrow> pystr set res" where
  "entry_principals netloc_ok kv =
     res_bind (dsn_principal (snd kv)) (\<lambda>dsn.
       Inr ((if search_ok USER_KEY (fst kv) \<and> snd kv \<noteq> [] then {snd kv} else {}) \<union>
         url_principal netloc_ok (snd kv) \<union> dsn \<union> npgsql_principal (snd kv)))"

definition database_principals :: "(pystr \<Rightarrow> bool) \<Rightarrow> senv \<Rightarrow> pystr set res" where
  "database_principals netloc_ok environment =
     res_bind (res_map (entry_principals netloc_ok) (database_environment_entries environment)) (\<lambda>ps. Inr (\<Union> (set ps)))"

end
