(* ===== verification/Week4_Compose.thy ===== *)
theory Week4_Compose
  imports Week4_Services
begin

text \<open>
  The checks of a Compose configuration in week 4 that need no file system: references to the
  published environment, the volume of the database, the distribution of secrets, the image of
  the provider and its callback address.
\<close>

section \<open>Definitions\<close>

definition not_an_object :: "pystr list" where
  "not_an_object = [U ''services must be an object'']"

definition gateway_reference :: "pydict \<Rightarrow> pystr \<Rightarrow> pystr list res" where
  "gateway_reference services marker =
     res_bind (published_ports (dget_none services (U ''gateway''))) (\<lambda>ports.
     res_bind (int_of_str marker) (\<lambda>port.
       Inr (note_if (ports \<noteq> {port}) (U ''gateway: tracked ports must reference COURSE_GATEWAY_PORT''))))"

definition has_value_with :: "pystr \<Rightarrow> senv \<Rightarrow> bool" where
  "has_value_with marker environment = list_ex (\<lambda>(k, v). contains marker v) environment"

definition recipient_references :: "pydict \<Rightarrow> pystr \<Rightarrow> pystr \<Rightarrow> pystr list \<Rightarrow> pystr list" where
  "recipient_references services variable marker recipients = concat (map (\<lambda>service_name.
     note_if (\<not> has_value_with marker (service_environment (dget_none services service_name)))
       (service_name @ U '': tracked environment must reference '' @ variable)) recipients)"

definition environment_reference_findings :: "pydict \<Rightarrow> senv \<Rightarrow> pystr list res" where
  "environment_reference_findings config reference_values = (case dget_def (PDict []) config (U ''services'') of
     PDict services \<Rightarrow> res_concat (\<lambda>(variable, recipients).
       res_bind (ditem reference_values variable) (\<lambda>marker.
         if variable = U ''COURSE_GATEWAY_PORT'' then gateway_reference services marker
         else Inr (recipient_references services variable marker recipients))) REQUIRED_ENV_RECIPIENTS
   | _ \<Rightarrow> Inr not_an_object)"

definition volume_name :: "pyval \<Rightarrow> pystr list" where
  "volume_name volume = (case volume of
     PDict d \<Rightarrow>
       if dget_none d (U ''type'') = PStr (U ''volume'') \<and> truthy (dget_none d (U ''source''))
       then [py_str (dget_none d (U ''source''))] else []
   | PStr s \<Rightarrow> (case partition_str (U '':'') s of (source, separator, _) \<Rightarrow>
       if separator \<noteq> [] \<and> source \<noteq> [] \<and> \<not> startswith source (U ''.'') \<and> \<not> startswith source (U ''/'')
       then [source] else [])
   | _ \<Rightarrow> [])"

definition postgres_volume_findings :: "pydict \<Rightarrow> pystr list res" where
  "postgres_volume_findings config =
     (case (dget_def (PDict []) config (U ''services''), get_or (PDict []) config (U ''volumes'')) of
        (PDict services, PDict volumes) \<Rightarrow> (case dget_none services (U ''postgres'') of
          PDict postgres \<Rightarrow> res_bind (py_iter (get_or (PList []) postgres (U ''volumes''))) (\<lambda>vs.
            Inr (note_if (set (concat (map volume_name vs)) \<inter> dkeys volumes = {})
              (U ''postgres must persist data on a declared named volume'')))
        | _ \<Rightarrow> Inr [U ''postgres service config is invalid''])
      | _ \<Rightarrow> Inr [U ''PostgreSQL named volume configuration is invalid''])"

text \<open>Secrets: a name, the value and the places (service and variable, or \<^verbatim>\<open>*\<close>) that may hold it.\<close>

type_synonym secrets = "(pystr \<times> pystr \<times> (pystr \<times> pystr) set) list"

definition exposed_entries :: "pystr \<Rightarrow> pystr \<Rightarrow> (pystr \<times> pystr) set \<Rightarrow> pystr \<Rightarrow> senv \<Rightarrow> pystr list" where
  "exposed_entries label secret allowed service_name environment = concat (map (\<lambda>(key, v).
     note_if (contains secret v \<and> (service_name, key) \<notin> allowed \<and> (service_name, U ''*'') \<notin> allowed)
       (label @ U '': secret is exposed to '' @ service_name @ U ''.'' @ key)) environment)"

definition service_exposure ::
    "pystr \<Rightarrow> pystr \<Rightarrow> (pystr \<times> pystr) set \<Rightarrow> pystr \<times> pyval \<Rightarrow> pystr list res" where
  "service_exposure label secret allowed ns = (case ns of (service_name, service) \<Rightarrow>
     (case service of
        PDict d \<Rightarrow> res_bind (dumps spaced (PDict (dpop (U ''environment'') d))) (\<lambda>rest_text.
          Inr (exposed_entries label secret allowed service_name (service_environment service) @
            note_if (contains secret rest_text)
              (label @ U '': secret is exposed outside '' @ service_name @ U '' environment'')))
      | _ \<Rightarrow> Inr []))"

definition secret_findings :: "pystr \<Rightarrow> pydict \<Rightarrow> pystr \<times> pystr \<times> (pystr \<times> pystr) set \<Rightarrow> pystr list res" where
  "secret_findings top_level_text services lsa = (case lsa of (label, secret, allowed) \<Rightarrow>
     if secret = [] then Inr []
     else res_append
       (Inr (note_if (contains secret top_level_text) (label @ U '': secret is exposed outside service environment'')))
       (res_concat (service_exposure label secret allowed) services))"

definition secret_distribution_findings :: "pydict \<Rightarrow> secrets \<Rightarrow> pystr list res" where
  "secret_distribution_findings config secrets_by_name = (case dget_def (PDict []) config (U ''services'') of
     PDict services \<Rightarrow> res_bind (dumps spaced (PDict (dpop (U ''services'') config))) (\<lambda>top_level_text.
       res_concat (secret_findings top_level_text services) secrets_by_name)
   | _ \<Rightarrow> Inr not_an_object)"

text \<open>\<^verbatim>\<open>s.rsplit(sep, 1)\<close>\<close>

definition rsplit1 :: "nat \<Rightarrow> pystr \<Rightarrow> pystr \<times> pystr" where
  "rsplit1 sep s = (let ps = rsplit_ch sep 1 s in (hd ps, last ps))"

definition image_repository :: "pystr \<Rightarrow> pystr" where
  "image_repository reference =
     (if 58 \<in> set (snd (rsplit1 47 reference)) then fst (rsplit1 58 reference) else reference)"

definition provider_image_matches :: "pyval \<Rightarrow> bool" where
  "provider_image_matches value = (case value of
     PStr s \<Rightarrow>
       64 \<in> set s \<and>
       (let (reference, digest) = rsplit1 64 s;
            (expected_reference, expected_digest) = rsplit1 64 PROVIDER_IMAGE
        in image_repository reference = fst (rsplit1 58 expected_reference) \<and> digest = expected_digest)
   | _ \<Rightarrow> False)"

definition CALLBACK_PATH :: regex where
  "CALLBACK_PATH = RSeq (rstr ''/callbacks/provider-v02/'') (rplus (RCls (\<lambda>c. c \<noteq> 47)))"

definition callback_url_ok :: "url \<Rightarrow> int option \<Rightarrow> bool" where
  "callback_url_ok parsed port =
     (url_scheme parsed = U ''http'' \<and> url_hostname parsed = Some (U ''receipt-adapter'') \<and> port = Some 8082 \<and>
      url_username parsed = None \<and> url_password parsed = None \<and> url_query parsed = [] \<and> url_fragment parsed = [] \<and>
      fullmatch_ok CALLBACK_PATH (url_path parsed))"

definition callback_base :: pystr where
  "callback_base = U ''http://receipt-adapter:8082/callbacks/provider-v02''"

definition provider_callback_base :: "(pystr \<Rightarrow> bool) \<Rightarrow> pydict \<Rightarrow> pystr res" where
  "provider_callback_base netloc_ok config = (case dget_def (PDict []) config (U ''services'') of
     PDict services \<Rightarrow>
       let environment = service_environment (dget_none services (U ''provider-simulator''));
           callback = (case map_of environment (U ''CALLBACK_URL'') of None \<Rightarrow> [] | Some v \<Rightarrow> v) in
       (case res_bind (urlsplit netloc_ok callback) (\<lambda>parsed. res_bind (url_port parsed) (\<lambda>port. Inr (parsed, port))) of
          Inl e \<Rightarrow> if is_ValueError e then Inl (ContractError (U ''provider CALLBACK_URL is invalid'')) else Inl e
        | Inr (parsed, port) \<Rightarrow>
            if callback_url_ok parsed port then Inr callback_base
            else Inl (ContractError (U ''provider CALLBACK_URL must target the receipt-adapter callback path'')))
   | _ \<Rightarrow> Inl (ContractError (U ''services must be an object'')))"

end
