(* ===== verification/Week4_Contract.thy ===== *)
theory Week4_Contract
  imports Week4_Compose
begin

text \<open>
  The contract of the Compose configuration in week 4: which settings are unsafe, what the
  services must look like, and which host ports the running system may publish.
\<close>

section \<open>Unsafe settings\<close>

definition FORBIDDEN_KEYS :: "pystr list" where
  "FORBIDDEN_KEYS = map U [''network_mode'', ''pid'', ''ipc'', ''uts'', ''userns_mode'', ''cgroup'', ''cgroup_parent'',
     ''runtime'', ''isolation'', ''security_opt'', ''use_api_socket'']"

definition HOST_RESOURCES :: "pystr list" where
  "HOST_RESOURCES = map U [''configs'', ''credential_spec'', ''develop'', ''env_file'', ''label_file'', ''secrets'',
     ''volumes_from'']"

definition BUILD_RESOURCES :: "pystr list" where
  "BUILD_RESOURCES = map U [''cache_from'', ''cache_to'', ''entitlements'', ''privileged'', ''secrets'', ''ssh'', ''tags'']"

definition has_key :: "pydict \<Rightarrow> pystr \<Rightarrow> bool" where
  "has_key d k = truthy (dget_none d k)"

definition runtime_findings :: "pystr \<Rightarrow> pydict \<Rightarrow> pystr list" where
  "runtime_findings name service =
     note_if (has_key service (U ''privileged'')) (name @ U '': host/elevated runtime is forbidden'') @
     concat (map (\<lambda>key. note_if (has_key service key) (name @ U '': '' @ key @ U '' is forbidden in untrusted Compose''))
       FORBIDDEN_KEYS) @
     note_if (has_key service (U ''devices'') \<or> has_key service (U ''cap_add''))
       (name @ U '': device/capability access is forbidden'') @
     note_if (list_ex (has_key service) HOST_RESOURCES) (name @ U '': host-backed service resources are forbidden'')"

definition volume_source :: "pyval \<Rightarrow> pystr" where
  "volume_source volume = (case volume of
     PDict d \<Rightarrow> py_str (dget_def (PStr []) d (U ''source''))
   | _ \<Rightarrow> split1_head (U '':'') (py_str volume))"

definition volume_is_bind :: "pyval \<Rightarrow> bool" where
  "volume_is_bind volume = (case volume of
     PDict d \<Rightarrow> dget_none d (U ''type'') = PStr (U ''bind'')
   | _ \<Rightarrow> startswith (volume_source volume) (U ''.'') \<or> startswith (volume_source volume) (U ''/''))"

definition mount_findings :: "pystr \<Rightarrow> pydict \<Rightarrow> pystr list res" where
  "mount_findings name service =
     res_bind (py_iter (get_or (PList []) service (U ''volumes''))) (\<lambda>vs. Inr (concat (map (\<lambda>volume.
       note_if (volume_is_bind volume) (name @ U '': bind mount is forbidden'') @
       note_if (contains (U ''docker.sock'') (lower (volume_source volume))) (name @ U '': Docker socket is forbidden'')) vs)))"

definition build_context :: "pyval \<Rightarrow> pyval" where
  "build_context build = (case build of PDict d \<Rightarrow> dget_def (PStr (U ''.'')) d (U ''context'') | _ \<Rightarrow> build)"

definition additional_paths :: "pydict \<Rightarrow> pyval list" where
  "additional_paths build = (case get_or (PDict []) build (U ''additional_contexts'') of
     PDict d \<Rightarrow> map snd d
   | PList items \<Rightarrow> map (\<lambda>item. PStr (split1_last (U ''='') (py_str item))) items
   | _ \<Rightarrow> [PNone])"

definition context_root :: "pyval \<Rightarrow> pystr \<Rightarrow> pystr" where
  "context_root ctx repo = (case ctx of PStr s \<Rightarrow> path_join repo s | _ \<Rightarrow> repo)"

definition outside :: "(pystr \<Rightarrow> pystr list res) \<Rightarrow> pyval \<Rightarrow> pystr \<Rightarrow> pystr \<Rightarrow> bool res" where
  "outside resolve p root base = res_bind (path_is_within resolve p root base) (\<lambda>b. Inr (\<not> b))"

definition note_res :: "bool res \<Rightarrow> 'a \<Rightarrow> 'a list res" where
  "note_res r x = res_bind r (\<lambda>b. Inr (note_if b x))"

definition build_dict_findings ::
    "pystr list \<Rightarrow> (pystr \<Rightarrow> pystr list res) \<Rightarrow> pystr \<Rightarrow> pystr \<Rightarrow> pydict \<Rightarrow> pystr list res" where
  "build_dict_findings resources resolve repo name build =
     res_append
       (Inr (note_if (list_ex (has_key build) resources \<or> dget_none build (U ''network'') = PStr (U ''host''))
          (name @ U '': host-backed build resources are forbidden'')))
     (res_append
       (note_res (res_any (\<lambda>p. outside resolve p repo repo) (additional_paths build))
          (name @ U '': external additional build context is forbidden''))
       (case dget_none build (U ''dockerfile'') of
          PNone \<Rightarrow> Inr []
        | dockerfile \<Rightarrow> note_res (outside resolve dockerfile repo (context_root (build_context (PDict build)) repo))
            (name @ U '': external Dockerfile is forbidden'')))"

definition build_findings ::
    "pystr list \<Rightarrow> (pystr \<Rightarrow> pystr list res) \<Rightarrow> pystr \<Rightarrow> pystr \<Rightarrow> pyval \<Rightarrow> pystr list res" where
  "build_findings resources resolve repo name build =
     res_append
       (if build = PNone then Inr []
        else note_res (outside resolve (build_context build) repo repo) (name @ U '': external build context is forbidden''))
       (case build of PDict d \<Rightarrow> build_dict_findings resources resolve repo name d | _ \<Rightarrow> Inr [])"

definition unsafe_service :: "(pystr \<Rightarrow> pystr list res) \<Rightarrow> pystr \<Rightarrow> pystr \<times> pyval \<Rightarrow> pystr list res" where
  "unsafe_service resolve repo ns = (case ns of (name, service) \<Rightarrow>
     (case service of
        PDict d \<Rightarrow> res_append (Inr (runtime_findings name d))
          (res_append (mount_findings name d) (build_findings BUILD_RESOURCES resolve repo name (dget_none d (U ''build''))))
      | _ \<Rightarrow> Inr [name @ U '': service config is invalid'']))"

definition resource_findings :: "pydict \<Rightarrow> pystr \<Rightarrow> pystr list" where
  "resource_findings config kind = (case get_or (PDict []) config kind of
     PDict resources \<Rightarrow> concat (map (\<lambda>(name, resource). (case resource of
         PDict r \<Rightarrow>
           note_if (has_key r (U ''external'')) (kind @ U ''.'' @ name @ U '': external resource is forbidden'') @
           note_if (has_key r (U ''driver_opts'')) (kind @ U ''.'' @ name @ U '': driver options are forbidden'')
       | _ \<Rightarrow> [])) resources)
   | _ \<Rightarrow> [kind @ U '': resource map is invalid''])"

definition shared_resource_findings :: "pydict \<Rightarrow> pystr list" where
  "shared_resource_findings config =
     concat (map (resource_findings config) [U ''volumes'', U ''networks'']) @
     concat (map (\<lambda>kind. note_if (has_key config kind) (kind @ U '': host-backed resources are forbidden''))
       [U ''secrets'', U ''configs''])"

definition unsafe_compose_findings :: "(pystr \<Rightarrow> pystr list res) \<Rightarrow> pydict \<Rightarrow> pystr \<Rightarrow> pystr list res" where
  "unsafe_compose_findings resolve config repo = (case dget_none config (U ''services'') of
     PDict services \<Rightarrow> res_append (res_concat (unsafe_service resolve repo) services) (Inr (shared_resource_findings config))
   | _ \<Rightarrow> Inr not_an_object)"

section \<open>The contract\<close>

definition gateway_ports_wrong :: "int set \<Rightarrow> int \<Rightarrow> int \<Rightarrow> pyval \<Rightarrow> bool res" where
  "gateway_ports_wrong ports published target service =
     res_or (Inr (ports \<noteq> {published}))
       (res_or (res_bind (target_ports service) (\<lambda>ps. Inr (ps \<noteq> {target})))
         (res_bind (published_host_ips service) (\<lambda>ips. Inr (ips \<noteq> {U ''127.0.0.1''}))))"

definition publishes :: "pyval \<Rightarrow> bool" where
  "publishes service = (case service of PDict d \<Rightarrow> has_key d (U ''ports'') | _ \<Rightarrow> False)"

definition service_ports_findings :: "pystr \<times> pyval \<Rightarrow> pystr list res" where
  "service_ports_findings ns = (case ns of (name, service) \<Rightarrow>
     res_bind (published_ports service) (\<lambda>ports.
       if name = U ''gateway''
       then note_res (gateway_ports_wrong ports 8080 8080 service)
         (U ''gateway must bind 127.0.0.1:8080 only to target 8080'')
       else Inr (note_if (publishes service) (name @ U '': only gateway may publish host ports''))))"

definition provider_findings :: "pyval \<Rightarrow> pystr list res" where
  "provider_findings provider =
     res_bind (get_attr PNone provider (U ''image'')) (\<lambda>image.
     res_bind (get_attr PNone provider (U ''build'')) (\<lambda>build.
       Inr (note_if (\<not> provider_image_matches image) (U ''provider-simulator image must use the published digest'') @
         note_if (truthy build) (U ''provider-simulator must not be locally built''))))"

definition service_member :: "pydict \<Rightarrow> pyval \<Rightarrow> pystr \<Rightarrow> pystr \<Rightarrow> pyval res" where
  "service_member services def key name = res_bind (ditem services name) (\<lambda>s. get_attr def s key)"

definition python_findings :: "pystr list \<Rightarrow> pydict \<Rightarrow> pystr list res" where
  "python_findings python_services services =
     res_bind (res_map (service_member services (PStr []) (U ''image'')) python_services) (\<lambda>images.
     res_bind (res_map (service_member services PNone (U ''build'')) python_services) (\<lambda>builds.
     res_bind (res_any (\<lambda>name. res_bind (service_member services PNone (U ''pull_policy'') name) (\<lambda>v.
         Inr (\<not> py_in v [PNone, PStr (U ''build'')]))) python_services) (\<lambda>pulled.
       let python_images = set (map py_str images) in
       Inr (note_if (card python_images \<noteq> 1 \<or> python_images = {[]})
              (U ''Python integration services must declare one shared image'') @
            note_if (\<not> list_ex truthy builds) (U ''Python integration image must be locally built'') @
            note_if pulled (U ''Python integration services must run the locally built image'')))))"

definition expected_roles :: "(pystr \<times> pystr) list" where
  "expected_roles = map (\<lambda>(n, r). (U n, U r)) [(''api'', ''course_runtime''), (''worker-a'', ''workflow_worker''),
     (''worker-b'', ''workflow_worker''), (''outbox-dispatcher'', ''outbox_dispatcher''),
     (''outbox-dispatcher-b'', ''outbox_dispatcher''), (''inbox-reconciler'', ''inbox_reconciler''),
     (''inbox-reconciler-b'', ''inbox_reconciler'')]"

definition role_findings :: "(pystr \<Rightarrow> bool) \<Rightarrow> pydict \<Rightarrow> pystr \<times> pystr \<Rightarrow> pystr list res" where
  "role_findings netloc_ok services nr = (case nr of (name, expected_role) \<Rightarrow>
     res_bind (ditem services name) (\<lambda>service.
     res_bind (database_principals netloc_ok (service_environment service)) (\<lambda>principals.
       Inr (note_if (principals \<noteq> {expected_role}) (name @ U '': database principal must be '' @ expected_role)))))"

definition owner_findings :: "pydict \<Rightarrow> pystr list res" where
  "owner_findings services =
     res_bind (res_map (\<lambda>name. res_bind (ditem services name) (\<lambda>service.
         Inr (map_of (service_environment service) (U ''OUTBOX_OWNER''))))
       [U ''outbox-dispatcher'', U ''outbox-dispatcher-b'']) (\<lambda>owners.
     Inr (note_if (owners \<noteq> [Some (U ''outbox-dispatcher''), Some (U ''outbox-dispatcher-b'')])
       (U ''Outbox dispatchers must use distinct published owners'')))"

definition adapter_findings :: "pydict \<Rightarrow> pystr list res" where
  "adapter_findings services =
     res_bind (ditem services (U ''receipt-adapter'')) (\<lambda>adapter.
       Inr (note_if (database_environment_entries (service_environment adapter) \<noteq> [])
         (U ''receipt-adapter must not receive PostgreSQL configuration'')))"

definition services_findings :: "(pystr \<Rightarrow> bool) \<Rightarrow> pydict \<Rightarrow> pystr list res" where
  "services_findings netloc_ok services =
     res_append (res_concat service_ports_findings services)
     (res_append (res_bind (ditem services (U ''provider-simulator'')) provider_findings)
     (res_append (python_findings PYTHON_SERVICES services)
     (res_append (res_concat (role_findings netloc_ok services) expected_roles)
     (res_append (owner_findings services) (adapter_findings services)))))"

definition missing_services :: "pystr set \<Rightarrow> pydict \<Rightarrow> pystr list" where
  "missing_services required services = sorted_list_of_set (required - dkeys services)"

definition compose_contract_findings ::
    "(pystr \<Rightarrow> bool) \<Rightarrow> (pystr \<Rightarrow> pystr list res) \<Rightarrow> pydict \<Rightarrow> pystr \<Rightarrow> pystr list res" where
  "compose_contract_findings netloc_ok resolve config repo =
     res_append (unsafe_compose_findings resolve config repo)
     (res_append (postgres_volume_findings config)
       (case dget_def (PDict []) config (U ''services'') of
          PDict services \<Rightarrow>
            if missing_services REQUIRED_SERVICES services \<noteq> []
            then Inr [U ''missing services: '' @ join_str (U '', '') (missing_services REQUIRED_SERVICES services)]
            else services_findings netloc_ok services
        | _ \<Rightarrow> Inr []))"

section \<open>The running system\<close>

definition probe_findings :: "(pystr \<times> int) list \<Rightarrow> pystr \<times> pyval \<Rightarrow> pystr list res" where
  "probe_findings probe_ports ns = (case ns of (name, service) \<Rightarrow>
     if name = U ''gateway'' then Inr []
     else (case map_of probe_ports name of
         None \<Rightarrow> Inr (note_if (publishes service) (name @ U '': unexpected runtime host port''))
       | Some expected_port \<Rightarrow>
           note_res (res_or (res_bind (published_ports service) (\<lambda>ps. Inr (ps \<noteq> {expected_port})))
               (res_or (res_bind (target_ports service) (\<lambda>ps. res_bind (ditem INTERNAL_PORTS name) (\<lambda>p. Inr (ps \<noteq> {p}))))
                 (res_bind (published_host_ips service) (\<lambda>ips. Inr (ips \<noteq> {U ''127.0.0.1''})))))
             (name @ U '': trusted probe port mapping is invalid'')))"

definition runtime_compose_findings :: "pydict \<Rightarrow> int \<Rightarrow> (pystr \<times> int) list \<Rightarrow> pystr list res" where
  "runtime_compose_findings config gateway_port probe_ports = (case dget_def (PDict []) config (U ''services'') of
     PDict services \<Rightarrow>
       let gateway = dget_none services (U ''gateway'') in
       res_append (note_res (res_bind (published_ports gateway) (\<lambda>ps. Inr (ps \<noteq> {gateway_port})))
         (U ''runtime gateway must publish only the selected host port''))
       (res_append (note_res (res_bind (target_ports gateway) (\<lambda>ps. Inr (ps \<noteq> {8080})))
         (U ''runtime gateway must target container port 8080''))
       (res_append (note_res (res_bind (published_host_ips gateway) (\<lambda>ips. Inr (ips \<noteq> {U ''127.0.0.1''})))
         (U ''runtime gateway must bind only to loopback''))
       (res_concat (probe_findings probe_ports) services)))
   | _ \<Rightarrow> Inr [U ''runtime services must be an object''])"

end
