(* ===== verification/Week4_Isolation.thy ===== *)
theory Week4_Isolation
  imports Week4_Contract
begin

text \<open>
  What a Compose configuration without findings guarantees, in week 4.
\<close>

section \<open>Ports\<close>

lemma port_range_card: "port_range s = Inr S \<Longrightarrow> finite S \<and> card S \<le> 1001"
  by (auto simp: port_range_def split: prod.splits if_splits)

lemma one_port_card: "one_port v = Inr S \<Longrightarrow> finite S \<and> card S \<le> 1001"
  by (auto simp: one_port_def split: sum.splits if_splits)

lemma ports_of_value_card: "ports_of_value v = Inr S \<Longrightarrow> finite S \<and> card S \<le> 1001"
  unfolding ports_of_value_def by (cases v) (simp_all add: port_range_card one_port_card split: if_splits)

lemma fold_ports_card:
  assumes "res_fold (\<lambda>item result. res_bind (ports_of_value (f item)) (\<lambda>ps. Inr (result \<union> ps))) items R = Inr S" "finite R"
  shows "finite S \<and> card S \<le> card R + 1001 * length items"
  using assms
proof (induction items arbitrary: R)
  case (Cons item items)
  from Cons.prems obtain ps where ps: "ports_of_value (f item) = Inr ps"
    and rest: "res_fold (\<lambda>item result. res_bind (ports_of_value (f item)) (\<lambda>ps. Inr (result \<union> ps))) items (R \<union> ps) = Inr S"
    by auto
  from ports_of_value_card [OF ps] have c: "finite ps" "card ps \<le> 1001" by simp_all
  with Cons.prems(2) Cons.IH [OF rest] card_Un_le [of R ps] show ?case by simp
qed simp

section \<open>Acceptance of a service\<close>

lemma gateway_ports_right:
  "gateway_ports_wrong ports p t s = Inr False \<longleftrightarrow>
   ports = {p} \<and> target_ports s = Inr {t} \<and> published_host_ips s = Inr {U ''127.0.0.1''}"
  unfolding gateway_ports_wrong_def by auto

lemma note_res_Nil [simp]: "note_res r x = Inr [] \<longleftrightarrow> r = Inr False"
  by (cases r) (auto simp: note_res_def)

lemma service_ports_accept:
  "service_ports_findings (name, service) = Inr [] \<longleftrightarrow>
   (if name = U ''gateway''
    then published_ports service = Inr {8080} \<and> target_ports service = Inr {8080} \<and>
      published_host_ips service = Inr {U ''127.0.0.1''}
    else \<not> publishes service \<and> (\<exists>ps. published_ports service = Inr ps))"
  unfolding service_ports_findings_def by (cases "published_ports service") (auto simp: gateway_ports_right)

lemma runtime_findings_Nil:
  "runtime_findings name d = [] \<longleftrightarrow>
   \<not> has_key d (U ''privileged'') \<and> list_all (\<lambda>k. \<not> has_key d k) (FORBIDDEN_KEYS @ [U ''devices'', U ''cap_add''] @ HOST_RESOURCES)"
  unfolding runtime_findings_def by (auto simp: list_all_iff list_ex_iff)

text \<open>The text of a path stays inside the repository after resolution.\<close>

definition confined :: "(pystr \<Rightarrow> pystr list res) \<Rightarrow> pyval \<Rightarrow> pystr \<Rightarrow> pystr \<Rightarrow> bool" where
  "confined resolve p root base = (\<exists>s c r. p = PStr s \<and> s \<noteq> [] \<and> \<not> match_ok REMOTE_PATH s \<and>
     resolve (path_join base s) = Inr (r @ c) \<and> resolve root = Inr r)"

lemma outside_False: "outside resolve p root base = Inr False \<Longrightarrow> confined resolve p root base"
proof -
  assume "outside resolve p root base = Inr False"
  then have "path_is_within resolve p root base = Inr True" by (auto simp: outside_def)
  then obtain s where s: "p = PStr s" "s \<noteq> []" "\<not> match_ok REMOTE_PATH s"
    and w: "(case res_bind (resolve (if is_absolute s then s else path_join base s)) (\<lambda>c.
          res_bind (resolve root) (\<lambda>r. Inr (is_relative_to c r))) of
        Inl e \<Rightarrow> if e = OSError \<or> is_ValueError e then Inr False else Inl e | Inr b \<Rightarrow> Inr b) = Inr True"
    by (cases p) (simp_all add: path_is_within_def split: if_splits)
  from w obtain c r where "resolve (path_join base s) = Inr c" "resolve root = Inr r" "is_relative_to c r"
    by (auto simp: path_join_def split: sum.splits if_splits)
  with s show ?thesis unfolding confined_def is_relative_to_def by (metis append_take_drop_id)
qed

definition service_safe :: "(pystr \<Rightarrow> pystr list res) \<Rightarrow> pystr \<Rightarrow> pydict \<Rightarrow> bool" where
  "service_safe resolve repo d =
     (\<not> has_key d (U ''privileged'') \<and> list_all (\<lambda>k. \<not> has_key d k) (FORBIDDEN_KEYS @ [U ''devices'', U ''cap_add''] @ HOST_RESOURCES) \<and>
      (\<exists>vs. py_iter (get_or (PList []) d (U ''volumes'')) = Inr vs \<and>
         list_all (\<lambda>v. \<not> volume_is_bind v \<and> \<not> contains (U ''docker.sock'') (lower (volume_source v))) vs) \<and>
      (dget_none d (U ''build'') = PNone \<or> confined resolve (build_context (dget_none d (U ''build''))) repo repo))"

lemma unsafe_service_Nil:
  assumes "unsafe_service resolve repo (name, service) = Inr []"
  shows "\<exists>d. service = PDict d \<and> service_safe resolve repo d"
proof -
  from assms obtain d where d: "service = PDict d" by (cases service) (simp_all add: unsafe_service_def)
  with assms have parts: "runtime_findings name d = []" "mount_findings name d = Inr []"
    "build_findings BUILD_RESOURCES resolve repo name (dget_none d (U ''build'')) = Inr []"
    by (simp_all add: unsafe_service_def)
  from parts(2) have "\<exists>vs. py_iter (get_or (PList []) d (U ''volumes'')) = Inr vs \<and>
      list_all (\<lambda>v. \<not> volume_is_bind v \<and> \<not> contains (U ''docker.sock'') (lower (volume_source v))) vs"
    unfolding mount_findings_def by (auto simp: list_all_iff)
  moreover from parts(3) have "dget_none d (U ''build'') = PNone \<or> confined resolve (build_context (dget_none d (U ''build''))) repo repo"
    unfolding build_findings_def by (auto split: if_splits dest: outside_False)
  ultimately show ?thesis using d parts(1) by (simp add: runtime_findings_Nil service_safe_def)
qed

section \<open>The image of the provider\<close>

lemma split_ch_snoc: "sep \<notin> set b \<Longrightarrow> split_ch sep (a @ sep # b) = split_ch sep a @ [b]"
proof (induction a)
  case (Cons x a)
  then show ?case using split_ch_ne [of sep a] by (cases "split_ch sep a") auto
qed (simp add: split_ch_none)

lemma foldl_join: "foldl (\<lambda>a p. a @ sep # p) x xs = join_str [sep] (x # xs)"
proof (induction xs arbitrary: x rule: rev_induct)
  case (snoc y ys)
  have "join_str [sep] (x # ys @ [y]) = join_str [sep] (x # ys) @ sep # y"
    by (induction ys arbitrary: x) auto
  with snoc show ?case by simp
qed simp

lemma rsplit1_absent: "sep \<notin> set s \<Longrightarrow> rsplit1 sep s = (s, s)"
  by (simp add: rsplit1_def rsplit_ch_def split_ch_none Let_def)

lemma rsplit1_present:
  assumes "sep \<notin> set b"
  shows "rsplit1 sep (a @ sep # b) = (a, b)"
proof -
  obtain q qs where q: "split_ch sep a = q # qs" using split_ch_ne [of sep a] by (cases "split_ch sep a") auto
  then have j: "join_str [sep] (q # qs) = a" using join_split_ch [of sep a] by simp
  show ?thesis
  proof (cases qs)
    case Nil
    with j q show ?thesis by (simp add: rsplit1_def rsplit_ch_def split_ch_snoc [OF assms] Let_def)
  next
    case (Cons q' qs')
    then have "take (length qs) (qs @ [b]) = qs" by simp
    with Cons j q show ?thesis
      by (simp add: rsplit1_def rsplit_ch_def split_ch_snoc [OF assms] Let_def foldl_join del: foldl_Cons)
  qed
qed

lemma rsplit1_split: "sep \<in> set s \<Longrightarrow> rsplit1 sep s = (a, b) \<longleftrightarrow> s = a @ sep # b \<and> sep \<notin> set b"
  using rsplit1_present split_list_last [of sep s] by (metis Pair_inject)

definition image_name :: pystr where
  "image_name = U ''ghcr.io/fintech-dev-lab/internship-provider-simulator''"

definition image_digest :: pystr where
  "image_digest = U ''sha256:70e5e0dd9ab8425be84de431ec74516f9bedf5d5529077358e2e2b2037fe0c74''"

lemma provider_image_parts: "PROVIDER_IMAGE = image_name @ U '':v0.2.0@'' @ image_digest"
  by code_simp

lemma image_chars: "58 \<notin> set image_name" "64 \<notin> set image_digest" "image_name = U ''ghcr.io/fintech-dev-lab'' @ 47 # U ''internship-provider-simulator''"
  "47 \<notin> set (U ''internship-provider-simulator'')"
  by code_simp+

lemma rsplit1_suffix: "set (snd (rsplit1 sep r)) \<subseteq> set r"
proof (cases "sep \<in> set r")
  case True
  then show ?thesis using rsplit1_split [of sep r "fst (rsplit1 sep r)" "snd (rsplit1 sep r)"] by (metis prod.collapse
    set_append Un_upper2 set_subset_Cons order_trans)
qed (simp add: rsplit1_absent)

lemma image_repository_tag:
  assumes "image_repository r = image_name" "r \<noteq> image_name"
  shows "\<exists>t. r = image_name @ 58 # t \<and> 58 \<notin> set t \<and> 47 \<notin> set t"
proof -
  from assms have c: "58 \<in> set (snd (rsplit1 47 r))" and f: "fst (rsplit1 58 r) = image_name"
    by (auto simp: image_repository_def split: if_splits)
  from c rsplit1_suffix have "58 \<in> set r" by blast
  with f obtain t where t: "r = image_name @ 58 # t" "58 \<notin> set t"
    using rsplit1_split [of 58 r image_name "snd (rsplit1 58 r)"] by (metis prod.collapse)
  have "47 \<notin> set t"
  proof
    assume "47 \<in> set t"
    then obtain u v where "t = u @ 47 # v" "47 \<notin> set v" using split_list_last [of 47 t] by blast
    then have "snd (rsplit1 47 r) = v" using t(1) rsplit1_present [of 47 v "image_name @ 58 # u"] by simp
    with c t(2) \<open>t = u @ 47 # v\<close> show False by simp
  qed
  with t show ?thesis by blast
qed

lemma image_repository_untag:
  "58 \<notin> set t \<Longrightarrow> 47 \<notin> set t \<Longrightarrow> image_repository (image_name @ 58 # t) = image_name"
  "image_repository image_name = image_name"
proof -
  have l: "rsplit1 47 image_name = (U ''ghcr.io/fintech-dev-lab'', U ''internship-provider-simulator'')"
    unfolding image_chars(3) by (rule rsplit1_present [OF image_chars(4)])
  have "set (U ''internship-provider-simulator'') \<subseteq> set image_name" unfolding image_chars(3) by auto
  with image_chars(1) show "image_repository image_name = image_name" by (auto simp: image_repository_def l)
  assume t: "58 \<notin> set t" "47 \<notin> set t"
  have "rsplit1 47 (image_name @ 58 # t) = (U ''ghcr.io/fintech-dev-lab'', U ''internship-provider-simulator'' @ 58 # t)"
    using rsplit1_present [of 47 "U ''internship-provider-simulator'' @ 58 # t"] t(2) image_chars(4)
    by (simp add: image_chars(3))
  then show "image_repository (image_name @ 58 # t) = image_name"
    using rsplit1_present [OF t(1)] by (simp add: image_repository_def)
qed

section \<open>A sample configuration\<close>

definition svc :: "(string \<times> pyval) list \<Rightarrow> pyval" where
  "svc kvs = PDict (map (\<lambda>(k, v). (U k, v)) kvs)"

definition envs :: "(string \<times> string) list \<Rightarrow> pyval" where
  "envs kvs = PDict (map (\<lambda>(k, v). (U k, PStr (U v))) kvs)"

definition sample_python :: "(string \<times> string) list \<Rightarrow> pyval" where
  "sample_python e = svc [(''image'', PStr (U ''app:1'')), (''build'', PStr (U ''.'')), (''environment'', envs e)]"

definition sample_services :: pydict where
  "sample_services = map (\<lambda>(n, s). (U n, s))
    [(''gateway'', svc [(''ports'', PList [PStr (U ''127.0.0.1:8080:8080'')])]),
     (''api'', svc [(''environment'', envs [(''PGUSER'', ''course_runtime'')])]),
     (''cli'', svc []),
     (''postgres'', svc [(''volumes'', PList [PStr (U ''data:/d'')])]),
     (''worker-a'', svc [(''environment'', envs [(''PGUSER'', ''workflow_worker'')])]),
     (''worker-b'', svc [(''environment'', envs [(''PGUSER'', ''workflow_worker'')])]),
     (''outbox-dispatcher'', sample_python [(''PGUSER'', ''outbox_dispatcher''), (''OUTBOX_OWNER'', ''outbox-dispatcher'')]),
     (''outbox-dispatcher-b'', sample_python [(''PGUSER'', ''outbox_dispatcher''), (''OUTBOX_OWNER'', ''outbox-dispatcher-b'')]),
     (''receipt-adapter'', sample_python []),
     (''inbox-reconciler'', sample_python [(''PGUSER'', ''inbox_reconciler'')]),
     (''inbox-reconciler-b'', sample_python [(''PGUSER'', ''inbox_reconciler'')]),
     (''provider-simulator'', PDict [(U ''image'', PStr PROVIDER_IMAGE)])]"

definition sample_config :: pydict where
  "sample_config = [(U ''services'', PDict sample_services), (U ''volumes'', PDict [(U ''data'', PNone)])]"

definition sample_resolve :: "pystr \<Rightarrow> pystr list res" where
  "sample_resolve p = Inr (split_ch 47 p)"

lemma sample_accepted: "compose_contract_findings (\<lambda>_. True) sample_resolve sample_config (U ''/repo'') = Inr []"
  by code_simp

section \<open>Properties\<close>

text \<open>
  C30. A configuration without findings is isolated: every service is a mapping without elevated
  rights, host namespaces, devices, host-backed resources, bind mounts and the Docker socket, and its
  build context resolves to a place inside the repository; only the gateway publishes a port, and
  it publishes 8080 on the loopback address; the provider runs the published image; the database role
  of each process is the expected one; the adapter has no database settings.
\<close>

theorem contract_isolates:
  assumes "compose_contract_findings netloc_ok resolve config repo = Inr []"
  shows "\<exists>services. map_of config (U ''services'') = Some (PDict services) \<and> REQUIRED_SERVICES \<subseteq> dkeys services \<and>
    list_all (\<lambda>(name, service). \<exists>d. service = PDict d \<and> service_safe resolve repo d \<and>
      (if name = U ''gateway'' then published_ports service = Inr {8080} \<and> published_host_ips service = Inr {U ''127.0.0.1''}
       else \<not> has_key d (U ''ports''))) services \<and>
    (\<exists>d. map_of services (U ''provider-simulator'') = Some (PDict d) \<and> provider_image_matches (dget_none d (U ''image''))) \<and>
    list_all (\<lambda>(name, role). \<exists>s. map_of services name = Some s \<and>
      database_principals netloc_ok (service_environment s) = Inr {role}) expected_roles \<and>
    (\<exists>s. map_of services (U ''receipt-adapter'') = Some s \<and> database_environment_entries (service_environment s) = [])"
proof -
  from assms obtain services where s: "map_of config (U ''services'') = Some (PDict services)"
    and u: "res_concat (unsafe_service resolve repo) services = Inr []"
    unfolding compose_contract_findings_def unsafe_compose_findings_def not_an_object_def
    by (cases "dget_none config (U ''services'')") (auto simp: dget_def_def split: option.splits)
  from assms s have "missing_services REQUIRED_SERVICES services = []" "services_findings netloc_ok services = Inr []"
    by (auto simp: compose_contract_findings_def dget_def_def split: if_splits)
  then have m: "REQUIRED_SERVICES \<subseteq> dkeys services"
    and ports: "res_concat service_ports_findings services = Inr []"
    and prov: "res_bind (ditem services (U ''provider-simulator'')) provider_findings = Inr []"
    and roles: "res_concat (role_findings netloc_ok services) expected_roles = Inr []"
    and ad: "adapter_findings services = Inr []"
    by (auto simp: missing_services_def REQUIRED_SERVICES_def services_findings_def sorted_list_of_set_eq_Nil_iff)
  have "list_all (\<lambda>(name, service). \<exists>d. service = PDict d \<and> service_safe resolve repo d \<and>
      (if name = U ''gateway'' then published_ports service = Inr {8080} \<and> published_host_ips service = Inr {U ''127.0.0.1''}
       else \<not> has_key d (U ''ports''))) services"
    unfolding list_all_iff
  proof clarify
    fix name service assume "(name, service) \<in> set services"
    with u ports have "unsafe_service resolve repo (name, service) = Inr []" "service_ports_findings (name, service) = Inr []"
      by (simp_all add: res_concat_Nil)
    with unsafe_service_Nil show "\<exists>d. service = PDict d \<and> service_safe resolve repo d \<and>
      (if name = U ''gateway'' then published_ports service = Inr {8080} \<and> published_host_ips service = Inr {U ''127.0.0.1''}
       else \<not> has_key d (U ''ports''))"
      by (fastforce simp: service_ports_accept publishes_def)
  qed
  moreover have "\<exists>d. map_of services (U ''provider-simulator'') = Some (PDict d) \<and> provider_image_matches (dget_none d (U ''image''))"
    using prov by (auto simp: provider_findings_def ditem_def split: option.splits elim!: get_attr.elims)
  moreover have "list_all (\<lambda>(name, role). \<exists>s. map_of services name = Some s \<and>
      database_principals netloc_ok (service_environment s) = Inr {role}) expected_roles"
    using roles by (force simp: res_concat_Nil role_findings_def ditem_def list_all_iff split: option.splits)
  moreover have "\<exists>s. map_of services (U ''receipt-adapter'') = Some s \<and> database_environment_entries (service_environment s) = []"
    using ad by (auto simp: adapter_findings_def ditem_def split: option.splits)
  ultimately show ?thesis using s m by blast
qed

theorem contract_isolates_witness:
  "compose_contract_findings (\<lambda>_. True) sample_resolve sample_config (U ''/repo'') = Inr [] \<and>
   (\<exists>services. map_of sample_config (U ''services'') = Some (PDict services) \<and> REQUIRED_SERVICES \<subseteq> dkeys services)"
  using contract_isolates [OF sample_accepted] sample_accepted by blast

text \<open>
  The provider image is accepted exactly when it names the published repository, optionally with a
  tag, at the published digest: a tag alone never suffices.
\<close>

theorem provider_image_accepted:
  "provider_image_matches v \<longleftrightarrow>
   (\<exists>tag. v = PStr (image_name @ tag @ U ''@'' @ image_digest) \<and>
     (tag = [] \<or> (\<exists>t. tag = 58 # t \<and> 58 \<notin> set t \<and> 47 \<notin> set t)))"
proof -
  have e: "rsplit1 64 PROVIDER_IMAGE = (image_name @ U '':v0.2.0'', image_digest)"
    using rsplit1_present [OF image_chars(2), of "image_name @ U '':v0.2.0''"]
    by (simp add: provider_image_parts U_def)
  have e': "fst (rsplit1 58 (image_name @ U '':v0.2.0'')) = image_name"
    using rsplit1_present [of 58 "U ''v0.2.0''" image_name] by (simp add: U_def)
  have a: "U ''@'' = [64]" by (simp add: U_def)
  show ?thesis
  proof
    assume "provider_image_matches v"
    then obtain s where s: "v = PStr s" "64 \<in> set s" "image_repository (fst (rsplit1 64 s)) = image_name" "snd (rsplit1 64 s) = image_digest"
      by (cases v) (auto simp: provider_image_matches_def e e' Let_def split: prod.splits)
    then have "s = fst (rsplit1 64 s) @ 64 # image_digest"
      using rsplit1_split [of 64 s "fst (rsplit1 64 s)" image_digest] by (metis prod.collapse)
    with s image_repository_tag [OF s(3)] show "\<exists>tag. v = PStr (image_name @ tag @ U ''@'' @ image_digest) \<and>
        (tag = [] \<or> (\<exists>t. tag = 58 # t \<and> 58 \<notin> set t \<and> 47 \<notin> set t))"
      unfolding a by (metis append_Cons append_Nil append.assoc)
  next
    assume "\<exists>tag. v = PStr (image_name @ tag @ U ''@'' @ image_digest) \<and> (tag = [] \<or> (\<exists>t. tag = 58 # t \<and> 58 \<notin> set t \<and> 47 \<notin> set t))"
    then obtain tag where v: "v = PStr ((image_name @ tag) @ 64 # image_digest)"
      and tag: "tag = [] \<or> (\<exists>t. tag = 58 # t \<and> 58 \<notin> set t \<and> 47 \<notin> set t)" unfolding a by auto
    from tag have "image_repository (image_name @ tag) = image_name" using image_repository_untag by auto
    then show "provider_image_matches v"
      using rsplit1_present [OF image_chars(2), of "image_name @ tag"]
      by (simp add: v provider_image_matches_def e e' Let_def)
  qed
qed

text \<open>
  However the ports of a service are written, the set that is read from them is finite and has
  at most 1001 ports for each entry: an oversized range is ignored, it cannot exhaust memory.
\<close>

theorem published_ports_bounded:
  assumes "port_items d = Inr items" "published_ports (PDict d) = Inr S"
  shows "finite S \<and> card S \<le> 1001 * length items"
  using assms fold_ports_card [of published_value items "{}" S]
  by (simp add: published_ports_def collect_ports_def)

theorem published_ports_bounded_witness:
  "card {3000..3002 :: int} \<le> 1001 * 1 \<and>
   published_ports (PDict [(U ''ports'', PList [PStr (U ''3000-3002:1-3'')])]) = Inr {3000..3002}"
proof -
  have i: "port_items [(U ''ports'', PList [PStr (U ''3000-3002:1-3'')])] = Inr [PStr (U ''3000-3002:1-3'')]" by code_simp
  have p: "published_ports (PDict [(U ''ports'', PList [PStr (U ''3000-3002:1-3'')])]) = Inr {3000..3002}" by code_simp
  from published_ports_bounded [OF i p] p show ?thesis by simp
qed

text \<open>
  C31. When the secrets have no findings, a value that contains a secret stands only in the
  environment entries that may hold it, and neither the rest of the service nor the rest of the
  configuration contains the secret.
\<close>

theorem secrets_confined:
  assumes "secret_distribution_findings config secrets = Inr []" "(label, secret, allowed) \<in> set secrets" "secret \<noteq> []"
    "map_of config (U ''services'') = Some (PDict services)" "(name, PDict d) \<in> set services"
  shows "(\<forall>key v. (key, v) \<in> set (service_environment (PDict d)) \<and> contains secret v \<longrightarrow>
      (name, key) \<in> allowed \<or> (name, U ''*'') \<in> allowed) \<and>
    (\<exists>t. dumps spaced (PDict (dpop (U ''environment'') d)) = Inr t \<and> \<not> contains secret t) \<and>
    (\<exists>t. dumps spaced (PDict (dpop (U ''services'') config)) = Inr t \<and> \<not> contains secret t)"
proof -
  from assms(1,4) obtain t where t: "dumps spaced (PDict (dpop (U ''services'') config)) = Inr t"
    and all: "res_concat (secret_findings t services) secrets = Inr []"
    by (auto simp: secret_distribution_findings_def dget_def_def)
  from all assms(2) have "secret_findings t services (label, secret, allowed) = Inr []"
    by (simp only: res_concat_Nil)
  with assms(3) have f: "\<not> contains secret t" "res_concat (service_exposure label secret allowed) services = Inr []"
    by (simp_all add: secret_findings_def)
  from f(2) assms(5) have "service_exposure label secret allowed (name, PDict d) = Inr []"
    by (simp only: res_concat_Nil)
  then obtain t' where "dumps spaced (PDict (dpop (U ''environment'') d)) = Inr t'" "\<not> contains secret t'"
    and x: "exposed_entries label secret allowed name (service_environment (PDict d)) = []"
    by (auto simp: service_exposure_def)
  moreover from x have "(key, v) \<in> set (service_environment (PDict d)) \<Longrightarrow> contains secret v \<Longrightarrow>
      (name, key) \<in> allowed \<or> (name, U ''*'') \<in> allowed" for key v
    unfolding exposed_entries_def by fastforce
  ultimately show ?thesis using t f(1) by blast
qed

definition sample_secrets :: secrets where
  "sample_secrets = [(U ''role'', U ''course_runtime'', {(U ''api'', U ''PGUSER'')})]"

theorem secrets_confined_witness:
  "\<exists>d. (U ''api'', PDict d) \<in> set sample_services \<and>
     (\<exists>t. dumps spaced (PDict (dpop (U ''environment'') d)) = Inr t \<and> \<not> contains (U ''course_runtime'') t)"
proof -
  have f: "secret_distribution_findings sample_config sample_secrets = Inr []" by code_simp
  have m: "(U ''role'', U ''course_runtime'', {(U ''api'', U ''PGUSER'')}) \<in> set sample_secrets" by (simp add: sample_secrets_def)
  have s: "map_of sample_config (U ''services'') = Some (PDict sample_services)" by (simp add: sample_config_def)
  have a: "(U ''api'', PDict [(U ''environment'', envs [(''PGUSER'', ''course_runtime'')])]) \<in> set sample_services"
    by (simp add: sample_services_def svc_def)
  have "U ''course_runtime'' \<noteq> []" by simp
  from secrets_confined [OF f m this s a] a show ?thesis by blast
qed

text \<open>
  In a running system without findings every service but the gateway and the probed ones
  publishes nothing, and whatever is published is bound to the loopback address.
\<close>

theorem runtime_ports_loopback:
  assumes "runtime_compose_findings config port probes = Inr []"
    "map_of config (U ''services'') = Some (PDict services)" "distinct (map fst services)" "(name, service) \<in> set services"
  shows "\<not> publishes service \<or> published_host_ips service = Inr {U ''127.0.0.1''}"
proof (cases "name = U ''gateway''")
  case True
  with assms(3,4) have "dget_none services (U ''gateway'') = service"
    by (metis dget_def_def map_of_is_SomeI option.case(2))
  with assms(1,2) show ?thesis by (auto simp: runtime_compose_findings_def dget_def_def Let_def)
next
  case False
  from assms(1,2) have "res_concat (probe_findings probes) services = Inr []"
    by (auto simp: runtime_compose_findings_def dget_def_def Let_def)
  with assms(4) have "probe_findings probes (name, service) = Inr []" by (simp only: res_concat_Nil)
  with False show ?thesis by (auto simp: probe_findings_def split: option.splits)
qed

definition sample_running :: pydict where
  "sample_running = [(U ''services'', PDict [(U ''gateway'', svc [(''ports'', PList [PStr (U ''127.0.0.1:9000:8080'')])]), (U ''cli'', svc [])])]"

theorem runtime_ports_loopback_witness:
  "published_host_ips (svc [(''ports'', PList [PStr (U ''127.0.0.1:9000:8080'')])]) = Inr {U ''127.0.0.1''}"
proof -
  let ?s = "[(U ''gateway'', svc [(''ports'', PList [PStr (U ''127.0.0.1:9000:8080'')])]), (U ''cli'', svc [])]"
  have f: "runtime_compose_findings sample_running 9000 [] = Inr []" by code_simp
  have m: "map_of sample_running (U ''services'') = Some (PDict ?s)" by (simp add: sample_running_def)
  have "distinct (map fst ?s)" "(U ''gateway'', svc [(''ports'', PList [PStr (U ''127.0.0.1:9000:8080'')])]) \<in> set ?s" by simp_all
  from runtime_ports_loopback [OF f m this]
  have "\<not> publishes (svc [(''ports'', PList [PStr (U ''127.0.0.1:9000:8080'')])]) \<or>
    published_host_ips (svc [(''ports'', PList [PStr (U ''127.0.0.1:9000:8080'')])]) = Inr {U ''127.0.0.1''}" .
  moreover have "publishes (svc [(''ports'', PList [PStr (U ''127.0.0.1:9000:8080'')])])" by code_simp
  ultimately show ?thesis by simp
qed

text \<open>
  Reading the callback address of the provider either gives the one address that the adapter serves
  or raises \<^verbatim>\<open>ContractError\<close>; no other exception leaves the function, whatever the configuration.
\<close>

theorem provider_callback_base_outcome:
  "provider_callback_base netloc_ok config \<in> insert (Inr callback_base) (Inl ` range ContractError)"
proof -
  have "res_bind (urlsplit netloc_ok c) (\<lambda>parsed. res_bind (url_port parsed) (\<lambda>port. Inr (parsed, port))) = Inl e \<Longrightarrow>
      is_ValueError e" for c e
    by (auto simp: res_bind_eq_Inl dest: urlsplit_Inl url_port_Inl)
  then show ?thesis
    by (auto simp: provider_callback_base_def Let_def split: pyval.splits sum.splits)
qed

text \<open>
  A quoted but empty user name in a connection string ends the check of the whole configuration
  with \<^verbatim>\<open>AttributeError\<close> instead of a finding.
\<close>

theorem empty_dsn_user_crashes:
  "database_principals netloc_ok [(U ''PGDSN'', U ''host=db user='' @ [39, 39])] = Inl AttributeError"
proof -
  have "database_environment_entries [(U ''PGDSN'', U ''host=db user='' @ [39, 39])] = [(U ''PGDSN'', U ''host=db user='' @ [39, 39])]"
    by code_simp
  moreover have "dsn_principal (U ''host=db user='' @ [39, 39]) = Inl AttributeError" by code_simp
  ultimately show ?thesis by (simp add: database_principals_def entry_principals_def)
qed

end
