(* ===== verification/Week4_Metrics.thy ===== *)
theory Week4_Metrics
  imports Week4_Constants
begin

text \<open>
  The OpenMetrics reader of \<^verbatim>\<open>task/week4/autocheck/public_check.py\<close>.
\<close>

section \<open>Expressions\<close>

definition name_start :: "nat \<Rightarrow> bool" where
  "name_start c = (in_range 65 90 c \<or> in_range 97 122 c \<or> c = 95)"

definition name_char :: "nat \<Rightarrow> bool" where
  "name_char c = (name_start c \<or> in_range 48 57 c)"

definition asc_digit :: regex where
  "asc_digit = RCls (in_range 48 57)"

definition rname :: regex where
  "rname = RSeq (RCls (\<lambda>c. name_start c \<or> c = 58)) (RStar (RCls (\<lambda>c. name_char c \<or> c = 58)))"

definition rsign :: regex where
  "rsign = ropt (RCls (\<lambda>c. c = 45 \<or> c = 43))"

text \<open>\<^verbatim>\<open>[-+]?(?:[0-9]+(?:\.[0-9]*)?|\.[0-9]+)(?:[eE][-+]?[0-9]+)?\<close>\<close>

definition rnumber :: regex where
  "rnumber = rseqs [rsign,
     RAlt (RSeq (rplus asc_digit) (ropt (RSeq (rch 46) (RStar asc_digit)))) (RSeq (rch 46) (rplus asc_digit)),
     ropt (rseqs [RCls (\<lambda>c. c = 101 \<or> c = 69), rsign, rplus asc_digit])]"

text \<open>The optional exemplar after a sample.\<close>

definition rexemplar :: regex where
  "rexemplar = rseqs [rplus rspace, rch 35, rplus rspace, rch 123,
     RStar (ralts [RCls (\<lambda>c. c \<noteq> 34 \<and> c \<noteq> 92 \<and> c \<noteq> 125), RSeq (rch 92) rdot,
       rseqs [rch 34, RStar (RAlt (RSeq (rch 92) rdot) (RCls (\<lambda>c. c \<noteq> 34 \<and> c \<noteq> 92))), rch 34]]),
     rch 125, rplus rspace, rnumber, ropt (RSeq (rplus rspace) (rplus asc_digit))]"

definition METRIC_SAMPLE :: regex where
  "METRIC_SAMPLE = rseqs [RBegin, RGroup 1 rname,
     ropt (rseqs [rch 123, RGroup 2 (RStar (RCls (\<lambda>c. c \<noteq> 125))), rch 125]), rplus rspace,
     RGroup 3 (ralts [rnumber, rstr ''NaN'', RSeq rsign (rstr ''Inf'')]),
     ropt (RSeq (rplus rspace) (rplus asc_digit)), ropt rexemplar, REnd]"

definition METRIC_LABEL :: regex where
  "METRIC_LABEL = rseqs [RStar rspace, RGroup 1 (RSeq (RCls name_start) (RStar (RCls name_char))), RStar rspace,
     rch 61, RStar rspace, rch 34,
     RGroup 2 (RStar (RAlt (RSeq (rch 92) rdot) (RCls (\<lambda>c. c \<noteq> 34 \<and> c \<noteq> 92)))), rch 34, RStar rspace]"

definition metric_kinds :: "string list" where
  "metric_kinds = [''counter'', ''gauge'', ''histogram'', ''gaugehistogram'', ''summary'', ''info'', ''stateset'', ''unknown'']"

definition METRIC_TYPE :: regex where
  "METRIC_TYPE = rseqs [rch 35, rplus rspace, rstr ''TYPE'', rplus rspace, RGroup 1 rname, rplus rspace,
     RGroup 2 (ralts (map rstr metric_kinds))]"

definition METRIC_EOF :: regex where
  "METRIC_EOF = rseqs [RAlt RBegin (rch 10), rstr ''# EOF'', ropt (rch 10), RAbsEnd]"

definition UUID_LABEL :: regex where
  "UUID_LABEL = (let hex = RCls (\<lambda>c. in_range 48 57 c \<or> in_range 97 102 c \<or> in_range 65 70 c) in
     rseqs [rtimes 8 hex, rch 45, rtimes 4 hex, rch 45, RCls (in_range 49 53), rtimes 3 hex, rch 45,
       RCls (\<lambda>c. c \<in> {56, 57, 97, 98, 65, 66}), rtimes 3 hex, rch 45, rtimes 12 hex])"

section \<open>Labels\<close>

type_synonym labels = "(pystr \<times> pystr set) list"

text \<open>\<^verbatim>\<open>labels.setdefault(k, set()).update(values)\<close>\<close>

definition add_label :: "pystr \<Rightarrow> pystr set \<Rightarrow> labels \<Rightarrow> labels" where
  "add_label k vs ls = dput k ((case map_of ls k of None \<Rightarrow> {} | Some s \<Rightarrow> s) \<union> vs) ls"

definition grp :: "nat \<Rightarrow> (nat \<times> pystr) list \<Rightarrow> pystr" where
  "grp n cs = (case group n cs of None \<Rightarrow> [] | Some s \<Rightarrow> s)"

definition bad_labels :: pyexn where
  "bad_labels = ValueError (U ''invalid OpenMetrics labels'')"

lemma rematch_rest: "rematch r s = Some st \<Longrightarrow> length (rest st) \<le> length s"
  using rmatch_rest_le [of st r "rstart s"] by (auto simp: rematch_def rstart_def split: list.splits)

text \<open>The loop of \<^verbatim>\<open>_metric_labels\<close>; its second argument is what is left of the text.\<close>

function metric_labels_from :: "labels \<Rightarrow> pystr \<Rightarrow> labels res" where
  "metric_labels_from ls s =
     (if s = [] then Inr ls
      else case rematch METRIC_LABEL s of
        None \<Rightarrow> Inl bad_labels
      | Some st \<Rightarrow>
          let ls' = add_label (grp 1 (caps st)) {grp 2 (caps st)} ls; r = rest st in
          if r = [] then Inr ls'
          else if hd r \<noteq> 44 then Inl bad_labels
          else metric_labels_from ls' (tl r))"
  by pat_completeness auto

termination
proof (relation "measure (\<lambda>(ls, s). length s)", goal_cases)
  case (2 ls s st ls' r)
  then have "length (rest st) \<le> length s" "rest st \<noteq> []" using rematch_rest by auto
  then have "length (tl (rest st)) < length s" by (cases "rest st") auto
  with 2 show ?case by simp
qed simp

declare metric_labels_from.simps [simp del]

definition metric_labels :: "pystr \<Rightarrow> labels res" where
  "metric_labels value = metric_labels_from [] value"

definition unbounded_metric_label_findings :: "labels \<Rightarrow> pystr list" where
  "unbounded_metric_label_findings ls = concat (map (\<lambda>(name, values).
     (if 20 < card values then [name @ U '': more than 20 values in one scrape''] else []) @
     (if \<exists>value\<in>values. 64 < length value \<or> fullmatch_ok UUID_LABEL value
      then [name @ U '': identifier-like or oversized value''] else [])) ls)"

section \<open>Samples\<close>

text \<open>\<^verbatim>\<open>float(s)\<close> for the texts that the sample expression admits.\<close>

definition signed_digits :: "pystr \<Rightarrow> int option" where
  "signed_digits s =
     (let neg = (s \<noteq> [] \<and> hd s = 45); u = (if s \<noteq> [] \<and> (hd s = 45 \<or> hd s = 43) then tl s else s)
      in if u \<noteq> [] \<and> list_all is_dig u then Some (if neg then - int (dec_val u) else int (dec_val u)) else None)"

definition numeral_value :: "bool \<Rightarrow> pystr \<Rightarrow> pystr \<Rightarrow> int option \<Rightarrow> pyfloat res" where
  "numeral_value neg ip fp ex = (case ex of
     None \<Rightarrow> Inl (ValueError (U ''could not convert string to float''))
   | Some x \<Rightarrow>
       if ip @ fp = [] then Inl (ValueError (U ''could not convert string to float''))
       else Inr (double_of_decimal neg (dec_val (ip @ fp)) (x - int (length fp))))"

definition numeral_parts :: "pystr \<Rightarrow> pystr \<times> pystr \<times> int option" where
  "numeral_parts u =
     (let ip = takeWhile is_dig u; r1 = dropWhile is_dig u;
          fp = (if r1 \<noteq> [] \<and> hd r1 = 46 then takeWhile is_dig (tl r1) else []);
          r2 = (if r1 \<noteq> [] \<and> hd r1 = 46 then dropWhile is_dig (tl r1) else r1)
      in (ip, fp, if r2 = [] then Some 0 else if hd r2 = 101 \<or> hd r2 = 69 then signed_digits (tl r2) else None))"

definition float_numeral :: "pystr \<Rightarrow> pyfloat res" where
  "float_numeral s =
     (let neg = (s \<noteq> [] \<and> hd s = 45); u = (if s \<noteq> [] \<and> (hd s = 45 \<or> hd s = 43) then tl s else s) in
      if u = U ''NaN'' then Inr FNaN
      else if u = U ''Inf'' then Inr (FInf neg)
      else (case numeral_parts u of (ip, fp, ex) \<Rightarrow> numeral_value neg ip fp ex))"

record openmetrics =
  samples :: "(pystr \<times> pyfloat list) list"
  om_labels :: labels
  metric_types :: "(pystr \<times> pystr) list"

definition parse_type :: "pystr \<Rightarrow> pystr \<Rightarrow> openmetrics \<Rightarrow> openmetrics res" where
  "parse_type name kind m =
     (case map_of (metric_types m) name of
        Some k \<Rightarrow> if k \<noteq> kind then Inl (ValueError (U ''conflicting OpenMetrics TYPE declarations''))
                  else Inr (m\<lparr>metric_types := dput name kind (metric_types m)\<rparr>)
      | None \<Rightarrow> Inr (m\<lparr>metric_types := dput name kind (metric_types m)\<rparr>))"

definition parse_sample :: "pystr \<Rightarrow> openmetrics \<Rightarrow> openmetrics res" where
  "parse_sample line m = (case fullmatch METRIC_SAMPLE line of
     None \<Rightarrow> Inl (ValueError (U ''invalid OpenMetrics sample''))
   | Some cs \<Rightarrow>
       res_bind (if grp 2 cs = [] then Inr (om_labels m)
                 else res_bind (metric_labels (grp 2 cs)) (\<lambda>ls.
                   Inr (foldl (\<lambda>acc (k, vs). add_label k vs acc) (om_labels m) ls))) (\<lambda>ls'.
       res_bind (float_numeral (grp 3 cs)) (\<lambda>v.
         let name = grp 1 cs; old = (case map_of (samples m) name of None \<Rightarrow> [] | Some vs \<Rightarrow> vs)
         in Inr (m\<lparr>om_labels := ls', samples := dput name (old @ [v]) (samples m)\<rparr>))))"

definition parse_line :: "pystr \<Rightarrow> openmetrics \<Rightarrow> openmetrics res" where
  "parse_line raw_line m =
     (let line = strip raw_line in
      case fullmatch METRIC_TYPE line of
        Some cs \<Rightarrow> parse_type (grp 1 cs) (grp 2 cs) m
      | None \<Rightarrow> if line = [] \<or> startswith line (U ''#'') then Inr m else parse_sample line m)"

definition parse_openmetrics :: "pystr \<Rightarrow> openmetrics res" where
  "parse_openmetrics text =
     (if 13 \<in> set text \<or> \<not> search_ok METRIC_EOF text
      then Inl (ValueError (U ''OpenMetrics document must end with # EOF''))
      else res_fold parse_line (splitlines text) \<lparr>samples = [], om_labels = [], metric_types = []\<rparr>)"

section \<open>Facts\<close>

lemma metric_labels_from_Inl: "metric_labels_from ls s = Inl e \<Longrightarrow> e = bad_labels"
proof (induction ls s rule: metric_labels_from.induct)
  case (1 ls s)
  from "1.prems" show ?case
    by (subst (asm) metric_labels_from.simps) (auto simp: Let_def split: if_splits option.splits dest: "1.IH")
qed

lemma float_numeral_Inl: "float_numeral s = Inl e \<Longrightarrow> is_ValueError e"
proof -
  have "numeral_value neg ip fp ex = Inl e \<Longrightarrow> is_ValueError e" for neg ip fp ex
    by (auto simp: numeral_value_def split: option.splits if_splits)
  moreover assume "float_numeral s = Inl e"
  ultimately show ?thesis
    by (auto simp: float_numeral_def Let_def split: prod.splits simp del: split_paired_All split: if_split_asm)
qed

lemma parse_line_Inl: "parse_line l m = Inl e \<Longrightarrow> is_ValueError e"
  by (auto simp: parse_line_def parse_type_def parse_sample_def Let_def res_bind_eq_Inl metric_labels_def bad_labels_def
      split: if_splits option.splits dest!: metric_labels_from_Inl float_numeral_Inl)

lemma map_of_put_cap: "map_of (put_cap n s cs) n = Some s"
  by (induction n s cs rule: put_cap.induct) auto

lemma rseqs_snoc: "st' \<in> set (rmatch (rseqs (rs @ [r])) st) \<Longrightarrow> \<exists>st1. st' \<in> set (rmatch r st1)"
  by (induction rs arbitrary: st) (auto simp: rseqs_def)

lemma last_group:
  assumes "fullmatch (rseqs (rs @ [RGroup n r])) s = Some cs" "pure r"
  shows "grp n cs \<in> lang r"
proof -
  from assms(1) obtain st where "st \<in> set (rmatch (rseqs (rs @ [RGroup n r])) (rstart s))" "cs = caps st"
    by (auto simp: fullmatch_def dest!: find_SomeD)
  moreover from rseqs_snoc [OF this(1)] obtain st1 st2 where
    g: "st2 \<in> set (rmatch r st1)" "st = st2\<lparr>caps := put_cap n (take (length (rest st1) - length (rest st2)) (rest st1)) (caps st2)\<rparr>"
    by auto
  moreover from rmatch_rest_le [OF g(1)] obtain w where w: "rest st1 = w @ rest st2" "passed st2 = rev w @ passed st1" by blast
  moreover have "w \<in> lang r" using rmatch_lang [OF assms(2)] g(1) w by (metis same_append_eq append_same_eq)
  ultimately show ?thesis by (simp add: grp_def group_def map_of_put_cap)
qed

definition types_ok :: "openmetrics \<Rightarrow> bool" where
  "types_ok m \<longleftrightarrow> snd ` set (metric_types m) \<subseteq> U ` set metric_kinds \<and> [] \<notin> snd ` set (samples m)"

lemma set_dput: "set (dput k v d) \<subseteq> insert (k, v) (set d)"
  by (induction k v d rule: dput.induct) auto

lemma values_dput: "snd ` set (dput k v d) \<subseteq> insert v (snd ` set d)"
  by (rule order_trans [OF image_mono [OF set_dput]]) simp

lemma metric_kind_group: "fullmatch METRIC_TYPE line = Some cs \<Longrightarrow> grp 2 cs \<in> U ` set metric_kinds"
proof -
  assume "fullmatch METRIC_TYPE line = Some cs"
  moreover have "METRIC_TYPE = rseqs ([rch 35, rplus rspace, rstr ''TYPE'', rplus rspace, RGroup 1 rname, rplus rspace] @
      [RGroup 2 (ralts (map rstr metric_kinds))])" by (simp add: METRIC_TYPE_def)
  moreover have "pure (ralts (map rstr metric_kinds))" by (simp add: ralts_def metric_kinds_def pure_rstr)
  ultimately have "grp 2 cs \<in> lang (ralts (map rstr metric_kinds))" using last_group by metis
  then show ?thesis by (auto simp: ralts_def metric_kinds_def lang_rstr)
qed

lemma parse_sample_Inr:
  assumes "parse_sample line m = Inr m'"
  shows "\<exists>ls name vs. vs \<noteq> [] \<and> m' = m\<lparr>om_labels := ls, samples := dput name vs (samples m)\<rparr>"
proof (cases "fullmatch METRIC_SAMPLE line")
  case (Some cs)
  from assms obtain ls' v where "Inr m' = (Inr (m\<lparr>om_labels := ls', samples := dput (grp 1 cs)
      ((case map_of (samples m) (grp 1 cs) of None \<Rightarrow> [] | Some vs \<Rightarrow> vs) @ [v]) (samples m)\<rparr>) :: openmetrics res)"
    unfolding parse_sample_def Some option.case Let_def res_bind_eq_Inr by metis
  then show ?thesis by blast
qed (use assms in \<open>simp add: parse_sample_def\<close>)

lemma parse_type_Inr: "parse_type name kind m = Inr m' \<Longrightarrow> m' = m\<lparr>metric_types := dput name kind (metric_types m)\<rparr>"
  by (simp add: parse_type_def split: option.splits if_split_asm)

lemma parse_line_types:
  assumes "parse_line l m = Inr m'" "types_ok m"
  shows "types_ok m'"
proof (cases "fullmatch METRIC_TYPE (strip l)")
  case (Some cs)
  from assms(1) have "parse_type (grp 1 cs) (grp 2 cs) m = Inr m'"
    unfolding parse_line_def Let_def Some option.case .
  from parse_type_Inr [OF this] have "m' = m\<lparr>metric_types := dput (grp 1 cs) (grp 2 cs) (metric_types m)\<rparr>" .
  then have "metric_types m' = dput (grp 1 cs) (grp 2 cs) (metric_types m)" "samples m' = samples m" by simp_all
  moreover have "insert (grp 2 cs) (snd ` set (metric_types m)) \<subseteq> U ` set metric_kinds"
    by (rule insert_subsetI [OF metric_kind_group [OF Some]]) (rule conjunct1 [OF assms(2) [unfolded types_ok_def]])
  ultimately show ?thesis
    using order_trans [OF values_dput, of "grp 2 cs" "metric_types m"] assms(2) by (simp only: types_ok_def simp_thms)
next
  case None
  show ?thesis
  proof (cases "strip l = [] \<or> startswith (strip l) (U ''#'')")
    case True
    with None assms show ?thesis by (auto simp: parse_line_def Let_def)
  next
    case False
    with None assms(1) have "parse_sample (strip l) m = Inr m'" by (simp add: parse_line_def Let_def)
    from parse_sample_Inr [OF this] obtain name vs ls where "vs \<noteq> []"
      "m' = m\<lparr>om_labels := ls, samples := dput name vs (samples m)\<rparr>" by blast
    then have "metric_types m' = metric_types m" "samples m' = dput name vs (samples m)" by simp_all
    moreover have "[] \<notin> insert vs (snd ` set (samples m))"
      using assms(2) \<open>vs \<noteq> []\<close> by (simp only: types_ok_def insert_iff) blast
    ultimately show ?thesis
      using contra_subsetD [OF values_dput, of _ vs "samples m"] assms(2) by (simp only: types_ok_def simp_thms)
  qed
qed

section \<open>Properties\<close>

text \<open>
  C37. The reader of metrics is total: it always ends, either with a \<^verbatim>\<open>ValueError\<close> or with a
  document without carriage returns that ends with \<^verbatim>\<open># EOF\<close>, whose declared types are among the
  eight of OpenMetrics and whose every series has a value.
\<close>

theorem parse_openmetrics_outcome:
  "case parse_openmetrics doc of
     Inl e \<Rightarrow> is_ValueError e
   | Inr m \<Rightarrow> 13 \<notin> set doc \<and> search_ok METRIC_EOF doc \<and> snd ` set (metric_types m) \<subseteq> U ` set metric_kinds \<and>
       [] \<notin> snd ` set (samples m)"
proof (cases "parse_openmetrics doc")
  case (Inl e)
  then show ?thesis
    by (auto simp: parse_openmetrics_def split: if_splits elim!: res_fold_Inl intro: parse_line_Inl)
next
  case (Inr m)
  then have f: "13 \<notin> set doc" "search_ok METRIC_EOF doc"
    "res_fold parse_line (splitlines doc) \<lparr>samples = [], om_labels = [], metric_types = []\<rparr> = Inr m"
    by (auto simp: parse_openmetrics_def split: if_splits)
  have "types_ok m"
    by (rule res_fold_invariant [OF f(3)]) (auto simp: types_ok_def dest: parse_line_types [unfolded types_ok_def])
  with f Inr show ?thesis by (simp add: types_ok_def)
qed

end
