(* ===== verification/Week4_Schema.thy ===== *)
theory Week4_Schema
  imports Checker_Common
begin

text \<open>
  \<^verbatim>\<open>validate_json_schema\<close> of \<^verbatim>\<open>task/week4/autocheck/public_check.py\<close>. The patterns of a schema are read
  at run time, so \<^verbatim>\<open>re.search\<close> on them is the parameter \<open>re_search\<close>; \<open>depth\<close> is the number of nested
  calls of \<^verbatim>\<open>visit\<close> that the interpreter's stack admits, and a deeper call raises
  \<^verbatim>\<open>RecursionError\<close>. A call returns the messages it adds; the source lists properties that
  are not allowed in the order of a set, here they come in the order of the value.
\<close>

section \<open>Helpers\<close>

definition is_aware_timestamp :: "pystr \<Rightarrow> bool" where
  "is_aware_timestamp item = (case fromisoformat (replace_str (U ''Z'') (U ''+00:00'') item) of
     None \<Rightarrow> False | Some t \<Rightarrow> offset_us t \<noteq> None)"

definition has_type :: "pystr \<Rightarrow> pyval \<Rightarrow> bool" where
  "has_type name candidate =
     (if name = U ''null'' then candidate = PNone
      else if name = U ''object'' then is_dict candidate
      else if name = U ''array'' then is_list candidate
      else if name = U ''string'' then is_str candidate
      else if name = U ''integer'' then is_int candidate
      else if name = U ''number'' then is_num candidate \<and> \<not> is_bool candidate
      else if name = U ''boolean'' then is_bool candidate
      else False)"

text \<open>\<^verbatim>\<open>current[part]\<close>: only a dictionary has members under a string.\<close>

fun member :: "pystr \<Rightarrow> pyval \<Rightarrow> pyval res" where
  "member part (PDict d) = ditem d part"
| "member part _ = Inl TypeError"

definition json_pointer_part :: "pystr \<Rightarrow> pystr" where
  "json_pointer_part part = replace_str (U ''~0'') (U ''~'') (replace_str (U ''~1'') (U ''/'') part)"

definition resolve_ref :: "pyval \<Rightarrow> pystr \<Rightarrow> pyval res" where
  "resolve_ref schema reference =
     (if \<not> startswith reference (U ''#/'') then Inl (ValueError (U ''only local JSON Schema references are supported''))
      else res_bind (res_fold (\<lambda>part current. member (json_pointer_part part) current)
          (split_ch 47 (drop 2 reference)) schema) (\<lambda>current.
        if is_dict current then Inr current
        else Inl (ValueError (U ''JSON Schema reference does not resolve to an object''))))"

section \<open>Checks without recursion\<close>

definition err :: "pystr \<Rightarrow> string \<Rightarrow> pystr" where
  "err path msg = path @ U '': '' @ U msg"

definition type_matches :: "pyval \<Rightarrow> pydict \<Rightarrow> bool" where
  "type_matches item rule =
     (case dget_none rule (U ''type'') of
        PNone \<Rightarrow> True
      | PList names \<Rightarrow> list_ex (\<lambda>n. has_type (py_str n) item) names
      | t \<Rightarrow> has_type (py_str t) item)"

definition value_errors :: "pyval \<Rightarrow> pydict \<Rightarrow> pystr \<Rightarrow> pystr list res" where
  "value_errors item rule path =
     res_append (Inr (case map_of rule (U ''const'') of
         None \<Rightarrow> [] | Some c \<Rightarrow> note_if (\<not> py_eq item c) (err path ''invalid constant'')))
       (case map_of rule (U ''enum'') of
         None \<Rightarrow> Inr []
       | Some xs \<Rightarrow> res_bind (py_contains item xs) (\<lambda>b. Inr (note_if (\<not> b) (err path ''value is outside enum''))))"

definition string_errors :: "(pystr \<Rightarrow> pystr \<Rightarrow> bool res) \<Rightarrow> pystr \<Rightarrow> pydict \<Rightarrow> pystr \<Rightarrow> pystr list res" where
  "string_errors re_search s rule path =
     res_append (res_bind (py_int (dget_def (PInt 0) rule (U ''minLength''))) (\<lambda>n.
         Inr (note_if (int (length s) < n) (err path ''string is too short''))))
     (res_append (case map_of rule (U ''maxLength'') of
         None \<Rightarrow> Inr []
       | Some v \<Rightarrow> res_bind (py_int v) (\<lambda>n. Inr (note_if (n < int (length s)) (err path ''string is too long''))))
     (res_append (case map_of rule (U ''pattern'') of
         None \<Rightarrow> Inr []
       | Some p \<Rightarrow> res_bind (re_search (py_str p) s) (\<lambda>b. Inr (note_if (\<not> b) (err path ''string does not match pattern''))))
       (Inr (note_if (dget_none rule (U ''format'') = PStr (U ''uuid'') \<and> \<not> is_uuid s) (err path ''string is not a UUID'') @
         note_if (dget_none rule (U ''format'') = PStr (U ''date-time'') \<and> \<not> is_aware_timestamp s)
           (err path ''string is not an RFC 3339 timestamp'')))))"

definition number_errors :: "pyval \<Rightarrow> pydict \<Rightarrow> pystr \<Rightarrow> pystr list res" where
  "number_errors item rule path =
     (if is_num item \<and> \<not> is_bool item
      then (case map_of rule (U ''minimum'') of
          None \<Rightarrow> Inr []
        | Some m \<Rightarrow> res_bind (py_less item m) (\<lambda>b. Inr (note_if b (err path ''number is below minimum''))))
      else Inr [])"

definition sorted_ascii :: jopts where
  "sorted_ascii = compact_sorted\<lparr>ensure_ascii := True\<rparr>"

definition array_errors :: "pyval list \<Rightarrow> pydict \<Rightarrow> pystr \<Rightarrow> pystr list res" where
  "array_errors items rule path =
     res_append (res_bind (py_int (dget_def (PInt 0) rule (U ''minItems''))) (\<lambda>n.
         Inr (note_if (int (length items) < n) (err path ''array has too few items''))))
       (if truthy (dget_none rule (U ''uniqueItems''))
        then res_bind (res_map (dumps sorted_ascii) items) (\<lambda>texts.
          Inr (note_if (\<not> distinct texts) (err path ''array items are not unique'')))
        else Inr [])"

definition required_errors :: "pydict \<Rightarrow> pydict \<Rightarrow> pystr \<Rightarrow> pystr list res" where
  "required_errors item rule path =
     res_bind (py_iter (dget_def (PList []) rule (U ''required''))) (res_concat (\<lambda>name.
       res_bind (py_contains name (PDict item)) (\<lambda>b.
         Inr (note_if (\<not> b) (path @ U ''.'' @ py_str name @ U '': required property is missing'')))))"

definition extra_errors :: "pydict \<Rightarrow> pydict \<Rightarrow> pydict \<Rightarrow> pystr \<Rightarrow> pystr list" where
  "extra_errors item rule props path =
     (if dget_none rule (U ''additionalProperties'') = PBool False
      then map (\<lambda>k. path @ U ''.'' @ k @ U '': additional property is forbidden'') (filter (\<lambda>k. k \<notin> dkeys props) (map fst item))
      else [])"

text \<open>What happens when a rule is not a dictionary.\<close>

definition bad_rule :: "pyval \<Rightarrow> pyexn" where
  "bad_rule rule = (case py_contains (PStr (U ''$ref'')) rule of
     Inl e \<Rightarrow> e | Inr b \<Rightarrow> if b then TypeError else AttributeError)"

section \<open>The visitor\<close>

type_synonym visitor = "pyval \<Rightarrow> pyval \<Rightarrow> pystr \<Rightarrow> pystr list res"

definition not_errors :: "visitor \<Rightarrow> pyval \<Rightarrow> pydict \<Rightarrow> pystr \<Rightarrow> pystr list res" where
  "not_errors v item rule path = (case dget_none rule (U ''not'') of
     PDict negated \<Rightarrow> res_bind (v item (PDict negated) path) (\<lambda>es.
       Inr (note_if (es = []) (err path ''matches a forbidden schema'')))
   | _ \<Rightarrow> Inr [])"

definition one_of_errors :: "visitor \<Rightarrow> pyval \<Rightarrow> pyval list \<Rightarrow> pystr \<Rightarrow> pystr list res" where
  "one_of_errors v item alternatives path =
     res_bind (res_map (\<lambda>alternative. v item alternative path) alternatives) (\<lambda>ess.
       Inr (note_if (length (filter (\<lambda>es. es = []) ess) \<noteq> 1) (err path ''does not match exactly one schema'')))"

definition item_errors :: "visitor \<Rightarrow> pyval list \<Rightarrow> pydict \<Rightarrow> pystr \<Rightarrow> pystr list res" where
  "item_errors v items rule path = (case dget_none rule (U ''items'') of
     PDict item_rule \<Rightarrow> res_concat (\<lambda>(i, entry). v entry (PDict item_rule) (path @ U ''['' @ str_of_nat i @ U '']''))
       (zip [0..<length items] items)
   | _ \<Rightarrow> Inr [])"

definition property_errors :: "visitor \<Rightarrow> pydict \<Rightarrow> pydict \<Rightarrow> pystr \<Rightarrow> pystr list res" where
  "property_errors v item rule path = (case dget_def (PDict []) rule (U ''properties'') of
     PDict props \<Rightarrow> res_append
       (res_concat (\<lambda>(name, child). (case (map_of item name, child) of
            (Some x, PDict c) \<Rightarrow> v x (PDict c) (path @ U ''.'' @ name)
          | _ \<Rightarrow> Inr [])) props)
       (Inr (extra_errors item rule props path))
   | _ \<Rightarrow> Inr [])"

definition container_errors :: "visitor \<Rightarrow> pyval \<Rightarrow> pydict \<Rightarrow> pystr \<Rightarrow> pystr list res" where
  "container_errors v item rule path = (case item of
     PList items \<Rightarrow> res_append (array_errors items rule path) (item_errors v items rule path)
   | PDict d \<Rightarrow> res_append (required_errors d rule path) (property_errors v d rule path)
   | _ \<Rightarrow> Inr [])"

definition typed_errors :: "(pystr \<Rightarrow> pystr \<Rightarrow> bool res) \<Rightarrow> visitor \<Rightarrow> pyval \<Rightarrow> pydict \<Rightarrow> pystr \<Rightarrow> pystr list res" where
  "typed_errors re_search v item rule path =
     (if \<not> type_matches item rule then Inr [err path ''invalid type'']
      else res_append (value_errors item rule path)
        (res_append (case item of PStr s \<Rightarrow> string_errors re_search s rule path | _ \<Rightarrow> Inr [])
        (res_append (number_errors item rule path) (container_errors v item rule path))))"

definition rule_errors :: "(pystr \<Rightarrow> pystr \<Rightarrow> bool res) \<Rightarrow> visitor \<Rightarrow> pyval \<Rightarrow> pydict \<Rightarrow> pystr \<Rightarrow> pystr list res" where
  "rule_errors re_search v item rule path = res_append (not_errors v item rule path)
     (case dget_none rule (U ''oneOf'') of
        PList alternatives \<Rightarrow> one_of_errors v item alternatives path
      | _ \<Rightarrow> typed_errors re_search v item rule path)"

primrec visit :: "(pystr \<Rightarrow> pystr \<Rightarrow> bool res) \<Rightarrow> pyval \<Rightarrow> nat \<Rightarrow> visitor" where
  "visit re_search schema 0 item rule path = Inl RecursionError"
| "visit re_search schema (Suc depth) item rule path = (case rule of
     PDict r \<Rightarrow> (case map_of r (U ''$ref'') of
         Some reference \<Rightarrow> res_bind (resolve_ref schema (py_str reference)) (\<lambda>target.
           visit re_search schema depth item target path)
       | None \<Rightarrow> rule_errors re_search (visit re_search schema depth) item r path)
   | _ \<Rightarrow> Inl (bad_rule rule))"

definition validate_json_schema :: "(pystr \<Rightarrow> pystr \<Rightarrow> bool res) \<Rightarrow> nat \<Rightarrow> pyval \<Rightarrow> pyval \<Rightarrow> pystr list res" where
  "validate_json_schema re_search depth value schema = visit re_search schema depth value schema (U ''$'')"

section \<open>Depth\<close>

text \<open>Nesting of dictionaries and lists, and schemas without references.\<close>

fun nesting :: "pyval \<Rightarrow> nat" where
  "nesting (PDict d) = Suc (Max (insert 0 (set (map (\<lambda>(k, v). nesting v) d))))"
| "nesting (PList xs) = Suc (Max (insert 0 (set (map nesting xs))))"
| "nesting _ = 0"

fun ref_free :: "pyval \<Rightarrow> bool" where
  "ref_free (PDict d) = list_all (\<lambda>(k, v). k \<noteq> U ''$ref'' \<and> ref_free v) d"
| "ref_free (PList xs) = list_all ref_free xs"
| "ref_free _ = True"

lemma nesting_member: "dget_def def d k = v \<Longrightarrow> v \<noteq> def \<Longrightarrow> nesting v < nesting (PDict d)"
  by (force simp: dget_def_def less_Suc_eq_le split: option.splits intro!: Max_ge dest: map_of_SomeD)

lemma nesting_value: "(k, v) \<in> set d \<Longrightarrow> nesting v < nesting (PDict d)"
  by (force simp: less_Suc_eq_le intro!: Max_ge)

lemma nesting_item: "x \<in> set xs \<Longrightarrow> nesting x < nesting (PList xs)"
  by (auto simp: less_Suc_eq_le)

declare nesting.simps [simp del]

lemma ref_free_member: "dget_def def d k = v \<Longrightarrow> v \<noteq> def \<Longrightarrow> ref_free (PDict d) \<Longrightarrow> ref_free v"
  by (force simp: dget_def_def list_all_iff split: option.splits dest: map_of_SomeD)

definition deep :: "'a res \<Rightarrow> bool" where
  "deep r \<longleftrightarrow> r = Inl RecursionError"

lemma deep_simps [simp]:
  "\<not> deep (Inr x)"
  "deep (Inl e) \<longleftrightarrow> e = RecursionError"
  by (simp_all add: deep_def)

lemma deep_bind: "deep (res_bind r f) \<Longrightarrow> deep r \<or> (\<exists>x. r = Inr x \<and> deep (f x))"
  by (cases r) auto

lemma deep_append: "deep (res_append a b) \<Longrightarrow> deep a \<or> deep b"
  unfolding res_append_def by (auto dest!: deep_bind)

lemma deep_map: "deep (res_map f xs) \<Longrightarrow> \<exists>x\<in>set xs. deep (f x)"
  unfolding deep_def by (rule res_map_Inl)

lemma deep_concat: "deep (res_concat f xs) \<Longrightarrow> \<exists>x\<in>set xs. deep (f x)"
  unfolding res_concat_def by (auto dest!: deep_bind deep_map)

lemma not_deep_dumps: "\<not> deep (dumps o' v)"
proof (induction o' v rule: dumps.induct)
  case (9 o' d)
  then show ?case by (fastforce dest!: deep_bind deep_map)
qed (auto dest!: deep_bind deep_map)

lemma not_deep_int: "\<not> deep (py_int v)"
  by (induction v rule: py_int.induct) (auto simp: Let_def deep_def dest: int_of_str_Inl)

lemma not_deep_iter: "\<not> deep (py_iter v)"
  by (cases v) auto

lemma not_deep_contains: "\<not> deep (py_contains x v)"
  by (cases v) (auto split: pyval.splits)

lemma not_deep_less: "\<not> deep (py_less a b)"
  by (simp add: py_less_def)

lemmas shallow = not_deep_dumps not_deep_int not_deep_iter not_deep_contains not_deep_less

lemma not_deep_leaf:
  "\<not> deep (value_errors item rule path)"
  "\<not> deep (number_errors item rule path)"
  "\<not> deep (array_errors items rule path)"
  "\<not> deep (required_errors d rule path)"
  "(\<And>p s. \<not> deep (re_search p s)) \<Longrightarrow> \<not> deep (string_errors re_search s rule path)"
  unfolding value_errors_def number_errors_def array_errors_def required_errors_def string_errors_def
  by (auto simp: shallow split: option.splits if_splits dest!: deep_append deep_bind deep_concat deep_map)

lemma deep_rule:
  assumes "deep (rule_errors re_search v item rule path)" "\<And>p s. \<not> deep (re_search p s)" "ref_free (PDict rule)"
  shows "\<exists>item' rule' path'. deep (v item' rule' path') \<and> nesting rule' < nesting (PDict rule) \<and> ref_free rule'"
proof -
  let ?P = "\<exists>item' rule' path'. deep (v item' rule' path') \<and> nesting rule' < nesting (PDict rule) \<and> ref_free rule'"
  have neg: ?P if d: "deep (not_errors v item rule path)"
  proof -
    from d obtain n where n: "dget_none rule (U ''not'') = PDict n" "deep (v item (PDict n) path)"
      unfolding not_errors_def by (cases "dget_none rule (U ''not'')") (auto dest!: deep_bind)
    with nesting_member [OF n(1)] ref_free_member [OF n(1) _ assms(3)] show ?thesis by blast
  qed
  have one: ?P if d: "dget_none rule (U ''oneOf'') = PList xs" "deep (one_of_errors v item xs path)" for xs
  proof -
    from d(2) obtain x where x: "x \<in> set xs" "deep (v item x path)"
      unfolding one_of_errors_def by (auto dest!: deep_bind deep_map)
    from nesting_member [OF d(1)] nesting_item [OF x(1)] have "nesting x < nesting (PDict rule)" by simp
    moreover from ref_free_member [OF d(1) _ assms(3)] x(1) have "ref_free x" by (simp add: list_all_iff)
    ultimately show ?thesis using x(2) by blast
  qed
  have itm: ?P if d: "deep (item_errors v items rule path)" for items
  proof -
    from d obtain n e p where n: "dget_none rule (U ''items'') = PDict n" "deep (v e (PDict n) p)"
      unfolding item_errors_def by (cases "dget_none rule (U ''items'')") (auto dest!: deep_concat)
    with nesting_member [OF n(1)] ref_free_member [OF n(1) _ assms(3)] show ?thesis by blast
  qed
  have prp: ?P if d: "deep (property_errors v d' rule path)" for d'
  proof -
    from d obtain props name c x p where n: "dget_def (PDict []) rule (U ''properties'') = PDict props"
      and c: "(name, PDict c) \<in> set props" "deep (v x (PDict c) p)"
      unfolding property_errors_def
      by (cases "dget_def (PDict []) rule (U ''properties'')")
        (auto dest!: deep_append deep_concat split: option.splits pyval.splits)
    then have "PDict props \<noteq> PDict []" by auto
    from nesting_member [OF n this] nesting_value [OF c(1)] have "nesting (PDict c) < nesting (PDict rule)" by simp
    moreover from ref_free_member [OF n \<open>PDict props \<noteq> PDict []\<close> assms(3)] c(1) have "ref_free (PDict c)"
      by (fastforce simp: list_all_iff)
    ultimately show ?thesis using c(2) by blast
  qed
  have cont: ?P if "deep (container_errors v item rule path)"
    using that itm prp unfolding container_errors_def
    by (cases item) (auto dest!: deep_append simp: not_deep_leaf)
  have tyd: ?P if d: "deep (typed_errors re_search v item rule path)"
  proof -
    have "\<not> deep (case item of PStr s \<Rightarrow> string_errors re_search s rule path | _ \<Rightarrow> Inr [])"
      by (cases item) (simp_all add: not_deep_leaf(5) assms(2))
    with d have "deep (container_errors v item rule path)"
      unfolding typed_errors_def by (auto dest!: deep_append simp: not_deep_leaf split: if_splits)
    then show ?thesis by (rule cont)
  qed
  from assms(1) neg one tyd show ?thesis
    unfolding rule_errors_def by (cases "dget_none rule (U ''oneOf'')") (auto dest!: deep_append)
qed

lemma bad_rule_shallow: "bad_rule r \<noteq> RecursionError"
  using not_deep_contains [of "PStr (U ''$ref'')" r] by (auto simp: bad_rule_def deep_def split: sum.splits)

lemma visit_shallow:
  assumes "\<And>p s. \<not> deep (re_search p s)"
  shows "ref_free rule \<Longrightarrow> nesting rule < depth \<Longrightarrow> \<not> deep (visit re_search schema depth item rule path)"
proof (induction depth arbitrary: item rule path)
  case (Suc depth)
  show ?case
  proof (cases "\<exists>r. rule = PDict r")
    case True
    then obtain r where r: "rule = PDict r" by blast
    have "map_of r (U ''$ref'') = None"
      using Suc.prems(1) by (auto simp: r list_all_iff map_of_eq_None_iff)
    moreover have "\<not> deep (rule_errors re_search (visit re_search schema depth) item r path)"
    proof
      assume "deep (rule_errors re_search (visit re_search schema depth) item r path)"
      from deep_rule [OF this assms Suc.prems(1) [unfolded r]] obtain i r' p where
        "deep (visit re_search schema depth i r' p)" "nesting r' < nesting (PDict r)" "ref_free r'" by blast
      with Suc.IH [of r' i p] Suc.prems(2) show False by (simp add: r)
    qed
    ultimately show ?thesis by (simp add: r)
  next
    case False
    then show ?thesis using bad_rule_shallow by (cases rule) auto
  qed
qed simp

lemma required_Nil:
  assumes "required_errors d rule path = Inr []"
  shows "\<exists>names. py_iter (dget_def (PList []) rule (U ''required'')) = Inr names \<and>
    list_all (\<lambda>n. py_contains n (PDict d) = Inr True) names"
  using assms unfolding required_errors_def by (force simp: res_concat_Nil list_all_iff simp del: py_contains.simps)

lemma property_Nil:
  assumes "property_errors v d rule path = Inr []" "dget_def (PDict []) rule (U ''properties'') = PDict props"
    "(name, PDict c) \<in> set props" "map_of d name = Some x"
  shows "v x (PDict c) (path @ U ''.'' @ name) = Inr []"
proof -
  from assms(1,2) have "res_concat (\<lambda>(name, child). (case (map_of d name, child) of
      (Some x, PDict c) \<Rightarrow> v x (PDict c) (path @ U ''.'' @ name) | _ \<Rightarrow> Inr [])) props = Inr []"
    by (simp add: property_errors_def)
  with assms(3) have "(case (name, PDict c) of (name, child) \<Rightarrow> (case (map_of d name, child) of
      (Some x, PDict c) \<Rightarrow> v x (PDict c) (path @ U ''.'' @ name) | _ \<Rightarrow> Inr [])) = Inr []"
    by (simp only: res_concat_Nil)
  with assms(4) show ?thesis by simp
qed

lemma extra_Nil:
  assumes "property_errors v d rule path = Inr []" "dget_def (PDict []) rule (U ''properties'') = PDict props"
    "dget_none rule (U ''additionalProperties'') = PBool False"
  shows "dkeys d \<subseteq> dkeys props"
proof -
  from assms have "extra_errors d rule props path = []" by (simp add: property_errors_def)
  with assms(3) show ?thesis by (auto simp: extra_errors_def filter_empty_conv dkeys_def)
qed

lemma visit_object_parts:
  assumes "visit re_search schema (Suc depth) (PDict d) (PDict r) path = Inr []" "map_of r (U ''$ref'') = None"
    "\<not> is_list (dget_none r (U ''oneOf''))"
  shows "type_matches (PDict d) r" "required_errors d r path = Inr []" "property_errors (visit re_search schema depth) d r path = Inr []"
    "not_errors (visit re_search schema depth) (PDict d) r path = Inr []"
proof -
  from assms have n: "not_errors (visit re_search schema depth) (PDict d) r path = Inr []"
    and t: "typed_errors re_search (visit re_search schema depth) (PDict d) r path = Inr []"
    by (cases "dget_none r (U ''oneOf'')"; simp add: rule_errors_def)+
  from n show "not_errors (visit re_search schema depth) (PDict d) r path = Inr []" .
  from t show "type_matches (PDict d) r" "required_errors d r path = Inr []"
      "property_errors (visit re_search schema depth) d r path = Inr []"
    by (auto simp: typed_errors_def container_errors_def split: if_splits)
qed

section \<open>Properties\<close>


definition sample_schema :: pyval where
  "sample_schema = PDict [(U ''type'', PStr (U ''object'')), (U ''required'', PList [PStr (U ''id'')]),
     (U ''properties'', PDict [(U ''id'', PDict [(U ''type'', PStr (U ''integer'')), (U ''minimum'', PInt 1)])]),
     (U ''additionalProperties'', PBool False)]"


text \<open>
  C33. An object accepted by an object rule has every required property; each of its properties that the
  rule describes is accepted by its own schema; and it has no other property when the rule
  forbids additional ones.
\<close>

theorem accepted_object:
  assumes "visit re_search schema (Suc depth) (PDict d) (PDict r) path = Inr []" "map_of r (U ''$ref'') = None"
    "\<not> is_list (dget_none r (U ''oneOf''))" "dget_def (PDict []) r (U ''properties'') = PDict props"
  shows "(\<exists>names. py_iter (dget_def (PList []) r (U ''required'')) = Inr names \<and>
      list_all (\<lambda>n. py_contains n (PDict d) = Inr True) names) \<and>
    (\<forall>name c x. (name, PDict c) \<in> set props \<and> map_of d name = Some x \<longrightarrow>
      visit re_search schema depth x (PDict c) (path @ U ''.'' @ name) = Inr []) \<and>
    (dget_none r (U ''additionalProperties'') = PBool False \<longrightarrow> dkeys d \<subseteq> dkeys props)"
  using required_Nil [OF visit_object_parts(2) [OF assms(1-3)]]
    property_Nil [OF visit_object_parts(3) [OF assms(1-3)] assms(4)]
    extra_Nil [OF visit_object_parts(3) [OF assms(1-3)] assms(4)]
  by blast

theorem accepted_object_witness:
  "visit (\<lambda>_ _. Inr True) sample_schema 3 (PInt 7) (PDict [(U ''type'', PStr (U ''integer'')), (U ''minimum'', PInt 1)]) (U ''$.id'') = Inr []"
proof -
  obtain r where r: "sample_schema = PDict r"
    and r': "map_of r (U ''$ref'') = None" "\<not> is_list (dget_none r (U ''oneOf''))"
    "dget_def (PDict []) r (U ''properties'') = PDict [(U ''id'', PDict [(U ''type'', PStr (U ''integer'')), (U ''minimum'', PInt 1)])]"
    by (simp add: sample_schema_def dget_def_def)
  have "visit (\<lambda>_ _. Inr True) sample_schema (Suc 3) (PDict [(U ''id'', PInt 7)]) sample_schema (U ''$'') = Inr []"
    by code_simp
  from accepted_object [OF this [unfolded r] r']
  have "visit (\<lambda>_ _. Inr True) (PDict r) 3 (PInt 7) (PDict [(U ''type'', PStr (U ''integer'')), (U ''minimum'', PInt 1)]) (U ''$'' @ U ''.'' @ U ''id'') = Inr []"
    by simp
  moreover have "U ''$'' @ U ''.'' @ U ''id'' = U ''$.id''" by (simp add: U_def)
  ultimately show ?thesis by (simp only: r)
qed

end
