(* ===== verification/Week3_Constants.thy ===== *)
theory Week3_Constants
  imports Week4_Constants
begin

text \<open>
  The tables of \<^verbatim>\<open>task/week3/autocheck/public_check.py\<close>.
\<close>

definition MANIFEST_VERSION :: pystr where
  "MANIFEST_VERSION =
     U ''week-3-public-report/v1''"

definition TOOL_VERSION :: pystr where
  "TOOL_VERSION =
     U ''week-3-public-check/0.3''"

definition PUBLISHED_FIXTURE_DIGEST :: pystr where
  "PUBLISHED_FIXTURE_DIGEST =
     U ''1f83c074ea60ae3941f75dd48e1526030ebdd5e467a66753e1c6a1c06c67c059''"

definition PUBLISHED_FIXTURE_GENERATOR :: pystr where
  "PUBLISHED_FIXTURE_GENERATOR =
     U ''week-3.1''"

definition PROVIDER_IMAGE :: pystr where
  "PROVIDER_IMAGE =
     U ''ghcr.io/fintech-dev-lab/internship-provider-simulator:v0.2.0@sha256:70'' @
     U ''e5e0dd9ab8425be84de431ec74516f9bedf5d5529077358e2e2b2037fe0c74''"

definition COMPOSE_NAMES :: "pystr list" where
  "COMPOSE_NAMES =
     map U [''compose.yaml'', ''compose.yml'', ''docker-compose.yml'', ''docker-compose.yaml'']"

definition REQUIRED_SERVICES :: "pystr set" where
  "REQUIRED_SERVICES =
     U ` {''gateway'', ''api'', ''cli'', ''postgres'', ''worker-a'', ''worker-b'',
        ''outbox-dispatcher'', ''receipt-adapter'', ''inbox-reconciler'', ''provider-simulator''}"

definition RUNNING_SERVICES :: "pystr set" where
  "RUNNING_SERVICES = REQUIRED_SERVICES - {U ''cli''}"

definition PYTHON_SERVICES :: "pystr list" where
  "PYTHON_SERVICES =
     map U [''outbox-dispatcher'', ''receipt-adapter'', ''inbox-reconciler'']"

definition CSHARP_SERVICES :: "pystr list" where
  "CSHARP_SERVICES =
     map U [''gateway'', ''api'', ''worker-a'', ''worker-b'']"

definition REQUIRED_VIEWS :: "pystr set" where
  "REQUIRED_VIEWS =
     U ` {''contract_info'', ''action_definitions'', ''action_dispatches'', ''operations'',
        ''operation_events'', ''flow_versions'', ''processes'', ''steps'', ''jobs'',
        ''attempts'', ''signals'', ''workflow_events'', ''external_requests'', ''receipts'',
        ''outbox'', ''inbox'', ''decisions''}"

definition REQUIRED_VIEW_COLUMNS :: "(pystr \<times> pystr set) list" where
  "REQUIRED_VIEW_COLUMNS =
     [
     (U ''contract_info'', U ` {''contract_version'', ''generated_at''}),
     (U ''action_definitions'', U ` {''module'', ''action'', ''version'', ''http_method'', ''target_schema'',
        ''target_function'', ''outcomes'', ''enabled'', ''is_default''}),
     (U ''action_dispatches'', U ` {''correlation_id'', ''request_id'', ''module'', ''action'', ''version'', ''principal'',
        ''payload_hash'', ''status'', ''outcome'', ''occurred_at''}),
     (U ''operations'', U ` {''operation_id'', ''request_id'', ''operation_kind'', ''amount'', ''currency'',
        ''status'', ''process_id'', ''created_at'', ''updated_at''}),
     (U ''operation_events'', U ` {''event_id'', ''operation_id'', ''event_type'', ''payload_hash'', ''occurred_at''}),
     (U ''flow_versions'', U ` {''flow_name'', ''flow_version'', ''status'', ''is_active'', ''published_at''}),
     (U ''processes'', U ` {''process_id'', ''business_key'', ''flow_name'', ''flow_version'', ''state'',
        ''current_step_key'', ''created_at'', ''updated_at''}),
     (U ''steps'', U ` {''step_instance_id'', ''process_id'', ''step_key'', ''step_type'', ''state'',
        ''outcome'', ''entered_at'', ''completed_at''}),
     (U ''jobs'', U ` {''job_id'', ''process_id'', ''step_instance_id'', ''execution_id'', ''state'',
        ''lease_owner'', ''lease_version'', ''lease_until'', ''attempt_count'',
        ''next_attempt_at''}),
     (U ''attempts'', U ` {''attempt_id'', ''job_id'', ''execution_id'', ''lease_version'', ''attempt_number'',
        ''status'', ''outcome'', ''error_code'', ''started_at'', ''finished_at''}),
     (U ''signals'', U ` {''message_id'', ''process_id'', ''signal_type'', ''body_hash'', ''status'',
        ''received_at''}),
     (U ''workflow_events'', U ` {''event_id'', ''process_id'', ''step_instance_id'', ''event_type'', ''occurred_at''}),
     (U ''external_requests'', U ` {''external_request_id'', ''operation_id'', ''state'', ''payload_hash'', ''created_at''}),
     (U ''receipts'', U ` {''message_id'', ''external_request_id'', ''message_version'', ''outcome'',
        ''signature_valid'', ''body_hash'', ''received_at'', ''applied_at''}),
     (U ''outbox'', U ` {''outbox_id'', ''external_request_id'', ''state'', ''attempt_count'',
        ''next_attempt_at'', ''last_error_code'', ''created_at'', ''delivered_at''}),
     (U ''inbox'', U ` {''message_id'', ''body_hash'', ''state'', ''received_at'', ''applied_at''}),
     (U ''decisions'', U ` {''decision_id'', ''process_id'', ''step_instance_id'', ''source'', ''principal'',
        ''reason_hash'', ''outcome'', ''rule_version'', ''created_at''})]"

definition UUID_COLUMNS :: "pystr set" where
  "UUID_COLUMNS =
     U ` {''attempt_id'', ''correlation_id'', ''decision_id'', ''event_id'', ''execution_id'',
        ''job_id'', ''operation_id'', ''outbox_id'', ''process_id'', ''step_instance_id''}"

definition TIMESTAMPTZ_COLUMNS :: "pystr set" where
  "TIMESTAMPTZ_COLUMNS =
     U ` {''applied_at'', ''completed_at'', ''created_at'', ''delivered_at'', ''entered_at'',
        ''finished_at'', ''generated_at'', ''lease_until'', ''next_attempt_at'',
        ''occurred_at'', ''published_at'', ''received_at'', ''started_at'', ''updated_at''}"

definition INTEGER_COLUMNS :: "pystr set" where
  "INTEGER_COLUMNS =
     U ` {''attempt_count'', ''attempt_number'', ''flow_version'', ''message_version'',
        ''version''}"

definition BIGINT_COLUMNS :: "pystr set" where
  "BIGINT_COLUMNS =
     U ` {''lease_version''}"

definition BOOLEAN_COLUMNS :: "pystr set" where
  "BOOLEAN_COLUMNS =
     U ` {''enabled'', ''is_active'', ''is_default'', ''signature_valid''}"

definition JSONB_COLUMNS :: "pystr set" where
  "JSONB_COLUMNS =
     U ` {''outcomes''}"

definition NUMERIC_COLUMNS :: "pystr set" where
  "NUMERIC_COLUMNS =
     U ` {''amount''}"

definition FIXTURE_FILES :: "pystr set" where
  "FIXTURE_FILES =
     U ` {''providerRequest'', ''adapterRequest'', ''reviewAutoRequest'', ''reviewManualRequest''}"

definition expected_column_type :: "pystr \<Rightarrow> pystr" where
  "expected_column_type column =
     (if column \<in> UUID_COLUMNS then U ''uuid''
      else if column \<in> TIMESTAMPTZ_COLUMNS then U ''timestamp with time zone''
      else if column \<in> INTEGER_COLUMNS then U ''integer''
      else if column \<in> BIGINT_COLUMNS then U ''bigint''
      else if column \<in> BOOLEAN_COLUMNS then U ''boolean''
      else if column \<in> JSONB_COLUMNS then U ''jsonb''
      else if column \<in> NUMERIC_COLUMNS then U ''numeric''
      else U ''text'')"

lemma same_column_type: "c \<noteq> U ''dead_at'' \<Longrightarrow> expected_column_type c = Week4_Constants.expected_column_type c"
proof -
  have "Week4_Constants.TIMESTAMPTZ_COLUMNS = insert (U ''dead_at'') TIMESTAMPTZ_COLUMNS" by code_simp
  moreover have "UUID_COLUMNS = Week4_Constants.UUID_COLUMNS" "INTEGER_COLUMNS = Week4_Constants.INTEGER_COLUMNS"
    "BIGINT_COLUMNS = Week4_Constants.BIGINT_COLUMNS" "BOOLEAN_COLUMNS = Week4_Constants.BOOLEAN_COLUMNS"
    "JSONB_COLUMNS = Week4_Constants.JSONB_COLUMNS" "NUMERIC_COLUMNS = Week4_Constants.NUMERIC_COLUMNS"
    by code_simp+
  moreover assume "c \<noteq> U ''dead_at''"
  ultimately show ?thesis by (auto simp: expected_column_type_def Week4_Constants.expected_column_type_def)
qed

text \<open>
  Week 4 extends the database contract of week 3: no view and no column disappears, and every column
  of week 3 keeps its type.
\<close>

theorem week4_extends_week3_views:
  "REQUIRED_VIEWS = Week4_Constants.REQUIRED_VIEWS \<and> REQUIRED_SERVICES \<subseteq> Week4_Constants.REQUIRED_SERVICES \<and>
   list_all (\<lambda>(view, columns). \<exists>columns'. map_of Week4_Constants.REQUIRED_VIEW_COLUMNS view = Some columns' \<and> columns \<subseteq> columns')
     REQUIRED_VIEW_COLUMNS \<and>
   list_all (\<lambda>(view, columns). Set.filter (\<lambda>c. expected_column_type c \<noteq> Week4_Constants.expected_column_type c) columns = {})
     REQUIRED_VIEW_COLUMNS"
proof -
  have "list_all (\<lambda>(view, columns). case map_of Week4_Constants.REQUIRED_VIEW_COLUMNS view of
      None \<Rightarrow> False | Some columns' \<Rightarrow> columns \<subseteq> columns') REQUIRED_VIEW_COLUMNS" by code_simp
  then have "list_all (\<lambda>(view, columns). \<exists>columns'. map_of Week4_Constants.REQUIRED_VIEW_COLUMNS view = Some columns' \<and>
      columns \<subseteq> columns') REQUIRED_VIEW_COLUMNS"
    by (rule list.pred_mono_strong) (auto split: option.splits)
  moreover have "REQUIRED_VIEWS = Week4_Constants.REQUIRED_VIEWS" by code_simp
  moreover have "REQUIRED_SERVICES \<subseteq> Week4_Constants.REQUIRED_SERVICES" by code_simp
  moreover have "list_all (\<lambda>(view, columns). U ''dead_at'' \<notin> columns) REQUIRED_VIEW_COLUMNS" by code_simp
  then have "list_all (\<lambda>(view, columns). Set.filter (\<lambda>c. expected_column_type c \<noteq> Week4_Constants.expected_column_type c) columns = {})
     REQUIRED_VIEW_COLUMNS"
    by (rule list.pred_mono_strong) (auto, metis same_column_type)
  ultimately show ?thesis by blast
qed

end
