(* ===== verification/Week4_Receipt.thy ===== *)
theory Week4_Receipt
  imports Week4_Constants App_Receipt
begin

text \<open>
  The tokens and receipts of \<^verbatim>\<open>task/week4/autocheck/public_check.py\<close>: the bearer token the checker
  issues to itself and its reference implementation of the receipt codec. The clock reading of
  \<^verbatim>\<open>issue_token\<close> is its argument \<open>t\<close>.
\<close>

section \<open>Tokens\<close>

text \<open>\<^verbatim>\<open>json.dumps(..., separators=(",", ":"), sort_keys=True)\<close>\<close>

definition token_opts :: jopts where
  "token_opts = compact_sorted\<lparr>ensure_ascii := True\<rparr>"

definition token_header :: pystr where
  "token_header = base64url ([123, 34] @ U ''alg'' @ [34, 58, 34] @ U ''HS256'' @ [34, 44, 34] @ U ''typ'' @ [34, 58, 34] @
     U ''JWT'' @ [34, 125])"

definition token_claims :: "pystr \<Rightarrow> pystr \<Rightarrow> pystr list \<Rightarrow> pystr \<Rightarrow> pystr \<Rightarrow> int \<Rightarrow> pyval" where
  "token_claims subject consumer scopes issuer audience t = PDict [
     (U ''iss'', PStr issuer), (U ''aud'', PStr audience), (U ''sub'', PStr subject),
     (U ''consumer'', PStr consumer), (U ''scope'', PStr (join_str (U '' '') scopes)),
     (U ''iat'', PInt (t - 5)), (U ''exp'', PInt (t + 3600))]"

text \<open>The \<^verbatim>\<open>encode("ascii")\<close> of the signing input cannot fail: base64 text is ASCII.\<close>

definition issue_token ::
  "pystr \<Rightarrow> pystr \<Rightarrow> pystr \<Rightarrow> pystr list \<Rightarrow> pystr \<Rightarrow> pystr \<Rightarrow> int \<Rightarrow> pystr res" where
  "issue_token secret subject consumer scopes issuer audience t =
     res_bind (dumps token_opts (token_claims subject consumer scopes issuer audience t)) (\<lambda>claims.
     res_bind (utf8_encode claims) (\<lambda>raw.
     res_bind (utf8_encode secret) (\<lambda>key.
       let signing_input = token_header @ U ''.'' @ base64url raw
       in Inr (signing_input @ U ''.'' @ base64url (hmac_sha256 key signing_input)))))"

section \<open>Receipts\<close>

definition LEGACY_FIELDS :: "pystr set" where
  "LEGACY_FIELDS = U ` {''providerPaymentId'', ''operationId'', ''result'', ''message'', ''occurredAt''}"

definition check_text :: "pydict \<Rightarrow> pystr \<Rightarrow> unit res" where
  "check_text legacy field = res_bind (ditem legacy field) (\<lambda>value.
     ensure (case value of PStr s \<Rightarrow> s \<noteq> [] \<and> length s \<le> 128 \<and> \<not> has_crlf s | _ \<Rightarrow> False)
       (ValueError (U ''invalid legacy '' @ field)))"

text \<open>\<^verbatim>\<open>x not in {...}\<close>: a set refuses a value that cannot be hashed.\<close>

definition check_result :: "pyval \<Rightarrow> unit res" where
  "check_result v = res_bind (py_contains v (PSet [PStr (U ''COMPLETED''), PStr (U ''REJECTED'')])) (\<lambda>b.
     ensure b (ValueError (U ''invalid legacy result'')))"

definition check_message :: "pyval \<Rightarrow> unit res" where
  "check_message v = ensure (case v of PStr s \<Rightarrow> length s \<le> 500 \<and> \<not> has_crlf s | _ \<Rightarrow> False)
     (ValueError (U ''invalid legacy message''))"

definition normalized_receipt :: "pydict \<Rightarrow> pyval res" where
  "normalized_receipt legacy =
     res_bind (ensure (dkeys legacy = LEGACY_FIELDS)
       (ValueError (U ''legacy callback fields do not match provider v0.2.0''))) (\<lambda>_.
     res_bind (for_each (check_text legacy) (map U [''providerPaymentId'', ''operationId'', ''occurredAt''])) (\<lambda>_.
     res_bind (ditem legacy (U ''result'')) (\<lambda>result.
     res_bind (check_result result) (\<lambda>_.
     res_bind (ditem legacy (U ''message'')) (\<lambda>message.
     res_bind (check_message message) (\<lambda>_.
     res_bind (ditem legacy (U ''operationId'')) (\<lambda>op.
     res_bind (ditem legacy (U ''providerPaymentId'')) (\<lambda>pid.
     res_bind (ditem legacy (U ''occurredAt'')) (\<lambda>occ.
       Inr (PDict [(U ''externalRequestId'', op), (U ''messageId'', pid), (U ''occurredAt'', occ),
         (U ''outcome'', result), (U ''providerPaymentId'', pid), (U ''version'', PInt 1)]))))))))))"

definition receipt_bytes :: "pyval \<Rightarrow> pybytes res" where
  "receipt_bytes receipt = res_bind (dumps compact_sorted receipt) utf8_encode"

definition receipt_signature :: "pystr \<Rightarrow> pybytes \<Rightarrow> pystr res" where
  "receipt_signature secret body =
     res_bind (utf8_encode secret) (\<lambda>key. Inr (U ''v1='' @ hexdigest (hmac_sha256 key body)))"

definition same_action_result :: "pyval \<Rightarrow> pyval \<Rightarrow> bool" where
  "same_action_result first second =
     (let fields = map U [''status'', ''outcome'', ''result''] in
      case (first, second) of
        (PDict a, PDict b) \<Rightarrow>
          list_all (\<lambda>f. f \<in> dkeys a \<and> f \<in> dkeys b) fields \<and>
          list_all (\<lambda>f. py_eq (dget_none a f) (dget_none b f)) fields
      | _ \<Rightarrow> False)"

section \<open>Facts\<close>

lemma split_ch_append: "sep \<notin> set a \<Longrightarrow> split_ch sep (a @ sep # b) = a # split_ch sep b"
  by (induction a) auto

lemma check_text_ok: "check_text d f = Inr () \<longleftrightarrow> (\<exists>s. map_of d f = Some (PStr s) \<and> text_ok s)"
  by (auto simp: check_text_def ditem_def text_ok_def split: option.splits pyval.splits)

lemma check_result_ok: "check_result v = Inr () \<longleftrightarrow> v \<in> {PStr (U ''COMPLETED''), PStr (U ''REJECTED'')}"
  by (cases v) (auto simp: check_result_def py_in_def)

lemma check_message_ok: "check_message v = Inr () \<longleftrightarrow> valid_message v"
  by (simp add: check_message_def valid_message_def)

lemma normalized_receipt_iff:
  "normalized_receipt d = Inr r \<longleftrightarrow> dkeys d = LEGACY_FIELDS \<and> (\<exists>op pid occ result message.
     map_of d (U ''operationId'') = Some (PStr op) \<and> map_of d (U ''providerPaymentId'') = Some (PStr pid) \<and>
     map_of d (U ''occurredAt'') = Some (PStr occ) \<and> map_of d (U ''result'') = Some (PStr result) \<and>
     map_of d (U ''message'') = Some message \<and> text_ok op \<and> text_ok pid \<and> text_ok occ \<and>
     result \<in> {U ''COMPLETED'', U ''REJECTED''} \<and> valid_message message \<and> r = receipt_of op pid occ result)"
  (is "?l \<longleftrightarrow> ?r")
proof
  assume ?l
  then have k: "dkeys d = LEGACY_FIELDS"
    and tx: "\<forall>f\<in>set (map U [''providerPaymentId'', ''operationId'', ''occurredAt'']). check_text d f = Inr ()"
    by (auto simp: normalized_receipt_def)
  from tx obtain op pid occ where f: "map_of d (U ''operationId'') = Some (PStr op)" "text_ok op"
    "map_of d (U ''providerPaymentId'') = Some (PStr pid)" "text_ok pid"
    "map_of d (U ''occurredAt'') = Some (PStr occ)" "text_ok occ" by (auto simp: check_text_ok)
  from \<open>?l\<close> obtain rv mv where v: "map_of d (U ''result'') = Some rv" "check_result rv = Inr ()"
    "map_of d (U ''message'') = Some mv" "check_message mv = Inr ()"
    by (auto simp: normalized_receipt_def ditem_def split: option.splits)
  with \<open>?l\<close> k f show ?r
    by (auto simp: normalized_receipt_def ditem_def check_result_ok check_message_ok receipt_of_def)
next
  assume ?r
  then show ?l by (auto simp: normalized_receipt_def ditem_def check_text_ok check_result_ok check_message_ok receipt_of_def)
qed

lemma normalize_receipt_iff:
  "normalize_receipt (PDict d) = Inr r \<longleftrightarrow> normalized_receipt d = Inr r \<and>
     (\<exists>occ. map_of d (U ''occurredAt'') = Some (PStr occ) \<and> validate_occurred_at occ = Inr ())"
  (is "?l \<longleftrightarrow> ?r")
proof
  assume l: ?l
  then have "validate_legacy (PDict d) = Inr ()" by (auto simp: normalize_receipt_def)
  then have "dkeys d = LEGACY_FIELDS" "valid_message (dget_none d (U ''message''))"
    by (auto simp: validate_legacy_def LEGACY_FIELDS_def REQUIRED_LEGACY_FIELDS_def split: if_splits)
  moreover from this have "\<exists>m. map_of d (U ''message'') = Some m \<and> valid_message m"
    by (cases "map_of d (U ''message'')") (auto simp: dget_def_def valid_message_def)
  ultimately show ?r using l by (auto elim!: normalize_receipt_cases simp: normalized_receipt_iff)
next
  assume ?r
  then show ?l unfolding normalized_receipt_iff
    by (auto simp: normalize_receipt_def validate_legacy_def LEGACY_FIELDS_def REQUIRED_LEGACY_FIELDS_def
        TEXT_FIELDS_def dget_def_def valid_text_iff ditem_def receipt_of_def py_in_def)
qed

definition normalized_value :: "pyval \<Rightarrow> pyval res" where
  "normalized_value v = (case v of PDict d \<Rightarrow> normalized_receipt d | _ \<Rightarrow> Inl TypeError)"

interpretation week4: receipt_codec normalized_value receipt_bytes receipt_signature
proof
  fix v r
  assume "normalized_value v = Inr r"
  then show "\<exists>op pid occ result. r = receipt_of op pid occ result \<and> result \<in> {U ''COMPLETED'', U ''REJECTED''}"
    by (cases v) (auto simp: normalized_value_def normalized_receipt_iff)
qed (simp_all add: receipt_bytes_def receipt_signature_def)

lemma encodable_join: "encodable sep \<Longrightarrow> (\<And>p. p \<in> set ps \<Longrightarrow> encodable p) \<Longrightarrow> encodable (join_str sep ps)"
  by (induction sep ps rule: join_str.induct) auto

lemma encodable_ascii: "c < 128 \<Longrightarrow> encodable [c]"
  by (simp add: is_surrogate_def)

lemma esc_u_encodable: "encodable (esc_u n)"
proof -
  have h: "hex_digit (m mod 16) < 1114112 \<and> \<not> is_surrogate (hex_digit (m mod 16))" for m
  proof -
    have "m mod 16 < 16" by simp
    then have "hex_digit (m mod 16) < 128" by (auto simp: hex_digit_def)
    then show ?thesis unfolding is_surrogate_def by linarith
  qed
  have a: "\<not> is_surrogate 92" "\<not> is_surrogate 117" by (simp_all add: is_surrogate_def)
  show ?thesis by (simp add: esc_u_def hex4_def h a)
qed

lemma json_char_ascii: "encodable (json_char True c)"
proof -
  have "encodable [92, c]" if "c = 34 \<or> c = 92" using that by (auto simp: is_surrogate_def)
  moreover have "encodable [c]" if "\<not> 126 < c" using that by (intro encodable_ascii) simp
  ultimately show ?thesis by (simp add: json_char_def esc_u_encodable Let_def is_surrogate_def del: encodable_Cons)
      (simp add: is_surrogate_def)
qed

lemma json_str_ascii: "encodable (json_str True s)"
proof -
  have "encodable (concat (map (json_char True) s))" by (induction s) (auto simp: json_char_ascii)
  then show ?thesis by (simp add: json_str_def is_surrogate_def)
qed

lemma str_of_int_encodable: "encodable (str_of_int i)"
proof -
  have "encodable (str_of_nat n)" for n
    using str_of_nat_digits [of _ n] by (fastforce simp: encodable_def list_all_iff is_dig_def is_surrogate_def)
  then show ?thesis by (simp add: str_of_int_def is_surrogate_def)
qed

lemma dumps_token_ascii:
  assumes "\<forall>kv\<in>set d. (\<exists>s. snd kv = PStr s) \<or> (\<exists>i. snd kv = PInt i)"
  shows "\<exists>tx. dumps token_opts (PDict d) = Inr tx \<and> encodable tx"
proof -
  have "\<exists>kts. res_map (\<lambda>(k, v). res_bind (dumps token_opts v) (\<lambda>t. Inr (k, t))) d = Inr kts \<and>
      (\<forall>kt\<in>set kts. encodable (snd kt))"
    using assms by (induction d) (auto simp: token_opts_def compact_sorted_def compact_def json_str_ascii str_of_int_encodable)
  then obtain kts where k: "res_map (\<lambda>(k, v). res_bind (dumps token_opts v) (\<lambda>t. Inr (k, t))) d = Inr kts"
    "\<forall>kt\<in>set kts. encodable (snd kt)" by blast
  have "encodable (join_str (item_sep token_opts) (map (\<lambda>(k, t). json_str True k @ key_sep token_opts @ t) (sort_key fst kts)))"
    using k(2) by (intro encodable_join)
      (auto simp: token_opts_def compact_sorted_def compact_def json_str_ascii encodable_U)
  with k show ?thesis by (auto simp: encodable_U token_opts_def compact_sorted_def compact_def)
qed

lemma token_claims_raw:
  "\<exists>raw. res_bind (dumps token_opts (token_claims subject consumer scopes issuer audience t)) utf8_encode = Inr raw"
proof -
  obtain tx where "dumps token_opts (token_claims subject consumer scopes issuer audience t) = Inr tx" "encodable tx"
    using dumps_token_ascii [of "case token_claims subject consumer scopes issuer audience t of PDict d \<Rightarrow> d | _ \<Rightarrow> []"]
    by (auto simp: token_claims_def simp del: dumps.simps)
  with utf8_encode_cases [of tx] show ?thesis by auto
qed

lemma utf8_raw_bytes: "res_bind r utf8_encode = Inr raw \<Longrightarrow> b \<in> set raw \<Longrightarrow> b < 256"
  by (cases r) (auto dest: utf8_encode_bytes)

lemma no_dot: "(\<And>b. b \<in> set bs \<Longrightarrow> b < 256) \<Longrightarrow> 46 \<notin> set (base64url bs)"
  using base64url_chars by blast

lemma token_header_no_dot: "46 \<notin> set token_header"
  by code_simp

section \<open>Properties\<close>

text \<open>A callback whose time is a word; only the adapter looks at its form.\<close>

definition undated_callback :: pydict where
  "undated_callback = [(U ''providerPaymentId'', PStr (U ''provider-123'')), (U ''operationId'', PStr (U ''external-123'')),
     (U ''result'', PStr (U ''COMPLETED'')), (U ''message'', PStr (U ''ok'')), (U ''occurredAt'', PStr (U ''yesterday''))]"

lemma undated_judged_differently: "isl (normalize_receipt (PDict undated_callback)) \<and> \<not> isl (normalized_receipt undated_callback)"
  by code_simp

text \<open>
  C39. The checker's receipt codec accepts what the adapter accepts, and more: whatever the adapter turns into a receipt,
  its bytes and their signature, the checker turns into the same receipt, bytes and signature; and the checker's result is
  the adapter's exactly when \<^verbatim>\<open>occurredAt\<close> is a time in the adapter's format. So the only callbacks that the two judge
  differently are those with another text as \<^verbatim>\<open>occurredAt\<close>, which the checker accepts and the adapter refuses; such
  callbacks exist.
\<close>

theorem checker_codec_extends_adapter:
  "(res_bind (normalize_receipt (PDict d)) (\<lambda>r. res_bind (canonical_bytes r) (\<lambda>body.
      res_bind (sign secret body) (\<lambda>signature. Inr (r, body, signature)))) = Inr message \<longleftrightarrow>
    res_bind (normalized_receipt d) (\<lambda>r. res_bind (receipt_bytes r) (\<lambda>body.
      res_bind (receipt_signature secret body) (\<lambda>signature. Inr (r, body, signature)))) = Inr message \<and>
    (\<exists>occ. map_of d (U ''occurredAt'') = Some (PStr occ) \<and> validate_occurred_at occ = Inr ())) \<and>
   isl (normalize_receipt (PDict undated_callback)) \<and> \<not> isl (normalized_receipt undated_callback)"
proof -
  have same: "receipt_bytes = canonical_bytes" "receipt_signature = sign"
    by (intro ext; simp add: receipt_bytes_def canonical_bytes_def receipt_signature_def sign_def)+
  have "res_bind a f = Inr m \<longleftrightarrow> res_bind b f = Inr m \<and> P" if "\<And>r. a = Inr r \<longleftrightarrow> b = Inr r \<and> P"
    for a b :: "pyval res" and f :: "pyval \<Rightarrow> (pyval \<times> pybytes \<times> pystr) res" and m P
    unfolding res_bind_eq_Inr using that by blast
  from this [OF normalize_receipt_iff] show ?thesis unfolding same using undated_judged_differently by blast
qed

text \<open>
  A token is three dot-separated parts without padding: splitting it at the dots gives the
  header, the encoded claims and the encoded HMAC-SHA-256 of what precedes the last dot; issuing
  fails only when the secret cannot be encoded, never for the claims.
\<close>

theorem issue_token_parts:
  "case issue_token secret subject consumer scopes issuer audience t of
     Inl e \<Rightarrow> e = UnicodeEncodeError \<and> \<not> encodable secret
   | Inr tok \<Rightarrow> \<exists>key raw. utf8_encode secret = Inr key \<and>
       res_bind (dumps token_opts (token_claims subject consumer scopes issuer audience t)) utf8_encode = Inr raw \<and>
       split_ch 46 tok = [token_header, base64url raw,
         base64url (hmac_sha256 key (token_header @ U ''.'' @ base64url raw))]"
proof (cases "utf8_encode secret")
  case (Inl e)
  then have "\<not> encodable secret" "e = UnicodeEncodeError" 
    using utf8_encode_cases [of secret] by (metis Inl_Inr_False, metis Inl_Inr_False Inl_inject)
  moreover obtain raw where "res_bind (dumps token_opts (token_claims subject consumer scopes issuer audience t)) utf8_encode = Inr raw"
    using token_claims_raw by blast
  ultimately show ?thesis using Inl by (auto simp: issue_token_def)
next
  case (Inr key)
  obtain raw where raw: "res_bind (dumps token_opts (token_claims subject consumer scopes issuer audience t)) utf8_encode = Inr raw"
    using token_claims_raw by blast
  let ?si = "token_header @ U ''.'' @ base64url raw"
  have "issue_token secret subject consumer scopes issuer audience t = Inr (?si @ U ''.'' @ base64url (hmac_sha256 key ?si))"
    using Inr raw by (auto simp: issue_token_def Let_def)
  moreover have "split_ch 46 (?si @ U ''.'' @ base64url (hmac_sha256 key ?si)) =
      [token_header, base64url raw, base64url (hmac_sha256 key ?si)]"
    using no_dot [of raw] no_dot [of "hmac_sha256 key ?si"] token_header_no_dot utf8_raw_bytes [OF raw] hmac_sha256_bytes
    by (simp add: U_def split_ch_append split_ch_none)
  ultimately show ?thesis using Inr raw by auto
qed

end
