(* ===== verification/Week4_Report.thy ===== *)
theory Week4_Report
  imports Week4_Constants
begin

text \<open>
  Results, redaction and the report of \<^verbatim>\<open>task/week4/autocheck/public_check.py\<close>.
\<close>

section \<open>Results of commands and requests\<close>

record CommandResult =
  command :: "pystr list"
  returncode :: int
  stdout :: pystr
  stderr :: pystr
  timed_out :: bool

definition cmd_ok :: "CommandResult \<Rightarrow> bool" where
  "cmd_ok r = (returncode r = 0 \<and> \<not> timed_out r)"

record HttpResult =
  hr_status :: int
  hr_body :: pybytes
  hr_headers :: "(pystr \<times> pystr) list"

definition hr_json :: "nat \<Rightarrow> HttpResult \<Rightarrow> pydict option res" where
  "hr_json depth r = (case loads_bytes depth (hr_body r) of
     Inl e \<Rightarrow> if e = UnicodeDecodeError \<or> e = JSONDecodeError then Inr None else Inl e
   | Inr (PDict d) \<Rightarrow> Inr (Some d)
   | Inr _ \<Rightarrow> Inr None)"

section \<open>Redaction\<close>

definition SECRET_KEY :: regex where
  "SECRET_KEY = RSeq (ralts (map rstr_ci [''authorization'', ''password'', ''secret'', ''token'', ''signature'',
     ''capability'', ''payload'', ''body''])) REnd"

definition redacted :: pyval where
  "redacted = PStr (U ''[redacted]'')"

definition redact_text :: "pystr list \<Rightarrow> pystr \<Rightarrow> pystr" where
  "redact_text sensitive s =
     take 2000 (foldl (\<lambda>t secret. if secret = [] then t else replace_str secret (U ''[redacted]'') t) s sensitive)"

text \<open>\<^verbatim>\<open>sorted(..., key=lambda item: json.dumps(item, ensure_ascii=False, sort_keys=True))\<close>\<close>

definition sort_items :: "pyval list \<Rightarrow> pyval list res" where
  "sort_items xs = res_bind (res_map (\<lambda>x. res_bind (dumps (spaced\<lparr>sort_keys := True\<rparr>) x) (\<lambda>k. Inr (k, x))) xs)
     (\<lambda>kxs. Inr (map snd (sort_key fst kxs)))"

fun redact :: "pystr list \<Rightarrow> nat \<Rightarrow> pyval \<Rightarrow> pyval res" where
  "redact sensitive depth (PDict d) =
     (if 12 < depth then Inr (PStr (U ''[depth-limit]''))
      else res_bind (res_map (\<lambda>(k, x).
          if search_ok SECRET_KEY k then Inr (k, redacted)
          else res_bind (redact sensitive (depth + 1) x) (\<lambda>y. Inr (k, y))) d) (\<lambda>kvs. Inr (PDict kvs)))"
| "redact sensitive depth (PList xs) =
     (if 12 < depth then Inr (PStr (U ''[depth-limit]''))
      else res_bind (res_map (redact sensitive (depth + 1)) xs) (\<lambda>ys. Inr (PList ys)))"
| "redact sensitive depth (PTuple xs) =
     (if 12 < depth then Inr (PStr (U ''[depth-limit]''))
      else res_bind (res_map (redact sensitive (depth + 1)) xs) (\<lambda>ys. Inr (PList ys)))"
| "redact sensitive depth (PSet xs) =
     (if 12 < depth then Inr (PStr (U ''[depth-limit]''))
      else res_bind (res_map (redact sensitive (depth + 1)) xs) (\<lambda>ys.
           res_bind (sort_items ys) (\<lambda>zs. Inr (PList zs))))"
| "redact sensitive depth (PStr s) =
     (if 12 < depth then Inr (PStr (U ''[depth-limit]'')) else Inr (PStr (redact_text sensitive s)))"
| "redact sensitive depth v = (if 12 < depth then Inr (PStr (U ''[depth-limit]'')) else Inr v)"

section \<open>The report\<close>

definition FORBIDDEN_KEY :: regex where
  "FORBIDDEN_KEY = ralts (map rstr_ci [''score'', ''earned'', ''points'', ''criterion'', ''hmac'', ''secret'', ''token'',
     ''signature'', ''capability'', ''payload'', ''body''])"

fun report_has_forbidden_keys :: "pyval \<Rightarrow> bool" where
  "report_has_forbidden_keys (PDict d) =
     list_ex (\<lambda>(k, x). search_ok FORBIDDEN_KEY k \<or> report_has_forbidden_keys x) d"
| "report_has_forbidden_keys (PList xs) = list_ex report_has_forbidden_keys xs"
| "report_has_forbidden_keys _ = False"

text \<open>\<^verbatim>\<open>[item["name"] for item in checks if item.get("status") == "failed"]\<close>\<close>

definition failed_checks :: "pydict list \<Rightarrow> pyval list res" where
  "failed_checks checks =
     res_map (\<lambda>item. ditem item (U ''name''))
       (filter (\<lambda>item. py_eq (dget_none item (U ''status'')) (PStr (U ''failed''))) checks)"

definition build_report :: "pystr \<Rightarrow> pystr \<Rightarrow> pystr \<Rightarrow> pydict list \<Rightarrow> pydict list \<Rightarrow> pyval res" where
  "build_report started_at finished_at st checks commands =
     res_bind (failed_checks checks) (\<lambda>failed. Inr (PDict [
       (U ''manifestVersion'', PStr MANIFEST_VERSION),
       (U ''toolVersion'', PStr TOOL_VERSION),
       (U ''timestamps'', PDict [(U ''startedAt'', PStr started_at), (U ''finishedAt'', PStr finished_at)]),
       (U ''status'', PStr st),
       (U ''checks'', PList (map PDict checks)),
       (U ''failedChecks'', PList failed),
       (U ''commands'', PList (map PDict commands))]))"

section \<open>Properties\<close>

text \<open>What redaction leaves: no value under a secret key, short texts, bounded nesting, no sets.\<close>

fun safe_value :: "nat \<Rightarrow> pyval \<Rightarrow> bool" where
  "safe_value n (PDict d) =
     (n \<noteq> 0 \<and> list_all (\<lambda>(k, x). if search_ok SECRET_KEY k then x = redacted else safe_value (n - 1) x) d)"
| "safe_value n (PList xs) = (n \<noteq> 0 \<and> list_all (safe_value (n - 1)) xs)"
| "safe_value n (PTuple xs) = False"
| "safe_value n (PSet xs) = False"
| "safe_value n (PStr s) = (length s \<le> 2000)"
| "safe_value n _ = True"

lemma sort_items_set: "sort_items xs = Inr ys \<Longrightarrow> set ys = set xs"
proof -
  assume "sort_items xs = Inr ys"
  then obtain kxs where k: "res_map (\<lambda>x. res_bind (dumps (spaced\<lparr>sort_keys := True\<rparr>) x) (\<lambda>k. Inr (k, x))) xs = Inr kxs"
    "ys = map snd (sort_key fst kxs)" by (auto simp: sort_items_def)
  then have "map snd kxs = xs" by (induction xs arbitrary: kxs ys) auto
  with k(2) show ?thesis by (metis list.set_map set_sort)
qed

lemma redact_safe: "redact sensitive depth v = Inr w \<Longrightarrow> depth \<le> 13 \<Longrightarrow> safe_value (13 - depth) w"
proof (induction sensitive depth v arbitrary: w rule: redact.induct)
  case (1 sensitive depth d)
  show ?case
  proof (cases "12 < depth")
    case False
    with "1.prems" obtain kvs where k: "w = PDict kvs"
      "res_map (\<lambda>(k, x). if search_ok SECRET_KEY k then Inr (k, redacted)
          else res_bind (redact sensitive (depth + 1) x) (\<lambda>y. Inr (k, y))) d = Inr kvs" by auto
    have "list_all (\<lambda>(k, x). if search_ok SECRET_KEY k then x = redacted else safe_value (12 - depth) x) kvs"
    proof (rule res_map_list_all [OF k(2)])
      fix kx ky
      assume "kx \<in> set d" and e: "(case kx of (k, x) \<Rightarrow> if search_ok SECRET_KEY k then Inr (k, redacted)
          else res_bind (redact sensitive (depth + 1) x) (\<lambda>y. Inr (k, y))) = Inr ky"
      obtain k x where kx: "kx = (k, x)" by force
      show "case ky of (k, x) \<Rightarrow> if search_ok SECRET_KEY k then x = redacted else safe_value (12 - depth) x"
      proof (cases "search_ok SECRET_KEY k")
        case True
        with e kx show ?thesis by auto
      next
        case sk: False
        with e kx obtain y where "redact sensitive (depth + 1) x = Inr y" "ky = (k, y)" by auto
        with "1.IH" [OF False \<open>kx \<in> set d\<close> kx [symmetric] sk] False sk show ?thesis by simp
      qed
    qed
    moreover have "13 - depth \<noteq> 0" "13 - depth - 1 = 12 - depth" using False by simp_all
    ultimately show ?thesis unfolding k(1) safe_value.simps by (simp only: simp_thms)
  qed (use "1.prems" in auto)
next
  case (2 sensitive depth xs)
  show ?case
  proof (cases "12 < depth")
    case False
    with 2 show ?thesis by (auto intro!: res_map_list_all)
  qed (use "2.prems" in auto)
next
  case (3 sensitive depth xs)
  show ?case
  proof (cases "12 < depth")
    case False
    with 3 show ?thesis by (auto intro!: res_map_list_all)
  qed (use "3.prems" in auto)
next
  case (4 sensitive depth xs)
  show ?case
  proof (cases "12 < depth")
    case False
    with "4.prems" obtain ys zs where y: "res_map (redact sensitive (depth + 1)) xs = Inr ys" "sort_items ys = Inr zs" "w = PList zs"
      by auto
    have "list_all (safe_value (12 - depth)) ys"
      by (rule res_map_list_all [OF y(1)]) (use "4.IH" False in auto)
    with sort_items_set [OF y(2)] y(3) False show ?thesis by (simp add: list_all_iff)
  qed (use "4.prems" in auto)
qed (auto simp: redact_text_def split: if_splits)

lemma forbidden_Cons:
  "report_has_forbidden_keys (PDict ((k, x) # d)) \<longleftrightarrow>
     search_ok FORBIDDEN_KEY k \<or> report_has_forbidden_keys x \<or> report_has_forbidden_keys (PDict d)"
  by simp

lemma forbidden_Nil: "\<not> report_has_forbidden_keys (PDict [])"
  by simp

lemma report_keys_allowed:
  "\<not> search_ok FORBIDDEN_KEY (U ''manifestVersion'')" "\<not> search_ok FORBIDDEN_KEY (U ''toolVersion'')"
  "\<not> search_ok FORBIDDEN_KEY (U ''timestamps'')" "\<not> search_ok FORBIDDEN_KEY (U ''startedAt'')"
  "\<not> search_ok FORBIDDEN_KEY (U ''finishedAt'')" "\<not> search_ok FORBIDDEN_KEY (U ''status'')"
  "\<not> search_ok FORBIDDEN_KEY (U ''checks'')" "\<not> search_ok FORBIDDEN_KEY (U ''failedChecks'')"
  "\<not> search_ok FORBIDDEN_KEY (U ''commands'')"
  by code_simp+

text \<open>
  C38. What reaches the report is redacted: in the result of \<^verbatim>\<open>_redact\<close>, at every depth, the value
  under a key that names a secret is the marker, every text has at most 2000 characters, and
  the nesting is at most 13 levels.
\<close>

theorem redact_leaves_no_secret_values:
  assumes "redact sensitive 0 v = Inr w"
  shows "safe_value 13 w"
  using redact_safe [OF assms] by simp

theorem redact_leaves_no_secret_values_witness:
  "\<exists>w. redact [U ''s3cret''] 0 (PDict [(U ''Access_Token'', PStr (U ''abc'')), (U ''log'', PStr (U ''key=s3cret;''))]) = Inr w \<and>
     w = PDict [(U ''Access_Token'', redacted), (U ''log'', PStr (U ''key=[redacted];''))] \<and> safe_value 13 w"
proof -
  have e: "redact [U ''s3cret''] 0 (PDict [(U ''Access_Token'', PStr (U ''abc'')), (U ''log'', PStr (U ''key=s3cret;''))]) =
      Inr (PDict [(U ''Access_Token'', redacted), (U ''log'', PStr (U ''key=[redacted];''))])" by code_simp
  from redact_leaves_no_secret_values [OF e] e show ?thesis by blast
qed

text \<open>
  The report's own keys are never the forbidden ones: a built report has a forbidden key exactly
  when one of the check or command records has one; building fails only when a failed check has
  no name.
\<close>

theorem build_report_forbidden_keys:
  "case build_report started_at finished_at st checks commands of
     Inl e \<Rightarrow> e = KeyError (U ''name'')
   | Inr report \<Rightarrow> report_has_forbidden_keys report \<longleftrightarrow>
       list_ex (\<lambda>d. report_has_forbidden_keys (PDict d)) (checks @ commands)"
proof (cases "failed_checks checks")
  case (Inl e)
  then have "e = KeyError (U ''name'')" by (auto simp: failed_checks_def ditem_def dest!: res_map_Inl split: option.splits)
  with Inl show ?thesis by (simp add: build_report_def)
next
  case (Inr failed)
  have "list_all (\<lambda>v. \<exists>d k. d \<in> set checks \<and> map_of d k = Some v) failed"
    by (rule res_map_list_all [OF Inr [unfolded failed_checks_def]]) (auto simp: ditem_def split: option.splits)
  then have "list_ex report_has_forbidden_keys failed \<Longrightarrow> list_ex (\<lambda>d. report_has_forbidden_keys (PDict d)) checks"
    by (fastforce simp: list_all_iff list_ex_iff dest: map_of_SomeD)
  moreover have "list_ex report_has_forbidden_keys (map PDict ds) \<longleftrightarrow> list_ex (\<lambda>d. report_has_forbidden_keys (PDict d)) ds" for ds
    by (simp add: list_ex_iff del: report_has_forbidden_keys.simps)
  ultimately show ?thesis using Inr
    by (simp add: build_report_def forbidden_Cons forbidden_Nil report_keys_allowed del: report_has_forbidden_keys.simps(1))
      blast
qed

end
