(* ===== verification/Week3_Checker.thy ===== *)
theory Week3_Checker
  imports Week3_Constants Week4_Receipt Week4_Report Week4_Isolation Week4_Fixture
begin

text \<open>
  The pure part of \<^verbatim>\<open>task/week3/autocheck/public_check.py\<close>. Most functions have the same text as in
  week 4 (up to the tables they read); those that use no table of their own are the functions of week 4
  under the name they have here, the others are written out.
\<close>

section \<open>Functions with the text of week 4\<close>

definition cmd_ok :: "CommandResult \<Rightarrow> bool" where
  "cmd_ok = Week4_Report.cmd_ok"

definition hr_json :: "nat \<Rightarrow> HttpResult \<Rightarrow> pydict option res" where
  "hr_json = Week4_Report.hr_json"

definition SECRET_KEY :: regex where
  "SECRET_KEY = Week4_Report.SECRET_KEY"

definition issue_token :: "pystr \<Rightarrow> pystr \<Rightarrow> pystr \<Rightarrow> pystr list \<Rightarrow> pystr \<Rightarrow> pystr \<Rightarrow> int \<Rightarrow> pystr res" where
  "issue_token = Week4_Receipt.issue_token"

definition normalized_receipt :: "pydict \<Rightarrow> pyval res" where
  "normalized_receipt = Week4_Receipt.normalized_receipt"

definition receipt_bytes :: "pyval \<Rightarrow> pybytes res" where
  "receipt_bytes = Week4_Receipt.receipt_bytes"

definition receipt_signature :: "pystr \<Rightarrow> pybytes \<Rightarrow> pystr res" where
  "receipt_signature = Week4_Receipt.receipt_signature"

definition same_action_result :: "pyval \<Rightarrow> pyval \<Rightarrow> bool" where
  "same_action_result = Week4_Receipt.same_action_result"

definition redact :: "pystr list \<Rightarrow> nat \<Rightarrow> pyval \<Rightarrow> pyval res" where
  "redact = Week4_Report.redact"

definition report_has_forbidden_keys :: "pyval \<Rightarrow> bool" where
  "report_has_forbidden_keys = Week4_Report.report_has_forbidden_keys"

definition published_ports :: "pyval \<Rightarrow> int set res" where
  "published_ports = Week4_Services.published_ports"

definition target_ports :: "pyval \<Rightarrow> int set res" where
  "target_ports = Week4_Services.target_ports"

definition service_environment :: "pyval \<Rightarrow> senv" where
  "service_environment = Week4_Services.service_environment"

definition path_is_within :: "(pystr \<Rightarrow> pystr list res) \<Rightarrow> pyval \<Rightarrow> pystr \<Rightarrow> pystr \<Rightarrow> bool res" where
  "path_is_within = Week4_Services.path_is_within"

definition database_environment_entries :: "senv \<Rightarrow> senv" where
  "database_environment_entries = Week4_Services.database_environment_entries"

definition secret_distribution_findings :: "pydict \<Rightarrow> secrets \<Rightarrow> pystr list res" where
  "secret_distribution_findings = Week4_Compose.secret_distribution_findings"

section \<open>Functions over the tables of week 3\<close>

definition build_report :: "pystr \<Rightarrow> pystr \<Rightarrow> pystr \<Rightarrow> pydict list \<Rightarrow> pydict list \<Rightarrow> pyval res" where
  "build_report started_at finished_at st checks commands =
     res_bind (failed_checks checks) (\<lambda>failed. Inr (PDict [
       (U ''manifestVersion'', PStr MANIFEST_VERSION),
       (U ''toolVersion'', PStr TOOL_VERSION),
       (U ''timestamps'', PDict [(U ''startedAt'', PStr started_at), (U ''finishedAt'', PStr finished_at)]),
       (U ''status'', PStr st),
       (U ''checks'', PList (map PDict checks)),
       (U ''failedChecks'', PList failed),
       (U ''commands'', PList (map PDict commands))]))"

text \<open>The table \<^verbatim>\<open>FIXTURE_FILES\<close> is that of week 4.\<close>

definition canonical_fixture_digest :: "(pybytes \<Rightarrow> pybytes) \<Rightarrow> file_system \<Rightarrow> nat \<Rightarrow> pystr \<Rightarrow> pystr res" where
  "canonical_fixture_digest = Week4_Fixture.canonical_fixture_digest"

definition load_fixture :: "(pybytes \<Rightarrow> pybytes) \<Rightarrow> file_system \<Rightarrow> nat \<Rightarrow> pystr \<Rightarrow> pydict res" where
  "load_fixture hash fs depth root =
     res_bind (read_metadata fs depth root ''fixture metadata is unreadable'' ''fixture metadata must be an object'') (\<lambda>fixture.
     res_bind (ensure (dget_none fixture (U ''generatorVersion'') = PStr PUBLISHED_FIXTURE_GENERATOR)
       (FixtureError (U ''fixture generator version is not published''))) (\<lambda>_.
     res_bind (ensure (dget_none fixture (U ''contractVersion'') = PStr (U ''course-1''))
       (FixtureError (U ''fixture contract version is invalid''))) (\<lambda>_.
     res_bind (canonical_fixture_digest hash fs depth root) (\<lambda>actual.
     res_bind (ensure (dget_none fixture (U ''digest'') = PStr actual \<and> actual = PUBLISHED_FIXTURE_DIGEST)
       (FixtureError (U ''fixture digest does not match the published package''))) (\<lambda>_.
     res_bind (get_attr PNone (dget_def (PDict []) fixture (U ''provider'')) (U ''image'')) (\<lambda>image.
     res_bind (ensure (image = PStr PROVIDER_IMAGE) (FixtureError (U ''provider image is not the published digest''))) (\<lambda>_.
     res_bind (service_names (dget_def (PList []) fixture (U ''services''))) (\<lambda>names.
     res_bind (ensure (names = PStr ` REQUIRED_SERVICES) (FixtureError (U ''fixture service seam is invalid''))) (\<lambda>_.
     res_bind (file_values fixture) (\<lambda>values.
     res_bind (for_each (check_payload fs depth root) values) (\<lambda>_.
       Inr fixture)))))))))))"

definition provider_image_matches :: "pyval \<Rightarrow> bool" where
  "provider_image_matches value = (case value of
     PStr s \<Rightarrow>
       64 \<in> set s \<and>
       (let (reference, digest) = rsplit1 64 s;
            (expected_reference, expected_digest) = rsplit1 64 PROVIDER_IMAGE
        in image_repository reference = fst (rsplit1 58 expected_reference) \<and> digest = expected_digest)
   | _ \<Rightarrow> False)"

section \<open>Functions that week 4 changed\<close>

definition entry_principals :: "(pystr \<Rightarrow> bool) \<Rightarrow> pystr \<times> pystr \<Rightarrow> pystr set" where
  "entry_principals netloc_ok kv =
     (if search_ok USER_KEY (fst kv) \<and> snd kv \<noteq> [] then {snd kv} else {}) \<union> url_principal netloc_ok (snd kv)"

definition database_principals :: "(pystr \<Rightarrow> bool) \<Rightarrow> senv \<Rightarrow> pystr set" where
  "database_principals netloc_ok environment =
     \<Union> (set (map (entry_principals netloc_ok) (database_environment_entries environment)))"

definition CALLBACK_PATH :: regex where
  "CALLBACK_PATH = RSeq (rstr ''/callbacks/provider-v02/'') (RStar (RCls (\<lambda>c. c \<noteq> 47)))"

definition callback_url_ok :: "url \<Rightarrow> bool" where
  "callback_url_ok parsed =
     (url_scheme parsed = U ''http'' \<and> url_hostname parsed = Some (U ''receipt-adapter'') \<and>
      url_username parsed = None \<and> url_password parsed = None \<and> url_query parsed = [] \<and> url_fragment parsed = [] \<and>
      fullmatch_ok CALLBACK_PATH (url_path parsed))"

definition authority :: "int option \<Rightarrow> pystr" where
  "authority port = (case port of
     None \<Rightarrow> U ''receipt-adapter''
   | Some p \<Rightarrow> if p = 80 then U ''receipt-adapter'' else U ''receipt-adapter:'' @ str_of_int p)"

definition provider_callback_base :: "(pystr \<Rightarrow> bool) \<Rightarrow> pydict \<Rightarrow> pystr res" where
  "provider_callback_base netloc_ok config = (case dget_def (PDict []) config (U ''services'') of
     PDict services \<Rightarrow>
       let environment = service_environment (dget_none services (U ''provider-simulator''));
           callback = (case map_of environment (U ''CALLBACK_URL'') of None \<Rightarrow> [] | Some v \<Rightarrow> v) in
       (case res_bind (urlsplit netloc_ok callback) (\<lambda>parsed. res_bind (url_port parsed) (\<lambda>port. Inr (parsed, port))) of
          Inl e \<Rightarrow> if is_ValueError e then Inl (ContractError (U ''provider CALLBACK_URL is invalid'')) else Inl e
        | Inr (parsed, port) \<Rightarrow>
            if callback_url_ok parsed then Inr (U ''http://'' @ authority port @ U ''/callbacks/provider-v02'')
            else Inl (ContractError (U ''provider CALLBACK_URL must target the receipt-adapter callback path'')))
   | _ \<Rightarrow> Inl (ContractError (U ''services must be an object'')))"

definition is_host :: "pydict \<Rightarrow> pystr \<Rightarrow> bool" where
  "is_host service key = (dget_none service key = PStr (U ''host''))"

definition runtime_findings :: "pystr \<Rightarrow> pydict \<Rightarrow> pystr list" where
  "runtime_findings name service =
     note_if (has_key service (U ''privileged'') \<or> is_host service (U ''network_mode''))
       (name @ U '': host/elevated runtime is forbidden'') @
     note_if (is_host service (U ''pid'') \<or> is_host service (U ''ipc'')) (name @ U '': host namespace is forbidden'') @
     note_if (has_key service (U ''devices'') \<or> has_key service (U ''cap_add''))
       (name @ U '': device/capability access is forbidden'') @
     note_if (list_ex (has_key service) HOST_RESOURCES) (name @ U '': host-backed service resources are forbidden'')"

definition BUILD_RESOURCES :: "pystr list" where
  "BUILD_RESOURCES = map U [''cache_from'', ''cache_to'', ''entitlements'', ''privileged'', ''secrets'', ''ssh'']"

text \<open>Mounts, builds and shared resources are checked by the text of week 4.\<close>

definition unsafe_service :: "(pystr \<Rightarrow> pystr list res) \<Rightarrow> pystr \<Rightarrow> pystr \<times> pyval \<Rightarrow> pystr list res" where
  "unsafe_service resolve repo ns = (case ns of (name, service) \<Rightarrow>
     (case service of
        PDict d \<Rightarrow> res_append (Inr (runtime_findings name d))
          (res_append (mount_findings name d) (build_findings BUILD_RESOURCES resolve repo name (dget_none d (U ''build''))))
      | _ \<Rightarrow> Inr [name @ U '': service config is invalid'']))"

definition unsafe_compose_findings :: "(pystr \<Rightarrow> pystr list res) \<Rightarrow> pydict \<Rightarrow> pystr \<Rightarrow> pystr list res" where
  "unsafe_compose_findings resolve config repo = (case dget_none config (U ''services'') of
     PDict services \<Rightarrow> res_append (res_concat (unsafe_service resolve repo) services) (Inr (shared_resource_findings config))
   | _ \<Rightarrow> Inr not_an_object)"

definition service_ports_findings :: "pystr \<times> pyval \<Rightarrow> pystr list res" where
  "service_ports_findings ns = (case ns of (name, service) \<Rightarrow>
     res_bind (published_ports service) (\<lambda>ports.
       if name = U ''gateway''
       then note_res (res_or (Inr (ports \<noteq> {8080})) (res_bind (target_ports service) (\<lambda>ts. Inr (ts \<noteq> {8080}))))
         (U ''gateway must publish only host port 8080 to target 8080'')
       else Inr (note_if (publishes service) (name @ U '': only gateway may publish host ports''))))"

definition provider_findings :: "pyval \<Rightarrow> pystr list res" where
  "provider_findings provider =
     res_bind (get_attr PNone provider (U ''image'')) (\<lambda>image.
     res_bind (get_attr PNone provider (U ''build'')) (\<lambda>build.
       Inr (note_if (\<not> provider_image_matches image) (U ''provider-simulator image must use the published digest'') @
         note_if (truthy build) (U ''provider-simulator must not be locally built''))))"

definition expected_roles :: "(pystr \<times> pystr) list" where
  "expected_roles = [(U ''outbox-dispatcher'', U ''outbox_dispatcher''), (U ''inbox-reconciler'', U ''inbox_reconciler'')]"

definition role_findings :: "(pystr \<Rightarrow> bool) \<Rightarrow> pydict \<Rightarrow> pystr \<times> pystr \<Rightarrow> pystr list res" where
  "role_findings netloc_ok services nr = (case nr of (name, expected_role) \<Rightarrow>
     res_bind (ditem services name) (\<lambda>service.
       Inr (note_if (database_principals netloc_ok (service_environment service) \<noteq> {expected_role})
         (name @ U '': database principal must be '' @ expected_role))))"

definition services_findings :: "(pystr \<Rightarrow> bool) \<Rightarrow> pydict \<Rightarrow> pystr list res" where
  "services_findings netloc_ok services =
     res_append (res_concat service_ports_findings services)
     (res_append (res_bind (ditem services (U ''provider-simulator'')) provider_findings)
     (res_append (python_findings PYTHON_SERVICES services)
     (res_append (res_concat (role_findings netloc_ok services) expected_roles) (adapter_findings services))))"

definition compose_contract_findings ::
    "(pystr \<Rightarrow> bool) \<Rightarrow> (pystr \<Rightarrow> pystr list res) \<Rightarrow> pydict \<Rightarrow> pystr \<Rightarrow> pystr list res" where
  "compose_contract_findings netloc_ok resolve config repo =
     res_append (unsafe_compose_findings resolve config repo)
       (case dget_def (PDict []) config (U ''services'') of
          PDict services \<Rightarrow>
            if missing_services REQUIRED_SERVICES services \<noteq> []
            then Inr [U ''missing services: '' @ join_str (U '', '') (missing_services REQUIRED_SERVICES services)]
            else services_findings netloc_ok services
        | _ \<Rightarrow> Inr [])"

definition runtime_compose_findings :: "pydict \<Rightarrow> int \<Rightarrow> pystr list res" where
  "runtime_compose_findings config gateway_port = (case dget_def (PDict []) config (U ''services'') of
     PDict services \<Rightarrow>
       let gateway = dget_none services (U ''gateway'') in
       res_append (note_res (res_bind (published_ports gateway) (\<lambda>ps. Inr (ps \<noteq> {gateway_port})))
         (U ''runtime gateway must publish only the selected host port''))
       (res_append (note_res (res_bind (target_ports gateway) (\<lambda>ps. Inr (ps \<noteq> {8080})))
         (U ''runtime gateway must target container port 8080''))
       (Inr (concat (map (\<lambda>(name, service).
         note_if (name \<noteq> U ''gateway'' \<and> publishes service) (name @ U '': runtime override must remove host ports'')) services))))
   | _ \<Rightarrow> Inr [U ''runtime services must be an object''])"

section \<open>From week 3 to week 4\<close>

lemma runtime_findings_stricter:
  "Week4_Contract.runtime_findings name d = [] \<Longrightarrow> runtime_findings name d = []"
proof -
  assume "Week4_Contract.runtime_findings name d = []"
  then have n: "\<not> has_key d (U ''privileged'')" "list_all (\<lambda>k. \<not> has_key d k) (FORBIDDEN_KEYS @ [U ''devices'', U ''cap_add''] @ HOST_RESOURCES)"
    by (simp_all add: runtime_findings_Nil)
  have h: "has_key d k" if "is_host d k" for k using that by (simp add: is_host_def has_key_def)
  from n(2) have "\<not> has_key d (U ''network_mode'')" "\<not> has_key d (U ''pid'')" "\<not> has_key d (U ''ipc'')"
    "\<not> has_key d (U ''devices'')" "\<not> has_key d (U ''cap_add'')"
    by (simp_all add: FORBIDDEN_KEYS_def)
  with n h show ?thesis by (auto simp: runtime_findings_def list_all_iff list_ex_iff)
qed

lemma build_findings_stricter:
  assumes "build_findings ks resolve repo name build = Inr []" "set ks' \<subseteq> set ks"
  shows "build_findings ks' resolve repo name build = Inr []"
proof (cases build)
  case (PDict d)
  with assms(1) have "build_dict_findings ks resolve repo name d = Inr []" by (simp add: build_findings_def)
  with assms(2) have "build_dict_findings ks' resolve repo name d = Inr []"
    by (auto simp: build_dict_findings_def list_ex_iff)
  with PDict assms(1) show ?thesis by (simp add: build_findings_def)
qed (use assms(1) in \<open>simp_all add: build_findings_def\<close>)

lemma unsafe_service_stricter:
  "Week4_Contract.unsafe_service resolve repo ns = Inr [] \<Longrightarrow> unsafe_service resolve repo ns = Inr []"
proof -
  assume a: "Week4_Contract.unsafe_service resolve repo ns = Inr []"
  obtain name service where ns: "ns = (name, service)" by force
  with a obtain d where d: "service = PDict d" by (cases service) (simp_all add: Week4_Contract.unsafe_service_def)
  have "set BUILD_RESOURCES \<subseteq> set Week4_Contract.BUILD_RESOURCES" by code_simp
  with a show ?thesis
    by (auto simp: ns d Week4_Contract.unsafe_service_def unsafe_service_def runtime_findings_stricter build_findings_stricter)
qed

text \<open>
  C40. The safety check of week 4 implies that of week 3: a configuration without unsafe settings in
  week 4 has none in week 3.
\<close>

theorem week4_safety_implies_week3:
  assumes "Week4_Contract.unsafe_compose_findings resolve config repo = Inr []"
  shows "unsafe_compose_findings resolve config repo = Inr []"
proof (cases "dget_none config (U ''services'')")
  case (PDict services)
  with assms show ?thesis
    by (auto simp: Week4_Contract.unsafe_compose_findings_def unsafe_compose_findings_def res_concat_Nil
        intro: unsafe_service_stricter)
qed (use assms in \<open>simp_all add: Week4_Contract.unsafe_compose_findings_def not_an_object_def\<close>)

theorem week4_safety_implies_week3_witness:
  "unsafe_compose_findings sample_resolve sample_config (U ''/repo'') = Inr []"
proof (rule week4_safety_implies_week3)
  show "Week4_Contract.unsafe_compose_findings sample_resolve sample_config (U ''/repo'') = Inr []"
    using sample_accepted by (simp add: Week4_Contract.compose_contract_findings_def)
qed

end
