(* ===== verification/Week2_Constants.thy ===== *)
theory Week2_Constants
  imports Checker_Common
begin

text \<open>
  The tables of \<^verbatim>\<open>task/week2/autocheck/public_check.py\<close>.
\<close>

definition MANIFEST_VERSION :: pystr where
  "MANIFEST_VERSION =
     U ''week-2-public-report/v1''"

definition TOOL_VERSION :: pystr where
  "TOOL_VERSION =
     U ''week-2-public-check/1.1''"

definition PUBLISHED_FIXTURE_DIGEST :: pystr where
  "PUBLISHED_FIXTURE_DIGEST =
     U ''fdae621f8c88b02e4ee50ba3cec2658470a177da68e5b438349a380d100071d4''"

definition PUBLISHED_FIXTURE_GENERATOR :: pystr where
  "PUBLISHED_FIXTURE_GENERATOR =
     U ''week-2.1''"

definition COMPOSE_NAMES :: "pystr list" where
  "COMPOSE_NAMES =
     map U [''compose.yaml'', ''compose.yml'', ''docker-compose.yml'', ''docker-compose.yaml'']"

definition REQUIRED_SERVICES :: "pystr set" where
  "REQUIRED_SERVICES =
     U ` {''gateway'', ''api'', ''cli'', ''postgres'', ''worker-a'', ''worker-b''}"

definition AUTOCHECK_VIEWS :: "pystr set" where
  "AUTOCHECK_VIEWS =
     U ` {''flow_versions'', ''processes'', ''steps'', ''jobs'', ''attempts'', ''signals'',
        ''workflow_events'', ''action_dispatches'', ''action_definitions''}"

definition AUTOCHECK_VIEW_SCHEMAS :: "(pystr \<times> (pystr \<times> pystr) list) list" where
  "AUTOCHECK_VIEW_SCHEMAS =
     [
     (U ''action_definitions'', map (\<lambda>(c, t). (U c, U t)) [(''module'', ''text''), (''action'', ''text''), (''version'', ''integer''),
        (''http_method'', ''text''), (''target_schema'', ''text''),
        (''target_function'', ''text''), (''outcomes'', ''jsonb''), (''enabled'', ''boolean''),
        (''is_default'', ''boolean'')]),
     (U ''action_dispatches'', map (\<lambda>(c, t). (U c, U t)) [(''correlation_id'', ''uuid''), (''request_id'', ''text''), (''module'', ''text''),
        (''action'', ''text''), (''version'', ''integer''), (''principal'', ''text''),
        (''payload_hash'', ''text''), (''status'', ''text''), (''outcome'', ''text''),
        (''occurred_at'', ''timestamp with time zone'')]),
     (U ''flow_versions'', map (\<lambda>(c, t). (U c, U t)) [(''flow_name'', ''text''), (''flow_version'', ''integer''), (''status'', ''text''),
        (''is_active'', ''boolean''), (''published_at'', ''timestamp with time zone'')]),
     (U ''processes'', map (\<lambda>(c, t). (U c, U t)) [(''process_id'', ''uuid''), (''business_key'', ''text''), (''flow_name'', ''text''),
        (''flow_version'', ''integer''), (''state'', ''text''),
        (''current_step_key'', ''text''), (''created_at'', ''timestamp with time zone''),
        (''updated_at'', ''timestamp with time zone'')]),
     (U ''steps'', map (\<lambda>(c, t). (U c, U t)) [(''step_instance_id'', ''uuid''), (''process_id'', ''uuid''), (''step_key'', ''text''),
        (''step_type'', ''text''), (''state'', ''text''), (''outcome'', ''text''),
        (''entered_at'', ''timestamp with time zone''),
        (''completed_at'', ''timestamp with time zone'')]),
     (U ''jobs'', map (\<lambda>(c, t). (U c, U t)) [(''job_id'', ''uuid''), (''process_id'', ''uuid''), (''step_instance_id'', ''uuid''),
        (''execution_id'', ''uuid''), (''state'', ''text''), (''lease_owner'', ''text''),
        (''lease_version'', ''bigint''), (''lease_until'', ''timestamp with time zone''),
        (''attempt_count'', ''integer''), (''next_attempt_at'', ''timestamp with time zone'')]),
     (U ''attempts'', map (\<lambda>(c, t). (U c, U t)) [(''attempt_id'', ''uuid''), (''job_id'', ''uuid''), (''execution_id'', ''uuid''),
        (''lease_version'', ''bigint''), (''attempt_number'', ''integer''),
        (''status'', ''text''), (''outcome'', ''text''), (''error_code'', ''text''),
        (''started_at'', ''timestamp with time zone''),
        (''finished_at'', ''timestamp with time zone'')]),
     (U ''signals'', map (\<lambda>(c, t). (U c, U t)) [(''message_id'', ''text''), (''process_id'', ''uuid''), (''signal_type'', ''text''),
        (''body_hash'', ''text''), (''status'', ''text''),
        (''received_at'', ''timestamp with time zone'')]),
     (U ''workflow_events'', map (\<lambda>(c, t). (U c, U t)) [(''event_id'', ''uuid''), (''process_id'', ''uuid''), (''step_instance_id'', ''uuid''),
        (''event_type'', ''text''), (''occurred_at'', ''timestamp with time zone'')])]"

definition FIXTURE_FIELDS :: "pystr set" where
  "FIXTURE_FIELDS =
     U ` {''action'', ''actionVersion'', ''businessKeys'', ''businessValues'',
        ''contractVersion'', ''digest'', ''effectTable'', ''errorCodes'', ''files'',
        ''flowName'', ''generationPhase'', ''generatorVersion'', ''modes'', ''module'',
        ''orderingOwner'', ''outcomes'', ''processProperties'', ''properties'', ''seedMode'',
        ''signalMessageId'', ''signalType'', ''steps'', ''targetFunction'', ''targetSchema''}"

definition FIXTURE_OBJECT_FIELDS :: "(pystr \<times> pystr set) list" where
  "FIXTURE_OBJECT_FIELDS =
     [
     (U ''businessKeys'', U ` {''signal'', ''manual'', ''retry'', ''error'', ''unknown'', ''invalid'', ''v2''}),
     (U ''businessValues'', U ` {''signal'', ''manual'', ''retry'', ''error'', ''unknown'', ''invalid'', ''changed'',
        ''marker'', ''signalPayload'', ''result''}),
     (U ''errorCodes'', U ` {''retry'', ''error''}),
     (U ''modes'', U ` {''signal'', ''manual'', ''retry'', ''error'', ''unknown'', ''invalid''}),
     (U ''outcomes'', U ` {''signal'', ''manual'', ''received'', ''approved'', ''completed'', ''unknown'',
        ''abandoned''}),
     (U ''processProperties'', U ` {''mode'', ''value''}),
     (U ''properties'', U ` {''mode'', ''value'', ''marker'', ''stored'', ''revision'', ''echo'', ''execution''}),
     (U ''steps'', U ` {''automatic'', ''wait'', ''manual'', ''end''})]"

definition FIXTURE_FILE_FIELDS :: "pystr set" where
  "FIXTURE_FILE_FIELDS =
     U ` {''migration'', ''actionManifest'', ''disabledActionManifest'', ''flowV1Json'',
        ''flowV2Json'', ''flowV1Yaml'', ''flowV2Yaml'', ''invalidMaps'', ''processData'',
        ''signalData'', ''resultData''}"

definition PROCESS_DATA_FIELDS :: "pystr set" where
  "PROCESS_DATA_FIELDS =
     U ` {''signal'', ''manual'', ''retry'', ''error'', ''unknown'', ''invalid'', ''changed''}"

definition SOLUTION_HEADINGS :: "pystr set" where
  "SOLUTION_HEADINGS =
     {[1072, 1088, 1093, 1080, 1090, 1077, 1082, 1090, 1091, 1088, 1072],
      [1079, 1072, 1087, 1091, 1089, 1082],
      [119, 111, 114, 107, 102, 108, 111, 119, 45, 1082, 1072, 1088, 1090, 1099], U ''worker'',
      [1087, 1088, 1086, 1074, 1077, 1088, 1082, 1072],
      [1076, 1080, 1072, 1075, 1085, 1086, 1089, 1090, 1080, 1082, 1072],
      [1086, 1075, 1088, 1072, 1085, 1080, 1095, 1077, 1085, 1080, 1103]}"

definition README_LITERALS :: "pystr list" where
  "README_LITERALS =
     map U [''docker compose up -d --build'', ''./check.sh'']"

definition PHASE_CHECKS :: "(pystr \<times> pystr list) list" where
  "PHASE_CHECKS =
     [(U ''publication'', map U [''migration-and-action-publication'', ''map-validation-and-publication'', ''publication-image-immutability'']),
      (U ''execution'', map U [''automatic-signal-end'', ''signal-idempotency-and-history'', ''manual-wait'', ''stable-views'']),
      (U ''versioning'', map U [''version-pinning-and-start-idempotency'']),
      (U ''concurrency'', map U [''two-worker-reclaim-and-stale-finish'']),
      (U ''recovery'', map U [''action-finish-rollback-and-recovery'']),
      (U ''resilience'', map U [''bounded-retry-and-terminal-failures'', ''worker-recreate-persistence'']),
      (U ''integrity'', map U [''runtime-image-immutability''])]"

end
