(* ===== verification/Week2_Query.thy ===== *)
theory Week2_Query
  imports Week2_Constants
begin

text \<open>
  What the checker of week 2 lets through to the database: read-only queries over the published views,
  literals that need no escaping, full image identifiers.
\<close>

section \<open>Definitions\<close>

definition WRITE_WORDS :: "string list" where
  "WRITE_WORDS = [''insert'', ''update'', ''delete'', ''merge'', ''alter'', ''drop'', ''create'', ''grant'', ''revoke'', ''truncate'',
     ''copy'', ''call'', ''do'', ''vacuum'', ''refresh'', ''reindex'', ''cluster'']"

definition WRITE_WORD :: "(nat \<Rightarrow> bool) \<Rightarrow> regex" where
  "WRITE_WORD alnum = rseqs [RWordB (is_word alnum), names_ci WRITE_WORDS, RWordB (is_word alnum)]"

definition SQL_STRING_LITERAL :: regex where
  "SQL_STRING_LITERAL = rseqs [rch 39, RStar (RAlt (RSeq (rch 39) (rch 39)) (RCls (\<lambda>c. c \<noteq> 39))), rch 39]"

definition QUERY_START :: "(nat \<Rightarrow> bool) \<Rightarrow> regex" where
  "QUERY_START alnum = rseqs [RBegin, RStar rspace, names_ci [''select'', ''with''], RWordB (is_word alnum)]"

definition ident_ci :: regex where
  "ident_ci = RSeq (RCls (\<lambda>c. letter_ci c \<or> c = 95)) (RStar (RCls (\<lambda>c. letter_ci c \<or> in_range 48 57 c \<or> c = 95)))"

definition RELATION :: "(nat \<Rightarrow> bool) \<Rightarrow> regex" where
  "RELATION alnum = rseqs [RWordB (is_word alnum), names_ci [''from'', ''join''], rplus rspace, RGroup 1 ident_ci, rch 46,
     RGroup 2 ident_ci, RWordB (is_word alnum)]"

definition group_text :: "nat \<Rightarrow> rstate \<times> rstate \<Rightarrow> pystr" where
  "group_text n m = (case group n (caps (snd m)) of None \<Rightarrow> [] | Some s \<Rightarrow> s)"

definition references :: "(nat \<Rightarrow> bool) \<Rightarrow> pystr \<Rightarrow> (pystr \<times> pystr) set" where
  "references alnum query =
     set (map (\<lambda>m. (casefold (group_text 1 m), casefold (group_text 2 m))) (refinditer (RELATION alnum) query))"

definition allowed_relations :: "(pystr \<times> pystr) option \<Rightarrow> (pystr \<times> pystr) set" where
  "allowed_relations fixture_relation =
     Pair (U ''autocheck'') ` AUTOCHECK_VIEWS \<union>
     (case fixture_relation of None \<Rightarrow> {} | Some (s, r) \<Rightarrow> {(casefold s, casefold r)})"

definition scrubbed :: "pystr \<Rightarrow> pystr" where
  "scrubbed query = resub_delete SQL_STRING_LITERAL query"

definition validate_read_only_query :: "(nat \<Rightarrow> bool) \<Rightarrow> pystr \<Rightarrow> (pystr \<times> pystr) option \<Rightarrow> unit res" where
  "validate_read_only_query alnum query allowed_fixture_relation =
     res_bind (ensure (strip query \<noteq> [] \<and> 59 \<notin> set query \<and> \<not> contains (U ''--'') query \<and> \<not> contains (U ''/*'') query)
       (ValueError (U ''Query must be one comment-free statement''))) (\<lambda>_.
     res_bind (ensure (match_ok (QUERY_START alnum) query) (ValueError (U ''Query must start with SELECT or WITH''))) (\<lambda>_.
     res_bind (ensure (39 \<notin> set (scrubbed query)) (ValueError (U ''Query contains an unterminated string literal''))) (\<lambda>_.
     res_bind (ensure (\<not> search_ok (WRITE_WORD alnum) (scrubbed query)) (ValueError (U ''Query must be read-only''))) (\<lambda>_.
       ensure (references alnum query \<noteq> {} \<and>
           Set.filter (\<lambda>r. fst r \<noteq> U ''pg_catalog'') (references alnum query) \<subseteq> allowed_relations allowed_fixture_relation)
         (ValueError (U ''Query references a non-contract relation''))))))"

definition SAFE_LITERAL :: regex where
  "SAFE_LITERAL = RSeq (RCls (\<lambda>c. in_range 65 90 c \<or> in_range 97 122 c \<or> in_range 48 57 c \<or> c = 95 \<or> c = 46 \<or> c = 58 \<or> c = 45))
     (rupto 179 (RCls (\<lambda>c. in_range 65 90 c \<or> in_range 97 122 c \<or> in_range 48 57 c \<or> c = 95 \<or> c = 46 \<or> c = 58 \<or> c = 45)))"

definition sql_literal :: "pystr \<Rightarrow> pystr res" where
  "sql_literal value =
     (if fullmatch_ok SAFE_LITERAL value then Inr ([39] @ value @ [39])
      else Inl (ContractError (U ''Candidate returned an unsafe identifier'')))"

definition IMAGE_ID :: regex where
  "IMAGE_ID = rseqs [rstr ''sha256:'', RGroup 1 (rtimes 64 (RCls (\<lambda>c. in_range 97 102 c \<or> in_range 48 57 c))), RStar rspace]"

definition normalize_image_id :: "pystr \<Rightarrow> pystr res" where
  "normalize_image_id value = (case fullmatch IMAGE_ID value of
     None \<Rightarrow> Inl (ContractError (U ''Compose did not return one full image ID''))
   | Some cs \<Rightarrow> Inr (U ''sha256:'' @ (case group 1 cs of None \<Rightarrow> [] | Some s \<Rightarrow> s)))"

section \<open>Searching\<close>

lemma search_from_position:
  "rmatch r \<lparr>passed = rev a @ pre, rest = s, caps = []\<rparr> \<noteq> [] \<Longrightarrow> search_from r pre (a @ s) \<noteq> None"
proof (induction a arbitrary: pre)
  case Nil
  then show ?case by (subst search_from.simps) (auto simp: Let_def split: list.splits)
next
  case (Cons c a)
  then have "search_from r (c # pre) (a @ s) \<noteq> None" by simp
  then show ?case by (subst search_from.simps) (auto simp: Let_def split: list.splits)
qed

lemma search_position: "rmatch r \<lparr>passed = rev a, rest = s, caps = []\<rparr> \<noteq> [] \<Longrightarrow> search_ok r (a @ s)"
  using search_from_position [of r a "[]" s] by (auto simp: search_ok_def research_def)

lemma rmatch_rstr_ci:
  assumes "list_all2 ci_eq (U kw) w"
  shows "\<lparr>passed = rev w @ p, rest = b, caps = cs\<rparr> \<in> set (rmatch (rstr_ci kw) \<lparr>passed = p, rest = w @ b, caps = cs\<rparr>)"
proof -
  have "list_all2 ci_eq ks w \<Longrightarrow> \<lparr>passed = rev w @ p, rest = b, caps = cs\<rparr> \<in>
      set (rmatch (foldr (\<lambda>c r. RSeq (RCls (ci_eq c)) r) ks REps) \<lparr>passed = p, rest = w @ b, caps = cs\<rparr>)" for ks
    by (induction ks arbitrary: w p) (auto simp: list_all2_Cons1)
  with assms show ?thesis by (simp add: rstr_ci_def)
qed

lemma rmatch_foldl_RAlt: "set (rmatch (foldl RAlt r rs) st) = set (rmatch r st) \<union> (\<Union>r\<in>set rs. set (rmatch r st))"
  by (induction rs arbitrary: r) auto

lemma rmatch_ralts: "rs \<noteq> [] \<Longrightarrow> set (rmatch (ralts rs) st) = (\<Union>r\<in>set rs. set (rmatch r st))"
  by (cases rs) (simp_all add: ralts_def rmatch_foldl_RAlt)

lemma names_ci_match:
  assumes "kw \<in> set kws" "list_all2 ci_eq (U kw) w"
  shows "\<lparr>passed = rev w @ p, rest = b, caps = cs\<rparr> \<in> set (rmatch (names_ci kws) \<lparr>passed = p, rest = w @ b, caps = cs\<rparr>)"
proof -
  have "map rstr_ci kws \<noteq> []" using assms(1) by auto
  with rmatch_rstr_ci [OF assms(2), of p b cs] assms(1) show ?thesis unfolding names_ci_def by (auto simp: rmatch_ralts)
qed

text \<open>An occurrence of a keyword as a word of its own, in any mixture of ASCII cases.\<close>

definition standalone :: "(nat \<Rightarrow> bool) \<Rightarrow> string list \<Rightarrow> pystr \<Rightarrow> bool" where
  "standalone word kws s \<longleftrightarrow> (\<exists>a w b kw. s = a @ w @ b \<and> kw \<in> set kws \<and> list_all (\<lambda>c. c < 128) w \<and> lower w = U kw \<and>
     (a = [] \<or> \<not> word (last a)) \<and> (b = [] \<or> \<not> word (hd b)))"

lemma lower_ascii: "list_all (\<lambda>c. c < 128) w \<Longrightarrow> lower w = map (\<lambda>c. if 65 \<le> c \<and> c \<le> 90 then c + 32 else c) w"
  by (induction w) (auto simp: lower_def lower_char_def)

lemma lower_ci_eq:
  assumes "list_all (\<lambda>c. c < 128) w" "lower w = ks" "list_all (in_range 97 122) ks"
  shows "list_all2 ci_eq ks w" "list_all (\<lambda>c. in_range 65 90 c \<or> in_range 97 122 c) w"
proof -
  from assms have ks: "ks = map (\<lambda>c. if 65 \<le> c \<and> c \<le> 90 then c + 32 else c) w" by (simp add: lower_ascii)
  with assms(3) show "list_all (\<lambda>c. in_range 65 90 c \<or> in_range 97 122 c) w"
    by (auto simp: list_all_iff in_range_def split: if_splits)
  then show "list_all2 ci_eq ks w"
    unfolding ks by (auto simp: list.rel_map list_all2_same list_all_iff ci_eq_def in_range_def Let_def)
qed

lemma rmatch_RSeqI: "st1 \<in> set (rmatch r st) \<Longrightarrow> st2 \<in> set (rmatch s st1) \<Longrightarrow> st2 \<in> set (rmatch (RSeq r s) st)"
  by auto

lemma standalone_found:
  assumes "standalone (is_word alnum) WRITE_WORDS s"
  shows "search_ok (WRITE_WORD alnum) s"
proof -
  let ?word = "is_word alnum"
  from assms obtain a w b kw where s: "s = a @ w @ b" and kw: "kw \<in> set WRITE_WORDS"
    and w: "list_all (\<lambda>c. c < 128) w" "lower w = U kw"
    and bnd: "a = [] \<or> \<not> ?word (last a)" "b = [] \<or> \<not> ?word (hd b)"
    unfolding standalone_def by blast
  have "list_all (\<lambda>k. k \<noteq> [] \<and> list_all (in_range 97 122) (U k)) WRITE_WORDS" by code_simp
  with kw have k: "kw \<noteq> []" "list_all (in_range 97 122) (U kw)" by (auto simp: list_all_iff)
  note ci = lower_ci_eq(1) [OF w k(2)] and letters = lower_ci_eq(2) [OF w k(2)]
  from ci k(1) have "w \<noteq> []" by auto
  with letters have wd: "?word (hd w)" "?word (last w)" by (auto simp: list_all_iff is_word_def)
  let ?s0 = "\<lparr>passed = rev a, rest = w @ b, caps = []\<rparr>" and ?s1 = "\<lparr>passed = rev w @ rev a, rest = b, caps = []\<rparr>"
  have h1: "?s0 \<in> set (rmatch (RWordB ?word) ?s0)"
    using wd(1) bnd(1) \<open>w \<noteq> []\<close> by (cases "a = []") (simp_all add: Let_def hd_rev)
  have h2: "?s1 \<in> set (rmatch (names_ci WRITE_WORDS) ?s0)" by (rule names_ci_match [OF kw ci])
  have h3: "?s1 \<in> set (rmatch (RWordB ?word) ?s1)"
    using wd(2) bnd(2) \<open>w \<noteq> []\<close> by (cases "b = []") (simp_all add: Let_def hd_rev)
  have h4: "?s1 \<in> set (rmatch REps ?s1)" by simp
  have "?s1 \<in> set (rmatch (WRITE_WORD alnum) ?s0)"
    unfolding WRITE_WORD_def rseqs_def foldr.simps comp_def id_def
    by (rule rmatch_RSeqI [OF h1 rmatch_RSeqI [OF h2 rmatch_RSeqI [OF h3 h4]]])
  then have "rmatch (WRITE_WORD alnum) ?s0 \<noteq> []" by auto
  from search_position [OF this] show ?thesis by (simp add: s)
qed

text \<open>How the database reads a quoted literal without doubled quotes.\<close>

definition literal_value :: "pystr \<Rightarrow> pystr option" where
  "literal_value t =
     (if 2 \<le> length t \<and> hd t = 39 \<and> last t = 39 \<and> 39 \<notin> set (butlast (tl t)) then Some (butlast (tl t)) else None)"

definition literal_char :: "nat \<Rightarrow> bool" where
  "literal_char c = (in_range 65 90 c \<or> in_range 97 122 c \<or> in_range 48 57 c \<or> c = 95 \<or> c = 46 \<or> c = 58 \<or> c = 45)"

lemma lang_RCls_seq: "w \<in> lang (RSeq (RCls p) r) \<longleftrightarrow> (\<exists>c v. w = c # v \<and> p c \<and> v \<in> lang r)"
  by auto (metis append_Cons append_Nil)

lemma lang_rupto: "lang (rupto n (RCls p)) = {w. length w \<le> n \<and> list_all p w}"
proof (induction n)
  case (Suc n)
  show ?case
  proof (rule set_eqI)
    fix w
    show "w \<in> lang (rupto (Suc n) (RCls p)) \<longleftrightarrow> w \<in> {w. length w \<le> Suc n \<and> list_all p w}"
      by (cases w) (auto simp: ropt_def Suc lang_RCls_seq simp del: lang.simps(3))
  qed
qed auto

lemma safe_literal_iff: "fullmatch_ok SAFE_LITERAL v \<longleftrightarrow> v \<noteq> [] \<and> length v \<le> 180 \<and> list_all literal_char v"
proof -
  have r: "SAFE_LITERAL = RSeq (RCls literal_char) (rupto 179 (RCls literal_char))"
    by (simp add: SAFE_LITERAL_def literal_char_def [abs_def])
  have "v \<in> lang SAFE_LITERAL \<longleftrightarrow> v \<noteq> [] \<and> length v \<le> 180 \<and> list_all literal_char v"
    unfolding r lang_RCls_seq lang_rupto by (cases v) auto
  moreover have "pure SAFE_LITERAL" by (simp add: r pure_rupto)
  ultimately show ?thesis by (simp add: fullmatch_lang)
qed

section \<open>Properties\<close>

text \<open>Three queries that read relations outside the contract: after a comma, without a schema, and with a quoted schema.\<close>

definition escaping_queries :: "pystr list" where
  "escaping_queries = [U ''select * from autocheck.jobs, private.secrets'', U ''select * from autocheck.jobs join secrets on true'',
     U ''select * from autocheck.jobs join '' @ [34] @ U ''private'' @ [34] @ U ''.secrets on true'']"

lemma escaping_accepted: "list_all (\<lambda>q. validate_read_only_query alnum q None = Inr ()) escaping_queries"
  by code_simp


definition sample_query :: pystr where
  "sample_query = U ''SELECT state FROM autocheck.processes WHERE process_id = '' @ [39] @ U ''drop'' @ [39]"


text \<open>
  A literal for SQL is made exactly of the short identifiers over a safe alphabet, and the database reads
  it back as the very text: no value can end the literal early.
\<close>

theorem sql_literal_roundtrip:
  "case sql_literal v of
     Inr t \<Rightarrow> literal_value t = Some v \<and> v \<noteq> [] \<and> length v \<le> 180 \<and> list_all literal_char v
   | Inl e \<Rightarrow> e = ContractError (U ''Candidate returned an unsafe identifier'') \<and>
       \<not> (v \<noteq> [] \<and> length v \<le> 180 \<and> list_all literal_char v)"
proof (cases "fullmatch_ok SAFE_LITERAL v")
  case True
  then have v: "v \<noteq> []" "length v \<le> 180" "list_all literal_char v" by (simp_all add: safe_literal_iff)
  then have "39 \<notin> set v" by (auto simp: list_all_iff literal_char_def in_range_def)
  with v True show ?thesis by (simp add: sql_literal_def literal_value_def butlast_append)
next
  case False
  then have "sql_literal v = Inl (ContractError (U ''Candidate returned an unsafe identifier''))" by (simp add: sql_literal_def)
  with False show ?thesis by (simp add: safe_literal_iff)
qed

end
