(* ===== verification/Week2_Rows.thy ===== *)
theory Week2_Rows
  imports Week2_Constants
begin

text \<open>
  How the checker of week 2 judges the rows of the published views: versions, process states, view
  schemas, dispatches, the history of a job and a terminal failure. A row is what \<^verbatim>\<open>json.loads\<close> made of it.
\<close>

section \<open>Values as keys\<close>

text \<open>\<^verbatim>\<open>len({f(x) for x in xs})\<close>: equal values count once, an unhashable one raises.\<close>

fun dedup :: "pyval list \<Rightarrow> pyval list" where
  "dedup [] = []"
| "dedup (x # xs) = (if py_in x xs then dedup xs else x # dedup xs)"

definition set_of :: "pyval list \<Rightarrow> pyval list res" where
  "set_of xs = (if list_all hashable xs then Inr (dedup xs) else Inl TypeError)"

text \<open>\<^verbatim>\<open>value in set_of_strings\<close>, for a dictionary or set whose keys are strings.\<close>

definition str_key_in :: "pyval \<Rightarrow> pystr set \<Rightarrow> bool res" where
  "str_key_in x ks = (if hashable x then Inr (case x of PStr s \<Rightarrow> s \<in> ks | _ \<Rightarrow> False) else Inl TypeError)"

section \<open>Versions and states\<close>

text \<open>
  The dictionary from version to row: the last row of equal keys wins.
\<close>

definition last_row :: "pyval \<Rightarrow> pydict list \<Rightarrow> pydict option" where
  "last_row v rows = find (\<lambda>row. py_eq (dget_none row (U ''flow_version'')) v) (rev rows)"

definition exact_active_version :: "pydict list \<Rightarrow> int \<Rightarrow> bool res" where
  "exact_active_version rows expected =
     res_bind (set_of (map (\<lambda>row. dget_none row (U ''flow_version'')) rows)) (\<lambda>versions.
     res_bind (set_of (map (\<lambda>row. dget_none row (U ''flow_version''))
         (filter (\<lambda>row. dget_none row (U ''is_active'') = PBool True) rows))) (\<lambda>active.
       Inr (length versions = length rows \<and> py_in (PInt 1) versions \<and> py_in (PInt expected) versions \<and>
         py_eq (PSet active) (PSet [PInt expected]) \<and>
         (case last_row (PInt expected) rows of
            None \<Rightarrow> False
          | Some row \<Rightarrow> dget_none row (U ''status'') = PStr (U ''PUBLISHED'')))))"

definition process_state_matches :: "pydict \<Rightarrow> pystr \<Rightarrow> pystr option \<Rightarrow> bool" where
  "process_state_matches row st current_step =
     (dget_none row (U ''state'') = PStr st \<and>
      (case current_step of None \<Rightarrow> True | Some k \<Rightarrow> dget_none row (U ''current_step_key'') = PStr k))"

definition strictly_increasing_integer :: "pyval \<Rightarrow> pyval \<Rightarrow> bool" where
  "strictly_increasing_integer current previous =
     (case (current, previous) of (PInt c, PInt p) \<Rightarrow> p < c | _ \<Rightarrow> False)"

section \<open>Schemas of the views\<close>

type_synonym view_columns = "(pystr \<times> (pystr \<times> pystr) list) list"

text \<open>One row of the catalogue: \<open>None\<close> stands for \<^verbatim>\<open>return False\<close>.\<close>

definition add_column :: "view_columns option \<Rightarrow> pydict \<Rightarrow> view_columns option res" where
  "add_column acc row = (case acc of
     None \<Rightarrow> Inr None
   | Some actual \<Rightarrow>
       res_bind (str_key_in (dget_none row (U ''view_name'')) (dkeys AUTOCHECK_VIEW_SCHEMAS)) (\<lambda>known.
       Inr (case (dget_none row (U ''view_name''), dget_none row (U ''column_name''), dget_none row (U ''data_type'')) of
           (PStr view, PStr column, PStr data_type) \<Rightarrow>
             let columns = (case map_of actual view of None \<Rightarrow> [] | Some cs \<Rightarrow> cs) in
             if \<not> known \<or> dget_none row (U ''relation_kind'') \<noteq> PStr (U ''v'') \<or> column \<in> dkeys columns then None
             else Some (dput view (dput column data_type columns) actual)
         | _ \<Rightarrow> None)))"

definition stable_view_schemas_match :: "pydict list \<Rightarrow> bool res" where
  "stable_view_schemas_match rows =
     res_bind (res_fold (\<lambda>row acc. add_column acc row) rows (Some [])) (\<lambda>r. Inr (case r of
       None \<Rightarrow> False
     | Some actual \<Rightarrow> list_all (\<lambda>(view, columns). (case map_of actual view of
           None \<Rightarrow> False
         | Some cs \<Rightarrow> list_all (\<lambda>(column, data_type). map_of cs column = Some data_type) columns)) AUTOCHECK_VIEW_SCHEMAS))"

definition action_dispatch_matches :: "pydict \<Rightarrow> pystr \<Rightarrow> pystr \<Rightarrow> pystr \<Rightarrow> pystr \<Rightarrow> bool" where
  "action_dispatch_matches row execution_id module action outcome =
     (dget_none row (U ''request_id'') = PStr execution_id \<and>
      dget_none row (U ''module'') = PStr module \<and>
      dget_none row (U ''action'') = PStr action \<and>
      py_eq (dget_none row (U ''version'')) (PInt 1) \<and>
      dget_none row (U ''principal'') = PStr (U ''workflow-worker'') \<and>
      dget_none row (U ''status'') = PStr (U ''OK'') \<and>
      dget_none row (U ''outcome'') = PStr outcome)"

section \<open>The history of a job\<close>

definition column :: "string \<Rightarrow> pydict list \<Rightarrow> pyval list" where
  "column k rows = map (\<lambda>row. dget_none row (U k)) rows"

text \<open>\<^verbatim>\<open>xs != list(range(1, n + 1))\<close>\<close>

definition numbered :: "pyval list \<Rightarrow> int \<Rightarrow> bool" where
  "numbered xs n = py_eq (PList xs) (PList (map PInt [1..n]))"

definition int_of :: "pyval \<Rightarrow> int" where
  "int_of v = (case v of PInt i \<Rightarrow> i | _ \<Rightarrow> 0)"

text \<open>
  \<^verbatim>\<open>leases != sorted(set(leases)) or leases[-1] != job.get("lease_version")\<close> for integers; the last
  element of an empty list raises.
\<close>

definition leases_ok :: "pyval list \<Rightarrow> pyval \<Rightarrow> bool res" where
  "leases_ok leases last_lease =
     (if sorted_list_of_set (set (map int_of leases)) \<noteq> map int_of leases then Inr False
      else if leases = [] then Inl IndexError
      else Inr (py_eq (last leases) last_lease))"

text \<open>The times of one attempt can be read, compared, and are in order.\<close>

definition row_time :: "pydict \<Rightarrow> string \<Rightarrow> pydatetime option" where
  "row_time row k = (case map_of row (U k) of
     None \<Rightarrow> None
   | Some v \<Rightarrow> fromisoformat (replace_str (U ''Z'') (U ''+00:00'') (py_str v)))"

definition times_ok :: "pydict \<Rightarrow> bool" where
  "times_ok row = (case (row_time row ''started_at'', row_time row ''finished_at'') of
     (Some started, Some finished) \<Rightarrow> (case datetime_gt started finished of Inl _ \<Rightarrow> False | Inr late \<Rightarrow> \<not> late)
   | _ \<Rightarrow> False)"

definition same_job :: "pydict \<Rightarrow> pydict \<Rightarrow> bool" where
  "same_job job row =
     (py_eq (dget_none row (U ''job_id'')) (dget_none job (U ''job_id'')) \<and>
      py_eq (dget_none row (U ''execution_id'')) (dget_none job (U ''execution_id'')))"

definition attempt_ok :: "pystr \<Rightarrow> pydict \<Rightarrow> bool" where
  "attempt_ok expected_outcome row =
     (if dget_none row (U ''status'') = PStr (U ''FAILED'')
      then dget_none row (U ''outcome'') = PNone \<and> is_str (dget_none row (U ''error_code''))
      else if dget_none row (U ''status'') = PStr (U ''SUCCEEDED'')
      then dget_none row (U ''outcome'') = PStr expected_outcome \<and> dget_none row (U ''error_code'') = PNone
      else False)"

definition succeeded :: "pydict \<Rightarrow> bool" where
  "succeeded row = (dget_none row (U ''status'') = PStr (U ''SUCCEEDED''))"

definition final_attempt_ok :: "pydict \<Rightarrow> pydict list \<Rightarrow> pystr \<Rightarrow> bool" where
  "final_attempt_ok job attempts expected_outcome =
     (dget_none job (U ''state'') = PStr (U ''SUCCEEDED'') \<and> length (filter succeeded attempts) = 1 \<and>
      succeeded (last attempts) \<and> dget_none (last attempts) (U ''outcome'') = PStr expected_outcome \<and>
      dget_none (last attempts) (U ''error_code'') = PNone)"

definition job_attempts_consistent :: "pydict \<Rightarrow> pydict list \<Rightarrow> pystr \<Rightarrow> bool res" where
  "job_attempts_consistent job attempts expected_outcome = (case dget_none job (U ''attempt_count'') of
     PInt count \<Rightarrow>
       if count < 1 \<or> int (length attempts) \<noteq> count then Inr False
       else if \<not> numbered (column ''attempt_number'' attempts) count then Inr False
       else if \<not> list_all is_int (column ''lease_version'' attempts) then Inr False
       else res_bind (leases_ok (column ''lease_version'' attempts) (dget_none job (U ''lease_version''))) (\<lambda>ok.
         if \<not> ok then Inr False
         else res_bind (set_of (column ''attempt_id'' attempts)) (\<lambda>ids.
           if int (length ids) \<noteq> count then Inr False
           else if list_ex (\<lambda>row. \<not> same_job job row \<or> \<not> truthy (dget_none row (U ''started_at'')) \<or>
               \<not> truthy (dget_none row (U ''finished_at''))) attempts then Inr False
           else if \<not> list_all (\<lambda>row. times_ok row \<and> attempt_ok expected_outcome row) attempts then Inr False
           else Inr (final_attempt_ok job attempts expected_outcome)))
   | _ \<Rightarrow> Inr False)"

section \<open>A terminal failure\<close>

definition failed_attempt_ok :: "pydict \<Rightarrow> pystr option \<Rightarrow> pydict \<Rightarrow> bool" where
  "failed_attempt_ok job expected_error row =
     (dget_none row (U ''status'') = PStr (U ''FAILED'') \<and> same_job job row \<and> dget_none row (U ''outcome'') = PNone \<and>
      is_str (dget_none row (U ''error_code'')) \<and> truthy (dget_none row (U ''error_code'')) \<and>
      (case expected_error of None \<Rightarrow> True | Some e \<Rightarrow> dget_none row (U ''error_code'') = PStr e))"

definition terminal_failure_consistent ::
    "pydict \<Rightarrow> pydict list \<Rightarrow> pydict list \<Rightarrow> pydict list \<Rightarrow> int \<Rightarrow> pystr option \<Rightarrow> bool res" where
  "terminal_failure_consistent process jobs attempts effects expected_attempts expected_error = (case jobs of
     [job] \<Rightarrow>
       if dget_none process (U ''state'') \<noteq> PStr (U ''FAILED'') \<or> dget_none job (U ''state'') \<noteq> PStr (U ''DEAD'') \<or>
         \<not> py_eq (dget_none job (U ''attempt_count'')) (PInt expected_attempts) \<or>
         int (length attempts) \<noteq> expected_attempts \<or> effects \<noteq> [] then Inr False
       else if \<not> list_all is_int (column ''lease_version'' attempts) then Inr False
       else res_bind (leases_ok (column ''lease_version'' attempts) (dget_none job (U ''lease_version''))) (\<lambda>ok.
         if \<not> ok then Inr False
         else if \<not> list_all times_ok attempts then Inr False
         else if \<not> numbered (column ''attempt_number'' attempts) expected_attempts then Inr False
         else res_bind (set_of (column ''attempt_id'' attempts)) (\<lambda>ids.
           Inr (int (length ids) = expected_attempts \<and> list_all (failed_attempt_ok job expected_error) attempts)))
   | _ \<Rightarrow> Inr False)"

section \<open>Properties\<close>

lemma is_int_map: "list_all is_int vs \<Longrightarrow> vs = map PInt (map int_of vs)"
proof (induction vs)
  case (Cons v vs)
  then show ?case by (cases v) (simp_all add: int_of_def)
qed simp

lemma sorted_set_strict: "sorted_list_of_set (set xs) = xs \<Longrightarrow> sorted_wrt (<) (xs :: int list)"
  by (metis sorted_list_of_set.strict_sorted_key_list_of_set)

lemma leases_ok_True:
  assumes "leases_ok leases l = Inr True" "list_all is_int leases"
  shows "\<exists>ls. leases = map PInt ls \<and> ls \<noteq> [] \<and> sorted_wrt (<) ls \<and> py_eq (PInt (last ls)) l"
proof -
  let ?ls = "map int_of leases"
  from assms(1) have o: "sorted_list_of_set (set ?ls) = ?ls" "leases \<noteq> []" "py_eq (last leases) l"
    by (auto simp: leases_ok_def split: if_splits)
  from is_int_map [OF assms(2)] have m: "leases = map PInt ?ls" .
  with o(2) have "last leases = PInt (last ?ls)" by (metis last_map list.map_disc_iff)
  with o sorted_set_strict [OF o(1)] m show ?thesis by (metis list.map_disc_iff)
qed

lemma one_success_last:
  assumes "length (filter P xs) = 1" "P (last xs)" "xs \<noteq> []"
  shows "list_all (\<lambda>x. \<not> P x) (butlast xs)"
proof -
  have "filter P xs = filter P (butlast xs) @ [last xs]"
    using assms(2,3) by (metis append_butlast_last_id filter.simps filter_append)
  with assms(1) have "filter P (butlast xs) = []" by simp
  then show ?thesis by (simp add: filter_empty_conv list_all_iff)
qed

lemma attempt_failed:
  "attempt_ok outcome row \<Longrightarrow> \<not> succeeded row \<Longrightarrow>
   dget_none row (U ''status'') = PStr (U ''FAILED'') \<and> dget_none row (U ''outcome'') = PNone"
  by (auto simp: attempt_ok_def succeeded_def split: if_splits)

text \<open>
  C36. The history of a job is consistent only if it is a run of failed attempts followed by one success:
  as many attempts as the job counts, numbered from 1, with strictly growing leases of which the last is
  the job's, with distinct ids and times in order.
\<close>

theorem consistent_history:
  assumes "job_attempts_consistent job attempts outcome = Inr True"
  shows "dget_none job (U ''attempt_count'') = PInt (int (length attempts)) \<and> attempts \<noteq> [] \<and>
    numbered (column ''attempt_number'' attempts) (int (length attempts)) \<and>
    list_all (\<lambda>row. dget_none row (U ''status'') = PStr (U ''FAILED'') \<and> dget_none row (U ''outcome'') = PNone) (butlast attempts) \<and>
    succeeded (last attempts) \<and> dget_none (last attempts) (U ''outcome'') = PStr outcome \<and>
    (\<exists>ls. column ''lease_version'' attempts = map PInt ls \<and> sorted_wrt (<) ls \<and>
      py_eq (PInt (last ls)) (dget_none job (U ''lease_version''))) \<and>
    length (dedup (column ''attempt_id'' attempts)) = length attempts \<and> list_all times_ok attempts"
proof -
  from assms obtain count where c: "dget_none job (U ''attempt_count'') = PInt count"
    unfolding job_attempts_consistent_def by (cases "dget_none job (U ''attempt_count'')") simp_all
  from assms have n: "1 \<le> count" "int (length attempts) = count" "numbered (column ''attempt_number'' attempts) count"
    and li: "list_all is_int (column ''lease_version'' attempts)"
    and lo: "leases_ok (column ''lease_version'' attempts) (dget_none job (U ''lease_version'')) = Inr True"
    and ids: "set_of (column ''attempt_id'' attempts) = Inr (dedup (column ''attempt_id'' attempts))"
      "int (length (dedup (column ''attempt_id'' attempts))) = count"
    and rows: "list_all (\<lambda>row. times_ok row \<and> attempt_ok outcome row) attempts"
    and fin: "final_attempt_ok job attempts outcome"
    unfolding job_attempts_consistent_def c by (auto simp: set_of_def split: if_splits)
  from n have ne: "attempts \<noteq> []" by auto
  from fin have "length (filter succeeded attempts) = 1" "succeeded (last attempts)"
    by (simp_all add: final_attempt_ok_def)
  from one_success_last [OF this ne] have "list_all (\<lambda>r. \<not> succeeded r) (butlast attempts)" .
  then have "list_all (\<lambda>row. dget_none row (U ''status'') = PStr (U ''FAILED'') \<and> dget_none row (U ''outcome'') = PNone) (butlast attempts)"
    using rows attempt_failed in_set_butlastD unfolding list_all_iff by fast
  moreover from leases_ok_True [OF lo li] have "\<exists>ls. column ''lease_version'' attempts = map PInt ls \<and> sorted_wrt (<) ls \<and>
      py_eq (PInt (last ls)) (dget_none job (U ''lease_version''))" by blast
  moreover from rows have "list_all times_ok attempts" by (simp add: list_all_iff)
  moreover from ids(2) n(2) have "length (dedup (column ''attempt_id'' attempts)) = length attempts" by simp
  ultimately show ?thesis using c n ne fin by (simp add: final_attempt_ok_def)
qed

definition sample_attempt :: "int \<Rightarrow> int \<Rightarrow> (string \<times> pyval) list \<Rightarrow> pydict" where
  "sample_attempt n lease kvs = map (\<lambda>(k, v). (U k, v)) ([(''attempt_number'', PInt n), (''lease_version'', PInt lease),
     (''attempt_id'', PInt n), (''job_id'', PInt 7), (''execution_id'', PInt 8),
     (''started_at'', PStr (U ''2024-01-01T00:00:00Z'')), (''finished_at'', PStr (U ''2024-01-01T00:00:01Z''))] @ kvs)"

definition sample_attempts :: "pydict list" where
  "sample_attempts = [sample_attempt 1 3 [(''status'', PStr (U ''FAILED'')), (''error_code'', PStr (U ''E''))],
     sample_attempt 2 5 [(''status'', PStr (U ''SUCCEEDED'')), (''outcome'', PStr (U ''done''))]]"

definition sample_job :: pydict where
  "sample_job = map (\<lambda>(k, v). (U k, v)) [(''attempt_count'', PInt 2), (''lease_version'', PInt 5), (''job_id'', PInt 7),
     (''execution_id'', PInt 8), (''state'', PStr (U ''SUCCEEDED''))]"

theorem consistent_history_witness:
  "job_attempts_consistent sample_job sample_attempts (U ''done'') = Inr True \<and> list_all times_ok sample_attempts"
proof -
  have "job_attempts_consistent sample_job sample_attempts (U ''done'') = Inr True" by code_simp
  with consistent_history [OF this] show ?thesis by blast
qed

end
