(* ===== verification/Week2_Report.thy ===== *)
theory Week2_Report
  imports Week2_Constants Week4_Receipt
begin

text \<open>
  Tokens, output of the command line, failpoint acknowledgements, redaction and the report of week 2.
\<close>

section \<open>Tokens\<close>

definition token_claims :: "pystr \<Rightarrow> pystr list \<Rightarrow> int \<Rightarrow> pyval" where
  "token_claims subject scopes now = PDict [(U ''iss'', PStr (U ''moduledev-course'')), (U ''aud'', PStr (U ''moduledev-api'')),
     (U ''sub'', PStr subject), (U ''consumer'', PStr (U ''public-check'')), (U ''scope'', PStr (join_str (U '' '') scopes)),
     (U ''iat'', PInt now), (U ''exp'', PInt (now + 900))]"

definition issue_token :: "pystr \<Rightarrow> pystr \<Rightarrow> pystr list \<Rightarrow> int \<Rightarrow> pystr res" where
  "issue_token secret subject scopes now =
     res_bind (dumps (compact\<lparr>ensure_ascii := True\<rparr>) (token_claims subject scopes now)) (\<lambda>claims.
     res_bind (utf8_encode claims) (\<lambda>raw.
     res_bind (utf8_encode secret) (\<lambda>key.
       let signing_input = token_header @ U ''.'' @ base64url raw
       in Inr (signing_input @ U ''.'' @ base64url (hmac_sha256 key signing_input)))))"

section \<open>Output of commands\<close>

definition extract_cli_json :: "nat \<Rightarrow> pystr \<Rightarrow> pydict option res" where
  "extract_cli_json depth out =
     (let s = strip out in
      if s = [] then Inr None
      else case loads depth s of
        Inl e \<Rightarrow> if e = JSONDecodeError then Inr None else Inl e
      | Inr (PDict d) \<Rightarrow> Inr (Some d)
      | Inr _ \<Rightarrow> Inr None)"

definition failpoint_of :: "pystr \<Rightarrow> pyval \<Rightarrow> pyval list" where
  "failpoint_of expected_name value = (case value of
     PDict d \<Rightarrow>
       if dget_none d (U ''event'') = PStr (U ''failpoint.reached'') \<and> dget_none d (U ''name'') = PStr expected_name \<and>
         is_str (dget_none d (U ''instanceId'')) \<and> truthy (dget_none d (U ''instanceId''))
       then [PDict [(U ''event'', PStr (U ''failpoint.reached'')), (U ''name'', PStr expected_name),
         (U ''instanceId'', dget_none d (U ''instanceId''))]]
       else []
   | _ \<Rightarrow> [])"

definition failpoint_line :: "nat \<Rightarrow> pystr \<Rightarrow> pystr \<Rightarrow> pyval list res" where
  "failpoint_line depth expected_name line = (case find_sub (U ''{'') line of
     None \<Rightarrow> Inr []
   | Some start \<Rightarrow> (case raw_decode depth (drop start line) of
       Inl e \<Rightarrow> if e = JSONDecodeError then Inr [] else Inl e
     | Inr (value, _) \<Rightarrow> Inr (failpoint_of expected_name value)))"

definition parse_failpoint_acks :: "nat \<Rightarrow> pystr \<Rightarrow> pystr \<Rightarrow> pyval list res" where
  "parse_failpoint_acks depth log_text expected_name = res_concat (failpoint_line depth expected_name) (splitlines log_text)"

section \<open>Redaction\<close>

definition SECRET_KEY :: regex where
  "SECRET_KEY = RSeq (ralts [rstr_ci ''authorization'', rstr_ci ''password'', rstr_ci ''secret'',
     RSeq (rstr_ci ''signing'') (ropt (RSeq (ropt (RCls (\<lambda>c. c = 95 \<or> c = 45))) (rstr_ci ''key''))),
     rstr_ci ''token'', rstr_ci ''payload'', rstr_ci ''processdata'', rstr_ci ''body'']) REnd"

definition redact_text :: "pystr list \<Rightarrow> pystr \<Rightarrow> pystr" where
  "redact_text sensitive s =
     (let rendered = foldl (\<lambda>t item. if item = [] then t else replace_str item (U ''<redacted>'') t) s sensitive
      in if length rendered \<le> 1000 then rendered else take 997 rendered @ U ''...'')"

text \<open>
  Two keys with the same first hundred characters fall together: the later value replaces the earlier
  one. The limit of 200 members is applied after the members are redacted, which gives the same list
  as before it; the order of a set's elements is that of the model's list.
\<close>

fun redact :: "pystr list \<Rightarrow> nat \<Rightarrow> pyval \<Rightarrow> pyval" where
  "redact sensitive depth (PDict d) =
     (if 7 < depth then PStr (U ''<depth-limited>'')
      else PDict (dict_of (take 200 (map (\<lambda>(k, x). (take 100 k,
        if search_ok SECRET_KEY (take 100 k) then PStr (U ''<redacted>'') else redact sensitive (depth + 1) x)) d))))"
| "redact sensitive depth (PList xs) =
     (if 7 < depth then PStr (U ''<depth-limited>'') else PList (take 200 (map (redact sensitive (depth + 1)) xs)))"
| "redact sensitive depth (PTuple xs) =
     (if 7 < depth then PStr (U ''<depth-limited>'') else PList (take 200 (map (redact sensitive (depth + 1)) xs)))"
| "redact sensitive depth (PSet xs) =
     (if 7 < depth then PStr (U ''<depth-limited>'') else PList (take 200 (map (redact sensitive (depth + 1)) xs)))"
| "redact sensitive depth (PStr s) =
     (if 7 < depth then PStr (U ''<depth-limited>'') else PStr (redact_text sensitive s))"
| "redact sensitive depth v = (if 7 < depth then PStr (U ''<depth-limited>'') else v)"

section \<open>The report\<close>

definition BLOCKED :: "pystr set" where
  "BLOCKED = U ` {''score'', ''points'', ''criterionid'', ''evidenceid'', ''diagnosticcode''}"

fun report_has_forbidden_keys :: "pyval \<Rightarrow> bool" where
  "report_has_forbidden_keys (PDict d) = list_ex (\<lambda>(k, x). casefold k \<in> BLOCKED \<or> report_has_forbidden_keys x) d"
| "report_has_forbidden_keys (PList xs) = list_ex report_has_forbidden_keys xs"
| "report_has_forbidden_keys _ = False"

definition failed_checks :: "pydict list \<Rightarrow> pyval list res" where
  "failed_checks checks = res_map (\<lambda>item. ditem item (U ''name''))
     (filter (\<lambda>item. dget_none item (U ''status'') \<noteq> PStr (U ''passed'')) checks)"

definition build_report :: "pystr \<Rightarrow> pystr \<Rightarrow> pystr \<Rightarrow> pydict list \<Rightarrow> pydict list \<Rightarrow> pyval res" where
  "build_report started_at finished_at st checks commands =
     res_bind (failed_checks checks) (\<lambda>failed. Inr (PDict [
       (U ''manifestVersion'', PStr MANIFEST_VERSION),
       (U ''toolVersion'', PStr TOOL_VERSION),
       (U ''timestamps'', PDict [(U ''startedAt'', PStr started_at), (U ''finishedAt'', PStr finished_at)]),
       (U ''status'', PStr st),
       (U ''checks'', PList (map PDict checks)),
       (U ''failedChecks'', PList failed),
       (U ''commands'', PList (map PDict commands))]))"

end
