(* ===== verification/Week2_Compose.thy ===== *)
theory Week2_Compose
  imports Week2_Constants
begin

text \<open>
  The safety check of the Compose configuration in week 2. \<open>expand\<close> is \<^verbatim>\<open>Path.expanduser\<close> and \<open>resolve\<close>
  \<^verbatim>\<open>Path.resolve\<close>; the text of the Compose file is an argument where the source reads it.
\<close>

section \<open>Ports, volumes, paths\<close>

text \<open>What cannot be read as a number counts as port 0.\<close>

definition port_value :: "pyval \<Rightarrow> pyval" where
  "port_value entry = (case entry of
     PDict d \<Rightarrow> dget_none d (U ''published'')
   | _ \<Rightarrow>
       if is_str entry \<or> is_int entry \<or> is_bool entry
       then (let parts = rsplit_ch 58 2 (py_str entry) in if 2 \<le> length parts then PStr (parts ! (length parts - 2)) else PNone)
       else PNone)"

definition port_number :: "pyval \<Rightarrow> int res" where
  "port_number value = (case py_int value of
     Inr n \<Rightarrow> Inr n
   | Inl e \<Rightarrow> if e = TypeError \<or> is_ValueError e then Inr 0 else Inl e)"

definition published_ports :: "pyval \<Rightarrow> int set res" where
  "published_ports service = (case service of
     PDict d \<Rightarrow> res_bind (py_iter (get_or (PList []) d (U ''ports''))) (\<lambda>entries.
       res_bind (res_map (\<lambda>entry. port_number (port_value entry)) entries) (\<lambda>ps. Inr (set ps)))
   | _ \<Rightarrow> Inr {})"

text \<open>Kind, source and whether the mount is read-only.\<close>

definition volume_source :: "pyval \<Rightarrow> pyval \<times> pyval \<times> bool" where
  "volume_source value = (case value of
     PDict d \<Rightarrow> (dget_none d (U ''type''), dget_none d (U ''source''), dget_none d (U ''read_only'') = PBool True)
   | PStr s \<Rightarrow>
       let parts = split_ch 58 s in
       if length parts < 2 then (PStr (U ''volume''), value, False)
       else let source = parts ! 0;
                kind = (if startswith source (U ''/'') \<or> startswith source (U ''.'') \<or> startswith source (U ''~'')
                        then U ''bind'' else U ''volume'');
                options = (if 2 < length parts then split_ch 44 (parts ! 2) else [])
            in (PStr kind, PStr source, U ''ro'' \<in> set options)
   | _ \<Rightarrow> (PNone, PNone, False))"

definition candidate_path :: "(pystr \<Rightarrow> pystr) \<Rightarrow> pystr \<Rightarrow> pystr \<Rightarrow> pystr" where
  "candidate_path expand value base = path_join base (expand value)"

text \<open>Only \<^verbatim>\<open>ValueError\<close> is caught: an error of the file system leaves the function.\<close>

definition inside :: "(pystr \<Rightarrow> pystr list res) \<Rightarrow> pystr \<Rightarrow> pystr \<Rightarrow> bool res" where
  "inside resolve p root =
     (case res_bind (resolve p) (\<lambda>c. res_bind (resolve root) (\<lambda>r. Inr (is_relative_to c r))) of
        Inl e \<Rightarrow> if is_ValueError e then Inr False else Inl e
      | Inr b \<Rightarrow> Inr b)"

definition outside :: "(pystr \<Rightarrow> pystr list res) \<Rightarrow> pystr \<Rightarrow> pystr \<Rightarrow> bool res" where
  "outside resolve p root = res_bind (inside resolve p root) (\<lambda>b. Inr (\<not> b))"

definition raw_field :: "string \<Rightarrow> regex" where
  "raw_field field = rseqs [RAlt RLineBegin (RCls (\<lambda>c. c = 123 \<or> c = 44)), RStar rspace,
     RAlt (rstr field) (rseqs [RCls (\<lambda>c. c = 34 \<or> c = 39), rstr field, RCls (\<lambda>c. c = 34 \<or> c = 39)]), RStar rspace, rch 58]"

definition raw_compose_findings :: "pystr res \<Rightarrow> pystr \<Rightarrow> pystr list res" where
  "raw_compose_findings content os_message = (case content of
     Inl e \<Rightarrow> if e = OSError then Inr [U ''Compose file is unreadable: '' @ os_message] else Inl e
   | Inr s \<Rightarrow> Inr (concat (map (\<lambda>field.
       note_if (search_ok (raw_field field) s) (U ''Compose '' @ U field @ U '' is not allowed by the checker sandbox''))
       [''include'', ''extends''])))"

section \<open>One service\<close>

definition truthy_key :: "pydict \<Rightarrow> string \<Rightarrow> bool" where
  "truthy_key d k = truthy (dget_none d (U k))"

definition text_of :: "pydict \<Rightarrow> string \<Rightarrow> pystr" where
  "text_of d k = casefold (py_str (dget_def (PStr []) d (U k)))"

definition NAMESPACE_FIELDS :: "string list" where
  "NAMESPACE_FIELDS = [''network_mode'', ''pid'', ''ipc'', ''uts'', ''userns_mode'', ''cgroup'']"

definition unsafe_namespace :: "pydict \<Rightarrow> string \<Rightarrow> bool" where
  "unsafe_namespace service field =
     (text_of service field = U ''host'' \<or> startswith (text_of service field) (U ''container:'') \<or>
      contains (U ''${'') (py_str (dget_def (PStr []) service (U field))))"

definition runtime_findings :: "pystr \<Rightarrow> pydict \<Rightarrow> pystr list" where
  "runtime_findings name service =
     note_if (dget_none service (U ''privileged'') = PBool True) (name @ U '': privileged'') @
     concat (map (\<lambda>field. note_if (unsafe_namespace service field) (name @ U '': unsafe '' @ U field)) NAMESPACE_FIELDS) @
     note_if (list_ex (truthy_key service) [''devices'', ''device_cgroup_rules'', ''gpus'', ''cap_add'', ''runtime''])
       (name @ U '': elevated device/capability access'') @
     note_if (truthy_key service ''use_api_socket'') (name @ U '': Docker API socket access'') @
     note_if (truthy_key service ''volumes_from'') (name @ U '': volumes_from'') @
     note_if (truthy_key service ''provider'') (name @ U '': external service provider'') @
     note_if (truthy_key service ''external_links'') (name @ U '': external_links'') @
     (case get_or (PDict []) service (U ''logging'') of
        PDict logging \<Rightarrow> note_if (text_of logging ''driver'' \<notin> {[], U ''json-file'', U ''local''}) (name @ U '': external logging driver'')
      | _ \<Rightarrow> []) @
     note_if (truthy_key service ''credential_spec'') (name @ U '': credential_spec'')"

definition security_findings :: "pystr \<Rightarrow> pydict \<Rightarrow> pystr list res" where
  "security_findings name service =
     res_bind (py_iter (get_or (PList []) service (U ''security_opt''))) (\<lambda>options.
       Inr (concat (map (\<lambda>option. note_if (contains (U ''unconfined'') (casefold (py_str option)))
         (name @ U '': unconfined security option'')) options)))"

definition volume_findings ::
    "(pystr \<Rightarrow> pystr) \<Rightarrow> (pystr \<Rightarrow> pystr list res) \<Rightarrow> pystr \<Rightarrow> pystr \<Rightarrow> pyval \<Rightarrow> pystr list res" where
  "volume_findings expand resolve repo name volume = (case volume_source volume of (kind, source, _) \<Rightarrow>
     if \<not> truthy source then Inr []
     else res_append
       (Inr (note_if (contains (U ''${'') (py_str source)) (name @ U '': interpolated volume source'') @
          note_if (contains (U ''docker.sock'') (casefold (py_str source))) (name @ U '': Docker socket mount'')))
       (if kind = PStr (U ''bind'')
        then res_bind (inside resolve (candidate_path expand (py_str source) repo) repo) (\<lambda>b.
          Inr [if b then name @ U '': repository bind mount'' else name @ U '': external bind mount''])
        else Inr []))"

definition volumes_findings ::
    "(pystr \<Rightarrow> pystr) \<Rightarrow> (pystr \<Rightarrow> pystr list res) \<Rightarrow> pystr \<Rightarrow> pystr \<Rightarrow> pydict \<Rightarrow> pystr list res" where
  "volumes_findings expand resolve repo name service =
     res_bind (py_iter (get_or (PList []) service (U ''volumes''))) (res_concat (volume_findings expand resolve repo name))"

text \<open>\<^verbatim>\<open>"${" in s or "://" in s or not _inside(path, repo)\<close>\<close>

definition remote_text :: "pystr \<Rightarrow> bool" where
  "remote_text s = (contains (U ''${'') s \<or> contains (U ''://'') s)"

definition external :: "(pystr \<Rightarrow> pystr list res) \<Rightarrow> pystr \<Rightarrow> bool \<Rightarrow> pystr \<Rightarrow> 'a \<Rightarrow> 'a list res" where
  "external resolve repo suspicious p finding =
     res_bind (res_or (Inr suspicious) (outside resolve p repo)) (\<lambda>b. Inr (note_if b finding))"

definition additional_findings ::
    "(pystr \<Rightarrow> pystr) \<Rightarrow> (pystr \<Rightarrow> pystr list res) \<Rightarrow> pystr \<Rightarrow> pystr \<Rightarrow> pyval \<Rightarrow> pystr list res" where
  "additional_findings expand resolve repo name entry =
     (let source = split1_last (U ''='') (py_str entry) in
      if startswith source (U ''service:'') \<or> startswith source (U ''docker-image://'') then Inr []
      else external resolve repo (remote_text source) (candidate_path expand source repo)
        (name @ U '': external additional build context''))"

definition build_dict_findings ::
    "(pystr \<Rightarrow> pystr) \<Rightarrow> (pystr \<Rightarrow> pystr list res) \<Rightarrow> pystr \<Rightarrow> pystr \<Rightarrow> pystr \<Rightarrow> pydict \<Rightarrow> pystr list res" where
  "build_dict_findings expand resolve repo name context_path build =
     (let dockerfile = dget_none build (U ''dockerfile'') in
      res_append
        (if truthy dockerfile
         then external resolve repo (remote_text (py_str dockerfile)) (candidate_path expand (py_str dockerfile) context_path)
           (name @ U '': external Dockerfile'')
         else Inr [])
      (res_append (Inr (
         note_if (list_ex (truthy_key build) [''privileged'', ''ssh'', ''secrets'']) (name @ U '': unsafe build privilege/secret option'') @
         note_if (list_ex (truthy_key build) [''tags'', ''cache_to'', ''output'']) (name @ U '': unsafe build exporter/tag option'') @
         note_if (text_of build ''network'' = U ''host'') (name @ U '': host build network'')))
      (res_append
        (res_bind (py_iter (get_or (PList []) build (U ''entitlements''))) (\<lambda>es.
          Inr (note_if (set (map (\<lambda>e. casefold (py_str e)) es) \<inter> {U ''network.host'', U ''security.insecure''} \<noteq> {})
            (name @ U '': unsafe build entitlement''))))
        (res_bind (case get_or (PDict []) build (U ''additional_contexts'') of PDict d \<Rightarrow> Inr (map snd d) | v \<Rightarrow> py_iter v)
          (res_concat (additional_findings expand resolve repo name))))))"

definition build_findings ::
    "(pystr \<Rightarrow> pystr) \<Rightarrow> (pystr \<Rightarrow> pystr list res) \<Rightarrow> pystr \<Rightarrow> pystr \<Rightarrow> pyval \<Rightarrow> pystr list res" where
  "build_findings expand resolve repo name build =
     (if \<not> truthy build then Inr []
      else let context_text = py_str (case build of PDict d \<Rightarrow> dget_def (PStr (U ''.'')) d (U ''context'') | _ \<Rightarrow> build);
               context_path = candidate_path expand context_text repo in
        res_append
          (external resolve repo (remote_text context_text \<or> startswith context_text (U ''git@'')) context_path
            (name @ U '': external build context''))
          (case build of PDict d \<Rightarrow> build_dict_findings expand resolve repo name context_path d | _ \<Rightarrow> Inr []))"

definition env_file_findings ::
    "(pystr \<Rightarrow> pystr) \<Rightarrow> (pystr \<Rightarrow> pystr list res) \<Rightarrow> pystr \<Rightarrow> pystr \<Rightarrow> pydict \<Rightarrow> pystr list res" where
  "env_file_findings expand resolve repo name service =
     (let env_files = get_or (PList []) service (U ''env_file'') in
      res_bind (if is_str env_files \<or> is_dict env_files then Inr [env_files] else py_iter env_files) (res_concat (\<lambda>entry.
        let v = (case entry of PDict d \<Rightarrow> dget_none d (U ''path'') | _ \<Rightarrow> entry) in
        if truthy v
        then external resolve repo (remote_text (py_str v)) (candidate_path expand (py_str v) repo) (name @ U '': external env_file'')
        else Inr [])))"

definition unsafe_service ::
    "(pystr \<Rightarrow> pystr) \<Rightarrow> (pystr \<Rightarrow> pystr list res) \<Rightarrow> pystr \<Rightarrow> pystr \<times> pyval \<Rightarrow> pystr list res" where
  "unsafe_service expand resolve repo ns = (case ns of (name, service) \<Rightarrow>
     (case service of
        PDict d \<Rightarrow> res_append (Inr (runtime_findings name d))
          (res_append (security_findings name d)
          (res_append (volumes_findings expand resolve repo name d)
          (res_append (build_findings expand resolve repo name (dget_none d (U ''build'')))
            (env_file_findings expand resolve repo name d))))
      | _ \<Rightarrow> Inr []))"

section \<open>Shared resources\<close>

definition resource_file_findings ::
    "(pystr \<Rightarrow> pystr) \<Rightarrow> (pystr \<Rightarrow> pystr list res) \<Rightarrow> pystr \<Rightarrow> string \<Rightarrow> pystr \<Rightarrow> pydict \<Rightarrow> pystr list res" where
  "resource_file_findings expand resolve repo section_name label resource =
     (let source = dget_none resource (U ''file'') in
      if \<not> truthy source then Inr []
      else res_bind (inside resolve (candidate_path expand (py_str source) repo) repo) (\<lambda>b.
        Inr (if \<not> b then [label @ U '': external file'']
             else note_if (section_name \<in> {''configs'', ''secrets''}) (label @ U '': repository file mount''))))"

definition resource_option_findings :: "string \<Rightarrow> pystr \<Rightarrow> pydict \<Rightarrow> pystr list" where
  "resource_option_findings section_name label resource =
     (let driver = text_of resource ''driver'' in
      note_if (dget_none resource (U ''external'') = PBool True) (label @ U '': external resource'') @
      note_if (section_name = ''volumes'' \<and> (driver \<notin> {[], U ''local''} \<or> truthy_key resource ''driver_opts''))
        (label @ U '': unsafe volume driver/options'') @
      note_if (section_name = ''networks'' \<and> driver \<notin> {[], U ''bridge''}) (label @ U '': unsafe network driver'') @
      note_if (section_name = ''networks'' \<and> (truthy_key resource ''driver_opts'' \<or> truthy_key resource ''ipam''))
        (label @ U '': unsafe network options'') @
      note_if (section_name \<in> {''configs'', ''secrets''} \<and> driver \<noteq> []) (label @ U '': unsafe resource driver''))"

definition section_findings ::
    "(pystr \<Rightarrow> pystr) \<Rightarrow> (pystr \<Rightarrow> pystr list res) \<Rightarrow> pystr \<Rightarrow> pydict \<Rightarrow> string \<Rightarrow> pystr list res" where
  "section_findings expand resolve repo config section_name = (case get_or (PDict []) config (U section_name) of
     PDict resources \<Rightarrow> res_concat (\<lambda>(name, resource). (case resource of
         PDict r \<Rightarrow> (let label = U section_name @ U ''.'' @ name in
           res_append (Inr (resource_option_findings section_name label r))
             (resource_file_findings expand resolve repo section_name label r))
       | _ \<Rightarrow> Inr [])) resources
   | _ \<Rightarrow> Inr [U ''invalid top-level '' @ U section_name])"

definition unsafe_compose_findings ::
    "(pystr \<Rightarrow> pystr) \<Rightarrow> (pystr \<Rightarrow> pystr list res) \<Rightarrow> pydict \<Rightarrow> pystr \<Rightarrow> pystr list res" where
  "unsafe_compose_findings expand resolve config repo =
     (let services = (case dget_none config (U ''services'') of PDict d \<Rightarrow> d | _ \<Rightarrow> []) in
      res_bind (res_append (res_concat (unsafe_service expand resolve repo) services)
          (res_concat (section_findings expand resolve repo config) [''volumes'', ''networks'', ''configs'', ''secrets''])) (\<lambda>findings.
        Inr (sorted_list_of_set (set findings))))"

end
