(* ===== verification/Week2_Fixture.thy ===== *)
theory Week2_Fixture
  imports Week2_Compose Week1_Checker
begin

text \<open>
  Loading the published fixture in \<^verbatim>\<open>task/week2/autocheck/public_check.py\<close>. \<open>listing\<close> are the files that
  \<^verbatim>\<open>root.rglob("*")\<close> finds, relative to the root; the hash function is a parameter as in week 4.
\<close>

section \<open>Digest\<close>

definition metadata_bytes :: "file_system \<Rightarrow> nat \<Rightarrow> pystr \<Rightarrow> pybytes res" where
  "metadata_bytes fs depth root = (case read_json fs depth (path_join root (U ''fixture.json'')) of
     Inl e \<Rightarrow> Inl (if e = OSError \<or> e = JSONDecodeError then FixtureError (U ''Invalid fixture.json'') else e)
   | Inr (PDict metadata) \<Rightarrow> res_bind (dumps compact_sorted (PDict (dpop (U ''digest'') metadata))) (\<lambda>t. utf8_encode (t @ [10]))
   | Inr _ \<Rightarrow> Inl (FixtureError (U ''fixture.json must contain an object'')))"

definition entry_bytes :: "file_system \<Rightarrow> nat \<Rightarrow> pystr \<Rightarrow> pystr \<Rightarrow> pybytes res" where
  "entry_bytes fs depth root relative =
     res_bind (utf8_encode relative) (\<lambda>name.
     res_bind (if relative = U ''fixture.json'' then metadata_bytes fs depth root
       else res_bind (fs_resolve fs (path_join root relative)) (read_bytes fs)) (\<lambda>contents.
       Inr (name @ [0] @ contents @ [0])))"

definition hashed_bytes :: "file_system \<Rightarrow> nat \<Rightarrow> pystr list \<Rightarrow> pystr \<Rightarrow> pybytes res" where
  "hashed_bytes fs depth listing root =
     res_bind (res_map (entry_bytes fs depth root) (sort listing)) (\<lambda>parts. Inr (concat parts))"

definition canonical_fixture_digest :: "(pybytes \<Rightarrow> pybytes) \<Rightarrow> file_system \<Rightarrow> nat \<Rightarrow> pystr list \<Rightarrow> pystr \<Rightarrow> pystr res" where
  "canonical_fixture_digest hash fs depth listing root =
     res_bind (hashed_bytes fs depth listing root) (\<lambda>b. Inr (hexdigest (hash b)))"

section \<open>The shape of the metadata\<close>

definition fixture_error :: "string \<Rightarrow> pyexn" where
  "fixture_error s = FixtureError (U s)"

definition check_object :: "pydict \<Rightarrow> pystr \<times> pystr set \<Rightarrow> unit res" where
  "check_object v = (\<lambda>(field, expected). case dget_none v field of
     PDict child \<Rightarrow>
       if dkeys child \<noteq> expected then Inl (FixtureError (U ''Fixture object '' @ field @ U '' has invalid fields''))
       else ensure (list_all (\<lambda>(k, item). is_str item \<and> truthy item) child)
         (FixtureError (U ''Fixture object '' @ field @ U '' must contain non-empty strings''))
   | _ \<Rightarrow> Inl (FixtureError (U ''Fixture object '' @ field @ U '' has invalid fields'')))"

definition check_category :: "pydict \<Rightarrow> string \<Rightarrow> unit res" where
  "check_category invalid category = (case dget_none invalid (U category) of
     PList paths \<Rightarrow>
       if paths = [] then Inl (FixtureError (U ''Fixture invalidMaps.'' @ U category @ U '' must be a non-empty unique list''))
       else res_bind (py_set paths) (\<lambda>distinct_paths.
         res_bind (ensure (length paths = length distinct_paths)
           (FixtureError (U ''Fixture invalidMaps.'' @ U category @ U '' must be a non-empty unique list''))) (\<lambda>_.
         ensure (list_all (\<lambda>item. is_str item \<and> truthy item) paths)
           (FixtureError (U ''Fixture invalidMaps.'' @ U category @ U '' contains an invalid path''))))
   | _ \<Rightarrow> Inl (FixtureError (U ''Fixture invalidMaps.'' @ U category @ U '' must be a non-empty unique list'')))"

text \<open>A member that must be an object with these keys.\<close>

definition object_with :: "pyval \<Rightarrow> pystr set \<Rightarrow> string \<Rightarrow> pydict res" where
  "object_with v keys message = (case v of
     PDict d \<Rightarrow> if dkeys d = keys then Inr d else Inl (fixture_error message)
   | _ \<Rightarrow> Inl (fixture_error message))"

definition member_texts :: "pydict \<Rightarrow> pystr \<Rightarrow> pystr list" where
  "member_texts d key = (case dget_none d key of
     PList xs \<Rightarrow> map py_str xs
   | PDict e \<Rightarrow> map (\<lambda>(k, v). py_str v) e
   | _ \<Rightarrow> [])"

text \<open>\<^verbatim>\<open>_fixture_paths\<close>, for files whose shape was checked.\<close>

definition fixture_paths :: "pydict \<Rightarrow> pystr set" where
  "fixture_paths files =
     (\<lambda>name. py_str (dget_none files name)) ` (FIXTURE_FILE_FIELDS - U ` {''invalidMaps'', ''processData''}) \<union>
     (case dget_none files (U ''invalidMaps'') of
        PDict invalid \<Rightarrow> set (member_texts invalid (U ''schema'')) \<union> set (member_texts invalid (U ''semantic''))
      | _ \<Rightarrow> {}) \<union>
     set (member_texts files (U ''processData''))"

definition check_metadata :: "pydict \<Rightarrow> unit res" where
  "check_metadata v =
     res_bind (ensure (dkeys v = FIXTURE_FIELDS) (fixture_error ''fixture.json fields differ from the published fixture'')) (\<lambda>_.
     res_bind (ensure (dget_none v (U ''contractVersion'') = PStr (U ''course-1'')) (fixture_error ''Fixture contractVersion must be course-1'')) (\<lambda>_.
     res_bind (ensure (dget_none v (U ''generatorVersion'') = PStr PUBLISHED_FIXTURE_GENERATOR)
       (fixture_error ''Fixture generatorVersion is not the published version'')) (\<lambda>_.
     res_bind (ensure (dget_none v (U ''generationPhase'') = PStr (U ''post-build'') \<and> dget_none v (U ''orderingOwner'') = PStr (U ''runner''))
       (fixture_error ''Fixture generation/order metadata is invalid'')) (\<lambda>_.
     res_bind (ensure (dget_none v (U ''seedMode'') = PStr (U ''explicit-test-seed'') \<and> py_eq (dget_none v (U ''actionVersion'')) (PInt 1))
       (fixture_error ''Fixture seed/action metadata is invalid'')) (\<lambda>_.
       for_each (check_object v) FIXTURE_OBJECT_FIELDS)))))"

definition check_files :: "pyval \<Rightarrow> pydict res" where
  "check_files v =
     res_bind (object_with v FIXTURE_FILE_FIELDS ''Fixture files object has invalid fields'') (\<lambda>files.
     res_bind (object_with (dget_none files (U ''invalidMaps'')) (U ` {''schema'', ''semantic''}) ''Fixture invalidMaps object is invalid'') (\<lambda>invalid.
     res_bind (for_each (check_category invalid) [''schema'', ''semantic'']) (\<lambda>_.
     res_bind (object_with (dget_none files (U ''processData'')) PROCESS_DATA_FIELDS ''Fixture processData object has invalid fields'') (\<lambda>_.
       Inr files))))"

section \<open>Loading\<close>

text \<open>\<^verbatim>\<open>Path.is_file\<close>\<close>

definition is_file :: "file_system \<Rightarrow> pystr \<Rightarrow> bool" where
  "is_file fs p = (case fs_resolve fs p of Inr q \<Rightarrow> fs_file fs q \<noteq> None | Inl _ \<Rightarrow> False)"

definition check_path :: "file_system \<Rightarrow> pystr \<Rightarrow> pystr \<Rightarrow> unit res" where
  "check_path fs root relative =
     res_bind (ensure (\<not> is_absolute relative \<and> U ''..'' \<notin> set (path_parts relative)) (FixtureError (U ''Unsafe fixture path: '' @ relative))) (\<lambda>_.
     res_bind (ensure (is_file fs (path_join root relative)) (FixtureError (U ''Missing fixture path: '' @ relative))) (\<lambda>_.
     res_bind (inside (fs_resolve fs) (path_join root relative) root) (\<lambda>b.
       ensure b (FixtureError (U ''Missing fixture path: '' @ relative)))))"

definition HEX64 :: regex where
  "HEX64 = rtimes 64 (RCls (\<lambda>c. in_range 97 102 c \<or> in_range 48 57 c))"

definition check_digest :: "(pybytes \<Rightarrow> pybytes) \<Rightarrow> file_system \<Rightarrow> nat \<Rightarrow> pystr list \<Rightarrow> pystr \<Rightarrow> pyval \<Rightarrow> unit res" where
  "check_digest hash fs depth listing root digest = (case digest of
     PStr d \<Rightarrow>
       if \<not> fullmatch_ok HEX64 d then Inl (fixture_error ''Fixture digest has invalid syntax'')
       else res_bind (canonical_fixture_digest hash fs depth listing root) (\<lambda>actual.
         ensure (d = PUBLISHED_FIXTURE_DIGEST \<and> actual = PUBLISHED_FIXTURE_DIGEST)
           (fixture_error ''Fixture digest differs from the published checker fixture''))
   | _ \<Rightarrow> Inl (fixture_error ''Fixture digest has invalid syntax''))"

definition check_identifier :: "pydict \<Rightarrow> string \<Rightarrow> unit res" where
  "check_identifier v field = ensure (fullmatch_ok SQL_IDENTIFIER (py_str (dget_def (PStr []) v (U field))))
     (FixtureError (U ''Fixture identifier '' @ U field @ U '' is invalid''))"

definition read_metadata_dict :: "file_system \<Rightarrow> nat \<Rightarrow> pystr \<Rightarrow> pydict res" where
  "read_metadata_dict fs depth root = (case read_json fs depth (path_join root (U ''fixture.json'')) of
     Inl e \<Rightarrow> Inl (if e = OSError \<or> e = JSONDecodeError then fixture_error ''Cannot read fixture.json'' else e)
   | Inr (PDict v) \<Rightarrow> Inr v
   | Inr _ \<Rightarrow> Inl (fixture_error ''fixture.json fields differ from the published fixture''))"

text \<open>The source takes the referenced paths in the order of a set; here they are sorted.\<close>

definition load_fixture :: "(pybytes \<Rightarrow> pybytes) \<Rightarrow> file_system \<Rightarrow> nat \<Rightarrow> pystr list \<Rightarrow> pystr \<Rightarrow> pydict res" where
  "load_fixture hash fs depth listing root =
     res_bind (read_metadata_dict fs depth root) (\<lambda>v.
     res_bind (check_metadata v) (\<lambda>_.
     res_bind (check_files (dget_none v (U ''files''))) (\<lambda>files.
     let referenced = fixture_paths files in
     res_bind (ensure (referenced = set (filter (\<lambda>p. path_name p \<noteq> U ''fixture.json'') listing))
       (fixture_error ''Fixture metadata does not reference exactly the fixture file set'')) (\<lambda>_.
     res_bind (for_each (check_path fs root) (sorted_list_of_set referenced)) (\<lambda>_.
     res_bind (check_digest hash fs depth listing root (dget_none v (U ''digest''))) (\<lambda>_.
     res_bind (for_each (check_identifier v) [''module'', ''action'', ''targetSchema'', ''targetFunction'', ''effectTable'']) (\<lambda>_.
       Inr v)))))))"

section \<open>Facts\<close>

lemma finite_referenced: "finite (fixture_paths files)"
  by (simp add: fixture_paths_def FIXTURE_FILE_FIELDS_def split: pyval.splits)

lemma res_map_mem: "res_map f xs = Inr ys \<Longrightarrow> x \<in> set xs \<Longrightarrow> \<exists>y\<in>set ys. f x = Inr y"
  by (induction xs arbitrary: ys) auto

text \<open>What is hashed contains the content of every listed file but the metadata.\<close>

lemma hashed_content:
  assumes "hashed_bytes fs depth listing root = Inr b" "relative \<in> set listing" "relative \<noteq> U ''fixture.json''"
  shows "\<exists>q content. fs_resolve fs (path_join root relative) = Inr q \<and> fs_file fs q = Some content \<and> contains content b"
proof -
  from assms(1) obtain parts where p: "res_map (entry_bytes fs depth root) (sort listing) = Inr parts" "b = concat parts"
    by (auto simp: hashed_bytes_def)
  from assms(2) res_map_mem [OF p(1)] obtain part where part: "part \<in> set parts" "entry_bytes fs depth root relative = Inr part"
    by auto
  from part(2) assms(3) obtain name q content where q: "fs_resolve fs (path_join root relative) = Inr q" "read_bytes fs q = Inr content"
    "part = name @ [0] @ content @ [0]" by (auto simp: entry_bytes_def)
  from part(1) obtain us vs where "parts = us @ part # vs" by (meson split_list)
  with p(2) q(3) have "b = (concat us @ name @ [0]) @ content @ ([0] @ concat vs)" by simp
  then have "contains content b" unfolding contains_iff by blast
  with q show ?thesis by (auto simp: read_bytes_def split: option.splits)
qed

lemma check_digest_ok:
  "check_digest hash fs depth listing root d = Inr () \<Longrightarrow>
     \<exists>b. hashed_bytes fs depth listing root = Inr b \<and> hexdigest (hash b) = PUBLISHED_FIXTURE_DIGEST"
  by (cases d) (auto simp: check_digest_def canonical_fixture_digest_def split: if_splits)

lemma check_path_ok:
  assumes "check_path fs root relative = Inr ()"
  shows "\<exists>r c. fs_resolve fs root = Inr r \<and> fs_resolve fs (path_join root relative) = Inr (r @ c)"
proof -
  from assms have "inside (fs_resolve fs) (path_join root relative) root = Inr True" by (auto simp: check_path_def)
  then obtain p r where "fs_resolve fs (path_join root relative) = Inr p" "fs_resolve fs root = Inr r" "take (length r) p = r"
    by (auto simp: inside_def is_relative_to_def res_bind_def split: sum.splits if_splits)
  then show ?thesis by (metis append_take_drop_id)
qed

text \<open>
  A fixture that loads is the published one: the files it names are the files that are there, each lies inside its root
  after resolution of links and is part of what the published digest was computed of, and the names that go into SQL are
  plain identifiers.
\<close>

theorem loaded_fixture_is_published:
  assumes "load_fixture hash fs depth listing root = Inr v"
  shows "(\<exists>files b. check_files (dget_none v (U ''files'')) = Inr files \<and>
      fixture_paths files = set (filter (\<lambda>p. path_name p \<noteq> U ''fixture.json'') listing) \<and>
      hashed_bytes fs depth listing root = Inr b \<and> hexdigest (hash b) = PUBLISHED_FIXTURE_DIGEST \<and>
      (\<forall>p\<in>fixture_paths files. \<exists>r c content. fs_resolve fs root = Inr r \<and> fs_resolve fs (path_join root p) = Inr (r @ c) \<and>
         fs_file fs (r @ c) = Some content \<and> contains content b)) \<and>
    list_all (\<lambda>f. sql_ident (py_str (dget_def (PStr []) v (U f)))) [''module'', ''action'', ''targetSchema'', ''targetFunction'', ''effectTable'']"
proof -
  from assms obtain files where f: "check_files (dget_none v (U ''files'')) = Inr files"
    and r: "fixture_paths files = set (filter (\<lambda>p. path_name p \<noteq> U ''fixture.json'') listing)"
    and p: "\<forall>q\<in>set (sorted_list_of_set (fixture_paths files)). check_path fs root q = Inr ()"
    and d: "check_digest hash fs depth listing root (dget_none v (U ''digest'')) = Inr ()"
    and i: "\<forall>g\<in>set [''module'', ''action'', ''targetSchema'', ''targetFunction'', ''effectTable'']. check_identifier v g = Inr ()"
    unfolding load_fixture_def Let_def by auto
  from check_digest_ok [OF d] obtain b where b: "hashed_bytes fs depth listing root = Inr b" "hexdigest (hash b) = PUBLISHED_FIXTURE_DIGEST"
    by blast
  have "\<exists>r c content. fs_resolve fs root = Inr r \<and> fs_resolve fs (path_join root q) = Inr (r @ c) \<and>
         fs_file fs (r @ c) = Some content \<and> contains content b" if q: "q \<in> fixture_paths files" for q
  proof -
    from q p have "check_path fs root q = Inr ()" by (simp add: set_sorted_list_of_set [OF finite_referenced])
    from check_path_ok [OF this] obtain r' c where rc: "fs_resolve fs root = Inr r'" "fs_resolve fs (path_join root q) = Inr (r' @ c)" by blast
    have "path_name (U ''fixture.json'') = U ''fixture.json''" by code_simp
    with q r have "q \<in> set listing" "q \<noteq> U ''fixture.json''" by auto
    from hashed_content [OF b(1) this] rc show ?thesis by auto
  qed
  with f r b i show ?thesis by (auto simp: check_identifier_def sql_identifier_iff)
qed

text \<open>The objects of a loaded fixture have exactly their published members, so that reading one never fails.\<close>

lemma loaded_members:
  assumes "load_fixture hash fs depth listing root = Inr v" "(key, keys) \<in> set FIXTURE_OBJECT_FIELDS"
  shows "\<exists>d. dget_none v key = PDict d \<and> dkeys d = keys"
proof -
  from assms(1) have "check_metadata v = Inr ()" unfolding load_fixture_def Let_def by auto
  then have "for_each (check_object v) FIXTURE_OBJECT_FIELDS = Inr ()" unfolding check_metadata_def by simp
  with assms(2) have "check_object v (key, keys) = Inr ()" unfolding for_each_eq_Inr by blast
  then show ?thesis by (auto simp: check_object_def split: pyval.splits if_splits)
qed

lemma loaded_files:
  assumes "load_fixture hash fs depth listing root = Inr v"
  shows "\<exists>files invalid data. dget_none v (U ''files'') = PDict files \<and> dkeys files = FIXTURE_FILE_FIELDS \<and>
    dget_none files (U ''invalidMaps'') = PDict invalid \<and> dkeys invalid = U ` {''schema'', ''semantic''} \<and>
    dget_none files (U ''processData'') = PDict data \<and> dkeys data = PROCESS_DATA_FIELDS"
proof -
  from assms obtain f where "check_files (dget_none v (U ''files'')) = Inr f" unfolding load_fixture_def Let_def by auto
  moreover have "object_with x keys m = Inr d \<Longrightarrow> x = PDict d \<and> dkeys d = keys" for x keys m d
    by (auto simp: object_with_def split: pyval.splits if_splits)
  ultimately show ?thesis unfolding check_files_def by auto blast
qed

end
