(* ===== verification/Week2_Build.thy ===== *)
theory Week2_Build
  imports Week2_Compose Week4_Fixture
begin

text \<open>
  \<^verbatim>\<open>_dotnet_build_declared\<close> of \<^verbatim>\<open>task/week2/autocheck/public_check.py\<close>: whether the Dockerfile of a service builds on a
  .NET image and starts a .NET program. Names are compared with one another under \<^verbatim>\<open>str.casefold\<close>, so its table is the
  parameter \<open>fold_case\<close>; \<open>alnum\<close> is the table of \<^verbatim>\<open>str.isalnum\<close>, \<open>expand\<close> is \<^verbatim>\<open>Path.expanduser\<close> and \<open>projects\<close> the paths that
  \<^verbatim>\<open>repo.rglob("*.csproj")\<close> finds.
\<close>

section \<open>Expressions\<close>

definition nonspace :: regex where
  "nonspace = RCls (\<lambda>c. \<not> is_space c)"

definition FROM_LINE :: regex where
  "FROM_LINE = rseqs [RLineBegin, RStar rspace, rstr_ci ''FROM'',
     ropt (rseqs [rplus rspace, rstr_ci ''--platform='', rplus nonspace]), rplus rspace, RGroup 1 (rplus nonspace),
     ropt (rseqs [rplus rspace, rstr_ci ''AS'', rplus rspace, RGroup 2 (rplus nonspace)]), RStar rdot, RLineEnd]"

definition COMMAND_LINE :: regex where
  "COMMAND_LINE = rseqs [RLineBegin, RStar rspace, names_ci [''ENTRYPOINT'', ''CMD''], rplus rspace, RGroup 1 (rplus rdot), RLineEnd]"

definition ASSEMBLY_NAME :: regex where
  "ASSEMBLY_NAME = (let c = RCls (\<lambda>c. c \<noteq> 60) in rseqs [rstr_ci ''<AssemblyName>'', RStar rspace, RGroup 1 (RSeq c (RLazy c)),
     RStar rspace, rstr_ci ''</AssemblyName>''])"

definition COPY_LINE :: regex where
  "COPY_LINE = rseqs [RLineBegin, RStar rspace, rstr_ci ''COPY'', rplus rspace, rstr_ci ''--from='', RGroup 1 (rplus nonspace),
     rplus rspace, RGroup 2 (rplus rdot), RLineEnd]"

definition DOTNET_COMMAND :: "(nat \<Rightarrow> bool) \<Rightarrow> regex" where
  "DOTNET_COMMAND alnum = (let b = RWordB (is_word alnum) in
     RAlt (rseqs [b, rstr_ci ''dotnet'', b]) (rseqs [rstr_ci ''.dll'', b]))"

definition OTHER_RUNTIME :: "(nat \<Rightarrow> bool) \<Rightarrow> regex" where
  "OTHER_RUNTIME alnum = (let b = RWordB (is_word alnum) in
     rseqs [b, ralts [RSeq (rstr_ci ''python'') (RStar rdigit), rstr_ci ''node'', rstr_ci ''java'', rstr_ci ''ruby'', rstr_ci ''php''], b])"

text \<open>The name of a project as a word of the command, \<^verbatim>\<open>re.escape(name)\<close> between delimiters.\<close>

definition PROJECT_WORD :: "pystr \<Rightarrow> regex" where
  "PROJECT_WORD name = rseqs [RAlt RBegin (RCls (\<lambda>c. is_space c \<or> c \<in> {91, 34, 39, 47})),
     foldr (\<lambda>c r. RSeq (rch c) r) name REps, RAlt REnd (RCls (\<lambda>c. is_space c \<or> c \<in> {44, 93, 34, 39}))]"

definition matched_group :: "nat \<Rightarrow> rstate \<times> rstate \<Rightarrow> pystr option" where
  "matched_group n m = group n (caps (snd m))"

definition group_or_empty :: "nat \<Rightarrow> rstate \<times> rstate \<Rightarrow> pystr" where
  "group_or_empty n m = (case matched_group n m of None \<Rightarrow> [] | Some t \<Rightarrow> t)"

section \<open>The Dockerfile\<close>

text \<open>\<^verbatim>\<open>read_text(encoding="utf-8", errors="replace")\<close>\<close>

definition read_text_replace :: "file_system \<Rightarrow> pystr \<Rightarrow> pystr res" where
  "read_text_replace fs p = res_bind (fs_resolve fs p) (\<lambda>q. res_bind (read_bytes fs q) (\<lambda>b. Inr (universal_newlines (utf8_replace b))))"

definition read_dockerfile :: "(pystr \<Rightarrow> pystr) \<Rightarrow> file_system \<Rightarrow> pyval \<Rightarrow> pyval \<Rightarrow> pystr \<Rightarrow> pystr option res" where
  "read_dockerfile expand fs context_value dockerfile_value repo =
     (let ctx = candidate_path expand (py_str context_value) repo; dockerfile = candidate_path expand (py_str dockerfile_value) ctx in
     res_bind (res_or (outside (fs_resolve fs) ctx repo) (outside (fs_resolve fs) dockerfile repo)) (\<lambda>b.
       if b then Inr None
       else (case read_text_replace fs dockerfile of
          Inl e \<Rightarrow> if e = OSError then Inr None else Inl e
        | Inr s \<Rightarrow> Inr (Some s))))"

text \<open>The text of the Dockerfile, or \<open>None\<close> where the function returns false.\<close>

definition dockerfile_text :: "(pystr \<Rightarrow> pystr) \<Rightarrow> file_system \<Rightarrow> pyval \<Rightarrow> pystr \<Rightarrow> pystr option res" where
  "dockerfile_text expand fs build repo =
     (case build of
        PDict d \<Rightarrow> (case dget_none d (U ''dockerfile_inline'') of
            PStr t \<Rightarrow> Inr (Some t)
          | _ \<Rightarrow> read_dockerfile expand fs (dget_def (PStr (U ''.'')) d (U ''context'')) (dget_def (PStr (U ''Dockerfile'')) d (U ''dockerfile'')) repo)
      | _ \<Rightarrow> read_dockerfile expand fs build (PStr (U ''Dockerfile'')) repo)"

section \<open>Stages\<close>

type_synonym stage = "rstate \<times> rstate"

definition stages_of :: "pystr \<Rightarrow> stage list" where
  "stages_of s = refinditer FROM_LINE s"

definition stage_aliases :: "(pystr \<Rightarrow> pystr) \<Rightarrow> stage list \<Rightarrow> (pystr \<times> pystr) list" where
  "stage_aliases fold_case stages = dict_of (concat (map (\<lambda>m. case matched_group 2 m of
     Some a \<Rightarrow> if a = [] then [] else [(fold_case a, group_or_empty 1 m)] | None \<Rightarrow> []) stages))"

text \<open>The index of the stage that is built: the named target or the last one.\<close>

definition selected_stage :: "(pystr \<Rightarrow> pystr) \<Rightarrow> pyval \<Rightarrow> stage list \<Rightarrow> nat option" where
  "selected_stage fold_case build stages =
     (let target = (case build of PDict d \<Rightarrow> dget_none d (U ''target'') | _ \<Rightarrow> PNone) in
      if truthy target
      then find (\<lambda>i. case matched_group 2 (stages ! i) of
          Some a \<Rightarrow> a \<noteq> [] \<and> fold_case a = fold_case (py_str target) | None \<Rightarrow> False) [0..<length stages]
      else Some (length stages - 1))"

definition final_block :: "pystr \<Rightarrow> stage list \<Rightarrow> nat \<Rightarrow> pystr" where
  "final_block s stages selected =
     (let block_end = (if selected + 1 < length stages then length (passed (fst (stages ! (selected + 1)))) else length s);
          start = length (passed (snd (stages ! selected)))
      in take (block_end - start) (drop start s))"

text \<open>The loop of \<^verbatim>\<open>resolve_source\<close> follows aliases and never visits one twice.\<close>

function follow_alias :: "(pystr \<Rightarrow> pystr) \<Rightarrow> (pystr \<times> pystr) list \<Rightarrow> pystr list \<Rightarrow> pystr \<Rightarrow> pystr" where
  "follow_alias fold_case aliases visited current =
     (case map_of aliases (fold_case current) of
        Some next_source \<Rightarrow> if fold_case current \<in> set visited then current
          else follow_alias fold_case aliases (fold_case current # visited) next_source
      | None \<Rightarrow> current)"
  by pat_completeness auto
termination
proof (relation "measure (\<lambda>(fold_case, aliases, visited, current). card (set (map fst aliases) - set visited))", goal_cases)
  case (2 fold_case aliases visited current next_source)
  then have "fold_case current \<in> set (map fst aliases) - set visited" by (force dest: map_of_SomeD)
  then have "card (set (map fst aliases) - set visited - {fold_case current}) < card (set (map fst aliases) - set visited)"
    by (intro card_Diff1_less) simp_all
  also have "set (map fst aliases) - set visited - {fold_case current} = set (map fst aliases) - set (fold_case current # visited)"
    by auto
  finally show ?case by simp
qed simp

declare follow_alias.simps [simp del]

definition resolve_source :: "(pystr \<Rightarrow> pystr) \<Rightarrow> (pystr \<times> pystr) list \<Rightarrow> pystr \<Rightarrow> pystr" where
  "resolve_source fold_case aliases source = follow_alias fold_case aliases [] source"

section \<open>The command and the project names\<close>

definition runtime_command :: "pydict \<Rightarrow> pystr \<Rightarrow> pystr" where
  "runtime_command service block =
     (let c = join_str (U '' '') (map py_str (filter (\<lambda>v. v \<noteq> PNone) [dget_none service (U ''entrypoint''), dget_none service (U ''command'')]))
      in if c \<noteq> [] then c else join_str [10] (map (group_or_empty 1) (refinditer COMMAND_LINE block)))"

text \<open>\<^verbatim>\<open>Path.stem\<close> of a name that ends in \<^verbatim>\<open>.csproj\<close>.\<close>

definition project_stem :: "pystr \<Rightarrow> pystr" where
  "project_stem p = (let name = last (split_ch 47 p) in if length name = 7 then name else take (length name - 7) name)"

definition project_names_of :: "(pystr \<Rightarrow> pystr) \<Rightarrow> file_system \<Rightarrow> pystr \<Rightarrow> pystr \<Rightarrow> pystr set res" where
  "project_names_of fold_case fs repo project =
     res_bind (inside (fs_resolve fs) project repo) (\<lambda>b.
       if \<not> b then Inr {}
       else (case read_text_replace fs project of
          Inl e \<Rightarrow> if e = OSError then Inr {fold_case (project_stem project)} else Inl e
        | Inr s \<Rightarrow> Inr (insert (fold_case (project_stem project)) (set (map (\<lambda>m. fold_case (strip (group_or_empty 1 m))) (refinditer ASSEMBLY_NAME s))))))"

definition project_names :: "(pystr \<Rightarrow> pystr) \<Rightarrow> file_system \<Rightarrow> pystr \<Rightarrow> pystr list \<Rightarrow> pystr set res" where
  "project_names fold_case fs repo projects =
     res_bind (res_map (project_names_of fold_case fs repo) projects) (\<lambda>ns. Inr (\<Union> (set ns)))"

definition recognized_command :: "(pystr \<Rightarrow> pystr) \<Rightarrow> (nat \<Rightarrow> bool) \<Rightarrow> pystr \<Rightarrow> pystr set \<Rightarrow> bool" where
  "recognized_command fold_case alnum cmd names =
     (search_ok (DOTNET_COMMAND alnum) cmd \<or> (\<exists>name\<in>names. search_ok (PROJECT_WORD name) (fold_case cmd)))"

section \<open>What is copied from other stages\<close>

definition dotnet_image :: "(pystr \<Rightarrow> pystr) \<Rightarrow> pystr \<Rightarrow> bool" where
  "dotnet_image fold_case source = contains (U ''mcr.microsoft.com/dotnet/'') (fold_case source)"

text \<open>\<^verbatim>\<open>s.rsplit(maxsplit=1)[-1]\<close>: the last word; a text without one raises \<^verbatim>\<open>IndexError\<close>.\<close>

definition last_word :: "pystr \<Rightarrow> pystr res" where
  "last_word s = (let t = rstrip_by is_space s in if t = [] then Inl IndexError else Inr (rev (takeWhile (\<lambda>c. \<not> is_space c) (rev t))))"

definition copy_destination :: "(pystr \<Rightarrow> pystr) \<Rightarrow> pystr \<Rightarrow> pystr res" where
  "copy_destination fold_case arguments = res_bind (last_word arguments) (\<lambda>t.
     Inr (fold_case (rstrip_by (\<lambda>c. c = 47) (strip_by (\<lambda>c. c \<in> {34, 39, 44, 91, 93}) t))))"

text \<open>For each copy of something the command names: whether it comes from a .NET image.\<close>

definition copied_entrypoints :: "(pystr \<Rightarrow> pystr) \<Rightarrow> (pystr \<times> pystr) list \<Rightarrow> pystr \<Rightarrow> pystr \<Rightarrow> bool list res" where
  "copied_entrypoints fold_case aliases block cmd = res_concat (\<lambda>m.
     res_bind (copy_destination fold_case (group_or_empty 2 m)) (\<lambda>destination.
       Inr (if destination \<noteq> [] \<and> contains destination (fold_case cmd)
         then [dotnet_image fold_case (resolve_source fold_case aliases (group_or_empty 1 m))] else []))) (refinditer COPY_LINE block)"

section \<open>The decision\<close>

definition stage_is_dotnet ::
    "(pystr \<Rightarrow> pystr) \<Rightarrow> (nat \<Rightarrow> bool) \<Rightarrow> file_system \<Rightarrow> pystr list \<Rightarrow> pydict \<Rightarrow> pystr \<Rightarrow> pystr \<Rightarrow> stage list \<Rightarrow> nat \<Rightarrow> bool res" where
  "stage_is_dotnet fold_case alnum fs projects service repo content stages selected =
     (let aliases = stage_aliases fold_case stages; block = final_block content stages selected; cmd = runtime_command service block in
     res_bind (project_names fold_case fs repo projects) (\<lambda>names.
     res_bind (copied_entrypoints fold_case aliases block cmd) (\<lambda>copied.
       Inr ((dotnet_image fold_case (resolve_source fold_case aliases (group_or_empty 1 (stages ! selected))) \<or> True \<in> set copied) \<and>
         recognized_command fold_case alnum cmd names \<and> False \<notin> set copied \<and> \<not> search_ok (OTHER_RUNTIME alnum) cmd))))"

definition dotnet_build_declared ::
    "(pystr \<Rightarrow> pystr) \<Rightarrow> (nat \<Rightarrow> bool) \<Rightarrow> (pystr \<Rightarrow> pystr) \<Rightarrow> file_system \<Rightarrow> pystr list \<Rightarrow> pyval \<Rightarrow> pystr \<Rightarrow> bool res" where
  "dotnet_build_declared fold_case alnum expand fs projects service repo = (case service of
     PDict d \<Rightarrow> (let build = dget_none d (U ''build'') in
       if \<not> truthy build then Inr False
       else res_bind (dockerfile_text expand fs build repo) (\<lambda>t. case t of
         None \<Rightarrow> Inr False
       | Some content \<Rightarrow> (let stages = stages_of content in
           if stages = [] then Inr False
           else (case selected_stage fold_case build stages of
               None \<Rightarrow> Inr False
             | Some selected \<Rightarrow> stage_is_dotnet fold_case alnum fs projects d repo content stages selected))))
   | _ \<Rightarrow> Inr False)"

section \<open>Facts\<close>

text \<open>
  A service that counts as .NET starts a .NET program: its command names \<^verbatim>\<open>dotnet\<close>, a library or a project and no other
  runtime, and nothing that the command names was copied from an image that is not a .NET image.
\<close>

theorem dotnet_declared_sound:
  assumes "dotnet_build_declared fold_case alnum expand fs projects service repo = Inr True"
  shows "\<exists>d content stages selected names copied. service = PDict d \<and> stages = stages_of content \<and> stages \<noteq> [] \<and>
    project_names fold_case fs repo projects = Inr names \<and>
    copied_entrypoints fold_case (stage_aliases fold_case stages) (final_block content stages selected)
      (runtime_command d (final_block content stages selected)) = Inr copied \<and> False \<notin> set copied \<and>
    recognized_command fold_case alnum (runtime_command d (final_block content stages selected)) names \<and>
    \<not> search_ok (OTHER_RUNTIME alnum) (runtime_command d (final_block content stages selected))"
proof (cases service)
  case (PDict d)
  with assms obtain content selected where s: "stages_of content \<noteq> []"
    "stage_is_dotnet fold_case alnum fs projects d repo content (stages_of content) selected = Inr True"
    by (auto simp: dotnet_build_declared_def Let_def split: if_splits option.splits)
  with PDict show ?thesis by (auto simp: stage_is_dotnet_def Let_def)
qed (use assms in \<open>simp_all add: dotnet_build_declared_def\<close>)

text \<open>\<^verbatim>\<open>rsplit(maxsplit=1)[-1]\<close> fails where nothing but white space follows the source of a copy.\<close>

lemma copy_without_destination: "copied_entrypoints id [] (U ''COPY --from=x  '') [] = Inl IndexError"
  by code_simp

end
