(* ===== verification/Week2_Session.thy ===== *)
theory Week2_Session
  imports Complex_Main Week2_Query Week2_Rows Week2_Report Week2_Build Week2_Fixture Py_State
begin

text \<open>
  The state of the classes \<^verbatim>\<open>ComposeHarness\<close> and \<^verbatim>\<open>PublicChecker\<close> of \<^verbatim>\<open>task/week2/autocheck/public_check.py\<close> and the
  operations of the harness: running a command, querying the database, sending a request. The world outside is the
  record \<open>world\<close>: an oracle answers each interaction by its number, so that nothing is assumed of how the world
  changes between two of them.
\<close>

section \<open>State and surroundings\<close>

record CommandResult =
  cr_command :: "pystr list"
  cr_code :: int
  cr_out :: pystr
  cr_err :: pystr
  cr_timed_out :: bool

definition cr_ok :: "CommandResult \<Rightarrow> bool" where
  "cr_ok r = (cr_code r = 0 \<and> \<not> cr_timed_out r)"

record HttpResult =
  ht_status :: int
  ht_body :: "pydict option"
  ht_error :: "pystr option"

text \<open>What \<^verbatim>\<open>subprocess.run\<close> is called with.\<close>

record invocation =
  inv_command :: "pystr list"
  inv_env :: "(pystr \<times> pystr) list"
  inv_input :: "pystr option"
  inv_timeout :: rat

text \<open>
  \<open>v_rounds n t\<close> is how many rounds a loop that polls for \<open>t\<close> seconds makes after its first one; \<open>v_exec\<close> gives an
  exception where \<^verbatim>\<open>subprocess.run\<close> raises one that the code does not catch; \<open>v_listing\<close>, \<open>v_walk\<close> and \<open>v_projects\<close> are
  the files below the fixture and the repository. The part from \<open>v_repo\<close> on are the attributes that are never assigned
  again.
\<close>

record world =
  v_exec :: "nat \<Rightarrow> invocation \<Rightarrow> run_outcome res"
  v_git :: "nat \<Rightarrow> run_outcome"
  v_os_error :: "nat \<Rightarrow> pystr"
  v_fs :: "nat \<Rightarrow> file_system"
  v_listing :: "nat \<Rightarrow> pystr list"
  v_walk :: "nat \<Rightarrow> walk_entry list"
  v_projects :: "nat \<Rightarrow> pystr list"
  v_write :: "nat \<Rightarrow> pystr \<Rightarrow> pystr \<Rightarrow> unit res"
  v_open :: "nat \<Rightarrow> wire_request \<Rightarrow> open_outcome"
  v_rounds :: "nat \<Rightarrow> rat \<Rightarrow> nat"
  v_clock :: "nat \<Rightarrow> rat"
  v_time :: "nat \<Rightarrow> int"
  v_uuid :: "nat \<Rightarrow> pystr"
  v_environ :: "(pystr \<times> pystr) list"
  v_defpath :: pystr
  v_home :: pystr
  v_expand :: "pystr \<Rightarrow> pystr"
  v_alnum :: "nat \<Rightarrow> bool"
  v_fold :: "pystr \<Rightarrow> pystr"
  v_hash :: "pybytes \<Rightarrow> pybytes"
  v_depth :: nat
  v_repo :: pystr
  v_fixtures :: pystr
  v_fixture :: pydict
  v_digest :: pystr
  v_compose_file :: pystr
  v_wrapper :: pystr
  v_override :: pystr
  v_project :: pystr
  v_port :: int
  v_secret :: pystr
  v_keep_stack :: bool
  v_build_timeout :: rat
  v_ready_timeout :: rat

record session =
  checks :: "pydict list"
  commands :: "pydict list"
  baseline_images :: pydict
  processes :: "(pystr \<times> pystr) list"
  cleanup_armed :: bool
  created_image_tags :: "pystr list"
  tick :: nat

type_synonym 'a act = "(session, 'a) py"

definition ask :: "(nat \<Rightarrow> 'a) \<Rightarrow> 'a act" where
  "ask oracle = (\<lambda>s. (Inr (oracle (tick s)), s\<lparr>tick := Suc (tick s)\<rparr>))"

definition ask_res :: "(nat \<Rightarrow> 'a res) \<Rightarrow> 'a act" where
  "ask_res oracle = py_bind (ask oracle) py_lift"

fun py_map :: "('a \<Rightarrow> 'b act) \<Rightarrow> 'a list \<Rightarrow> 'b list act" where
  "py_map f [] = py_return []"
| "py_map f (x # xs) = py_bind (f x) (\<lambda>y. py_bind (py_map f xs) (\<lambda>ys. py_return (y # ys)))"

section \<open>Values\<close>

definition ps :: "string \<Rightarrow> pyval" where
  "ps s = PStr (U s)"

definition obj :: "(string \<times> pyval) list \<Rightarrow> pyval" where
  "obj kvs = PDict (map (\<lambda>(k, v). (U k, v)) kvs)"

definition strs :: "pystr list \<Rightarrow> pyval" where
  "strs xs = PList (map PStr xs)"

definition opt_str :: "pystr option \<Rightarrow> pyval" where
  "opt_str x = (case x of None \<Rightarrow> PNone | Some t \<Rightarrow> PStr t)"

definition opt_dict :: "pydict option \<Rightarrow> pyval" where
  "opt_dict x = (case x of None \<Rightarrow> PNone | Some d \<Rightarrow> PDict d)"

text \<open>A literal text of a query, in which the grave accent stands for the quote.\<close>

definition sql :: "string \<Rightarrow> pystr" where
  "sql s = map (\<lambda>c. if c = 96 then 39 else c) (U s)"

text \<open>\<^verbatim>\<open>a and b and ...\<close> where a part may raise.\<close>

definition all_of :: "bool res list \<Rightarrow> bool res" where
  "all_of rs = res_all id rs"

text \<open>\<^verbatim>\<open>s.split()\<close>\<close>

definition words :: "pystr \<Rightarrow> pystr list" where
  "words s = filter (\<lambda>t. t \<noteq> []) (split_ch 32 (map (\<lambda>c. if is_space c then 32 else c) s))"

text \<open>The lines of a text that are not blank, stripped.\<close>

definition nonblank_lines :: "pystr \<Rightarrow> pystr list" where
  "nonblank_lines s = filter (\<lambda>t. t \<noteq> []) (map strip (splitlines s))"

section \<open>Commands\<close>

definition getenv :: "world \<Rightarrow> string \<Rightarrow> pystr \<Rightarrow> pystr" where
  "getenv w k d = (case map_of (v_environ w) (U k) of None \<Rightarrow> d | Some v \<Rightarrow> v)"

definition environment :: "world \<Rightarrow> string \<Rightarrow> (pystr \<times> pystr) list" where
  "environment w failpoint =
     [(U ''PATH'', getenv w ''PATH'' (v_defpath w)), (U ''HOME'', getenv w ''HOME'' (v_home w)),
      (U ''COURSE_GATEWAY_PORT'', str_of_int (v_port w)), (U ''COURSE_TEST_PROFILE'', U ''1''),
      (U ''COURSE_FAILPOINT'', U failpoint), (U ''COMPOSE_DISABLE_ENV_FILE'', U ''1'')] @
     concat (map (\<lambda>k. case map_of (v_environ w) (U k) of None \<Rightarrow> [] | Some v \<Rightarrow> [(U k, v)])
       [''DOCKER_CONFIG'', ''DOCKER_HOST'', ''DOCKER_CONTEXT''])"

definition replacements :: "world \<Rightarrow> (pystr \<times> pystr) list" where
  "replacements w = dict_of [(v_repo w, U ''<repo>''), (v_fixtures w, U ''<fixtures>''), (v_override w, U ''<trusted-override>'')]"

definition sensitive :: "world \<Rightarrow> pystr list" where
  "sensitive w = filter (\<lambda>item. item \<noteq> []) [v_secret w]"

definition redacted_part :: "world \<Rightarrow> pystr \<Rightarrow> pystr" where
  "redacted_part w part =
     foldl (\<lambda>v item. replace_str item (U ''<redacted>'') v)
       (foldl (\<lambda>v (original, replacement). replace_str original replacement v) part (replacements w)) (sensitive w)"

text \<open>What follows \<^verbatim>\<open>-c\<close> is a query and is hidden.\<close>

fun redacted_parts :: "world \<Rightarrow> bool \<Rightarrow> pystr list \<Rightarrow> pystr list" where
  "redacted_parts w hide [] = []"
| "redacted_parts w True (part # parts) = U ''<read-only-query>'' # redacted_parts w False parts"
| "redacted_parts w False (part # parts) = redacted_part w part # redacted_parts w (redacted_part w part = U ''-c'') parts"

definition redacted_command :: "world \<Rightarrow> pystr list \<Rightarrow> pystr list" where
  "redacted_command w cmd = redacted_parts w False cmd"

definition command_result :: "pystr list \<Rightarrow> run_outcome \<Rightarrow> CommandResult" where
  "command_result cmd outcome = (case outcome of
     Completed code out err \<Rightarrow> \<lparr>cr_command = cmd, cr_code = code, cr_out = out, cr_err = err, cr_timed_out = False\<rparr>
   | TimeoutExpired out err \<Rightarrow> \<lparr>cr_command = cmd, cr_code = 124, cr_out = (case out of None \<Rightarrow> [] | Some t \<Rightarrow> t),
       cr_err = (case err of None \<Rightarrow> [] | Some t \<Rightarrow> t), cr_timed_out = True\<rparr>
   | RunOSError message \<Rightarrow> \<lparr>cr_command = cmd, cr_code = 127, cr_out = [], cr_err = message, cr_timed_out = False\<rparr>)"

definition command_item :: "world \<Rightarrow> CommandResult \<Rightarrow> pydict" where
  "command_item w r = [(U ''command'', strs (redacted_command w (cr_command r))), (U ''exitCode'', PInt (cr_code r)),
     (U ''timedOut'', PBool (cr_timed_out r))]"

definition run_command :: "world \<Rightarrow> pystr list \<Rightarrow> rat \<Rightarrow> pystr option \<Rightarrow> string \<Rightarrow> CommandResult act" where
  "run_command w cmd timeout input failpoint =
     py_bind (ask_res (\<lambda>n. v_exec w n \<lparr>inv_command = cmd, inv_env = environment w failpoint, inv_input = input, inv_timeout = timeout\<rparr>)) (\<lambda>outcome.
     let r = command_result cmd outcome in
     py_seq (py_modify (\<lambda>s. s\<lparr>commands := commands s @ [command_item w r]\<rparr>)) (py_return r))"

definition compose_line :: "world \<Rightarrow> pystr list \<Rightarrow> pystr list" where
  "compose_line w arguments = [U ''bash'', v_wrapper w, U ''--project-name'', v_project w, U ''-f'', v_compose_file w, U ''-f'', v_override w] @ arguments"

definition compose_with :: "world \<Rightarrow> pystr list \<Rightarrow> rat \<Rightarrow> pystr option \<Rightarrow> string \<Rightarrow> CommandResult act" where
  "compose_with w arguments timeout input failpoint = run_command w (compose_line w arguments) timeout input failpoint"

definition compose :: "world \<Rightarrow> pystr list \<Rightarrow> rat \<Rightarrow> CommandResult act" where
  "compose w arguments timeout = compose_with w arguments timeout None []"

definition compose_candidate :: "world \<Rightarrow> pystr list \<Rightarrow> rat \<Rightarrow> CommandResult act" where
  "compose_candidate w arguments timeout =
     run_command w ([U ''bash'', v_wrapper w, U ''--project-name'', v_project w, U ''-f'', v_compose_file w] @ arguments) timeout None []"

definition TRANSPORT_ERROR :: regex where
  "TRANSPORT_ERROR = (let dots = RStar rdot; engine = names_ci [''docker'', ''daemon'', ''sock'']; tag = names_ci [''!reset'', ''!override''] in
     ralts [names_ci [''cannot connect to the docker daemon'', ''is the docker daemon running'', ''error during connect'',
         ''context deadline exceeded'', ''connection refused'', ''no route to host'', ''server closed the connection'', ''could not connect''],
       rseqs [rstr_ci ''permission denied'', dots, engine], rseqs [engine, dots, rstr_ci ''permission denied''],
       rseqs [rstr_ci ''unknown '', names_ci [''flag'', ''shorthand flag''], dots, rstr_ci ''no-env-resolution''],
       rseqs [rstr_ci ''compose'', dots, rstr_ci ''is not a docker command''],
       rseqs [rstr_ci ''unknown docker command'', dots, rstr_ci ''compose''],
       rseqs [rstr_ci ''unsupported'', dots, tag], rseqs [rstr_ci ''unknown tag'', dots, tag]])"

definition environment_error :: "CommandResult \<Rightarrow> bool" where
  "environment_error r = (cr_code r = 127 \<or> search_ok TRANSPORT_ERROR (cr_out r @ [10] @ cr_err r))"

definition require :: "CommandResult \<Rightarrow> pystr \<Rightarrow> unit res" where
  "require r message =
     (if cr_ok r then Inr ()
      else if environment_error r then Inl (EnvironmentFailure message)
      else Inl (ContractError (message @ (if cr_timed_out r then U '' (timed out)'' else U '' (exit '' @ str_of_int (cr_code r) @ U '')''))))"

text \<open>A command that must succeed.\<close>

definition require_compose :: "world \<Rightarrow> pystr list \<Rightarrow> rat \<Rightarrow> string \<Rightarrow> unit act" where
  "require_compose w arguments timeout message = py_bind (compose w arguments timeout) (\<lambda>r. py_lift (require r (U message)))"

type_synonym cli_result = "CommandResult \<times> pydict option"

definition cli_with :: "world \<Rightarrow> pystr list \<Rightarrow> pystr option \<Rightarrow> cli_result act" where
  "cli_with w arguments input =
     py_bind (compose_with w (map U [''run'', ''--rm'', ''-T'', ''--no-deps'', ''-v''] @ [v_fixtures w @ U '':/autocheck/input:ro'', U ''cli''] @ arguments)
       120 input []) (\<lambda>r.
     if environment_error r then py_raise (EnvironmentFailure (U ''Docker transport failed while running the trusted CLI adapter''))
     else py_bind (py_lift (extract_cli_json (v_depth w) (cr_out r))) (\<lambda>body. py_return (r, body)))"

definition cli :: "world \<Rightarrow> pystr list \<Rightarrow> cli_result act" where
  "cli w arguments = cli_with w arguments None"

definition course_meta :: "pydict \<Rightarrow> bool" where
  "course_meta body = (case dget_none body (U ''meta'') of PDict m \<Rightarrow> dget_none m (U ''contractVersion'') = ps ''course-1'' | _ \<Rightarrow> False)"

fun ok_envelope :: "cli_result \<Rightarrow> bool" where
  "ok_envelope (r, None) = False"
| "ok_envelope (r, Some body) = (cr_ok r \<and> dget_none body (U ''status'') = ps ''ok'' \<and> course_meta body)"

fun error_envelope :: "cli_result \<Rightarrow> bool" where
  "error_envelope (r, None) = False"
| "error_envelope (r, Some body) = (\<not> cr_ok r \<and> dget_none body (U ''status'') = ps ''error'' \<and>
     is_str (dget_none body (U ''code'')) \<and> truthy (dget_none body (U ''code'')) \<and> course_meta body)"

definition error_code :: "pydict option \<Rightarrow> pyval" where
  "error_code body = (case body of None \<Rightarrow> PNone | Some d \<Rightarrow> (case dget_none d (U ''code'') of PStr s \<Rightarrow> PStr s | _ \<Rightarrow> PNone))"

section \<open>Queries\<close>

definition CONTAINER_ID :: regex where
  "CONTAINER_ID = (let hex = RCls (\<lambda>c. in_range 97 102 c \<or> in_range 48 57 c) in RSeq (rtimes 12 hex) (rupto 52 hex))"

definition wrapped_query :: "pystr \<Rightarrow> pystr" where
  "wrapped_query query = sql ''SELECT COALESCE(jsonb_agg(to_jsonb(q)), `[]`::jsonb)::text FROM ('' @ query @ U '') AS q''"

definition psql_command :: "pystr \<Rightarrow> pystr list" where
  "psql_command query = map U [''psql'', ''-X'', ''-v'', ''ON_ERROR_STOP=1'', ''-U'', ''postgres'', ''-d'', ''course'', ''-At'', ''-c''] @ [wrapped_query query]"

definition psql_run :: "world \<Rightarrow> pystr \<Rightarrow> rat \<Rightarrow> pystr option \<Rightarrow> CommandResult act" where
  "psql_run w query timeout container_id = (case container_id of
     None \<Rightarrow> compose w (map U [''exec'', ''-T'', ''postgres''] @ psql_command query) timeout
   | Some c \<Rightarrow> if \<not> fullmatch_ok CONTAINER_ID c then py_raise (ValueError (U ''PostgreSQL container id is invalid''))
       else run_command w (map U [''docker'', ''exec''] @ [c] @ psql_command query) timeout None [])"

fun as_rows :: "pyval list \<Rightarrow> pydict list option" where
  "as_rows [] = Some []"
| "as_rows (PDict d # xs) = map_option ((#) d) (as_rows xs)"
| "as_rows (_ # xs) = None"

definition read_rows :: "nat \<Rightarrow> pystr \<Rightarrow> pydict list res" where
  "read_rows depth out = (case loads depth (strip out) of
     Inl e \<Rightarrow> Inl (if e = JSONDecodeError then ContractError (U ''A required PostgreSQL view did not return JSON rows'') else e)
   | Inr v \<Rightarrow> (let shape = Inl (ContractError (U ''A required PostgreSQL view returned an invalid row shape'')) in
       case v of PList xs \<Rightarrow> (case as_rows xs of Some rows \<Rightarrow> Inr rows | None \<Rightarrow> shape) | _ \<Rightarrow> shape))"

definition psql_rows_of :: "world \<Rightarrow> pystr \<Rightarrow> (pystr \<times> pystr) option \<Rightarrow> rat \<Rightarrow> pystr option \<Rightarrow> pydict list act" where
  "psql_rows_of w query allowed_fixture_relation timeout container_id =
     py_seq (py_lift (validate_read_only_query (v_alnum w) query allowed_fixture_relation)) (
     py_bind (psql_run w query timeout container_id) (\<lambda>r.
     if \<not> cr_ok r then
       (if environment_error r then py_raise (EnvironmentFailure (U ''PostgreSQL transport failed during a stable-view query''))
        else py_raise (ContractError (U ''A required read-only PostgreSQL contract query failed'')))
     else py_lift (read_rows (v_depth w) (cr_out r))))"

definition psql_rows :: "world \<Rightarrow> pystr \<Rightarrow> pydict list act" where
  "psql_rows w query = psql_rows_of w query None 10 None"

end
