(* ===== verification/Week2_Probes.thy ===== *)
theory Week2_Probes
  imports Week2_Session
begin

text \<open>
  The probes of \<^verbatim>\<open>ComposeHarness\<close> in \<^verbatim>\<open>task/week2/autocheck/public_check.py\<close>: addresses and database rights of the workers,
  images, readiness, requests, and the loops that wait for rows and for acknowledgements of failpoints. A loop is a
  recursion over the number of rounds that are left before its deadline.
\<close>

section \<open>Addresses\<close>

text \<open>\<^verbatim>\<open>socket.inet_pton\<close> refuses a text with a null character with \<^verbatim>\<open>ValueError\<close>.\<close>

definition is_address :: "pystr \<Rightarrow> bool res" where
  "is_address s = (if 0 \<in> set s then Inl (ValueError (U ''embedded null character'')) else Inr (inet4 s \<or> inet6 s))"

definition container_addresses :: "CommandResult \<Rightarrow> pystr set res" where
  "container_addresses r =
     (if \<not> cr_ok r then Inr {}
      else res_bind (res_concat (\<lambda>v. res_bind (is_address v) (\<lambda>b. Inr (if b then [v] else []))) (words (cr_out r))) (\<lambda>vs. Inr (set vs)))"

definition address_error :: pyexn where
  "address_error = EnvironmentFailure (U ''Docker transport failed during the worker address probe'')"

definition inspect_addresses :: "world \<Rightarrow> pystr \<Rightarrow> (bool \<times> pystr set) act" where
  "inspect_addresses w container_id =
     py_bind (run_command w (map U [''docker'', ''inspect'', ''--format'',
       ''{{range .NetworkSettings.Networks}}{{println .IPAddress}}{{println .GlobalIPv6Address}}{{end}}''] @ [container_id]) 10 None []) (\<lambda>inspected.
     if \<not> cr_ok inspected \<and> environment_error inspected then py_raise address_error
     else py_bind (py_lift (container_addresses inspected)) (\<lambda>addresses.
       py_return (cr_ok inspected \<and> addresses \<noteq> {}, addresses)))"

definition service_addresses :: "world \<Rightarrow> pystr \<Rightarrow> (bool \<times> pystr set) act" where
  "service_addresses w service =
     py_bind (compose w [U ''ps'', U ''-q'', service] 10) (\<lambda>containers.
     if \<not> cr_ok containers then
       (if environment_error containers then py_raise address_error else py_return (False, {}))
     else (case nonblank_lines (cr_out containers) of
         [c] \<Rightarrow> if fullmatch_ok CONTAINER_ID c then inspect_addresses w c else py_return (False, {})
       | _ \<Rightarrow> py_return (False, {})))"

definition container_id_of :: "world \<Rightarrow> pystr \<Rightarrow> pystr \<Rightarrow> (pystr \<times> pystr) act" where
  "container_id_of w flag service =
     py_bind (compose w [U ''ps'', flag, service] 10) (\<lambda>containers.
     py_seq (py_lift (require containers (U ''Cannot resolve the '' @ service @ U '' container''))) (
     case nonblank_lines (cr_out containers) of
       [c] \<Rightarrow> if fullmatch_ok CONTAINER_ID c then py_return (service, c)
         else py_raise (ContractError (U ''Expected exactly one '' @ service @ U '' container''))
     | _ \<Rightarrow> py_raise (ContractError (U ''Expected exactly one '' @ service @ U '' container''))))"

definition service_container_ids :: "world \<Rightarrow> pystr list \<Rightarrow> bool \<Rightarrow> (pystr \<times> pystr) list act" where
  "service_container_ids w services include_stopped =
     py_bind (py_map (container_id_of w (if include_stopped then U ''-aq'' else U ''-q'')) services) (\<lambda>ids. py_return (dict_of ids))"

section \<open>Rights of the workers in the database\<close>

definition sessions_query :: "pystr list \<Rightarrow> pystr" where
  "sessions_query quoted_addresses = U ''SELECT host(client_addr) AS client_addr, usename AS session_role, '' @
     U ''count(*)::integer AS session_count FROM pg_catalog.pg_stat_activity '' @
     U ''WHERE datname = current_database() AND client_addr IS NOT NULL '' @
     U ''AND host(client_addr) IN ('' @ join_str (U '', '') quoted_addresses @ U '') '' @
     U ''GROUP BY host(client_addr), usename ORDER BY host(client_addr), usename''"

definition tables_query :: pystr where
  "tables_query = sql ''WITH worker_role AS (SELECT oid FROM pg_catalog.pg_roles WHERE rolname = `workflow_worker`'' @
     sql '') SELECT n.nspname AS schema_name, c.relname AS table_name, '' @
     sql ''has_table_privilege(r.oid, c.oid, `INSERT`) AS has_insert, '' @
     sql ''has_table_privilege(r.oid, c.oid, `UPDATE`) AS has_update, '' @
     sql ''has_table_privilege(r.oid, c.oid, `DELETE`) AS has_delete '' @
     sql ''FROM pg_catalog.pg_class c JOIN pg_catalog.pg_namespace n ON n.oid = c.relnamespace '' @
     sql ''LEFT JOIN worker_role r ON true WHERE c.relkind IN (`r`, `p`, `f`) AND n.nspname <> `information_schema` '' @
     sql ''AND n.nspname NOT LIKE `pg'' @ [92] @ sql ''_%` ESCAPE `'' @ [92] @ sql ''` ORDER BY n.nspname, c.relname''"

definition functions_query :: pystr where
  "functions_query = sql ''WITH worker_role AS (SELECT oid FROM pg_catalog.pg_roles WHERE rolname = `workflow_worker`'' @
     sql '') SELECT n.nspname AS schema_name, p.proname AS function_name, '' @
     sql ''has_function_privilege(r.oid, p.oid, `EXECUTE`) AS can_execute '' @
     sql ''FROM pg_catalog.pg_proc p JOIN pg_catalog.pg_namespace n ON n.oid = p.pronamespace '' @
     sql ''LEFT JOIN worker_role r ON true WHERE n.nspname IN (`api`, `workflow`) ORDER BY n.nspname, p.proname, p.oid''"

definition allowed_boundaries :: "(pystr \<times> pystr) set" where
  "allowed_boundaries = {(U ''api'', U ''invoke''), (U ''workflow'', U ''claim_jobs''), (U ''workflow'', U ''finish_job''),
     (U ''workflow'', U ''fail_job'')}"

definition executable_boundaries :: "pydict list \<Rightarrow> (pystr \<times> pystr) set" where
  "executable_boundaries function_privileges =
     set (map (\<lambda>row. (py_str (dget_none row (U ''schema_name'')), py_str (dget_none row (U ''function_name''))))
       (filter (\<lambda>row. dget_none row (U ''can_execute'') = PBool True) function_privileges))"

definition session_roles :: "pydict list \<Rightarrow> pystr set \<Rightarrow> pystr list res" where
  "session_roles sessions service_ips =
     res_bind (res_concat (\<lambda>row. res_bind (str_key_in (dget_none row (U ''client_addr'')) service_ips) (\<lambda>b.
       Inr (case dget_none row (U ''session_role'') of PStr role \<Rightarrow> if b then [role] else [] | _ \<Rightarrow> []))) sessions) (\<lambda>roles.
       Inr (sorted_list_of_set (set roles)))"

definition service_security :: "pydict list \<Rightarrow> pystr \<times> bool \<times> pystr set \<Rightarrow> (pystr \<times> bool \<times> pyval) res" where
  "service_security sessions = (\<lambda>(service, address_probe, service_ips).
     res_bind (session_roles sessions service_ips) (\<lambda>roles.
       Inr (service, roles = [U ''workflow_worker''],
         obj [(''addressProbe'', PBool address_probe), (''addressCount'', PInt (int (card service_ips))), (''sessionRoles'', strs roles),
           (''roleVerified'', PBool (roles = [U ''workflow_worker'']))])))"

definition dml_denied :: "pydict \<Rightarrow> bool" where
  "dml_denied row = list_all (\<lambda>k. dget_none row (U k) = PBool False) [''has_insert'', ''has_update'', ''has_delete'']"

definition security_report :: "(pystr \<times> bool \<times> pyval) list \<Rightarrow> pydict list \<Rightarrow> pydict list \<Rightarrow> pydict" where
  "security_report services physical_tables function_privileges = [
     (U ''services'', PDict (map (\<lambda>(service, _, v). (service, v)) services)),
     (U ''roleVerified'', PBool (list_all (\<lambda>(_, verified, _). verified) services)),
     (U ''physicalTableCount'', PInt (int (length physical_tables))),
     (U ''allDmlDenied'', PBool (physical_tables \<noteq> [] \<and> list_all dml_denied physical_tables)),
     (U ''executeBoundaryRestricted'', PBool (executable_boundaries function_privileges = allowed_boundaries)),
     (U ''executableFunctionCount'', PInt (int (card (executable_boundaries function_privileges))))]"

definition worker_database_security :: "world \<Rightarrow> pydict act" where
  "worker_database_security w =
     py_bind (py_map (\<lambda>service. py_bind (service_addresses w service) (\<lambda>r. py_return (service, r))) [U ''worker-a'', U ''worker-b'']) (\<lambda>probes.
     let addresses = sorted_list_of_set (\<Union> (set (map (\<lambda>(_, _, ips). ips) probes))) in
     py_bind (if addresses = [] then py_return []
       else py_bind (py_lift (res_map Week2_Query.sql_literal addresses)) (\<lambda>quoted_addresses. psql_rows w (sessions_query quoted_addresses))) (\<lambda>sessions.
     py_bind (psql_rows w tables_query) (\<lambda>physical_tables.
     py_bind (psql_rows w functions_query) (\<lambda>function_privileges.
     py_bind (py_lift (res_map (service_security sessions) probes)) (\<lambda>services.
       py_return (security_report services physical_tables function_privileges))))))"

definition interval_ok :: "rat \<Rightarrow> bool" where
  "interval_ok interval = (0 < interval \<and> interval \<le> 1 / 10)"

fun security_loop :: "world \<Rightarrow> nat \<Rightarrow> pydict act" where
  "security_loop w n = py_bind (worker_database_security w) (\<lambda>report.
     if dget_none report (U ''roleVerified'') = PBool True then py_return report
     else (case n of 0 \<Rightarrow> py_return report | Suc m \<Rightarrow> security_loop w m))"

declare security_loop.simps [simp del]

definition wait_worker_database_security :: "world \<Rightarrow> pydict act" where
  "wait_worker_database_security w = py_bind (ask (\<lambda>n. v_rounds w n 5)) (security_loop w)"

section \<open>Effects and images\<close>

definition effect_rows :: "world \<Rightarrow> pystr \<Rightarrow> pystr \<Rightarrow> pystr option \<Rightarrow> pydict list act" where
  "effect_rows w schema table execution_id =
     (if \<not> fullmatch_ok SQL_IDENTIFIER schema \<or> \<not> fullmatch_ok SQL_IDENTIFIER table
      then py_raise (ValueError (U ''Unsafe fixture relation identifier''))
      else py_bind (py_lift (case execution_id of None \<Rightarrow> Inr []
          | Some e \<Rightarrow> res_bind (Week2_Query.sql_literal e) (\<lambda>l. Inr (U '' WHERE execution_id = '' @ l)))) (\<lambda>where_text.
        psql_rows_of w (U ''SELECT execution_id, business_value, created_at FROM '' @ schema @ U ''.'' @ table @ where_text @
          U '' ORDER BY execution_id'') (Some (schema, table)) 10 None))"

text \<open>\<^verbatim>\<open>json.loads(out)["services"][service]\<close>; a value that is no dictionary raises \<^verbatim>\<open>TypeError\<close>.\<close>

definition py_item :: "pyval \<Rightarrow> pystr \<Rightarrow> pyval res" where
  "py_item v k = (case v of PDict d \<Rightarrow> ditem d k | _ \<Rightarrow> Inl TypeError)"

definition is_KeyError :: "pyexn \<Rightarrow> bool" where
  "is_KeyError e = (case e of KeyError _ \<Rightarrow> True | _ \<Rightarrow> False)"

definition service_definition :: "nat \<Rightarrow> pystr \<Rightarrow> pystr \<Rightarrow> pyval res" where
  "service_definition depth out service =
     (case res_bind (loads depth out) (\<lambda>v. res_bind (py_item v (U ''services'')) (\<lambda>services. py_item services service)) of
        Inl e \<Rightarrow> Inl (if is_KeyError e \<or> e = TypeError \<or> e = JSONDecodeError
          then ContractError (U ''Compose did not return an image reference for '' @ service) else e)
      | Inr v \<Rightarrow> Inr v)"

definition image_reference :: "world \<Rightarrow> pystr \<Rightarrow> pyval \<Rightarrow> pystr res" where
  "image_reference w service definition_value =
     (let reference = (case definition_value of
          PDict d \<Rightarrow> if dget_none d (U ''image'') = PNone \<and> truthy (dget_none d (U ''build'')) then PStr (v_project w @ U ''-'' @ service)
            else dget_none d (U ''image'')
        | _ \<Rightarrow> PNone)
      in case reference of
           PStr r \<Rightarrow> if r \<noteq> [] \<and> 10 \<notin> set r then Inr r
             else Inl (ContractError (U ''Compose returned an invalid image reference for '' @ service))
         | _ \<Rightarrow> Inl (ContractError (U ''Compose returned an invalid image reference for '' @ service)))"

definition image_id :: "world \<Rightarrow> string \<Rightarrow> pystr act" where
  "image_id w service =
     py_bind (compose w (map U [''config'', ''--format'', ''json'', ''--no-env-resolution'']) 30) (\<lambda>config.
     py_seq (py_lift (require config (U ''Cannot resolve the '' @ U service @ U '' image reference''))) (
     py_bind (py_lift (res_bind (service_definition (v_depth w) (cr_out config) (U service)) (image_reference w (U service)))) (\<lambda>reference.
     py_bind (run_command w (map U [''docker'', ''image'', ''inspect'', ''--format'', ''{{.Id}}''] @ [reference]) 30 None []) (\<lambda>r.
     py_seq (py_lift (require r (U ''Cannot inspect the '' @ U service @ U '' image ID'')))
       (py_lift (normalize_image_id (cr_out r)))))))"

section \<open>Requests\<close>

definition gateway_url :: "world \<Rightarrow> pystr \<Rightarrow> pystr" where
  "gateway_url w p = U ''http://127.0.0.1:'' @ str_of_int (v_port w) @ p"

text \<open>The status of a health request; an answer outside 2xx is an \<^verbatim>\<open>HTTPError\<close>, hence 0.\<close>

definition health_status :: "world \<Rightarrow> string \<Rightarrow> int act" where
  "health_status w p = ask_res (\<lambda>n. case v_open w n \<lparr>req_method = U ''GET'', req_url = gateway_url w (U p), req_data = None, req_headers = []\<rparr> of
     Answered st _ \<Rightarrow> Inr (if 200 \<le> st \<and> st < 300 then st else 0)
   | NetError _ \<Rightarrow> Inr 0
   | Escaped e \<Rightarrow> Inl e)"

fun ready_loop :: "world \<Rightarrow> nat \<Rightarrow> bool act" where
  "ready_loop w n = py_bind (health_status w ''/health/live'') (\<lambda>live. py_bind (health_status w ''/health/ready'') (\<lambda>ready.
     if live = 200 \<and> ready = 200 then py_return True
     else (case n of 0 \<Rightarrow> py_return False | Suc m \<Rightarrow> ready_loop w m)))"

declare ready_loop.simps [simp del]

definition wait_ready :: "world \<Rightarrow> rat \<Rightarrow> rat \<Rightarrow> bool act" where
  "wait_ready w timeout interval =
     (if \<not> interval_ok interval then py_raise (ValueError (U ''Readiness polling interval must not exceed 100 ms''))
      else py_bind (ask (\<lambda>n. v_rounds w n timeout)) (ready_loop w))"

definition read_answer :: "nat \<Rightarrow> open_outcome \<Rightarrow> HttpResult res" where
  "read_answer depth outcome = (case outcome of
     NetError message \<Rightarrow> Inr \<lparr>ht_status = 0, ht_body = None, ht_error = Some message\<rparr>
   | Escaped e \<Rightarrow> Inl e
   | Answered st content \<Rightarrow>
       let raw = take 1048577 content in
       if 1048576 < length raw then Inr \<lparr>ht_status = st, ht_body = None, ht_error = Some (U ''response body exceeded 1 MiB'')\<rparr>
       else res_bind (if raw = [] then Inr PNone
         else (case res_bind (utf8_decode raw) (loads depth) of
             Inl e \<Rightarrow> if e = UnicodeDecodeError \<or> e = JSONDecodeError then Inr PNone else Inl e
           | Inr v \<Rightarrow> Inr v)) (\<lambda>body.
         Inr \<lparr>ht_status = st, ht_body = (case body of PDict d \<Rightarrow> Some d | _ \<Rightarrow> None), ht_error = None\<rparr>))"

definition post_action :: "world \<Rightarrow> string \<Rightarrow> string \<Rightarrow> pyval \<Rightarrow> string list \<Rightarrow> HttpResult act" where
  "post_action w module_name action payload scopes =
     py_bind (ask (v_time w)) (\<lambda>now.
     py_bind (py_lift (Week2_Report.issue_token (v_secret w) (U ''public-check-client'') (map U scopes) now)) (\<lambda>token.
     py_bind (py_lift (res_bind (dumps wire payload) utf8_encode)) (\<lambda>data.
     py_bind (ask (v_uuid w)) (\<lambda>u.
     ask_res (\<lambda>n. read_answer (v_depth w) (v_open w n \<lparr>req_method = U ''POST'',
       req_url = gateway_url w (U ''/api/'' @ U module_name @ U ''/'' @ U action), req_data = Some data,
       req_headers = [(U ''Authorization'', U ''Bearer '' @ token), (U ''Content-Type'', U ''application/json''),
         (U ''Idempotency-Key'', U ''public-check-'' @ u)]\<rparr>))))))"

section \<open>Waiting\<close>

fun poll_loop :: "world \<Rightarrow> pystr \<Rightarrow> (pydict list \<Rightarrow> bool res) \<Rightarrow> rat \<Rightarrow> pystr option \<Rightarrow> nat \<Rightarrow> pydict list act" where
  "poll_loop w query predicate timeout container_id n =
     py_bind (psql_rows_of w query None (min 10 timeout) container_id) (\<lambda>rows.
     py_bind (py_lift (predicate rows)) (\<lambda>b.
     if b then py_return rows
     else (case n of
         0 \<Rightarrow> py_raise (ContractError (U ''A required state predicate was not reached before its deadline''))
       | Suc m \<Rightarrow> poll_loop w query predicate timeout container_id m)))"

declare poll_loop.simps [simp del]

definition poll_rows :: "world \<Rightarrow> pystr \<Rightarrow> (pydict list \<Rightarrow> bool res) \<Rightarrow> rat \<Rightarrow> rat \<Rightarrow> pystr option \<Rightarrow> pydict list act" where
  "poll_rows w query predicate timeout interval container_id =
     (if \<not> interval_ok interval then py_raise (ValueError (U ''State polling interval must not exceed 100 ms''))
      else py_bind (ask (\<lambda>n. v_rounds w n timeout)) (poll_loop w query predicate timeout container_id))"

definition failpoint_logs :: "world \<Rightarrow> pystr \<Rightarrow> rat \<Rightarrow> pystr option \<Rightarrow> CommandResult act" where
  "failpoint_logs w service timeout container_id = (case container_id of
     None \<Rightarrow> compose w [U ''logs'', U ''--no-color'', service] (min 10 timeout)
   | Some c \<Rightarrow> run_command w [U ''docker'', U ''logs'', c] (min 1 timeout) None [])"

definition acks_of :: "world \<Rightarrow> string \<Rightarrow> CommandResult \<Rightarrow> pyval list res" where
  "acks_of w name logs = parse_failpoint_acks (v_depth w) (cr_out logs @ [10] @ cr_err logs) (U name)"

text \<open>What a loop over logs does when its deadline has passed.\<close>

definition logs_deadline :: "bool \<Rightarrow> pystr \<Rightarrow> string \<Rightarrow> 'a act" where
  "logs_deadline some_read contract transport =
     py_raise (if some_read then ContractError contract else EnvironmentFailure (U transport))"

fun failpoint_loop :: "world \<Rightarrow> pystr \<Rightarrow> string \<Rightarrow> rat \<Rightarrow> pystr option \<Rightarrow> bool \<Rightarrow> nat \<Rightarrow> pyval act" where
  "failpoint_loop w service name timeout container_id some_read n =
     py_bind (failpoint_logs w service timeout container_id) (\<lambda>logs.
     py_bind (if cr_ok logs then py_lift (acks_of w name logs)
       else if environment_error logs then py_raise (EnvironmentFailure (U ''Docker logs transport failed during failpoint polling''))
       else py_return []) (\<lambda>acknowledgements.
     if 1 < length acknowledgements
     then py_raise (ContractError (U ''Worker emitted more than one structured '' @ U name @ U '' acknowledgement''))
     else if acknowledgements \<noteq> [] then py_return (hd acknowledgements)
     else (case n of
         0 \<Rightarrow> logs_deadline (some_read \<or> cr_ok logs) (U ''No structured '' @ U name @ U '' acknowledgement was emitted'')
           ''No worker log read succeeded during failpoint polling''
       | Suc m \<Rightarrow> failpoint_loop w service name timeout container_id (some_read \<or> cr_ok logs) m)))"

declare failpoint_loop.simps [simp del]

definition wait_failpoint :: "world \<Rightarrow> pystr \<Rightarrow> string \<Rightarrow> rat \<Rightarrow> rat \<Rightarrow> pystr option \<Rightarrow> pyval act" where
  "wait_failpoint w service name timeout interval container_id =
     (if \<not> interval_ok interval then py_raise (ValueError (U ''Failpoint polling interval must not exceed 100 ms''))
      else py_bind (ask (\<lambda>n. v_rounds w n timeout)) (failpoint_loop w service name timeout container_id False))"

section \<open>A single winner\<close>

definition ack_instance :: "pyval \<Rightarrow> pystr" where
  "ack_instance ack = (case ack of PDict d \<Rightarrow> py_str (dget_none d (U ''instanceId'')) | _ \<Rightarrow> [])"

text \<open>The acknowledgements of the two workers, at most one each.\<close>

definition winner_acks :: "world \<Rightarrow> pystr list \<Rightarrow> string \<Rightarrow> CommandResult \<Rightarrow> (pystr \<times> pyval) list res" where
  "winner_acks w services name logs =
     res_bind (acks_of w name logs) (\<lambda>parsed.
     res_bind (ensure (list_all (\<lambda>ack. ack_instance ack \<in> set services) parsed)
       (ContractError (U ''A failpoint acknowledgement used an unexpected instanceId''))) (\<lambda>_.
     res_bind (ensure (list_all (\<lambda>service. length (filter (\<lambda>ack. ack_instance ack = service) parsed) \<le> 1) services)
       (ContractError (U ''A worker emitted more than one claim acknowledgement''))) (\<lambda>_.
       Inr (dict_of (map (\<lambda>ack. (ack_instance ack, ack)) parsed)))))"

definition loser_of :: "pystr list \<Rightarrow> pystr \<Rightarrow> pystr" where
  "loser_of services winner = (case filter (\<lambda>service. service \<noteq> winner) services of [] \<Rightarrow> [] | service # _ \<Rightarrow> service)"

definition winner_deadline :: "bool \<Rightarrow> 'a act" where
  "winner_deadline some_read = logs_deadline some_read (U ''Neither worker acknowledged the deterministic job claim'')
     ''No complete worker log read succeeded during winner polling''"

text \<open>\<open>observed\<close> is the winner seen so far and since when; it is returned once it has been stable.\<close>

fun winner_loop :: "world \<Rightarrow> pystr list \<Rightarrow> string \<Rightarrow> rat \<Rightarrow> rat \<Rightarrow> bool \<Rightarrow> (pystr \<times> rat) option \<Rightarrow> nat \<Rightarrow> (pystr \<times> pystr \<times> pyval) act" where
  "winner_loop w services name deadline stability some_read observed n =
     py_bind (ask (v_clock w)) (\<lambda>begun.
     py_bind (compose w (map U [''logs'', ''--no-color''] @ services) (min (max (1 / 10) (deadline - begun)) 1)) (\<lambda>logs.
     py_bind (if cr_ok logs then py_lift (winner_acks w services name logs)
       else if environment_error logs then py_raise (EnvironmentFailure (U ''Docker logs transport failed during winner polling''))
       else py_return []) (\<lambda>acknowledgements.
     let again = (\<lambda>seen. case n of 0 \<Rightarrow> winner_deadline (some_read \<or> cr_ok logs)
       | Suc m \<Rightarrow> winner_loop w services name deadline stability (some_read \<or> cr_ok logs) seen m) in
     case acknowledgements of
       [] \<Rightarrow> again None
     | [(winner, ack)] \<Rightarrow> py_bind (ask (v_clock w)) (\<lambda>now. case observed of
           Some (w', since) \<Rightarrow> if w' \<noteq> winner then again (Some (winner, now))
             else if stability \<le> now - since then py_return (winner, loser_of services winner, ack)
             else again observed
         | None \<Rightarrow> again (Some (winner, now)))
     | _ \<Rightarrow> py_raise (ContractError (U ''More than one worker acknowledged one logical job claim'')))))"

declare winner_loop.simps [simp del]

definition wait_single_winner :: "world \<Rightarrow> pystr list \<Rightarrow> string \<Rightarrow> rat \<Rightarrow> rat \<Rightarrow> (pystr \<times> pystr \<times> pyval) act" where
  "wait_single_winner w services name timeout stability =
     (if length services \<noteq> 2 \<or> card (set services) \<noteq> 2 then py_raise (ValueError (U ''Exactly two workers are required''))
      else py_bind (ask (v_clock w)) (\<lambda>started. py_bind (ask (\<lambda>n. v_rounds w n timeout))
        (winner_loop w services name (started + timeout) stability False None)))"

end
