(* ===== verification/Week2_Admission.thy ===== *)
theory Week2_Admission
  imports Week2_Probes
begin

text \<open>
  Recording checks, the override file and the admission of a submission in \<^verbatim>\<open>PublicChecker\<close> of
  \<^verbatim>\<open>task/week2/autocheck/public_check.py\<close>, block by block.
\<close>

section \<open>Checks\<close>

definition check_item :: "world \<Rightarrow> pystr \<Rightarrow> pystr \<Rightarrow> bool \<Rightarrow> pyval \<Rightarrow> pyval \<Rightarrow> pydict" where
  "check_item w name phase ok expected actual = [
     (U ''name'', PStr name), (U ''phase'', PStr phase), (U ''status'', ps (if ok then ''passed'' else ''failed'')),
     (U ''expected'', Week2_Report.redact [v_secret w] 0 expected), (U ''actual'', Week2_Report.redact [v_secret w] 0 actual)]"

definition recorded :: "pystr \<Rightarrow> session \<Rightarrow> bool" where
  "recorded name s = list_ex (\<lambda>item. dget_none item (U ''name'') = PStr name) (checks s)"

text \<open>A name that is recorded keeps its first result.\<close>

definition record_check :: "world \<Rightarrow> pystr \<Rightarrow> pystr \<Rightarrow> bool \<Rightarrow> pyval \<Rightarrow> pyval \<Rightarrow> unit act" where
  "record_check w name phase ok expected actual = py_modify (\<lambda>s.
     if recorded name s then s else s\<lparr>checks := checks s @ [check_item w name phase ok expected actual]\<rparr>)"

definition check :: "world \<Rightarrow> string \<Rightarrow> string \<Rightarrow> bool \<Rightarrow> pyval \<Rightarrow> pyval \<Rightarrow> unit act" where
  "check w name phase ok expected actual = record_check w (U name) (U phase) ok expected actual"

definition fail_missing :: "world \<Rightarrow> pystr \<Rightarrow> pystr \<Rightarrow> unit act" where
  "fail_missing w phase message = py_bind (py_lift (ditem PHASE_CHECKS phase)) (\<lambda>names.
     py_for (\<lambda>name. record_check w name phase False (ps ''published contract satisfied'') (PStr message)) names)"

definition contract_text :: "pyexn \<Rightarrow> pystr option" where
  "contract_text e = (case e of ContractError m \<Rightarrow> Some m | _ \<Rightarrow> None)"

definition run_phase :: "world \<Rightarrow> string \<Rightarrow> unit act \<Rightarrow> unit act" where
  "run_phase w phase phase_function = py_try phase_function (\<lambda>e. contract_text e \<noteq> None)
     (\<lambda>e. fail_missing w (U phase) (case contract_text e of Some m \<Rightarrow> m | None \<Rightarrow> []))"

definition command_view :: "cli_result \<Rightarrow> pyval" where
  "command_view rb = (case rb of (r, body) \<Rightarrow>
     let member = (\<lambda>k. case body of Some d \<Rightarrow> dget_none d (U k) | None \<Rightarrow> PNone) in
     obj [(''exitCode'', PInt (cr_code r)), (''timedOut'', PBool (cr_timed_out r)), (''status'', member ''status''), (''code'', member ''code'')])"

definition fixture_digest_now :: "world \<Rightarrow> pystr act" where
  "fixture_digest_now w = ask_res (\<lambda>n. canonical_fixture_digest (v_hash w) (v_fs w n) (v_depth w) (v_listing w n) (v_fixtures w))"

section \<open>The repository\<close>

definition tracked_paths_of :: "run_outcome \<Rightarrow> walk_entry list \<Rightarrow> pystr list res" where
  "tracked_paths_of git walk = (case git of
     Completed code out err \<Rightarrow> Inr (if code = 0 then filter (\<lambda>v. v \<noteq> []) (split_ch 0 out) else walked_paths walk)
   | TimeoutExpired out err \<Rightarrow> Inl SubprocessError
   | RunOSError message \<Rightarrow> Inl OSError)"

definition README_HEADING :: regex where
  "README_HEADING = rseqs [RLineBegin, RSeq (rtimes 2 (rch 35)) (rupto 2 (rch 35)), rplus blank, RGroup 1 (RSeq rdot (RLazy rdot)),
     RStar blank, RLineEnd]"

definition tracked_finding :: "(pystr \<Rightarrow> pystr) \<Rightarrow> pystr \<Rightarrow> pystr list" where
  "tracked_finding fold_case item =
     (let parts = set (map fold_case (path_parts item)); name = fold_case (path_name item) in
      if parts \<inter> U ` {''bin'', ''obj'', ''.vs'', ''.idea'', ''__pycache__''} \<noteq> {} then [U ''tracked generated directory '' @ item]
      else if name = U ''.env'' \<or> startswith name (U ''.env.'') \<and> name \<noteq> U ''.env.example'' then [U ''tracked environment file '' @ item]
      else if name = U ''week-2-public-report.json'' \<or> endswith name (U ''.log'') then [U ''tracked generated artifact '' @ item]
      else [])"

definition readme_text_findings :: "(pystr \<Rightarrow> pystr) \<Rightarrow> pystr \<Rightarrow> pystr list" where
  "readme_text_findings fold_case s =
     (let headings = set (map (\<lambda>m. fold_case (strip (group_or_empty 1 m))) (refinditer README_HEADING s)) in
      map (\<lambda>name. U ''missing README section '' @ name) (sorted_list_of_set (Week2_Constants.SOLUTION_HEADINGS - headings)) @
      map (\<lambda>v. U ''missing README value '' @ v) (filter (\<lambda>v. \<not> contains v s) README_LITERALS))"

definition admission_text_findings :: "world \<Rightarrow> pystr list act" where
  "admission_text_findings w =
     py_bind (ask (\<lambda>n. read_text (v_fs w n) (path_join (v_repo w) (U ''README.md'')))) (\<lambda>r. case r of
       Inl e \<Rightarrow> if e = OSError then py_return [U ''missing README.md''] else py_raise e
     | Inr s \<Rightarrow> py_bind (ask_res (\<lambda>n. tracked_paths_of (v_git w n) (v_walk w n))) (\<lambda>tracked.
         py_return (readme_text_findings (v_fold w) s @ note_if (U ''.gitignore'' \<notin> set tracked) (U ''missing .gitignore'') @
           concat (map (tracked_finding (v_fold w)) tracked))))"

section \<open>The override file\<close>

definition services_dict :: "pydict \<Rightarrow> pydict" where
  "services_dict config = (case dget_def (PDict []) config (U ''services'') of PDict d \<Rightarrow> d | _ \<Rightarrow> [])"

definition built_images :: "pydict \<Rightarrow> pystr set" where
  "built_images services = set (concat (map (\<lambda>(name, service). case service of
     PDict d \<Rightarrow> (case dget_none d (U ''image'') of
         PStr img \<Rightarrow> if truthy (dget_none d (U ''build'')) \<and> img \<noteq> [] then [img] else []
       | _ \<Rightarrow> [])
   | _ \<Rightarrow> []) services))"

definition image_aliases :: "pystr \<Rightarrow> pydict \<Rightarrow> (pystr \<times> pystr) list" where
  "image_aliases project services = map (\<lambda>(index, img). (img, project @ U ''-image-'' @ str_of_nat index @ U '':public-check''))
     (zip [1..<Suc (card (built_images services))] (sorted_list_of_set (built_images services)))"

definition image_overrides :: "pystr \<Rightarrow> pydict \<Rightarrow> (pystr \<times> pystr) list" where
  "image_overrides project services = concat (map (\<lambda>(name, service). case service of
     PDict d \<Rightarrow> (case map_of (image_aliases project services) (py_str (dget_none d (U ''image''))) of
         Some a \<Rightarrow> if name \<in> Week2_Constants.REQUIRED_SERVICES then [(name, a)] else []
       | None \<Rightarrow> [])
   | _ \<Rightarrow> []) services)"

definition named_container :: "pyval \<Rightarrow> bool" where
  "named_container service = (case service of PDict d \<Rightarrow> truthy (dget_none d (U ''container_name'')) | _ \<Rightarrow> False)"

definition overridden_services :: "pystr \<Rightarrow> pydict \<Rightarrow> pystr set" where
  "overridden_services project services = U ` {''api'', ''cli'', ''worker-a'', ''worker-b'', ''gateway''} \<union>
     set (map fst (filter (\<lambda>(name, service). named_container service) services)) \<union> dkeys (image_overrides project services)"

definition environment_lines :: "pystr \<Rightarrow> pystr \<Rightarrow> pystr list" where
  "environment_lines secret name = U ''    environment:'' #
     map (\<lambda>(key, v). U ''      '' @ U key @ U '': '' @ json_str True v)
       [(''COURSE_JWT_ISSUER'', U ''moduledev-course''), (''COURSE_JWT_AUDIENCE'', U ''moduledev-api''), (''COURSE_JWT_SIGNING_KEY'', secret),
        (''COURSE_TEST_PROFILE'', U ''${COURSE_TEST_PROFILE:-1}'')] @
     (if startswith name (U ''worker-'') then [U ''      COURSE_FAILPOINT: \"${COURSE_FAILPOINT:-}\"''] else [])"

definition service_lines :: "pystr \<Rightarrow> pystr \<Rightarrow> pydict \<Rightarrow> pystr \<Rightarrow> pystr list" where
  "service_lines secret project services name =
     [U ''  '' @ name @ U '':''] @
     (case map_of (image_overrides project services) name of None \<Rightarrow> [] | Some a \<Rightarrow> [U ''    image: '' @ json_str True a]) @
     (if named_container (dget_none services name) then [U ''    container_name: !reset null''] else []) @
     (if name \<in> U ` {''api'', ''cli'', ''worker-a'', ''worker-b''} then environment_lines secret name else []) @
     (if name = U ''gateway'' then [U ''    ports: !override'', U ''      - \"127.0.0.1:${COURSE_GATEWAY_PORT:-8080}:8080\"''] else [])"

definition section_lines :: "pystr \<Rightarrow> pydict \<Rightarrow> string \<Rightarrow> pystr list" where
  "section_lines project config section_name = (case dget_def (PDict []) config (U section_name) of
     PDict resources \<Rightarrow>
       if resources = [] then []
       else (U section_name @ U '':'') # concat (map (\<lambda>(index, name). [U ''  '' @ json_str True name @ U '':'',
           U ''    name: '' @ project @ U ''-'' @ U section_name @ U ''-'' @ str_of_nat index])
         (zip [1..<Suc (length resources)] (sorted_list_of_set (dkeys resources))))
   | _ \<Rightarrow> [])"

definition override_text :: "pystr \<Rightarrow> pystr \<Rightarrow> pydict option \<Rightarrow> pystr" where
  "override_text secret project config =
     (let services = (case config of None \<Rightarrow> [] | Some c \<Rightarrow> services_dict c);
          lines = U ''services:'' # concat (map (service_lines secret project services) (sorted_list_of_set (overridden_services project services))) @
            (case config of None \<Rightarrow> []
             | Some c \<Rightarrow> concat (map (section_lines project c) [''volumes'', ''networks'', ''configs'', ''secrets'']))
      in join_str [10] lines @ [10])"

definition image_tags :: "pystr \<Rightarrow> pydict option \<Rightarrow> pystr list" where
  "image_tags project config = (case config of None \<Rightarrow> []
   | Some c \<Rightarrow> sorted_list_of_set (snd ` set (image_overrides project (services_dict c))))"

definition write_override :: "world \<Rightarrow> pydict option \<Rightarrow> unit act" where
  "write_override w config =
     py_seq (py_modify (\<lambda>s. s\<lparr>created_image_tags := image_tags (v_project w) config\<rparr>))
       (ask_res (\<lambda>n. v_write w n (v_override w) (override_text (v_secret w) (v_project w) config)))"

section \<open>The configuration\<close>

definition fixture_check :: "world \<Rightarrow> unit act" where
  "fixture_check w = py_bind (fixture_digest_now w) (\<lambda>digest.
     check w ''fixture-integrity'' ''admission'' True (dget_none (v_fixture w) (U ''digest'')) (PStr digest))"

definition repository_check :: "world \<Rightarrow> unit act" where
  "repository_check w = py_bind (admission_text_findings w) (\<lambda>findings.
     check w ''repository-contract'' ''admission'' (findings = [])
       (ps ''README sections, launch/check commands and clean tracked artifacts'') (strs findings))"

text \<open>Whether to go on.\<close>

definition raw_compose_check :: "world \<Rightarrow> bool act" where
  "raw_compose_check w =
     py_bind (ask_res (\<lambda>n. raw_compose_findings (read_text_replace (v_fs w n) (v_compose_file w)) (v_os_error w n))) (\<lambda>findings.
     if findings \<noteq> [] then py_seq (check w ''compose-safety'' ''admission'' False (ps ''self-contained Compose model'') (strs findings)) (py_return False)
     else py_return True)"

definition service_names_value :: pyval where
  "service_names_value = strs (sorted_list_of_set Week2_Constants.REQUIRED_SERVICES)"

text \<open>The configuration that Compose prints, if the submission has one.\<close>

definition candidate_config :: "world \<Rightarrow> pyval option act" where
  "candidate_config w =
     py_bind (compose_candidate w (map U [''config'', ''--format'', ''json'', ''--no-env-resolution'']) 60) (\<lambda>r.
     if \<not> cr_ok r then
       (if environment_error r then py_raise (EnvironmentFailure (U ''Docker Compose is unavailable during admission''))
        else py_seq (check w ''compose-contract'' ''admission'' False service_names_value (obj [(''exitCode'', PInt (cr_code r))])) (py_return None))
     else (case loads (v_depth w) (cr_out r) of
         Inl e \<Rightarrow> if e = JSONDecodeError
           then py_seq (check w ''compose-contract'' ''admission'' False (ps ''valid Compose JSON'') (ps ''invalid output'')) (py_return None)
           else py_raise e
       | Inr config \<Rightarrow> py_return (Some config)))"

definition config_services :: "pyval \<Rightarrow> pydict" where
  "config_services config = (case config of PDict d \<Rightarrow> (case dget_none d (U ''services'') of PDict s \<Rightarrow> s | _ \<Rightarrow> []) | _ \<Rightarrow> [])"

definition port_list :: "int set \<Rightarrow> pyval" where
  "port_list ports = PList (map PInt (sorted_list_of_set ports))"

definition other_ports :: "pydict \<Rightarrow> (pystr \<times> int set) list res" where
  "other_ports services = res_concat (\<lambda>(name, service). if name = U ''gateway'' then Inr []
     else res_bind (Week2_Compose.published_ports service) (\<lambda>ports. Inr (if ports = {} then [] else [(name, ports)]))) services"

definition contract_check :: "world \<Rightarrow> pydict \<Rightarrow> bool act" where
  "contract_check w services =
     py_bind (py_lift (Week2_Compose.published_ports (dget_none services (U ''gateway'')))) (\<lambda>gateway_ports.
     py_bind (py_lift (other_ports services)) (\<lambda>other.
     let missing = sorted_list_of_set (Week2_Constants.REQUIRED_SERVICES - dkeys services);
         ok = (missing = [] \<and> gateway_ports = {8080} \<and> other = []) in
     py_seq (check w ''compose-contract'' ''admission'' ok
         (obj [(''services'', service_names_value), (''gatewayPorts'', PList [PInt 8080]), (''otherPorts'', PDict [])])
         (obj [(''missingServices'', strs missing), (''gatewayPorts'', port_list gateway_ports),
           (''otherPorts'', PDict (map (\<lambda>(name, ports). (name, port_list ports)) other))]))
       (py_return ok)))"

definition config_findings :: "world \<Rightarrow> nat \<Rightarrow> pyval \<Rightarrow> pystr list res" where
  "config_findings w n config = (case config of
     PDict d \<Rightarrow> Week2_Compose.unsafe_compose_findings (v_expand w) (fs_resolve (v_fs w n)) d (v_repo w)
   | _ \<Rightarrow> Inl AttributeError)"

definition safety_check :: "world \<Rightarrow> pyval \<Rightarrow> bool act" where
  "safety_check w config = py_bind (ask_res (\<lambda>n. config_findings w n config)) (\<lambda>unsafe.
     py_seq (check w ''compose-safety'' ''admission'' (unsafe = []) (ps ''no host escape options'') (strs unsafe)) (py_return (unsafe = [])))"

definition declared_image :: "pyval \<Rightarrow> pyval" where
  "declared_image service = (case service of PDict d \<Rightarrow> dget_none d (U ''image'') | _ \<Rightarrow> PNone)"

definition shared_image :: "pyval \<Rightarrow> pyval \<Rightarrow> bool" where
  "shared_image worker_a worker_b =
     (is_str (declared_image worker_a) \<and> truthy (declared_image worker_a) \<and> declared_image worker_a = declared_image worker_b)"

definition worker_image_check :: "world \<Rightarrow> pydict \<Rightarrow> bool act" where
  "worker_image_check w services =
     (let ok = shared_image (dget_def (PDict []) services (U ''worker-a'')) (dget_def (PDict []) services (U ''worker-b'')) in
      py_seq (check w ''worker-image-contract'' ''admission'' ok (ps ''worker-a and worker-b declare one shared image'')
        (obj [(''sameDeclaredImage'', PBool ok)])) (py_return ok))"

definition dotnet_declared :: "world \<Rightarrow> pyval \<Rightarrow> bool act" where
  "dotnet_declared w service =
     ask_res (\<lambda>n. dotnet_build_declared (v_fold w) (v_alnum w) (v_expand w) (v_fs w n) (v_projects w n) service (v_repo w))"

definition dotnet_check :: "world \<Rightarrow> pydict \<Rightarrow> bool act" where
  "dotnet_check w services =
     py_bind (dotnet_declared w (dget_none services (U ''api''))) (\<lambda>api_dotnet.
     py_bind (dotnet_declared w (dget_def (PDict []) services (U ''worker-a''))) (\<lambda>a.
     py_bind (if a then py_return True else dotnet_declared w (dget_def (PDict []) services (U ''worker-b''))) (\<lambda>worker_dotnet.
     py_seq (check w ''dotnet-runtime-contract'' ''admission'' (api_dotnet \<and> worker_dotnet)
         (ps ''api and shared worker are built as .NET runtimes'')
         (obj [(''apiDotnet'', PBool api_dotnet), (''workerDotnet'', PBool worker_dotnet)]))
       (py_return (api_dotnet \<and> worker_dotnet)))))"

definition configuration_checks :: "world \<Rightarrow> pyval \<Rightarrow> bool act" where
  "configuration_checks w config =
     (let services = config_services config in
      py_bind (contract_check w services) (\<lambda>compose_ok.
      py_bind (safety_check w config) (\<lambda>safe.
      py_bind (worker_image_check w services) (\<lambda>declared.
      py_bind (dotnet_check w services) (\<lambda>dotnet.
        py_return (compose_ok \<and> safe \<and> declared \<and> dotnet))))))"

section \<open>Build and start\<close>

definition required_names :: "pystr list" where
  "required_names = sorted_list_of_set Week2_Constants.REQUIRED_SERVICES"

text \<open>A command whose failure is a failed check, unless the transport failed.\<close>

definition command_check :: "world \<Rightarrow> string \<Rightarrow> string \<Rightarrow> string \<Rightarrow> pystr list \<Rightarrow> rat \<Rightarrow> bool act" where
  "command_check w name expected transport arguments timeout =
     py_bind (compose w arguments timeout) (\<lambda>r.
     if \<not> cr_ok r \<and> environment_error r then py_raise (EnvironmentFailure (U transport))
     else py_seq (check w name ''admission'' (cr_ok r) (ps expected) (obj [(''exitCode'', PInt (cr_code r))])) (py_return (cr_ok r)))"

definition post_build_check :: "world \<Rightarrow> bool act" where
  "post_build_check w = py_bind (fixture_digest_now w) (\<lambda>digest.
     py_seq (check w ''fixture-post-build-integrity'' ''admission'' (digest = v_digest w) (PStr (v_digest w)) (PStr digest))
       (py_return (digest = v_digest w)))"

definition images_value :: "pystr \<Rightarrow> pystr \<Rightarrow> pydict" where
  "images_value api worker = [(U ''api'', PStr api), (U ''worker'', PStr worker)]"

definition built_image_check :: "world \<Rightarrow> bool act" where
  "built_image_check w =
     py_bind (image_id w ''api'') (\<lambda>api. py_bind (image_id w ''worker-a'') (\<lambda>a. py_bind (image_id w ''worker-b'') (\<lambda>b.
     py_seq (check w ''built-image-contract'' ''admission'' (a = b) (ps ''worker-a and worker-b use one image ID'')
         (obj [(''api'', PStr api), (''worker'', PStr a), (''workersMatch'', PBool (a = b))]))
       (if a \<noteq> b then py_return False
        else py_seq (py_modify (\<lambda>s. s\<lparr>baseline_images := images_value api a\<rparr>)) (py_return True)))))"

definition health_check :: "world \<Rightarrow> bool act" where
  "health_check w = py_bind (wait_ready w (v_ready_timeout w) (1 / 10)) (\<lambda>ready.
     py_seq (check w ''health'' ''admission'' ready (ps ''live and ready return HTTP 200'') (obj [(''ready'', PBool ready)])) (py_return ready))"

definition security_ok :: "pydict \<Rightarrow> bool" where
  "security_ok report = list_all (\<lambda>k. dget_none report (U k) = PBool True) [''roleVerified'', ''allDmlDenied'', ''executeBoundaryRestricted'']"

definition security_check :: "world \<Rightarrow> string \<Rightarrow> string \<Rightarrow> string \<Rightarrow> bool act" where
  "security_check w name phase expected = py_bind (wait_worker_database_security w) (\<lambda>report.
     py_seq (check w name phase (security_ok report) (ps expected) (PDict report)) (py_return (security_ok report)))"

definition current_images :: "world \<Rightarrow> pydict act" where
  "current_images w = py_bind (image_id w ''api'') (\<lambda>api. py_bind (image_id w ''worker-a'') (\<lambda>a. py_return (images_value api a)))"

definition baseline_check :: "world \<Rightarrow> bool act" where
  "baseline_check w = py_bind (current_images w) (\<lambda>after_up. py_bind py_get (\<lambda>s.
     let same = py_eq (PDict after_up) (PDict (baseline_images s)) in
     py_seq (check w ''baseline-images'' ''admission'' same (PDict (baseline_images s)) (PDict after_up)) (py_return same)))"

definition all_steps :: "bool act list \<Rightarrow> bool act" where
  "all_steps steps = foldr (\<lambda>step others. py_bind step (\<lambda>ok. if ok then others else py_return False)) steps (py_return True)"

definition arm_cleanup :: "world \<Rightarrow> pyval \<Rightarrow> bool act" where
  "arm_cleanup w config =
     py_seq (write_override w (case config of PDict d \<Rightarrow> Some d | _ \<Rightarrow> None)) (
     py_seq (py_modify (\<lambda>s. s\<lparr>cleanup_armed := True\<rparr>)) (
     py_seq (require_compose w (map U [''down'', ''--volumes'', ''--remove-orphans'']) 90 ''Cannot initialize an empty Compose project'')
       (py_return True)))"

definition launch_steps :: "world \<Rightarrow> pyval \<Rightarrow> bool act list" where
  "launch_steps w config = [
     arm_cleanup w config,
     command_check w ''cold-build'' ''docker compose build --pull --no-cache succeeds'' ''Docker transport failed during the cold build''
       (map U [''build'', ''--pull'', ''--no-cache''] @ required_names) (v_build_timeout w),
     post_build_check w,
     built_image_check w,
     command_check w ''stack-start-no-build'' ''up --no-build succeeds'' ''Docker transport failed while starting the stack''
       (map U [''up'', ''-d'', ''--no-build'', ''--force-recreate''] @ required_names) 600,
     health_check w,
     security_check w ''worker-database-security'' ''admission''
       ''both workers use workflow_worker with only fixed EXECUTE boundaries and no table DML'',
     baseline_check w]"

definition admission :: "world \<Rightarrow> bool act" where
  "admission w =
     py_seq (fixture_check w) (
     py_seq (repository_check w) (
     py_bind (raw_compose_check w) (\<lambda>raw_ok.
     if \<not> raw_ok then py_return False
     else py_bind (candidate_config w) (\<lambda>c. case c of
         None \<Rightarrow> py_return False
       | Some config \<Rightarrow> all_steps (configuration_checks w config # launch_steps w config)))))"

end
