(* ===== verification/Week2_Views.thy ===== *)
theory Week2_Views
  imports Week2_Admission
begin

text \<open>
  What the phases of \<^verbatim>\<open>PublicChecker\<close> of \<^verbatim>\<open>task/week2/autocheck/public_check.py\<close> read: members of the fixture, rows of the
  stable views, the state of a process; and how they start a process.
\<close>

section \<open>The fixture\<close>

definition fx :: "world \<Rightarrow> string \<Rightarrow> pyval" where
  "fx w k = dget_none (v_fixture w) (U k)"

text \<open>
  \<^verbatim>\<open>self.fixture[k][k']\<close>: the fixture that was loaded has these members (\<open>loaded_members\<close>, \<open>loaded_files\<close>), so the value is never absent.
\<close>

definition fx2 :: "world \<Rightarrow> string \<Rightarrow> string \<Rightarrow> pyval" where
  "fx2 w k k' = (case fx w k of PDict d \<Rightarrow> dget_none d (U k') | _ \<Rightarrow> PNone)"

definition flow_name :: "world \<Rightarrow> pystr" where
  "flow_name w = py_str (fx w ''flowName'')"

definition fixture_module :: "world \<Rightarrow> pystr" where
  "fixture_module w = py_str (fx w ''module'')"

definition fixture_action :: "world \<Rightarrow> pystr" where
  "fixture_action w = py_str (fx w ''action'')"

definition input_path :: "pyval \<Rightarrow> pystr" where
  "input_path v = U ''/autocheck/input/'' @ py_str v"

definition file_path :: "world \<Rightarrow> string \<Rightarrow> pystr" where
  "file_path w k = input_path (fx2 w ''files'' k)"

text \<open>\<^verbatim>\<open>(self.fixtures / name).read_text(encoding="utf-8")\<close>\<close>

definition read_fixture_file :: "world \<Rightarrow> pyval \<Rightarrow> pystr act" where
  "read_fixture_file w name = ask_res (\<lambda>n. read_text (v_fs w n) (path_join (v_fixtures w) (py_str name)))"

section \<open>Rows\<close>

definition text_is :: "pydict \<Rightarrow> string \<Rightarrow> string \<Rightarrow> bool" where
  "text_is row k s = (dget_none row (U k) = ps s)"

definition int_is :: "pydict \<Rightarrow> string \<Rightarrow> int \<Rightarrow> bool" where
  "int_is row k n = py_eq (dget_none row (U k)) (PInt n)"

definition same_value :: "pydict \<Rightarrow> pydict \<Rightarrow> string \<Rightarrow> bool" where
  "same_value a b k = py_eq (dget_none a (U k)) (dget_none b (U k))"

definition rows_value :: "pydict list \<Rightarrow> pyval" where
  "rows_value rows = PList (map PDict rows)"

definition same_rows :: "pydict list \<Rightarrow> pydict list \<Rightarrow> bool" where
  "same_rows a b = py_eq (rows_value a) (rows_value b)"

definition first_row :: "pydict list \<Rightarrow> pydict" where
  "first_row rows = (case rows of [] \<Rightarrow> [] | row # _ \<Rightarrow> row)"

text \<open>\<^verbatim>\<open>str(rows[0].get("execution_id")) if len(rows) == 1 else ""\<close>\<close>

definition execution_of :: "pydict list \<Rightarrow> pystr" where
  "execution_of jobs = (if length jobs = 1 then py_str (dget_none (first_row jobs) (U ''execution_id'')) else [])"

definition query_by :: "world \<Rightarrow> pystr \<Rightarrow> pystr \<Rightarrow> pystr \<Rightarrow> pydict list act" where
  "query_by w prefix v suffix = py_bind (py_lift (Week2_Query.sql_literal v)) (\<lambda>l. psql_rows w (prefix @ l @ suffix))"

definition view_count :: "world \<Rightarrow> pystr \<Rightarrow> pystr \<Rightarrow> int act" where
  "view_count w view where_text =
     (if view \<notin> AUTOCHECK_VIEWS then py_raise (ValueError (U ''Unknown stable view''))
      else py_bind (psql_rows w (U ''SELECT count(*)::integer AS count FROM autocheck.'' @ view @
          (if where_text = [] then [] else U '' WHERE '' @ where_text))) (\<lambda>rows.
        let failed = ContractError (U ''autocheck.'' @ view @ U '' did not return one integer count'') in
        case rows of
          [row] \<Rightarrow> (case dget_none row (U ''count'') of
              PInt n \<Rightarrow> py_return n
            | PBool b \<Rightarrow> py_return (if b then 1 else 0)
            | _ \<Rightarrow> py_raise failed)
        | _ \<Rightarrow> py_raise failed))"

definition dispatch_count :: "world \<Rightarrow> int act" where
  "dispatch_count w =
     py_bind (py_lift (Week2_Query.sql_literal (fixture_module w))) (\<lambda>m.
     py_bind (py_lift (Week2_Query.sql_literal (fixture_action w))) (\<lambda>a.
       view_count w (U ''action_dispatches'') (U ''module = '' @ m @ U '' AND action = '' @ a)))"

definition sorted_views :: "pystr list" where
  "sorted_views = sorted_list_of_set AUTOCHECK_VIEWS"

definition view_schema_rows :: "world \<Rightarrow> pydict list act" where
  "view_schema_rows w =
     py_bind (py_lift (res_map Week2_Query.sql_literal sorted_views)) (\<lambda>names.
     psql_rows w (U ''SELECT c.relname AS view_name, c.relkind::text AS relation_kind, '' @
       U ''a.attnum::integer AS ordinal, a.attname AS column_name, '' @
       U ''pg_catalog.format_type(a.atttypid, a.atttypmod) AS data_type '' @
       U ''FROM pg_catalog.pg_class c JOIN pg_catalog.pg_namespace n ON n.oid = c.relnamespace '' @
       sql ''JOIN pg_catalog.pg_attribute a ON a.attrelid = c.oid WHERE n.nspname = `autocheck` AND c.relname IN ('' @
       join_str (U '', '') names @ U '') AND a.attnum > 0 AND NOT a.attisdropped ORDER BY c.relname, a.attnum''))"

definition process_query :: pystr where
  "process_query = U ''SELECT process_id::text, business_key, flow_name, flow_version, state, '' @
     U ''current_step_key, created_at, updated_at FROM autocheck.processes WHERE process_id = ''"

definition process_rows :: "world \<Rightarrow> pystr \<Rightarrow> pydict list act" where
  "process_rows w process_id = query_by w process_query process_id []"

text \<open>\<^verbatim>\<open>len(rows) == 1 and rows[0].get("state") in states\<close>\<close>

definition one_in_states :: "pystr set \<Rightarrow> pydict list \<Rightarrow> bool res" where
  "one_in_states states rows = (case rows of [row] \<Rightarrow> str_key_in (dget_none row (U ''state'')) states | _ \<Rightarrow> Inr False)"

definition poll_process :: "world \<Rightarrow> pystr \<Rightarrow> string \<Rightarrow> pydict act" where
  "poll_process w process_id st =
     py_bind (py_lift (Week2_Query.sql_literal process_id)) (\<lambda>l.
     py_bind (poll_rows w (process_query @ l) (one_in_states {U st}) 8 (1 / 20) None) (\<lambda>rows. py_return (first_row rows)))"

definition jobs_of :: "world \<Rightarrow> pystr \<Rightarrow> pydict list act" where
  "jobs_of w process_id = query_by w (U ''SELECT job_id::text, process_id::text, step_instance_id::text, execution_id::text, '' @
     U ''state, lease_owner, lease_version, lease_until, attempt_count, next_attempt_at FROM autocheck.jobs WHERE process_id = '')
     process_id (U '' ORDER BY job_id'')"

definition attempts_of :: "world \<Rightarrow> pystr \<Rightarrow> pydict list act" where
  "attempts_of w process_id = query_by w (U ''SELECT a.attempt_id::text, a.job_id::text, a.execution_id::text, '' @
     U ''a.lease_version, a.attempt_number, a.status, a.outcome, a.error_code, '' @
     U ''a.started_at, a.finished_at FROM autocheck.attempts a JOIN autocheck.jobs j ON j.job_id = a.job_id WHERE j.process_id = '')
     process_id (U '' ORDER BY a.attempt_number'')"

definition steps_of :: "world \<Rightarrow> pystr \<Rightarrow> pydict list act" where
  "steps_of w process_id = query_by w (U ''SELECT step_instance_id::text, process_id::text, step_key, step_type, state, '' @
     U ''outcome, entered_at, completed_at FROM autocheck.steps WHERE process_id = '')
     process_id (U '' ORDER BY entered_at, step_instance_id'')"

definition signals_of :: "world \<Rightarrow> pystr \<Rightarrow> pydict list act" where
  "signals_of w process_id = query_by w (U ''SELECT message_id, process_id::text, signal_type, body_hash, status, received_at '' @
     U ''FROM autocheck.signals WHERE process_id = '') process_id (U '' ORDER BY received_at, message_id'')"

definition events_of :: "world \<Rightarrow> pystr \<Rightarrow> pydict list act" where
  "events_of w process_id = query_by w (U ''SELECT event_id::text, process_id::text, step_instance_id::text, event_type, '' @
     U ''occurred_at FROM autocheck.workflow_events WHERE process_id = '') process_id (U '' ORDER BY occurred_at, event_id'')"

definition dispatches_of :: "world \<Rightarrow> pystr \<Rightarrow> pydict list act" where
  "dispatches_of w execution_id = query_by w (U ''SELECT correlation_id::text, request_id, module, action, version, principal, '' @
     U ''payload_hash, status, outcome, occurred_at FROM autocheck.action_dispatches WHERE request_id = '')
     execution_id (U '' ORDER BY occurred_at, correlation_id'')"

definition effects_of :: "world \<Rightarrow> pystr \<Rightarrow> pydict list act" where
  "effects_of w execution_id = effect_rows w (py_str (fx w ''targetSchema'')) (py_str (fx w ''effectTable'')) (Some execution_id)"

text \<open>\<^verbatim>\<open>read(execution_id) if execution_id else []\<close>\<close>

definition if_known :: "(pystr \<Rightarrow> pydict list act) \<Rightarrow> pystr \<Rightarrow> pydict list act" where
  "if_known read execution_id = (if execution_id = [] then py_return [] else read execution_id)"

definition flow_version_rows :: "world \<Rightarrow> pydict list act" where
  "flow_version_rows w = query_by w (U ''SELECT flow_name, flow_version, status, is_active, published_at '' @
     U ''FROM autocheck.flow_versions WHERE flow_name = '') (flow_name w) (U '' ORDER BY flow_version'')"

section \<open>Starting a process\<close>

definition nil_uuid :: pystr where
  "nil_uuid = hyphenated (hex32 0)"

text \<open>The id of a started process: in the canonical form up to case, and not the nil UUID.\<close>

definition process_id_of :: "world \<Rightarrow> pydict option \<Rightarrow> pystr option" where
  "process_id_of w body =
     (let v = (case body of Some d \<Rightarrow> (case dget_none d (U ''result'') of PDict r \<Rightarrow> dget_none r (U ''processId'') | _ \<Rightarrow> PNone) | None \<Rightarrow> PNone)
      in case uuid_text (py_str v) of
           Some normalized \<Rightarrow> if normalized \<noteq> v_fold w (py_str v) \<or> normalized = nil_uuid then None else Some normalized
         | None \<Rightarrow> None)"

definition start :: "world \<Rightarrow> string \<Rightarrow> string \<Rightarrow> pystr \<Rightarrow> pystr option \<Rightarrow> bool \<Rightarrow> (cli_result \<times> pystr option) act" where
  "start w label mode business_key input remember =
     (let key = (if business_key \<noteq> [] then business_key else py_str (fx2 w ''businessKeys'' mode) @ U ''-'' @ U label);
          data_path = (if input \<noteq> None then U ''/dev/stdin'' else input_path (case fx2 w ''files'' ''processData'' of
            PDict d \<Rightarrow> dget_none d (U mode) | _ \<Rightarrow> PNone))
      in py_bind (cli_with w [U ''flow'', U ''start'', flow_name w, U ''--business-key'', key, U ''--data'', data_path] input) (\<lambda>rb.
         if \<not> ok_envelope rb then py_return (rb, None)
         else (case process_id_of w (snd rb) of
             None \<Rightarrow> py_return (rb, None)
           | Some p \<Rightarrow> py_seq (if remember then py_modify (\<lambda>s. s\<lparr>processes := dput (U label) p (processes s)\<rparr>) else py_return ())
               (py_return (rb, Some p)))))"

text \<open>A process that must start; the text of the exception shows the answer.\<close>

definition started :: "world \<Rightarrow> string \<Rightarrow> string \<Rightarrow> pystr \<Rightarrow> string \<Rightarrow> pystr act" where
  "started w label mode business_key message = py_bind (start w label mode business_key None True) (\<lambda>(rb, p). case p of
     None \<Rightarrow> py_raise (ContractError (U message @ py_str (command_view rb)))
   | Some process_id \<Rightarrow> py_return process_id)"

end
