(* ===== verification/Week2_Flow.thy ===== *)
theory Week2_Flow
  imports Week2_Views
begin

text \<open>
  The phases \<^verbatim>\<open>publication\<close> and \<^verbatim>\<open>execution\<close> of \<^verbatim>\<open>PublicChecker\<close> in \<^verbatim>\<open>task/week2/autocheck/public_check.py\<close>.
\<close>

section \<open>Publication\<close>

definition publication_commands :: "world \<Rightarrow> pystr list list" where
  "publication_commands w = (let path = (\<lambda>k. [file_path w k]); migrations = [U ''/autocheck/input/migrations''] in [
     map U [''migration'', ''apply''] @ migrations,
     map U [''migration'', ''apply''] @ migrations,
     map U [''action'', ''validate''] @ path ''actionManifest'',
     map U [''action'', ''publish''] @ path ''actionManifest'',
     map U [''action'', ''publish''] @ path ''actionManifest'',
     map U [''action'', ''validate''] @ path ''disabledActionManifest'',
     map U [''action'', ''publish''] @ path ''disabledActionManifest'',
     map U [''action'', ''activate''] @ [fixture_module w @ U ''.'' @ fixture_action w, U ''--version'', U ''1'']])"

definition action_definitions :: "world \<Rightarrow> pydict list act" where
  "action_definitions w =
     py_bind (py_lift (Week2_Query.sql_literal (fixture_module w))) (\<lambda>m.
     py_bind (py_lift (Week2_Query.sql_literal (fixture_action w))) (\<lambda>a.
       psql_rows w (U ''SELECT module, action, version, enabled, is_default FROM autocheck.action_definitions WHERE module = '' @ m @
         U '' AND action = '' @ a @ U '' ORDER BY version'')))"

definition expected_definition :: "world \<Rightarrow> int \<Rightarrow> bool \<Rightarrow> pydict" where
  "expected_definition w version on = [(U ''module'', PStr (fixture_module w)), (U ''action'', PStr (fixture_action w)),
     (U ''version'', PInt version), (U ''enabled'', PBool on), (U ''is_default'', PBool on)]"

definition action_publication :: "world \<Rightarrow> unit act" where
  "action_publication w =
     py_bind (py_map (cli w) (publication_commands w)) (\<lambda>results.
     py_bind (security_check w ''worker-database-security-post-migration'' ''publication''
       ''workflow_worker keeps fixed EXECUTE boundaries and no table DML after migration'') (\<lambda>secure.
     py_bind (action_definitions w) (\<lambda>definitions.
     let ok = (list_all ok_envelope results \<and> secure \<and>
       same_rows definitions [expected_definition w 1 True, expected_definition w 2 False]) in
     py_seq (check w ''migration-and-action-publication'' ''publication'' ok
         (ps ''repeatable migration and v1/v2 action publication through CLI'')
         (obj [(''commands'', PList (map command_view results)), (''definitions'', rows_value definitions)]))
       (if ok then py_return () else py_raise (ContractError (U ''Migration or action publication prerequisite failed''))))))"

text \<open>\<^verbatim>\<open>t -= 1\<close>; the difference of a float is rounded.\<close>

definition minus_one :: "pyval \<Rightarrow> pyval res" where
  "minus_one v = (case v of
     PInt i \<Rightarrow> Inr (PInt (i - 1))
   | PBool b \<Rightarrow> Inr (PInt (if b then 0 else - 1))
   | PFloat (FNum neg m e) \<Rightarrow>
       (let scaled = (if neg then - int m else int m) * 2 ^ nat e; unit_value = 2 ^ nat (- e); difference = scaled - int unit_value
        in Inr (PFloat (double_of_ratio (difference < 0) (nat \<bar>difference\<bar>) unit_value)))
   | PFloat f \<Rightarrow> Inr (PFloat f)
   | _ \<Rightarrow> Inl TypeError)"

text \<open>\<^verbatim>\<open>source["steps"][0]["task"]["timeout_ms"] -= 1\<close>\<close>

definition shorten_timeout :: "pyval \<Rightarrow> pyval res" where
  "shorten_timeout source =
     res_bind (py_item source (U ''steps'')) (\<lambda>steps.
     res_bind (py_first steps) (\<lambda>step.
     res_bind (py_item step (U ''task'')) (\<lambda>task.
     res_bind (py_item task (U ''timeout_ms'')) (\<lambda>t.
     res_bind (minus_one t) (\<lambda>shorter.
       Inr (case (source, steps, step, task) of
           (PDict d, PList (_ # others), PDict sd, PDict td) \<Rightarrow>
             PDict (dput (U ''steps'') (PList (PDict (dput (U ''task'') (PDict (dput (U ''timeout_ms'') shorter td)) sd) # others)) d)
         | _ \<Rightarrow> source))))))"

text \<open>\<^verbatim>\<open>json.dumps(v)\<close>\<close>

definition default_dumps :: "pyval \<Rightarrow> pystr res" where
  "default_dumps v = dumps (spaced\<lparr>ensure_ascii := True\<rparr>) v"

definition read_fixture_json :: "world \<Rightarrow> string \<Rightarrow> pyval act" where
  "read_fixture_json w k = py_bind (read_fixture_file w (fx2 w ''files'' k)) (\<lambda>s. py_lift (loads (v_depth w) s))"

definition invalid_paths :: "world \<Rightarrow> pyval list" where
  "invalid_paths w = (let part = (\<lambda>k. case fx2 w ''files'' ''invalidMaps'' of
      PDict d \<Rightarrow> (case dget_none d (U k) of PList xs \<Rightarrow> xs | _ \<Rightarrow> []) | _ \<Rightarrow> []) in part ''schema'' @ part ''semantic'')"

definition flow_command :: "world \<Rightarrow> string \<Rightarrow> pyval \<Rightarrow> cli_result act" where
  "flow_command w verb v = cli w [U ''flow'', U verb, input_path v]"

definition activate_flow :: "world \<Rightarrow> string \<Rightarrow> cli_result act" where
  "activate_flow w version = cli w [U ''flow'', U ''activate'', flow_name w, U ''--version'', U version]"

definition rejected_count :: "cli_result list \<Rightarrow> pyval" where
  "rejected_count results = PInt (int (length (filter (\<lambda>(r, _). \<not> cr_ok r) results)))"

definition map_publication :: "world \<Rightarrow> unit act" where
  "map_publication w =
     py_bind (py_map (\<lambda>k. flow_command w ''validate'' (fx2 w ''files'' k)) [''flowV1Json'', ''flowV1Yaml'']) (\<lambda>valid_results.
     py_bind (py_map (flow_command w ''validate'') (invalid_paths w)) (\<lambda>invalid_validation.
     py_bind (view_count w (U ''flow_versions'') []) (\<lambda>before.
     py_bind (py_map (flow_command w ''publish'') (invalid_paths w)) (\<lambda>invalid_publication.
     py_bind (view_count w (U ''flow_versions'') []) (\<lambda>after.
     py_bind (flow_command w ''publish'' (fx2 w ''files'' ''flowV1Json'')) (\<lambda>publish.
     py_bind (flow_command w ''publish'' (fx2 w ''files'' ''flowV1Yaml'')) (\<lambda>repeat.
     py_bind (read_fixture_json w ''flowV1Json'') (\<lambda>source.
     py_bind (py_lift (res_bind (shorten_timeout source) default_dumps)) (\<lambda>changed.
     py_bind (cli_with w (map U [''flow'', ''publish'', ''/dev/stdin'']) (Some changed)) (\<lambda>conflict.
     py_bind (activate_flow w ''1'') (\<lambda>activate.
     py_bind (flow_version_rows w) (\<lambda>version_rows.
     let ok = (list_all ok_envelope valid_results \<and> list_all error_envelope invalid_validation \<and>
         list_all error_envelope invalid_publication \<and> before = after \<and> ok_envelope publish \<and> ok_envelope repeat \<and>
         error_envelope conflict \<and> ok_envelope activate \<and> length version_rows = 1 \<and>
         int_is (first_row version_rows) ''flow_version'' 1 \<and> dget_none (first_row version_rows) (U ''is_active'') = PBool True) in
     py_seq (check w ''map-validation-and-publication'' ''publication'' ok
         (ps ''valid JSON/YAML accepted; every invalid map rejected without side effects'')
         (obj [(''invalidMapCount'', PInt (int (length (invalid_paths w)))), (''invalidValidateRejected'', rejected_count invalid_validation),
           (''invalidPublishRejected'', rejected_count invalid_publication), (''countBefore'', PInt before), (''countAfter'', PInt after),
           (''versionRows'', rows_value version_rows)]))
       (if ok then py_return () else py_raise (ContractError (U ''Workflow map validation/publication prerequisite failed'')))))))))))))))"

definition same_as_baseline :: "pydict \<Rightarrow> session \<Rightarrow> bool" where
  "same_as_baseline current s = py_eq (PDict current) (PDict (baseline_images s))"

definition worker_of :: "pydict \<Rightarrow> pyval" where
  "worker_of current = dget_none current (U ''worker'')"

definition image_immutability :: "world \<Rightarrow> unit act" where
  "image_immutability w =
     py_bind (current_images w) (\<lambda>current. py_bind py_get (\<lambda>s.
     py_bind (if same_as_baseline current s
       then py_bind (image_id w ''worker-b'') (\<lambda>b. py_return (PStr b = worker_of current)) else py_return False) (\<lambda>unchanged.
       check w ''publication-image-immutability'' ''publication'' unchanged (PDict (baseline_images s)) (PDict current))))"

definition publication :: "world \<Rightarrow> unit act" where
  "publication w = py_seq (action_publication w) (py_seq (map_publication w) (image_immutability w))"

section \<open>The automatic step\<close>

definition result_dict :: "cli_result \<Rightarrow> pydict" where
  "result_dict rb = (case snd rb of
     Some body \<Rightarrow> (if ok_envelope rb then (case dget_none body (U ''result'') of PDict d \<Rightarrow> d | _ \<Rightarrow> []) else [])
   | None \<Rightarrow> [])"

definition flow_get_matches :: "world \<Rightarrow> pystr \<Rightarrow> cli_result \<Rightarrow> bool" where
  "flow_get_matches w process_id rb = (let d = result_dict rb in
     text_is d ''resource'' ''process'' \<and> dget_none d (U ''processId'') = PStr process_id \<and> dget_none d (U ''flowName'') = PStr (flow_name w) \<and>
     int_is d ''flowVersion'' 1 \<and> text_is d ''state'' ''WAITING_SIGNAL'' \<and>
     py_eq (dget_none d (U ''currentStepKey'')) (fx2 w ''steps'' ''wait''))"

definition workflow_get_matches :: "pystr \<Rightarrow> HttpResult \<Rightarrow> bool" where
  "workflow_get_matches process_id r =
     (let d = (case ht_body r of
          Some body \<Rightarrow> if ht_status r = 200 \<and> text_is body ''status'' ''ok'' then (case dget_none body (U ''result'') of PDict x \<Rightarrow> x | _ \<Rightarrow> []) else []
        | None \<Rightarrow> [])
      in (case dget_none d (U ''process'') of PDict p \<Rightarrow> dget_none p (U ''processId'') = PStr process_id | _ \<Rightarrow> False) \<and>
         list_all (\<lambda>k. is_list (dget_none d (U k))) [''steps'', ''jobs'', ''attempts''])"

definition step_name :: "world \<Rightarrow> string \<Rightarrow> pystr" where
  "step_name w k = py_str (fx2 w ''steps'' k)"

definition outcome_name :: "world \<Rightarrow> string \<Rightarrow> pystr" where
  "outcome_name w k = py_str (fx2 w ''outcomes'' k)"

definition dispatched_once :: "world \<Rightarrow> pystr \<Rightarrow> pydict list \<Rightarrow> bool" where
  "dispatched_once w execution_id dispatches = (length dispatches = 1 \<and>
     action_dispatch_matches (first_row dispatches) execution_id (fixture_module w) (fixture_action w) (outcome_name w ''signal''))"

definition one_signal_effect :: "world \<Rightarrow> pydict list \<Rightarrow> bool" where
  "one_signal_effect w effects = (length effects = 1 \<and>
     py_eq (dget_none (first_row effects) (U ''business_value'')) (fx2 w ''businessValues'' ''signal''))"

text \<open>The three results: the automatic step as a whole, \<^verbatim>\<open>flow get\<close>, and the request for the workflow.\<close>

definition automatic_step :: "world \<Rightarrow> pystr \<Rightarrow> (bool \<times> bool \<times> bool) act" where
  "automatic_step w process_id =
     py_bind (poll_process w process_id ''WAITING_SIGNAL'') (\<lambda>waiting.
     py_bind (jobs_of w process_id) (\<lambda>jobs.
     py_bind (attempts_of w process_id) (\<lambda>attempts.
     let execution_id = execution_of jobs in
     py_bind (if_known (dispatches_of w) execution_id) (\<lambda>dispatches.
     py_bind (if_known (effects_of w) execution_id) (\<lambda>effects.
     py_bind (cli w [U ''flow'', U ''get'', process_id]) (\<lambda>flow_get.
     py_bind (post_action w ''workflow'' ''get'' (obj [(''processId'', PStr process_id)]) [''workflow:read'']) (\<lambda>workflow_get.
     let flow_get_ok = flow_get_matches w process_id flow_get; workflow_get_ok = workflow_get_matches process_id workflow_get in
     py_bind (py_lift (all_of [
       Inr (process_state_matches waiting (U ''WAITING_SIGNAL'') (Some (step_name w ''wait''))),
       Inr (length jobs = 1),
       job_attempts_consistent (first_row jobs) attempts (outcome_name w ''signal''),
       Inr (dispatched_once w execution_id dispatches), Inr (one_signal_effect w effects), Inr flow_get_ok, Inr workflow_get_ok])) (\<lambda>automatic_ok.
       py_return (automatic_ok, flow_get_ok, workflow_get_ok)))))))))"

section \<open>The signal\<close>

definition signal_args :: "world \<Rightarrow> pystr \<Rightarrow> pystr \<Rightarrow> pystr list" where
  "signal_args w process_id message_id = [U ''flow'', U ''signal'', process_id, U ''--type'', py_str (fx w ''signalType''),
     U ''--message-id'', message_id, U ''--payload'']"

definition signal_message :: "world \<Rightarrow> pystr" where
  "signal_message w = py_str (fx w ''signalMessageId'')"

definition send_signal :: "world \<Rightarrow> pystr \<Rightarrow> pystr \<Rightarrow> cli_result act" where
  "send_signal w process_id message_id = cli w (signal_args w process_id message_id @ [file_path w ''signalData''])"

definition changed_signal :: "pyval \<Rightarrow> pyval res" where
  "changed_signal v = (case v of
     PDict [(k, x)] \<Rightarrow> Inr (PDict [(k, PStr (py_str x @ U ''-changed''))])
   | _ \<Rightarrow> Inl (FixtureError (U ''Signal fixture must contain exactly one property'')))"

text \<open>Signals and events of a process, read one after the other.\<close>

definition history_of :: "world \<Rightarrow> pystr \<Rightarrow> (pydict list \<times> pydict list) act" where
  "history_of w process_id = py_bind (signals_of w process_id) (\<lambda>signals. py_bind (events_of w process_id) (\<lambda>events. py_return (signals, events)))"

text \<open>\<^verbatim>\<open>body.get("result", {}).get("status") if ok else None\<close>: a result that is no dictionary raises.\<close>

definition status_of :: "cli_result \<Rightarrow> pyval res" where
  "status_of rb = (case snd rb of
     Some body \<Rightarrow> if ok_envelope rb then get_attr PNone (dget_def (PDict []) body (U ''result'')) (U ''status'') else Inr PNone
   | None \<Rightarrow> Inr PNone)"

definition is_conflict :: "cli_result \<Rightarrow> bool" where
  "is_conflict rb = (error_envelope rb \<and> contains (U ''conflict'') (py_str (error_code (snd rb))))"

record signal_run =
  sg_completed :: pydict
  sg_conflict :: cli_result
  sg_before :: "pydict list \<times> pydict list"
  sg_accepted :: "pydict list \<times> pydict list"
  sg_duplicate :: "pydict list \<times> pydict list"
  sg_after :: "pydict list \<times> pydict list"
  sg_steps :: "pydict list"
  sg_accepted_status :: pyval
  sg_duplicate_status :: pyval

definition run_signals :: "world \<Rightarrow> pystr \<Rightarrow> signal_run act" where
  "run_signals w process_id =
     py_bind (history_of w process_id) (\<lambda>before.
     py_bind (send_signal w process_id (signal_message w)) (\<lambda>accepted.
     py_bind (poll_process w process_id ''COMPLETED'') (\<lambda>completed.
     py_bind (history_of w process_id) (\<lambda>after_accepted.
     py_bind (send_signal w process_id (signal_message w)) (\<lambda>duplicate.
     py_bind (history_of w process_id) (\<lambda>after_duplicate.
     py_bind (read_fixture_json w ''signalData'') (\<lambda>signal_data.
     py_bind (py_lift (res_bind (changed_signal signal_data) default_dumps)) (\<lambda>changed.
     py_bind (cli_with w (signal_args w process_id (signal_message w) @ [U ''/dev/stdin'']) (Some changed)) (\<lambda>conflict.
     py_bind (history_of w process_id) (\<lambda>after_conflict.
     py_bind (steps_of w process_id) (\<lambda>steps.
     py_bind (py_lift (status_of accepted)) (\<lambda>accepted_status.
     py_bind (py_lift (status_of duplicate)) (\<lambda>duplicate_status.
       py_return \<lparr>sg_completed = completed, sg_conflict = conflict, sg_before = before, sg_accepted = after_accepted,
         sg_duplicate = after_duplicate, sg_after = after_conflict, sg_steps = steps, sg_accepted_status = accepted_status,
         sg_duplicate_status = duplicate_status\<rparr>)))))))))))))"

definition end_step :: "world \<Rightarrow> pydict list \<Rightarrow> bool" where
  "end_step w steps = list_ex (\<lambda>row. py_eq (dget_none row (U ''step_key'')) (fx2 w ''steps'' ''end'') \<and> text_is row ''step_type'' ''END'' \<and>
     text_is row ''state'' ''COMPLETED'' \<and> py_eq (dget_none row (U ''outcome'')) (fx2 w ''outcomes'' ''completed'')) steps"

definition automatic_check :: "world \<Rightarrow> bool \<times> bool \<times> bool \<Rightarrow> signal_run \<Rightarrow> unit act" where
  "automatic_check w automatic g = (case automatic of (automatic_ok, flow_get_ok, workflow_get_ok) \<Rightarrow>
     check w ''automatic-signal-end'' ''execution''
       (automatic_ok \<and> process_state_matches (sg_completed g) (U ''COMPLETED'') (Some (step_name w ''end'')) \<and> end_step w (sg_steps g))
       (ps ''automatic -> wait_signal -> end with one action effect'')
       (obj [(''automatic'', PBool automatic_ok), (''finalState'', dget_none (sg_completed g) (U ''state'')),
         (''endStep'', PBool (end_step w (sg_steps g))), (''flowGet'', PBool flow_get_ok), (''workflowGet'', PBool workflow_get_ok)]))"

text \<open>The dictionary from event id to row keeps the last row of equal ids.\<close>

definition event_row :: "pydict list \<Rightarrow> pyval \<Rightarrow> pyval" where
  "event_row events k = (case find (\<lambda>row. py_eq (dget_none row (U ''event_id'')) k) (rev events) of Some row \<Rightarrow> PDict row | None \<Rightarrow> PNone)"

definition events_kept :: "pydict list \<Rightarrow> pydict list \<Rightarrow> bool" where
  "events_kept old new = list_all (\<lambda>row. let k = dget_none row (U ''event_id'') in py_eq (event_row new k) (event_row old k)) old"

definition history_matches :: "signal_run \<Rightarrow> bool res" where
  "history_matches g =
     (if \<not> list_all (\<lambda>row. hashable (dget_none row (U ''event_id''))) (snd (sg_before g) @ snd (sg_accepted g)) then Inl TypeError
      else Inr (fst (sg_before g) = [] \<and> length (fst (sg_accepted g)) = 1 \<and>
        same_rows (fst (sg_duplicate g)) (fst (sg_accepted g)) \<and> same_rows (fst (sg_after g)) (fst (sg_accepted g)) \<and>
        length (snd (sg_before g)) < length (snd (sg_accepted g)) \<and> events_kept (snd (sg_before g)) (snd (sg_accepted g)) \<and>
        same_rows (snd (sg_duplicate g)) (snd (sg_accepted g)) \<and> same_rows (snd (sg_after g)) (snd (sg_accepted g))))"

definition signal_matches :: "signal_run \<Rightarrow> bool res" where
  "signal_matches g = res_bind (history_matches g) (\<lambda>history_ok.
     Inr (sg_accepted_status g = ps ''accepted'' \<and> sg_duplicate_status g = ps ''duplicate'' \<and> is_conflict (sg_conflict g) \<and> history_ok))"

section \<open>A signal before its step\<close>

record early_run =
  ea_status :: pyval
  ea_completed :: pydict
  ea_before :: "pydict list"
  ea_after :: "pydict list"
  ea_conflict :: cli_result
  ea_ok :: bool

definition stop_workers :: "world \<Rightarrow> string \<Rightarrow> unit act" where
  "stop_workers w message = require_compose w (map U [''stop'', ''worker-a'', ''worker-b'']) 30 message"

definition up_workers :: "world \<Rightarrow> string \<Rightarrow> unit act" where
  "up_workers w message = require_compose w (map U [''up'', ''-d'', ''--no-build'', ''worker-a'', ''worker-b'']) 40 message"

definition early_process :: "world \<Rightarrow> pystr act" where
  "early_process w =
     py_bind (start w ''early-signal'' ''signal'' [] None False) (\<lambda>(rb, p). case p of
       Some early_id \<Rightarrow> py_return early_id
     | None \<Rightarrow> py_seq (up_workers w ''Cannot restore workers after early-signal setup'')
         (py_raise (ContractError (U ''Early-signal process did not start: '' @ py_str (command_view rb)))))"

definition early_matches :: "world \<Rightarrow> pyval \<Rightarrow> pydict list \<Rightarrow> pydict \<Rightarrow> pydict list \<Rightarrow> cli_result \<Rightarrow> bool" where
  "early_matches w st before completed after conflict =
     (st = ps ''accepted'' \<and> length before = 1 \<and> text_is (first_row before) ''status'' ''ACCEPTED'' \<and>
      process_state_matches completed (U ''COMPLETED'') (Some (step_name w ''end'')) \<and>
      length after = 1 \<and> text_is (first_row after) ''status'' ''APPLIED'' \<and> is_conflict conflict)"

definition early_signal :: "world \<Rightarrow> pystr \<Rightarrow> signal_run \<Rightarrow> early_run act" where
  "early_signal w process_id g =
     py_seq (stop_workers w ''Cannot stop workers for the early-signal probe'') (
     py_bind (early_process w) (\<lambda>early_id.
     let message_id = signal_message w @ U ''-early'' in
     py_bind (send_signal w early_id message_id) (\<lambda>accepted.
     py_bind (signals_of w early_id) (\<lambda>before.
     py_seq (up_workers w ''Cannot restart workers for the early signal'') (
     py_bind (poll_process w early_id ''COMPLETED'') (\<lambda>completed.
     py_bind (signals_of w early_id) (\<lambda>after.
     py_bind (send_signal w process_id message_id) (\<lambda>conflict.
     py_bind (signals_of w early_id) (\<lambda>after_conflict.
     py_bind (signals_of w process_id) (\<lambda>original_after.
     py_bind (py_lift (status_of accepted)) (\<lambda>st.
       py_return \<lparr>ea_status = st, ea_completed = completed, ea_before = before, ea_after = after, ea_conflict = conflict,
         ea_ok = early_matches w st before completed after conflict \<and> same_rows after_conflict after \<and>
           same_rows original_after (fst (sg_after g))\<rparr>)))))))))))"

definition count_list :: "'a list list \<Rightarrow> pyval" where
  "count_list xss = PList (map (\<lambda>xs. PInt (int (length xs))) xss)"

definition signal_check :: "world \<Rightarrow> bool \<Rightarrow> signal_run \<Rightarrow> early_run \<Rightarrow> unit act" where
  "signal_check w signal_ok g e = (let parts = [sg_before g, sg_accepted g, sg_duplicate g, sg_after g] in
     check w ''signal-idempotency-and-history'' ''execution'' (signal_ok \<and> ea_ok e)
       (ps ''accepted, duplicate, global conflict and early delivery reconciliation'')
       (obj [(''accepted'', sg_accepted_status g), (''duplicate'', sg_duplicate_status g), (''conflictCode'', error_code (snd (sg_conflict g))),
         (''signalCounts'', count_list (map fst parts)), (''eventCounts'', count_list (map snd parts)),
         (''earlyAccepted'', ea_status e), (''earlyFinalState'', dget_none (ea_completed e) (U ''state'')),
         (''earlySignalState'', if length (ea_after e) = 1 then dget_none (first_row (ea_after e)) (U ''status'') else PNone),
         (''crossProcessConflictCode'', error_code (snd (ea_conflict e)))]))"

section \<open>The manual step and the views\<close>

definition manual_check :: "world \<Rightarrow> unit act" where
  "manual_check w =
     py_bind (started w ''manual'' ''manual'' [] ''Manual-route process did not start: '') (\<lambda>manual_id.
     py_bind (poll_process w manual_id ''WAITING_MANUAL'') (\<lambda>manual.
     py_bind (steps_of w manual_id) (\<lambda>manual_steps.
     check w ''manual-wait'' ''execution''
       (process_state_matches manual (U ''WAITING_MANUAL'') (Some (step_name w ''manual'')) \<and>
        list_ex (\<lambda>row. py_eq (dget_none row (U ''step_key'')) (fx2 w ''steps'' ''manual'') \<and> text_is row ''step_type'' ''MANUAL'' \<and>
          text_is row ''state'' ''WAITING'') manual_steps)
       (ps ''persistent WAITING_MANUAL'') (obj [(''process'', PDict manual), (''stepCount'', PInt (int (length manual_steps)))]))))"

definition available_count :: "world \<Rightarrow> pystr \<Rightarrow> (pystr \<times> pyval) act" where
  "available_count w view = py_try (py_bind (view_count w view []) (\<lambda>n. py_return (view, PInt n))) (\<lambda>e. contract_text e \<noteq> None)
     (\<lambda>_. py_return (view, ps ''unavailable''))"

definition views_check :: "world \<Rightarrow> unit act" where
  "views_check w =
     py_bind (py_map (available_count w) sorted_views) (\<lambda>view_counts.
     py_bind (view_schema_rows w) (\<lambda>schema_rows.
     py_bind (py_lift (stable_view_schemas_match schema_rows)) (\<lambda>schemas_match.
     check w ''stable-views'' ''execution'' (list_all (\<lambda>(_, v). is_int v) view_counts \<and> schemas_match)
       (obj [(''views'', strs sorted_views), (''exactSchemas'', PBool True)])
       (obj [(''counts'', PDict view_counts), (''exactSchemas'', PBool schemas_match)]))))"

definition execution :: "world \<Rightarrow> unit act" where
  "execution w =
     py_bind (started w ''signal'' ''signal'' [] ''Signal-route process did not start: '') (\<lambda>process_id.
     py_bind (automatic_step w process_id) (\<lambda>automatic.
     py_bind (run_signals w process_id) (\<lambda>g.
     py_seq (automatic_check w automatic g) (
     py_bind (py_lift (signal_matches g)) (\<lambda>signal_ok.
     py_bind (early_signal w process_id g) (\<lambda>e.
     py_seq (signal_check w signal_ok g e) (
     py_seq (manual_check w) (views_check w))))))))"

end
