(* ===== verification/Week2_Workers.thy ===== *)
theory Week2_Workers
  imports Week2_Flow
begin

text \<open>
  The phases \<^verbatim>\<open>versioning\<close>, \<^verbatim>\<open>concurrency\<close> and \<^verbatim>\<open>recovery\<close> of \<^verbatim>\<open>PublicChecker\<close> in
  \<^verbatim>\<open>task/week2/autocheck/public_check.py\<close>.
\<close>

section \<open>Versions\<close>

definition business_key :: "world \<Rightarrow> string \<Rightarrow> pystr" where
  "business_key w k = py_str (fx2 w ''businessKeys'' k)"

definition process_data :: "world \<Rightarrow> string \<Rightarrow> pyval" where
  "process_data w k = (case fx2 w ''files'' ''processData'' of PDict d \<Rightarrow> dget_none d (U k) | _ \<Rightarrow> PNone)"

definition known_process :: "string \<Rightarrow> session \<Rightarrow> pystr" where
  "known_process label s = (case map_of (processes s) (U label) of Some p \<Rightarrow> p | None \<Rightarrow> [])"

text \<open>\<^verbatim>\<open>self.processes.get("manual") or self.processes.get("signal")\<close>\<close>

definition old_process :: "session \<Rightarrow> pystr" where
  "old_process s = (if known_process ''manual'' s \<noteq> [] then known_process ''manual'' s else known_process ''signal'' s)"

record version_run =
  vr_process :: pystr
  vr_rows :: "pydict list"
  vr_new :: pydict
  vr_old :: "pydict list"
  vr_same :: "pystr option"
  vr_changed :: cli_result
  vr_execution :: pystr
  vr_dispatches :: "pydict list"
  vr_effects :: "pydict list"

definition run_versions :: "world \<Rightarrow> version_run act" where
  "run_versions w =
     py_bind (flow_command w ''publish'' (fx2 w ''files'' ''flowV2Json'')) (\<lambda>publish.
     py_bind (activate_flow w ''2'') (\<lambda>activate.
     if \<not> ok_envelope publish \<or> \<not> ok_envelope activate
     then py_raise (ContractError (U ''Flow v2 could not be published and activated''))
     else
       py_bind (flow_version_rows w) (\<lambda>rows.
       py_bind (started w ''v2'' ''signal'' (business_key w ''v2'') ''Flow v2 process did not start: '') (\<lambda>process_id.
       py_bind (poll_process w process_id ''WAITING_MANUAL'') (\<lambda>new_process.
       py_bind py_get (\<lambda>s.
       py_bind (if_known (process_rows w) (old_process s)) (\<lambda>old_rows.
       py_bind (start w ''v2-repeat'' ''signal'' (business_key w ''v2'') None False) (\<lambda>(_, same).
       py_bind (read_fixture_file w (process_data w ''changed'')) (\<lambda>changed_data.
       py_bind (start w ''v2-conflict'' ''signal'' (business_key w ''v2'') (Some changed_data) False) (\<lambda>(changed, _).
       py_bind (jobs_of w process_id) (\<lambda>jobs.
       py_bind (if_known (dispatches_of w) (execution_of jobs)) (\<lambda>dispatches.
       py_bind (if_known (effects_of w) (execution_of jobs)) (\<lambda>effects.
         py_return \<lparr>vr_process = process_id, vr_rows = rows, vr_new = new_process, vr_old = old_rows, vr_same = same,
           vr_changed = changed, vr_execution = execution_of jobs, vr_dispatches = dispatches, vr_effects = effects\<rparr>)))))))))))))"

definition versions_match :: "world \<Rightarrow> version_run \<Rightarrow> bool res" where
  "versions_match w v = all_of [
     exact_active_version (vr_rows v) 2,
     Inr (length (vr_old v) = 1 \<and> int_is (first_row (vr_old v)) ''flow_version'' 1 \<and> int_is (vr_new v) ''flow_version'' 2 \<and>
       process_state_matches (vr_new v) (U ''WAITING_MANUAL'') (Some (step_name w ''manual'')) \<and>
       vr_same v = Some (vr_process v) \<and> is_conflict (vr_changed v) \<and>
       dispatched_once w (vr_execution v) (vr_dispatches v) \<and> one_signal_effect w (vr_effects v))]"

definition version_check :: "world \<Rightarrow> version_run \<Rightarrow> unit act" where
  "version_check w v = py_bind (py_lift (versions_match w v)) (\<lambda>valid.
     check w ''version-pinning-and-start-idempotency'' ''versioning'' valid
       (ps ''old=v1, new=v2, action=v1, same start replays, changed data conflicts'')
       (obj [(''oldVersion'', dget_none (first_row (vr_old v)) (U ''flow_version'')), (''newVersion'', dget_none (vr_new v) (U ''flow_version'')),
         (''sameProcess'', PBool (vr_same v = Some (vr_process v))), (''changedCode'', error_code (snd (vr_changed v))),
         (''actionVersions'', PList (column ''version'' (vr_dispatches v))),
         (''activeVersions'', PList (column ''flow_version'' (filter (\<lambda>row. dget_none row (U ''is_active'') = PBool True) (vr_rows v))))]))"

text \<open>The result of a later probe is written into the check that is already recorded.\<close>

definition amend_item :: "bool \<Rightarrow> pydict \<Rightarrow> pydict" where
  "amend_item terminal item =
     (let item' = (case dget_none item (U ''actual'') of
          PDict d \<Rightarrow> dput (U ''actual'') (PDict (dput (U ''unknownOutcomeTerminal'') (PBool terminal) d)) item | _ \<Rightarrow> item)
      in if terminal then item' else dput (U ''status'') (ps ''failed'') item')"

fun amend_check :: "pystr \<Rightarrow> bool \<Rightarrow> pydict list \<Rightarrow> pydict list" where
  "amend_check name terminal [] = []"
| "amend_check name terminal (item # items) =
     (if dget_none item (U ''name'') = PStr name then amend_item terminal item # items else item # amend_check name terminal items)"

definition unknown_probe :: "world \<Rightarrow> unit act" where
  "unknown_probe w =
     py_bind (started w ''unknown'' ''unknown'' [] ''Unknown-outcome process did not start: '') (\<lambda>unknown_id.
     py_bind (poll_process w unknown_id ''FAILED'') (\<lambda>unknown_process.
     py_bind (jobs_of w unknown_id) (\<lambda>jobs.
     py_bind (attempts_of w unknown_id) (\<lambda>attempts.
     py_bind (if_known (effects_of w) (execution_of jobs)) (\<lambda>effects.
     py_bind (py_lift (terminal_failure_consistent unknown_process jobs attempts effects 1 None)) (\<lambda>terminal.
       py_modify (\<lambda>s. s\<lparr>checks := amend_check (U ''version-pinning-and-start-idempotency'') terminal (checks s)\<rparr>)))))))"

definition versioning :: "world \<Rightarrow> unit act" where
  "versioning w = py_bind (run_versions w) (\<lambda>v. py_seq (version_check w v) (unknown_probe w))"

section \<open>Concurrency\<close>

definition snapshot :: "world \<Rightarrow> pystr \<Rightarrow> pystr \<Rightarrow> pyval act" where
  "snapshot w process_id execution_id =
     py_bind (py_map (\<lambda>view. py_bind (view_count w view []) (\<lambda>n. py_return (view, PInt n))) sorted_views) (\<lambda>counts.
     py_bind (process_rows w process_id) (\<lambda>rows.
     py_bind (steps_of w process_id) (\<lambda>steps.
     py_bind (jobs_of w process_id) (\<lambda>jobs.
     py_bind (attempts_of w process_id) (\<lambda>attempts.
     py_bind (signals_of w process_id) (\<lambda>signals.
     py_bind (events_of w process_id) (\<lambda>events.
     py_bind (dispatches_of w execution_id) (\<lambda>dispatches.
     py_bind (effects_of w execution_id) (\<lambda>effects.
       py_return (obj [(''counts'', PDict counts), (''processes'', rows_value rows), (''steps'', rows_value steps), (''jobs'', rows_value jobs),
         (''attempts'', rows_value attempts), (''signals'', rows_value signals), (''events'', rows_value events),
         (''dispatches'', rows_value dispatches), (''effects'', rows_value effects)]))))))))))"

definition activate_v1 :: "world \<Rightarrow> string \<Rightarrow> unit act" where
  "activate_v1 w message = py_bind (activate_flow w ''1'') (\<lambda>activate.
     if ok_envelope activate then py_return () else py_raise (ContractError (U message)))"

definition recreate :: "world \<Rightarrow> pystr list \<Rightarrow> string \<Rightarrow> unit act" where
  "recreate w services message = require_compose w (map U [''up'', ''-d'', ''--no-build'', ''--force-recreate''] @ services) 40 message"

definition workers :: "pystr list" where
  "workers = [U ''worker-a'', U ''worker-b'']"

definition require_run :: "world \<Rightarrow> pystr list \<Rightarrow> string \<Rightarrow> string \<Rightarrow> unit act" where
  "require_run w cmd failpoint message = py_bind (run_command w cmd 20 None failpoint) (\<lambda>r. py_lift (require r (U message)))"

definition claim_query :: pystr where
  "claim_query = U ''SELECT job_id::text, process_id::text, execution_id::text, state, lease_owner, lease_version, attempt_count '' @
     U ''FROM autocheck.jobs WHERE process_id = ''"

text \<open>One job, leased to one of these owners at this attempt.\<close>

definition leased_to :: "pystr set \<Rightarrow> int \<Rightarrow> pydict list \<Rightarrow> bool res" where
  "leased_to owners attempt rows = all_of [
     Inr (length rows = 1 \<and> text_is (first_row rows) ''state'' ''LEASED''),
     str_key_in (dget_none (first_row rows) (U ''lease_owner'')) owners,
     Inr (int_is (first_row rows) ''attempt_count'' attempt)]"

definition poll_claim :: "world \<Rightarrow> pystr \<Rightarrow> pystr set \<Rightarrow> int \<Rightarrow> pystr option \<Rightarrow> pydict act" where
  "poll_claim w process_id owners attempt container_id =
     py_bind (py_lift (Week2_Query.sql_literal process_id)) (\<lambda>l.
     py_bind (poll_rows w (claim_query @ l) (leased_to owners attempt) 8 (1 / 20) container_id) (\<lambda>rows. py_return (first_row rows)))"

text \<open>One process with one job that waits, and both workers created but not started.\<close>

definition queued_job :: "world \<Rightarrow> (pystr \<times> pydict) act" where
  "queued_job w =
     py_bind (started w ''concurrent'' ''signal'' [] ''Concurrency process did not start: '') (\<lambda>process_id.
     py_bind (jobs_of w process_id) (\<lambda>queued.
     if length queued \<noteq> 1 \<or> \<not> text_is (first_row queued) ''state'' ''READY''
     then py_raise (ContractError (U ''The stopped workers did not leave one logical READY job''))
     else py_return (process_id, first_row queued)))"

record claim_run =
  cl_winner :: pystr
  cl_loser :: pystr
  cl_winner_ack :: pyval
  cl_loser_ack :: pyval
  cl_reclaimed :: pydict

definition run_claims :: "world \<Rightarrow> pystr \<Rightarrow> claim_run act" where
  "run_claims w process_id =
     py_bind (compose_with w (map U [''create'', ''--no-build'', ''--force-recreate''] @ workers) 40 None ''after_job_claim'') (\<lambda>created.
     py_seq (py_lift (require created (U ''Cannot create both workers with after_job_claim''))) (
     py_bind (service_container_ids w workers True) (\<lambda>container_ids.
     py_bind (service_container_ids w [U ''postgres''] False) (\<lambda>postgres_ids.
     py_bind (py_lift (ditem postgres_ids (U ''postgres''))) (\<lambda>postgres_id.
     py_bind (py_lift (res_map (ditem container_ids) workers)) (\<lambda>ids.
     py_seq (require_run w (map U [''docker'', ''start''] @ ids) ''after_job_claim'' ''Cannot start both workers with after_job_claim'') (
     py_bind (poll_claim w process_id (set workers) 1 (Some postgres_id)) (\<lambda>claimed.
     py_bind (py_lift (ditem claimed (U ''lease_owner''))) (\<lambda>owner.
     let winner = py_str owner; loser = (if winner = U ''worker-a'' then U ''worker-b'' else U ''worker-a'') in
     py_bind (py_lift (ditem container_ids winner)) (\<lambda>winner_id.
     py_bind (wait_failpoint w winner ''after_job_claim'' 8 (1 / 20) (Some winner_id)) (\<lambda>winner_ack.
     py_seq (require_run w (map U [''docker'', ''kill''] @ [winner_id]) [] ''Cannot kill the acknowledged claim winner'') (
     py_bind (wait_failpoint w loser ''after_job_claim'' 8 (1 / 20) None) (\<lambda>loser_ack.
     py_bind (poll_claim w process_id {loser} 2 None) (\<lambda>reclaimed.
       py_return \<lparr>cl_winner = winner, cl_loser = loser, cl_winner_ack = winner_ack, cl_loser_ack = loser_ack,
         cl_reclaimed = reclaimed\<rparr>))))))))))))))"

definition initial_lease :: "pydict list \<Rightarrow> pyval" where
  "initial_lease reclaimed_attempts = dget_none (first_row reclaimed_attempts) (U ''lease_version'')"

definition initial_claim_ok :: "pydict \<Rightarrow> pydict list \<Rightarrow> bool" where
  "initial_claim_ok reclaimed reclaimed_attempts =
     (length reclaimed_attempts = 2 \<and> int_is (first_row reclaimed_attempts) ''attempt_number'' 1 \<and>
      text_is (first_row reclaimed_attempts) ''status'' ''STALE'' \<and>
      strictly_increasing_integer (dget_none reclaimed (U ''lease_version'')) (initial_lease reclaimed_attempts))"

definition distinct_ids :: "pydict list \<Rightarrow> string \<Rightarrow> nat \<Rightarrow> bool res" where
  "distinct_ids rows k n = res_bind (set_of (column k rows)) (\<lambda>ids. Inr (length ids = n))"

definition reclaimed_match :: "pydict \<Rightarrow> pydict list \<Rightarrow> bool res" where
  "reclaimed_match reclaimed reclaimed_attempts = all_of [
     Inr (int_is reclaimed ''attempt_count'' 2 \<and> length reclaimed_attempts = 2),
     distinct_ids reclaimed_attempts ''attempt_id'' 2,
     Inr (int_is (last reclaimed_attempts) ''attempt_number'' 2 \<and> same_value (last reclaimed_attempts) reclaimed ''lease_version'' \<and>
       text_is (last reclaimed_attempts) ''status'' ''RUNNING'')]"

text \<open>Finishing with the lease of the killed worker: the answer, and whether nothing changed.\<close>

definition stale_finish :: "world \<Rightarrow> pystr \<Rightarrow> pystr \<Rightarrow> claim_run \<Rightarrow> pyval \<Rightarrow> (cli_result \<times> bool) act" where
  "stale_finish w process_id execution_id c lease =
     py_bind (snapshot w process_id execution_id) (\<lambda>before_stale.
     py_bind (py_lift (ditem (cl_reclaimed c) (U ''job_id''))) (\<lambda>job_id.
     py_bind (cli w [U ''flow'', U ''test-finish'', py_str job_id, U ''--owner'', cl_winner c, U ''--lease-version'', py_str lease,
       U ''--outcome'', outcome_name w ''signal'', U ''--result'', file_path w ''resultData'']) (\<lambda>stale.
     py_bind (snapshot w process_id execution_id) (\<lambda>after_stale.
       py_return (stale, py_eq before_stale after_stale)))))"

definition stale_rejected :: "cli_result \<Rightarrow> bool" where
  "stale_rejected rb = (error_envelope rb \<and> error_code (snd rb) = ps ''workflow.lease_stale'')"

definition ack_from :: "pyval \<Rightarrow> pystr \<Rightarrow> bool" where
  "ack_from ack worker = (case ack of PDict d \<Rightarrow> dget_none d (U ''instanceId'') = PStr worker | _ \<Rightarrow> False)"

record final_run =
  fr_jobs :: "pydict list"
  fr_attempts :: "pydict list"
  fr_effects :: "pydict list"
  fr_dispatches :: int

definition run_final :: "world \<Rightarrow> pystr \<Rightarrow> pystr \<Rightarrow> pystr \<Rightarrow> final_run act" where
  "run_final w process_id execution_id loser =
     py_seq (require_compose w [U ''kill'', loser] 20 ''Cannot stop the reclaiming failpoint worker'') (
     py_seq (recreate w [loser] ''Cannot restart the reclaiming worker without a failpoint'') (
     py_seq (poll_process w process_id ''WAITING_SIGNAL'') (
     py_bind (jobs_of w process_id) (\<lambda>final_jobs.
     py_bind (attempts_of w process_id) (\<lambda>attempts.
     py_bind (effects_of w execution_id) (\<lambda>effects.
     py_bind (dispatch_count w) (\<lambda>n.
       py_return \<lparr>fr_jobs = final_jobs, fr_attempts = attempts, fr_effects = effects, fr_dispatches = n\<rparr>)))))))"

definition final_match :: "pydict \<Rightarrow> pystr \<Rightarrow> final_run \<Rightarrow> bool res" where
  "final_match reclaimed execution_id f = all_of [
     Inr (length (fr_jobs f) = 1 \<and> text_is (first_row (fr_jobs f)) ''state'' ''SUCCEEDED'' \<and> same_value (first_row (fr_jobs f)) reclaimed ''job_id'' \<and>
       dget_none (first_row (fr_jobs f)) (U ''execution_id'') = PStr execution_id \<and>
       strictly_increasing_integer (dget_none (first_row (fr_jobs f)) (U ''lease_version'')) (dget_none reclaimed (U ''lease_version'')) \<and>
       3 \<le> length (fr_attempts f)),
     distinct_ids (fr_attempts f) ''attempt_id'' (length (fr_attempts f)),
     Inr (list_all (\<lambda>row. same_value row reclaimed ''job_id'' \<and> dget_none row (U ''execution_id'') = PStr execution_id) (fr_attempts f) \<and>
       length (filter (\<lambda>row. text_is row ''status'' ''SUCCEEDED'') (fr_attempts f)) = 1)]"

definition concurrency_check ::
    "world \<Rightarrow> pydict \<Rightarrow> claim_run \<Rightarrow> pydict list \<Rightarrow> bool \<Rightarrow> pystr \<Rightarrow> cli_result \<times> bool \<Rightarrow> final_run \<Rightarrow> int \<Rightarrow> unit act" where
  "concurrency_check w queued c reclaimed_attempts reclaimed_ok execution_id stale f before_dispatch =
     (let reclaimed = cl_reclaimed c; initial_claim = initial_claim_ok reclaimed reclaimed_attempts; delta = fr_dispatches f - before_dispatch in
     py_bind (py_lift (all_of [
       Inr (initial_claim \<and> reclaimed_ok \<and> ack_from (cl_winner_ack c) (cl_winner c) \<and> ack_from (cl_loser_ack c) (cl_loser c) \<and>
         same_value reclaimed queued ''job_id'' \<and> same_value reclaimed queued ''execution_id'' \<and> stale_rejected (fst stale) \<and> snd stale),
       final_match reclaimed execution_id f,
       Inr (delta = 1 \<and> length (fr_effects f) = 1)])) (\<lambda>valid.
     check w ''two-worker-reclaim-and-stale-finish'' ''concurrency'' valid
       (ps ''one winner, same job/execution reclaim, stale finish rejected, one effect'')
       (obj [(''winner'', PStr (cl_winner c)), (''loser'', PStr (cl_loser c)), (''initialClaim'', PBool initial_claim),
         (''reclaimedAttempt'', PBool reclaimed_ok), (''sameJob'', PBool (same_value reclaimed queued ''job_id'')),
         (''sameExecution'', PBool (same_value reclaimed queued ''execution_id'')),
         (''leaseVersions'', PList [initial_lease reclaimed_attempts, dget_none reclaimed (U ''lease_version''),
           dget_none (first_row (fr_jobs f)) (U ''lease_version'')]),
         (''staleCode'', error_code (snd (fst stale))), (''staleSnapshotUnchanged'', PBool (snd stale)),
         (''attemptCount'', PInt (int (length (fr_attempts f)))), (''dispatchDelta'', PInt delta),
         (''effectCount'', PInt (int (length (fr_effects f))))])))"

definition concurrency :: "world \<Rightarrow> unit act" where
  "concurrency w =
     py_seq (activate_v1 w ''Flow v1 could not be activated for the concurrency scenario'') (
     py_seq (stop_workers w ''Cannot stop workers for the deterministic claim scenario'') (
     py_bind (dispatch_count w) (\<lambda>before_dispatch.
     py_bind (queued_job w) (\<lambda>(process_id, queued).
     py_bind (run_claims w process_id) (\<lambda>c.
     py_bind (attempts_of w process_id) (\<lambda>reclaimed_attempts.
     py_bind (py_lift (reclaimed_match (cl_reclaimed c) reclaimed_attempts)) (\<lambda>reclaimed_ok.
     py_bind (py_lift (ditem (cl_reclaimed c) (U ''execution_id''))) (\<lambda>e.
     py_bind (stale_finish w process_id (py_str e) c (initial_lease reclaimed_attempts)) (\<lambda>stale.
     py_bind (run_final w process_id (py_str e) (cl_loser c)) (\<lambda>f.
     py_seq (concurrency_check w queued c reclaimed_attempts reclaimed_ok (py_str e) stale f before_dispatch)
       (recreate w workers ''Cannot restore both workers after the concurrency scenario'')))))))))))"

section \<open>Recovery\<close>

definition held_job :: "world \<Rightarrow> pystr \<Rightarrow> pydict act" where
  "held_job w process_id = py_bind (jobs_of w process_id) (\<lambda>held_jobs.
     if length held_jobs \<noteq> 1 then py_raise (ContractError (U ''Rollback scenario did not expose one held job''))
     else py_return (first_row held_jobs))"

definition recovery_check ::
    "world \<Rightarrow> pyval \<Rightarrow> pydict \<Rightarrow> pydict list \<Rightarrow> int \<Rightarrow> pydict list \<Rightarrow> pydict list \<Rightarrow> int \<Rightarrow> int \<Rightarrow> unit act" where
  "recovery_check w ack held effects_at_crash dispatch_at_crash final_jobs final_effects final_dispatch before_dispatch =
     (let final_job = first_row final_jobs; same_job = (length final_jobs = 1 \<and> same_value final_job held ''job_id'') in
     check w ''action-finish-rollback-and-recovery'' ''recovery''
       (ack_from ack (U ''worker-a'') \<and> effects_at_crash = [] \<and> dispatch_at_crash = before_dispatch \<and> length final_effects = 1 \<and>
        final_dispatch - before_dispatch = 1 \<and> length final_jobs = 1 \<and> text_is final_job ''state'' ''SUCCEEDED'' \<and>
        same_value final_job held ''job_id'' \<and> same_value final_job held ''execution_id'')
       (ps ''zero partial effects at crash and one committed effect after recovery'')
       (obj [(''effectAtCrash'', PInt (int (length effects_at_crash))), (''dispatchAtCrash'', PInt (dispatch_at_crash - before_dispatch)),
         (''effectAfterRecovery'', PInt (int (length final_effects))), (''dispatchAfterRecovery'', PInt (final_dispatch - before_dispatch)),
         (''sameJob'', PBool same_job)]))"

definition recovery :: "world \<Rightarrow> unit act" where
  "recovery w =
     py_seq (stop_workers w ''Cannot stop workers for the rollback scenario'') (
     py_bind (dispatch_count w) (\<lambda>before_dispatch.
     py_bind (started w ''atomic'' ''signal'' [] ''Rollback process did not start: '') (\<lambda>process_id.
     py_bind (compose_with w (map U [''up'', ''-d'', ''--no-build'', ''--force-recreate'', ''worker-a'']) 40 None ''after_action_before_finish'') (\<lambda>up.
     py_seq (py_lift (require up (U ''Cannot start worker-a with after_action_before_finish''))) (
     py_bind (wait_failpoint w (U ''worker-a'') ''after_action_before_finish'' 8 (1 / 20) None) (\<lambda>ack.
     py_bind (held_job w process_id) (\<lambda>held.
     py_seq (require_compose w (map U [''kill'', ''worker-a'']) 20 ''Cannot kill worker-a at the action/finish boundary'') (
     py_bind (py_lift (ditem held (U ''execution_id''))) (\<lambda>e.
     py_bind (effects_of w (py_str e)) (\<lambda>effects_at_crash.
     py_bind (dispatch_count w) (\<lambda>dispatch_at_crash.
     py_seq (recreate w [U ''worker-b''] ''Cannot start worker-b for rollback recovery'') (
     py_seq (poll_process w process_id ''WAITING_SIGNAL'') (
     py_bind (jobs_of w process_id) (\<lambda>final_jobs.
     py_bind (effects_of w (py_str e)) (\<lambda>final_effects.
     py_bind (dispatch_count w) (\<lambda>final_dispatch.
     py_seq (recovery_check w ack held effects_at_crash dispatch_at_crash final_jobs final_effects final_dispatch before_dispatch)
       (recreate w workers ''Cannot restore both workers after rollback recovery'')))))))))))))))))"

end
