(* ===== verification/Week2_Resilience.thy ===== *)
theory Week2_Resilience
  imports Week2_Workers
begin

text \<open>
  The phases \<^verbatim>\<open>resilience\<close> and \<^verbatim>\<open>integrity\<close> of \<^verbatim>\<open>PublicChecker\<close> in \<^verbatim>\<open>task/week2/autocheck/public_check.py\<close>.
\<close>

section \<open>Processes that wait\<close>

text \<open>A process whose start is only needed as a prerequisite: the message has no answer in it.\<close>

definition must_start :: "world \<Rightarrow> string \<Rightarrow> string \<Rightarrow> string \<Rightarrow> pystr act" where
  "must_start w label mode message = py_bind (start w label mode [] None True) (\<lambda>(_, p). case p of
     None \<Rightarrow> py_raise (ContractError (U message)) | Some process_id \<Rightarrow> py_return process_id)"

text \<open>\<^verbatim>\<open>self._process_rows(process_id)[0]\<close>\<close>

definition process_row :: "world \<Rightarrow> pystr \<Rightarrow> (pystr \<times> pydict) act" where
  "process_row w process_id = py_bind (process_rows w process_id) (\<lambda>rows. case rows of
     [] \<Rightarrow> py_raise IndexError | row # _ \<Rightarrow> py_return (process_id, row))"

definition waiting_ids :: "session \<Rightarrow> pystr \<Rightarrow> pystr list" where
  "waiting_ids s wait_id = filter (\<lambda>item. item \<noteq> []) [known_process ''manual'' s, wait_id]"

definition waiting_before :: "world \<Rightarrow> (pystr \<times> pydict) list act" where
  "waiting_before w =
     py_bind (must_start w ''wait-persistence'' ''signal'' ''WAITING_SIGNAL persistence process did not start'') (\<lambda>wait_id.
     py_seq (poll_process w wait_id ''WAITING_SIGNAL'') (
     py_bind py_get (\<lambda>s.
     py_bind (py_map (process_row w) (waiting_ids s wait_id)) (\<lambda>rows. py_return (dict_of rows)))))"

definition preserved_fields :: "string list" where
  "preserved_fields = [''process_id'', ''flow_name'', ''flow_version'', ''state'', ''current_step_key'']"

definition row_preserved :: "pydict \<Rightarrow> pydict list \<Rightarrow> bool" where
  "row_preserved row current = (length current = 1 \<and> list_all (same_value (first_row current) row) preserved_fields)"

definition waiting_preserved :: "world \<Rightarrow> (pystr \<times> pydict) list \<Rightarrow> bool act" where
  "waiting_preserved w before =
     py_bind (py_map (\<lambda>(process_id, row). py_bind (process_rows w process_id) (\<lambda>current. py_return (row_preserved row current))) before) (\<lambda>oks.
       py_return (list_all id oks))"

definition ready_probe :: "world \<Rightarrow> bool act" where
  "ready_probe w =
     py_seq (stop_workers w ''Cannot stop workers before the READY persistence probe'') (
     py_bind (must_start w ''ready-persistence'' ''signal'' ''READY persistence process did not start'') (\<lambda>ready_id.
     py_bind (jobs_of w ready_id) (\<lambda>ready_before.
     if length ready_before \<noteq> 1 \<or> \<not> text_is (first_row ready_before) ''state'' ''READY''
     then py_raise (ContractError (U ''Stopped workers did not leave one READY job''))
     else
       py_seq (recreate w workers ''Cannot recreate workers for the READY persistence probe'') (
       py_seq (poll_process w ready_id ''WAITING_SIGNAL'') (
       py_bind (jobs_of w ready_id) (\<lambda>ready_after.
         py_return (length ready_after = 1 \<and> same_value (first_row ready_after) (first_row ready_before) ''job_id'' \<and>
           same_value (first_row ready_after) (first_row ready_before) ''execution_id'' \<and>
           text_is (first_row ready_after) ''state'' ''SUCCEEDED'')))))))"

section \<open>Retries and terminal failures\<close>

definition retry_query :: pystr where
  "retry_query = U ''SELECT job_id::text, process_id::text, execution_id::text, state, lease_version, '' @
     U ''attempt_count, next_attempt_at FROM autocheck.jobs WHERE process_id = ''"

definition in_retry_wait :: "pydict list \<Rightarrow> bool res" where
  "in_retry_wait rows = Inr (length rows = 1 \<and> text_is (first_row rows) ''state'' ''RETRY_WAIT'')"

record retry_run =
  rt_wait :: pydict
  rt_process :: pydict
  rt_jobs :: "pydict list"
  rt_attempts :: "pydict list"
  rt_effects :: "pydict list"
  rt_events :: "pydict list"

definition run_retry :: "world \<Rightarrow> retry_run act" where
  "run_retry w =
     py_bind (must_start w ''retry'' ''retry'' ''Retry process did not start'') (\<lambda>retry_id.
     py_bind (py_lift (Week2_Query.sql_literal retry_id)) (\<lambda>l.
     py_bind (poll_rows w (retry_query @ l) in_retry_wait 3 (1 / 50) None) (\<lambda>waiting.
     py_seq (recreate w workers ''Cannot recreate workers during RETRY_WAIT'') (
     py_bind (poll_process w retry_id ''FAILED'') (\<lambda>process.
     py_bind (jobs_of w retry_id) (\<lambda>jobs.
     py_bind (attempts_of w retry_id) (\<lambda>attempts.
     py_bind (if_known (effects_of w) (execution_of jobs)) (\<lambda>effects.
     py_bind (events_of w retry_id) (\<lambda>events.
       py_return \<lparr>rt_wait = first_row waiting, rt_process = process, rt_jobs = jobs, rt_attempts = attempts,
         rt_effects = effects, rt_events = events\<rparr>)))))))))"

definition task_failed :: "pydict list \<Rightarrow> bool" where
  "task_failed events = list_ex (\<lambda>row. text_is row ''event_type'' ''TaskFailed'') events"

definition retry_matches :: "world \<Rightarrow> retry_run \<Rightarrow> bool res" where
  "retry_matches w r = all_of [
     terminal_failure_consistent (rt_process r) (rt_jobs r) (rt_attempts r) (rt_effects r) 3 (Some (py_str (fx2 w ''errorCodes'' ''retry''))),
     Inr (py_eq (PList (column ''attempt_number'' (rt_attempts r))) (PList [PInt 1, PInt 2, PInt 3])),
     distinct_ids (rt_attempts r) ''attempt_id'' 3, distinct_ids (rt_attempts r) ''job_id'' 1, distinct_ids (rt_attempts r) ''execution_id'' 1,
     Inr (task_failed (rt_events r))]"

text \<open>Whether a process fails once and for all, and the description for the report.\<close>

definition terminal_probe :: "world \<Rightarrow> string \<Rightarrow> string \<Rightarrow> pystr option \<Rightarrow> (bool \<times> pyval) act" where
  "terminal_probe w label mode expected_error =
     py_bind (start w label mode [] None True) (\<lambda>(rb, p). case p of
       None \<Rightarrow> py_return (False, obj [(''valid'', PBool False), (''start'', command_view rb)])
     | Some process_id \<Rightarrow>
         py_bind (poll_process w process_id ''FAILED'') (\<lambda>process.
         py_bind (jobs_of w process_id) (\<lambda>jobs.
         py_bind (attempts_of w process_id) (\<lambda>attempts.
         py_bind (if_known (effects_of w) (execution_of jobs)) (\<lambda>effects.
         py_bind (py_lift (terminal_failure_consistent process jobs attempts effects 1 expected_error)) (\<lambda>valid.
           py_return (valid, obj [(''valid'', PBool valid), (''processState'', dget_none process (U ''state'')),
             (''jobState'', dget_none (first_row jobs) (U ''state'')), (''attemptCount'', PInt (int (length attempts))),
             (''errorCodes'', PList (column ''error_code'' attempts)), (''effectCount'', PInt (int (length effects)))])))))))"

definition failures_check :: "world \<Rightarrow> retry_run \<Rightarrow> unit act" where
  "failures_check w r =
     py_bind (py_lift (retry_matches w r)) (\<lambda>retry_valid.
     py_bind (terminal_probe w ''non-retryable-error'' ''error'' (Some (py_str (fx2 w ''errorCodes'' ''error'')))) (\<lambda>(error_ok, error_probe).
     py_bind (terminal_probe w ''invalid-result'' ''invalid'' None) (\<lambda>(invalid_ok, invalid_probe).
     check w ''bounded-retry-and-terminal-failures'' ''resilience'' (retry_valid \<and> error_ok \<and> invalid_ok)
       (ps ''three bounded retry attempts; non-retryable and invalid result fail once; no effects'')
       (obj [(''retryAttemptCount'', PInt (int (length (rt_attempts r)))), (''retryErrorCodes'', PList (column ''error_code'' (rt_attempts r))),
         (''taskFailedEvent'', PBool (task_failed (rt_events r))), (''nonRetryable'', error_probe), (''invalidResult'', invalid_probe)]))))"

definition retry_identity :: "retry_run \<Rightarrow> bool" where
  "retry_identity r = (length (rt_jobs r) = 1 \<and> same_value (first_row (rt_jobs r)) (rt_wait r) ''job_id'' \<and>
     same_value (first_row (rt_jobs r)) (rt_wait r) ''execution_id'')"

definition persistence_check :: "world \<Rightarrow> bool \<Rightarrow> retry_run \<Rightarrow> (pystr \<times> pydict) list \<Rightarrow> unit act" where
  "persistence_check w ready_preserved r before =
     py_bind (waiting_preserved w before) (\<lambda>waiting_ok.
     check w ''worker-recreate-persistence'' ''resilience'' (ready_preserved \<and> retry_identity r \<and> waiting_ok)
       (ps ''READY, RETRY_WAIT, WAITING_SIGNAL and WAITING_MANUAL survive no-build recreation'')
       (obj [(''readyIdentityPreserved'', PBool ready_preserved), (''retryIdentityPreserved'', PBool (retry_identity r)),
         (''waitingStatesPreserved'', PBool waiting_ok)]))"

definition resilience :: "world \<Rightarrow> unit act" where
  "resilience w =
     py_seq (activate_v1 w ''Flow v1 could not be activated for persistence checks'') (
     py_bind (waiting_before w) (\<lambda>before.
     py_bind (ready_probe w) (\<lambda>ready_preserved.
     py_bind (run_retry w) (\<lambda>r.
     py_seq (failures_check w r) (persistence_check w ready_preserved r before)))))"

section \<open>Integrity\<close>

definition integrity :: "world \<Rightarrow> unit act" where
  "integrity w =
     py_bind (current_images w) (\<lambda>current.
     py_bind (image_id w ''worker-b'') (\<lambda>worker_b.
     py_bind (fixture_digest_now w) (\<lambda>digest.
     py_bind (wait_worker_database_security w) (\<lambda>report.
     py_bind py_get (\<lambda>s.
     check w ''runtime-image-immutability'' ''integrity''
       (same_as_baseline current s \<and> PStr worker_b = worker_of current \<and> digest = v_digest w \<and> security_ok report)
       (PDict (baseline_images s))
       (PDict (current @ [(U ''workerB'', PStr worker_b), (U ''fixtureDigestUnchanged'', PBool (digest = v_digest w)),
         (U ''workerDatabaseSecurity'', PBool (security_ok report))])))))))"

end
