(* ===== verification/Week2_Run.thy ===== *)
theory Week2_Run
  imports Week2_Resilience
begin

text \<open>
  Construction, run, cleaning up, report and exit code of \<^verbatim>\<open>task/week2/autocheck/public_check.py\<close>.
\<close>

section \<open>The run\<close>

definition phase_names :: "string \<Rightarrow> pystr list" where
  "phase_names phase = (case map_of PHASE_CHECKS (U phase) of Some names \<Rightarrow> names | None \<Rightarrow> [])"

definition publication_failed :: "session \<Rightarrow> bool" where
  "publication_failed s = list_ex (\<lambda>item. dget_none item (U ''name'') \<in> PStr ` set (phase_names ''publication'') \<and>
     dget_none item (U ''status'') = ps ''failed'') (checks s)"

definition middle_phases :: "world \<Rightarrow> (string \<times> unit act) list" where
  "middle_phases w = [(''execution'', execution w), (''versioning'', versioning w), (''concurrency'', concurrency w),
     (''recovery'', recovery w), (''resilience'', resilience w)]"

definition run_checks :: "world \<Rightarrow> unit act" where
  "run_checks w =
     py_bind (admission w) (\<lambda>admitted.
     if \<not> admitted then py_for (\<lambda>(phase, _). fail_missing w phase (U ''Admission prerequisite failed'')) PHASE_CHECKS
     else
       py_seq (run_phase w ''publication'' (publication w)) (
       py_bind py_get (\<lambda>s.
       py_seq (if publication_failed s
           then py_for (\<lambda>(phase, _). fail_missing w (U phase) (U ''Publication prerequisite failed'')) (middle_phases w)
           else py_for (\<lambda>(phase, phase_function). run_phase w phase phase_function) (middle_phases w))
         (run_phase w ''integrity'' (integrity w)))))"

section \<open>Cleaning up\<close>

definition remove_image :: "world \<Rightarrow> pystr \<Rightarrow> bool act" where
  "remove_image w tag = py_bind (run_command w [U ''docker'', U ''image'', U ''rm'', tag] 120 None []) (\<lambda>r.
     py_return (cr_ok r \<or> contains (U ''no such image'') (v_fold w (cr_out r @ [10] @ cr_err r))))"

definition cleanup :: "world \<Rightarrow> pystr option act" where
  "cleanup w = py_bind py_get (\<lambda>s.
     if v_keep_stack w \<or> \<not> cleanup_armed s then py_return None
     else
       py_bind (compose w (map U [''down'', ''--volumes'', ''--remove-orphans'', ''--rmi'', ''local'']) 120) (\<lambda>r.
       py_bind (py_map (remove_image w) (created_image_tags s)) (\<lambda>removed.
         py_return (if cr_ok r \<and> list_all id removed then None
           else Some (U ''Docker Compose resource or checker image cleanup failed'')))))"

section \<open>Construction\<close>

text \<open>
  The command line and what the constructor asks of the system: \<open>g_resolve\<close> is \<^verbatim>\<open>expanduser().resolve()\<close>, \<open>g_temp\<close> the
  directory of \<^verbatim>\<open>mkdtemp\<close>, \<open>g_token\<close> and \<open>g_hex\<close> the random texts, \<open>g_free_port\<close> the port that the system hands out.
\<close>

record arguments =
  g_repo :: pystr
  g_fixtures :: pystr
  g_wrapper :: pystr
  g_compose_file :: "pystr option"
  g_expand :: "pystr \<Rightarrow> pystr"
  g_resolve :: "pystr \<Rightarrow> pystr res"
  g_temp :: "pystr res"
  g_token :: pystr
  g_hex :: pystr
  g_free_port :: "int res"

definition resolve_compose_file :: "arguments \<Rightarrow> file_system \<Rightarrow> pystr \<Rightarrow> pystr res" where
  "resolve_compose_file g fs repo = (case g_compose_file g of
     Some p \<Rightarrow>
       res_bind (g_resolve g (path_join repo (g_expand g p))) (\<lambda>path.
       res_bind (if is_file fs path then inside (fs_resolve fs) path repo else Inr False) (\<lambda>ok.
         if ok then Inr path else Inl (FixtureError (U ''Selected Compose file must be inside the repository''))))
   | None \<Rightarrow> (case find (is_file fs) (map (path_join repo) Week2_Constants.COMPOSE_NAMES) of
         Some path \<Rightarrow> Inr path
       | None \<Rightarrow> Inl (ContractError (U ''No root Compose file was found''))))"

definition located :: "arguments \<Rightarrow> world \<Rightarrow> world act" where
  "located g base =
     py_bind (py_lift (g_resolve g (g_repo g))) (\<lambda>repo.
     py_bind (py_lift (g_resolve g (g_fixtures g))) (\<lambda>fixtures.
     py_bind (ask_res (\<lambda>n. Week2_Fixture.load_fixture (v_hash base) (v_fs base n) (v_depth base) (v_listing base n) fixtures)) (\<lambda>fixture.
     py_bind (ask_res (\<lambda>n. Week2_Fixture.canonical_fixture_digest (v_hash base) (v_fs base n) (v_depth base) (v_listing base n) fixtures)) (\<lambda>digest.
     py_bind (ask_res (\<lambda>n. resolve_compose_file g (v_fs base n) repo)) (\<lambda>compose_file.
     py_bind (py_lift (g_resolve g (g_wrapper g))) (\<lambda>wrapper.
     py_bind (ask (\<lambda>n. is_file (v_fs base n) wrapper)) (\<lambda>present.
     if \<not> present then py_raise (FixtureError (U ''Trusted safe_compose.sh is missing''))
     else py_return (base\<lparr>v_repo := repo, v_fixtures := fixtures, v_fixture := fixture, v_digest := digest,
       v_compose_file := compose_file, v_wrapper := wrapper\<rparr>))))))))"

definition construct :: "arguments \<Rightarrow> world \<Rightarrow> world act" where
  "construct g base =
     py_bind (located g base) (\<lambda>w.
     py_bind (py_lift (g_temp g)) (\<lambda>temp.
     py_bind (py_lift (g_free_port g)) (\<lambda>port.
     let w' = w\<lparr>v_override := path_join temp (U ''autocheck.override.yaml''), v_secret := g_token g,
       v_project := U ''moduledev-w2-'' @ take 12 (g_hex g), v_port := port\<rparr> in
     py_seq (write_override w' None) (py_return w'))))"

definition start_session :: session where
  "start_session = \<lparr>checks = [], commands = [], baseline_images = [], processes = [], cleanup_armed = False,
     created_image_tags = [], tick = 0\<rparr>"

section \<open>The report file\<close>

text \<open>What the file system says of the place of the report.\<close>

record place =
  pl_expand :: "pystr \<Rightarrow> pystr"
  pl_cwd :: pystr
  pl_resolve :: "pystr \<Rightarrow> pystr res"
  pl_symlink :: "pystr \<Rightarrow> bool"
  pl_exists :: "pystr \<Rightarrow> bool"
  pl_file :: "pystr \<Rightarrow> bool"

definition parent_text :: "pystr \<Rightarrow> pystr" where
  "parent_text p = U ''/'' @ join_str (U ''/'') (butlast (path_parts p))"

definition report_candidate :: "place \<Rightarrow> pystr \<Rightarrow> pystr" where
  "report_candidate pl path = (let candidate = pl_expand pl path in
     if is_absolute candidate then candidate else path_join (pl_cwd pl) candidate)"

definition validated_report_path :: "place \<Rightarrow> pystr \<Rightarrow> pystr res" where
  "validated_report_path pl path =
     (let candidate = report_candidate pl path; parent = parent_text candidate in
     res_bind (case pl_resolve pl parent of
         Inl e \<Rightarrow> Inl (if e = OSError then FixtureError (U ''Report directory is unavailable'') else e)
       | Inr r \<Rightarrow> Inr r) (\<lambda>resolved_parent.
     res_bind (ensure (parent = resolved_parent) (FixtureError (U ''Report directory must not contain symlinks''))) (\<lambda>_.
     res_bind (ensure (\<not> pl_symlink pl candidate) (FixtureError (U ''Report path must not be a symlink''))) (\<lambda>_.
     res_bind (ensure (\<not> pl_exists pl candidate \<or> pl_file pl candidate) (FixtureError (U ''Report path must be a regular file''))) (\<lambda>_.
       Inr (path_join resolved_parent (path_name candidate)))))))"

text \<open>\<open>prepare\<close> makes the temporary file, \<open>store\<close> writes the bytes to it and moves it into place.\<close>

definition write_report :: "unit res \<Rightarrow> (pybytes \<Rightarrow> unit res) \<Rightarrow> pyval \<Rightarrow> unit res" where
  "write_report prepare store report =
     res_bind prepare (\<lambda>_.
     res_bind (dumps_indent False 0 report) (\<lambda>t.
     res_bind (utf8_encode (t @ [10])) store))"

section \<open>The exit code\<close>

text \<open>\<^verbatim>\<open>str(error)\<close>; the texts of the exceptions that the language raises are \<open>describe\<close>.\<close>

definition error_text :: "(pyexn \<Rightarrow> pystr) \<Rightarrow> pyexn \<Rightarrow> pystr" where
  "error_text describe e = (case e of ContractError m \<Rightarrow> m | EnvironmentFailure m \<Rightarrow> m | FixtureError m \<Rightarrow> m | ValueError m \<Rightarrow> m | _ \<Rightarrow> describe e)"

definition is_FixtureError :: "pyexn \<Rightarrow> bool" where
  "is_FixtureError e = (case e of FixtureError _ \<Rightarrow> True | _ \<Rightarrow> False)"

definition is_environmental :: "pyexn \<Rightarrow> bool" where
  "is_environmental e = (is_ValueError e \<or> e = OSError \<or> (case e of EnvironmentFailure _ \<Rightarrow> True | _ \<Rightarrow> False))"

definition failure_item :: "string \<Rightarrow> string \<Rightarrow> string \<Rightarrow> pyval \<Rightarrow> pydict" where
  "failure_item name phase expected actual = [(U ''name'', ps name), (U ''phase'', ps phase), (U ''status'', ps ''failed''),
     (U ''expected'', ps expected), (U ''actual'', actual)]"

text \<open>The check that stands for an exception, the status of the report and the exit code; \<open>class_name\<close> is the name of its class.\<close>

definition on_error :: "(pyexn \<Rightarrow> pystr) \<Rightarrow> (pyexn \<Rightarrow> pystr) \<Rightarrow> pystr list \<Rightarrow> pyexn \<Rightarrow> pydict \<times> string \<times> int" where
  "on_error describe class_name secrets e =
     (let shown = (\<lambda>t. Week2_Report.redact secrets 0 (PStr t)) in
      if contract_text e \<noteq> None
      then (failure_item ''admission-contract'' ''admission'' ''published candidate contract is available'' (shown (error_text describe e)), ''failed'', 1)
      else if is_environmental e
      then (failure_item ''checker-environment'' ''environment'' ''checker initialization and local transports succeed''
        (shown (error_text describe e)), ''error'', 2)
      else (failure_item ''checker-internal-error'' ''environment'' ''checker completes all phases''
        (shown (class_name e @ U '': '' @ error_text describe e)), ''error'', 2))"

definition all_checks_ok :: "pydict list \<Rightarrow> bool" where
  "all_checks_ok items = list_all (\<lambda>item. dget_none item (U ''status'') = ps ''passed'') items"

record verdict =
  vd_checks :: "pydict list"
  vd_commands :: "pydict list"
  vd_status :: string
  vd_code :: int

text \<open>The \<^verbatim>\<open>try\<close> statement of \<^verbatim>\<open>main\<close> without its last clause.\<close>

definition judged :: "(pyexn \<Rightarrow> pystr) \<Rightarrow> (pyexn \<Rightarrow> pystr) \<Rightarrow> world \<Rightarrow> unit res \<times> session \<Rightarrow> verdict" where
  "judged describe class_name w = (\<lambda>(r, s). case r of
     Inr _ \<Rightarrow> (let ok = all_checks_ok (checks s) in
       \<lparr>vd_checks = checks s, vd_commands = commands s, vd_status = (if ok then ''passed'' else ''failed''), vd_code = (if ok then 0 else 1)\<rparr>)
   | Inl e \<Rightarrow> (case on_error describe class_name [v_secret w] e of (item, st, code) \<Rightarrow>
       \<lparr>vd_checks = checks s @ [item], vd_commands = commands s, vd_status = st, vd_code = code\<rparr>))"

text \<open>The clause \<^verbatim>\<open>finally\<close>: what an exception of the clean-up leaves.\<close>

definition cleaned :: "world \<Rightarrow> session \<Rightarrow> verdict \<Rightarrow> verdict res" where
  "cleaned w s v = (case cleanup w s of
     (Inl e, _) \<Rightarrow> Inl e
   | (Inr None, t) \<Rightarrow> Inr (v\<lparr>vd_commands := commands t\<rparr>)
   | (Inr (Some cleanup_error), t) \<Rightarrow>
       Inr \<lparr>vd_checks = vd_checks v @ [failure_item ''stack-cleanup'' ''environment'' ''compose down --volumes succeeds'' (PStr cleanup_error)],
         vd_commands = commands t, vd_status = ''error'', vd_code = 2\<rparr>)"

definition verdict_of :: "(pyexn \<Rightarrow> pystr) \<Rightarrow> (pyexn \<Rightarrow> pystr) \<Rightarrow> arguments \<Rightarrow> world \<Rightarrow> verdict res" where
  "verdict_of describe class_name g base = (case construct g base start_session of
     (Inl e, _) \<Rightarrow> (case on_error describe class_name [] e of (item, st, code) \<Rightarrow>
       Inr \<lparr>vd_checks = [item], vd_commands = [], vd_status = st, vd_code = code\<rparr>)
   | (Inr w, s) \<Rightarrow> (let rs = run_checks w s in cleaned w (snd rs) (judged describe class_name w rs)))"

definition shape_item :: pydict where
  "shape_item = failure_item ''checker-report-shape'' ''environment'' ''public-only report keys'' (ps ''forbidden report key detected'')"

text \<open>The report and the exit code; \<open>stamps\<close> are the readings of the clock.\<close>

definition report_of :: "pystr \<times> pystr \<times> pystr \<Rightarrow> verdict \<Rightarrow> (pyval \<times> int) res" where
  "report_of stamps v = (case stamps of (begun, finished, refused) \<Rightarrow>
     res_bind (Week2_Report.build_report begun finished (U (vd_status v)) (vd_checks v) (vd_commands v)) (\<lambda>report.
     if Week2_Report.report_has_forbidden_keys report
     then res_bind (Week2_Report.build_report begun refused (U ''error'') [shape_item] (vd_commands v)) (\<lambda>r. Inr (r, 2))
     else Inr (report, vd_code v)))"

text \<open>\<open>emit\<close> prints: the report on standard output, a failure on standard error.\<close>

definition publish :: "(pyexn \<Rightarrow> pystr) \<Rightarrow> unit res \<Rightarrow> (pybytes \<Rightarrow> unit res) \<Rightarrow> (pystr \<Rightarrow> unit res) \<Rightarrow> pyval \<times> int \<Rightarrow> int res" where
  "publish describe prepare store emit = (\<lambda>(report, code). case write_report prepare store report of
     Inl e \<Rightarrow> if e = OSError
         then res_bind (emit (U ''Cannot write public report: '' @ describe e)) (\<lambda>_. Inr 2) else Inl e
   | Inr _ \<Rightarrow> res_bind (dumps_indent False 0 report) (\<lambda>t. res_bind (emit t) (\<lambda>_. Inr code)))"

definition main ::
    "(pyexn \<Rightarrow> pystr) \<Rightarrow> (pyexn \<Rightarrow> pystr) \<Rightarrow> place \<Rightarrow> pystr \<Rightarrow> arguments \<Rightarrow> world \<Rightarrow> pystr \<times> pystr \<times> pystr \<Rightarrow>
     (pystr \<Rightarrow> unit res) \<Rightarrow> (pystr \<Rightarrow> pybytes \<Rightarrow> unit res) \<Rightarrow> (pystr \<Rightarrow> unit res) \<Rightarrow> int res" where
  "main describe class_name pl output g base stamps prepare store emit = (case validated_report_path pl output of
     Inl e \<Rightarrow> if is_FixtureError e \<or> e = OSError
         then res_bind (emit (U ''Cannot initialize public report: '' @ describe e)) (\<lambda>_. Inr 2) else Inl e
   | Inr path \<Rightarrow>
       res_bind (verdict_of describe class_name g base) (\<lambda>v.
       res_bind (report_of stamps v) (publish describe (prepare path) (store path) emit)))"

end
