(* ===== verification/Week2_Evolution.thy ===== *)
theory Week2_Evolution
  imports Week2_Run
begin

text \<open>
  What every piece of the checker in \<^verbatim>\<open>task/week2/autocheck/public_check.py\<close> keeps of the recorded checks (\<open>evolves\<close>, an
  interpretation of \<open>state_order\<close>), and which checks a phase that returns has recorded (\<open>reaches\<close>).
\<close>

section \<open>Rules\<close>

named_theorems keep

lemma keep_cases [keep]:
  "(b \<Longrightarrow> preserves R m) \<Longrightarrow> (\<not> b \<Longrightarrow> preserves R n) \<Longrightarrow> preserves R (if b then m else n)"
  "preserves R (f x) \<Longrightarrow> preserves R (Let x f)"
  "(\<And>a b. preserves R (g a b)) \<Longrightarrow> preserves R (case p of (a, b) \<Rightarrow> g a b)"
  "preserves R m \<Longrightarrow> (\<And>x. preserves R (f x)) \<Longrightarrow> preserves R (case z of None \<Rightarrow> m | Some x \<Rightarrow> f x)"
  "preserves R m \<Longrightarrow> (\<And>y ys. preserves R (h y ys)) \<Longrightarrow> preserves R (case l of [] \<Rightarrow> m | y # ys \<Rightarrow> h y ys)"
  "(\<And>e. preserves R (k e)) \<Longrightarrow> (\<And>v. preserves R (j v)) \<Longrightarrow> preserves R (case r of Inl e \<Rightarrow> k e | Inr v \<Rightarrow> j v)"
  by (simp_all split: prod.splits option.splits list.splits sum.splits)

lemma keep_nat [keep]:
  "(n = 0 \<Longrightarrow> preserves R m) \<Longrightarrow> (\<And>k. n = Suc k \<Longrightarrow> preserves R (f k)) \<Longrightarrow> preserves R (case n of 0 \<Rightarrow> m | Suc k \<Rightarrow> f k)"
  by (cases n) simp_all

lemma keep_pyval [keep]:
  assumes "preserves R a" "\<And>x. preserves R (b x)" "\<And>x. preserves R (c x)" "\<And>x. preserves R (d x)" "\<And>x. preserves R (e x)"
    "\<And>x. preserves R (f x)" "\<And>x. preserves R (g x)" "\<And>x. preserves R (h x)" "\<And>x. preserves R (i x)"
  shows "preserves R (case_pyval a b c d e f g h i v)"
  using assms by (cases v) simp_all

text \<open>
  The harness never touches the recorded checks: it keeps every order that holds between states with the same checks.
\<close>

locale check_order = state_order R for R :: "session \<Rightarrow> session \<Rightarrow> bool" +
  assumes same_checks: "checks t = checks s \<Longrightarrow> R s t"
begin

lemmas keep_base [keep] = pure bind seq loop catch

lemma keep_ask [keep]: "preserves R (ask f)"
  by (simp add: preserves_def ask_def same_checks)

lemma keep_ask_res [keep]: "preserves R (ask_res f)"
  unfolding ask_res_def by (intro keep)

lemma keep_modify: "(\<And>s. R s (f s)) \<Longrightarrow> preserves R (py_modify f)"
  by (simp add: preserves_def)

lemma keep_silent [keep]:
  "preserves R (py_modify (\<lambda>s. s\<lparr>commands := a s\<rparr>))" "preserves R (py_modify (\<lambda>s. s\<lparr>baseline_images := b s\<rparr>))"
  "preserves R (py_modify (\<lambda>s. s\<lparr>processes := c s\<rparr>))" "preserves R (py_modify (\<lambda>s. s\<lparr>cleanup_armed := d s\<rparr>))"
  "preserves R (py_modify (\<lambda>s. s\<lparr>created_image_tags := e s\<rparr>))"
  by (auto intro!: keep_modify same_checks)

lemma keep_map [keep]: "(\<And>x. preserves R (f x)) \<Longrightarrow> preserves R (py_map f xs)"
  by (induction xs) (auto intro!: keep)

lemma keep_commands [keep]:
  "preserves R (compose_with w a t i fp)" "preserves R (run_command w c t i fp)" "preserves R (compose w a t)"
  "preserves R (compose_candidate w a t)" "preserves R (require_compose w a t m)" "preserves R (cli_with w a i)"
  "preserves R (cli w a)"
  unfolding cli_def cli_with_def require_compose_def compose_candidate_def compose_def compose_with_def run_command_def by (intro keep)+

lemma keep_queries [keep]:
  "preserves R (psql_rows_of w q r t c)" "preserves R (psql_rows w q)" "preserves R (query_by w p v x)"
  "preserves R (effect_rows w sc tb e)" "preserves R (view_count w v wh)"
  unfolding query_by_def psql_rows_def effect_rows_def view_count_def psql_rows_of_def psql_run_def by (intro keep)+

lemma keep_worker_security [keep]: "preserves R (worker_database_security w)"
  unfolding worker_database_security_def service_addresses_def inspect_addresses_def by (intro keep)

text \<open>The loops, by induction on the rounds that are left.\<close>

lemma keep_security_loop [keep]: "preserves R (security_loop w n)"
  by (induction n; subst security_loop.simps) (intro keep; simp)+

lemma keep_ready_loop [keep]: "preserves R (ready_loop w n)"
  by (induction n; subst ready_loop.simps; unfold health_status_def) (intro keep; simp)+

lemma keep_poll_loop [keep]: "preserves R (poll_loop w q p t c n)"
  by (induction n; subst poll_loop.simps) (intro keep; simp)+

lemma keep_failpoint_loop [keep]: "preserves R (failpoint_loop w sv nm t c some_read n)"
  by (induction n arbitrary: some_read; subst failpoint_loop.simps; unfold failpoint_logs_def logs_deadline_def) (intro keep; simp)+

lemma keep_probes [keep]:
  "preserves R (wait_worker_database_security w)" "preserves R (wait_ready w timeout interval)"
  "preserves R (poll_rows w q p timeout interval c)" "preserves R (wait_failpoint w sv nm timeout interval c)"
  "preserves R (image_id w img)" "preserves R (current_images w)" "preserves R (fixture_digest_now w)"
  "preserves R (service_container_ids w svs b)" "preserves R (poll_process w pid st)" "preserves R (dispatch_count w)"
  "preserves R (start w lb md key inp rm)" "preserves R (started w lb md key msg)" "preserves R (read_fixture_file w fl)"
  "preserves R (read_fixture_json w k)"
  unfolding wait_worker_database_security_def wait_ready_def poll_rows_def wait_failpoint_def current_images_def image_id_def
    fixture_digest_now_def service_container_ids_def container_id_of_def poll_process_def dispatch_count_def started_def start_def
    read_fixture_json_def read_fixture_file_def by (intro keep)+

lemma keep_rows [keep]:
  "preserves R (process_rows w i)" "preserves R (jobs_of w i)" "preserves R (attempts_of w i)" "preserves R (steps_of w i)"
  "preserves R (signals_of w i)" "preserves R (events_of w i)" "preserves R (dispatches_of w i)" "preserves R (effects_of w i)"
  "preserves R (flow_version_rows w)" "preserves R (view_schema_rows w)" "preserves R (history_of w i)"
  unfolding history_of_def process_rows_def jobs_of_def attempts_of_def steps_of_def signals_of_def events_of_def dispatches_of_def effects_of_def
    flow_version_rows_def view_schema_rows_def by (intro keep)+

lemma keep_known [keep]: "(\<And>i. preserves R (f i)) \<Longrightarrow> preserves R (if_known f i)"
  unfolding if_known_def by (intro keep)

lemma keep_small [keep]:
  "preserves R (stop_workers w m)" "preserves R (up_workers w m)" "preserves R (recreate w services m)"
  "preserves R (require_run w c fp m)" "preserves R (activate_flow w ver)" "preserves R (activate_v1 w m)"
  "preserves R (flow_command w verb v)" "preserves R (send_signal w i mid)" "preserves R (poll_claim w i owners n cid)"
  "preserves R (must_start w lb md m)"
  unfolding stop_workers_def up_workers_def recreate_def require_run_def activate_v1_def activate_flow_def flow_command_def send_signal_def
    poll_claim_def must_start_def by (intro keep)+

end

section \<open>The recorded checks evolve\<close>

text \<open>A check keeps its name, and one that did not pass is never turned into one that passed.\<close>

definition item_kept :: "pydict \<Rightarrow> pydict \<Rightarrow> bool" where
  "item_kept a b \<longleftrightarrow> dget_none b (U ''name'') = dget_none a (U ''name'') \<and>
     (dget_none b (U ''status'') = ps ''passed'' \<longrightarrow> dget_none a (U ''status'') = ps ''passed'')"

definition evolves :: "session \<Rightarrow> session \<Rightarrow> bool" where
  "evolves s t \<longleftrightarrow> (\<exists>old new. checks t = old @ new \<and> list_all2 item_kept (checks s) old)"

lemma item_kept_refl: "item_kept a a"
  by (simp add: item_kept_def)

lemma item_kept_trans: "item_kept a b \<Longrightarrow> item_kept b c \<Longrightarrow> item_kept a c"
  by (auto simp: item_kept_def)

lemma evolves_refl: "evolves s s"
  unfolding evolves_def by (intro exI [of _ "checks s"] exI [of _ "[]"]) (simp add: list_all2_same item_kept_refl)

lemma evolves_trans:
  assumes "evolves s t" "evolves t u"
  shows "evolves s u"
proof -
  from assms obtain a b c d where t: "checks t = a @ b" "list_all2 item_kept (checks s) a"
    and u: "checks u = c @ d" "list_all2 item_kept (a @ b) c" unfolding evolves_def by auto
  from u(2) obtain c1 c2 where c: "c = c1 @ c2" "list_all2 item_kept a c1" by (auto simp: list_all2_append1)
  have "list_all2 item_kept (checks s) c1" by (rule list_all2_trans [OF item_kept_trans t(2) c(2)])
  with u c show ?thesis unfolding evolves_def by (intro exI [of _ c1] exI [of _ "c2 @ d"]) simp
qed

lemma evolves_append: "checks t = checks s @ items \<Longrightarrow> evolves s t"
  unfolding evolves_def by (intro exI [of _ "checks s"] exI [of _ items]) (simp add: list_all2_same item_kept_refl)

lemma evolves_same: "checks t = checks s \<Longrightarrow> evolves s t"
  by (rule evolves_append [of _ _ "[]"]) simp

interpretation evolution: check_order evolves
  using evolves_refl evolves_trans evolves_same by unfold_locales

lemma evolves_recorded: "evolves s t \<Longrightarrow> recorded name s \<Longrightarrow> recorded name t"
  by (fastforce simp: evolves_def recorded_def list_ex_iff item_kept_def list_all2_conv_all_nth in_set_conv_nth nth_append)

lemma keep_record [keep]: "preserves evolves (record_check w name phase ok expected actual)" "preserves evolves (check w n p ok expected actual)"
proof -
  show r: "preserves evolves (record_check w name phase ok expected actual)" for name phase
    unfolding record_check_def by (rule evolution.keep_modify) (auto intro: evolves_append evolves_refl)
  show "preserves evolves (check w n p ok expected actual)" unfolding check_def by (rule r)
qed

lemma amend_item_kept: "item_kept item (amend_item terminal item)"
proof (cases "dget_none item (U ''actual'')")
  case (PDict d)
  then show ?thesis by (simp add: item_kept_def amend_item_def Let_def dget_def_def ps_def U_def)
qed (simp_all add: item_kept_def amend_item_def Let_def dget_def_def ps_def U_def)

lemma amended_kept: "list_all2 item_kept items (amend_check name terminal items)"
  by (induction items) (simp_all add: item_kept_refl amend_item_kept list_all2_same)

lemma keep_amend [keep]: "preserves evolves (py_modify (\<lambda>s. s\<lparr>checks := amend_check name terminal (checks s)\<rparr>))"
proof (rule evolution.keep_modify)
  fix s
  show "evolves s (s\<lparr>checks := amend_check name terminal (checks s)\<rparr>)"
    using amended_kept [of "checks s" name terminal] unfolding evolves_def
    by (intro exI [of _ "amend_check name terminal (checks s)"] exI [of _ "[]"]) simp
qed

section \<open>The phases\<close>

lemma keep_security_check [keep]: "preserves evolves (security_check w n p e)"
  unfolding security_check_def by (intro keep)

lemma keep_publication [keep]:
  "preserves evolves (action_publication w)" "preserves evolves (map_publication w)" "preserves evolves (image_immutability w)"
  unfolding action_publication_def action_definitions_def map_publication_def image_immutability_def by (intro keep)+

lemma keep_execution [keep]:
  "preserves evolves (automatic_step w i)" "preserves evolves (run_signals w i)" "preserves evolves (automatic_check w a g)"
  "preserves evolves (early_signal w i g)" "preserves evolves (signal_check w so g e)" "preserves evolves (manual_check w)"
  "preserves evolves (views_check w)"
  unfolding automatic_step_def post_action_def run_signals_def automatic_check_def early_signal_def early_process_def signal_check_def
    manual_check_def views_check_def available_count_def by (intro keep)+

lemma keep_versioning [keep]:
  "preserves evolves (run_versions w)" "preserves evolves (version_check w v)" "preserves evolves (unknown_probe w)"
  unfolding run_versions_def version_check_def unknown_probe_def by (intro keep)+

lemma keep_concurrency [keep]:
  "preserves evolves (queued_job w)" "preserves evolves (run_claims w i)" "preserves evolves (stale_finish w i e c l)"
  "preserves evolves (run_final w i e lo)" "preserves evolves (concurrency_check w q c ra ro e st f bd)"
  unfolding queued_job_def run_claims_def stale_finish_def snapshot_def run_final_def concurrency_check_def by (intro keep)+

lemma keep_recovery [keep]: "preserves evolves (held_job w i)" "preserves evolves (recovery_check w a h ec dc fj fe fd bd)"
  unfolding held_job_def recovery_check_def by (intro keep)+

lemma keep_resilience [keep]:
  "preserves evolves (waiting_before w)" "preserves evolves (ready_probe w)" "preserves evolves (run_retry w)"
  "preserves evolves (failures_check w r)" "preserves evolves (persistence_check w rp r b)"
  unfolding waiting_before_def process_row_def ready_probe_def run_retry_def failures_check_def terminal_probe_def persistence_check_def
    waiting_preserved_def by (intro keep)+

lemma keep_phases [keep]:
  "preserves evolves (publication w)" "preserves evolves (execution w)" "preserves evolves (versioning w)" "preserves evolves (concurrency w)"
  "preserves evolves (recovery w)" "preserves evolves (resilience w)" "preserves evolves (integrity w)"
  unfolding publication_def execution_def versioning_def concurrency_def recovery_def resilience_def integrity_def by (intro keep)+

section \<open>Checks that a phase reaches\<close>

definition reaches :: "'a act \<Rightarrow> string \<Rightarrow> bool" where
  "reaches m name \<longleftrightarrow> (\<forall>s r t. m s = (Inr r, t) \<longrightarrow> recorded (U name) t)"

lemma reaches_Inr: "reaches m name \<Longrightarrow> m s = (Inr r, t) \<Longrightarrow> recorded (U name) t"
  unfolding reaches_def by blast

lemma reaches_later: "(\<And>x. reaches (f x) name) \<Longrightarrow> reaches (py_bind m f) name" "reaches n name \<Longrightarrow> reaches (py_seq m' n) name"
  unfolding reaches_def py_Inr by blast+

lemma reaches_now:
  assumes "reaches m name" "\<And>x. preserves evolves (f x)"
  shows "reaches (py_bind m f) name"
  unfolding reaches_def
proof (intro allI impI)
  fix s r t
  assume "py_bind m f s = (Inr r, t)"
  then obtain x s' where x: "m s = (Inr x, s')" "f x s' = (Inr r, t)" by (auto simp: py_Inr)
  from assms(1) x(1) have "recorded (U name) s'" by (rule reaches_Inr)
  moreover from assms(2) [of x] x(2) have "evolves s' t" unfolding preserves_def by (metis snd_conv)
  ultimately show "recorded (U name) t" by (metis evolves_recorded)
qed

lemma reaches_first: "reaches m name \<Longrightarrow> preserves evolves n \<Longrightarrow> reaches (py_seq m n) name"
  unfolding py_seq_def by (rule reaches_now)

lemma reaches_check: "reaches (check w name p ok expected actual) name"
  by (auto simp: reaches_def check_def record_check_def recorded_def check_item_def dget_def_def)

text \<open>In a block that ends with a check, or with one that is followed by a decision.\<close>

lemma reaches_let: "reaches (f x) name \<Longrightarrow> reaches (Let x f) name"
  by simp

lemma reaches_prod: "(\<And>a b. reaches (f a b) name) \<Longrightarrow> reaches (case p of (a, b) \<Rightarrow> f a b) name"
  by (cases p) simp

lemma reaches_publication:
  "reaches (publication w) ''migration-and-action-publication''" "reaches (publication w) ''map-validation-and-publication''"
  "reaches (publication w) ''publication-image-immutability''"
proof -
  have a: "reaches (action_publication w) ''migration-and-action-publication''"
    unfolding action_publication_def by (intro reaches_later(1) reaches_let reaches_first reaches_check keep)
  have b: "reaches (map_publication w) ''map-validation-and-publication''"
    unfolding map_publication_def by (intro reaches_later(1) reaches_let reaches_first reaches_check keep)
  have c: "reaches (image_immutability w) ''publication-image-immutability''"
    unfolding image_immutability_def by (intro reaches_later reaches_check)
  show "reaches (publication w) ''migration-and-action-publication''" unfolding publication_def by (rule reaches_first [OF a]) (intro keep)
  show "reaches (publication w) ''map-validation-and-publication''" unfolding publication_def
    by (rule reaches_later(2), rule reaches_first [OF b]) (intro keep)
  show "reaches (publication w) ''publication-image-immutability''" unfolding publication_def by (intro reaches_later(2) c)
qed

lemma reaches_execution:
  "reaches (execution w) ''automatic-signal-end''" "reaches (execution w) ''signal-idempotency-and-history''"
  "reaches (execution w) ''manual-wait''" "reaches (execution w) ''stable-views''"
proof -
  have a: "reaches (automatic_check w p g) ''automatic-signal-end''" for p g
    unfolding automatic_check_def by (intro reaches_prod reaches_check)
  have b: "reaches (signal_check w so g e) ''signal-idempotency-and-history''" for so g e
    unfolding signal_check_def by (intro reaches_let reaches_check)
  have c: "reaches (manual_check w) ''manual-wait''" unfolding manual_check_def by (intro reaches_later reaches_check)
  have d: "reaches (views_check w) ''stable-views''" unfolding views_check_def by (intro reaches_later reaches_check)
  show "reaches (execution w) ''automatic-signal-end''" unfolding execution_def by (intro reaches_later(1) reaches_first [OF a] keep)
  show "reaches (execution w) ''signal-idempotency-and-history''" unfolding execution_def
    by (rule reaches_later, rule reaches_later, rule reaches_later, rule reaches_later) (intro reaches_later(1) reaches_first [OF b] keep)
  show "reaches (execution w) ''manual-wait''" unfolding execution_def
    by (rule reaches_later, rule reaches_later, rule reaches_later, rule reaches_later, rule reaches_later, rule reaches_later, rule reaches_later)
      (intro reaches_first [OF c] keep)
  show "reaches (execution w) ''stable-views''" unfolding execution_def by (intro reaches_later d)
qed

lemma reaches_workers:
  "reaches (versioning w) ''version-pinning-and-start-idempotency''" "reaches (concurrency w) ''two-worker-reclaim-and-stale-finish''"
  "reaches (recovery w) ''action-finish-rollback-and-recovery''"
proof -
  have a: "reaches (version_check w v) ''version-pinning-and-start-idempotency''" for v
    unfolding version_check_def by (intro reaches_later reaches_check)
  show "reaches (versioning w) ''version-pinning-and-start-idempotency''" unfolding versioning_def
    by (rule reaches_later) (intro reaches_first [OF a] keep)
  have b: "reaches (concurrency_check w q c ra ro e st f bd) ''two-worker-reclaim-and-stale-finish''" for q c ra ro e st f bd
    unfolding concurrency_check_def by (intro reaches_later reaches_let reaches_check)
  show "reaches (concurrency w) ''two-worker-reclaim-and-stale-finish''" unfolding concurrency_def
    by (rule reaches_later, rule reaches_later) (intro reaches_later(1) reaches_prod reaches_first [OF b] keep)
  have c: "reaches (recovery_check w a h ec dc fj fe fd bd) ''action-finish-rollback-and-recovery''" for a h ec dc fj fe fd bd
    unfolding recovery_check_def by (intro reaches_let reaches_check)
  show "reaches (recovery w) ''action-finish-rollback-and-recovery''" unfolding recovery_def
    by (rule reaches_later, rule reaches_later, rule reaches_later, rule reaches_later, rule reaches_later, rule reaches_later, rule reaches_later,
      rule reaches_later, rule reaches_later, rule reaches_later, rule reaches_later, rule reaches_later, rule reaches_later)
      (intro reaches_later(1) reaches_first [OF c] keep)
qed

lemma reaches_resilience:
  "reaches (resilience w) ''bounded-retry-and-terminal-failures''" "reaches (resilience w) ''worker-recreate-persistence''"
  "reaches (integrity w) ''runtime-image-immutability''"
proof -
  have a: "reaches (failures_check w r) ''bounded-retry-and-terminal-failures''" for r
    unfolding failures_check_def by (intro reaches_later reaches_prod reaches_check)
  have b: "reaches (persistence_check w rp r bs) ''worker-recreate-persistence''" for rp r bs
    unfolding persistence_check_def by (intro reaches_later reaches_check)
  show "reaches (resilience w) ''bounded-retry-and-terminal-failures''" unfolding resilience_def
    by (rule reaches_later) (intro reaches_later(1) reaches_first [OF a] keep)
  show "reaches (resilience w) ''worker-recreate-persistence''" unfolding resilience_def by (intro reaches_later b)
  show "reaches (integrity w) ''runtime-image-immutability''" unfolding integrity_def by (intro reaches_later reaches_check)
qed

end
