(* ===== verification/Week2_Accept.thy ===== *)
theory Week2_Accept
  imports Week2_Evolution
begin

text \<open>
  What the verdict of \<^verbatim>\<open>task/week2/autocheck/public_check.py\<close> means: what an admitted submission is, that a run that returns
  has recorded every check of every phase, what exit code 0 stands for; and two ways in which a failure is lost.
\<close>

section \<open>The run is complete\<close>

lemma keep_fail_missing [keep]: "preserves evolves (fail_missing w phase message)"
  unfolding fail_missing_def by (intro keep)

lemma keep_run_phase [keep]: "preserves evolves f \<Longrightarrow> preserves evolves (run_phase w phase f)"
  unfolding run_phase_def by (intro keep)

lemmas admission_parts = fixture_check_def repository_check_def admission_text_findings_def raw_compose_check_def candidate_config_def
  configuration_checks_def contract_check_def safety_check_def worker_image_check_def dotnet_check_def dotnet_declared_def arm_cleanup_def
  write_override_def command_check_def post_build_check_def built_image_check_def health_check_def security_check_def baseline_check_def

context check_order
begin

lemma all_steps: "(\<And>m. m \<in> set ms \<Longrightarrow> preserves R m) \<Longrightarrow> preserves R (all_steps ms)"
  unfolding all_steps_def by (induction ms) (auto intro!: keep)

end

lemma keep_admission_parts:
  "preserves evolves (fixture_check w)" "preserves evolves (repository_check w)" "preserves evolves (raw_compose_check w)"
  "preserves evolves (candidate_config w)" "preserves evolves (configuration_checks w c)" "preserves evolves (arm_cleanup w c)"
  "preserves evolves (command_check w n e tr a t)" "preserves evolves (post_build_check w)" "preserves evolves (built_image_check w)"
  "preserves evolves (health_check w)" "preserves evolves (baseline_check w)"
  unfolding admission_parts
  by (intro keep)+

lemma keep_admission [keep]: "preserves evolves (admission w)"
  unfolding admission_def launch_steps_def
  by (intro keep keep_admission_parts evolution.all_steps) (auto intro: keep_admission_parts keep_security_check)

lemma keep_run_checks: "preserves evolves (run_checks w)"
  unfolding run_checks_def middle_phases_def py_for.simps prod.case by (intro keep)

lemma recorded_after_record: "recorded name (snd (record_check w name phase ok expected actual s))"
  by (auto simp: record_check_def recorded_def check_item_def dget_def_def)

lemma py_for_recorded:
  assumes "name \<in> set names"
  shows "recorded name (snd (py_for (\<lambda>n. record_check w n phase ok expected actual) names s))"
  using assms
proof (induction names arbitrary: s)
  case (Cons n names)
  obtain s' where s': "record_check w n phase ok expected actual s = (Inr (), s')" by (simp add: record_check_def)
  show ?case
  proof (cases "name = n")
    case True
    with recorded_after_record [of n w phase ok expected actual s] s' have "recorded name s'" by simp
    moreover have "preserves evolves (py_for (\<lambda>n. record_check w n phase ok expected actual) names)" by (intro keep)
    ultimately show ?thesis using s' by (auto simp: preserves_def intro: evolves_recorded)
  next
    case False
    with Cons s' show ?thesis by simp
  qed
qed simp

lemma fail_missing_recorded:
  assumes "map_of PHASE_CHECKS phase = Some names" "name \<in> set names"
  shows "recorded name (snd (fail_missing w phase message s))"
proof -
  have "fail_missing w phase message = py_for (\<lambda>n. record_check w n phase False (ps ''published contract satisfied'') (PStr message)) names"
    by (simp add: fail_missing_def ditem_def assms(1) py_bind_lift_Inr)
  with py_for_recorded [OF assms(2)] show ?thesis by simp
qed

lemma run_phase_reaches:
  assumes "reaches f name" "map_of PHASE_CHECKS (U phase) = Some names" "U name \<in> set names"
  shows "reaches (run_phase w phase f) name"
  unfolding reaches_def
proof (intro allI impI)
  fix s r t
  assume a: "run_phase w phase f s = (Inr r, t)"
  obtain x s' where f: "f s = (x, s')" by (cases "f s")
  show "recorded (U name) t"
  proof (cases x)
    case (Inl e)
    show ?thesis
    proof (cases "contract_text e = None")
      case True
      with a f Inl show ?thesis by (simp add: run_phase_def)
    next
      case False
      with a f Inl have "t = snd (fail_missing w (U phase) (case contract_text e of Some m \<Rightarrow> m | None \<Rightarrow> []) s')"
        by (simp add: run_phase_def)
      with fail_missing_recorded [OF assms(2,3)] show ?thesis by simp
    qed
  next
    case (Inr u)
    with a f have "f s = (Inr u, t)" by (simp add: run_phase_def)
    with assms(1) show ?thesis by (rule reaches_Inr)
  qed
qed

lemma keep_for: "(\<And>x. x \<in> set xs \<Longrightarrow> preserves evolves (f x)) \<Longrightarrow> preserves evolves (py_for f xs)"
  by (induction xs) (simp_all add: evolution.pure evolution.seq)

lemma reaches_for:
  assumes "x \<in> set xs" "reaches (f x) name" "\<And>x. x \<in> set xs \<Longrightarrow> preserves evolves (f x)"
  shows "reaches (py_for f xs) name"
  using assms(1,3)
proof (induction xs)
  case (Cons y ys)
  show ?case
  proof (cases "x = y")
    case True
    with assms(2) have "reaches (f y) name" by simp
    then show ?thesis unfolding py_for.simps by (rule reaches_first) (rule keep_for, simp add: Cons.prems(2))
  next
    case False
    with Cons show ?thesis unfolding py_for.simps by (intro reaches_later(2)) simp
  qed
qed simp

lemma reaches_if: "reaches m name \<Longrightarrow> reaches n name \<Longrightarrow> reaches (if b then m else n) name"
  by simp

lemma reaches_fail:
  "map_of PHASE_CHECKS (U phase) = Some names \<Longrightarrow> U name \<in> set names \<Longrightarrow> reaches (fail_missing w (U phase) message) name"
  unfolding reaches_def by (metis fail_missing_recorded snd_conv)

lemma reaches_middle:
  assumes "map_of PHASE_CHECKS (U phase) = Some names" "U name \<in> set names" "(phase, f) \<in> set (middle_phases w)" "reaches f name"
  shows "reaches (run_checks w) name"
proof -
  note ph = assms(1,2)
  have all: "reaches (py_for (\<lambda>(phase, _). fail_missing w phase m) PHASE_CHECKS) name" for m
    using reaches_fail [OF ph] map_of_SomeD [OF assms(1)] by (intro reaches_for [of "(U phase, names)"]) (auto intro!: keep)
  have miss: "reaches (py_for (\<lambda>(phase, _). fail_missing w (U phase) m) (middle_phases w)) name" for m
    using reaches_fail [OF ph] assms(3) by (intro reaches_for [of "(phase, f)"]) (auto intro!: keep)
  have go: "reaches (py_for (\<lambda>(phase, phase_function). run_phase w phase phase_function) (middle_phases w)) name"
    using run_phase_reaches [OF assms(4) ph] assms(3)
    by (intro reaches_for [of "(phase, f)"]) (auto simp: middle_phases_def intro!: keep)
  show ?thesis unfolding run_checks_def
    by (intro reaches_later(1) reaches_if all) (rule reaches_later(2), intro reaches_later(1) reaches_first reaches_if miss go keep)
qed

lemma reaches_all_missing:
  assumes "map_of PHASE_CHECKS (U phase) = Some names" "U name \<in> set names"
  shows "reaches (py_for (\<lambda>(phase, _). fail_missing w phase m) PHASE_CHECKS) name"
  using reaches_fail [OF assms] map_of_SomeD [OF assms(1)] by (intro reaches_for [of "(U phase, names)"]) (auto intro!: keep)

lemma reaches_publication_phase:
  assumes "map_of PHASE_CHECKS (U ''publication'') = Some names" "U name \<in> set names" "reaches (publication w) name"
  shows "reaches (run_checks w) name"
proof -
  have rest: "preserves evolves (py_bind py_get (\<lambda>s. py_seq (if publication_failed s
       then py_for (\<lambda>(phase, _). fail_missing w (U phase) (U ''Publication prerequisite failed'')) (middle_phases w)
       else py_for (\<lambda>(phase, phase_function). run_phase w phase phase_function) (middle_phases w)) (run_phase w ''integrity'' (integrity w))))"
    unfolding middle_phases_def py_for.simps prod.case by (intro keep)
  show ?thesis unfolding run_checks_def
    by (intro reaches_later(1) reaches_if reaches_all_missing [OF assms(1,2)] reaches_first [OF run_phase_reaches [OF assms(3,1,2)] rest])
qed

lemma reaches_integrity_phase:
  assumes "map_of PHASE_CHECKS (U ''integrity'') = Some names" "U name \<in> set names" "reaches (integrity w) name"
  shows "reaches (run_checks w) name"
  unfolding run_checks_def
  by (intro reaches_later(1) reaches_if reaches_all_missing [OF assms(1,2)])
    (rule reaches_later(2), intro reaches_later run_phase_reaches [OF assms(3,1,2)])

definition phase_check_names :: "string list" where
  "phase_check_names = [''migration-and-action-publication'', ''map-validation-and-publication'', ''publication-image-immutability'',
     ''automatic-signal-end'', ''signal-idempotency-and-history'', ''manual-wait'', ''stable-views'', ''version-pinning-and-start-idempotency'',
     ''two-worker-reclaim-and-stale-finish'', ''action-finish-rollback-and-recovery'', ''bounded-retry-and-terminal-failures'',
     ''worker-recreate-persistence'', ''runtime-image-immutability'']"

lemma phase_check_names: "concat (map snd PHASE_CHECKS) = map U phase_check_names"
  by (simp add: PHASE_CHECKS_def phase_check_names_def)

lemma phase_lookup:
  "map_of PHASE_CHECKS (U ''publication'') = Some (map U [''migration-and-action-publication'', ''map-validation-and-publication'', ''publication-image-immutability''])"
  "map_of PHASE_CHECKS (U ''execution'') = Some (map U [''automatic-signal-end'', ''signal-idempotency-and-history'', ''manual-wait'', ''stable-views''])"
  "map_of PHASE_CHECKS (U ''versioning'') = Some (map U [''version-pinning-and-start-idempotency''])"
  "map_of PHASE_CHECKS (U ''concurrency'') = Some (map U [''two-worker-reclaim-and-stale-finish''])"
  "map_of PHASE_CHECKS (U ''recovery'') = Some (map U [''action-finish-rollback-and-recovery''])"
  "map_of PHASE_CHECKS (U ''resilience'') = Some (map U [''bounded-retry-and-terminal-failures'', ''worker-recreate-persistence''])"
  "map_of PHASE_CHECKS (U ''integrity'') = Some (map U [''runtime-image-immutability''])"
  by code_simp+

lemma run_checks_reaches: "name \<in> set phase_check_names \<Longrightarrow> reaches (run_checks w) name"
proof -
  have m: "(''execution'', execution w) \<in> set (middle_phases w)" "(''versioning'', versioning w) \<in> set (middle_phases w)"
    "(''concurrency'', concurrency w) \<in> set (middle_phases w)" "(''recovery'', recovery w) \<in> set (middle_phases w)"
    "(''resilience'', resilience w) \<in> set (middle_phases w)" by (simp_all add: middle_phases_def)
  note mid = reaches_middle [OF phase_lookup(2) _ m(1)] reaches_middle [OF phase_lookup(3) _ m(2)] reaches_middle [OF phase_lookup(4) _ m(3)]
    reaches_middle [OF phase_lookup(5) _ m(4)] reaches_middle [OF phase_lookup(6) _ m(5)]
  assume "name \<in> set phase_check_names"
  then show ?thesis
    using reaches_publication [of w, THEN reaches_publication_phase [OF phase_lookup(1), rotated]]
      reaches_execution [of w, THEN mid(1) [rotated]] reaches_workers(1) [of w, THEN mid(2) [rotated]]
      reaches_workers(2) [of w, THEN mid(3) [rotated]] reaches_workers(3) [of w, THEN mid(4) [rotated]]
      reaches_resilience(1,2) [of w, THEN mid(5) [rotated]] reaches_resilience(3) [of w, THEN reaches_integrity_phase [OF phase_lookup(7), rotated]]
    by (auto simp: phase_check_names_def)
qed

section \<open>An admitted submission\<close>

text \<open>The result of some interaction with the world.\<close>

definition accepted_configuration :: "world \<Rightarrow> pyval \<Rightarrow> bool" where
  "accepted_configuration w config \<longleftrightarrow>
     (let services = config_services config in
      Week2_Constants.REQUIRED_SERVICES \<subseteq> dkeys services \<and>
      Week2_Compose.published_ports (dget_none services (U ''gateway'')) = Inr {8080} \<and> other_ports services = Inr [] \<and>
      (\<exists>n. config_findings w n config = Inr []) \<and>
      shared_image (dget_def (PDict []) services (U ''worker-a'')) (dget_def (PDict []) services (U ''worker-b'')))"

definition dotnet_at :: "world \<Rightarrow> nat \<Rightarrow> pyval \<Rightarrow> bool" where
  "dotnet_at w n service \<longleftrightarrow>
     dotnet_build_declared (v_fold w) (v_alnum w) (v_expand w) (v_fs w n) (v_projects w n) service (v_repo w) = Inr True"

definition dotnet_services :: "world \<Rightarrow> pyval \<Rightarrow> bool" where
  "dotnet_services w config \<longleftrightarrow>
     (let services = config_services config in
      (\<exists>n. dotnet_at w n (dget_none services (U ''api''))) \<and>
      (\<exists>n. dotnet_at w n (dget_def (PDict []) services (U ''worker-a'')) \<or> dotnet_at w n (dget_def (PDict []) services (U ''worker-b''))))"

definition secured :: "world \<Rightarrow> bool" where
  "secured w \<longleftrightarrow> (\<exists>s report t. wait_worker_database_security w s = (Inr report, t) \<and> security_ok report)"

lemma ask_res_Inr: "ask_res f s = (Inr r, t) \<Longrightarrow> f (tick s) = Inr r"
  by (auto simp: ask_res_def ask_def py_Inr)

lemma all_steps_Cons: "all_steps (m # ms) s = (Inr True, t) \<Longrightarrow> \<exists>s'. m s = (Inr True, s') \<and> all_steps ms s' = (Inr True, t)"
  unfolding all_steps_def by (auto simp: py_Inr split: if_splits)

lemma contract_check_True:
  "contract_check w services s = (Inr True, t) \<Longrightarrow> Week2_Constants.REQUIRED_SERVICES \<subseteq> dkeys services \<and>
     Week2_Compose.published_ports (dget_none services (U ''gateway'')) = Inr {8080} \<and> other_ports services = Inr []"
  by (auto simp: contract_check_def py_Inr Let_def Week2_Constants.REQUIRED_SERVICES_def)

lemma safety_check_True: "safety_check w config s = (Inr True, t) \<Longrightarrow> \<exists>n. config_findings w n config = Inr []"
  by (auto simp: safety_check_def py_Inr dest: ask_res_Inr)

lemma worker_image_check_True:
  "worker_image_check w services s = (Inr True, t) \<Longrightarrow>
     shared_image (dget_def (PDict []) services (U ''worker-a'')) (dget_def (PDict []) services (U ''worker-b''))"
  by (auto simp: worker_image_check_def py_Inr Let_def)

lemma dotnet_check_True:
  "dotnet_check w (config_services config) s = (Inr True, t) \<Longrightarrow> dotnet_services w config"
  unfolding dotnet_services_def dotnet_at_def Let_def
  by (auto simp: dotnet_check_def dotnet_declared_def py_Inr split: if_splits dest!: ask_res_Inr)

lemma configuration_checks_True:
  assumes "configuration_checks w config s = (Inr True, t)"
  shows "accepted_configuration w config \<and> dotnet_services w config"
proof -
  from assms obtain s1 s2 s3 where c: "contract_check w (config_services config) s = (Inr True, s1)"
    and f: "safety_check w config s1 = (Inr True, s2)" and i: "worker_image_check w (config_services config) s2 = (Inr True, s3)"
    and d: "dotnet_check w (config_services config) s3 = (Inr True, t)"
    unfolding configuration_checks_def Let_def by (auto simp: py_Inr)
  show ?thesis
    using contract_check_True [OF c] safety_check_True [OF f] worker_image_check_True [OF i] dotnet_check_True [OF d]
    by (simp add: accepted_configuration_def Let_def)
qed

lemma security_check_True: "security_check w n p e s = (Inr True, t) \<Longrightarrow> secured w"
  unfolding security_check_def secured_def by (auto simp: py_Inr)

lemma launch_steps_True: "all_steps (launch_steps w config) s = (Inr True, t) \<Longrightarrow> secured w"
  unfolding launch_steps_def by (blast dest!: all_steps_Cons dest: security_check_True)

definition admitted :: "world \<Rightarrow> bool" where
  "admitted w \<longleftrightarrow> secured w \<and> (\<exists>config. accepted_configuration w config \<and> dotnet_services w config) \<and>
     (\<exists>n. raw_compose_findings (read_text_replace (v_fs w n) (v_compose_file w)) (v_os_error w n) = Inr [])"

lemma raw_compose_check_True:
  "raw_compose_check w s = (Inr True, t) \<Longrightarrow> \<exists>n. raw_compose_findings (read_text_replace (v_fs w n) (v_compose_file w)) (v_os_error w n) = Inr []"
  unfolding raw_compose_check_def by (auto simp: py_Inr split: if_splits dest!: ask_res_Inr)

lemma admission_True:
  assumes "admission w s = (Inr True, t)"
  shows "admitted w"
proof -
  from assms obtain s1 s2 s3 c where raw: "raw_compose_check w s1 = (Inr True, s2)" and c: "candidate_config w s2 = (Inr c, s3)"
    and rest: "(case c of None \<Rightarrow> py_return False | Some config \<Rightarrow> all_steps (configuration_checks w config # launch_steps w config)) s3 = (Inr True, t)"
    unfolding admission_def by (auto simp: py_Inr split: if_splits)
  from rest obtain config where "all_steps (configuration_checks w config # launch_steps w config) s3 = (Inr True, t)"
    by (cases c) auto
  from all_steps_Cons [OF this] obtain s4 where "configuration_checks w config s3 = (Inr True, s4)" "all_steps (launch_steps w config) s4 = (Inr True, t)"
    by blast
  with raw_compose_check_True [OF raw] configuration_checks_True launch_steps_True show ?thesis unfolding admitted_def by blast
qed

section \<open>Failures stay\<close>

lemma items_failures: "list_all2 item_kept items items' \<Longrightarrow> all_checks_ok items' \<Longrightarrow> all_checks_ok items"
  by (induction items items' rule: list_all2_induct) (auto simp: all_checks_ok_def item_kept_def)

lemma evolves_failures: "evolves s t \<Longrightarrow> all_checks_ok (checks t) \<Longrightarrow> all_checks_ok (checks s)"
  using items_failures by (auto simp: evolves_def all_checks_ok_def)

lemma preserves_failures: "preserves evolves m \<Longrightarrow> m s = (r, t) \<Longrightarrow> all_checks_ok (checks t) \<Longrightarrow> all_checks_ok (checks s)"
  unfolding preserves_def by (metis evolves_failures snd_conv)

text \<open>A check under a name that nobody has recorded fails when it is recorded as failed.\<close>

lemma record_failed:
  "\<not> recorded name s \<Longrightarrow> \<not> all_checks_ok (checks (snd (record_check w name phase False expected actual s)))"
  by (simp add: record_check_def all_checks_ok_def check_item_def dget_def_def ps_def U_def)

lemma fail_missing_failed:
  assumes "map_of PHASE_CHECKS phase = Some (name # names)" "\<not> recorded name s" "fail_missing w phase message s = (r, t)"
  shows "\<not> all_checks_ok (checks t)"
proof -
  let ?one = "\<lambda>n. record_check w n phase False (ps ''published contract satisfied'') (PStr message)"
  obtain s' where s': "?one name s = (Inr (), s')" by (simp add: record_check_def)
  have "fail_missing w phase message s = py_for ?one names s'"
    using s' by (simp add: fail_missing_def ditem_def assms(1) py_bind_lift_Inr)
  moreover have "preserves evolves (py_for ?one names)" by (intro keep)
  moreover have "\<not> all_checks_ok (checks s')" using record_failed [OF assms(2), of w phase] s' by (metis snd_conv)
  ultimately show ?thesis using preserves_failures [of "py_for ?one names" s' r t] assms(3) by metis
qed

section \<open>Admission records its own checks only\<close>

definition FIRST_CHECK :: pystr where
  "FIRST_CHECK = U ''migration-and-action-publication''"

definition untouched :: "session \<Rightarrow> session \<Rightarrow> bool" where
  "untouched s t \<longleftrightarrow> (recorded FIRST_CHECK t \<longrightarrow> recorded FIRST_CHECK s)"

lemma untouched_same: "checks t = checks s \<Longrightarrow> untouched s t"
  by (simp add: untouched_def recorded_def)

interpretation admission_only: check_order untouched
  by unfold_locales (auto simp: untouched_def recorded_def)

lemma keep_other_check: "U name \<noteq> FIRST_CHECK \<Longrightarrow> preserves untouched (check w name phase ok expected actual)"
  by (auto simp: check_def record_check_def preserves_def untouched_def recorded_def check_item_def dget_def_def U_def)

lemma untouched_parts:
  "preserves untouched (fixture_check w)" "preserves untouched (repository_check w)" "preserves untouched (raw_compose_check w)"
  "preserves untouched (candidate_config w)" "preserves untouched (configuration_checks w c)" "preserves untouched (arm_cleanup w c)"
  "preserves untouched (post_build_check w)" "preserves untouched (built_image_check w)"
  "preserves untouched (health_check w)" "preserves untouched (baseline_check w)"
  unfolding admission_parts by (intro keep keep_other_check; simp add: FIRST_CHECK_def)+

lemma untouched_named_parts:
  "U n \<noteq> FIRST_CHECK \<Longrightarrow> preserves untouched (command_check w n e tr a t)" "U n \<noteq> FIRST_CHECK \<Longrightarrow> preserves untouched (security_check w n p e)"
  unfolding command_check_def security_check_def by (intro keep keep_other_check; simp)+

lemma untouched_admission: "preserves untouched (admission w)"
  unfolding admission_def launch_steps_def
  by (intro keep untouched_parts admission_only.all_steps)
    (auto intro: untouched_parts untouched_named_parts simp: FIRST_CHECK_def)

lemma admission_leaves_phases:
  assumes "admission w s = (Inr b, t)" "checks s = []"
  shows "\<not> recorded FIRST_CHECK t"
proof -
  have "\<not> recorded FIRST_CHECK s" using assms(2) by (simp add: recorded_def)
  with untouched_admission [of w] assms(1) show ?thesis unfolding preserves_def untouched_def by (metis snd_conv)
qed

section \<open>Exit code 0\<close>

text \<open>A run from the start in which every check passed was admitted.\<close>

lemma refused_run_fails:
  assumes "py_for (\<lambda>(phase, _). fail_missing w phase message) PHASE_CHECKS s = (r, t)" "\<not> recorded FIRST_CHECK s"
  shows "\<not> all_checks_ok (checks t)"
proof -
  obtain names where names: "PHASE_CHECKS = (U ''publication'', FIRST_CHECK # names) # tl PHASE_CHECKS"
    by (simp add: PHASE_CHECKS_def FIRST_CHECK_def)
  obtain x s' where x: "fail_missing w (U ''publication'') message s = (x, s')" by (cases "fail_missing w (U ''publication'') message s")
  have lookup: "map_of PHASE_CHECKS (U ''publication'') = Some (FIRST_CHECK # names)" by (subst names) simp
  from fail_missing_failed [OF lookup assms(2) x] have f: "\<not> all_checks_ok (checks s')" .
  have "py_for (\<lambda>(phase, _). fail_missing w phase message) PHASE_CHECKS s =
      py_seq (fail_missing w (U ''publication'') message) (py_for (\<lambda>(phase, _). fail_missing w phase message) (tl PHASE_CHECKS)) s"
    by (subst names) simp
  with assms(1) x have "\<not> all_checks_ok (checks t) \<or> (\<exists>e. x = Inl e \<and> t = s') \<or>
      py_for (\<lambda>(phase, _). fail_missing w phase message) (tl PHASE_CHECKS) s' = (r, t)" by (cases x) auto
  moreover have "preserves evolves (py_for (\<lambda>(phase, _). fail_missing w phase message) (tl PHASE_CHECKS))" by (intro keep)
  ultimately show ?thesis using f preserves_failures by blast
qed

lemma run_checks_admitted:
  assumes "run_checks w s = (Inr (), t)" "checks s = []" "all_checks_ok (checks t)"
  shows "admitted w"
proof -
  from assms(1) obtain b s' where b: "admission w s = (Inr b, s')" unfolding run_checks_def by (auto simp: py_Inr)
  show ?thesis
  proof (cases b)
    case True
    with b show ?thesis by (auto intro: admission_True)
  next
    case False
    with assms(1) b have "py_for (\<lambda>(phase, _). fail_missing w phase (U ''Admission prerequisite failed'')) PHASE_CHECKS s' = (Inr (), t)"
      by (simp add: run_checks_def)
    from refused_run_fails [OF this admission_leaves_phases [OF b assms(2)]] assms(3) show ?thesis by simp
  qed
qed

definition passed_names :: "session \<Rightarrow> pystr set" where
  "passed_names s = {name. \<exists>item \<in> set (checks s). dget_none item (U ''name'') = PStr name \<and> dget_none item (U ''status'') = ps ''passed''}"

lemma run_checks_passed:
  assumes "run_checks w s = (Inr (), t)" "all_checks_ok (checks t)"
  shows "set (concat (map snd PHASE_CHECKS)) \<subseteq> passed_names t"
proof
  fix name
  assume "name \<in> set (concat (map snd PHASE_CHECKS))"
  then obtain n where "name = U n" "n \<in> set phase_check_names" unfolding phase_check_names by auto
  with assms(1) have "recorded name t" using run_checks_reaches reaches_Inr by metis
  with assms(2) show "name \<in> passed_names t"
    by (auto simp: recorded_def passed_names_def list_ex_iff all_checks_ok_def list_all_iff)
qed

text \<open>Construction records nothing.\<close>

lemma construct_silent: "construct g base start_session = (Inr w, s) \<Longrightarrow> checks s = []"
  unfolding construct_def located_def write_override_def ask_res_def ask_def
  by (auto simp: py_Inr Let_def start_session_def split: if_splits)

definition accepted_run :: "arguments \<Rightarrow> world \<Rightarrow> bool" where
  "accepted_run g base \<longleftrightarrow> (\<exists>w s t u. construct g base start_session = (Inr w, s) \<and> run_checks w s = (Inr (), t) \<and>
     all_checks_ok (checks t) \<and> set (concat (map snd PHASE_CHECKS)) \<subseteq> passed_names t \<and> admitted w \<and> cleanup w t = (Inr None, u))"

lemma on_error_code: "on_error describe class_name secrets e = (item, st, code) \<Longrightarrow> code = 1 \<or> code = 2"
  by (auto simp: on_error_def Let_def split: if_splits)

lemma verdict_0:
  assumes "verdict_of describe class_name g base = Inr v" "vd_code v = 0"
  shows "accepted_run g base"
proof (cases "construct g base start_session")
  case (Pair r s)
  show ?thesis
  proof (cases r)
    case (Inl e)
    with assms Pair show ?thesis by (auto simp: verdict_of_def dest: on_error_code split: prod.splits)
  next
    case (Inr w)
    obtain x t where run: "run_checks w s = (x, t)" by (cases "run_checks w s")
    have c: "cleaned w t (judged describe class_name w (x, t)) = Inr v" using assms(1) Pair Inr run by (simp add: verdict_of_def Let_def)
    obtain cr u where cl: "cleanup w t = (cr, u)" by (cases "cleanup w t")
    from c cl assms(2) have none: "cr = Inr None" "vd_code (judged describe class_name w (x, t)) = 0"
      by (auto simp: cleaned_def split: sum.splits option.splits)
    from none(2) have x: "x = Inr ()" "all_checks_ok (checks t)"
      by (auto simp: judged_def Let_def dest: on_error_code split: sum.splits prod.splits if_splits)
    have e: "checks s = []" using Pair Inr construct_silent by metis
    have "admitted w" "set (concat (map snd PHASE_CHECKS)) \<subseteq> passed_names t"
      using run x e run_checks_admitted run_checks_passed by metis+
    then show ?thesis unfolding accepted_run_def using Pair Inr run x cl none(1) by metis
  qed
qed

lemma verdict_codes: "verdict_of describe class_name g base = Inr v \<Longrightarrow> vd_code v \<in> {0, 1, 2}"
  by (auto simp: verdict_of_def cleaned_def judged_def Let_def dest: on_error_code
    split: prod.splits sum.splits option.splits if_splits)

lemma publish_code: "publish describe prepare store emit (report, c) = Inr code \<Longrightarrow> code = 2 \<or> code = c"
  by (auto simp: publish_def split: sum.splits if_splits)

lemma report_code: "report_of stamps v = Inr (report, c) \<Longrightarrow> c = 2 \<or> c = vd_code v"
  by (auto simp: report_of_def split: prod.splits if_splits)

text \<open>
  C18. The program ends with an exception or with exit code 1 or 2, unless the submission was accepted: then the exit code is
  0, the checker was constructed and ran to the end, every check that it recorded passed, the checks of all phases are
  among them, the submission was admitted (a Compose configuration with the required services, one published port, no unsafe
  setting and one image for both workers, .NET builds, and workers whose database role may change no table), and the
  clean-up reported no error.
\<close>

theorem exit_zero_means_admitted:
  "main describe class_name pl output g base stamps prepare store emit \<in> range Inl \<union> {Inr 1, Inr 2} \<or>
   (main describe class_name pl output g base stamps prepare store emit = Inr 0 \<and> accepted_run g base)"
proof (cases "main describe class_name pl output g base stamps prepare store emit")
  case (Inr code)
  show ?thesis
  proof (cases "code = 2")
    case False
    with Inr obtain path where m: "res_bind (verdict_of describe class_name g base) (\<lambda>v.
        res_bind (report_of stamps v) (publish describe (prepare path) (store path) emit)) = Inr code"
      by (auto simp: main_def split: sum.splits if_splits)
    then obtain v report c where v: "verdict_of describe class_name g base = Inr v" "report_of stamps v = Inr (report, c)"
      "publish describe (prepare path) (store path) emit (report, c) = Inr code" by auto
    have "vd_code v = code" using publish_code [OF v(3)] report_code [OF v(2)] False by auto
    with Inr False verdict_0 [OF v(1)] verdict_codes [OF v(1)] show ?thesis by auto
  qed (use Inr in simp)
qed auto

text \<open>
  C19. Whatever the run does and however it ends, the recorded checks only grow: a check keeps its place and its name, and one
  that failed is never turned into one that passed.
\<close>

theorem failures_are_not_withdrawn: "evolves s (snd (run_checks w s))"
  using keep_run_checks unfolding preserves_def by blast

text \<open>
  No query reaches the database unless it passed the read-only validation: otherwise no command is run at all.
\<close>

theorem only_validated_queries_run:
  "validate_read_only_query (v_alnum w) query allowed = Inr () \<or>
   (snd (psql_rows_of w query allowed timeout container_id s) = s \<and> isl (fst (psql_rows_of w query allowed timeout container_id s)))"
  by (cases "validate_read_only_query (v_alnum w) query allowed") (simp_all add: psql_rows_of_def)

section \<open>Failures that are lost\<close>

text \<open>The harness leaves the recorded checks as they are; a probe that raises has not amended its check.\<close>

interpretation untouched: check_order "\<lambda>s t. checks t = checks s"
  by unfold_locales simp_all

definition raises_untouched :: "'a act \<Rightarrow> bool" where
  "raises_untouched m \<longleftrightarrow> (\<forall>s. isl (fst (m s)) \<longrightarrow> checks (snd (m s)) = checks s)"

lemma raises_untouched_bind:
  assumes "preserves (\<lambda>s t. checks t = checks s) m" "\<And>x. raises_untouched (f x)"
  shows "raises_untouched (py_bind m f)"
  unfolding raises_untouched_def
proof (intro allI impI)
  fix s
  assume e: "isl (fst (py_bind m f s))"
  obtain r t where m: "m s = (r, t)" by (cases "m s")
  with assms(1) have t: "checks t = checks s" unfolding preserves_def by (metis snd_conv)
  show "checks (snd (py_bind m f s)) = checks s"
  proof (cases r)
    case (Inr x)
    with assms(2) [of x] e m t show ?thesis by (simp add: raises_untouched_def)
  qed (use m t in simp)
qed

lemma unknown_probe_raises: "unknown_probe w s = (Inl e, t) \<Longrightarrow> checks t = checks s"
proof -
  have "raises_untouched (py_modify f)" for f :: "session \<Rightarrow> session" by (simp add: raises_untouched_def)
  then have "raises_untouched (unknown_probe w)"
    unfolding unknown_probe_def by (intro raises_untouched_bind keep)
  then show "unknown_probe w s = (Inl e, t) \<Longrightarrow> checks t = checks s"
    unfolding raises_untouched_def by (metis fst_conv snd_conv sum.disc(1))
qed

lemma unknown_probe_not_started:
  assumes "start w ''unknown'' ''unknown'' [] None True s = (Inr (answer, None), t)"
  shows "\<exists>m. unknown_probe w s = (Inl (ContractError m), t)"
  using assms by (simp add: unknown_probe_def started_def)

abbreviation version_name :: string where
  "version_name \<equiv> ''version-pinning-and-start-idempotency''"

lemma fail_missing_versioning: "recorded (U version_name) t \<Longrightarrow> fail_missing w (U ''versioning'') m t = (Inr (), t)"
  using phase_lookup(3) by (simp add: fail_missing_def ditem_def py_bind_lift_Inr record_check_def)

lemma versioning_lost:
  assumes "py_bind (run_versions w) (version_check w) s = (Inr (), t)"
    and "unknown_probe w t = (Inl e, t')" "contract_text e \<noteq> None"
  shows "run_phase w ''versioning'' (versioning w) s = (Inr (), t') \<and> checks t' = checks t \<and> recorded (U version_name) t"
proof -
  have c: "checks t' = checks t" using unknown_probe_raises [OF assms(2)] .
  have "reaches (version_check w v) version_name" for v
    unfolding version_check_def by (intro reaches_later reaches_check)
  then have r: "recorded (U version_name) t" using reaches_Inr [OF reaches_later(1) assms(1)] by blast
  with c have "recorded (U version_name) t'" by (simp add: recorded_def)
  note lost = fail_missing_versioning [OF this]
  have "versioning w s = (Inl e, t')"
    using assms(1,2) by (auto simp: versioning_def py_bind_def py_seq_def split: prod.splits sum.splits)
  with assms(3) lost c r show ?thesis by (simp add: run_phase_def)
qed

text \<open>
  C20. The phase of the versions loses the failure of its last probe. The phase records its only check before it starts the
  process whose outcome is unknown; when that process does not start, or the probe ends in any other broken contract, the
  phase returns as if nothing had happened and the recorded checks are those from before the probe: a check that had passed
  stays passed.
\<close>

theorem late_failure_is_lost:
  "case py_bind (run_versions w) (version_check w) s of
     (Inl _, _) \<Rightarrow> True
   | (Inr _, t) \<Rightarrow> recorded (U ''version-pinning-and-start-idempotency'') t \<and>
       (case start w ''unknown'' ''unknown'' [] None True t of
          (Inr (answer, None), t') \<Rightarrow> run_phase w ''versioning'' (versioning w) s = (Inr (), t') \<and> checks t' = checks t
        | _ \<Rightarrow> True) \<and>
       (case unknown_probe w t of
          (Inl e, t') \<Rightarrow> contract_text e = None \<or> run_phase w ''versioning'' (versioning w) s = (Inr (), t') \<and> checks t' = checks t
        | _ \<Rightarrow> True)"
proof (cases "py_bind (run_versions w) (version_check w) s")
  case (Pair r t)
  show ?thesis
  proof (cases r)
    case (Inr u)
    note run = Pair [unfolded Inr, simplified]
    have "reaches (version_check w v) version_name" for v
      unfolding version_check_def by (intro reaches_later reaches_check)
    then have "recorded (U version_name) t" using reaches_Inr [OF reaches_later(1) run] by blast
    note here = this
    define lost where "lost t' \<longleftrightarrow> run_phase w ''versioning'' (versioning w) s = (Inr (), t') \<and> checks t' = checks t" for t'
    have "lost t'" if "start w ''unknown'' ''unknown'' [] None True t = (Inr (answer, None), t')" for answer t'
    proof -
      from unknown_probe_not_started [OF that] obtain m where "unknown_probe w t = (Inl (ContractError m), t')" by blast
      from versioning_lost [OF run this] show ?thesis by (simp add: contract_text_def lost_def)
    qed
    then have "case start w ''unknown'' ''unknown'' [] None True t of (Inr (answer, None), t') \<Rightarrow> lost t' | _ \<Rightarrow> True"
      by (simp split: prod.split sum.split option.split)
    moreover have "contract_text e = None \<or> lost t'" if "unknown_probe w t = (Inl e, t')" for e t'
      using versioning_lost [OF run that] lost_def by blast
    then have "case unknown_probe w t of (Inl e, t') \<Rightarrow> contract_text e = None \<or> lost t' | _ \<Rightarrow> True"
      by (simp split: prod.split sum.split)
    ultimately show ?thesis using here unfolding Pair Inr prod.case sum.case lost_def by (intro conjI)
  qed (use Pair in simp)
qed

text \<open>
  A report that holds a lone surrogate, which the answer of the submission's command line can bring into it, is never
  written: the encoder's exception is no \<^verbatim>\<open>OSError\<close> and leaves the program.
\<close>

theorem surrogate_report_not_written:
  assumes "dumps_indent False 0 report = Inr t" "c \<in> set t" "is_surrogate c"
  shows "publish describe (Inr ()) store emit (report, code) = Inl UnicodeEncodeError"
proof -
  have "\<not> (\<exists>b. utf8_encode (t @ [10]) = Inr b)" unfolding utf8_encode_ok_iff using assms(2,3) by auto
  then have "utf8_encode (t @ [10]) = Inl UnicodeEncodeError" using utf8_encode_Inl by (cases "utf8_encode (t @ [10])") auto
  with assms(1) show ?thesis by (simp add: publish_def write_report_def)
qed

definition odd_answer :: cli_result where
  "odd_answer = (\<lparr>cr_command = [], cr_code = 1, cr_out = [], cr_err = [], cr_timed_out = False\<rparr>, Some [(U ''code'', PStr [55296])])"

theorem surrogate_report_not_written_witness:
  "publish (\<lambda>_. []) (Inr ()) (\<lambda>_. Inr ()) (\<lambda>_. Inr ()) (command_view odd_answer, 1) = Inl UnicodeEncodeError"
proof -
  have "55296 \<in> set (json_str False [55296])" by code_simp
  then obtain t where "dumps_indent False 0 (command_view odd_answer) = Inr t" "55296 \<in> set t"
    by (simp add: command_view_def odd_answer_def obj_def Let_def dget_def_def U_def)
  then show ?thesis by (rule surrogate_report_not_written) (simp add: is_surrogate_def)
qed

end
