(* ===== verification/Week3_Session.thy ===== *)
theory Week3_Session
  imports Complex_Main Py_State Week1_Checker Week3_Checker
begin

text \<open>
  The state of the classes \<^verbatim>\<open>ComposeHarness\<close> and \<^verbatim>\<open>PublicChecker\<close> of \<^verbatim>\<open>task/week3/autocheck/public_check.py\<close> and the operations
  of the harness that run commands. The world outside is the record \<open>world\<close>: an oracle answers each interaction by its
  number, so that nothing is assumed of how the world changes between two of them. The checker of week 4 has the same
  harness, up to a few methods; its theories use the state and the operations of this one.
\<close>

section \<open>State and surroundings\<close>

text \<open>What \<^verbatim>\<open>subprocess.run\<close> and \<^verbatim>\<open>urlopen\<close> are called with.\<close>

record invocation =
  inv_command :: "pystr list"
  inv_env :: "(pystr \<times> pystr) list"
  inv_timeout :: rat

record http_request =
  rq_url :: pystr
  rq_method :: pystr
  rq_body :: "pybytes option"
  rq_headers :: "(pystr \<times> pystr) list"
  rq_timeout :: rat

text \<open>
  The outcome of a request: a response, an error that the code turns into a \<^verbatim>\<open>ContractError\<close> (\<^verbatim>\<open>URLError\<close>, a timeout,
  \<^verbatim>\<open>OSError\<close>), given by its text, or another exception.
\<close>

datatype http_outcome =
    Reply int pybytes "(pystr \<times> pystr) list"
  | NetworkError pystr
  | Escaped pyexn

text \<open>The attributes that the constructor assigns and no other code changes; the last four are of week 4.\<close>

record attributes =
  a_repo :: pystr
  a_fixtures :: pystr
  a_wrapper :: pystr
  a_override :: pystr
  a_project :: pystr
  a_gateway_port :: int
  a_jwt_secret :: pystr
  a_hmac_secret :: pystr
  a_capability :: pystr
  a_audit_token :: pystr
  a_database_secrets :: "(pystr \<times> pystr) list"
  a_issuer :: pystr
  a_audience :: pystr
  a_receipt_token :: pystr
  a_client_token :: pystr
  a_reviewer_token :: pystr
  a_environment :: "(pystr \<times> pystr) list"
  a_sensitive :: "pystr list"
  a_probe_ports :: "(pystr \<times> int) list"
  a_autocheck_password :: pystr
  a_diagnostics_token :: pystr
  a_result_schemas :: "(pystr \<times> pyval) list"

text \<open>
  \<open>v_rounds n t\<close> is how many rounds a loop that polls for \<open>t\<close> seconds begins before its deadline; \<open>v_order\<close> is the order
  in which a set is iterated; \<open>v_exec\<close> gives an exception where \<^verbatim>\<open>subprocess.run\<close> raises one that the code does not catch, or
  where the output that a timeout left is not text.
\<close>

record world =
  v_self :: attributes
  v_keep_stack :: bool
  v_exec :: "nat \<Rightarrow> invocation \<Rightarrow> run_outcome res"
  v_http :: "nat \<Rightarrow> http_request \<Rightarrow> http_outcome"
  v_clock :: "nat \<Rightarrow> rat"
  v_rounds :: "nat \<Rightarrow> rat \<Rightarrow> nat"
  v_hex :: "nat \<Rightarrow> nat \<Rightarrow> pystr"
  v_urlsafe :: "nat \<Rightarrow> nat \<Rightarrow> pystr"
  v_uuid :: "nat \<Rightarrow> pystr"
  v_time :: "nat \<Rightarrow> int"
  v_fs :: "nat \<Rightarrow> file_system"
  v_write :: "nat \<Rightarrow> pystr \<Rightarrow> pystr \<Rightarrow> unit res"
  v_realpath :: "nat \<Rightarrow> pystr \<Rightarrow> pystr res"
  v_mkdtemp :: "nat \<Rightarrow> pystr \<Rightarrow> pystr res"
  v_free_port :: "nat \<Rightarrow> int res"
  v_free_ports :: "nat \<Rightarrow> nat \<Rightarrow> int list res"
  v_order :: "nat \<Rightarrow> pystr set \<Rightarrow> pystr list"
  v_environ :: "(pystr \<times> pystr) list"
  v_netloc_ok :: "pystr \<Rightarrow> bool"
  v_regex :: "pystr \<Rightarrow> pystr \<Rightarrow> bool res"
  v_randbelow :: "nat \<Rightarrow> int \<Rightarrow> int"
  v_contracts :: pystr
  v_hash :: "pybytes \<Rightarrow> pybytes"
  v_depth :: nat

text \<open>
  \<open>harness\<close> is the Compose file of the harness, which does not exist before the admission. The four fields before the last
  are of week 4, and \<open>tick\<close> counts the interactions.
\<close>

record session =
  checks :: "pydict list"
  commands :: "pydict list"
  harness :: "pystr option"
  cleanup_armed :: bool
  fixture :: pydict
  callback_base :: pystr
  python_executables :: "(pystr \<times> pystr) list"
  image_ids :: "(pystr \<times> pystr) list"
  forbidden_log_values :: "(pystr \<times> pystr) list"
  isolated_images :: "pystr set"
  captured_logs :: "pystr list"
  restart_callback :: "(pystr \<times> pydict \<times> int \<times> pydict) option"
  restart_manual :: "(pydict \<times> pystr \<times> int \<times> pydict) option"
  tick :: nat

type_synonym 'a act = "(session, 'a) py"

definition ask :: "(nat \<Rightarrow> 'a) \<Rightarrow> 'a act" where
  "ask oracle = (\<lambda>s. (Inr (oracle (tick s)), s\<lparr>tick := Suc (tick s)\<rparr>))"

definition ask_res :: "(nat \<Rightarrow> 'a res) \<Rightarrow> 'a act" where
  "ask_res oracle = py_bind (ask oracle) py_lift"

definition py_read :: "(session \<Rightarrow> 'a) \<Rightarrow> 'a act" where
  "py_read f = py_bind py_get (\<lambda>s. py_return (f s))"

fun py_map :: "('a \<Rightarrow> 'b act) \<Rightarrow> 'a list \<Rightarrow> 'b list act" where
  "py_map f [] = py_return []"
| "py_map f (x # xs) = py_bind (f x) (\<lambda>y. py_bind (py_map f xs) (\<lambda>ys. py_return (y # ys)))"

section \<open>Values\<close>

definition ps :: "string \<Rightarrow> pyval" where
  "ps s = PStr (U s)"

definition obj :: "(string \<times> pyval) list \<Rightarrow> pyval" where
  "obj kvs = PDict (map (\<lambda>(k, v). (U k, v)) kvs)"

definition strs :: "pystr list \<Rightarrow> pyval" where
  "strs xs = PList (map PStr xs)"

definition str_dict :: "(pystr \<times> pystr) list \<Rightarrow> pyval" where
  "str_dict d = PDict (map (\<lambda>(k, v). (k, PStr v)) d)"

definition rows_val :: "pydict list \<Rightarrow> pyval" where
  "rows_val rows = PList (map PDict rows)"

text \<open>A literal text of a query, in which the grave accent stands for the quote.\<close>

definition sql :: "string \<Rightarrow> pystr" where
  "sql s = map (\<lambda>c. if c = 96 then 39 else c) (U s)"

definition lines_of :: "pystr \<Rightarrow> pystr \<Rightarrow> pystr" where
  "lines_of a b = a @ [10] @ b"

text \<open>\<^verbatim>\<open>s.split(maxsplit=n)\<close>\<close>

primrec split_ws :: "nat \<Rightarrow> pystr \<Rightarrow> pystr list" where
  "split_ws 0 s = (let t = lstrip_by is_space s in if t = [] then [] else [t])"
| "split_ws (Suc n) s = (let t = lstrip_by is_space s in
     if t = [] then [] else takeWhile (\<lambda>c. \<not> is_space c) t # split_ws n (dropWhile (\<lambda>c. \<not> is_space c) t))"

text \<open>\<^verbatim>\<open>int(x)\<close> for a number that is not an integer.\<close>

definition truncated :: "rat \<Rightarrow> int" where
  "truncated x = (if 0 \<le> x then \<lfloor>x\<rfloor> else \<lceil>x\<rceil>)"

section \<open>Running commands\<close>

text \<open>The property \<^verbatim>\<open>h\<close>: every method of the harness is called through it, so each operation below begins with it.\<close>

definition h :: "pystr act" where
  "h = py_bind py_get (\<lambda>s. case harness s of
     None \<Rightarrow> py_raise (RuntimeError (U ''Compose harness is not initialized''))
   | Some compose_file \<Rightarrow> py_return compose_file)"

definition command_result :: "pystr list \<Rightarrow> run_outcome \<Rightarrow> CommandResult res" where
  "command_result cmd outcome = (case outcome of
     Completed code out err \<Rightarrow> Inr \<lparr>command = cmd, returncode = code, stdout = out, stderr = err, timed_out = False\<rparr>
   | TimeoutExpired out err \<Rightarrow> Inr \<lparr>command = cmd, returncode = 124, stdout = (case out of None \<Rightarrow> [] | Some t \<Rightarrow> t),
       stderr = (case err of None \<Rightarrow> [] | Some t \<Rightarrow> t), timed_out = True\<rparr>
   | RunOSError _ \<Rightarrow> Inl OSError)"

definition safe_command :: "pystr list \<Rightarrow> pyval" where
  "safe_command cmd = strs (map (\<lambda>argument. if 256 < length argument then U ''[redacted-argument]'' else argument) cmd)"

definition command_item :: "world \<Rightarrow> CommandResult \<Rightarrow> rat \<Rightarrow> pydict res" where
  "command_item w r elapsed = res_bind (redact (a_sensitive (v_self w)) 0 (safe_command (command r))) (\<lambda>shown.
     Inr [(U ''command'', shown), (U ''exitCode'', PInt (returncode r)), (U ''timedOut'', PBool (timed_out r)),
       (U ''durationMs'', PInt (truncated (elapsed * 1000)))])"

definition environment :: "world \<Rightarrow> (pystr \<times> pystr) list \<Rightarrow> (pystr \<times> pystr) list" where
  "environment w extra = dict_of (v_environ w @ a_environment (v_self w) @ extra)"

definition run_with :: "world \<Rightarrow> pystr list \<Rightarrow> rat \<Rightarrow> (pystr \<times> pystr) list \<Rightarrow> CommandResult act" where
  "run_with w cmd timeout extra =
     py_seq h (
     py_bind (ask (v_clock w)) (\<lambda>started.
     py_bind (ask_res (\<lambda>n. v_exec w n \<lparr>inv_command = cmd, inv_env = environment w extra, inv_timeout = timeout\<rparr>)) (\<lambda>outcome.
     py_bind (py_lift (command_result cmd outcome)) (\<lambda>r.
     py_bind (ask (v_clock w)) (\<lambda>finished.
     py_bind (py_lift (command_item w r (finished - started))) (\<lambda>item.
     py_seq (py_modify (\<lambda>s. s\<lparr>commands := commands s @ [item]\<rparr>)) (py_return r)))))))"

definition run :: "world \<Rightarrow> pystr list \<Rightarrow> rat \<Rightarrow> CommandResult act" where
  "run w cmd timeout = run_with w cmd timeout []"

definition docker_info :: "pystr list" where
  "docker_info = map U [''docker'', ''info'', ''--format'', ''{{.ServerVersion}}'']"

definition require_docker_result :: "world \<Rightarrow> CommandResult \<Rightarrow> pystr \<Rightarrow> unit act" where
  "require_docker_result w result message =
     (if cmd_ok result then py_return ()
      else py_bind (run w docker_info 15) (\<lambda>probe.
        if \<not> cmd_ok probe then py_raise (EnvironmentFailure (U ''Docker daemon became unavailable''))
        else py_raise (ContractError message)))"

definition compose_line :: "world \<Rightarrow> pystr \<Rightarrow> bool \<Rightarrow> pystr list \<Rightarrow> pystr list" where
  "compose_line w compose_file override args =
     [a_wrapper (v_self w), U ''--project-name'', a_project (v_self w), U ''-f'', compose_file] @
     (if override then [U ''-f'', a_override (v_self w)] else []) @ args"

definition compose_with :: "world \<Rightarrow> pystr list \<Rightarrow> bool \<Rightarrow> rat \<Rightarrow> (pystr \<times> pystr) list \<Rightarrow> CommandResult act" where
  "compose_with w args override timeout extra =
     py_bind h (\<lambda>compose_file. run_with w (compose_line w compose_file override args) timeout extra)"

definition compose :: "world \<Rightarrow> pystr list \<Rightarrow> rat \<Rightarrow> CommandResult act" where
  "compose w args timeout = compose_with w args True timeout []"

text \<open>\<^verbatim>\<open>self.h.require_docker_result(self.h.compose(args, timeout), message)\<close>\<close>

definition require_compose :: "world \<Rightarrow> pystr list \<Rightarrow> rat \<Rightarrow> pystr \<Rightarrow> unit act" where
  "require_compose w args timeout message = py_bind (compose w args timeout) (\<lambda>r. require_docker_result w r message)"

definition config_args :: "pystr list" where
  "config_args = map U [''config'', ''--format'', ''json'', ''--no-env-resolution'']"

definition candidate_config :: "world \<Rightarrow> CommandResult act" where
  "candidate_config w = compose_with w config_args False 30 [(U ''COURSE_GATEWAY_PORT'', U ''8080'')]"

definition runtime_config :: "world \<Rightarrow> CommandResult act" where
  "runtime_config w = compose w config_args 30"

section \<open>Containers, images and processes\<close>

definition hex_lower :: regex where
  "hex_lower = RCls (\<lambda>c. in_range 97 102 c \<or> in_range 48 57 c)"

definition CONTAINER_ID :: regex where
  "CONTAINER_ID = RSeq (rtimes 12 hex_lower) (rupto 52 hex_lower)"

definition IMAGE_ID :: regex where
  "IMAGE_ID = RSeq (rstr ''sha256:'') (rtimes 64 hex_lower)"

definition container_id :: "world \<Rightarrow> pystr \<Rightarrow> pystr act" where
  "container_id w service =
     py_bind (compose w [U ''ps'', U ''-q'', service] 15) (\<lambda>result.
     let value = strip (stdout result); missing = U ''service '' @ service @ U '' has no running container'' in
     py_seq (require_docker_result w result missing) (
     if fullmatch_ok CONTAINER_ID value then py_return value else py_raise (ContractError missing)))"

definition image_id :: "world \<Rightarrow> pystr \<Rightarrow> pystr act" where
  "image_id w service =
     py_bind (container_id w service) (\<lambda>container.
     py_bind (run w (map U [''docker'', ''inspect'', ''--format'', ''{{.Image}}''] @ [container]) 120) (\<lambda>result.
     let value = strip (stdout result); message = U ''cannot inspect image for '' @ service in
     py_seq (require_docker_result w result message) (
     if fullmatch_ok IMAGE_ID value then py_return value else py_raise (ContractError message))))"

definition local_image_id :: "world \<Rightarrow> pystr \<Rightarrow> pystr act" where
  "local_image_id w img =
     py_bind (run w (map U [''docker'', ''image'', ''inspect'', ''--format'', ''{{.Id}}''] @ [img]) 15) (\<lambda>result.
     let value = strip (stdout result); message = U ''cannot inspect the locally built Python image'' in
     py_seq (require_docker_result w result message) (
     if fullmatch_ok IMAGE_ID value then py_return value else py_raise (ContractError message)))"

definition PYTHON_NAME :: regex where
  "PYTHON_NAME = RSeq (rstr ''python'') (ropt (RSeq (rstr ''3'') (ropt (RSeq (rstr ''.'') (rplus rdigit)))))"

definition shell_wrappers :: "pystr set" where
  "shell_wrappers = U ` {''ash'', ''bash'', ''dash'', ''docker-init'', ''dumb-init'', ''sh'', ''tini''}"

definition top_rows :: "pystr \<Rightarrow> (pystr \<times> pystr \<times> pystr) list" where
  "top_rows out = concat (map (\<lambda>line. case split_ws 2 line of [pid, ppid, comm] \<Rightarrow> [(pid, ppid, comm)] | _ \<Rightarrow> []) (tl (splitlines out)))"

text \<open>The executable of the main process, or of its only child if it is one of the wrappers.\<close>

definition workload :: "pystr \<Rightarrow> (pystr \<times> pystr \<times> pystr) list \<Rightarrow> pystr \<Rightarrow> pystr res" where
  "workload service rows root_pid =
     (case filter (\<lambda>row. fst row = root_pid) rows of
        [(_, _, executable)] \<Rightarrow>
          if lower (path_name executable) \<in> shell_wrappers then
            (case filter (\<lambda>row. fst (snd row) = root_pid) rows of
               [(_, _, child)] \<Rightarrow> Inr child
             | _ \<Rightarrow> Inl (ContractError (U ''cannot identify workload process for '' @ service)))
          else Inr executable
      | _ \<Rightarrow> Inl (ContractError (U ''cannot inspect main process for '' @ service)))"

definition main_process_executable :: "world \<Rightarrow> pystr \<Rightarrow> pystr act" where
  "main_process_executable w service =
     (let message = U ''cannot inspect main process for '' @ service in
     py_bind (container_id w service) (\<lambda>container.
     py_bind (run w (map U [''docker'', ''inspect'', ''--format'', ''{{.Path}}''] @ [container]) 15) (\<lambda>result.
     let value = strip (stdout result); configured_name = lower (path_name value) in
     py_seq (require_docker_result w result message) (
     if value = [] \<or> 10 \<in> set value \<or> 13 \<in> set value then py_raise (ContractError message)
     else if configured_name = U ''dotnet'' \<or> fullmatch_ok PYTHON_NAME configured_name then py_return value
     else py_bind (run w (map U [''docker'', ''inspect'', ''--format'', ''{{.State.Pid}}''] @ [container]) 15) (\<lambda>pid_result.
       py_seq (require_docker_result w pid_result message) (
       py_bind (run w ([U ''docker'', U ''top'', container] @ map U [''-eo'', ''pid,ppid,comm'']) 15) (\<lambda>top_result.
       py_seq (require_docker_result w top_result message) (
       py_lift (workload service (top_rows (stdout top_result)) (strip (stdout pid_result)))))))))))"

definition process_text :: "world \<Rightarrow> pystr \<Rightarrow> pystr act" where
  "process_text w service =
     py_bind (container_id w service) (\<lambda>container.
     py_bind (run w ([U ''docker'', U ''top'', container] @ map U [''-eo'', ''pid,comm,args'']) 15) (\<lambda>result.
     py_seq (require_docker_result w result (U ''cannot inspect process for '' @ service)) (
     py_return (lower (stdout result)))))"

definition process_commands :: "world \<Rightarrow> pystr \<Rightarrow> pystr list act" where
  "process_commands w service = py_bind (process_text w service) (\<lambda>out.
     py_return (concat (map (\<lambda>line. case split_ws 2 line of _ # comm # _ \<Rightarrow> [comm] | _ \<Rightarrow> []) (tl (splitlines out)))))"

definition PYTHON_VERSION :: regex where
  "PYTHON_VERSION = rseqs [rstr ''Python'', rplus rspace, RGroup 1 (rplus rdigit), rstr ''.'', RGroup 2 (rplus rdigit),
     rstr ''.'', RGroup 3 (rplus rdigit)]"

definition version_parts :: "(nat \<times> pystr) list \<Rightarrow> int list res" where
  "version_parts found = res_map (\<lambda>i. int_of_str (case group i found of None \<Rightarrow> [] | Some t \<Rightarrow> t)) [1, 2, 3]"

definition detect_python_runtime :: "world \<Rightarrow> pystr \<Rightarrow> int list act" where
  "detect_python_runtime w service =
     py_bind (container_id w service) (\<lambda>container.
     py_bind (main_process_executable w service) (\<lambda>executable.
     if \<not> fullmatch_ok PYTHON_NAME (path_name executable)
     then py_raise (ContractError (U ''main process for '' @ service @ U '' is not Python''))
     else py_bind (run w [U ''docker'', U ''exec'', container, executable, U ''--version''] 15) (\<lambda>result.
       let message = U ''cannot determine Python runtime for '' @ service in
       py_seq (require_docker_result w result message) (
       case research PYTHON_VERSION (lines_of (stdout result) (stderr result)) of
         None \<Rightarrow> py_raise (ContractError message)
       | Some found \<Rightarrow>
           py_seq (py_modify (\<lambda>s. s\<lparr>python_executables := dput service executable (python_executables s)\<rparr>))
             (py_lift (version_parts found))))))"

end
