(* ===== verification/Week3_Http.thy ===== *)
theory Week3_Http
  imports Week3_Session
begin

text \<open>
  Requests and queries of \<^verbatim>\<open>ComposeHarness\<close> in \<^verbatim>\<open>task/week3/autocheck/public_check.py\<close>: the gateway, the database and the
  requests that a Python service sends from inside the network of the stack.
\<close>

section \<open>The gateway\<close>

definition http_result :: "pystr \<Rightarrow> http_outcome \<Rightarrow> HttpResult res" where
  "http_result failure outcome = (case outcome of
     Reply st body hs \<Rightarrow> Inr \<lparr>hr_status = st, hr_body = take (1024 * 1024) body, hr_headers = dict_of hs\<rparr>
   | NetworkError message \<Rightarrow> Inl (ContractError (failure @ message))
   | Escaped e \<Rightarrow> Inl e)"

definition http :: "world \<Rightarrow> pystr \<Rightarrow> pystr \<Rightarrow> pybytes option \<Rightarrow> (pystr \<times> pystr) list \<Rightarrow> rat \<Rightarrow> HttpResult act" where
  "http w verb path body headers timeout =
     py_seq h (ask_res (\<lambda>n. http_result (U ''candidate HTTP transport failed: '')
       (v_http w n \<lparr>rq_url = U ''http://127.0.0.1:'' @ str_of_int (a_gateway_port (v_self w)) @ path, rq_method = verb,
          rq_body = body, rq_headers = headers, rq_timeout = timeout\<rparr>)))"

definition is_ContractError :: "pyexn \<Rightarrow> bool" where
  "is_ContractError e = (case e of ContractError _ \<Rightarrow> True | _ \<Rightarrow> False)"

definition probe_ready :: "world \<Rightarrow> int option act" where
  "probe_ready w = py_try (py_bind (http w (U ''GET'') (U ''/health/ready'') None [] 2) (\<lambda>r. py_return (Some (hr_status r))))
     is_ContractError (\<lambda>_. py_return None)"

text \<open>The loop, by the rounds that are left; \<open>seen\<close> is the last status.\<close>

fun gateway_rounds :: "world \<Rightarrow> nat \<Rightarrow> int \<Rightarrow> unit act" where
  "gateway_rounds w 0 seen =
     py_raise (ContractError (U ''gateway readiness did not become 200 (last='' @ str_of_int seen @ U '')''))"
| "gateway_rounds w (Suc n) seen =
     py_bind (probe_ready w) (\<lambda>st. case st of
       None \<Rightarrow> gateway_rounds w n seen
     | Some v \<Rightarrow> if v = 200 then py_return () else gateway_rounds w n v)"

definition wait_gateway_for :: "world \<Rightarrow> rat \<Rightarrow> unit act" where
  "wait_gateway_for w timeout = py_bind (ask (\<lambda>n. v_rounds w n timeout)) (\<lambda>rounds. gateway_rounds w rounds 0)"

definition wait_gateway :: "world \<Rightarrow> unit act" where
  "wait_gateway w = wait_gateway_for w 300"

definition action_headers :: "pystr \<Rightarrow> pystr option \<Rightarrow> (pystr \<times> pystr) list \<Rightarrow> (pystr \<times> pystr) list" where
  "action_headers token idempotency_key extra =
     dict_of ([(U ''Authorization'', U ''Bearer '' @ token), (U ''Content-Type'', U ''application/json''), (U ''X-Action-Version'', U ''1'')] @
       (case idempotency_key of None \<Rightarrow> [] | Some k \<Rightarrow> [(U ''Idempotency-Key'', k)]) @ extra)"

definition action_with :: "world \<Rightarrow> string \<Rightarrow> string \<Rightarrow> pydict \<Rightarrow> pystr \<Rightarrow> pystr option \<Rightarrow> (pystr \<times> pystr) list \<Rightarrow> HttpResult act" where
  "action_with w modul action payload token key extra =
     py_seq h (py_bind (py_lift (receipt_bytes (PDict payload))) (\<lambda>body.
       http w (U ''POST'') (U ''/api/'' @ U modul @ U ''/'' @ U action) (Some body) (action_headers token key extra) 30))"

definition call_action :: "world \<Rightarrow> string \<Rightarrow> string \<Rightarrow> pydict \<Rightarrow> pystr \<Rightarrow> pystr \<Rightarrow> HttpResult act" where
  "call_action w modul action payload token key = action_with w modul action payload token (Some key) []"

text \<open>\<^verbatim>\<open>response.json()\<close>\<close>

definition response_json :: "world \<Rightarrow> HttpResult \<Rightarrow> pydict option act" where
  "response_json w r = py_lift (hr_json (v_depth w) r)"

definition json_field :: "pydict option \<Rightarrow> string \<Rightarrow> pyval" where
  "json_field body k = (case body of None \<Rightarrow> PNone | Some d \<Rightarrow> dget_none d (U k))"

text \<open>\<^verbatim>\<open>body is not None and body.get(k) == v\<close>\<close>

definition field_is :: "pydict option \<Rightarrow> string \<Rightarrow> pyval \<Rightarrow> bool" where
  "field_is body k v = (body \<noteq> None \<and> py_eq (json_field body k) v)"

section \<open>The database\<close>

definition wrapped_query :: "pystr \<Rightarrow> pystr" where
  "wrapped_query query = sql ''SELECT COALESCE(jsonb_agg(to_jsonb(q)), `[]`::jsonb)::text FROM ('' @ query @ U '') AS q''"

fun as_rows :: "pyval list \<Rightarrow> pydict list option" where
  "as_rows [] = Some []"
| "as_rows (PDict d # xs) = map_option ((#) d) (as_rows xs)"
| "as_rows (_ # xs) = None"

definition read_rows :: "nat \<Rightarrow> pystr \<Rightarrow> pydict list res" where
  "read_rows depth out = (case loads depth (strip out) of
     Inl e \<Rightarrow> Inl (if e = JSONDecodeError then ContractError (U ''PostgreSQL query did not return JSON rows'') else e)
   | Inr v \<Rightarrow> (let shape = Inl (ContractError (U ''PostgreSQL query returned an invalid shape'')) in
       case v of PList xs \<Rightarrow> (case as_rows xs of Some rows \<Rightarrow> Inr rows | None \<Rightarrow> shape) | _ \<Rightarrow> shape))"

definition psql_rows :: "world \<Rightarrow> pystr \<Rightarrow> pydict list act" where
  "psql_rows w query =
     py_seq h (
     if 59 \<in> set query then py_raise (ValueError (U ''checker query is not read-only''))
     else py_bind (compose w (map U [''exec'', ''-T'', ''postgres'', ''psql'', ''-X'', ''-v'', ''ON_ERROR_STOP=1'', ''-U'', ''postgres'',
         ''-d'', ''course'', ''-At'', ''-c''] @ [wrapped_query query]) 30) (\<lambda>result.
       py_seq (require_docker_result w result (U ''required read-only PostgreSQL query failed''))
         (py_lift (read_rows (v_depth w) (stdout result)))))"

section \<open>Base64\<close>

text \<open>\<^verbatim>\<open>base64.b64encode\<close>: the alphabet with + and / and the padding.\<close>

definition b64_std :: "nat \<Rightarrow> nat" where
  "b64_std c = (if c = 45 then 43 else if c = 95 then 47 else c)"

definition b64encode :: "pybytes \<Rightarrow> pystr" where
  "b64encode bs = (let t = map b64_std (base64url bs) in t @ replicate ((4 - length t mod 4) mod 4) 61)"

definition b64_value :: "nat \<Rightarrow> nat option" where
  "b64_value c = (if in_range 65 90 c then Some (c - 65) else if in_range 97 122 c then Some (c - 71)
     else if in_range 48 57 c then Some (c + 4) else if c = 43 then Some 62 else if c = 47 then Some 63 else None)"

text \<open>
  \<^verbatim>\<open>binascii.a2b_base64\<close>: \<open>q\<close> is the position in a group of four, \<open>v\<close> the bits that are left over, \<open>p\<close> the padding
  seen. Other characters are skipped, and the text ends with a complete padding.
\<close>

fun a2b_base64 :: "nat \<Rightarrow> nat \<Rightarrow> nat \<Rightarrow> pystr \<Rightarrow> pybytes res" where
  "a2b_base64 q v p [] = (if q = 0 then Inr [] else Inl (ValueError (U ''Incorrect padding'')))"
| "a2b_base64 q v p (c # cs) =
     (if c = 61 then (if 2 \<le> q \<and> 4 \<le> q + Suc p then Inr [] else a2b_base64 q v (if 2 \<le> q then Suc p else p) cs)
      else (case b64_value c of
        None \<Rightarrow> a2b_base64 q v p cs
      | Some x \<Rightarrow>
          if q = 0 then a2b_base64 1 x 0 cs
          else if q = 1 then cons_res (v * 4 + x div 16) (a2b_base64 2 (x mod 16) 0 cs)
          else if q = 2 then cons_res (v * 16 + x div 4) (a2b_base64 3 (x mod 4) 0 cs)
          else cons_res (v * 64 + x) (a2b_base64 0 0 0 cs)))"

definition b64decode :: "pyval \<Rightarrow> pybytes res" where
  "b64decode v = (case v of
     PStr s \<Rightarrow> if list_all (\<lambda>c. c < 128) s then a2b_base64 0 0 0 s
       else Inl (ValueError (U ''string argument should contain only ASCII characters''))
   | _ \<Rightarrow> Inl TypeError)"

section \<open>Requests from inside the stack\<close>

text \<open>The script that is run in the container, in which the grave accent stands for the quote.\<close>

definition probe_script :: pystr where
  "probe_script =
     U ''import base64,json,sys,urllib.error,urllib.request;'' @
     U ''data=base64.b64decode(sys.argv[3]) if sys.argv[3] else None;'' @
     U ''req=urllib.request.Request(sys.argv[2],data=data,method=sys.argv[1],'' @
     U ''headers=json.loads(sys.argv[4]));'' @
     sql ''status=0;out=b``;hdr={};'' @
     [10] @ U ''try:'' @ [10] @ U '' r=urllib.request.urlopen(req,timeout=15);status=r.status;'' @
     U ''out=r.read(1048576);hdr=dict(r.headers.items())'' @
     [10] @ U ''except urllib.error.HTTPError as e:'' @ [10] @ U '' status=e.code;'' @
     U ''out=e.read(1048576);hdr=dict(e.headers.items())'' @
     [10] @ sql ''print(json.dumps({`status`:status,`data`:base64.b64encode(out).decode(),'' @
     sql ''`headers`:hdr},separators=(`,`,`:`)))''"

text \<open>\<^verbatim>\<open>value[k]\<close> and \<^verbatim>\<open>value.items()\<close> for a value of unknown type.\<close>

definition item_of :: "pyval \<Rightarrow> string \<Rightarrow> pyval res" where
  "item_of value k = (case value of PDict d \<Rightarrow> ditem d (U k) | _ \<Rightarrow> Inl TypeError)"

definition header_items :: "pyval \<Rightarrow> (pystr \<times> pystr) list res" where
  "header_items v = (case v of PDict d \<Rightarrow> Inr (map (\<lambda>(k, x). (k, py_str x)) d) | _ \<Rightarrow> Inl AttributeError)"

text \<open>\<^verbatim>\<open>int(x)\<close>\<close>

definition py_int :: "pyval \<Rightarrow> int res" where
  "py_int v = (case v of
     PInt i \<Rightarrow> Inr i
   | PBool b \<Rightarrow> Inr (if b then 1 else 0)
   | PStr s \<Rightarrow> int_of_str s
   | PFloat (FNum neg m e) \<Rightarrow> (let n = (if 0 \<le> e then m * 2 ^ nat e else m div 2 ^ nat (- e)) in Inr (if neg then - int n else int n))
   | PFloat (FInf _) \<Rightarrow> Inl OverflowError
   | PFloat FNaN \<Rightarrow> Inl (ValueError (U ''cannot convert float NaN to integer''))
   | _ \<Rightarrow> Inl TypeError)"

definition probe_result :: "nat \<Rightarrow> pystr \<Rightarrow> HttpResult res" where
  "probe_result depth out =
     res_bind (loads depth (strip out)) (\<lambda>value.
     res_bind (res_bind (item_of value ''status'') py_int) (\<lambda>st.
     res_bind (res_bind (item_of value ''data'') b64decode) (\<lambda>body.
     res_bind (res_bind (item_of value ''headers'') header_items) (\<lambda>hs.
       Inr \<lparr>hr_status = st, hr_body = body, hr_headers = hs\<rparr>))))"

definition probe_error :: "pyexn \<Rightarrow> bool" where
  "probe_error e = (is_ValueError e \<or> e = TypeError \<or> (case e of KeyError _ \<Rightarrow> True | _ \<Rightarrow> False))"

definition read_probe :: "nat \<Rightarrow> pystr \<Rightarrow> HttpResult res" where
  "read_probe depth out = (case probe_result depth out of
     Inl e \<Rightarrow> Inl (if probe_error e then ContractError (U ''internal HTTP probe returned invalid data'') else e)
   | Inr r \<Rightarrow> Inr r)"

definition encoded_body :: "pydict option \<Rightarrow> pystr res" where
  "encoded_body body = (case body of
     None \<Rightarrow> Inr []
   | Some d \<Rightarrow> res_bind (receipt_bytes (PDict d)) (\<lambda>bs. Inr (b64encode bs)))"

definition internal_http ::
    "world \<Rightarrow> string \<Rightarrow> string \<Rightarrow> pystr \<Rightarrow> pydict option \<Rightarrow> (pystr \<times> pystr) list \<Rightarrow> HttpResult act" where
  "internal_http w service verb url body headers =
     py_seq h (
     py_bind (py_lift (encoded_body body)) (\<lambda>encoded.
     py_bind (py_read (\<lambda>s. case map_of (python_executables s) (U service) of None \<Rightarrow> U ''python3'' | Some e \<Rightarrow> e)) (\<lambda>executable.
     py_bind (py_lift (dumps (compact\<lparr>ensure_ascii := True\<rparr>) (str_dict headers))) (\<lambda>header_text.
     py_bind (compose w [U ''exec'', U ''-T'', U service, executable, U ''-c'', probe_script, U verb, url, encoded, header_text] 30) (\<lambda>result.
     py_seq (require_docker_result w result (U ''internal HTTP probe failed in '' @ U service))
       (py_lift (read_probe (v_depth w) (stdout result))))))))"

section \<open>What the weeks do differently\<close>

text \<open>
  What week 4 has written anew: two methods of the harness, the submission of a payment, and the service from which the
  provider's audit is read. The groups of checks that both weeks share take it as the argument \<open>k\<close>.
\<close>

record methods =
  k_rows :: "pystr \<Rightarrow> pydict list act"
  k_probe :: "string \<Rightarrow> string \<Rightarrow> pystr \<Rightarrow> pydict option \<Rightarrow> (pystr \<times> pystr) list \<Rightarrow> HttpResult act"
  k_submit :: "string \<Rightarrow> string \<Rightarrow> (pystr \<times> pystr) act"
  k_auditor :: string

end
