(* ===== verification/Week3_Setup.thy ===== *)
theory Week3_Setup
  imports Week3_Http
begin

text \<open>
  Construction of \<^verbatim>\<open>PublicChecker\<close> in \<^verbatim>\<open>task/week3/autocheck/public_check.py\<close>, the recording of checks, the trusted override
  file, and the helpers that the groups of checks share.
\<close>

section \<open>Construction\<close>

record args =
  arg_repo :: pystr
  arg_fixtures :: pystr
  arg_output :: pystr
  arg_wrapper :: pystr

definition database_secret_names :: "pystr list" where
  "database_secret_names = map U [''COURSE_POSTGRES_PASSWORD'', ''COURSE_MIGRATOR_PASSWORD'', ''COURSE_PUBLISHER_PASSWORD'',
     ''COURSE_RUNTIME_PASSWORD'', ''COURSE_WORKER_PASSWORD'', ''COURSE_OUTBOX_PASSWORD'', ''COURSE_INBOX_PASSWORD'']"

definition new_token :: "world \<Rightarrow> pystr \<Rightarrow> string \<Rightarrow> string \<Rightarrow> string list \<Rightarrow> pystr act" where
  "new_token w secret subject consumer scopes =
     ask_res (\<lambda>n. issue_token secret (U subject) (U consumer) (map U scopes) (U ''moduledev-course'') (U ''moduledev-api'') (v_time w n))"

definition stack_environment :: "int \<Rightarrow> pystr \<Rightarrow> pystr \<Rightarrow> pystr \<Rightarrow> pystr \<Rightarrow> pystr \<Rightarrow> (pystr \<times> pystr) list \<Rightarrow> (pystr \<times> pystr) list" where
  "stack_environment port jwt hmac capability audit receipt_token database_secrets =
     [(U ''COMPOSE_PARALLEL_LIMIT'', U ''2''), (U ''COURSE_GATEWAY_PORT'', str_of_int port), (U ''COURSE_TEST_PROFILE'', U ''1''),
      (U ''COURSE_JWT_ISSUER'', U ''moduledev-course''), (U ''COURSE_JWT_AUDIENCE'', U ''moduledev-api''),
      (U ''COURSE_JWT_SIGNING_KEY'', jwt), (U ''PROVIDER_URL'', U ''http://provider-simulator:8081''),
      (U ''OUTBOX_OWNER'', U ''outbox-dispatcher''), (U ''PROVIDER_CALLBACK_CAPABILITY'', capability),
      (U ''PROVIDER_CALLBACK_TOKEN'', receipt_token), (U ''PROVIDER_HMAC_SECRET'', hmac),
      (U ''RECEIPT_API_URL'', U ''http://gateway:8080/api/receipt/accept''), (U ''PROVIDER_AUDIT_TOKEN'', audit)] @ database_secrets"

definition new_checker :: "world \<Rightarrow> args \<Rightarrow> attributes act" where
  "new_checker w a =
     py_bind (ask_res (\<lambda>n. v_realpath w n (arg_repo a))) (\<lambda>repo.
     py_bind (ask_res (\<lambda>n. v_realpath w n (arg_fixtures a))) (\<lambda>fixtures.
     py_bind (ask_res (\<lambda>n. v_realpath w n (arg_output a))) (\<lambda>output.
     py_bind (ask_res (\<lambda>n. v_realpath w n (arg_wrapper a))) (\<lambda>wrapper.
     py_bind (ask_res (\<lambda>n. v_mkdtemp w n (U ''week3-check-''))) (\<lambda>directory.
     py_bind (ask (\<lambda>n. v_hex w n 4)) (\<lambda>suffix.
     py_bind (ask_res (v_free_port w)) (\<lambda>port.
     py_bind (ask (\<lambda>n. v_urlsafe w n 48)) (\<lambda>jwt.
     py_bind (ask (\<lambda>n. v_urlsafe w n 40)) (\<lambda>hmac.
     py_bind (ask (\<lambda>n. v_urlsafe w n 24)) (\<lambda>capability.
     py_bind (ask (\<lambda>n. v_urlsafe w n 24)) (\<lambda>audit.
     py_bind (py_map (\<lambda>name. py_bind (ask (\<lambda>n. v_urlsafe w n 32)) (\<lambda>v. py_return (name, v))) database_secret_names) (\<lambda>passwords.
     py_bind (new_token w jwt ''receipt-provider'' ''integration'' [''receipt:write'']) (\<lambda>receipt_token.
     py_bind (new_token w jwt ''candidate-client'' ''web'' [''payment:write'', ''payment:read'', ''workflow:read'']) (\<lambda>client_token.
     py_bind (new_token w jwt ''reviewer'' ''backoffice'' [''workflow:manual'', ''payment:read'']) (\<lambda>reviewer_token.
     py_return \<lparr>a_repo = repo, a_fixtures = fixtures, a_wrapper = wrapper, a_override = path_join directory (U ''override.yaml''),
       a_project = U ''week3-public-'' @ suffix, a_gateway_port = port, a_jwt_secret = jwt, a_hmac_secret = hmac,
       a_capability = capability, a_audit_token = audit, a_database_secrets = passwords,
       a_issuer = U ''moduledev-course'', a_audience = U ''moduledev-api'',
       a_receipt_token = receipt_token, a_client_token = client_token, a_reviewer_token = reviewer_token,
       a_environment = stack_environment port jwt hmac capability audit receipt_token passwords,
       a_sensitive = [jwt, hmac, capability, audit, receipt_token, client_token, reviewer_token] @ map snd passwords,
       a_probe_ports = [], a_autocheck_password = [], a_diagnostics_token = [], a_result_schemas = []\<rparr>)))))))))))))))"

definition initial_session :: session where
  "initial_session = \<lparr>checks = [], commands = [], harness = None, cleanup_armed = False, fixture = [], callback_base = [],
     python_executables = [], image_ids = [], forbidden_log_values = [(U ''provider-callback-message'', U ''Payment completed'')],
     isolated_images = {}, captured_logs = [], restart_callback = None, restart_manual = None, tick = 0\<rparr>"

section \<open>Recording\<close>

text \<open>The argument \<^verbatim>\<open>expected\<close>: a value or a function.\<close>

datatype expectation =
    Exactly pyval
  | Predicate "pyval \<Rightarrow> bool res"

fun meets :: "expectation \<Rightarrow> pyval \<Rightarrow> bool res" where
  "meets (Exactly v) actual = Inr (py_eq actual v)"
| "meets (Predicate p) actual = p actual"

fun shown_expectation :: "expectation \<Rightarrow> pyval" where
  "shown_expectation (Exactly v) = v"
| "shown_expectation (Predicate p) = ps ''predicate''"

definition check_item :: "world \<Rightarrow> pystr \<Rightarrow> string \<Rightarrow> bool \<Rightarrow> expectation \<Rightarrow> pyval \<Rightarrow> pydict res" where
  "check_item w name phase ok expected actual =
     res_bind (redact (a_sensitive (v_self w)) 0 (shown_expectation expected)) (\<lambda>e.
     res_bind (redact (a_sensitive (v_self w)) 0 actual) (\<lambda>a.
     Inr [(U ''name'', PStr name), (U ''phase'', ps phase), (U ''status'', ps (if ok then ''passed'' else ''failed'')),
       (U ''expected'', e), (U ''actual'', a)]))"

definition record_check :: "world \<Rightarrow> pystr \<Rightarrow> string \<Rightarrow> expectation \<Rightarrow> pyval \<Rightarrow> unit act" where
  "record_check w name phase expected actual =
     py_bind (py_lift (meets expected actual)) (\<lambda>ok.
     py_bind (py_lift (check_item w name phase ok expected actual)) (\<lambda>item.
     py_seq (py_modify (\<lambda>s. s\<lparr>checks := checks s @ [item]\<rparr>)) (
     if ok then py_return () else py_raise (ContractError (U ''public check failed: '' @ name)))))"

definition check :: "world \<Rightarrow> string \<Rightarrow> string \<Rightarrow> pyval \<Rightarrow> pyval \<Rightarrow> unit act" where
  "check w name phase expected actual = record_check w (U name) phase (Exactly expected) actual"

text \<open>\<^verbatim>\<open>self._record(name, phase, True, condition)\<close>\<close>

definition check_that :: "world \<Rightarrow> string \<Rightarrow> string \<Rightarrow> bool \<Rightarrow> unit act" where
  "check_that w name phase condition = check w name phase (PBool True) (PBool condition)"

section \<open>Files\<close>

definition is_file :: "file_system \<Rightarrow> pystr \<Rightarrow> bool" where
  "is_file fs p = (case fs_resolve fs p of Inr q \<Rightarrow> fs_file fs q \<noteq> None | Inl _ \<Rightarrow> False)"

fun find_compose_in :: "world \<Rightarrow> pystr list \<Rightarrow> pystr act" where
  "find_compose_in w [] = py_raise (ContractError (U ''candidate Compose file is missing''))"
| "find_compose_in w (name # names) =
     (let candidate = path_join (a_repo (v_self w)) name in
      py_bind (ask (\<lambda>n. is_file (v_fs w n) candidate)) (\<lambda>b. if b then py_return candidate else find_compose_in w names))"

definition find_compose :: "world \<Rightarrow> pystr act" where
  "find_compose w = find_compose_in w Week3_Constants.COMPOSE_NAMES"

section \<open>The override file\<close>

definition quoted :: "string \<Rightarrow> pystr" where
  "quoted s = map (\<lambda>c. if c = 96 then 34 else c) (U s)"

definition service_lines :: "pystr \<Rightarrow> pystr list" where
  "service_lines name = [U ''  '' @ name @ U '':'', U ''    container_name: !reset null'',
     if name = U ''gateway'' then quoted ''    ports: !override [`127.0.0.1:${COURSE_GATEWAY_PORT}:8080`]''
     else U ''    ports: !reset []'']"

definition common_application :: "(string \<times> pystr) list" where
  "common_application = [(''COURSE_JWT_ISSUER'', U ''${COURSE_JWT_ISSUER}''), (''COURSE_JWT_AUDIENCE'', U ''${COURSE_JWT_AUDIENCE}''),
     (''COURSE_JWT_SIGNING_KEY'', U ''${COURSE_JWT_SIGNING_KEY}''), (''COURSE_TEST_PROFILE'', U ''1'')]"

definition override_environment :: "pystr \<Rightarrow> (string \<times> (string \<times> pystr) list) list" where
  "override_environment base =
     [(''gateway'', common_application),
      (''api'', common_application @ [(''PROVIDER_HMAC_SECRET'', U ''${PROVIDER_HMAC_SECRET}'')]),
      (''cli'', common_application), (''worker-a'', common_application), (''worker-b'', common_application),
      (''outbox-dispatcher'', [(''PGAPPNAME'', U ''week3-public-outbox-dispatcher''), (''PGUSER'', U ''outbox_dispatcher''),
        (''PROVIDER_URL'', U ''http://provider-simulator:8081''), (''OUTBOX_OWNER'', U ''outbox-dispatcher''),
        (''COURSE_TEST_PROFILE'', U ''1'')]),
      (''receipt-adapter'', [(''PROVIDER_CALLBACK_CAPABILITY'', U ''${PROVIDER_CALLBACK_CAPABILITY}''),
        (''PROVIDER_CALLBACK_TOKEN'', U ''${PROVIDER_CALLBACK_TOKEN}''), (''PROVIDER_HMAC_SECRET'', U ''${PROVIDER_HMAC_SECRET}''),
        (''RECEIPT_API_URL'', U ''http://gateway:8080/api/receipt/accept''), (''COURSE_TEST_PROFILE'', U ''1'')]),
      (''inbox-reconciler'', [(''PGAPPNAME'', U ''week3-public-inbox-reconciler''), (''PGUSER'', U ''inbox_reconciler''),
        (''COURSE_TEST_PROFILE'', U ''1'')]),
      (''provider-simulator'', [(''CALLBACK_URL'', base @ U ''/${PROVIDER_CALLBACK_CAPABILITY}''), (''SIMULATOR_MODE'', U ''success''),
        (''CALLBACK_DELAY'', U ''200ms''), (''CALLBACK_TIMEOUT'', U ''1s''), (''CALLBACK_MAX_ATTEMPTS'', U ''5''),
        (''CALLBACK_RETRY_DELAY'', U ''200ms''), (''AUDIT_TOKEN'', U ''${PROVIDER_AUDIT_TOKEN}'')])]"

text \<open>\<^verbatim>\<open>lines.index(header)\<close> and the insertion behind it.\<close>

definition insert_environment :: "string \<times> (string \<times> pystr) list \<Rightarrow> pystr list \<Rightarrow> pystr list res" where
  "insert_environment sv lines =
     (let header = U ''  '' @ U (fst sv) @ U '':''; marker = Suc (length (takeWhile (\<lambda>l. l \<noteq> header) lines)) in
      if header \<notin> set lines then Inl (ValueError (U ''not in list''))
      else Inr (take marker lines @ [U ''    environment:''] @
        map (\<lambda>(key, v). U ''      '' @ U key @ U '': '' @ json_str True v) (snd sv) @ drop marker lines))"

text \<open>The volumes or the networks of the Compose file, renamed.\<close>

definition renamed_section :: "pystr \<Rightarrow> string \<Rightarrow> string \<Rightarrow> pyval \<Rightarrow> pystr list res" where
  "renamed_section project title kind v =
     (if \<not> truthy v then Inr []
      else res_bind (res_bind (py_iter v) py_sorted) (\<lambda>names.
        Inr (U title # concat (map (\<lambda>(index, name). [U ''  '' @ py_str name @ U '':'', U ''    external: false'',
          U ''    name: '' @ project @ U ''-'' @ U kind @ U ''-'' @ str_of_nat index]) (zip [1..<Suc (length names)] names)))))"

definition override_text :: "pystr \<Rightarrow> pystr \<Rightarrow> pydict \<Rightarrow> pystr res" where
  "override_text project base config =
     res_bind (res_fold insert_environment (override_environment base)
       (U ''services:'' # concat (map service_lines (sorted_list_of_set Week3_Constants.REQUIRED_SERVICES)))) (\<lambda>services.
     res_bind (renamed_section project ''volumes:'' ''volume'' (get_or (PDict []) config (U ''volumes''))) (\<lambda>volumes.
     res_bind (renamed_section project ''networks:'' ''network'' (get_or (PDict []) config (U ''networks''))) (\<lambda>networks.
     Inr (join_str [10] (services @ volumes @ networks) @ [10]))))"

text \<open>\<^verbatim>\<open>write_text\<close> in UTF-8\<close>

definition write_text :: "world \<Rightarrow> pystr \<Rightarrow> pystr \<Rightarrow> unit act" where
  "write_text w target contents = ask_res (\<lambda>n. res_bind (utf8_encode contents) (\<lambda>_. v_write w n target contents))"

definition write_override :: "world \<Rightarrow> pydict \<Rightarrow> unit act" where
  "write_override w config =
     py_bind (py_read callback_base) (\<lambda>base.
     py_bind (py_lift (override_text (a_project (v_self w)) base config)) (\<lambda>contents.
     write_text w (a_override (v_self w)) contents))"

section \<open>Fixtures, identifiers, rows\<close>

definition fixture_path :: "pydict \<Rightarrow> string \<Rightarrow> pystr res" where
  "fixture_path fx name = res_bind (ditem fx (U ''files'')) (\<lambda>files. res_bind (item_of files name) (\<lambda>v.
     case v of PStr relative \<Rightarrow> Inr relative | _ \<Rightarrow> Inl TypeError))"

definition payload :: "world \<Rightarrow> string \<Rightarrow> pydict act" where
  "payload w name =
     py_bind (py_read fixture) (\<lambda>fx.
     py_bind (py_lift (fixture_path fx name)) (\<lambda>relative.
     py_bind (ask_res (\<lambda>n. read_json (v_fs w n) (v_depth w) (path_join (a_fixtures (v_self w)) relative))) (\<lambda>v.
     case v of PDict d \<Rightarrow> py_return d | _ \<Rightarrow> py_raise AssertionError)))"

text \<open>The loop, by the rounds that are left; \<open>rows\<close> is the client's query.\<close>

fun poll_rounds :: "pydict list act \<Rightarrow> (pydict list \<Rightarrow> bool res) \<Rightarrow> nat \<Rightarrow> pydict list act" where
  "poll_rounds query holds 0 = py_raise (ContractError (U ''timed out waiting for candidate evidence''))"
| "poll_rounds query holds (Suc n) = py_bind query (\<lambda>rows. py_bind (py_lift (holds rows)) (\<lambda>b.
     if b then py_return rows else poll_rounds query holds n))"

definition poll_rows_for :: "methods \<Rightarrow> world \<Rightarrow> rat \<Rightarrow> pystr \<Rightarrow> (pydict list \<Rightarrow> bool res) \<Rightarrow> pydict list act" where
  "poll_rows_for k w timeout query holds =
     py_bind (ask (\<lambda>n. v_rounds w n timeout)) (\<lambda>rounds. poll_rounds (k_rows k query) holds rounds)"

definition poll_rows :: "methods \<Rightarrow> world \<Rightarrow> pystr \<Rightarrow> (pydict list \<Rightarrow> bool) \<Rightarrow> pydict list act" where
  "poll_rows k w query holds = poll_rows_for k w 60 query (\<lambda>rows. Inr (holds rows))"

definition uuid_of :: "pyval \<Rightarrow> string \<Rightarrow> pystr res" where
  "uuid_of v field = (case v of
     PStr s \<Rightarrow> (case uuid_text s of Some t \<Rightarrow> Inr t | None \<Rightarrow> Inl (ContractError (U field @ U '' is not a UUID'')))
   | _ \<Rightarrow> Inl (ContractError (U field @ U '' is missing'')))"

definition text_id :: "pyval \<Rightarrow> string \<Rightarrow> pystr res" where
  "text_id v field = (case v of
     PStr s \<Rightarrow> if s = [] \<or> 128 < length s \<or> 13 \<in> set s \<or> 10 \<in> set s then Inl (ContractError (U field @ U '' is invalid'')) else Inr s
   | _ \<Rightarrow> Inl (ContractError (U field @ U '' is invalid'')))"

definition sql_text :: "pystr \<Rightarrow> pystr res" where
  "sql_text v = res_bind (utf8_encode v) (\<lambda>bs. Inr (sql ''convert_from(decode(`'' @ hexdigest bs @ sql ''`, `hex`), `UTF8`)''))"

text \<open>\<^verbatim>\<open>rows[0].get(k)\<close>\<close>

definition first_row :: "pydict list \<Rightarrow> string \<Rightarrow> pyval res" where
  "first_row rows k = (case rows of [] \<Rightarrow> Inl IndexError | d # _ \<Rightarrow> Inr (dget_none d (U k)))"

text \<open>\<^verbatim>\<open>len(rows) == 1 and rows[0].get(k) == v and ...\<close>\<close>

definition one_row :: "pydict list \<Rightarrow> (string \<times> pyval) list \<Rightarrow> bool" where
  "one_row rows kvs = (case rows of [d] \<Rightarrow> list_all (\<lambda>(k, v). py_eq (dget_none d (U k)) v) kvs | _ \<Rightarrow> False)"

text \<open>The elements of a set in the order of its iteration.\<close>

definition in_order :: "world \<Rightarrow> pystr set \<Rightarrow> pystr list act" where
  "in_order w members = ask (\<lambda>n. let xs = v_order w n members in
     if distinct xs \<and> set xs = members then xs else sorted_list_of_set members)"

text \<open>\<^verbatim>\<open>{service: self.h.image_id(service) for service in services}\<close>\<close>

definition images_of :: "world \<Rightarrow> pystr list \<Rightarrow> (pystr \<times> pystr) list act" where
  "images_of w services =
     py_bind (py_map (\<lambda>service. py_bind (image_id w service) (\<lambda>i. py_return (service, i))) services) (\<lambda>ids. py_return (dict_of ids))"

section \<open>Operations\<close>

definition remember :: "string \<Rightarrow> pystr \<Rightarrow> unit act" where
  "remember label v = py_modify (\<lambda>s. s\<lparr>forbidden_log_values := dput (U label) v (forbidden_log_values s)\<rparr>)"

text \<open>\<^verbatim>\<open>receipt_bytes(value).decode("utf-8")\<close>\<close>

definition receipt_text :: "pyval \<Rightarrow> pystr res" where
  "receipt_text v = res_bind (receipt_bytes v) utf8_decode"

text \<open>A key with a random end.\<close>

definition fresh_key :: "world \<Rightarrow> pystr \<Rightarrow> nat \<Rightarrow> pystr act" where
  "fresh_key w prefix n = py_bind (ask (\<lambda>k. v_hex w k n)) (\<lambda>t. py_return (prefix @ t))"

definition accepted_result :: "HttpResult \<Rightarrow> pydict option \<Rightarrow> pystr \<Rightarrow> string \<Rightarrow> pystr res" where
  "accepted_result r body failure field =
     (if hr_status r \<noteq> 200 \<or> \<not> field_is body ''status'' (ps ''ok'') then Inl (ContractError failure)
      else res_bind (get_attr PNone (case body of Some d \<Rightarrow> dget_def (PDict []) d (U ''result'') | None \<Rightarrow> PNone) (U field)) (\<lambda>v. uuid_of v field))"

definition create_and_submit :: "world \<Rightarrow> string \<Rightarrow> string \<Rightarrow> (pystr \<times> pystr) act" where
  "create_and_submit w payload_name label =
     py_bind (payload w payload_name) (\<lambda>d.
     py_bind (py_lift (receipt_text (PDict d))) (\<lambda>t.
     py_seq (remember (label @ ''-request-body'') t) (
     py_bind (fresh_key w (U ''public-request-'' @ U label @ U ''-'') 4) (\<lambda>request_key.
     py_bind (call_action w ''payment'' ''request'' d (a_client_token (v_self w)) request_key) (\<lambda>request.
     py_bind (response_json w request) (\<lambda>request_json.
     py_bind (py_lift (accepted_result request request_json (U ''payment.request failed for '' @ U label) ''operationId'')) (\<lambda>operation_id.
     py_bind (fresh_key w (U ''public-submit-'' @ U label @ U ''-'') 4) (\<lambda>submit_key.
     py_bind (call_action w ''payment'' ''submit'' [(U ''operationId'', PStr operation_id)] (a_client_token (v_self w)) submit_key) (\<lambda>submit.
     py_bind (response_json w submit) (\<lambda>submit_json.
     py_bind (py_lift (accepted_result submit submit_json (U ''payment.submit failed for '' @ U label) ''processId'')) (\<lambda>process_id.
     py_return (operation_id, process_id))))))))))))"

definition operation_query :: "pystr \<Rightarrow> pystr" where
  "operation_query operation_id = U ''SELECT operation_id, operation_kind, status, process_id '' @
     U ''FROM autocheck.operations '' @ sql ''WHERE operation_id = `'' @ operation_id @ sql ''`::uuid''"

definition operation_rows :: "methods \<Rightarrow> pystr \<Rightarrow> pydict list act" where
  "operation_rows k operation_id = k_rows k (operation_query operation_id)"

definition wait_operation :: "methods \<Rightarrow> world \<Rightarrow> pystr \<Rightarrow> string \<Rightarrow> pydict list act" where
  "wait_operation k w operation_id st = poll_rows k w (operation_query operation_id) (\<lambda>rows. one_row rows [(''status'', ps st)])"

definition external_request_query :: "pystr \<Rightarrow> pystr" where
  "external_request_query operation_id = U ''SELECT external_request_id, operation_id, state, payload_hash '' @
     U ''FROM autocheck.external_requests '' @ sql ''WHERE operation_id = `'' @ operation_id @ sql ''`::uuid''"

definition external_request :: "methods \<Rightarrow> world \<Rightarrow> pystr \<Rightarrow> pydict list act" where
  "external_request k w operation_id = poll_rows k w (external_request_query operation_id) (\<lambda>rows. length rows = 1)"

definition provider_audit :: "methods \<Rightarrow> world \<Rightarrow> pystr \<Rightarrow> HttpResult act" where
  "provider_audit k w external_request_id =
     py_bind (py_lift (quote external_request_id)) (\<lambda>quoted_id.
     k_probe k (k_auditor k) ''GET'' (U ''http://provider-simulator:8081/internal/audit/'' @ quoted_id) None
       [(U ''X-Audit-Token'', a_audit_token (v_self w))])"

definition week3_methods :: "world \<Rightarrow> methods" where
  "week3_methods w = \<lparr>k_rows = psql_rows w, k_probe = internal_http w, k_submit = create_and_submit w, k_auditor = ''receipt-adapter''\<rparr>"

end
