(* ===== verification/Week3_Admission.thy ===== *)
theory Week3_Admission
  imports Week3_Setup
begin

text \<open>
  \<^verbatim>\<open>_check_admission_and_start\<close> of \<^verbatim>\<open>task/week3/autocheck/public_check.py\<close>: the Compose contract, the build and the start of the
  stack, and the Python runtimes.
\<close>

section \<open>The Compose file\<close>

definition database_secret :: "attributes \<Rightarrow> string \<Rightarrow> pystr" where
  "database_secret a name = (case map_of (a_database_secrets a) (U name) of None \<Rightarrow> [] | Some v \<Rightarrow> v)"

definition allowed :: "(string \<times> string) list \<Rightarrow> (pystr \<times> pystr) set" where
  "allowed uses = set (map (\<lambda>(service, variable). (U service, U variable)) uses)"

text \<open>Which secret may stand in which variable of which service.\<close>

definition secret_table :: "attributes \<Rightarrow> secrets" where
  "secret_table a =
     [(U ''jwt-signing-key'', a_jwt_secret a,
        (\<lambda>service. (service, U ''COURSE_JWT_SIGNING_KEY'')) ` set (Week3_Constants.CSHARP_SERVICES @ [U ''cli''])),
      (U ''provider-hmac-secret'', a_hmac_secret a,
        allowed [(''api'', ''PROVIDER_HMAC_SECRET''), (''receipt-adapter'', ''PROVIDER_HMAC_SECRET'')]),
      (U ''callback-capability'', a_capability a,
        allowed [(''receipt-adapter'', ''PROVIDER_CALLBACK_CAPABILITY''), (''provider-simulator'', ''CALLBACK_URL'')]),
      (U ''callback-token'', a_receipt_token a, allowed [(''receipt-adapter'', ''PROVIDER_CALLBACK_TOKEN'')]),
      (U ''provider-audit-token'', a_audit_token a, allowed [(''provider-simulator'', ''AUDIT_TOKEN'')]),
      (U ''postgres-password'', database_secret a ''COURSE_POSTGRES_PASSWORD'', allowed [(''postgres'', ''*'')]),
      (U ''migrator-password'', database_secret a ''COURSE_MIGRATOR_PASSWORD'', allowed [(''postgres'', ''*''), (''cli'', ''*'')]),
      (U ''publisher-password'', database_secret a ''COURSE_PUBLISHER_PASSWORD'', allowed [(''postgres'', ''*''), (''cli'', ''*'')]),
      (U ''runtime-password'', database_secret a ''COURSE_RUNTIME_PASSWORD'', allowed [(''postgres'', ''*''), (''api'', ''*'')]),
      (U ''worker-password'', database_secret a ''COURSE_WORKER_PASSWORD'',
        allowed [(''postgres'', ''*''), (''worker-a'', ''*''), (''worker-b'', ''*'')]),
      (U ''outbox-password'', database_secret a ''COURSE_OUTBOX_PASSWORD'', allowed [(''postgres'', ''*''), (''outbox-dispatcher'', ''*'')]),
      (U ''inbox-password'', database_secret a ''COURSE_INBOX_PASSWORD'', allowed [(''postgres'', ''*''), (''inbox-reconciler'', ''*'')])]"

text \<open>A configuration that is not an object has no \<^verbatim>\<open>get\<close>.\<close>

definition parse_config :: "nat \<Rightarrow> string \<Rightarrow> pystr \<Rightarrow> pydict res" where
  "parse_config depth message out = (case loads depth out of
     Inl e \<Rightarrow> Inl (if e = JSONDecodeError then ContractError (U message) else e)
   | Inr (PDict d) \<Rightarrow> Inr d
   | Inr _ \<Rightarrow> Inl AttributeError)"

definition compose_findings :: "world \<Rightarrow> nat \<Rightarrow> pydict \<Rightarrow> pystr list res" where
  "compose_findings w n config = res_append
     (compose_contract_findings (v_netloc_ok w) (fs_resolve (v_fs w n)) config (a_repo (v_self w)))
     (secret_distribution_findings config (secret_table (v_self w)))"

definition read_config :: "world \<Rightarrow> CommandResult act \<Rightarrow> string \<Rightarrow> string \<Rightarrow> pydict act" where
  "read_config w cmd invalid not_json =
     py_bind cmd (\<lambda>r.
     py_seq (require_docker_result w r (U invalid))
       (py_lift (parse_config (v_depth w) not_json (stdout r))))"

definition check_compose :: "world \<Rightarrow> pydict act" where
  "check_compose w =
     py_bind (read_config w (candidate_config w) ''candidate Compose config is invalid'' ''candidate Compose config is not JSON'') (\<lambda>config.
     py_bind (ask_res (\<lambda>n. compose_findings w n config)) (\<lambda>findings.
     py_seq (check w ''compose-contract'' ''admission'' (strs []) (strs findings)) (
     py_bind (py_lift (provider_callback_base (v_netloc_ok w) config)) (\<lambda>base.
     py_seq (py_modify (\<lambda>s. s\<lparr>callback_base := base\<rparr>)) (
     py_seq (write_override w config) (py_return config))))))"

definition check_runtime_compose :: "world \<Rightarrow> unit act" where
  "check_runtime_compose w =
     py_bind (read_config w (runtime_config w) ''effective Compose config is invalid'' ''effective Compose config is not JSON'') (\<lambda>config.
     py_bind (py_lift (runtime_compose_findings config (a_gateway_port (v_self w)))) (\<lambda>findings.
     check w ''runtime-compose-contract'' ''admission'' (strs []) (strs findings)))"

section \<open>The start\<close>

definition open_harness :: "world \<Rightarrow> unit act" where
  "open_harness w =
     py_bind (ask_res (\<lambda>n. load_fixture (v_hash w) (v_fs w n) (v_depth w) (a_fixtures (v_self w)))) (\<lambda>fx.
     py_seq (py_modify (\<lambda>s. s\<lparr>fixture := fx\<rparr>)) (
     py_bind (find_compose w) (\<lambda>compose_file.
     py_bind (ask (\<lambda>n. is_file (v_fs w n) (a_wrapper (v_self w)))) (\<lambda>present.
     if \<not> present then py_raise (EnvironmentFailure (U ''trusted Compose wrapper is missing''))
     else py_seq (py_modify (\<lambda>s. s\<lparr>harness := Some compose_file\<rparr>)) (
       py_bind (run w docker_info 15) (\<lambda>probe.
       if \<not> cmd_ok probe then py_raise (EnvironmentFailure (U ''Docker daemon is unavailable'')) else py_return ()))))))"

text \<open>\<^verbatim>\<open>str(config["services"][name]["image"])\<close>\<close>

definition configured_image :: "pydict \<Rightarrow> pystr \<Rightarrow> pystr res" where
  "configured_image config name =
     res_bind (ditem config (U ''services'')) (\<lambda>services.
     res_bind (case services of PDict d \<Rightarrow> ditem d name | _ \<Rightarrow> Inl TypeError) (\<lambda>service.
     res_bind (item_of service ''image'') (\<lambda>v. Inr (py_str v))))"

definition build_stack :: "world \<Rightarrow> pydict \<Rightarrow> pystr act" where
  "build_stack w config =
     py_bind (run w [U ''docker'', U ''pull'', Week3_Constants.PROVIDER_IMAGE] 180) (\<lambda>pull.
     if \<not> cmd_ok pull then py_raise (EnvironmentFailure (U ''provider image pull failed''))
     else py_seq (require_compose w (map U [''build'', ''--pull'', ''--no-cache'']) 1800 (U ''candidate images did not build'')) (
       py_bind (py_lift (configured_image config (hd Week3_Constants.PYTHON_SERVICES))) (\<lambda>python_image. local_image_id w python_image)))"

definition start_stack :: "world \<Rightarrow> unit act" where
  "start_stack w =
     py_seq (require_compose w (map U [''up'', ''-d'', ''--no-build'']) 600 (U ''candidate stack did not start'')) (
     py_seq (wait_gateway w) (
     py_bind (in_order w Week3_Constants.RUNNING_SERVICES) (\<lambda>services.
     py_for (\<lambda>service. py_bind (container_id w service) (\<lambda>_. py_return ())) services)))"

text \<open>A set of texts.\<close>

definition str_set :: "pystr list \<Rightarrow> pyval" where
  "str_set xs = PSet (map PStr (remdups xs))"

definition check_python_image :: "world \<Rightarrow> pystr \<Rightarrow> unit act" where
  "check_python_image w built_python_id =
     py_bind (py_map (image_id w) Week3_Constants.PYTHON_SERVICES) (\<lambda>ids.
     py_seq (check w ''python-single-image'' ''admission'' (PInt 1) (PInt (int (card (set ids)))))
       (check w ''python-locally-built-image'' ''admission'' (str_set [built_python_id]) (str_set ids)))"

definition dotted :: "int list \<Rightarrow> pystr" where
  "dotted version = join_str (U ''.'') (map str_of_int version)"

text \<open>\<^verbatim>\<open>lambda value: tuple(int(part) for part in value.split(".")) >= (3, 12, 0)\<close>\<close>

definition recent_python :: "pyval \<Rightarrow> bool res" where
  "recent_python v = (case v of
     PStr s \<Rightarrow> res_bind (res_map int_of_str (split_ch 46 s)) (\<lambda>parts. Inr ([3, 12, 0] \<le> parts))
   | _ \<Rightarrow> Inl AttributeError)"

definition check_python_version :: "world \<Rightarrow> pystr \<Rightarrow> unit act" where
  "check_python_version w service =
     py_bind (detect_python_runtime w service) (\<lambda>version.
     record_check w (U ''python-version-'' @ service) ''admission'' (Predicate recent_python) (PStr (dotted version)))"

definition observed_services :: "pystr list" where
  "observed_services = Week3_Constants.PYTHON_SERVICES @ map U [''api'', ''worker-a'', ''worker-b'']"

definition remember_images :: "world \<Rightarrow> pystr list \<Rightarrow> unit act" where
  "remember_images w services = py_bind (images_of w services) (\<lambda>ids. py_modify (\<lambda>s. s\<lparr>image_ids := ids\<rparr>))"

definition check_admission_and_start :: "world \<Rightarrow> unit act" where
  "check_admission_and_start w =
     py_seq (open_harness w) (
     py_bind (check_compose w) (\<lambda>config.
     py_seq (check_runtime_compose w) (
     py_seq (py_modify (\<lambda>s. s\<lparr>cleanup_armed := True\<rparr>)) (
     py_bind (build_stack w config) (\<lambda>built_python_id.
     py_seq (start_stack w) (
     py_seq (check_python_image w built_python_id) (
     py_seq (py_for (check_python_version w) Week3_Constants.PYTHON_SERVICES)
       (remember_images w observed_services))))))))"

end
