(* ===== verification/Week3_Database.thy ===== *)
theory Week3_Database
  imports Week3_Setup
begin

text \<open>
  \<^verbatim>\<open>_check_database_contract\<close> of \<^verbatim>\<open>task/week3/autocheck/public_check.py\<close>. Week 4 has the same text over its own tables, so the
  tables and the prefix of the names are arguments (\<open>contract\<close>).
\<close>

record contract =
  c_week :: string
  c_views :: "pystr set"
  c_columns :: "(pystr \<times> pystr set) list"
  c_type :: "pystr \<Rightarrow> pystr"

definition week3_contract :: contract where
  "week3_contract = \<lparr>c_week = ''week3'', c_views = Week3_Constants.REQUIRED_VIEWS, c_columns = Week3_Constants.REQUIRED_VIEW_COLUMNS,
     c_type = Week3_Constants.expected_column_type\<rparr>"

section \<open>Rows\<close>

text \<open>\<^verbatim>\<open>self._record(name, phase, [], rows)\<close>\<close>

definition check_no_rows :: "methods \<Rightarrow> world \<Rightarrow> string \<Rightarrow> string \<Rightarrow> pystr \<Rightarrow> unit act" where
  "check_no_rows k w name phase query = py_bind (k_rows k query) (\<lambda>rows. check w name phase (PList []) (rows_val rows))"

text \<open>\<^verbatim>\<open>v in names\<close> for a set of texts or the keys of a dictionary.\<close>

definition member_of :: "pyval \<Rightarrow> pystr set \<Rightarrow> bool res" where
  "member_of v names = (if hashable v then Inr (case v of PStr s \<Rightarrow> s \<in> names | _ \<Rightarrow> False) else Inl TypeError)"

text \<open>\<^verbatim>\<open>{row.get(k) for row in rows}\<close>, by the texts that it contains.\<close>

definition text_set :: "pydict list \<Rightarrow> string \<Rightarrow> pystr set res" where
  "text_set rows k = res_bind (res_map (\<lambda>row. let v = dget_none row (U k) in if hashable v then Inr v else Inl TypeError) rows) (\<lambda>vs.
     Inr (set (concat (map (\<lambda>v. case v of PStr s \<Rightarrow> [s] | _ \<Rightarrow> []) vs))))"

text \<open>\<^verbatim>\<open>{(row.get(k1), row.get(k2), ...) for row in rows}\<close>\<close>

definition tuple_set :: "pydict list \<Rightarrow> string list \<Rightarrow> pyval res" where
  "tuple_set rows ks = res_bind (py_set (map (\<lambda>row. PTuple (map (\<lambda>k. dget_none row (U k)) ks)) rows)) (\<lambda>vs. Inr (PSet vs))"

definition tuples :: "pyval list list \<Rightarrow> pyval" where
  "tuples vs = PSet (map PTuple vs)"

section \<open>The stable views\<close>

definition columns_query :: pystr where
  "columns_query = U ''SELECT table_name, column_name, data_type FROM information_schema.columns '' @
     sql ''WHERE table_schema = `autocheck`''"

text \<open>\<^verbatim>\<open>actual_columns.get(view, set())\<close>\<close>

definition columns_of :: "pydict list \<Rightarrow> pystr \<Rightarrow> pystr set res" where
  "columns_of rows view = text_set (filter (\<lambda>row. py_str (dget_none row (U ''table_name'')) = view) rows) ''column_name''"

definition has_columns :: "pydict list \<Rightarrow> (pystr \<times> pystr set) list \<Rightarrow> bool res" where
  "has_columns rows required =
     res_bind (text_set rows ''column_name'') (\<lambda>_.
     res_all (\<lambda>(view, columns). res_bind (columns_of rows view) (\<lambda>actual. Inr (columns \<subseteq> actual))) required)"

definition relations_query :: pystr where
  "relations_query = U ''SELECT c.relname AS table_name, c.relkind '' @ U ''FROM pg_catalog.pg_class c '' @
     U ''JOIN pg_catalog.pg_namespace n ON n.oid = c.relnamespace '' @ sql ''WHERE n.nspname = `autocheck`''"

definition required_relations :: "pystr set \<Rightarrow> pydict list \<Rightarrow> pyval res" where
  "required_relations views rows =
     res_bind (res_concat (\<lambda>row. let name = dget_none row (U ''table_name'') in
       res_bind (member_of name views) (\<lambda>b. Inr (if b then [(py_str name, dget_none row (U ''relkind''))] else []))) rows) (\<lambda>kvs.
     Inr (PDict (dict_of kvs)))"

text \<open>The columns of the contract that have another type, as \<^verbatim>\<open>view.column:type\<close>.\<close>

definition invalid_type :: "contract \<Rightarrow> pydict \<Rightarrow> pystr list res" where
  "invalid_type c row =
     (let table = dget_none row (U ''table_name''); column = dget_none row (U ''column_name''); kind = dget_none row (U ''data_type'') in
      res_bind (member_of table (dkeys (c_columns c))) (\<lambda>known.
      if \<not> known then Inr []
      else res_bind (ditem (c_columns c) (py_str table)) (\<lambda>columns.
        res_bind (member_of column columns) (\<lambda>required.
        Inr (if required \<and> \<not> py_eq kind (PStr (c_type c (py_str column)))
          then [py_str table @ U ''.'' @ py_str column @ U '':'' @ py_str kind] else [])))))"

definition invalid_types :: "contract \<Rightarrow> pydict list \<Rightarrow> pystr list res" where
  "invalid_types c rows = res_bind (res_concat (invalid_type c) rows) (\<lambda>xs. Inr (sort xs))"

definition check_views :: "methods \<Rightarrow> world \<Rightarrow> contract \<Rightarrow> unit act" where
  "check_views k w c =
     py_bind (k_rows k columns_query) (\<lambda>columns.
     py_bind (py_lift (text_set columns ''table_name'')) (\<lambda>names.
     py_seq (check_that w (c_week c @ ''-stable-views'') ''startup'' (c_views c \<subseteq> names)) (
     py_bind (py_lift (has_columns columns (c_columns c))) (\<lambda>complete.
     py_seq (check_that w (c_week c @ ''-stable-view-columns'') ''startup'' complete) (
     py_bind (k_rows k relations_query) (\<lambda>relation_kinds.
     py_bind (py_lift (required_relations (c_views c) relation_kinds)) (\<lambda>relations.
     py_bind (in_order w (c_views c)) (\<lambda>views.
     py_seq (check w (c_week c @ ''-stable-relations-are-views'') ''startup'' (PDict (map (\<lambda>view. (view, ps ''v'')) views)) relations) (
     py_bind (py_lift (invalid_types c columns)) (\<lambda>invalid.
     check w (c_week c @ ''-stable-view-types'') ''startup'' (strs []) (strs invalid)))))))))))"

section \<open>The contract and the flows\<close>

definition check_contract_info :: "methods \<Rightarrow> world \<Rightarrow> contract \<Rightarrow> unit act" where
  "check_contract_info k w c =
     py_bind (k_rows k (U ''SELECT contract_version, generated_at FROM autocheck.contract_info'')) (\<lambda>rows.
     check_that w (c_week c @ ''-contract-info'') ''startup'' (one_row rows [(''contract_version'', ps ''course-1'')] \<and>
       (case rows of d # _ \<Rightarrow> dget_none d (U ''generated_at'') \<noteq> PNone | [] \<Rightarrow> False)))"

definition flows_query :: pystr where
  "flows_query = U ''SELECT flow_name, flow_version, status, is_active '' @ U ''FROM autocheck.flow_versions '' @
     sql ''WHERE flow_name IN (`payment-processing`, `payment-review`)''"

definition is_active_flow :: "pydict \<Rightarrow> bool" where
  "is_active_flow row = (py_eq (dget_none row (U ''status'')) (ps ''PUBLISHED'') \<and> dget_none row (U ''is_active'') = PBool True)"

definition check_flows :: "methods \<Rightarrow> world \<Rightarrow> unit act" where
  "check_flows k w =
     py_bind (k_rows k flows_query) (\<lambda>flows.
     py_bind (py_lift (tuple_set (filter is_active_flow flows) [''flow_name'', ''flow_version''])) (\<lambda>active.
     check w ''payment-flows-active'' ''startup''
       (tuples [[ps ''payment-processing'', PInt 1], [ps ''payment-review'', PInt 1]]) active))"

section \<open>The roles of the Python services\<close>

definition elevated_flags :: "string list" where
  "elevated_flags = [''rolsuper'', ''rolcreaterole'', ''rolcreatedb'', ''rolreplication'', ''rolbypassrls'']"

definition roles_query :: pystr where
  "roles_query = U ''SELECT rolname, rolsuper, rolcreaterole, rolcreatedb, rolreplication, '' @
     U ''rolbypassrls FROM pg_catalog.pg_roles '' @ sql ''WHERE rolname IN (`outbox_dispatcher`, `inbox_reconciler`)''"

definition check_roles :: "methods \<Rightarrow> world \<Rightarrow> unit act" where
  "check_roles k w =
     py_bind (k_rows k roles_query) (\<lambda>roles.
     check_that w ''python-database-roles'' ''security'' (length roles = 2 \<and>
       list_all (\<lambda>row. list_all (\<lambda>flag. \<not> truthy (dget_none row (U flag))) elevated_flags) roles))"

definition memberships_query :: pystr where
  "memberships_query = U ''SELECT member.rolname AS member_role, granted.rolname AS granted_role '' @
     U ''FROM pg_catalog.pg_auth_members membership '' @
     U ''JOIN pg_catalog.pg_roles member ON member.oid = membership.member '' @
     U ''JOIN pg_catalog.pg_roles granted ON granted.oid = membership.roleid '' @
     sql ''WHERE member.rolname IN (`outbox_dispatcher`, `inbox_reconciler`)''"

definition both_roles :: pystr where
  "both_roles = sql ''FROM (VALUES (`outbox_dispatcher`), (`inbox_reconciler`)) AS r(role_name) ''"

definition table_privileges_query :: pystr where
  "table_privileges_query = U ''SELECT r.role_name, n.nspname AS schema_name, c.relname AS relation_name '' @ both_roles @
     U ''CROSS JOIN pg_catalog.pg_class c '' @ U ''JOIN pg_catalog.pg_namespace n ON n.oid = c.relnamespace '' @
     sql ''WHERE c.relkind IN (`r`, `p`, `v`, `m`, `f`) '' @
     sql ''AND n.nspname NOT IN (`pg_catalog`, `information_schema`) '' @ sql ''AND n.nspname NOT LIKE `pg_toast%` '' @
     sql ''AND (has_table_privilege(r.role_name, c.oid, `SELECT`) '' @
     sql ''OR has_table_privilege(r.role_name, c.oid, `INSERT`) '' @
     sql ''OR has_table_privilege(r.role_name, c.oid, `UPDATE`) '' @
     sql ''OR has_table_privilege(r.role_name, c.oid, `DELETE`) '' @
     sql ''OR has_table_privilege(r.role_name, c.oid, `TRUNCATE`) '' @
     sql ''OR has_table_privilege(r.role_name, c.oid, `REFERENCES`) '' @
     sql ''OR has_table_privilege(r.role_name, c.oid, `TRIGGER`))''"

definition schema_create_query :: pystr where
  "schema_create_query = U ''SELECT r.role_name, n.nspname AS schema_name '' @ both_roles @
     U ''CROSS JOIN pg_catalog.pg_namespace n '' @ sql ''WHERE n.nspname NOT LIKE `pg_%` '' @
     sql ''AND n.nspname <> `information_schema` '' @ sql ''AND has_schema_privilege(r.role_name, n.oid, `CREATE`)''"

definition database_create_query :: pystr where
  "database_create_query = U ''SELECT r.role_name '' @ both_roles @
     sql ''WHERE has_database_privilege(r.role_name, current_database(), `CREATE`)''"

definition check_privileges :: "methods \<Rightarrow> world \<Rightarrow> unit act" where
  "check_privileges k w =
     py_seq (check_no_rows k w ''python-roles-no-memberships'' ''security'' memberships_query) (
     py_seq (check_no_rows k w ''python-roles-no-table-privileges'' ''security'' table_privileges_query) (
     py_seq (check_no_rows k w ''python-roles-no-schema-create'' ''security'' schema_create_query)
       (check_no_rows k w ''python-roles-no-database-create'' ''security'' database_create_query)))"

section \<open>The functions\<close>

definition functions_query :: pystr where
  "functions_query = U ''SELECT p.proname AS function_name, '' @
     U ''pg_catalog.oidvectortypes(p.proargtypes) AS argument_types '' @ U ''FROM pg_catalog.pg_proc p '' @
     U ''JOIN pg_catalog.pg_namespace n ON n.oid = p.pronamespace '' @ sql ''WHERE n.nspname = `delivery` '' @
     sql ''AND p.proname IN (`claim_outbox`, `succeed_outbox`, `fail_outbox`, '' @ sql ''`reconcile_inbox`)''"

definition delivery_functions :: "(string \<times> string) list" where
  "delivery_functions = [(''claim_outbox'', ''text, integer''), (''succeed_outbox'', ''uuid, text, bigint, text''),
     (''fail_outbox'', ''uuid, text, bigint, text''), (''reconcile_inbox'', ''integer'')]"

definition check_functions :: "methods \<Rightarrow> world \<Rightarrow> unit act" where
  "check_functions k w =
     py_bind (k_rows k functions_query) (\<lambda>functions.
     py_bind (py_lift (tuple_set functions [''function_name'', ''argument_types''])) (\<lambda>signatures.
     check w ''python-fixed-sql-boundaries'' ''startup'' (tuples (map (\<lambda>(f, a). [ps f, ps a]) delivery_functions)) signatures))"

definition function_privileges_query :: pystr where
  "function_privileges_query = U ''SELECT r.role_name, n.nspname AS schema_name, '' @ U ''p.proname AS function_name, '' @
     U ''pg_catalog.oidvectortypes(p.proargtypes) AS argument_types '' @ both_roles @
     U ''CROSS JOIN pg_catalog.pg_proc p '' @ U ''JOIN pg_catalog.pg_namespace n ON n.oid = p.pronamespace '' @
     sql ''WHERE n.nspname NOT LIKE `pg_%` '' @ sql ''AND n.nspname <> `information_schema` '' @
     sql ''AND has_function_privilege(r.role_name, p.oid, `EXECUTE`)''"

definition function_rights :: "(string \<times> string \<times> string) list" where
  "function_rights = [(''outbox_dispatcher'', ''claim_outbox'', ''text, integer''),
     (''outbox_dispatcher'', ''succeed_outbox'', ''uuid, text, bigint, text''),
     (''outbox_dispatcher'', ''fail_outbox'', ''uuid, text, bigint, text''), (''inbox_reconciler'', ''reconcile_inbox'', ''integer'')]"

definition check_function_privileges :: "methods \<Rightarrow> world \<Rightarrow> unit act" where
  "check_function_privileges k w =
     py_bind (k_rows k function_privileges_query) (\<lambda>rows.
     py_bind (py_lift (tuple_set rows [''role_name'', ''schema_name'', ''function_name'', ''argument_types''])) (\<lambda>actual.
     check w ''python-fixed-function-privileges'' ''security''
       (tuples (map (\<lambda>(role, f, a). [ps role, ps ''delivery'', ps f, ps a]) function_rights)) actual))"

definition check_database_contract :: "methods \<Rightarrow> world \<Rightarrow> contract \<Rightarrow> unit act" where
  "check_database_contract k w c =
     py_seq (check_views k w c) (
     py_seq (check_contract_info k w c) (
     py_seq (check_flows k w) (
     py_seq (check_roles k w) (
     py_seq (check_privileges k w) (
     py_seq (check_functions k w)
       (check_function_privileges k w))))))"

end
