(* ===== verification/Week3_Provider.thy ===== *)
theory Week3_Provider
  imports Week3_Database
begin

text \<open>
  The scenarios of delivery in \<^verbatim>\<open>task/week3/autocheck/public_check.py\<close>: \<^verbatim>\<open>_check_provider_path\<close> (the outbox survives a stopped
  dispatcher, receipts without a valid signature are refused, one payment and one signed receipt) and
  \<^verbatim>\<open>_check_adapter_deduplication\<close> (callbacks of the provider are deduplicated and refused on conflict). What week 4
  changes, the services that are stopped and the messages, is an argument.
\<close>

section \<open>Shared steps\<close>

definition count_check :: "world \<Rightarrow> string \<Rightarrow> string \<Rightarrow> pydict list \<Rightarrow> unit act" where
  "count_check w name phase rows = check w name phase (PInt 1) (PInt (int (length rows)))"

definition status_check :: "world \<Rightarrow> string \<Rightarrow> string \<Rightarrow> int \<Rightarrow> HttpResult \<Rightarrow> unit act" where
  "status_check w name phase expected r = check w name phase (PInt expected) (PInt (hr_status r))"

definition external_id_of :: "pydict list \<Rightarrow> pystr res" where
  "external_id_of rows = res_bind (first_row rows ''external_request_id'') (\<lambda>v. text_id v ''externalRequestId'')"

definition up_args :: "pystr list \<Rightarrow> pystr list" where
  "up_args services = map U [''up'', ''-d'', ''--no-build''] @ services"

section \<open>Receipts that must be refused\<close>

definition outbox_query :: "pystr \<Rightarrow> pystr" where
  "outbox_query external_sql = U ''SELECT outbox_id, external_request_id, state, attempt_count '' @ U ''FROM autocheck.outbox '' @
     U ''WHERE external_request_id = '' @ external_sql"

definition undelivered :: "pydict list \<Rightarrow> bool res" where
  "undelivered rows = (case rows of
     [d] \<Rightarrow> member_of (dget_none d (U ''state'')) {U ''PENDING'', U ''RETRY_WAIT''}
   | _ \<Rightarrow> Inr False)"

definition check_undispatched :: "methods \<Rightarrow> world \<Rightarrow> pystr \<Rightarrow> pystr \<Rightarrow> unit act" where
  "check_undispatched k w external_id external_sql =
     py_bind (k_rows k (outbox_query external_sql)) (\<lambda>outbox.
     py_bind (py_lift (undelivered outbox)) (\<lambda>durable.
     py_seq (check_that w ''dispatcher-stop-durable-outbox'' ''outbox'' durable) (
     py_bind (provider_audit k w external_id) (\<lambda>audit.
     status_check w ''provider-not-called-before-dispatch'' ''outbox'' 404 audit))))"

definition unsigned_receipt :: "pystr \<Rightarrow> pystr \<Rightarrow> pydict" where
  "unsigned_receipt external_id message_id = [(U ''externalRequestId'', PStr external_id), (U ''messageId'', PStr message_id),
     (U ''occurredAt'', ps ''2026-09-04T12:00:00Z''), (U ''outcome'', ps ''COMPLETED''),
     (U ''providerPaymentId'', ps ''invalid-provider''), (U ''version'', PInt 1)]"

definition missing_receipt :: "pydict \<Rightarrow> pystr \<Rightarrow> pydict" where
  "missing_receipt receipt message_id = dput (U ''providerPaymentId'') (PStr message_id) (dput (U ''messageId'') (PStr message_id) receipt)"

text \<open>\<^verbatim>\<open>r.status == st and body is not None and body.get("code") == code\<close>\<close>

definition refused :: "HttpResult \<Rightarrow> pydict option \<Rightarrow> int \<Rightarrow> string \<Rightarrow> bool" where
  "refused r body st code = (hr_status r = st \<and> field_is body ''code'' (ps code))"

definition inbox_query :: "pystr \<Rightarrow> pystr \<Rightarrow> pystr" where
  "inbox_query a b = U ''SELECT message_id FROM autocheck.inbox '' @ U ''WHERE message_id IN ('' @ a @ U '', '' @ b @ U '')''"

definition check_signatures :: "methods \<Rightarrow> world \<Rightarrow> pystr \<Rightarrow> unit act" where
  "check_signatures k w external_id =
     py_bind (fresh_key w (U ''missing-'') 6) (\<lambda>missing_id.
     py_bind (fresh_key w (U ''invalid-'') 6) (\<lambda>message_id.
     let receipt = unsigned_receipt external_id message_id; token = a_receipt_token (v_self w) in
     py_bind (call_action w ''receipt'' ''accept'' (missing_receipt receipt missing_id) token missing_id) (\<lambda>missing.
     py_bind (response_json w missing) (\<lambda>missing_json.
     py_seq (check_that w ''missing-signature-rejected'' ''receipt'' (refused missing missing_json 403 ''receipt.signature_required'')) (
     py_bind (action_with w ''receipt'' ''accept'' receipt token (Some message_id)
       [(U ''X-Provider-Signature'', U ''v1='' @ concat (replicate 32 (U ''00'')))]) (\<lambda>invalid.
     py_bind (response_json w invalid) (\<lambda>invalid_json.
     py_seq (check_that w ''invalid-signature-rejected'' ''receipt'' (refused invalid invalid_json 401 ''signature.invalid'')) (
     py_bind (py_lift (sql_text missing_id)) (\<lambda>a.
     py_bind (py_lift (sql_text message_id)) (\<lambda>b.
     check_no_rows k w ''invalid-signatures-no-inbox'' ''receipt'' (inbox_query a b)))))))))))"

section \<open>The completed payment\<close>

definition external_ids_query :: "pystr \<Rightarrow> pystr" where
  "external_ids_query operation_id = U ''SELECT external_request_id FROM autocheck.external_requests '' @
     sql ''WHERE operation_id = `'' @ operation_id @ sql ''`::uuid''"

definition check_completion :: "methods \<Rightarrow> world \<Rightarrow> pystr \<Rightarrow> pystr \<Rightarrow> unit act" where
  "check_completion k w operation_id process_id =
     py_bind (wait_operation k w operation_id ''COMPLETED'') (\<lambda>completed.
     py_seq (check_that w ''provider-success-completes-operation'' ''outbox''
       (one_row completed [(''status'', ps ''COMPLETED''), (''process_id'', PStr process_id)])) (
     py_bind (k_rows k (external_ids_query operation_id)) (\<lambda>stable_external.
     count_check w ''one-external-request-after-completion'' ''outbox'' stable_external)))"

text \<open>\<^verbatim>\<open>isinstance(v, int) and v >= 1\<close>\<close>

definition positive_int :: "pyval \<Rightarrow> bool" where
  "positive_int v = (case v of PInt i \<Rightarrow> 1 \<le> i | PBool b \<Rightarrow> b | _ \<Rightarrow> False)"

definition single_payment :: "HttpResult \<Rightarrow> pydict option \<Rightarrow> pystr \<Rightarrow> bool" where
  "single_payment r body external_id =
     (hr_status r = 200 \<and> field_is body ''operationId'' (PStr external_id) \<and> field_is body ''idempotencyKey'' (PStr external_id) \<and>
      positive_int (json_field body ''requestCount'') \<and> field_is body ''paymentCount'' (PInt 1))"

definition evidence_query :: "pystr \<Rightarrow> pystr" where
  "evidence_query external_sql = U ''SELECT r.message_id, r.message_version, r.outcome, r.signature_valid, '' @
     U ''r.body_hash AS receipt_body_hash, i.body_hash AS inbox_body_hash, '' @ U ''i.state AS inbox_state '' @
     U ''FROM autocheck.receipts r '' @ U ''JOIN autocheck.inbox i ON i.message_id = r.message_id '' @
     U ''WHERE r.external_request_id = '' @ external_sql"

definition signed_evidence :: "pydict list \<Rightarrow> bool" where
  "signed_evidence rows =
     (one_row rows [(''message_version'', PInt 1), (''outcome'', ps ''COMPLETED''), (''inbox_state'', ps ''APPLIED'')] \<and>
      (case rows of d # _ \<Rightarrow> dget_none d (U ''signature_valid'') = PBool True \<and> truthy (dget_none d (U ''receipt_body_hash'')) \<and>
        py_eq (dget_none d (U ''receipt_body_hash'')) (dget_none d (U ''inbox_body_hash'')) | [] \<Rightarrow> False))"

definition message_id_of :: "pydict list \<Rightarrow> pyval" where
  "message_id_of rows = (case rows of [d] \<Rightarrow> dget_none d (U ''message_id'') | _ \<Rightarrow> PNone)"

definition check_payment :: "methods \<Rightarrow> world \<Rightarrow> pystr \<Rightarrow> pystr \<Rightarrow> unit act" where
  "check_payment k w external_id external_sql =
     py_bind (provider_audit k w external_id) (\<lambda>audit.
     py_bind (response_json w audit) (\<lambda>audit_json.
     py_seq (check_that w ''provider-single-payment'' ''outbox'' (single_payment audit audit_json external_id)) (
     py_bind (k_rows k (evidence_query external_sql)) (\<lambda>evidence.
     py_seq (check_that w ''signed-receipt-evidence'' ''receipt'' (signed_evidence evidence)) (
     py_bind (py_lift (text_id (json_field audit_json ''providerPaymentId'') ''providerPaymentId'')) (\<lambda>provider_payment_id.
     py_bind (py_lift (text_id (message_id_of evidence) ''messageId'')) (\<lambda>receipt_message_id.
     check w ''provider-receipt-identity'' ''receipt'' (PStr provider_payment_id) (PStr receipt_message_id))))))))"

definition check_events_action :: "world \<Rightarrow> pystr \<Rightarrow> unit act" where
  "check_events_action w operation_id =
     py_bind (fresh_key w (U ''public-events-'') 5) (\<lambda>key.
     py_bind (call_action w ''operation'' ''events'' [(U ''operationId'', PStr operation_id)] (a_client_token (v_self w)) key) (\<lambda>events.
     status_check w ''operation-events-action'' ''receipt'' 200 events))"

text \<open>\<open>services\<close> are the dispatchers, \<open>stopping\<close> and \<open>starting\<close> the messages.\<close>

definition provider_path :: "methods \<Rightarrow> world \<Rightarrow> string list \<Rightarrow> string \<Rightarrow> string \<Rightarrow> (pystr \<times> pystr) act" where
  "provider_path k w services stopping starting =
     py_seq (require_compose w (U ''stop'' # map U services) 30 (U stopping)) (
     py_bind (k_submit k ''providerRequest'' ''provider'') (\<lambda>(operation_id, process_id).
     py_bind (external_request k w operation_id) (\<lambda>external_rows.
     py_seq (count_check w ''one-external-request'' ''outbox'' external_rows) (
     py_bind (py_lift (external_id_of external_rows)) (\<lambda>external_id.
     py_bind (py_lift (sql_text external_id)) (\<lambda>external_sql.
     py_seq (check_undispatched k w external_id external_sql) (
     py_seq (check_signatures k w external_id) (
     py_seq (require_compose w (up_args (map U services)) 30 (U starting)) (
     py_seq (check_completion k w operation_id process_id) (
     py_seq (check_payment k w external_id external_sql) (
     py_seq (check_events_action w operation_id) (
     py_return (operation_id, process_id)))))))))))))"

definition check_provider_path :: "methods \<Rightarrow> world \<Rightarrow> (pystr \<times> pystr) act" where
  "check_provider_path k w = provider_path k w [''outbox-dispatcher''] ''cannot stop outbox-dispatcher'' ''cannot start outbox-dispatcher''"

section \<open>Callbacks\<close>

definition json_headers :: "(pystr \<times> pystr) list" where
  "json_headers = [(U ''Content-Type'', U ''application/json'')]"

definition post_callback :: "methods \<Rightarrow> pystr \<Rightarrow> pydict \<Rightarrow> HttpResult act" where
  "post_callback k url body = k_probe k ''receipt-adapter'' ''POST'' url (Some body) json_headers"

definition legacy_callback :: "pystr \<Rightarrow> pystr \<Rightarrow> string \<Rightarrow> string \<Rightarrow> pydict" where
  "legacy_callback payment_id external_id message occurred_at = [(U ''providerPaymentId'', PStr payment_id), (U ''operationId'', PStr external_id),
     (U ''result'', ps ''REJECTED''), (U ''message'', ps message), (U ''occurredAt'', ps occurred_at)]"

definition message_query :: "pystr \<Rightarrow> pystr" where
  "message_query message_sql = U ''SELECT message_id FROM autocheck.inbox '' @ U ''WHERE message_id = '' @ message_sql"

definition check_wrong_capability :: "methods \<Rightarrow> world \<Rightarrow> pydict \<Rightarrow> unit act" where
  "check_wrong_capability k w legacy =
     py_bind (fresh_key w (U ''wrong-capability-'') 5) (\<lambda>wrong_id.
     py_bind (py_read callback_base) (\<lambda>base.
     py_bind (post_callback k (base @ U ''/wrong'') (dput (U ''providerPaymentId'') (PStr wrong_id) legacy)) (\<lambda>wrong.
     py_seq (status_check w ''wrong-capability-rejected'' ''receipt'' 404 wrong) (
     py_bind (py_lift (sql_text wrong_id)) (\<lambda>wrong_sql.
     check_no_rows k w ''wrong-capability-no-inbox'' ''receipt'' (message_query wrong_sql))))))"

definition successful :: "int \<Rightarrow> bool" where
  "successful st = (200 \<le> st \<and> st < 300)"

definition opt_dict :: "pydict option \<Rightarrow> pyval" where
  "opt_dict x = (case x of None \<Rightarrow> PNone | Some d \<Rightarrow> PDict d)"

text \<open>The first callback with the JSON of its answer; a second one and a conflicting one have been sent too.\<close>

definition check_callbacks :: "methods \<Rightarrow> world \<Rightarrow> pystr \<Rightarrow> pydict \<Rightarrow> (HttpResult \<times> pydict option \<times> HttpResult) act" where
  "check_callbacks k w url legacy =
     py_bind (post_callback k url legacy) (\<lambda>first.
     py_bind (post_callback k url legacy) (\<lambda>duplicate.
     py_seq (remember ''adapter-conflict-message'' (U ''Conflicting completion'')) (
     py_bind (post_callback k url (dput (U ''message'') (ps ''Conflicting completion'') (dput (U ''result'') (ps ''COMPLETED'') legacy))) (\<lambda>conflict.
     py_bind (response_json w first) (\<lambda>first_json.
     py_bind (response_json w duplicate) (\<lambda>duplicate_json.
     py_seq (check_that w ''adapter-first-and-duplicate'' ''receipt'' (successful (hr_status first) \<and> hr_status duplicate = hr_status first \<and>
         first_json \<noteq> None \<and> same_action_result (opt_dict first_json) (opt_dict duplicate_json))) (
     py_return (first, first_json, conflict))))))))"

definition check_conflict :: "world \<Rightarrow> HttpResult \<Rightarrow> unit act" where
  "check_conflict w conflict = py_bind (response_json w conflict) (\<lambda>conflict_json.
     check_that w ''adapter-conflicting-callback'' ''receipt'' (refused conflict conflict_json 409 ''idempotency.conflict''))"

definition inbox_receipt_query :: "pystr \<Rightarrow> pystr" where
  "inbox_receipt_query message_sql = U ''SELECT i.message_id, i.state, i.body_hash AS inbox_body_hash, '' @
     U ''r.outcome, r.external_request_id, r.message_version, '' @ U ''r.signature_valid, r.body_hash AS receipt_body_hash '' @
     U ''FROM autocheck.inbox i JOIN autocheck.receipts r USING (message_id) '' @ U ''WHERE i.message_id = '' @ message_sql"

text \<open>\<^verbatim>\<open>hashlib.sha256(receipt_bytes(normalized_receipt(legacy))).hexdigest()\<close>\<close>

definition body_hash :: "world \<Rightarrow> pydict \<Rightarrow> pystr res" where
  "body_hash w legacy = res_bind (normalized_receipt legacy) (\<lambda>r. res_bind (receipt_bytes r) (\<lambda>bs. Inr (hexdigest (v_hash w bs))))"

definition exact_body :: "pydict list \<Rightarrow> pystr \<Rightarrow> bool" where
  "exact_body rows expected =
     (one_row rows [(''message_version'', PInt 1), (''receipt_body_hash'', PStr expected), (''inbox_body_hash'', PStr expected)] \<and>
      (case rows of d # _ \<Rightarrow> dget_none d (U ''signature_valid'') = PBool True | [] \<Rightarrow> False))"

definition check_rejection :: "methods \<Rightarrow> world \<Rightarrow> pystr \<Rightarrow> pystr \<Rightarrow> pystr \<Rightarrow> pydict \<Rightarrow> unit act" where
  "check_rejection k w operation_id process_id message_id legacy =
     py_bind (wait_operation k w operation_id ''REJECTED'') (\<lambda>rejected.
     py_seq (check_that w ''adapter-rejected-branch'' ''receipt''
       (one_row rejected [(''status'', ps ''REJECTED''), (''process_id'', PStr process_id)])) (
     py_bind (py_lift (sql_text message_id)) (\<lambda>message_sql.
     py_bind (k_rows k (inbox_receipt_query message_sql)) (\<lambda>rows.
     py_bind (py_lift (body_hash w legacy)) (\<lambda>expected.
     py_seq (check_that w ''adapter-one-inbox-receipt'' ''receipt''
       (one_row rows [(''state'', ps ''APPLIED''), (''outcome'', ps ''REJECTED'')]))
       (check_that w ''adapter-exact-signed-body'' ''receipt'' (exact_body rows expected)))))))"

text \<open>A payment after the dispatcher has been started again; the rejected one must not have been delivered.\<close>

definition check_sentinel :: "methods \<Rightarrow> world \<Rightarrow> pystr \<Rightarrow> unit act" where
  "check_sentinel k w external_id =
     py_bind (k_submit k ''providerRequest'' ''dispatcher-sentinel'') (\<lambda>(sentinel_operation, _).
     py_seq (wait_operation k w sentinel_operation ''COMPLETED'') (
     py_bind (external_request k w sentinel_operation) (\<lambda>sentinel_external.
     py_bind (py_lift (external_id_of sentinel_external)) (\<lambda>sentinel_id.
     py_bind (provider_audit k w sentinel_id) (\<lambda>sentinel_audit.
     py_seq (status_check w ''dispatcher-resumed-after-confirmation'' ''receipt'' 200 sentinel_audit) (
     py_bind (provider_audit k w external_id) (\<lambda>audit.
     status_check w ''confirmed-outbox-not-redelivered'' ''receipt'' 404 audit)))))))"

text \<open>\<open>keep\<close> is what week 4 does with the first callback and its answer.\<close>

definition adapter_deduplication ::
    "methods \<Rightarrow> world \<Rightarrow> string list \<Rightarrow> string \<Rightarrow> string \<Rightarrow> (pystr \<Rightarrow> pydict \<Rightarrow> HttpResult \<Rightarrow> pydict option \<Rightarrow> unit act) \<Rightarrow> (pystr \<times> pystr) act" where
  "adapter_deduplication k w services stopping starting keep =
     py_seq (require_compose w (U ''stop'' # map U services) 30 (U stopping)) (
     py_bind (k_submit k ''adapterRequest'' ''adapter'') (\<lambda>(operation_id, process_id).
     py_bind (external_request k w operation_id) (\<lambda>external_rows.
     py_seq (count_check w ''one-external-request-adapter'' ''receipt'' external_rows) (
     py_bind (py_lift (external_id_of external_rows)) (\<lambda>external_id.
     py_bind (fresh_key w (U ''public-provider-'') 5) (\<lambda>message_id.
     let legacy = legacy_callback message_id external_id ''Public deterministic rejection'' ''2026-09-04T12:00:00.123Z'' in
     py_seq (remember ''adapter-callback-message'' (U ''Public deterministic rejection'')) (
     py_bind (py_lift (receipt_text (PDict legacy))) (\<lambda>body.
     py_seq (remember ''adapter-callback-body'' body) (
     py_bind (py_read (\<lambda>s. callback_base s @ U ''/'' @ a_capability (v_self w))) (\<lambda>callback_url.
     py_seq (check_wrong_capability k w legacy) (
     py_bind (check_callbacks k w callback_url legacy) (\<lambda>(first, first_json, conflict).
     py_seq (keep callback_url legacy first first_json) (
     py_seq (check_conflict w conflict) (
     py_seq (check_rejection k w operation_id process_id message_id legacy) (
     py_seq (require_compose w (up_args (map U services)) 30 (U starting)) (
     py_seq (check_sentinel k w external_id) (
     py_return (operation_id, process_id))))))))))))))))))"

definition check_adapter_deduplication :: "methods \<Rightarrow> world \<Rightarrow> (pystr \<times> pystr) act" where
  "check_adapter_deduplication k w = adapter_deduplication k w [''outbox-dispatcher'']
     ''cannot stop outbox-dispatcher for adapter scenario'' ''cannot restart outbox-dispatcher after adapter scenario''
     (\<lambda>_ _ _ _. py_return ())"

end
