(* ===== verification/Week3_Review.thy ===== *)
theory Week3_Review
  imports Week3_Provider
begin

text \<open>
  \<^verbatim>\<open>_check_review\<close> (the limit rule, the manual decision, its repetition and the conflict) and \<^verbatim>\<open>_check_recreate_and_hygiene\<close>
  (recovery after the Python services are recreated, and what the logs may not contain) of
  \<^verbatim>\<open>task/week3/autocheck/public_check.py\<close>.
\<close>

section \<open>The review\<close>

definition decision_query :: "pystr \<Rightarrow> pystr" where
  "decision_query process_id = U ''SELECT source, outcome, rule_version FROM autocheck.decisions '' @
     sql ''WHERE process_id = `'' @ process_id @ sql ''`::uuid''"

definition check_limit_rule :: "methods \<Rightarrow> world \<Rightarrow> unit act" where
  "check_limit_rule k w =
     py_bind (k_submit k ''reviewAutoRequest'' ''review-auto'') (\<lambda>(auto_operation, auto_process).
     py_bind (wait_operation k w auto_operation ''COMPLETED'') (\<lambda>rows.
     py_bind (k_rows k (decision_query auto_process)) (\<lambda>decision.
     check_that w ''review-limit-rule'' ''review'' (one_row rows [(''status'', ps ''COMPLETED'')] \<and>
       one_row decision [(''source'', ps ''LIMIT_RULE''), (''rule_version'', ps ''course-limit-v1''), (''outcome'', ps ''APPROVED'')]))))"

definition process_query :: "pystr \<Rightarrow> pystr" where
  "process_query process_id = U ''SELECT process_id, state, current_step_key FROM autocheck.processes '' @
     sql ''WHERE process_id = `'' @ process_id @ sql ''`::uuid''"

definition steps_query :: "pystr \<Rightarrow> pystr" where
  "steps_query process_id = U ''SELECT step_instance_id, step_type, state FROM autocheck.steps '' @
     sql ''WHERE process_id = `'' @ process_id @ sql ''`::uuid '' @ sql ''AND step_type = `MANUAL` AND state = `WAITING`''"

definition waiting_step :: "pydict list \<Rightarrow> pystr res" where
  "waiting_step steps = (case steps of
     [d] \<Rightarrow> uuid_of (dget_none d (U ''step_instance_id'')) ''stepInstanceId''
   | _ \<Rightarrow> Inl (ContractError (U ''manual step projection is invalid'')))"

text \<open>The operation that waits for a manual decision, its process and its step.\<close>

definition await_manual :: "methods \<Rightarrow> world \<Rightarrow> (pystr \<times> pystr \<times> pystr) act" where
  "await_manual k w =
     py_bind (k_submit k ''reviewManualRequest'' ''review-manual'') (\<lambda>(manual_operation, manual_process).
     py_bind (poll_rows k w (process_query manual_process) (\<lambda>rows. one_row rows [(''state'', ps ''WAITING_MANUAL'')])) (\<lambda>process_rows.
     py_seq (check_that w ''review-waits-manual'' ''review'' (one_row process_rows [(''state'', ps ''WAITING_MANUAL'')])) (
     py_bind (k_rows k (steps_query manual_process)) (\<lambda>steps.
     py_bind (py_lift (waiting_step steps)) (\<lambda>step_id.
     py_return (manual_operation, manual_process, step_id))))))"

definition manual_payload :: "pystr \<Rightarrow> pystr \<Rightarrow> pydict" where
  "manual_payload manual_process step_id = [(U ''processId'', PStr manual_process), (U ''stepInstanceId'', PStr step_id),
     (U ''decision'', ps ''APPROVED''), (U ''reason'', ps ''Public checker approval'')]"

definition decide :: "world \<Rightarrow> pydict \<Rightarrow> pystr \<Rightarrow> HttpResult act" where
  "decide w d key = call_action w ''workflow'' ''manual'' d (a_reviewer_token (v_self w)) key"

text \<open>\<open>keep\<close> is what week 4 does with the decision and its answer.\<close>

definition check_decisions :: "world \<Rightarrow> pydict \<Rightarrow> (pydict \<Rightarrow> pystr \<Rightarrow> HttpResult \<Rightarrow> pydict option \<Rightarrow> unit act) \<Rightarrow> unit act" where
  "check_decisions w d keep =
     py_bind (fresh_key w (U ''public-manual-'') 5) (\<lambda>key.
     py_bind (decide w d key) (\<lambda>accepted.
     py_bind (decide w d key) (\<lambda>repeated.
     py_bind (decide w (dput (U ''decision'') (ps ''REJECTED'') d) key) (\<lambda>conflict.
     py_bind (response_json w accepted) (\<lambda>accepted_json.
     py_bind (response_json w repeated) (\<lambda>repeated_json.
     py_seq (check_that w ''manual-identical-repeat'' ''review'' (hr_status accepted = 200 \<and> hr_status repeated = 200 \<and>
         accepted_json \<noteq> None \<and> same_action_result (opt_dict accepted_json) (opt_dict repeated_json))) (
     py_seq (keep d key accepted accepted_json)
       (status_check w ''manual-changed-repeat-conflict'' ''review'' 409 conflict))))))))"

definition decisions_query :: "pystr \<Rightarrow> pystr" where
  "decisions_query process_id = U ''SELECT source, principal, outcome, reason_hash FROM autocheck.decisions '' @
     sql ''WHERE process_id = `'' @ process_id @ sql ''`::uuid''"

definition audited_decision :: "pydict list \<Rightarrow> bool" where
  "audited_decision rows =
     (one_row rows [(''source'', ps ''MANUAL''), (''principal'', ps ''reviewer''), (''outcome'', ps ''APPROVED'')] \<and>
      (case rows of d # _ \<Rightarrow> truthy (dget_none d (U ''reason_hash'')) | [] \<Rightarrow> False))"

definition check_audit :: "methods \<Rightarrow> world \<Rightarrow> pystr \<Rightarrow> pystr \<Rightarrow> unit act" where
  "check_audit k w manual_operation manual_process =
     py_bind (wait_operation k w manual_operation ''COMPLETED'') (\<lambda>completed.
     py_bind (k_rows k (decisions_query manual_process)) (\<lambda>decisions.
     check_that w ''manual-audited-decision'' ''review''
       (one_row completed [(''status'', ps ''COMPLETED'')] \<and> audited_decision decisions)))"

definition review :: "methods \<Rightarrow> world \<Rightarrow> (pydict \<Rightarrow> pystr \<Rightarrow> HttpResult \<Rightarrow> pydict option \<Rightarrow> unit act) \<Rightarrow> (pystr \<times> pystr) act" where
  "review k w keep =
     py_seq (check_limit_rule k w) (
     py_bind (await_manual k w) (\<lambda>(manual_operation, manual_process, step_id).
     py_seq (remember ''manual-reason'' (U ''Public checker approval'')) (
     py_seq (check_decisions w (manual_payload manual_process step_id) keep) (
     py_seq (check_audit k w manual_operation manual_process) (
     py_return (manual_operation, manual_process))))))"

definition check_review :: "methods \<Rightarrow> world \<Rightarrow> (pystr \<times> pystr) act" where
  "check_review k w = review k w (\<lambda>_ _ _ _. py_return ())"

section \<open>Recovery\<close>

definition stop_for_recovery :: "world \<Rightarrow> string \<Rightarrow> unit act" where
  "stop_for_recovery w service =
     require_compose w [U ''stop'', U service] 30 (U ''cannot stop '' @ U service @ U '' for recovery scenario'')"

definition inbox_state_query :: "pystr \<Rightarrow> pystr" where
  "inbox_state_query message_sql = U ''SELECT state FROM autocheck.inbox '' @ U ''WHERE message_id = '' @ message_sql"

definition await_inbox :: "methods \<Rightarrow> world \<Rightarrow> pystr \<Rightarrow> string \<Rightarrow> pydict list act" where
  "await_inbox k w message_sql st = poll_rows k w (inbox_state_query message_sql) (\<lambda>rows. one_row rows [(''state'', ps st)])"

text \<open>A receipt that arrives while the reconcilers and the dispatchers are stopped: its operation and its message.\<close>

definition pending_receipt :: "methods \<Rightarrow> world \<Rightarrow> (pystr \<times> pystr) act" where
  "pending_receipt k w =
     py_bind (k_submit k ''adapterRequest'' ''inbox-recovery'') (\<lambda>(recovery_operation, _).
     py_bind (external_request k w recovery_operation) (\<lambda>recovery_external.
     py_bind (py_lift (external_id_of recovery_external)) (\<lambda>external_id.
     py_bind (fresh_key w (U ''recovery-'') 6) (\<lambda>message_id.
     py_seq (remember ''recovery-callback-message'' (U ''Recovery callback'')) (
     py_bind (py_read (\<lambda>s. callback_base s @ U ''/'' @ a_capability (v_self w))) (\<lambda>callback_url.
     py_bind (post_callback k callback_url (legacy_callback message_id external_id ''Recovery callback'' ''2026-09-04T12:00:00.456Z'')) (\<lambda>accepted.
     py_seq (check_that w ''recovery-receipt-accepted'' ''recovery'' (successful (hr_status accepted))) (
     py_bind (py_lift (sql_text message_id)) (\<lambda>message_sql.
     py_bind (await_inbox k w message_sql ''RECEIVED'') (\<lambda>received.
     py_seq (check_that w ''recovery-inbox-pending-before-recreate'' ''recovery'' (one_row received [(''state'', ps ''RECEIVED'')])) (
     py_return (recovery_operation, message_id))))))))))))"

definition known_images :: "(pystr \<times> pystr) list \<Rightarrow> pystr list \<Rightarrow> (pystr \<times> pystr) list res" where
  "known_images ids services = res_map (\<lambda>service. res_bind (ditem ids service) (\<lambda>i. Inr (service, i))) services"

definition check_images :: "world \<Rightarrow> string \<Rightarrow> string \<Rightarrow> pystr list \<Rightarrow> unit act" where
  "check_images w name phase services =
     py_bind (images_of w services) (\<lambda>after.
     py_bind (py_bind (py_read image_ids) (\<lambda>ids. py_lift (known_images ids services))) (\<lambda>before.
     check w name phase (str_dict before) (str_dict after)))"

definition recreate :: "world \<Rightarrow> pystr list \<Rightarrow> unit act" where
  "recreate w services =
     py_seq (require_compose w (map U [''up'', ''-d'', ''--no-build'', ''--force-recreate''] @ services) 60 (U ''Python services did not recreate''))
       (check_images w ''python-image-stable-after-recreate'' ''recovery'' services)"

definition check_recovered :: "methods \<Rightarrow> world \<Rightarrow> pystr \<Rightarrow> pystr \<Rightarrow> unit act" where
  "check_recovered k w recovery_operation message_id =
     py_bind (py_lift (sql_text message_id)) (\<lambda>message_sql.
     py_bind (await_inbox k w message_sql ''APPLIED'') (\<lambda>applied.
     py_bind (wait_operation k w recovery_operation ''REJECTED'') (\<lambda>recovered.
     check_that w ''reconciler-continues-after-recreate'' ''recovery''
       (one_row applied [(''state'', ps ''APPLIED'')] \<and> one_row recovered [(''status'', ps ''REJECTED'')]))))"

definition check_persists :: "methods \<Rightarrow> world \<Rightarrow> pystr \<Rightarrow> unit act" where
  "check_persists k w operation_id =
     py_bind (operation_rows k operation_id) (\<lambda>rows.
     record_check w (U ''operation-persists-'' @ take 8 operation_id) ''recovery'' (Exactly (PInt 1)) (PInt (int (length rows))))"

section \<open>The logs\<close>

definition candidate_logs :: "world \<Rightarrow> pystr act" where
  "candidate_logs w =
     py_bind (compose w (map U [''logs'', ''--no-color'']) 30) (\<lambda>logs.
     py_seq (require_docker_result w logs (U ''cannot inspect candidate logs''))
       (py_return (lines_of (stdout logs) (stderr logs))))"

definition leaked :: "pystr list \<Rightarrow> pystr \<Rightarrow> pystr list" where
  "leaked secrets out = filter (\<lambda>secret. secret \<noteq> [] \<and> contains secret out) secrets"

text \<open>Whether a text stands in the output, plain or in base64.\<close>

definition exposed :: "pystr \<Rightarrow> pystr \<Rightarrow> bool res" where
  "exposed v out = (if v = [] then Inr False
     else res_or (Inr (contains v out)) (res_bind (utf8_encode v) (\<lambda>bs. Inr (contains (b64encode bs) out))))"

definition leaked_messages :: "(pystr \<times> pystr) list \<Rightarrow> pystr \<Rightarrow> pystr list res" where
  "leaked_messages values out =
     res_bind (res_concat (\<lambda>(label, v). res_bind (exposed v out) (\<lambda>b. Inr (if b then [label] else []))) values) (\<lambda>labels. Inr (sort labels))"

definition check_logs :: "world \<Rightarrow> pystr \<Rightarrow> unit act" where
  "check_logs w out =
     py_seq (check w ''synthetic-secrets-not-in-logs'' ''security'' (strs []) (strs (leaked (a_sensitive (v_self w)) out))) (
     py_bind (py_read forbidden_log_values) (\<lambda>values.
     py_bind (py_lift (leaked_messages values out)) (\<lambda>labels.
     check w ''full-messages-not-in-logs'' ''security'' (strs []) (strs labels))))"

definition csharp_images :: "pystr list" where
  "csharp_images = map U [''api'', ''worker-a'', ''worker-b'']"

text \<open>\<open>services\<close> are those that are stopped; \<open>logs\<close> reads the output at the end, \<open>before\<close> is what week 4 does first.\<close>

definition recreate_and_hygiene ::
    "methods \<Rightarrow> world \<Rightarrow> string list \<Rightarrow> pystr list \<Rightarrow> unit act \<Rightarrow> pystr act \<Rightarrow> pystr list \<Rightarrow> unit act" where
  "recreate_and_hygiene k w services python_services before logs operation_ids =
     py_seq (py_for (stop_for_recovery w) services) (
     py_bind (pending_receipt k w) (\<lambda>(recovery_operation, message_id).
     py_seq before (
     py_seq (recreate w python_services) (
     py_seq (check_recovered k w recovery_operation message_id) (
     py_seq (py_for (check_persists k w) (operation_ids @ [recovery_operation])) (
     py_bind logs (\<lambda>out.
     py_seq (check_logs w out)
       (check_images w ''csharp-images-not-recreated-with-python'' ''security'' csharp_images))))))))"

definition check_recreate_and_hygiene :: "methods \<Rightarrow> world \<Rightarrow> pystr list \<Rightarrow> unit act" where
  "check_recreate_and_hygiene k w operation_ids = recreate_and_hygiene k w [''inbox-reconciler'', ''outbox-dispatcher'']
     Week3_Constants.PYTHON_SERVICES (py_return ()) (candidate_logs w) operation_ids"

end
