(* ===== verification/Week3_Run.thy ===== *)
theory Week3_Run
  imports Week3_Admission Week3_Review
begin

text \<open>
  \<^verbatim>\<open>execute\<close>, \<^verbatim>\<open>cleanup\<close>, \<^verbatim>\<open>_write_report\<close> and \<^verbatim>\<open>main\<close> of \<^verbatim>\<open>task/week3/autocheck/public_check.py\<close>. Week 4 has the text of \<^verbatim>\<open>main\<close>
  for its own checker, so the checker is an argument, the record \<open>program\<close>.
\<close>

section \<open>The run\<close>

definition execute :: "world \<Rightarrow> unit act" where
  "execute w = (let k = week3_methods w in
     py_seq (check_admission_and_start w) (
     py_seq (check_database_contract k w week3_contract) (
     py_bind (check_provider_path k w) (\<lambda>(provider_operation, _).
     py_bind (check_adapter_deduplication k w) (\<lambda>(adapter_operation, _).
     py_bind (check_review k w) (\<lambda>(manual_operation, _).
     check_recreate_and_hygiene k w [provider_operation, adapter_operation, manual_operation]))))))"

definition cleanup :: "world \<Rightarrow> unit act" where
  "cleanup w = py_bind py_get (\<lambda>s.
     if \<not> cleanup_armed s \<or> v_keep_stack w \<or> harness s = None then py_return ()
     else py_bind (compose w (map U [''down'', ''--volumes'', ''--remove-orphans'', ''--rmi'', ''local'']) 600) (\<lambda>result.
       if cmd_ok result then py_return () else py_raise (EnvironmentFailure (U ''isolated Docker cleanup failed''))))"

section \<open>The report file\<close>

text \<open>
  What \<^verbatim>\<open>_write_report\<close> meets: paths as components, a store that writes the temporary file and renames it, and the text of
  the exception it may raise.
\<close>

record place =
  pl_resolve :: "pystr \<Rightarrow> pystr list res"
  pl_is_dir :: "pystr list \<Rightarrow> bool"
  pl_symlink :: "pystr \<Rightarrow> bool"
  pl_suffix :: pystr
  pl_write :: "pystr \<Rightarrow> pybytes \<Rightarrow> unit res"
  pl_replace :: "pystr \<Rightarrow> pystr \<Rightarrow> unit res"
  pl_describe :: "pyexn \<Rightarrow> pystr"

text \<open>\<^verbatim>\<open>path.parent\<close> and \<^verbatim>\<open>target.with_name(name)\<close>\<close>

definition parent_path :: "pystr \<Rightarrow> pystr" where
  "parent_path p = (let parts = butlast (path_parts p); body = join_str (U ''/'') parts in
     if is_absolute p then U ''/'' @ body else if parts = [] then U ''.'' else body)"

definition validated_report_path :: "place \<Rightarrow> pystr \<Rightarrow> pystr res" where
  "validated_report_path pl path =
     res_bind (pl_resolve pl (parent_path path)) (\<lambda>parent.
     res_bind (ensure (pl_is_dir pl parent) (EnvironmentFailure (U ''report parent directory does not exist''))) (\<lambda>_.
     res_bind (ensure (\<not> pl_symlink pl path) (EnvironmentFailure (U ''report path must not be a symlink''))) (\<lambda>_.
     res_bind (pl_resolve pl path) (\<lambda>resolved.
     res_bind (ensure (is_relative_to resolved parent) (EnvironmentFailure (U ''report path escapes its parent''))) (\<lambda>_.
       Inr path)))))"

definition temporary_path :: "pystr \<Rightarrow> pystr \<Rightarrow> pystr" where
  "temporary_path suffix target = path_join (parent_path target) (U ''.'' @ path_name target @ U ''.'' @ suffix @ U ''.tmp'')"

definition write_report :: "place \<Rightarrow> pystr \<Rightarrow> pyval \<Rightarrow> unit res" where
  "write_report pl path report =
     res_bind (validated_report_path pl path) (\<lambda>target.
     res_bind (dumps_indent False 0 report) (\<lambda>rendered.
     res_bind (utf8_encode (rendered @ [10])) (\<lambda>contents.
     res_bind (pl_write pl (temporary_path (pl_suffix pl) target) contents) (\<lambda>_.
     pl_replace pl (temporary_path (pl_suffix pl) target) target))))"

section \<open>The exit code\<close>

record program =
  pr_week :: string
  pr_construct :: "world \<Rightarrow> args \<Rightarrow> attributes act"
  pr_execute :: "world \<Rightarrow> unit act"
  pr_cleanup :: "world \<Rightarrow> unit act"
  pr_report :: "pystr \<Rightarrow> pystr \<Rightarrow> pystr \<Rightarrow> pydict list \<Rightarrow> pydict list \<Rightarrow> pyval res"

definition week3_program :: program where
  "week3_program = \<lparr>pr_week = ''week-3'', pr_construct = new_checker, pr_execute = execute, pr_cleanup = cleanup,
     pr_report = Week3_Checker.build_report\<rparr>"

text \<open>Status, exit code and message.\<close>

record verdict =
  vd_status :: string
  vd_code :: int
  vd_message :: pystr

definition no_message :: verdict where
  "no_message = \<lparr>vd_status = ''passed'', vd_code = 0, vd_message = []\<rparr>"

text \<open>The clauses of the \<^verbatim>\<open>try\<close> statement; \<open>class_name\<close> is the name of the class of an exception.\<close>

definition judged :: "(pyexn \<Rightarrow> pystr) \<Rightarrow> pyexn \<Rightarrow> verdict" where
  "judged class_name e = (case e of
     FixtureError m \<Rightarrow> \<lparr>vd_status = ''error'', vd_code = 2, vd_message = m\<rparr>
   | EnvironmentFailure m \<Rightarrow> \<lparr>vd_status = ''error'', vd_code = 2, vd_message = m\<rparr>
   | ContractError m \<Rightarrow> \<lparr>vd_status = ''failed'', vd_code = 1, vd_message = m\<rparr>
   | _ \<Rightarrow> \<lparr>vd_status = ''error'', vd_code = 2, vd_message = U ''unexpected checker error: '' @ class_name e\<rparr>)"

definition outcome :: "(pyexn \<Rightarrow> pystr) \<Rightarrow> unit res \<Rightarrow> verdict" where
  "outcome class_name r = (case r of Inr _ \<Rightarrow> no_message | Inl e \<Rightarrow> judged class_name e)"

text \<open>A failed clean-up is reported only if nothing else failed.\<close>

definition after_cleanup :: "verdict \<Rightarrow> unit res \<Rightarrow> verdict" where
  "after_cleanup v r = (case r of
     Inl _ \<Rightarrow> if vd_status v = ''passed'' then \<lparr>vd_status = ''error'', vd_code = 2, vd_message = U ''trusted cleanup failed''\<rparr> else v
   | Inr _ \<Rightarrow> v)"

text \<open>
  The verdict with the checks, the commands and the texts to be hidden. The lists of the checker are those that the
  clean-up extends.
\<close>

definition run_program ::
    "(pyexn \<Rightarrow> pystr) \<Rightarrow> program \<Rightarrow> world \<Rightarrow> args \<Rightarrow> verdict \<times> pydict list \<times> pydict list \<times> pystr list" where
  "run_program class_name p w a = (case pr_construct p w a initial_session of
     (Inl e, _) \<Rightarrow> (judged class_name e, [], [], [])
   | (Inr self, s) \<Rightarrow>
       (let w' = w\<lparr>v_self := self\<rparr>; (r, s1) = pr_execute p w' s; (c, s2) = pr_cleanup p w' s1 in
        (after_cleanup (outcome class_name r) c, checks s2, commands s2, a_sensitive self)))"

definition summary_item :: "verdict \<Rightarrow> pyval \<Rightarrow> pydict" where
  "summary_item v message = [(U ''name'', ps ''run-summary''), (U ''phase'', ps ''checker''),
     (U ''status'', ps (if vd_status v = ''failed'' then ''failed'' else ''error'')),
     (U ''expected'', ps ''public checker completes''), (U ''actual'', message)]"

definition with_summary :: "pystr list \<Rightarrow> verdict \<Rightarrow> pydict list \<Rightarrow> pydict list res" where
  "with_summary secrets v items =
     (if vd_message v = [] then Inr items
      else res_bind (redact secrets 0 (PStr (vd_message v))) (\<lambda>message. Inr (items @ [summary_item v message])))"

definition unsafe_item :: pydict where
  "unsafe_item = [(U ''name'', ps ''report-safety''), (U ''phase'', ps ''checker''), (U ''status'', ps ''error''),
     (U ''expected'', ps ''safe report keys''), (U ''actual'', ps ''forbidden report key detected'')]"

text \<open>The report and the exit code; \<open>stamps\<close> are the readings of the clock.\<close>

definition report_of ::
    "program \<Rightarrow> pystr \<times> pystr \<times> pystr \<Rightarrow> verdict \<times> pydict list \<times> pydict list \<times> pystr list \<Rightarrow> (pyval \<times> int) res" where
  "report_of p = (\<lambda>(started_at, finished_at, refused_at) (v, items, cmds, secrets).
     res_bind (with_summary secrets v items) (\<lambda>all_items.
     res_bind (pr_report p started_at finished_at (U (vd_status v)) all_items cmds) (\<lambda>report.
     if report_has_forbidden_keys report
     then res_bind (pr_report p started_at refused_at (U ''error'') [unsafe_item] []) (\<lambda>safe. Inr (safe, 2))
     else Inr (report, vd_code v))))"

text \<open>
  \<open>emit\<close> prints a line, which may raise: on standard error when the report could not be written, on standard output
  otherwise. \<^verbatim>\<open>KeyboardInterrupt\<close>, which no clause of the program catches, is not modelled.
\<close>

definition main_of ::
    "program \<Rightarrow> (pyexn \<Rightarrow> pystr) \<Rightarrow> place \<Rightarrow> pystr \<times> pystr \<times> pystr \<Rightarrow> (pystr \<Rightarrow> unit res) \<Rightarrow> world \<Rightarrow> args \<Rightarrow> int res" where
  "main_of p class_name pl stamps emit w a =
     (let run = run_program class_name p w a in
      res_bind (report_of p stamps run) (\<lambda>(report, exit_code).
      case write_report pl (arg_output a) report of
        Inl e \<Rightarrow> res_bind (emit (U ''Cannot write public report: '' @ pl_describe pl e)) (\<lambda>_. Inr 2)
      | Inr _ \<Rightarrow> res_bind (emit (U (pr_week p) @ U '' public check: '' @ U (vd_status (fst run)))) (\<lambda>_. Inr exit_code)))"

definition main :: "(pyexn \<Rightarrow> pystr) \<Rightarrow> place \<Rightarrow> pystr \<times> pystr \<times> pystr \<Rightarrow> (pystr \<Rightarrow> unit res) \<Rightarrow> world \<Rightarrow> args \<Rightarrow> int res" where
  "main class_name pl stamps emit w a = main_of week3_program class_name pl stamps emit w a"

end
