(* ===== verification/Week3_Plan.thy ===== *)
theory Week3_Plan
  imports Week3_Run "HOL-Library.Sublist"
begin

text \<open>
  Which checks the code of \<^verbatim>\<open>task/week3/autocheck/public_check.py\<close> records. A piece of code follows a plan, a list of names, if
  it records checks in the order of the plan, if it records all of them and all passed when it returns, and if at most
  the last recorded one failed, as a rule by a \<^verbatim>\<open>ContractError\<close>, when it raises. There is one rule
  per construct of the programs.
\<close>

section \<open>Plans\<close>

text \<open>The name of a check; those that carry the start of an operation's id are taken without it.\<close>

definition label :: "pydict \<Rightarrow> pystr" where
  "label d = (case map_of d (U ''name'') of
     Some (PStr s) \<Rightarrow> if startswith s (U ''operation-persists-'') then U ''operation-persists-'' else s
   | _ \<Rightarrow> [])"

definition named :: "pydict \<Rightarrow> bool" where
  "named d = (\<exists>s. map_of d (U ''name'') = Some (PStr s))"

definition check_passed :: "pydict \<Rightarrow> bool" where
  "check_passed d = (map_of d (U ''status'') = Some (ps ''passed''))"

text \<open>
  The check of week 4 that stands in a \<^verbatim>\<open>try\<close> statement whose clause \<^verbatim>\<open>finally\<close> runs commands: if they fail too, their exception
  takes the place of the \<^verbatim>\<open>ContractError\<close>.
\<close>

definition guarded :: pystr where
  "guarded = U ''provider-outage-persists-retry''"

definition follows :: "pystr list \<Rightarrow> pydict list \<Rightarrow> 'a res \<Rightarrow> bool" where
  "follows ns cs r = (list_all named cs \<and> (case r of
     Inr _ \<Rightarrow> map label cs = ns \<and> list_all check_passed cs
   | Inl e \<Rightarrow> prefix (map label cs) ns \<and> list_all check_passed (butlast cs) \<and>
       (cs = [] \<or> check_passed (last cs) \<or> is_ContractError e \<or> label (last cs) = guarded)))"

definition adds :: "'a act \<Rightarrow> pystr list \<Rightarrow> bool" where
  "adds m ns \<longleftrightarrow> (\<forall>s. \<exists>cs. checks (snd (m s)) = checks s @ cs \<and> follows ns cs (fst (m s)))"

lemma addsE:
  assumes "adds m ns" "m s = (r, t)"
  obtains cs where "checks t = checks s @ cs" "follows ns cs r"
  using assms unfolding adds_def by (metis fst_conv snd_conv)

lemma adds_Inr: "adds m ns \<Longrightarrow> m s = (Inr r, t) \<Longrightarrow> \<exists>cs. checks t = checks s @ cs \<and> map label cs = ns \<and> list_all check_passed cs"
  by (erule (1) addsE) (auto simp: follows_def)

lemma adds_intro: "(\<And>s. \<exists>cs. checks (snd (m s)) = checks s @ cs \<and> follows ns cs (fst (m s))) \<Longrightarrow> adds m ns"
  by (simp add: adds_def)

lemma follows_Nil: "follows ns [] (Inl e)" "follows [] [] (Inr x)"
  by (simp_all add: follows_def)

text \<open>What follows a part that returned.\<close>

lemma follows_append:
  assumes a: "follows xs cs (Inr x)" and b: "follows ys ds r"
  shows "follows (xs @ ys) (cs @ ds) r"
proof (cases r)
  case (Inl e)
  from a have a': "map label cs = xs" "list_all check_passed cs" "list_all named cs" by (simp_all add: follows_def)
  from b Inl have b': "prefix (map label ds) ys" "list_all check_passed (butlast ds)" "list_all named ds"
    "ds = [] \<or> check_passed (last ds) \<or> is_ContractError e \<or> label (last ds) = guarded" by (simp_all add: follows_def)
  have "list_all check_passed (butlast (cs @ ds))"
    using a'(2) b'(2) by (auto simp: butlast_append list_all_iff dest: in_set_butlastD)
  moreover have "cs @ ds = [] \<or> check_passed (last (cs @ ds)) \<or> is_ContractError e \<or> label (last (cs @ ds)) = guarded"
  proof (cases "ds = []")
    case True
    then show ?thesis using a'(2) by (cases cs rule: rev_cases) auto
  qed (use b'(4) in auto)
  ultimately show ?thesis using a' b' Inl by (simp add: follows_def)
next
  case (Inr y)
  with a b show ?thesis by (simp add: follows_def)
qed

lemma follows_raise: "follows xs cs (Inl e) \<Longrightarrow> follows (xs @ ys) cs (Inl e)"
  by (auto simp: follows_def intro: prefix_prefix)

named_theorems plan_rules

lemma adds_bind [plan_rules]:
  assumes m: "adds m xs" and f: "\<And>x. adds (f x) ys"
  shows "adds (py_bind m f) (xs @ ys)"
proof (rule adds_intro)
  fix s
  obtain r s1 where ms: "m s = (r, s1)" by (cases "m s")
  from addsE [OF m ms] obtain cs where cs: "checks s1 = checks s @ cs" "follows xs cs r" by blast
  show "\<exists>cs. checks (snd (py_bind m f s)) = checks s @ cs \<and> follows (xs @ ys) cs (fst (py_bind m f s))"
  proof (cases r)
    case (Inl e)
    with ms cs show ?thesis by (intro exI [of _ cs]) (auto intro: follows_raise)
  next
    case (Inr x)
    obtain r2 s2 where fs: "f x s1 = (r2, s2)" by (cases "f x s1")
    from addsE [OF f fs] obtain ds where ds: "checks s2 = checks s1 @ ds" "follows ys ds r2" by blast
    with ms cs Inr fs show ?thesis by (intro exI [of _ "cs @ ds"]) (auto intro: follows_append)
  qed
qed

lemma adds_seq [plan_rules]: "adds m xs \<Longrightarrow> adds n ys \<Longrightarrow> adds (py_seq m n) (xs @ ys)"
  unfolding py_seq_def by (rule adds_bind)

lemma adds_return [plan_rules]: "adds (py_return x) []"
  by (simp add: adds_def follows_def)

lemma adds_lift [plan_rules]: "adds (py_lift r) []"
  by (cases r) (simp_all add: adds_def follows_def)

lemma adds_raise [plan_rules]: "adds (py_raise e) ns"
  by (simp add: adds_def follows_def)

lemma adds_ask [plan_rules]: "adds (ask f) []"
  by (simp add: adds_def ask_def follows_def)

lemma adds_ask_res [plan_rules]: "adds (ask_res f) []"
  by (simp add: adds_def ask_res_def ask_def follows_def split: sum.splits)

lemma adds_get [plan_rules]: "adds py_get []"
  by (simp add: adds_def follows_def)

lemma adds_read [plan_rules]: "adds (py_read f) []"
  by (simp add: adds_def follows_def py_read_def)

lemma adds_modify: "(\<And>s. checks (f s) = checks s) \<Longrightarrow> adds (py_modify f) []"
  by (simp add: adds_def follows_def)

lemma adds_if [plan_rules]: "adds m xs \<Longrightarrow> adds n xs \<Longrightarrow> adds (if b then m else n) xs"
  by simp

lemma adds_option [plan_rules]: "adds m xs \<Longrightarrow> (\<And>x. adds (f x) xs) \<Longrightarrow> adds (case v of None \<Rightarrow> m | Some x \<Rightarrow> f x) xs"
  by (cases v) auto

lemma adds_prod [plan_rules]: "(\<And>a b. adds (f a b) xs) \<Longrightarrow> adds (case p of (a, b) \<Rightarrow> f a b) xs"
  by (cases p) simp

lemma adds_eq: "adds m xs \<Longrightarrow> xs = ys \<Longrightarrow> adds m ys"
  by simp

lemma follows_none: "follows [] cs r \<longleftrightarrow> cs = []"
  by (cases r) (auto simp: follows_def)

lemma adds_Nil_iff: "adds m [] \<longleftrightarrow> (\<forall>s. checks (snd (m s)) = checks s)"
  by (simp add: adds_def follows_none)

text \<open>Pieces that record nothing.\<close>

named_theorems quiet_rules

lemma quiet_bind [quiet_rules]: "adds m [] \<Longrightarrow> (\<And>x. adds (f x) []) \<Longrightarrow> adds (py_bind m f) []"
  using adds_bind [of m "[]" f "[]"] by simp

lemma quiet_seq [quiet_rules]: "adds m [] \<Longrightarrow> adds n [] \<Longrightarrow> adds (py_seq m n) []"
  using adds_seq [of m "[]" n "[]"] by simp

lemma quiet_catch [quiet_rules]: "adds m [] \<Longrightarrow> (\<And>e. adds (f e) []) \<Longrightarrow> adds (py_try m p f) []"
  unfolding adds_Nil_iff py_try_def by (auto split: prod.splits sum.splits) (metis snd_conv)+

lemma quiet_map [quiet_rules]: "(\<And>x. adds (f x) []) \<Longrightarrow> adds (py_map f xs) []"
  by (induction xs) (auto intro: quiet_bind adds_return)

lemma adds_for: "(\<And>x. adds (f x) (g x)) \<Longrightarrow> adds (py_for f xs) (concat (map g xs))"
  by (induction xs) (simp_all add: adds_return adds_seq)

lemma quiet_for [quiet_rules]: "(\<And>x. adds (f x) []) \<Longrightarrow> adds (py_for f xs) []"
  by (induction xs) (auto intro: quiet_seq adds_return)

lemmas [quiet_rules] = adds_return adds_lift adds_raise adds_ask adds_ask_res adds_get adds_read adds_if adds_option adds_prod
lemmas [plan_rules] = quiet_map quiet_for

section \<open>A recorded check\<close>

lemma check_item_Inr:
  "check_item w name phase ok expected actual = Inr item \<Longrightarrow>
     map_of item (U ''name'') = Some (PStr name) \<and> map_of item (U ''status'') = Some (ps (if ok then ''passed'' else ''failed''))"
  by (auto simp: check_item_def)

text \<open>The plan of a check with a given name.\<close>

definition plan_name :: "pystr \<Rightarrow> pystr" where
  "plan_name s = (if startswith s (U ''operation-persists-'') then U ''operation-persists-'' else s)"

lemma adds_record_check: "adds (record_check w name phase expected actual) [plan_name name]"
proof (rule adds_intro)
  fix s
  let ?m = "record_check w name phase expected actual"
  show "\<exists>cs. checks (snd (?m s)) = checks s @ cs \<and> follows [plan_name name] cs (fst (?m s))"
  proof (cases "meets expected actual")
    case (Inl e)
    then show ?thesis by (simp add: record_check_def follows_Nil)
  next
    case ok: (Inr ok)
    show ?thesis
    proof (cases "check_item w name phase ok expected actual")
      case (Inl e)
      with ok show ?thesis by (simp add: record_check_def follows_Nil)
    next
      case (Inr item)
      from check_item_Inr [OF this] have "label item = plan_name name" "named item" "check_passed item \<longleftrightarrow> ok"
        by (auto simp: label_def plan_name_def named_def check_passed_def ps_def)
      with ok Inr show ?thesis
        by (intro exI [of _ "[item]"]) (auto simp: record_check_def follows_def is_ContractError_def)
    qed
  qed
qed

lemma adds_check [plan_rules]: "adds (check w name phase expected actual) [plan_name (U name)]"
  unfolding check_def by (rule adds_record_check)

lemma adds_check_that [plan_rules]: "adds (check_that w name phase b) [plan_name (U name)]"
  unfolding check_that_def by (rule adds_check)

section \<open>The harness\<close>

lemma adds_h [plan_rules, quiet_rules]: "adds h []"
  unfolding h_def by (rule quiet_rules | simp)+

lemma adds_run_with [plan_rules, quiet_rules]: "adds (run_with w cmd timeout extra) []"
  unfolding run_with_def by (rule quiet_rules adds_modify | simp)+

lemma adds_run [plan_rules, quiet_rules]: "adds (run w cmd timeout) []"
  unfolding run_def by (rule quiet_rules)

lemma adds_require [plan_rules, quiet_rules]: "adds (require_docker_result w r message) []"
  unfolding require_docker_result_def by (rule quiet_rules | simp)+

lemma adds_compose_with [plan_rules, quiet_rules]: "adds (compose_with w args override timeout extra) []"
  unfolding compose_with_def by (rule quiet_rules | simp)+

lemma adds_compose [plan_rules, quiet_rules]: "adds (compose w args timeout) []"
  unfolding compose_def by (rule quiet_rules)

lemma adds_require_compose [plan_rules, quiet_rules]: "adds (require_compose w args timeout message) []"
  unfolding require_compose_def by (rule quiet_rules | simp)+

lemma adds_container_id [plan_rules, quiet_rules]: "adds (container_id w service) []"
  unfolding container_id_def Let_def by (rule quiet_rules | simp)+

lemma adds_image_id [plan_rules, quiet_rules]: "adds (image_id w service) []"
  unfolding image_id_def Let_def by (rule quiet_rules | simp)+

lemma adds_local_image_id [plan_rules, quiet_rules]: "adds (local_image_id w img) []"
  unfolding local_image_id_def Let_def by (rule quiet_rules | simp)+

lemma adds_main_process [plan_rules, quiet_rules]: "adds (main_process_executable w service) []"
  unfolding main_process_executable_def Let_def by (rule quiet_rules | simp)+

lemma adds_detect [plan_rules, quiet_rules]: "adds (detect_python_runtime w service) []"
  unfolding detect_python_runtime_def Let_def by (rule quiet_rules adds_modify | simp)+

lemma adds_http [plan_rules, quiet_rules]: "adds (http w verb path body headers timeout) []"
  unfolding http_def by (rule quiet_rules | simp)+

lemma adds_gateway_rounds: "adds (gateway_rounds w n seen) []"
proof (induction n arbitrary: seen)
  case (Suc n)
  show ?case unfolding gateway_rounds.simps probe_ready_def
    by (rule quiet_rules Suc.IH | simp)+
qed (simp add: adds_raise)

lemma adds_wait_gateway_for [plan_rules, quiet_rules]: "adds (wait_gateway_for w timeout) []"
  unfolding wait_gateway_for_def by (rule quiet_rules adds_gateway_rounds)+

lemma adds_wait_gateway [plan_rules, quiet_rules]: "adds (wait_gateway w) []"
  unfolding wait_gateway_def by (rule quiet_rules)

lemma adds_action_with [plan_rules, quiet_rules]: "adds (action_with w modul action d token key extra) []"
  unfolding action_with_def by (rule quiet_rules | simp)+

lemma adds_call_action [plan_rules, quiet_rules]: "adds (call_action w modul action d token key) []"
  unfolding call_action_def by (rule quiet_rules)

lemma adds_response_json [plan_rules, quiet_rules]: "adds (response_json w r) []"
  unfolding response_json_def by (rule quiet_rules)

lemma adds_psql_rows [plan_rules, quiet_rules]: "adds (psql_rows w query) []"
  unfolding psql_rows_def by (rule quiet_rules | simp)+

lemma adds_internal_http [plan_rules, quiet_rules]: "adds (internal_http w service verb url body headers) []"
  unfolding internal_http_def by (rule quiet_rules | simp)+

end
