(* ===== verification/Week3_Complete.thy ===== *)
theory Week3_Complete
  imports Week3_Plan
begin

text \<open>
  The plan of every group of checks of \<^verbatim>\<open>task/week3/autocheck/public_check.py\<close>, of \<^verbatim>\<open>execute\<close>, and what it means for a run.
\<close>

section \<open>Steps\<close>

definition plan :: "string list \<Rightarrow> pystr list" where
  "plan names = map (\<lambda>name. plan_name (U name)) names"

lemma plan_simps:
  "plan [] = []" "plan (name # names) = plan_name (U name) # plan names" "plan (xs @ ys) = plan xs @ plan ys"
  by (simp_all add: plan_def)

lemma adds_find_compose_in: "adds (find_compose_in w names) []"
proof (induction names)
  case (Cons name names)
  show ?case unfolding find_compose_in.simps Let_def by (rule quiet_rules Cons.IH)+
qed (simp only: find_compose_in.simps adds_raise)

text \<open>The assignments to attributes.\<close>

lemma adds_assign [plan_rules, quiet_rules]:
  "adds (py_modify (\<lambda>s. s\<lparr>cleanup_armed := b\<rparr>)) []" "adds (py_modify (\<lambda>s. s\<lparr>callback_base := t\<rparr>)) []"
  "adds (py_modify (\<lambda>s. s\<lparr>fixture := d\<rparr>)) []" "adds (py_modify (\<lambda>s. s\<lparr>harness := f\<rparr>)) []"
  "adds (py_modify (\<lambda>s. s\<lparr>image_ids := ids\<rparr>)) []"
  by (rule adds_modify, simp)+

lemma adds_find_compose [plan_rules, quiet_rules]: "adds (find_compose w) []"
  unfolding find_compose_def Let_def  by (rule quiet_rules adds_find_compose_in | simp)+

lemma adds_write_text [plan_rules, quiet_rules]: "adds (write_text w target contents) []"
  unfolding write_text_def Let_def  by (rule quiet_rules  | simp)+

lemma adds_write_override [plan_rules, quiet_rules]: "adds (write_override w config) []"
  unfolding write_override_def Let_def  by (rule quiet_rules  | simp)+

lemma adds_payload [plan_rules, quiet_rules]: "adds (payload w name) []"
proof -
  have "adds (case v of PDict d \<Rightarrow> py_return d | _ \<Rightarrow> py_raise AssertionError) []" for v
    by (cases v) (simp_all add: adds_return adds_raise)
  then show ?thesis unfolding payload_def by (intro quiet_bind adds_read adds_lift adds_ask_res)
qed

lemma adds_in_order [plan_rules, quiet_rules]: "adds (in_order w members) []"
  unfolding in_order_def Let_def  by (rule quiet_rules  | simp)+

lemma adds_images_of [plan_rules, quiet_rules]: "adds (images_of w services) []"
  unfolding images_of_def Let_def  by (rule quiet_rules  | simp)+

lemma adds_remember [plan_rules, quiet_rules]: "adds (remember lab v) []"
  unfolding remember_def Let_def  by (rule quiet_rules adds_modify | simp)+

lemma adds_fresh_key [plan_rules, quiet_rules]: "adds (fresh_key w start n) []"
  unfolding fresh_key_def Let_def  by (rule quiet_rules  | simp)+

lemma adds_create_and_submit [plan_rules, quiet_rules]: "adds (create_and_submit w payload_name lab) []"
  unfolding create_and_submit_def Let_def  by (rule quiet_rules  | simp)+

section \<open>Admission\<close>

lemma adds_open_harness [plan_rules, quiet_rules]: "adds (open_harness w) []"
  unfolding open_harness_def Let_def  by (rule quiet_rules adds_modify | simp)+

lemma adds_read_config [plan_rules, quiet_rules]: "adds cmd [] \<Longrightarrow> adds (read_config w cmd invalid not_json) []"
  unfolding read_config_def by (rule quiet_rules | assumption)+

lemma adds_candidate_config [plan_rules, quiet_rules]: "adds (candidate_config w) []"
  unfolding candidate_config_def Let_def  by (rule quiet_rules  | simp)+

lemma adds_runtime_config [plan_rules, quiet_rules]: "adds (runtime_config w) []"
  unfolding runtime_config_def Let_def  by (rule quiet_rules  | simp)+

lemma adds_check_compose [plan_rules]: "adds (check_compose w) (plan [''compose-contract''])"
  unfolding check_compose_def Let_def  by (rule adds_eq, (rule plan_rules)+) (simp_all add: plan_simps)

lemma adds_check_runtime_compose [plan_rules]: "adds (check_runtime_compose w) (plan [''runtime-compose-contract''])"
  unfolding check_runtime_compose_def Let_def  by (rule adds_eq, (rule plan_rules )+) (simp_all add: plan_simps)

lemma adds_build_stack [plan_rules, quiet_rules]: "adds (build_stack w config) []"
  unfolding build_stack_def Let_def  by (rule quiet_rules  | simp)+

lemma adds_start_stack [plan_rules, quiet_rules]: "adds (start_stack w) []"
  unfolding start_stack_def Let_def  by (rule quiet_rules  | simp)+

lemma adds_check_python_image [plan_rules]: "adds (check_python_image w built) (plan [''python-single-image'', ''python-locally-built-image''])"
  unfolding check_python_image_def Let_def  by (rule adds_eq, (rule plan_rules )+) (simp_all add: plan_simps)

lemma adds_check_python_version [plan_rules]: "adds (check_python_version w service) ([plan_name (U ''python-version-'' @ service)])"
  unfolding check_python_version_def Let_def  by (rule adds_eq, (rule plan_rules adds_record_check)+) (simp_all add: plan_simps)

lemma adds_remember_images [plan_rules, quiet_rules]: "adds (remember_images w services) []"
  unfolding remember_images_def Let_def  by (rule quiet_rules adds_modify | simp)+

definition admission_names :: "string list" where
  "admission_names = [''compose-contract'', ''runtime-compose-contract'', ''python-single-image'', ''python-locally-built-image'',
     ''python-version-outbox-dispatcher'', ''python-version-receipt-adapter'', ''python-version-inbox-reconciler'']"

lemma adds_python_versions [plan_rules]: "adds (py_for (check_python_version w) Week3_Constants.PYTHON_SERVICES)
    (plan [''python-version-outbox-dispatcher'', ''python-version-receipt-adapter'', ''python-version-inbox-reconciler''])"
  unfolding Week3_Constants.PYTHON_SERVICES_def list.map py_for.simps
  by (rule adds_eq, (rule plan_rules)+) (simp_all add: plan_simps U_append [symmetric])

lemma adds_check_admission_and_start [plan_rules]: "adds (check_admission_and_start w) (plan admission_names)"
  unfolding check_admission_and_start_def Let_def  by (rule adds_eq, (rule plan_rules )+) (simp_all add: plan_simps admission_names_def)

definition database_names :: "string \<Rightarrow> string list" where
  "database_names week = map ((@) week) [''-stable-views'', ''-stable-view-columns'', ''-stable-relations-are-views'', ''-stable-view-types'',
     ''-contract-info''] @ [''payment-flows-active'', ''python-database-roles'', ''python-roles-no-memberships'',
     ''python-roles-no-table-privileges'', ''python-roles-no-schema-create'', ''python-roles-no-database-create'',
     ''python-fixed-sql-boundaries'', ''python-fixed-function-privileges'']"

definition provider_names :: "string list" where
  "provider_names = [''one-external-request'', ''dispatcher-stop-durable-outbox'', ''provider-not-called-before-dispatch'',
     ''missing-signature-rejected'', ''invalid-signature-rejected'', ''invalid-signatures-no-inbox'',
     ''provider-success-completes-operation'', ''one-external-request-after-completion'', ''provider-single-payment'',
     ''signed-receipt-evidence'', ''provider-receipt-identity'', ''operation-events-action'']"

definition adapter_names :: "string list" where
  "adapter_names = [''one-external-request-adapter'', ''wrong-capability-rejected'', ''wrong-capability-no-inbox'',
     ''adapter-first-and-duplicate'', ''adapter-conflicting-callback'', ''adapter-rejected-branch'', ''adapter-one-inbox-receipt'',
     ''adapter-exact-signed-body'', ''dispatcher-resumed-after-confirmation'', ''confirmed-outbox-not-redelivered'']"

definition review_names :: "string list" where
  "review_names = [''review-limit-rule'', ''review-waits-manual'', ''manual-identical-repeat'', ''manual-changed-repeat-conflict'',
     ''manual-audited-decision'']"

definition recovery_names :: "nat \<Rightarrow> string list" where
  "recovery_names n = [''recovery-receipt-accepted'', ''recovery-inbox-pending-before-recreate'', ''python-image-stable-after-recreate'',
     ''reconciler-continues-after-recreate''] @ replicate n ''operation-persists-'' @
     [''synthetic-secrets-not-in-logs'', ''full-messages-not-in-logs'', ''csharp-images-not-recreated-with-python'']"

section \<open>What both weeks share\<close>

text \<open>The methods that a week may write anew; all that is asked of them is that they record nothing.\<close>

locale planned =
  fixes k :: methods
  assumes rows: "adds (k_rows k query) []"
    and probe: "adds (k_probe k service verb url body headers) []"
    and submit: "adds (k_submit k payload_name lab) []"
begin

lemmas [plan_rules, quiet_rules] = rows probe submit

lemma adds_poll_rounds: "adds query [] \<Longrightarrow> adds (poll_rounds query holds n) []"
proof (induction n)
  case (Suc n)
  then show ?case unfolding poll_rounds.simps by (intro quiet_bind adds_lift adds_if adds_return) blast+
qed (simp only: poll_rounds.simps adds_raise)

lemma adds_poll_rows_for [plan_rules, quiet_rules]: "adds (poll_rows_for k w timeout query holds) []"
  unfolding poll_rows_for_def by (rule quiet_rules adds_poll_rounds)+

lemma adds_poll_rows [plan_rules, quiet_rules]: "adds (poll_rows k w query holds) []"
  unfolding poll_rows_def Let_def  by (rule quiet_rules adds_poll_rounds | simp)+

lemma adds_operation_rows [plan_rules, quiet_rules]: "adds (operation_rows k operation_id) []"
  unfolding operation_rows_def Let_def  by (rule quiet_rules  | simp)+

lemma adds_wait_operation [plan_rules, quiet_rules]: "adds (wait_operation k w operation_id st) []"
  unfolding wait_operation_def Let_def  by (rule quiet_rules  | simp)+

lemma adds_external_request [plan_rules, quiet_rules]: "adds (external_request k w operation_id) []"
  unfolding external_request_def Let_def  by (rule quiet_rules  | simp)+

lemma adds_provider_audit [plan_rules, quiet_rules]: "adds (provider_audit k w external_id) []"
  unfolding provider_audit_def Let_def  by (rule quiet_rules  | simp)+

lemma adds_check_no_rows [plan_rules]: "adds (check_no_rows k w name phase query) ([plan_name (U name)])"
  unfolding check_no_rows_def Let_def  by (rule adds_eq, (rule plan_rules )+) (simp_all add: plan_simps)

lemma adds_check_views [plan_rules]: "adds (check_views k w c) (plan [c_week c @ ''-stable-views'', c_week c @ ''-stable-view-columns'', c_week c @ ''-stable-relations-are-views'',
    c_week c @ ''-stable-view-types''])"
  unfolding check_views_def Let_def  by (rule adds_eq, (rule plan_rules )+) (simp_all add: plan_simps)

lemma adds_check_contract_info [plan_rules]: "adds (check_contract_info k w c) (plan [c_week c @ ''-contract-info''])"
  unfolding check_contract_info_def Let_def  by (rule adds_eq, (rule plan_rules )+) (simp_all add: plan_simps)

lemma adds_check_flows [plan_rules]: "adds (check_flows k w) (plan [''payment-flows-active''])"
  unfolding check_flows_def Let_def  by (rule adds_eq, (rule plan_rules )+) (simp_all add: plan_simps)

lemma adds_check_roles [plan_rules]: "adds (check_roles k w) (plan [''python-database-roles''])"
  unfolding check_roles_def Let_def  by (rule adds_eq, (rule plan_rules )+) (simp_all add: plan_simps)

lemma adds_check_privileges [plan_rules]: "adds (check_privileges k w) (plan [''python-roles-no-memberships'', ''python-roles-no-table-privileges'', ''python-roles-no-schema-create'', ''python-roles-no-database-create''])"
  unfolding check_privileges_def Let_def  by (rule adds_eq, (rule plan_rules )+) (simp_all add: plan_simps)

lemma adds_check_functions [plan_rules]: "adds (check_functions k w) (plan [''python-fixed-sql-boundaries''])"
  unfolding check_functions_def Let_def  by (rule adds_eq, (rule plan_rules )+) (simp_all add: plan_simps)

lemma adds_check_function_privileges [plan_rules]: "adds (check_function_privileges k w) (plan [''python-fixed-function-privileges''])"
  unfolding check_function_privileges_def Let_def  by (rule adds_eq, (rule plan_rules )+) (simp_all add: plan_simps)

lemma adds_check_database_contract [plan_rules]: "adds (check_database_contract k w c) (plan (database_names (c_week c)))"
  unfolding check_database_contract_def Let_def  by (rule adds_eq, (rule plan_rules )+) (simp_all add: plan_simps database_names_def)

lemma adds_count_check [plan_rules]: "adds (count_check w name phase rows) ([plan_name (U name)])"
  unfolding count_check_def Let_def  by (rule adds_eq, (rule plan_rules )+) (simp_all add: plan_simps)

lemma adds_status_check [plan_rules]: "adds (status_check w name phase expected r) ([plan_name (U name)])"
  unfolding status_check_def Let_def  by (rule adds_eq, (rule plan_rules )+) (simp_all add: plan_simps)

lemma adds_check_undispatched [plan_rules]: "adds (check_undispatched k w external_id external_sql) (plan [''dispatcher-stop-durable-outbox'', ''provider-not-called-before-dispatch''])"
  unfolding check_undispatched_def Let_def  by (rule adds_eq, (rule plan_rules )+) (simp_all add: plan_simps)

lemma adds_check_signatures [plan_rules]: "adds (check_signatures k w external_id) (plan [''missing-signature-rejected'', ''invalid-signature-rejected'', ''invalid-signatures-no-inbox''])"
  unfolding check_signatures_def Let_def  by (rule adds_eq, (rule plan_rules )+) (simp_all add: plan_simps)

lemma adds_check_completion [plan_rules]: "adds (check_completion k w operation_id process_id) (plan [''provider-success-completes-operation'', ''one-external-request-after-completion''])"
  unfolding check_completion_def Let_def  by (rule adds_eq, (rule plan_rules )+) (simp_all add: plan_simps)

lemma adds_check_payment [plan_rules]: "adds (check_payment k w external_id external_sql) (plan [''provider-single-payment'', ''signed-receipt-evidence'', ''provider-receipt-identity''])"
  unfolding check_payment_def Let_def  by (rule adds_eq, (rule plan_rules )+) (simp_all add: plan_simps)

lemma adds_check_events_action [plan_rules]: "adds (check_events_action w operation_id) (plan [''operation-events-action''])"
  unfolding check_events_action_def Let_def  by (rule adds_eq, (rule plan_rules )+) (simp_all add: plan_simps)

lemma adds_provider_path [plan_rules]: "adds (provider_path k w services stopping starting) (plan provider_names)"
  unfolding provider_path_def Let_def  by (rule adds_eq, (rule plan_rules )+) (simp_all add: plan_simps provider_names_def)

lemma adds_post_callback [plan_rules, quiet_rules]: "adds (post_callback k url body) []"
  unfolding post_callback_def Let_def  by (rule quiet_rules  | simp)+

lemma adds_check_wrong_capability [plan_rules]: "adds (check_wrong_capability k w legacy) (plan [''wrong-capability-rejected'', ''wrong-capability-no-inbox''])"
  unfolding check_wrong_capability_def Let_def  by (rule adds_eq, (rule plan_rules )+) (simp_all add: plan_simps)

lemma adds_check_callbacks [plan_rules]: "adds (check_callbacks k w url legacy) (plan [''adapter-first-and-duplicate''])"
  unfolding check_callbacks_def Let_def  by (rule adds_eq, (rule plan_rules )+) (simp_all add: plan_simps)

lemma adds_check_conflict [plan_rules]: "adds (check_conflict w conflict) (plan [''adapter-conflicting-callback''])"
  unfolding check_conflict_def Let_def  by (rule adds_eq, (rule plan_rules )+) (simp_all add: plan_simps)

lemma adds_check_rejection [plan_rules]: "adds (check_rejection k w operation_id process_id message_id legacy) (plan [''adapter-rejected-branch'', ''adapter-one-inbox-receipt'', ''adapter-exact-signed-body''])"
  unfolding check_rejection_def Let_def  by (rule adds_eq, (rule plan_rules )+) (simp_all add: plan_simps)

lemma adds_check_sentinel [plan_rules]: "adds (check_sentinel k w external_id) (plan [''dispatcher-resumed-after-confirmation'', ''confirmed-outbox-not-redelivered''])"
  unfolding check_sentinel_def Let_def  by (rule adds_eq, (rule plan_rules )+) (simp_all add: plan_simps)

lemma adds_adapter_deduplication [plan_rules]:
  assumes keep: "\<And>url legacy r body. adds (keep url legacy r body) []"
  shows "adds (adapter_deduplication k w services stopping starting keep) (plan adapter_names)"
  unfolding adapter_deduplication_def Let_def
  by (rule adds_eq, (rule plan_rules keep)+) (simp_all add: plan_simps adapter_names_def)

lemma adds_check_limit_rule [plan_rules]: "adds (check_limit_rule k w) (plan [''review-limit-rule''])"
  unfolding check_limit_rule_def Let_def  by (rule adds_eq, (rule plan_rules )+) (simp_all add: plan_simps)

lemma adds_await_manual [plan_rules]: "adds (await_manual k w) (plan [''review-waits-manual''])"
  unfolding await_manual_def Let_def  by (rule adds_eq, (rule plan_rules )+) (simp_all add: plan_simps)

lemma adds_decide [plan_rules, quiet_rules]: "adds (decide w d key) []"
  unfolding decide_def Let_def  by (rule quiet_rules  | simp)+

lemma adds_check_decisions [plan_rules]:
  assumes keep: "\<And>d key r body. adds (keep d key r body) []"
  shows "adds (check_decisions w d keep) (plan [''manual-identical-repeat'', ''manual-changed-repeat-conflict''])"
  unfolding check_decisions_def by (rule adds_eq, (rule plan_rules keep)+) (simp_all add: plan_simps)

lemma adds_check_audit [plan_rules]: "adds (check_audit k w manual_operation manual_process) (plan [''manual-audited-decision''])"
  unfolding check_audit_def Let_def  by (rule adds_eq, (rule plan_rules )+) (simp_all add: plan_simps)

lemma adds_review [plan_rules]:
  assumes keep: "\<And>d key r body. adds (keep d key r body) []"
  shows "adds (review k w keep) (plan review_names)"
  unfolding review_def by (rule adds_eq, (rule plan_rules keep)+) (simp_all add: plan_simps review_names_def)

lemma adds_stop_for_recovery [plan_rules, quiet_rules]: "adds (stop_for_recovery w service) []"
  unfolding stop_for_recovery_def Let_def  by (rule quiet_rules  | simp)+

lemma adds_await_inbox [plan_rules, quiet_rules]: "adds (await_inbox k w message_sql st) []"
  unfolding await_inbox_def Let_def  by (rule quiet_rules  | simp)+

lemma adds_pending_receipt [plan_rules]: "adds (pending_receipt k w) (plan [''recovery-receipt-accepted'', ''recovery-inbox-pending-before-recreate''])"
  unfolding pending_receipt_def Let_def  by (rule adds_eq, (rule plan_rules )+) (simp_all add: plan_simps)

lemma adds_check_images [plan_rules]: "adds (check_images w name phase services) ([plan_name (U name)])"
  unfolding check_images_def Let_def  by (rule adds_eq, (rule plan_rules )+) (simp_all add: plan_simps)

lemma adds_recreate [plan_rules]: "adds (recreate w services) (plan [''python-image-stable-after-recreate''])"
  unfolding recreate_def Let_def  by (rule adds_eq, (rule plan_rules )+) (simp_all add: plan_simps)

lemma adds_check_recovered [plan_rules]: "adds (check_recovered k w recovery_operation message_id) (plan [''reconciler-continues-after-recreate''])"
  unfolding check_recovered_def Let_def  by (rule adds_eq, (rule plan_rules )+) (simp_all add: plan_simps)

lemma adds_check_persists: "adds (check_persists k w operation_id) (plan [''operation-persists-''])"
proof -
  have "plan_name (U ''operation-persists-'' @ t) = U ''operation-persists-''" for t
    by (simp add: plan_name_def startswith_iff)
  moreover from this [of "[]"] have "plan [''operation-persists-''] = [U ''operation-persists-'']" by (simp add: plan_simps)
  ultimately show ?thesis unfolding check_persists_def
    by (intro adds_eq [OF adds_bind [OF adds_operation_rows adds_record_check]]) simp
qed

lemma adds_persisting: "adds (py_for (check_persists k w) ids) (plan (replicate (length ids) ''operation-persists-''))"
proof (induction ids)
  case (Cons x ids)
  show ?case unfolding py_for.simps
    by (rule adds_eq, rule adds_seq [OF adds_check_persists Cons.IH]) (simp add: plan_simps)
qed (simp only: py_for.simps adds_return plan_simps list.size replicate.simps)

lemma adds_all_persist: "adds (py_for (check_persists k w) (ids @ [x])) (plan (replicate (Suc (length ids)) ''operation-persists-''))"
  using adds_persisting [of w "ids @ [x]"] by simp

lemma adds_check_logs [plan_rules]: "adds (check_logs w out) (plan [''synthetic-secrets-not-in-logs'', ''full-messages-not-in-logs''])"
  unfolding check_logs_def Let_def  by (rule adds_eq, (rule plan_rules )+) (simp_all add: plan_simps)

lemma adds_recreate_and_hygiene:
  assumes "adds before []" "adds logs []"
  shows "adds (recreate_and_hygiene k w services python_services before logs ids) (plan (recovery_names (Suc (length ids))))"
  unfolding recreate_and_hygiene_def
  by (rule adds_eq, (rule adds_all_persist plan_rules assms)+) (simp_all add: plan_simps recovery_names_def)

end

interpretation week3: planned "week3_methods w"
  by unfold_locales (simp_all add: week3_methods_def adds_psql_rows adds_internal_http adds_create_and_submit)

lemma adds_candidate_logs [plan_rules, quiet_rules]: "adds (candidate_logs w) []"
  unfolding candidate_logs_def by (rule quiet_rules)+

definition week3_names :: "string list" where
  "week3_names = admission_names @ database_names ''week3'' @ provider_names @ adapter_names @ review_names @ recovery_names 4"

lemma adds_execute: "adds (execute w) (plan week3_names)"
proof -
  let ?k = "week3_methods w"
  have p: "adds (check_provider_path ?k w) (plan provider_names)" unfolding check_provider_path_def by (rule week3.adds_provider_path)
  have a: "adds (check_adapter_deduplication ?k w) (plan adapter_names)"
    unfolding check_adapter_deduplication_def by (rule week3.adds_adapter_deduplication) (rule adds_return)
  have r: "adds (check_review ?k w) (plan review_names)" unfolding check_review_def by (rule week3.adds_review) (rule adds_return)
  have h: "adds (check_recreate_and_hygiene ?k w [x, y, z]) (plan (recovery_names 4))" for x y z
    using week3.adds_recreate_and_hygiene [OF adds_return adds_candidate_logs, of w w _ _ "()" w "[x, y, z]"]
    by (simp add: check_recreate_and_hygiene_def eval_nat_numeral)
  have d: "adds (check_database_contract ?k w week3_contract) (plan (database_names ''week3''))"
    using week3.adds_check_database_contract [of w w week3_contract] by (simp add: week3_contract_def)
  show ?thesis unfolding execute_def Let_def
    by (rule adds_eq, (rule plan_rules p a r h d)+) (simp_all add: plan_simps week3_names_def)
qed

end
