(* ===== verification/Week3_Accept.thy ===== *)
theory Week3_Accept
  imports Week3_Complete
begin

text \<open>
  What a run of \<^verbatim>\<open>task/week3/autocheck/public_check.py\<close> means: the checks of a run that returned, of a run that was
  refused, and the exit codes.
\<close>

section \<open>Parts that returned\<close>

lemma check_Inr: "check w name phase expected actual s = (Inr u, t) \<Longrightarrow> py_eq actual expected"
  by (auto simp: check_def record_check_def py_Inr split: if_splits sum.splits)

lemma check_no_findings: "check w name phase (strs []) (strs found) s = (Inr u, t) \<Longrightarrow> found = []"
  by (drule check_Inr) (simp add: strs_def)

lemma run_with_Inr:
  assumes "run_with w cmd timeout extra s = (Inr r, t)"
  shows "\<exists>n oc. v_exec w n \<lparr>inv_command = cmd, inv_env = environment w extra, inv_timeout = timeout\<rparr> = Inr oc \<and> command_result cmd oc = Inr r"
  using assms unfolding run_with_def by (auto simp: py_Inr ask_res_def ask_def split: sum.splits)

lemma require_docker_Inr: "require_docker_result w r message s = (Inr u, t) \<Longrightarrow> cmd_ok r"
  by (auto simp: require_docker_result_def py_Inr split: if_splits)

lemma command_result_ok:
  "command_result cmd oc = Inr r \<Longrightarrow> cmd_ok r \<Longrightarrow> \<exists>out err. oc = Completed 0 out err \<and> stdout r = out \<and> stderr r = err"
  by (cases oc) (auto simp: command_result_def cmd_ok_def Week4_Report.cmd_ok_def)

text \<open>A Compose command of the run that ended with the exit code 0, and what it printed.\<close>

definition compose_printed :: "world \<Rightarrow> pystr list \<Rightarrow> bool \<Rightarrow> pystr \<Rightarrow> pystr \<Rightarrow> bool" where
  "compose_printed w args override out err \<longleftrightarrow> (\<exists>n inv f. inv_command inv = compose_line w f override args \<and>
     v_exec w n inv = Inr (Completed 0 out err))"

lemma compose_with_Inr:
  assumes "compose_with w args override timeout extra s = (Inr r, t)" "cmd_ok r"
  shows "compose_printed w args override (stdout r) (stderr r)"
proof -
  from assms(1) obtain f s1 where "run_with w (compose_line w f override args) timeout extra s1 = (Inr r, t)"
    unfolding compose_with_def by (auto simp: py_Inr)
  from run_with_Inr [OF this] obtain n inv oc where "inv_command inv = compose_line w f override args" "v_exec w n inv = Inr oc"
    "command_result (compose_line w f override args) oc = Inr r" by force
  with command_result_ok [OF this(3) assms(2)] show ?thesis unfolding compose_printed_def by blast
qed

section \<open>Acceptance\<close>

text \<open>The configuration of the submission has no findings, and neither has the one with the override.\<close>

definition compose_admitted :: "world \<Rightarrow> bool" where
  "compose_admitted w \<longleftrightarrow>
     (\<exists>n out err config. compose_printed w config_args False out err \<and>
        parse_config (v_depth w) ''candidate Compose config is not JSON'' out = Inr config \<and>
        compose_contract_findings (v_netloc_ok w) (fs_resolve (v_fs w n)) config (a_repo (v_self w)) = Inr [] \<and>
        secret_distribution_findings config (secret_table (v_self w)) = Inr []) \<and>
     (\<exists>out err config. compose_printed w config_args True out err \<and>
        parse_config (v_depth w) ''effective Compose config is not JSON'' out = Inr config \<and>
        runtime_compose_findings config (a_gateway_port (v_self w)) = Inr [])"

text \<open>The logs that were read at the end contain none of the texts that must stay secret.\<close>

definition logs_clean :: "world \<Rightarrow> bool" where
  "logs_clean w \<longleftrightarrow> (\<exists>out err. compose_printed w (map U [''logs'', ''--no-color'']) True out err \<and>
     list_all (\<lambda>secret. secret = [] \<or> \<not> contains secret (lines_of out err)) (a_sensitive (v_self w)))"

lemma read_config_Inr:
  assumes "read_config w cmd invalid not_json s = (Inr config, t)"
  shows "\<exists>r s1. cmd s = (Inr r, s1) \<and> cmd_ok r \<and> parse_config (v_depth w) not_json (stdout r) = Inr config"
  using assms require_docker_Inr unfolding read_config_def by (fastforce simp: py_Inr)

lemma check_compose_Inr:
  assumes "check_compose w s = (Inr config, t)"
  shows "\<exists>n out err config. compose_printed w config_args False out err \<and>
    parse_config (v_depth w) ''candidate Compose config is not JSON'' out = Inr config \<and>
    compose_contract_findings (v_netloc_ok w) (fs_resolve (v_fs w n)) config (a_repo (v_self w)) = Inr [] \<and>
    secret_distribution_findings config (secret_table (v_self w)) = Inr []"
proof -
  from assms obtain config' found s1 s2 s3 where
    c: "read_config w (candidate_config w) ''candidate Compose config is invalid'' ''candidate Compose config is not JSON'' s = (Inr config', s1)"
    and f: "ask_res (\<lambda>n. compose_findings w n config') s1 = (Inr found, s2)"
    and k: "check w ''compose-contract'' ''admission'' (strs []) (strs found) s2 = (Inr (), s3)"
    unfolding check_compose_def by (auto simp: py_Inr)
  from f obtain n where "compose_findings w n config' = Inr found" by (auto simp: ask_res_def ask_def py_Inr)
  with check_no_findings [OF k] have "compose_contract_findings (v_netloc_ok w) (fs_resolve (v_fs w n)) config' (a_repo (v_self w)) = Inr []"
    "secret_distribution_findings config' (secret_table (v_self w)) = Inr []" by (simp_all add: compose_findings_def)
  moreover from read_config_Inr [OF c] obtain r s0 where r: "candidate_config w s = (Inr r, s0)" "cmd_ok r"
    "parse_config (v_depth w) ''candidate Compose config is not JSON'' (stdout r) = Inr config'" by blast
  from r(1) [unfolded candidate_config_def] r(2) have "compose_printed w config_args False (stdout r) (stderr r)"
    by (rule compose_with_Inr)
  ultimately show ?thesis using r(3) by blast
qed

lemma check_runtime_compose_Inr:
  assumes "check_runtime_compose w s = (Inr u, t)"
  shows "\<exists>out err config. compose_printed w config_args True out err \<and>
    parse_config (v_depth w) ''effective Compose config is not JSON'' out = Inr config \<and>
    runtime_compose_findings config (a_gateway_port (v_self w)) = Inr []"
proof -
  from assms obtain config found s1 where
    c: "read_config w (runtime_config w) ''effective Compose config is invalid'' ''effective Compose config is not JSON'' s = (Inr config, s1)"
    and f: "runtime_compose_findings config (a_gateway_port (v_self w)) = Inr found"
    and k: "check w ''runtime-compose-contract'' ''admission'' (strs []) (strs found) s1 = (Inr u, t)"
    unfolding check_runtime_compose_def by (auto simp: py_Inr)
  from read_config_Inr [OF c] obtain r s0 where r: "runtime_config w s = (Inr r, s0)" "cmd_ok r"
    "parse_config (v_depth w) ''effective Compose config is not JSON'' (stdout r) = Inr config" by blast
  from r(1) [unfolded runtime_config_def compose_def] r(2) have "compose_printed w config_args True (stdout r) (stderr r)"
    by (rule compose_with_Inr)
  with r(3) f check_no_findings [OF k] show ?thesis by blast
qed

lemma check_logs_Inr: "check_logs w out s = (Inr u, t) \<Longrightarrow> leaked (a_sensitive (v_self w)) out = []"
  unfolding check_logs_def by (auto simp: py_Inr dest: check_no_findings)

lemma candidate_logs_Inr:
  assumes "candidate_logs w s = (Inr out, t)"
  shows "\<exists>o' e'. compose_printed w (map U [''logs'', ''--no-color'']) True o' e' \<and> out = lines_of o' e'"
proof -
  from assms obtain r s1 s2 where r: "compose w (map U [''logs'', ''--no-color'']) 30 s = (Inr r, s1)"
    "require_docker_result w r (U ''cannot inspect candidate logs'') s1 = (Inr (), s2)" "out = lines_of (stdout r) (stderr r)"
    unfolding candidate_logs_def by (auto simp: py_Inr)
  from r(1) [unfolded compose_def] require_docker_Inr [OF r(2)]
  have "compose_printed w (map U [''logs'', ''--no-color'']) True (stdout r) (stderr r)" by (rule compose_with_Inr)
  with r(3) show ?thesis by blast
qed

lemma hygiene_Inr:
  assumes "check_recreate_and_hygiene k w ids s = (Inr u, t)"
  shows "logs_clean w"
proof -
  from assms obtain out s1 s2 s3 where "candidate_logs w s1 = (Inr out, s2)" and l: "check_logs w out s2 = (Inr (), s3)"
    unfolding check_recreate_and_hygiene_def recreate_and_hygiene_def by (auto simp: py_Inr)
  from candidate_logs_Inr [OF this(1)] check_logs_Inr [OF l] show ?thesis
    unfolding logs_clean_def leaked_def by (auto simp: filter_empty_conv list_all_iff)
qed

lemma execute_accepts:
  assumes "execute w s = (Inr u, t)"
  shows "compose_admitted w \<and> logs_clean w"
proof -
  from assms obtain k ids s1 s2 where "check_admission_and_start w s = (Inr (), s1)"
    and h: "check_recreate_and_hygiene k w ids s2 = (Inr (), t)"
    unfolding execute_def Let_def by (auto simp: py_Inr)
  then obtain s3 s4 s5 config where "check_compose w s3 = (Inr config, s4)" "check_runtime_compose w s4 = (Inr (), s5)"
    unfolding check_admission_and_start_def by (auto simp: py_Inr)
  from check_compose_Inr [OF this(1)] check_runtime_compose_Inr [OF this(2)] hygiene_Inr [OF h] show ?thesis
    unfolding compose_admitted_def by blast
qed

section \<open>The exit code\<close>

lemma redact_PStr: "redact secrets 0 (PStr t) = Inr (PStr (redact_text secrets t))"
  by (simp add: redact_def)

text \<open>What the end of the program asks of a checker: it follows a plan, its clean-up records nothing, its report can be built.\<close>

locale checker_program =
  fixes p :: program and names :: "pystr list"
  assumes construct: "adds (pr_construct p w a) []"
    and executes: "adds (pr_execute p w) names"
    and cleans: "adds (pr_cleanup p w) []"
    and reports: "list_all named items \<Longrightarrow> \<exists>report. pr_report p begun finished st items cmds = Inr report"
begin

lemma run_cases:
  obtains (constructed) self s r s1 c s2 cs where
      "pr_construct p w a initial_session = (Inr self, s)" "pr_execute p (w\<lparr>v_self := self\<rparr>) s = (r, s1)"
      "pr_cleanup p (w\<lparr>v_self := self\<rparr>) s1 = (c, s2)" "checks s2 = cs" "follows names cs r"
      "run_program class_name p w a = (after_cleanup (outcome class_name r) c, cs, commands s2, a_sensitive self)"
    | (failed) e s where "pr_construct p w a initial_session = (Inl e, s)" "run_program class_name p w a = (judged class_name e, [], [], [])"
proof (cases "pr_construct p w a initial_session")
  case (Pair r0 s)
  show thesis
  proof (cases r0)
    case (Inl e)
    with Pair show thesis by (intro failed) (simp_all add: run_program_def)
  next
    case (Inr self)
    obtain r s1 where e: "pr_execute p (w\<lparr>v_self := self\<rparr>) s = (r, s1)" by (cases "pr_execute p (w\<lparr>v_self := self\<rparr>) s")
    obtain c s2 where c: "pr_cleanup p (w\<lparr>v_self := self\<rparr>) s1 = (c, s2)" by (cases "pr_cleanup p (w\<lparr>v_self := self\<rparr>) s1")
    from construct [of w a] Pair have s: "checks s = []" by (metis adds_Nil_iff initial_session_def session.select_convs(1) snd_conv)
    from addsE [OF executes e] obtain cs where cs: "checks s1 = checks s @ cs" "follows names cs r" by blast
    from cleans c have "checks s2 = checks s1" by (metis adds_Nil_iff snd_conv)
    with s cs Pair Inr e c show thesis by (intro constructed [of self s r s1 c s2 cs]) (simp_all add: run_program_def)
  qed
qed

lemma exit_codes_of: "vd_code (judged class_name e) \<in> {1, 2}"
  by (cases e) (simp_all add: judged_def)

lemma verdict_status: "vd_status (judged class_name e) \<noteq> ''passed''"
  by (cases e) (simp_all add: judged_def)

lemma outcome_codes: "vd_code (after_cleanup (outcome class_name r) c) \<in> {0, 1, 2}"
  using exit_codes_of [of class_name] by (auto simp: after_cleanup_def outcome_def no_message_def split: sum.splits)

lemma outcome_zero: "vd_code (after_cleanup (outcome class_name r) c) = 0 \<longleftrightarrow> r = Inr () \<and> c = Inr ()"
  using exit_codes_of [of class_name "projl r"]
  by (auto simp: after_cleanup_def outcome_def no_message_def split: sum.splits if_splits)

lemma with_summary_Inr: "list_all named items \<Longrightarrow> \<exists>all_items. with_summary secrets v items = Inr all_items \<and> list_all named all_items"
  by (simp add: with_summary_def redact_PStr) (auto simp: summary_item_def named_def ps_def)

lemma report_of_Inr:
  assumes "list_all named items"
  shows "\<exists>report code. report_of p stamps (v, items, cmds, secrets) = Inr (report, code) \<and> (code = vd_code v \<or> code = 2)"
proof -
  obtain begun finished refused where st: "stamps = (begun, finished, refused)" by (cases stamps)
  from with_summary_Inr [OF assms] obtain all_items where a: "with_summary secrets v items = Inr all_items" "list_all named all_items" by blast
  from reports [OF a(2)] obtain report where r: "pr_report p begun finished (U (vd_status v)) all_items cmds = Inr report" by blast
  have "list_all named [unsafe_item]" by (simp add: unsafe_item_def named_def ps_def)
  from reports [OF this] obtain safe where "pr_report p begun refused (U ''error'') [unsafe_item] [] = Inr safe" by blast
  with a r st show ?thesis by (simp add: report_of_def)
qed

lemma run_named: "run_program class_name p w a = (v, items, cmds, secrets) \<Longrightarrow> list_all named items \<and> vd_code v \<in> {0, 1, 2}"
proof (cases rule: run_cases [of w a class_name])
  case (constructed self s r s1 c s2 cs)
  moreover assume "run_program class_name p w a = (v, items, cmds, secrets)"
  ultimately show ?thesis using outcome_codes [of class_name r c] by (auto simp: follows_def)
next
  case (failed e s)
  moreover assume "run_program class_name p w a = (v, items, cmds, secrets)"
  ultimately show ?thesis using exit_codes_of [of class_name e] by auto
qed

lemma main_codes:
  "main_of p class_name pl stamps emit w a \<in> {Inr 0, Inr 1, Inr 2} \<or> (\<exists>t e. emit t = Inl e \<and> main_of p class_name pl stamps emit w a = Inl e)"
proof -
  obtain v items cmds secrets where r: "run_program class_name p w a = (v, items, cmds, secrets)"
    by (cases "run_program class_name p w a")
  from run_named [OF r] report_of_Inr obtain report code where
    c: "report_of p stamps (v, items, cmds, secrets) = Inr (report, code)" "code \<in> {0, 1, 2}" by (metis insertCI)
  show ?thesis
  proof (cases "write_report pl (arg_output a) report")
    case (Inl x)
    let ?t = "U ''Cannot write public report: '' @ pl_describe pl x"
    show ?thesis
    proof (cases "emit ?t")
      case e: (Inl e)
      with r c Inl have "main_of p class_name pl stamps emit w a = Inl e" by (simp add: main_of_def Let_def)
      with e show ?thesis by blast
    qed (use r c Inl in \<open>simp add: main_of_def Let_def\<close>)
  next
    case (Inr u)
    let ?t = "U (pr_week p) @ U '' public check: '' @ U (vd_status v)"
    show ?thesis
    proof (cases "emit ?t")
      case e: (Inl e)
      with r c Inr have "main_of p class_name pl stamps emit w a = Inl e" by (simp add: main_of_def Let_def)
      with e show ?thesis by blast
    next
      case e: (Inr u)
      with r c Inr have "main_of p class_name pl stamps emit w a = Inr code" by (simp add: main_of_def Let_def)
      with c(2) show ?thesis by auto
    qed
  qed
qed

text \<open>A run that returned and left nothing behind, with the state at its end.\<close>

definition completed :: "world \<Rightarrow> args \<Rightarrow> attributes \<Rightarrow> session \<Rightarrow> bool" where
  "completed w a self t \<longleftrightarrow> (\<exists>s s1. pr_construct p w a initial_session = (Inr self, s) \<and>
     pr_execute p (w\<lparr>v_self := self\<rparr>) s = (Inr (), s1) \<and> pr_cleanup p (w\<lparr>v_self := self\<rparr>) s1 = (Inr (), t))"

lemma completed_plan: "completed w a self t \<Longrightarrow> map label (checks t) = names \<and> list_all check_passed (checks t)"
proof -
  assume "completed w a self t"
  then obtain s s1 where c: "pr_construct p w a initial_session = (Inr self, s)" "pr_execute p (w\<lparr>v_self := self\<rparr>) s = (Inr (), s1)"
    "pr_cleanup p (w\<lparr>v_self := self\<rparr>) s1 = (Inr (), t)" unfolding completed_def by blast
  from construct [of w a] c(1) have "checks s = []" by (metis adds_Nil_iff initial_session_def session.select_convs(1) snd_conv)
  moreover from cleans c(3) have "checks t = checks s1" by (metis adds_Nil_iff snd_conv)
  ultimately show ?thesis using adds_Inr [OF executes c(2)] by auto
qed

lemma main_zero_iff:
  "main_of p class_name pl stamps emit w a = Inr 0 \<longleftrightarrow>
     (\<exists>self t report. completed w a self t \<and>
        pr_report p (fst stamps) (fst (snd stamps)) (U ''passed'') (checks t) (commands t) = Inr report \<and>
        \<not> report_has_forbidden_keys report \<and> write_report pl (arg_output a) report = Inr () \<and>
        emit (U (pr_week p) @ U '' public check: passed'') = Inr ())" (is "?l \<longleftrightarrow> ?r")
proof -
  obtain begun finished refused where st: "stamps = (begun, finished, refused)" by (cases stamps)
  show ?thesis
  proof (cases rule: run_cases [of w a class_name])
    case (failed e s)
    have j: "vd_code (judged class_name e) \<noteq> 0" using exit_codes_of [of class_name e] by auto
    have nr: "report_of p stamps (judged class_name e, [], [], []) \<noteq> Inr (report, 0)" for report
      using report_of_Inr [of "[]" stamps "judged class_name e" "[]" "[]"] j by auto
    with failed(2) have "\<not> ?l" by (auto simp: main_of_def Let_def split: sum.splits)
    moreover from failed(1) have "\<not> ?r" by (auto simp: completed_def)
    ultimately show ?thesis by blast
  next
    case (constructed self s r s1 c s2 cs)
    let ?v = "after_cleanup (outcome class_name r) c"
    show ?thesis
    proof (cases "r = Inr () \<and> c = Inr ()")
      case True
      then have v: "?v = no_message" by (simp add: outcome_def after_cleanup_def)
      have fin: "completed w a self' t \<longleftrightarrow> self' = self \<and> t = s2" for self' t
        unfolding completed_def using constructed True by auto
      from constructed(5) True have n: "list_all named cs" by (simp add: follows_def)
      from reports [OF this] obtain report where rp: "pr_report p begun finished (U ''passed'') cs (commands s2) = Inr report" by blast
      have "list_all named [unsafe_item]" by (simp add: unsafe_item_def named_def ps_def)
      from reports [OF this] obtain safe where sf: "pr_report p begun refused (U ''error'') [unsafe_item] [] = Inr safe" by blast
      have msg: "U '' public check: '' @ U ''passed'' = U '' public check: passed''" by (simp add: U_append [symmetric])
      define rep where "rep = (if report_has_forbidden_keys report then (safe, 2::int) else (report, 0))"
      with rp sf st have "report_of p stamps (no_message, cs, commands s2, a_sensitive self) = Inr rep"
        by (simp add: report_of_def with_summary_def no_message_def)
      with constructed(6) v msg have m: "main_of p class_name pl stamps emit w a = (case write_report pl (arg_output a) (fst rep) of
          Inl e \<Rightarrow> res_bind (emit (U ''Cannot write public report: '' @ pl_describe pl e)) (\<lambda>_. Inr 2)
        | Inr _ \<Rightarrow> res_bind (emit (U (pr_week p) @ U '' public check: passed'')) (\<lambda>_. Inr (snd rep)))"
        by (simp add: main_of_def no_message_def case_prod_beta split: sum.split)
      have "?l \<longleftrightarrow> write_report pl (arg_output a) (fst rep) = Inr () \<and>
          emit (U (pr_week p) @ U '' public check: passed'') = Inr () \<and> snd rep = 0"
        unfolding m by (cases "write_report pl (arg_output a) (fst rep)") auto
      with fin rp st constructed(4) show ?thesis by (auto simp: rep_def)
    next
      case False
      have "vd_code ?v \<noteq> 0" using False outcome_zero by blast
      from constructed(5) have n: "list_all named cs" by (simp add: follows_def)
      have nr: "report_of p stamps (?v, cs, commands s2, a_sensitive self) \<noteq> Inr (report, 0)" for report
        using report_of_Inr [OF n, of stamps ?v "commands s2" "a_sensitive self"] \<open>vd_code ?v \<noteq> 0\<close> by auto
      with constructed(6) have "\<not> ?l" by (auto simp: main_of_def Let_def split: sum.splits)
      moreover from constructed(1-3) False have "\<not> ?r" by (auto simp: completed_def)
      ultimately show ?thesis by blast
    qed
  qed
qed

end

section \<open>Week 3\<close>

lemma build_report_Inr: "list_all named items \<Longrightarrow> \<exists>report. Week3_Checker.build_report begun finished st items cmds = Inr report"
proof -
  assume "list_all named items"
  then have "\<exists>vs. failed_checks items = Inr vs"
    unfolding failed_checks_def by (induction items) (auto simp: named_def ditem_def split: option.splits)
  then show ?thesis by (auto simp: Week3_Checker.build_report_def)
qed

lemma adds_new_checker: "adds (new_checker w a) []"
  unfolding new_checker_def new_token_def by (rule quiet_rules)+

lemma adds_cleanup: "adds (cleanup w) []"
  unfolding cleanup_def by (rule quiet_rules)+

interpretation week3_run: checker_program week3_program "plan week3_names"
  by unfold_locales (simp_all add: week3_program_def adds_new_checker adds_execute adds_cleanup build_report_Inr)

lemma week3_plan: "plan week3_names = map U week3_names"
  by code_simp

lemma follows_unguarded:
  assumes "follows ns cs r" "guarded \<notin> set ns" "r = Inl e"
  shows "cs = [] \<or> check_passed (last cs) \<or> is_ContractError e"
proof (cases "cs = []")
  case False
  from assms have "prefix (map label cs) ns" by (simp add: follows_def)
  from set_mono_prefix [OF this] False have "label (last cs) \<in> set ns" by auto
  with assms(2) have "label (last cs) \<noteq> guarded" by auto
  with assms(1,3) show ?thesis by (simp add: follows_def)
qed simp

lemma week3_unguarded: "guarded \<notin> set (plan week3_names)"
  by code_simp

section \<open>Properties\<close>

text \<open>
  C24. Every run of the checker of week 3 follows its plan of 58 checks. A run that returns has recorded exactly these
  checks, in this order, and all passed. A run that raises has recorded the first ones of them, of which at most the last
  failed, and a failed check is raised as a \<^verbatim>\<open>ContractError\<close>; nothing that was recorded before is changed.
\<close>

theorem week3_run_follows_plan:
  "case execute w s of (r, t) \<Rightarrow> \<exists>cs. checks t = checks s @ cs \<and> (case r of
     Inr _ \<Rightarrow> map label cs = map U week3_names \<and> list_all check_passed cs
   | Inl e \<Rightarrow> prefix (map label cs) (map U week3_names) \<and> list_all check_passed (butlast cs) \<and>
       (cs = [] \<or> check_passed (last cs) \<or> is_ContractError e))"
proof -
  obtain r t where e: "execute w s = (r, t)" by (cases "execute w s")
  from addsE [OF adds_execute e] obtain cs where "checks t = checks s @ cs" "follows (plan week3_names) cs r" by blast
  moreover have "is_ContractError x" if "r = Inl x" "cs \<noteq> []" "\<not> check_passed (last cs)" for x
    using follows_unguarded [OF calculation(2) week3_unguarded that(1)] that by blast
  ultimately show ?thesis unfolding e prod.case
    by (intro exI [of _ cs]) (auto simp: follows_def week3_plan split: sum.splits)
qed

text \<open>The run of week 3, from the construction of the checker to the end of its clean-up.\<close>

definition week3_completed :: "world \<Rightarrow> args \<Rightarrow> world \<Rightarrow> session \<Rightarrow> bool" where
  "week3_completed w a w' t \<longleftrightarrow> (\<exists>self s s1. w' = w\<lparr>v_self := self\<rparr> \<and> new_checker w a initial_session = (Inr self, s) \<and>
     execute w' s = (Inr (), s1) \<and> cleanup w' s1 = (Inr (), t))"

lemma week3_completed_iff: "week3_completed w a w' t \<longleftrightarrow> (\<exists>self. w' = w\<lparr>v_self := self\<rparr> \<and> week3_run.completed w a self t)"
  unfolding week3_completed_def week3_run.completed_def by (auto simp: week3_program_def)

lemma week3_completed_accepts: "week3_completed w a w' t \<Longrightarrow> compose_admitted w' \<and> logs_clean w'"
  by (auto simp: week3_completed_def dest: execute_accepts)

lemma week3_completed_plan: "week3_completed w a w' t \<Longrightarrow> map label (checks t) = map U week3_names \<and> list_all check_passed (checks t)"
  unfolding week3_completed_iff by (auto dest: week3_run.completed_plan simp: week3_plan)

text \<open>
  C23. The exit code 0 means acceptance, and nothing less gives it: the program ends with 0 exactly when the checker was
  constructed, the whole run and the clean-up returned, so that all 58 checks are recorded and passed, the two Compose
  configurations printed by Docker have no findings, no secret stands in the logs, and the report of the run has no
  forbidden key, is written and announced.
\<close>

theorem week3_exit_zero_iff:
  "main class_name pl stamps emit w a = Inr 0 \<longleftrightarrow>
     (\<exists>w' t report. week3_completed w a w' t \<and> map label (checks t) = map U week3_names \<and> list_all check_passed (checks t) \<and>
        compose_admitted w' \<and> logs_clean w' \<and>
        Week3_Checker.build_report (fst stamps) (fst (snd stamps)) (U ''passed'') (checks t) (commands t) = Inr report \<and>
        \<not> report_has_forbidden_keys report \<and> write_report pl (arg_output a) report = Inr () \<and>
        emit (U ''week-3 public check: passed'') = Inr ())"
proof -
  have msg: "U (pr_week week3_program) @ U '' public check: passed'' = U ''week-3 public check: passed''"
    by (simp add: week3_program_def U_append [symmetric])
  have rep: "pr_report week3_program = Week3_Checker.build_report" by (simp add: week3_program_def)
  show ?thesis
    unfolding main_def week3_run.main_zero_iff msg rep using week3_completed_accepts week3_completed_plan week3_completed_iff by metis
qed

text \<open>
  C25. Whatever the submission, Docker, the database and the file system do, the program ends with 0, 1 or 2: no exception
  leaves it, unless printing its last line fails.
\<close>

theorem week3_exit_codes:
  "main class_name pl stamps emit w a \<in> {Inr 0, Inr 1, Inr 2} \<or>
   (\<exists>t e. emit t = Inl e \<and> main class_name pl stamps emit w a = Inl e)"
  unfolding main_def by (rule week3_run.main_codes)

section \<open>Canonical UUIDs\<close>

lemma replace_ne_absent: "a \<notin> set s \<Longrightarrow> replace_ne (a # cs) new s = s"
proof (induction s)
  case (Cons c s)
  then show ?case by (subst replace_ne.simps) simp
qed (simp add: replace_ne.simps)

lemma replace_ne_char: "replace_ne [a] [] s = filter (\<lambda>c. c \<noteq> a) s"
proof (induction s)
  case (Cons c s)
  then show ?case by (subst replace_ne.simps) simp
qed (simp add: replace_ne.simps)

lemma strip_by_none: "\<forall>c\<in>set s. \<not> p c \<Longrightarrow> strip_by p s = s"
proof -
  assume a: "\<forall>c\<in>set s. \<not> p c"
  then have "dropWhile p s = s" "dropWhile p (rev s) = rev s" by (auto simp: dropWhile_eq_self_iff hd_rev)
  then show ?thesis by (simp add: strip_by_def lstrip_by_def rstrip_by_def)
qed

lemma length_hex32 [simp]: "length (hex32 n) = 32"
  by (simp add: hex32_def)

lemma digit16_hex_digit: "d < 16 \<Longrightarrow> digit16 (hex_digit d) = Some d"
proof -
  have "list_all (\<lambda>d. digit16 (hex_digit d) = Some d) [0..<16]" by code_simp
  then show "d < 16 \<Longrightarrow> digit16 (hex_digit d) = Some d" by (auto simp: list_all_iff)
qed

lemma digits16_hex:
  "digits16 prev acc (map (\<lambda>i. hex_digit (n div 16 ^ i mod 16)) (rev [0..<k]) @ cs) =
     (if k = 0 then digits16 prev acc cs else digits16 True (acc * 16 ^ k + n mod 16 ^ k) cs)"
proof (induction k arbitrary: prev acc)
  case (Suc k)
  let ?d = "n div 16 ^ k mod 16"
  have "hex_digit ?d \<noteq> 95" by (simp add: hex_digit_def)
  then have "digits16 prev acc (map (\<lambda>i. hex_digit (n div 16 ^ i mod 16)) (rev [0..<Suc k]) @ cs) =
      digits16 True (16 * acc + ?d) (map (\<lambda>i. hex_digit (n div 16 ^ i mod 16)) (rev [0..<k]) @ cs)"
    by (simp add: digit16_hex_digit)
  also have "\<dots> = digits16 True ((16 * acc + ?d) * 16 ^ k + n mod 16 ^ k) cs" unfolding Suc.IH by simp
  also have "(16 * acc + ?d) * 16 ^ k + n mod 16 ^ k = acc * 16 ^ Suc k + n mod 16 ^ Suc k"
  proof -
    have "n mod 16 ^ Suc k = 16 ^ k * ?d + n mod 16 ^ k"
      by (metis mod_mult2_eq power_Suc2)
    then show ?thesis by (simp add: algebra_simps)
  qed
  finally show ?case by simp
qed simp

lemma digit16_less: "digit16 c = Some d \<Longrightarrow> d < 16"
proof -
  have "digit_value c = Some d \<Longrightarrow> d < 16"
    by (auto simp: digit_value_def split: option.splits dest!: find_SomeD)
  then show "digit16 c = Some d \<Longrightarrow> d < 16" by (auto simp: digit16_def in_range_def split: if_splits)
qed

lemma digits16_bound: "digits16 prev acc s = Some r \<Longrightarrow> r < (acc + 1) * 16 ^ length s"
proof (induction prev acc s rule: digits16.induct)
  case (2 prev acc c cs)
  show ?case
  proof (cases "c = 95")
    case True
    with 2 have "r < (acc + 1) * 16 ^ length cs" by (auto split: if_splits)
    then show ?thesis by simp
  next
    case False
    with 2 obtain d where d: "digit16 c = Some d" "digits16 True (16 * acc + d) cs = Some r" by (auto split: option.splits)
    with 2 False have "r < (16 * acc + d + 1) * 16 ^ length cs" by auto
    also have "\<dots> \<le> (16 * (acc + 1)) * 16 ^ length cs" using digit16_less [OF d(1)] by (intro mult_right_mono) simp_all
    finally show ?thesis by (simp add: algebra_simps)
  qed
qed (auto split: if_splits)

lemma int16_bound: "int16 s = Some m \<Longrightarrow> m < 16 ^ length s"
proof -
  have l: "length (drop_0x u) \<le> length u" for u by (simp add: drop_0x_def Let_def)
  have st: "length (strip s) \<le> length s"
    by (metis length_dropWhile_le length_rev lstrip_by_def order_trans rstrip_by_def strip_by_def)
  assume a: "int16 s = Some m"
  define u where "u = (if startswith (strip s) (U ''-'') \<or> startswith (strip s) (U ''+'') then drop 1 (strip s) else strip s)"
  from a obtain n where n: "digits16 False 0 (drop_0x u) = Some n" "m \<le> int n"
    unfolding int16_def Let_def u_def by (auto split: if_splits)
  have "length (drop_0x u) \<le> length s" using l [of u] st unfolding u_def by (smt (verit) diff_le_self dual_order.trans length_drop)
  then have "(16::nat) ^ length (drop_0x u) \<le> 16 ^ length s" by (simp add: power_increasing)
  moreover have "n < 16 ^ length (drop_0x u)" using digits16_bound [OF n(1)] by simp
  ultimately have "n < 16 ^ length s" by (rule order.strict_trans2 [rotated])
  then have "int n < 16 ^ length s" by (metis of_nat_less_iff of_nat_numeral of_nat_power)
  with n(2) show ?thesis by (rule le_less_trans)
qed

lemma hyphenated_filter:
  assumes "45 \<notin> set u"
  shows "filter (\<lambda>c. c \<noteq> 45) (hyphenated u) = u"
proof -
  have d: "U ''-'' = [45]" by code_simp
  have f: "filter (\<lambda>c. c \<noteq> 45) (take i (drop j u)) = take i (drop j u)" for i j
    using assms by (intro filter_True) (metis in_set_dropD in_set_takeD)
  have g: "take 4 (drop n u) @ drop (n + 4) u = drop n u" for n
    by (metis add.commute append_take_drop_id drop_drop)
  have "filter (\<lambda>c. c \<noteq> 45) (hyphenated u) = take 8 u @ take 4 (drop 8 u) @ take 4 (drop 12 u) @ take 4 (drop 16 u) @ drop 20 u"
    using f [of _ 0] f [of "length u"] unfolding hyphenated_def d
    by (simp add: f)
  with g [of 8] g [of 12] g [of 16] show ?thesis by simp
qed

lemma hex32_chars: "c \<in> set (hex32 n) \<Longrightarrow> c \<notin> {45, 43, 95, 117, 120, 88, 123, 125} \<and> \<not> is_space c"
  using hex32_plain [of c n] by (auto simp: in_range_def is_space_def)

lemma uuid_digits_hyphenated: "uuid_digits (hyphenated (hex32 n)) = hex32 n"
proof -
  let ?u = "hyphenated (hex32 n)"
  have c: "c \<notin> {117, 123, 125}" if "c \<in> set ?u" for c
    using hyphenated_set [OF that] hex32_chars [of c n] by auto
  have l: "U ''urn:'' = [117, 114, 110, 58]" "U ''uuid:'' = [117, 117, 105, 100, 58]" "U ''-'' = [45]" by code_simp+
  have "117 \<notin> set ?u" using c by blast
  then have r: "replace_str (U ''urn:'') [] ?u = ?u" "replace_str (U ''uuid:'') [] ?u = ?u"
    by (simp_all add: replace_str_def l replace_ne_absent)
  have s: "strip_by (\<lambda>c. c = 123 \<or> c = 125) ?u = ?u" using c by (intro strip_by_none) blast
  have "45 \<notin> set (hex32 n)" using hex32_chars by blast
  then show ?thesis unfolding uuid_digits_def r s by (simp add: replace_str_def l replace_ne_char hyphenated_filter)
qed

lemma int16_hex32: "n < 16 ^ 32 \<Longrightarrow> int16 (hex32 n) = Some (int n)"
proof -
  assume "n < 16 ^ 32"
  have s: "strip (hex32 n) = hex32 n" using hex32_chars by (intro strip_by_none) blast
  have st: "\<not> startswith (hex32 n) (a # as)" if "a \<notin> set (hex32 n)" for a as
    using that by (auto simp: startswith_def) (metis in_set_takeD list.set_intros(1))
  have l: "U ''-'' = [45]" "U ''+'' = [43]" by code_simp+
  have x: "\<not> startswith (hex32 n) (U ''0x'')" "\<not> startswith (hex32 n) (U ''0X'')"
  proof -
    have "U ''0x'' = [48, 120]" "U ''0X'' = [48, 88]" by code_simp+
    moreover have "120 \<notin> set (hex32 n)" "88 \<notin> set (hex32 n)" using hex32_chars by blast+
    ultimately show "\<not> startswith (hex32 n) (U ''0x'')" "\<not> startswith (hex32 n) (U ''0X'')"
      by (auto simp: startswith_def) (metis in_set_takeD list.set_intros)+
  qed
  have "45 \<notin> set (hex32 n)" "43 \<notin> set (hex32 n)" using hex32_chars by blast+
  with st have "\<not> startswith (hex32 n) (U ''-'')" "\<not> startswith (hex32 n) (U ''+'')" by (simp_all add: l)
  moreover have "digits16 False 0 (hex32 n) = Some n"
    using digits16_hex [of False 0 n 32 "[]"] \<open>n < 16 ^ 32\<close> by (simp add: hex32_def)
  ultimately show ?thesis using s x by (simp add: int16_def Let_def drop_0x_def)
qed

lemma uuid_text_canonical:
  assumes "uuid_text s = Some t"
  shows "\<exists>n. n < 16 ^ 32 \<and> int16 (uuid_digits s) = Some (int n) \<and> t = hyphenated (hex32 n) \<and> uuid_text t = Some t"
proof -
  have is_uuid: "is_uuid s \<longleftrightarrow> length (uuid_digits s) = 32 \<and> (case int16 (uuid_digits s) of None \<Rightarrow> False | Some n \<Rightarrow> 0 \<le> n)" for s
    by (simp add: is_uuid_def uuid_digits_def Let_def)
  from assms obtain m where m: "length (uuid_digits s) = 32" "int16 (uuid_digits s) = Some m" "0 \<le> m" "t = hyphenated (hex32 (nat m))"
    by (auto simp: uuid_text_def is_uuid split: if_splits option.splits)
  define n where "n = nat m"
  from int16_bound [OF m(2)] m(1,3) have b: "n < 16 ^ 32" by (simp add: n_def nat_less_iff)
  have t: "t = hyphenated (hex32 n)" using m(4) by (simp add: n_def)
  have "uuid_digits t = hex32 n" "int16 (hex32 n) = Some (int n)" using uuid_digits_hyphenated int16_hex32 [OF b] t by simp_all
  then have "uuid_text t = Some t" by (simp add: uuid_text_def is_uuid t)
  with b m(2,3) t show ?thesis by (intro exI [of _ n]) (simp add: n_def)
qed

section \<open>Literals in a query\<close>

lemma split_ch_app: "split_ch sep (a @ sep # b) = split_ch sep a @ split_ch sep b"
proof (induction a)
  case (Cons c a)
  then show ?case by (cases "split_ch sep a") (auto simp: split_ch_ne)
qed simp

text \<open>A text without quotes that is put between two quotes is one piece of the query, and the other pieces do not depend on it.\<close>

lemma literal_piece:
  assumes "39 \<notin> set t" "a = a' @ [39]" "39 \<notin> set a'" "b = 39 # b'"
  shows "split_ch 39 (a @ t @ b) = (split_ch 39 (a @ [] @ b))[1 := t]"
  using assms split_ch_app [of 39 a' "t @ 39 # b'"] split_ch_app [of 39 a' "39 # b'"] split_ch_app [of 39 t b']
  by (simp add: split_ch_none)

definition between_quotes :: "pystr \<Rightarrow> pystr \<Rightarrow> bool" where
  "between_quotes a b \<longleftrightarrow> a \<noteq> [] \<and> last a = 39 \<and> 39 \<notin> set (butlast a) \<and> b \<noteq> [] \<and> hd b = 39"

lemma quoted_piece: "between_quotes a b \<Longrightarrow> 39 \<notin> set t \<Longrightarrow> split_ch 39 (a @ t @ b) = (split_ch 39 (a @ [] @ b))[1 := t]"
  unfolding between_quotes_def by (intro literal_piece [of t a "butlast a" b "tl b"]) (simp_all, metis append_butlast_last_id, metis list.collapse)

fun unhex :: "pystr \<Rightarrow> pybytes option" where
  "unhex [] = Some []"
| "unhex (a # b # cs) = (case (digit16 a, digit16 b, unhex cs) of
     (Some x, Some y, Some bs) \<Rightarrow> Some ((16 * x + y) # bs) | _ \<Rightarrow> None)"
| "unhex [c] = None"

lemma unhex_hexdigest: "\<forall>b\<in>set bs. b < 256 \<Longrightarrow> unhex (hexdigest bs) = Some bs"
proof (induction bs)
  case (Cons b bs)
  then have "b div 16 < 16" "unhex (hexdigest bs) = Some bs" by auto
  then show ?case by (simp add: hexdigest_def digit16_hex_digit)
qed (simp add: hexdigest_def)

text \<open>The queries of the run that take an identifier, and those that take a text.\<close>

definition uuid_queries :: "(pystr \<Rightarrow> pystr) list" where
  "uuid_queries = [operation_query, external_request_query, external_ids_query, decision_query, process_query, steps_query, decisions_query]"

definition text_queries :: "(pystr \<Rightarrow> pystr) list" where
  "text_queries = [outbox_query, evidence_query, message_query, inbox_receipt_query, inbox_state_query]"

definition text_literal :: "pybytes \<Rightarrow> pystr" where
  "text_literal bs = sql ''convert_from(decode(`'' @ hexdigest bs @ sql ''`, `hex`), `UTF8`)''"

lemma quoted_two: "between_quotes (a @ c) d \<Longrightarrow> 39 \<notin> set t \<Longrightarrow> split_ch 39 (a @ c @ t @ d) = (split_ch 39 (a @ c @ [] @ d))[1 := t]"
  using quoted_piece [of "a @ c" d t] by simp

lemma quoted_three:
  "between_quotes (a @ b @ c) d \<Longrightarrow> 39 \<notin> set t \<Longrightarrow> split_ch 39 (a @ b @ c @ t @ d) = (split_ch 39 (a @ b @ c @ [] @ d))[1 := t]"
  using quoted_piece [of "a @ b @ c" d t] by simp

lemma quoted_four:
  "between_quotes (a @ b @ c @ e) d \<Longrightarrow> 39 \<notin> set t \<Longrightarrow>
   split_ch 39 (a @ b @ c @ e @ t @ d) = (split_ch 39 (a @ b @ c @ e @ [] @ d))[1 := t]"
  using quoted_piece [of "a @ b @ c @ e" d t] by simp

lemma quoted_six:
  "between_quotes (a @ b @ c @ e @ f @ g) d \<Longrightarrow> 39 \<notin> set t \<Longrightarrow>
   split_ch 39 (a @ b @ c @ e @ f @ g @ t @ d) = (split_ch 39 (a @ b @ c @ e @ f @ g @ [] @ d))[1 := t]"
  using quoted_piece [of "a @ b @ c @ e @ f @ g" d t] by simp

lemma quoted_many:
  "between_quotes (a @ b @ c @ e @ f @ g @ h') d \<Longrightarrow> 39 \<notin> set t \<Longrightarrow>
   split_ch 39 (a @ b @ c @ e @ f @ g @ h' @ t @ d) = (split_ch 39 (a @ b @ c @ e @ f @ g @ h' @ [] @ d))[1 := t]"
  using quoted_piece [of "a @ b @ c @ e @ f @ g @ h'" d t] by simp

lemma uuid_queries_pieces:
  assumes "39 \<notin> set t"
  shows "list_all (\<lambda>q. split_ch 39 (q t) = (split_ch 39 (q []))[1 := t]) uuid_queries"
proof -
  have "split_ch 39 (operation_query t) = (split_ch 39 (operation_query []))[1 := t]"
    unfolding operation_query_def by (rule quoted_three [OF _ assms]) code_simp
  moreover have "split_ch 39 (external_request_query t) = (split_ch 39 (external_request_query []))[1 := t]"
    unfolding external_request_query_def by (rule quoted_three [OF _ assms]) code_simp
  moreover have "split_ch 39 (external_ids_query t) = (split_ch 39 (external_ids_query []))[1 := t]"
    unfolding external_ids_query_def by (rule quoted_two [OF _ assms]) code_simp
  moreover have "split_ch 39 (decision_query t) = (split_ch 39 (decision_query []))[1 := t]"
    unfolding decision_query_def by (rule quoted_two [OF _ assms]) code_simp
  moreover have "split_ch 39 (process_query t) = (split_ch 39 (process_query []))[1 := t]"
    unfolding process_query_def by (rule quoted_two [OF _ assms]) code_simp
  moreover have "split_ch 39 (steps_query t) = (split_ch 39 (steps_query []))[1 := t]"
    unfolding steps_query_def by (rule quoted_two [OF _ assms]) code_simp
  moreover have "split_ch 39 (decisions_query t) = (split_ch 39 (decisions_query []))[1 := t]"
    unfolding decisions_query_def by (rule quoted_two [OF _ assms]) code_simp
  ultimately show ?thesis by (simp add: uuid_queries_def)
qed

lemma hexdigest_Nil: "hexdigest [] = []"
  by (simp add: hexdigest_def)

lemma text_queries_pieces:
  assumes "39 \<notin> set (hexdigest bs)"
  shows "list_all (\<lambda>q. split_ch 39 (q (text_literal bs)) = (split_ch 39 (q (text_literal [])))[1 := hexdigest bs]) text_queries"
proof -
  have "split_ch 39 (outbox_query (text_literal bs)) = (split_ch 39 (outbox_query (text_literal [])))[1 := hexdigest bs]"
    unfolding outbox_query_def text_literal_def hexdigest_Nil by (rule quoted_four [OF _ assms]) code_simp
  moreover have "split_ch 39 (evidence_query (text_literal bs)) = (split_ch 39 (evidence_query (text_literal [])))[1 := hexdigest bs]"
    unfolding evidence_query_def text_literal_def hexdigest_Nil by (rule quoted_many [OF _ assms]) code_simp
  moreover have "split_ch 39 (message_query (text_literal bs)) = (split_ch 39 (message_query (text_literal [])))[1 := hexdigest bs]"
    unfolding message_query_def text_literal_def hexdigest_Nil by (rule quoted_three [OF _ assms]) code_simp
  moreover have "split_ch 39 (inbox_receipt_query (text_literal bs)) = (split_ch 39 (inbox_receipt_query (text_literal [])))[1 := hexdigest bs]"
    unfolding inbox_receipt_query_def text_literal_def hexdigest_Nil by (rule quoted_six [OF _ assms]) code_simp
  moreover have "split_ch 39 (inbox_state_query (text_literal bs)) = (split_ch 39 (inbox_state_query (text_literal [])))[1 := hexdigest bs]"
    unfolding inbox_state_query_def text_literal_def hexdigest_Nil by (rule quoted_three [OF _ assms]) code_simp
  ultimately show ?thesis by (simp add: text_queries_def)
qed

text \<open>
  C26. What a submission puts into a row cannot change the query that it is put into. An identifier is either refused by a
  \<^verbatim>\<open>ContractError\<close> or it is a text that denotes a UUID, and what stands in the queries is the canonical text of that same
  UUID: 32 lower-case hexadecimal digits of its 128-bit number in the five groups, which reads as itself. Any other text
  stands in the queries as the hexadecimal digits of its UTF-8 bytes, from which exactly the text is decoded, or it is
  refused by \<^verbatim>\<open>UnicodeEncodeError\<close> because it holds a lone surrogate. In each query the value fills the first literal: split at
  the quotes, the query has the value as its second piece, and all other pieces are the same for every value.
\<close>

theorem identifiers_are_inert:
  "(case uuid_of v field of
      Inl e \<Rightarrow> is_ContractError e
    | Inr t \<Rightarrow> (\<exists>s n. v = PStr s \<and> int16 (uuid_digits s) = Some (int n) \<and> n < 16 ^ 32 \<and> t = hyphenated (hex32 n)) \<and>
        uuid_text t = Some t \<and> list_all (\<lambda>q. split_ch 39 (q t) = (split_ch 39 (q []))[1 := t]) uuid_queries) \<and>
   (case sql_text x of
      Inl e \<Rightarrow> e = UnicodeEncodeError \<and> \<not> encodable x
    | Inr t \<Rightarrow> \<exists>bs. utf8_decode bs = Inr x \<and> unhex (hexdigest bs) = Some bs \<and> t = text_literal bs \<and>
        list_all (\<lambda>q. split_ch 39 (q t) = (split_ch 39 (q (text_literal [])))[1 := hexdigest bs]) text_queries)"
proof -
  have "(\<exists>n. v = PStr s \<and> int16 (uuid_digits s) = Some (int n) \<and> n < 16 ^ 32 \<and> t = hyphenated (hex32 n)) \<and>
      uuid_text t = Some t \<and> list_all (\<lambda>q. split_ch 39 (q t) = (split_ch 39 (q []))[1 := t]) uuid_queries"
    if "v = PStr s" "uuid_text s = Some t" for s t
  proof -
    have "39 \<notin> set t" using uuid_text_plain [OF that(2), of 39] by (auto simp: in_range_def)
    from uuid_queries_pieces [OF this] uuid_text_canonical [OF that(2)] that(1) show ?thesis by blast
  qed
  then have "case uuid_of v field of
      Inl e \<Rightarrow> is_ContractError e
    | Inr t \<Rightarrow> (\<exists>s n. v = PStr s \<and> int16 (uuid_digits s) = Some (int n) \<and> n < 16 ^ 32 \<and> t = hyphenated (hex32 n)) \<and>
        uuid_text t = Some t \<and> list_all (\<lambda>q. split_ch 39 (q t) = (split_ch 39 (q []))[1 := t]) uuid_queries"
    unfolding uuid_of_def is_ContractError_def by (auto split: pyval.split option.split)
  moreover have "case sql_text x of
      Inl e \<Rightarrow> e = UnicodeEncodeError \<and> \<not> encodable x
    | Inr t \<Rightarrow> \<exists>bs. utf8_decode bs = Inr x \<and> unhex (hexdigest bs) = Some bs \<and> t = text_literal bs \<and>
        list_all (\<lambda>q. split_ch 39 (q t) = (split_ch 39 (q (text_literal [])))[1 := hexdigest bs]) text_queries"
  proof (cases "utf8_encode x")
    case (Inl e)
    then show ?thesis using utf8_encode_Inl [OF Inl] utf8_encode_cases [of x] by (auto simp: sql_text_def)
  next
    case (Inr bs)
    note b = utf8_encode_bytes [OF Inr]
    then have "39 \<notin> set (hexdigest bs)" using hexdigest_lower_hex [of bs 39] by auto
    from text_queries_pieces [OF this] unhex_hexdigest [OF b] utf8_decode_encode [OF Inr] Inr show ?thesis
      by (auto simp: sql_text_def text_literal_def)
  qed
  ultimately show ?thesis by blast
qed

end
