(* ===== verification/Week4_Harness.thy ===== *)
theory Week4_Harness
  imports Week4_Metrics Week3_Http
begin

text \<open>
  \<^verbatim>\<open>ComposeHarness\<close> of \<^verbatim>\<open>task/week4/autocheck/public_check.py\<close>. Most of its methods have the text of week 3 and are taken from
  \<^verbatim>\<open>Week3_Session\<close> and \<^verbatim>\<open>Week3_Http\<close>; the others read the state of a container and its addresses, and send queries and
  requests directly to the ports that the override file publishes on the loopback address.
\<close>

section \<open>Methods with the text of week 3\<close>

named_theorems week4_same

definition run_with :: "world \<Rightarrow> pystr list \<Rightarrow> rat \<Rightarrow> (pystr \<times> pystr) list \<Rightarrow> CommandResult act" where
  [week4_same]: "run_with = Week3_Session.run_with"

definition run :: "world \<Rightarrow> pystr list \<Rightarrow> rat \<Rightarrow> CommandResult act" where
  [week4_same]: "run = Week3_Session.run"

definition require_docker_result :: "world \<Rightarrow> CommandResult \<Rightarrow> pystr \<Rightarrow> unit act" where
  [week4_same]: "require_docker_result = Week3_Session.require_docker_result"

definition compose_with :: "world \<Rightarrow> pystr list \<Rightarrow> bool \<Rightarrow> rat \<Rightarrow> (pystr \<times> pystr) list \<Rightarrow> CommandResult act" where
  [week4_same]: "compose_with = Week3_Session.compose_with"

definition compose :: "world \<Rightarrow> pystr list \<Rightarrow> rat \<Rightarrow> CommandResult act" where
  [week4_same]: "compose = Week3_Session.compose"

text \<open>A command of Compose and \<^verbatim>\<open>require_docker_result\<close> behind it.\<close>

definition require_compose :: "world \<Rightarrow> pystr list \<Rightarrow> rat \<Rightarrow> pystr \<Rightarrow> unit act" where
  [week4_same]: "require_compose = Week3_Session.require_compose"

definition runtime_config :: "world \<Rightarrow> CommandResult act" where
  [week4_same]: "runtime_config = Week3_Session.runtime_config"

definition container_id :: "world \<Rightarrow> pystr \<Rightarrow> pystr act" where
  [week4_same]: "container_id = Week3_Session.container_id"

definition image_id :: "world \<Rightarrow> pystr \<Rightarrow> pystr act" where
  [week4_same]: "image_id = Week3_Session.image_id"

definition local_image_id :: "world \<Rightarrow> pystr \<Rightarrow> pystr act" where
  [week4_same]: "local_image_id = Week3_Session.local_image_id"

definition main_process_executable :: "world \<Rightarrow> pystr \<Rightarrow> pystr act" where
  [week4_same]: "main_process_executable = Week3_Session.main_process_executable"

definition process_text :: "world \<Rightarrow> pystr \<Rightarrow> pystr act" where
  [week4_same]: "process_text = Week3_Session.process_text"

definition process_commands :: "world \<Rightarrow> pystr \<Rightarrow> pystr list act" where
  [week4_same]: "process_commands = Week3_Session.process_commands"

definition http :: "world \<Rightarrow> pystr \<Rightarrow> pystr \<Rightarrow> pybytes option \<Rightarrow> (pystr \<times> pystr) list \<Rightarrow> rat \<Rightarrow> HttpResult act" where
  [week4_same]: "http = Week3_Http.http"

definition wait_gateway_for :: "world \<Rightarrow> rat \<Rightarrow> unit act" where
  [week4_same]: "wait_gateway_for = Week3_Http.wait_gateway_for"

definition action_with :: "world \<Rightarrow> string \<Rightarrow> string \<Rightarrow> pydict \<Rightarrow> pystr \<Rightarrow> pystr option \<Rightarrow> (pystr \<times> pystr) list \<Rightarrow> HttpResult act" where
  [week4_same]: "action_with = Week3_Http.action_with"

section \<open>Containers\<close>

definition candidate_config :: "world \<Rightarrow> (pystr \<times> pystr) list \<Rightarrow> CommandResult act" where
  "candidate_config w extra =
     compose_with w (map U [''config'', ''--format'', ''json'', ''--no-env-resolution'']) False 30
       (dict_of ((U ''COURSE_GATEWAY_PORT'', U ''8080'') # extra))"

definition SERVICE_STATE :: regex where
  "SERVICE_STATE = rseqs [RGroup 1 (rplus (RCls (in_range 97 122))), rplus rspace, RGroup 2 (RSeq (ropt (rch 45)) (rplus rdigit)), RStar rspace]"

definition read_state :: "pystr \<Rightarrow> pystr \<Rightarrow> (pystr \<times> int) res" where
  "read_state message out = (case fullmatch SERVICE_STATE out of
     None \<Rightarrow> Inl (ContractError message)
   | Some found \<Rightarrow> res_bind (int_of_str (grp 2 found)) (\<lambda>code. Inr (grp 1 found, code)))"

definition service_state :: "world \<Rightarrow> pystr \<Rightarrow> (pystr \<times> int) act" where
  "service_state w service =
     (let missing = U ''service '' @ service @ U '' has no container''; message = U ''cannot inspect state for '' @ service in
     py_bind (compose w [U ''ps'', U ''-a'', U ''-q'', service] 15) (\<lambda>result.
     py_seq (require_docker_result w result missing) (
     let container = strip (stdout result) in
     if \<not> fullmatch_ok CONTAINER_ID container then py_raise (ContractError missing)
     else py_bind (run w (map U [''docker'', ''inspect'', ''--format'', ''{{.State.Status}} {{.State.ExitCode}}''] @ [container]) 15) (\<lambda>inspected.
       py_seq (require_docker_result w inspected message) (py_lift (read_state message (stdout inspected)))))))"

definition network_address :: "pyval \<Rightarrow> pystr list" where
  "network_address network = (case network of
     PDict d \<Rightarrow> (let address = dget_none d (U ''IPAddress'') in if truthy address then [py_str address] else [])
   | _ \<Rightarrow> [])"

text \<open>The addresses in the output of \<^verbatim>\<open>docker inspect\<close>; each of them is read by \<^verbatim>\<open>ipaddress.ip_address\<close>.\<close>

definition network_addresses :: "nat \<Rightarrow> pystr \<Rightarrow> pystr set res" where
  "network_addresses depth out =
     res_bind (loads depth out) (\<lambda>networks. case networks of
       PDict d \<Rightarrow> (let addresses = concat (map (\<lambda>(name, network). network_address network) d) in
         if list_all ip_address addresses then Inr (set addresses) else Inl (ValueError (U ''not an IPv4 or IPv6 address'')))
     | _ \<Rightarrow> Inl AttributeError)"

definition address_failure :: "pyexn \<Rightarrow> bool" where
  "address_failure e = (is_ValueError e \<or> e = TypeError \<or> e = AttributeError)"

definition read_addresses :: "nat \<Rightarrow> pystr \<Rightarrow> pystr \<Rightarrow> pystr set res" where
  "read_addresses depth service out = (case network_addresses depth out of
     Inl e \<Rightarrow> Inl (if address_failure e then ContractError (U ''cannot inspect networks for '' @ service) else e)
   | Inr addresses \<Rightarrow>
       if addresses = {} then Inl (ContractError (U ''service '' @ service @ U '' has no container IP'')) else Inr addresses)"

definition container_ips :: "world \<Rightarrow> pystr \<Rightarrow> pystr set act" where
  "container_ips w service =
     py_bind (container_id w service) (\<lambda>container.
     py_bind (run w (map U [''docker'', ''inspect'', ''--format'', ''{{json .NetworkSettings.Networks}}''] @ [container]) 15) (\<lambda>result.
     py_seq (require_docker_result w result (U ''cannot inspect networks for '' @ service))
       (py_lift (read_addresses (v_depth w) service (stdout result)))))"

text \<open>A process that is not named Python is asked through \<^verbatim>\<open>/proc/1/exe\<close>.\<close>

definition runtime_executable :: "pystr \<Rightarrow> pystr" where
  "runtime_executable executable = (if fullmatch_ok PYTHON_NAME (path_name executable) then executable else U ''/proc/1/exe'')"

definition detect_python_runtime :: "world \<Rightarrow> pystr \<Rightarrow> int list act" where
  "detect_python_runtime w service =
     py_bind (container_id w service) (\<lambda>container.
     py_bind (main_process_executable w service) (\<lambda>executable.
     let program = runtime_executable executable; message = U ''cannot determine Python runtime for '' @ service in
     py_bind (run w [U ''docker'', U ''exec'', container, program, U ''--version''] 15) (\<lambda>result.
     py_seq (require_docker_result w result message) (
     case research PYTHON_VERSION (lines_of (stdout result) (stderr result)) of
       None \<Rightarrow> py_raise (ContractError message)
     | Some found \<Rightarrow>
         py_seq (py_modify (\<lambda>s. s\<lparr>python_executables := dput service program (python_executables s)\<rparr>))
           (py_lift (version_parts found))))))"

section \<open>The database\<close>

definition probe_port :: "world \<Rightarrow> string \<Rightarrow> int res" where
  "probe_port w service = ditem (a_probe_ports (v_self w)) (U service)"

definition psql_line :: "int \<Rightarrow> pystr \<Rightarrow> pystr list" where
  "psql_line port query = map U [''psql'', ''-X'', ''-v'', ''ON_ERROR_STOP=1'', ''-U'', ''autocheck_reader'', ''-h'', ''127.0.0.1'', ''-p''] @
     [str_of_int port] @ map U [''-d'', ''course'', ''-At'', ''-c''] @ [wrapped_query query]"

definition psql_environment :: "world \<Rightarrow> (pystr \<times> pystr) list" where
  "psql_environment w = [(U ''PGPASSWORD'', a_autocheck_password (v_self w)), (U ''PGCONNECT_TIMEOUT'', U ''5''),
     (U ''PGOPTIONS'', U ''-c default_transaction_read_only=on -c statement_timeout=30000'')]"

definition psql_rows :: "world \<Rightarrow> pystr \<Rightarrow> pydict list act" where
  "psql_rows w query =
     py_seq h (
     if 59 \<in> set query then py_raise (ValueError (U ''checker query is not read-only''))
     else py_bind (py_lift (probe_port w ''postgres'')) (\<lambda>port.
       py_bind (run_with w (psql_line port query) 30 (psql_environment w)) (\<lambda>result.
       if \<not> cmd_ok result then py_raise (ContractError (U ''required read-only PostgreSQL query failed''))
       else py_lift (read_rows (v_depth w) (stdout result)))))"

section \<open>Requests to the services\<close>

definition invalid_target :: pyexn where
  "invalid_target = ContractError (U ''internal HTTP probe target is invalid'')"

definition split_target :: "(pystr \<Rightarrow> bool) \<Rightarrow> string \<Rightarrow> pystr \<Rightarrow> (url \<times> int) res" where
  "split_target netloc_ok service url =
     (case res_bind (urlsplit netloc_ok url) (\<lambda>parsed. res_bind (ditem Week4_Constants.INTERNAL_PORTS (U service)) (\<lambda>port. Inr (parsed, port))) of
        Inl e \<Rightarrow> Inl (if is_ValueError e \<or> (case e of KeyError _ \<Rightarrow> True | _ \<Rightarrow> False) then invalid_target else e)
      | Inr r \<Rightarrow> Inr r)"

text \<open>\<^verbatim>\<open>parsed.port or 80\<close>\<close>

definition port_or_80 :: "int option \<Rightarrow> int" where
  "port_or_80 port = (case port of None \<Rightarrow> 80 | Some p \<Rightarrow> if p = 0 then 80 else p)"

definition checked_target :: "(pystr \<Rightarrow> bool) \<Rightarrow> string \<Rightarrow> pystr \<Rightarrow> url res" where
  "checked_target netloc_ok service url =
     res_bind (split_target netloc_ok service url) (\<lambda>(parsed, expected_port).
     if url_scheme parsed \<noteq> U ''http'' \<or> url_hostname parsed \<noteq> Some (U service) then Inl invalid_target
     else res_bind (url_port parsed) (\<lambda>port.
       if port_or_80 port \<noteq> expected_port \<or> url_username parsed \<noteq> None \<or> url_password parsed \<noteq> None \<or> url_fragment parsed \<noteq> []
       then Inl invalid_target else Inr parsed))"

text \<open>\<^verbatim>\<open>urlunsplit\<close> for the scheme \<^verbatim>\<open>http\<close> and no fragment.\<close>

definition loopback_url :: "int \<Rightarrow> url \<Rightarrow> pystr" where
  "loopback_url port parsed = U ''http://127.0.0.1:'' @ str_of_int port @
     (case url_path parsed of [] \<Rightarrow> [] | c # cs \<Rightarrow> if c = 47 then c # cs else 47 # c # cs) @
     (if url_query parsed = [] then [] else U ''?'' @ url_query parsed)"

definition direct_result :: "string \<Rightarrow> http_outcome \<Rightarrow> HttpResult res" where
  "direct_result service outcome = (case outcome of
     NetworkError _ \<Rightarrow> Inl (ContractError (U ''internal HTTP probe failed for '' @ U service))
   | _ \<Rightarrow> http_result [] outcome)"

definition request_body :: "pydict option \<Rightarrow> pybytes option res" where
  "request_body body = (case body of None \<Rightarrow> Inr None | Some d \<Rightarrow> res_bind (receipt_bytes (PDict d)) (\<lambda>bs. Inr (Some bs)))"

definition internal_http ::
    "world \<Rightarrow> string \<Rightarrow> string \<Rightarrow> pystr \<Rightarrow> pydict option \<Rightarrow> (pystr \<times> pystr) list \<Rightarrow> HttpResult act" where
  "internal_http w service verb url body headers =
     py_seq h (
     py_bind (py_lift (checked_target (v_netloc_ok w) service url)) (\<lambda>parsed.
     py_bind (py_lift (probe_port w service)) (\<lambda>port.
     py_bind (py_lift (request_body body)) (\<lambda>data.
     ask_res (\<lambda>n. direct_result service (v_http w n \<lparr>rq_url = loopback_url port parsed, rq_method = U verb,
       rq_body = data, rq_headers = headers, rq_timeout = 15\<rparr>))))))"

end
