(* ===== verification/Week4_Setup.thy ===== *)
theory Week4_Setup
  imports Week4_Schema Week4_Isolation Week3_Run Week4_Harness
begin

text \<open>
  Construction of \<^verbatim>\<open>PublicChecker\<close> in \<^verbatim>\<open>task/week4/autocheck/public_check.py\<close>, its override file with images and ports of its
  own, the trial of the Compose features, and the helpers of the groups of checks. Those with the text of week 3 are its
  operations over the methods of this week, \<open>week4_methods\<close>.
\<close>

section \<open>Construction\<close>

definition database_secret_names :: "pystr list" where
  "database_secret_names = map U [''COURSE_POSTGRES_PASSWORD'', ''COURSE_MIGRATOR_PASSWORD'', ''COURSE_PUBLISHER_PASSWORD'',
     ''COURSE_RUNTIME_PASSWORD'', ''COURSE_WORKER_PASSWORD'', ''COURSE_OUTBOX_PASSWORD'', ''COURSE_INBOX_PASSWORD'',
     ''COURSE_AUTOCHECK_PASSWORD'']"

definition outbox_policy :: "(string \<times> string) list" where
  "outbox_policy = [(''COURSE_PROVIDER_TIMEOUT_MS'', ''500''), (''COURSE_OUTBOX_MAX_ATTEMPTS'', ''4''),
     (''COURSE_OUTBOX_BACKOFF_BASE_MS'', ''200''), (''COURSE_OUTBOX_BACKOFF_MAX_MS'', ''800''),
     (''COURSE_OUTBOX_JITTER_MAX_MS'', ''100''), (''COURSE_OUTBOX_LEASE_MS'', ''2000''), (''COURSE_OUTBOX_POLL_MS'', ''100'')]"

definition stack_environment :: "int \<Rightarrow> pystr \<Rightarrow> pystr \<Rightarrow> pystr \<Rightarrow> pystr \<Rightarrow> pystr \<Rightarrow> (pystr \<times> pystr) list \<Rightarrow> (pystr \<times> pystr) list" where
  "stack_environment port jwt hmac capability audit receipt_token database_secrets =
     [(U ''COMPOSE_PARALLEL_LIMIT'', U ''2''), (U ''COURSE_GATEWAY_PORT'', str_of_int port), (U ''COURSE_TEST_PROFILE'', U ''1''),
      (U ''COURSE_JWT_ISSUER'', U ''moduledev-course''), (U ''COURSE_JWT_AUDIENCE'', U ''moduledev-api''),
      (U ''COURSE_JWT_SIGNING_KEY'', jwt), (U ''PROVIDER_URL'', U ''http://provider-simulator:8081''),
      (U ''OUTBOX_OWNER'', U ''outbox-dispatcher''), (U ''OUTBOX_OWNER_B'', U ''outbox-dispatcher-b'')] @
     map (\<lambda>(name, v). (U name, U v)) outbox_policy @
     [(U ''COURSE_INBOX_POLL_MS'', U ''500''), (U ''COURSE_JOB_LEASE_MS'', U ''2000''), (U ''COURSE_WORKER_POLL_MS'', U ''100''),
      (U ''PROVIDER_CALLBACK_CAPABILITY'', capability), (U ''PROVIDER_CALLBACK_TOKEN'', receipt_token),
      (U ''PROVIDER_HMAC_SECRET'', hmac), (U ''RECEIPT_API_URL'', U ''http://gateway:8080/api/receipt/accept''),
      (U ''PROVIDER_AUDIT_TOKEN'', audit)] @ database_secrets"

text \<open>\<^verbatim>\<open>_free_ports(1 + len(INTERNAL_PORTS))\<close>: the port of the gateway and those of the probes.\<close>

definition allot_ports :: "int list \<Rightarrow> (int \<times> (pystr \<times> int) list) res" where
  "allot_ports ports = (case ports of
     [] \<Rightarrow> Inl IndexError
   | gateway # probes \<Rightarrow>
       if length probes = length Week4_Constants.INTERNAL_PORTS then Inr (gateway, zip (map fst Week4_Constants.INTERNAL_PORTS) probes)
       else Inl (ValueError (U ''zip() arguments differ in length'')))"

definition result_schema_names :: "string list" where
  "result_schema_names = [''payment-submit.result.schema.json'', ''diagnostics-trace.result.schema.json'',
     ''diagnostics-stalled.result.schema.json'']"

definition read_schema :: "world \<Rightarrow> string \<Rightarrow> (pystr \<times> pyval) act" where
  "read_schema w name =
     py_bind (ask_res (\<lambda>n. read_json (v_fs w n) (v_depth w) (path_join (v_contracts w) (U name)))) (\<lambda>v. py_return (U name, v))"

definition new_checker :: "world \<Rightarrow> args \<Rightarrow> attributes act" where
  "new_checker w a =
     py_bind (ask_res (\<lambda>n. v_realpath w n (arg_repo a))) (\<lambda>repo.
     py_bind (ask_res (\<lambda>n. v_realpath w n (arg_fixtures a))) (\<lambda>fixtures.
     py_bind (ask_res (\<lambda>n. v_realpath w n (arg_output a))) (\<lambda>output.
     py_bind (ask_res (\<lambda>n. v_realpath w n (arg_wrapper a))) (\<lambda>wrapper.
     py_bind (ask_res (\<lambda>n. v_mkdtemp w n (U ''week4-check-''))) (\<lambda>directory.
     py_bind (ask (\<lambda>n. v_hex w n 4)) (\<lambda>suffix.
     py_bind (ask_res (\<lambda>n. v_free_ports w n (Suc (length Week4_Constants.INTERNAL_PORTS)))) (\<lambda>ports.
     py_bind (py_lift (allot_ports ports)) (\<lambda>(port, probe_ports).
     py_bind (ask (\<lambda>n. v_urlsafe w n 48)) (\<lambda>jwt.
     py_bind (ask (\<lambda>n. v_urlsafe w n 40)) (\<lambda>hmac.
     py_bind (ask (\<lambda>n. v_urlsafe w n 24)) (\<lambda>capability.
     py_bind (ask (\<lambda>n. v_urlsafe w n 24)) (\<lambda>audit.
     py_bind (py_map (\<lambda>name. py_bind (ask (\<lambda>n. v_urlsafe w n 32)) (\<lambda>v. py_return (name, v))) database_secret_names) (\<lambda>passwords.
     py_bind (new_token w jwt ''receipt-provider'' ''integration'' [''receipt:write'']) (\<lambda>receipt_token.
     py_bind (new_token w jwt ''candidate-client'' ''web'' [''payment:write'', ''payment:read'', ''workflow:read'']) (\<lambda>client_token.
     py_bind (new_token w jwt ''reviewer'' ''backoffice'' [''workflow:manual'', ''payment:read'']) (\<lambda>reviewer_token.
     py_bind (new_token w jwt ''course-observer'' ''autocheck'' [''diagnostics:read'']) (\<lambda>diagnostics_token.
     py_bind (py_map (read_schema w) result_schema_names) (\<lambda>schemas.
     py_return \<lparr>a_repo = repo, a_fixtures = fixtures, a_wrapper = wrapper, a_override = path_join directory (U ''override.yaml''),
       a_project = U ''week4-public-'' @ suffix, a_gateway_port = port, a_jwt_secret = jwt, a_hmac_secret = hmac,
       a_capability = capability, a_audit_token = audit, a_database_secrets = passwords,
       a_issuer = U ''moduledev-course'', a_audience = U ''moduledev-api'',
       a_receipt_token = receipt_token, a_client_token = client_token, a_reviewer_token = reviewer_token,
       a_environment = stack_environment port jwt hmac capability audit receipt_token passwords,
       a_sensitive = [jwt, hmac, capability, audit, receipt_token, client_token, reviewer_token, diagnostics_token] @ map snd passwords,
       a_probe_ports = probe_ports,
       a_autocheck_password = (case map_of passwords (U ''COURSE_AUTOCHECK_PASSWORD'') of None \<Rightarrow> [] | Some v \<Rightarrow> v),
       a_diagnostics_token = diagnostics_token, a_result_schemas = schemas\<rparr>))))))))))))))))))"

section \<open>The images of the run\<close>

text \<open>\<^verbatim>\<open>str(service.get("image") or f"service:{name}")\<close>\<close>

definition image_key :: "pystr \<Rightarrow> pydict \<Rightarrow> pystr" where
  "image_key name service = (let v = dget_none service (U ''image'') in if truthy v then py_str v else U ''service:'' @ name)"

definition add_member :: "pystr \<Rightarrow> pystr \<Rightarrow> (pystr \<times> pystr list) list \<Rightarrow> (pystr \<times> pystr list) list" where
  "add_member key name groups = dput key ((case map_of groups key of None \<Rightarrow> [] | Some names \<Rightarrow> names) @ [name]) groups"

definition group_service :: "pystr \<times> pyval \<Rightarrow> (pystr \<times> pystr list) list \<Rightarrow> (pystr \<times> pystr list) list" where
  "group_service = (\<lambda>(name, service) groups. case service of
     PDict d \<Rightarrow> if name = U ''provider-simulator'' then groups else add_member (image_key name d) name groups
   | _ \<Rightarrow> groups)"

definition is_built :: "pydict \<Rightarrow> pystr \<Rightarrow> bool" where
  "is_built services name = (case map_of services name of Some (PDict d) \<Rightarrow> truthy (dget_none d (U ''build'')) | _ \<Rightarrow> False)"

text \<open>The services of a group that is built get one image of the run.\<close>

definition isolated_of :: "pystr \<Rightarrow> pydict \<Rightarrow> (pystr \<times> pystr) list" where
  "isolated_of project services = (let groups = map snd (fold group_service services []) in
     concat (map (\<lambda>(index, names).
       if list_ex (is_built services) names
       then map (\<lambda>name. (name, project @ U ''-build-'' @ str_of_nat index @ U '':check'')) names else [])
       (zip [1..<Suc (length groups)] groups)))"

section \<open>The override file\<close>

definition service_lines :: "(pystr \<times> int) list \<Rightarrow> (pystr \<times> pystr) list \<Rightarrow> pystr \<Rightarrow> pystr list res" where
  "service_lines probe_ports isolated name =
     res_bind (if name = U ''gateway'' then Inr (quoted ''    ports: !override [`127.0.0.1:${COURSE_GATEWAY_PORT}:8080`]'')
       else (case map_of probe_ports name of
           None \<Rightarrow> Inr (U ''    ports: !reset []'')
         | Some port \<Rightarrow> res_bind (ditem Week4_Constants.INTERNAL_PORTS name) (\<lambda>target.
             Inr (quoted ''    ports: !override [`127.0.0.1:'' @ str_of_int port @ U '':'' @ str_of_int target @ quoted ''`]'')))) (\<lambda>ports.
     Inr ([U ''  '' @ name @ U '':'', U ''    container_name: !reset null''] @
       (case map_of isolated name of None \<Rightarrow> [] | Some img \<Rightarrow> [U ''    image: '' @ json_str True img]) @ [ports]))"

definition policy :: "(string \<times> string) list \<Rightarrow> (string \<times> pystr) list" where
  "policy vs = map (\<lambda>(name, v). (name, U v)) vs"

definition worker_policy :: "(string \<times> string) list" where
  "worker_policy = [(''COURSE_JOB_LEASE_MS'', ''2000''), (''COURSE_WORKER_POLL_MS'', ''100'')]"

definition dispatcher_environment :: "string \<Rightarrow> (string \<times> pystr) list" where
  "dispatcher_environment service = [(''PGAPPNAME'', U ''week4-public-'' @ U service), (''PGUSER'', U ''outbox_dispatcher''),
     (''PROVIDER_URL'', U ''http://provider-simulator:8081''), (''OUTBOX_OWNER'', U service), (''COURSE_TEST_PROFILE'', U ''1'')] @
     policy outbox_policy"

definition reconciler_environment :: "string \<Rightarrow> (string \<times> pystr) list" where
  "reconciler_environment service = [(''PGAPPNAME'', U ''week4-public-'' @ U service), (''PGUSER'', U ''inbox_reconciler''),
     (''COURSE_TEST_PROFILE'', U ''1''), (''COURSE_INBOX_POLL_MS'', U ''500'')]"

definition override_environment :: "pystr \<Rightarrow> (string \<times> (string \<times> pystr) list) list" where
  "override_environment base =
     [(''gateway'', common_application),
      (''api'', common_application @ [(''PROVIDER_HMAC_SECRET'', U ''${PROVIDER_HMAC_SECRET}'')]),
      (''cli'', common_application @ policy outbox_policy),
      (''postgres'', policy outbox_policy @ [(''COURSE_JOB_LEASE_MS'', U ''2000''),
        (''COURSE_AUTOCHECK_PASSWORD'', U ''${COURSE_AUTOCHECK_PASSWORD}'')]),
      (''worker-a'', common_application @ policy worker_policy), (''worker-b'', common_application @ policy worker_policy),
      (''outbox-dispatcher'', dispatcher_environment ''outbox-dispatcher''),
      (''outbox-dispatcher-b'', dispatcher_environment ''outbox-dispatcher-b''),
      (''receipt-adapter'', [(''PROVIDER_CALLBACK_CAPABILITY'', U ''${PROVIDER_CALLBACK_CAPABILITY}''),
        (''PROVIDER_CALLBACK_TOKEN'', U ''${PROVIDER_CALLBACK_TOKEN}''), (''PROVIDER_HMAC_SECRET'', U ''${PROVIDER_HMAC_SECRET}''),
        (''RECEIPT_API_URL'', U ''http://gateway:8080/api/receipt/accept''), (''COURSE_TEST_PROFILE'', U ''1'')]),
      (''inbox-reconciler'', reconciler_environment ''inbox-reconciler''),
      (''inbox-reconciler-b'', reconciler_environment ''inbox-reconciler-b''),
      (''provider-simulator'', [(''CALLBACK_URL'', base @ U ''/${PROVIDER_CALLBACK_CAPABILITY}''), (''SIMULATOR_MODE'', U ''success''),
        (''CALLBACK_DELAY'', U ''200ms''), (''CALLBACK_TIMEOUT'', U ''1s''), (''CALLBACK_MAX_ATTEMPTS'', U ''5''),
        (''CALLBACK_RETRY_DELAY'', U ''200ms''), (''AUDIT_TOKEN'', U ''${PROVIDER_AUDIT_TOKEN}'')])]"

text \<open>The names of the services and the images of the run; a configuration without an object of services has the required ones.\<close>

definition services_of :: "pydict \<Rightarrow> pydict option" where
  "services_of config = (case dget_def (PDict []) config (U ''services'') of PDict services \<Rightarrow> Some services | _ \<Rightarrow> None)"

definition isolated_in :: "pystr \<Rightarrow> pydict \<Rightarrow> (pystr \<times> pystr) list" where
  "isolated_in project config = (case services_of config of None \<Rightarrow> [] | Some services \<Rightarrow> isolated_of project services)"

definition service_names :: "pydict \<Rightarrow> pystr list" where
  "service_names config = sorted_list_of_set (case services_of config of
     None \<Rightarrow> Week4_Constants.REQUIRED_SERVICES | Some services \<Rightarrow> set (map fst services))"

definition override_text :: "pystr \<Rightarrow> (pystr \<times> int) list \<Rightarrow> pystr \<Rightarrow> pydict \<Rightarrow> pystr res" where
  "override_text project probe_ports base config =
     res_bind (res_concat (service_lines probe_ports (isolated_in project config)) (service_names config)) (\<lambda>listed.
     res_bind (res_fold insert_environment (override_environment base) (U ''services:'' # listed)) (\<lambda>services.
     res_bind (renamed_section project ''volumes:'' ''volume'' (get_or (PDict []) config (U ''volumes''))) (\<lambda>volumes.
     res_bind (renamed_section project ''networks:'' ''network'' (get_or (PDict []) config (U ''networks''))) (\<lambda>networks.
     Inr (join_str [10] (services @ volumes @ networks) @ [10])))))"

definition write_override :: "world \<Rightarrow> pydict \<Rightarrow> unit act" where
  "write_override w config =
     py_seq (py_modify (\<lambda>s. s\<lparr>isolated_images := set (map snd (isolated_in (a_project (v_self w)) config))\<rparr>)) (
     py_bind (py_read callback_base) (\<lambda>base.
     py_bind (py_lift (override_text (a_project (v_self w)) (a_probe_ports (v_self w)) base config)) (\<lambda>contents.
     write_text w (a_override (v_self w)) contents)))"

section \<open>Trial of the Compose features\<close>

definition lines_text :: "pystr list \<Rightarrow> pystr" where
  "lines_text ls = concat (map (\<lambda>l. l @ [10]) ls)"

definition preflight_base :: pystr where
  "preflight_base = lines_text [U ''services:'', U ''  probe:'', U ''    image: busybox'', U ''    container_name: preflight'',
     quoted ''    ports: [`127.0.0.1:1:1`]'']"

definition preflight_override :: pystr where
  "preflight_override = lines_text [U ''services:'', U ''  probe:'', U ''    container_name: !reset null'', U ''    ports: !override []'']"

definition preflight_compose_features :: "world \<Rightarrow> unit act" where
  "preflight_compose_features w =
     (let directory = parent_path (a_override (v_self w)); base = path_join directory (U ''compose-preflight-base.yaml'');
          override = path_join directory (U ''compose-preflight-override.yaml'') in
     py_seq (write_text w base preflight_base) (
     py_seq (write_text w override preflight_override) (
     py_bind (run w ([U ''docker'', U ''compose'', U ''-f'', base, U ''-f'', override] @
       map U [''config'', ''--format'', ''json'', ''--no-env-resolution'']) 30) (\<lambda>result.
     if \<not> cmd_ok result then py_raise (EnvironmentFailure (U ''Docker Compose lacks required !override/!reset/config features''))
     else py_return ()))))"

section \<open>Submission\<close>

definition schema_errors :: "world \<Rightarrow> string \<Rightarrow> pyval \<Rightarrow> pystr list res" where
  "schema_errors w name v =
     res_bind (ditem (a_result_schemas (v_self w)) (U name)) (\<lambda>schema. validate_json_schema (v_regex w) (v_depth w) v schema)"

definition submitted :: "world \<Rightarrow> string \<Rightarrow> pystr \<Rightarrow> HttpResult \<Rightarrow> pydict option \<Rightarrow> pystr res" where
  "submitted w label operation_id r body =
     (if hr_status r \<noteq> 200 \<or> \<not> field_is body ''status'' (ps ''ok'') then Inl (ContractError (U ''payment.submit failed for '' @ U label))
      else let result = json_field body ''result'' in
        res_bind (schema_errors w ''payment-submit.result.schema.json'' result) (\<lambda>errors.
        if errors \<noteq> [] then Inl (ContractError (U ''payment.submit result violates its published schema''))
        else res_bind (get_attr PNone result (U ''operationId'')) (\<lambda>v.
          if \<not> py_eq v (PStr operation_id) then Inl (ContractError (U ''payment.submit returned a different operationId''))
          else res_bind (get_attr PNone result (U ''processId'')) (\<lambda>process_id. uuid_of process_id ''processId''))))"

definition create_and_submit :: "world \<Rightarrow> string \<Rightarrow> string \<Rightarrow> (pystr \<times> pystr) act" where
  "create_and_submit w payload_name label =
     py_bind (payload w payload_name) (\<lambda>d.
     py_bind (py_lift (receipt_text (PDict d))) (\<lambda>t.
     py_seq (remember (label @ ''-request-body'') t) (
     py_bind (fresh_key w (U ''public-request-'' @ U label @ U ''-'') 4) (\<lambda>request_key.
     py_bind (call_action w ''payment'' ''request'' d (a_client_token (v_self w)) request_key) (\<lambda>request.
     py_bind (response_json w request) (\<lambda>request_json.
     py_bind (py_lift (accepted_result request request_json (U ''payment.request failed for '' @ U label) ''operationId'')) (\<lambda>operation_id.
     py_bind (fresh_key w (U ''public-submit-'' @ U label @ U ''-'') 4) (\<lambda>submit_key.
     py_bind (call_action w ''payment'' ''submit'' [(U ''operationId'', PStr operation_id)] (a_client_token (v_self w)) submit_key) (\<lambda>submit.
     py_bind (response_json w submit) (\<lambda>submit_json.
     py_bind (py_lift (submitted w label operation_id submit submit_json)) (\<lambda>process_id.
     py_return (operation_id, process_id))))))))))))"

definition week4_methods :: "world \<Rightarrow> methods" where
  "week4_methods w = \<lparr>k_rows = psql_rows w, k_probe = internal_http w, k_submit = create_and_submit w, k_auditor = ''provider-simulator''\<rparr>"

section \<open>Methods with the text of week 3\<close>

definition record_check :: "world \<Rightarrow> pystr \<Rightarrow> string \<Rightarrow> expectation \<Rightarrow> pyval \<Rightarrow> unit act" where
  [week4_same]: "record_check = Week3_Setup.record_check"

definition payload :: "world \<Rightarrow> string \<Rightarrow> pydict act" where
  [week4_same]: "payload = Week3_Setup.payload"

definition uuid_of :: "pyval \<Rightarrow> string \<Rightarrow> pystr res" where
  [week4_same]: "uuid_of = Week3_Setup.uuid_of"

definition text_id :: "pyval \<Rightarrow> string \<Rightarrow> pystr res" where
  [week4_same]: "text_id = Week3_Setup.text_id"

definition sql_text :: "pystr \<Rightarrow> pystr res" where
  [week4_same]: "sql_text = Week3_Setup.sql_text"

definition find_compose :: "world \<Rightarrow> pystr act" where
  [week4_same]: "find_compose w = find_compose_in w Week4_Constants.COMPOSE_NAMES"

definition poll_rows_for :: "world \<Rightarrow> rat \<Rightarrow> pystr \<Rightarrow> (pydict list \<Rightarrow> bool res) \<Rightarrow> pydict list act" where
  [week4_same]: "poll_rows_for w = Week3_Setup.poll_rows_for (week4_methods w) w"

definition operation_rows :: "world \<Rightarrow> pystr \<Rightarrow> pydict list act" where
  [week4_same]: "operation_rows w = Week3_Setup.operation_rows (week4_methods w)"

definition wait_operation :: "world \<Rightarrow> pystr \<Rightarrow> string \<Rightarrow> pydict list act" where
  [week4_same]: "wait_operation w = Week3_Setup.wait_operation (week4_methods w) w"

definition external_request :: "world \<Rightarrow> pystr \<Rightarrow> pydict list act" where
  [week4_same]: "external_request w = Week3_Setup.external_request (week4_methods w) w"

definition provider_audit :: "world \<Rightarrow> pystr \<Rightarrow> HttpResult act" where
  [week4_same]: "provider_audit w = Week3_Setup.provider_audit (week4_methods w) w"

end
