(* ===== verification/Week4_Admission.thy ===== *)
theory Week4_Admission
  imports Week4_Setup
begin

text \<open>
  \<^verbatim>\<open>_check_admission_and_start\<close> of \<^verbatim>\<open>task/week4/autocheck/public_check.py\<close>: the tools, the Compose contract with marked
  environment variables, the build and the start of the stack, and the Python runtimes.
\<close>

section \<open>The tools\<close>

definition require_tool :: "world \<Rightarrow> string list \<Rightarrow> rat \<Rightarrow> string \<Rightarrow> unit act" where
  "require_tool w cmd timeout message =
     py_bind (run w (map U cmd) timeout) (\<lambda>r. if cmd_ok r then py_return () else py_raise (EnvironmentFailure (U message)))"

definition open_harness :: "world \<Rightarrow> unit act" where
  "open_harness w =
     py_bind (ask_res (\<lambda>n. Week4_Fixture.load_fixture (v_hash w) (v_fs w n) (v_depth w) (a_fixtures (v_self w)))) (\<lambda>fx.
     py_seq (py_modify (\<lambda>s. s\<lparr>fixture := fx\<rparr>)) (
     py_bind (find_compose w) (\<lambda>compose_file.
     py_bind (ask (\<lambda>n. is_file (v_fs w n) (a_wrapper (v_self w)))) (\<lambda>present.
     if \<not> present then py_raise (EnvironmentFailure (U ''trusted Compose wrapper is missing''))
     else py_seq (py_modify (\<lambda>s. s\<lparr>harness := Some compose_file\<rparr>)) (
       py_seq (require_tool w [''docker'', ''info'', ''--format'', ''{{.ServerVersion}}''] 15 ''Docker daemon is unavailable'') (
       py_seq (require_tool w [''docker'', ''compose'', ''version'', ''--short''] 120 ''Docker Compose is unavailable'') (
       py_seq (preflight_compose_features w)
         (require_tool w [''psql'', ''--version''] 15 ''trusted PostgreSQL client is unavailable''))))))))"

section \<open>The Compose file\<close>

definition parse_json :: "nat \<Rightarrow> string \<Rightarrow> pystr \<Rightarrow> pyval res" where
  "parse_json depth message out = (case loads depth out of
     Inl e \<Rightarrow> Inl (if e = JSONDecodeError then ContractError (U message) else e)
   | Inr v \<Rightarrow> Inr v)"

text \<open>A configuration that is not an object has no \<^verbatim>\<open>get\<close>.\<close>

definition as_config :: "pyval \<Rightarrow> pydict res" where
  "as_config v = (case v of PDict d \<Rightarrow> Inr d | _ \<Rightarrow> Inl AttributeError)"

definition read_config :: "world \<Rightarrow> CommandResult act \<Rightarrow> string \<Rightarrow> string \<Rightarrow> pyval act" where
  "read_config w cmd invalid not_json =
     py_bind cmd (\<lambda>r.
     py_seq (require_docker_result w r (U invalid))
       (py_lift (parse_json (v_depth w) not_json (stdout r))))"

text \<open>A value that no service can have by chance, for each variable: a port for that of the gateway, a random text for the others.\<close>

definition reference_value :: "world \<Rightarrow> nat \<times> pystr \<Rightarrow> (pystr \<times> pystr) act" where
  "reference_value w = (\<lambda>(index, variable).
     if variable = U ''COURSE_GATEWAY_PORT''
     then py_bind (ask (\<lambda>n. v_randbelow w n 20000)) (\<lambda>i. py_return (variable, str_of_int (40000 + i)))
     else py_bind (ask (\<lambda>n. v_hex w n 12)) (\<lambda>t.
       py_return (variable, U ''week4-source-reference-'' @ t @ U ''-'' @ str_of_nat index)))"

definition reference_values :: "world \<Rightarrow> (pystr \<times> pystr) list act" where
  "reference_values w = (let variables = map fst REQUIRED_ENV_RECIPIENTS in
     py_map (reference_value w) (zip [1..<Suc (length variables)] variables))"

definition check_references :: "world \<Rightarrow> unit act" where
  "check_references w =
     py_bind (reference_values w) (\<lambda>values.
     py_bind (read_config w (candidate_config w values) ''candidate Compose environment references are invalid''
       ''candidate Compose reference config is not JSON'') (\<lambda>v.
     py_bind (py_lift (res_bind (as_config v) (\<lambda>config. environment_reference_findings config values))) (\<lambda>findings.
     check w ''compose-environment-contract'' ''admission'' (strs []) (strs findings))))"

definition database_secret :: "attributes \<Rightarrow> string \<Rightarrow> pystr" where
  "database_secret a name = (case map_of (a_database_secrets a) (U name) of None \<Rightarrow> [] | Some v \<Rightarrow> v)"

definition in_services :: "string list \<Rightarrow> (pystr \<times> pystr) set" where
  "in_services services = set (map (\<lambda>service. (U service, U ''*'')) services)"

text \<open>Which secret may stand in which variable of which service.\<close>

definition secret_table :: "attributes \<Rightarrow> secrets" where
  "secret_table a =
     [(U ''jwt-signing-key'', a_jwt_secret a,
        (\<lambda>service. (service, U ''COURSE_JWT_SIGNING_KEY'')) ` set (Week4_Constants.CSHARP_SERVICES @ [U ''cli''])),
      (U ''provider-hmac-secret'', a_hmac_secret a,
        {(U ''api'', U ''PROVIDER_HMAC_SECRET''), (U ''receipt-adapter'', U ''PROVIDER_HMAC_SECRET'')}),
      (U ''callback-capability'', a_capability a,
        {(U ''receipt-adapter'', U ''PROVIDER_CALLBACK_CAPABILITY''), (U ''provider-simulator'', U ''CALLBACK_URL'')}),
      (U ''callback-token'', a_receipt_token a, {(U ''receipt-adapter'', U ''PROVIDER_CALLBACK_TOKEN'')}),
      (U ''provider-audit-token'', a_audit_token a, {(U ''provider-simulator'', U ''AUDIT_TOKEN'')}),
      (U ''postgres-password'', database_secret a ''COURSE_POSTGRES_PASSWORD'', in_services [''postgres'']),
      (U ''migrator-password'', database_secret a ''COURSE_MIGRATOR_PASSWORD'', in_services [''postgres'', ''cli'']),
      (U ''publisher-password'', database_secret a ''COURSE_PUBLISHER_PASSWORD'', in_services [''postgres'', ''cli'']),
      (U ''runtime-password'', database_secret a ''COURSE_RUNTIME_PASSWORD'', in_services [''postgres'', ''api'']),
      (U ''worker-password'', database_secret a ''COURSE_WORKER_PASSWORD'', in_services [''postgres'', ''worker-a'', ''worker-b'']),
      (U ''outbox-password'', database_secret a ''COURSE_OUTBOX_PASSWORD'',
        in_services [''postgres'', ''outbox-dispatcher'', ''outbox-dispatcher-b'']),
      (U ''inbox-password'', database_secret a ''COURSE_INBOX_PASSWORD'',
        in_services [''postgres'', ''inbox-reconciler'', ''inbox-reconciler-b'']),
      (U ''autocheck-password'', database_secret a ''COURSE_AUTOCHECK_PASSWORD'', in_services [''postgres''])]"

definition compose_findings :: "world \<Rightarrow> nat \<Rightarrow> pydict \<Rightarrow> pystr list res" where
  "compose_findings w n config = res_append
     (Week4_Contract.compose_contract_findings (v_netloc_ok w) (fs_resolve (v_fs w n)) config (a_repo (v_self w)))
     (Week4_Compose.secret_distribution_findings config (secret_table (v_self w)))"

text \<open>The configuration has been read before the references are checked; what it contains is looked at afterwards.\<close>

definition check_compose :: "world \<Rightarrow> unit act" where
  "check_compose w =
     py_bind (read_config w (candidate_config w []) ''candidate Compose config is invalid'' ''candidate Compose config is not JSON'') (\<lambda>v.
     py_seq (check_references w) (
     py_bind (py_lift (as_config v)) (\<lambda>config.
     py_bind (ask_res (\<lambda>n. compose_findings w n config)) (\<lambda>findings.
     py_seq (check w ''compose-contract'' ''admission'' (strs []) (strs findings)) (
     py_bind (py_lift (Week4_Compose.provider_callback_base (v_netloc_ok w) config)) (\<lambda>base.
     py_seq (py_modify (\<lambda>s. s\<lparr>callback_base := base\<rparr>))
       (write_override w config)))))))"

definition check_runtime_compose :: "world \<Rightarrow> unit act" where
  "check_runtime_compose w =
     py_bind (read_config w (runtime_config w) ''effective Compose config is invalid'' ''effective Compose config is not JSON'') (\<lambda>v.
     py_bind (py_lift (res_bind (as_config v) (\<lambda>config.
       Week4_Contract.runtime_compose_findings config (a_gateway_port (v_self w)) (a_probe_ports (v_self w))))) (\<lambda>findings.
     check w ''runtime-compose-contract'' ''admission'' (strs []) (strs findings)))"

section \<open>The start\<close>

definition build_stack :: "world \<Rightarrow> unit act" where
  "build_stack w =
     py_bind (run w [U ''docker'', U ''pull'', Week4_Constants.PROVIDER_IMAGE] 180) (\<lambda>pull.
     if \<not> cmd_ok pull then py_raise (EnvironmentFailure (U ''provider image pull failed''))
     else require_compose w (map U [''build'', ''--pull'', ''--no-cache'']) 1800 (U ''candidate images did not build''))"

definition all_running :: "world \<Rightarrow> unit act" where
  "all_running w =
     py_bind (in_order w Week4_Constants.RUNNING_SERVICES) (\<lambda>services.
     py_for (\<lambda>service. py_bind (container_id w service) (\<lambda>_. py_return ())) services)"

text \<open>The job \<^verbatim>\<open>cli\<close> is still running or has ended well.\<close>

definition check_cli :: "world \<Rightarrow> string \<Rightarrow> string \<Rightarrow> unit act" where
  "check_cli w name phase =
     py_bind (service_state w (U ''cli'')) (\<lambda>(st, code).
     check_that w name phase (st = U ''running'' \<or> st = U ''exited'' \<and> code = 0))"

definition start_stack :: "world \<Rightarrow> unit act" where
  "start_stack w =
     py_seq (require_compose w (map U [''up'', ''-d'', ''--no-build'']) 600 (U ''candidate stack did not start'')) (
     py_seq (wait_gateway_for w 300) (all_running w))"

definition check_python_image :: "world \<Rightarrow> unit act" where
  "check_python_image w =
     py_bind (py_map (image_id w) Week4_Constants.PYTHON_SERVICES) (\<lambda>ids.
     check w ''python-single-image'' ''admission'' (PInt 1) (PInt (int (card (set ids)))))"

definition check_python_version :: "world \<Rightarrow> pystr \<Rightarrow> unit act" where
  "check_python_version w service =
     py_bind (detect_python_runtime w service) (\<lambda>version.
     record_check w (U ''python-version-'' @ service) ''admission'' (Predicate recent_python) (PStr (dotted version)))"

definition check_admission_and_start :: "world \<Rightarrow> unit act" where
  "check_admission_and_start w =
     py_seq (open_harness w) (
     py_seq (check_compose w) (
     py_seq (check_runtime_compose w) (
     py_seq (py_modify (\<lambda>s. s\<lparr>cleanup_armed := True\<rparr>)) (
     py_seq (build_stack w) (
     py_seq (start_stack w) (
     py_seq (check_cli w ''cli-startup-completed'' ''admission'') (
     py_seq (check_python_image w) (
     py_seq (py_for (check_python_version w) Week4_Constants.PYTHON_SERVICES)
       (remember_images w (Week4_Constants.PYTHON_SERVICES @ map U [''api'', ''worker-a'', ''worker-b'']))))))))))"

end
