(* ===== verification/Week4_Observe.thy ===== *)
theory Week4_Observe
  imports Week4_Admission Week3_Review
begin

text \<open>
  The observability of the services in \<^verbatim>\<open>task/week4/autocheck/public_check.py\<close>: liveness, readiness and metrics of each
  service (\<^verbatim>\<open>_check_observability_endpoints\<close>), an outage of the provider (\<^verbatim>\<open>_check_provider_outage_recovery\<close>) and of the
  database (\<^verbatim>\<open>_check_postgres_readiness\<close>).
\<close>

section \<open>Requests to a service\<close>

definition service_http :: "world \<Rightarrow> string \<Rightarrow> string \<Rightarrow> HttpResult act" where
  "service_http w service path =
     py_bind (py_lift (ditem OBSERVABILITY_ENDPOINTS (U service))) (\<lambda>endpoint.
     Week4_Harness.internal_http w service ''GET'' (endpoint @ U path) None [])"

definition content_type :: "HttpResult \<Rightarrow> pystr" where
  "content_type r = (case filter (\<lambda>(name, v). lower name = U ''content-type'') (hr_headers r) of
     [] \<Rightarrow> [] | (name, v) # _ \<Rightarrow> lower v)"

definition is_json :: "HttpResult \<Rightarrow> bool" where
  "is_json r = startswith (content_type r) (U ''application/json'')"

definition service_is_ready :: "world \<Rightarrow> string \<Rightarrow> bool act" where
  "service_is_ready w service =
     py_bind (service_http w service ''/health/ready'') (\<lambda>r.
     py_bind (response_json w r) (\<lambda>body.
     py_return (hr_status r = 200 \<and> is_json r \<and> field_is body ''status'' (ps ''ready''))))"

definition metrics_of :: "string \<Rightarrow> HttpResult \<Rightarrow> openmetrics res" where
  "metrics_of service r =
     (if hr_status r \<noteq> 200 then Inl (ContractError (U service @ U '' metrics did not return 200''))
      else if content_type r \<noteq> U ''application/openmetrics-text; version=1.0.0; charset=utf-8''
      then Inl (ContractError (U service @ U '' metrics media type is not OpenMetrics''))
      else (case res_bind (utf8_decode (hr_body r)) parse_openmetrics of
          Inl e \<Rightarrow> Inl (if is_ValueError e then ContractError (U service @ U '' metrics are invalid OpenMetrics'') else e)
        | Inr m \<Rightarrow> Inr m))"

definition read_metrics :: "world \<Rightarrow> string \<Rightarrow> openmetrics act" where
  "read_metrics w service = py_bind (service_http w service ''/metrics'') (\<lambda>r. py_lift (metrics_of service r))"

text \<open>\<^verbatim>\<open>try: return m except ContractError: pass\<close>, as whether it returned true.\<close>

definition holds_now :: "bool act \<Rightarrow> bool act" where
  "holds_now m = py_try m is_ContractError (\<lambda>_. py_return False)"

fun ready_rounds :: "world \<Rightarrow> string \<Rightarrow> nat \<Rightarrow> unit act" where
  "ready_rounds w service 0 = py_raise (ContractError (U service @ U '' readiness did not become 200''))"
| "ready_rounds w service (Suc n) =
     py_bind (holds_now (service_is_ready w service)) (\<lambda>b. if b then py_return () else ready_rounds w service n)"

definition wait_service_ready :: "world \<Rightarrow> string \<Rightarrow> unit act" where
  "wait_service_ready w service = py_bind (ask (\<lambda>n. v_rounds w n 30)) (\<lambda>rounds. ready_rounds w service rounds)"

section \<open>Liveness, readiness, metrics\<close>

definition observed_names :: "string list" where
  "observed_names = [''api'', ''worker-a'', ''worker-b'', ''outbox-dispatcher'', ''outbox-dispatcher-b'', ''receipt-adapter'',
     ''inbox-reconciler'', ''inbox-reconciler-b'']"

lemma observed_names: "map U observed_names = map fst OBSERVABILITY_ENDPOINTS"
  by code_simp

definition check_live :: "world \<Rightarrow> string \<Rightarrow> unit act" where
  "check_live w service =
     py_bind (service_http w service ''/health/live'') (\<lambda>live.
     py_bind (response_json w live) (\<lambda>body.
     check_that w (''health-live-'' @ service) ''observability''
       (hr_status live = 200 \<and> is_json live \<and> field_is body ''status'' (ps ''live''))))"

definition check_ready :: "world \<Rightarrow> string \<Rightarrow> unit act" where
  "check_ready w service =
     py_bind (service_is_ready w service) (\<lambda>b. check_that w (''health-ready-'' @ service) ''observability'' b)"

definition check_labels :: "world \<Rightarrow> string \<Rightarrow> openmetrics \<Rightarrow> unit act" where
  "check_labels w service m =
     py_seq (check w (''metrics-bounded-labels-'' @ service) ''observability'' (str_set [])
       (str_set (filter (\<lambda>l. l \<in> FORBIDDEN_METRIC_LABELS) (map fst (om_labels m)))))
       (check w (''metrics-bounded-label-values-'' @ service) ''observability'' (strs []) (strs (unbounded_metric_label_findings (om_labels m))))"

definition check_series :: "world \<Rightarrow> openmetrics \<Rightarrow> unit act" where
  "check_series w m =
     py_seq (check_that w ''metrics-required-series'' ''observability'' (REQUIRED_METRICS \<subseteq> set (map fst (samples m))))
       (check w ''metrics-required-types'' ''observability'' (str_dict REQUIRED_METRIC_TYPES)
         (PDict (map (\<lambda>(name, t). (name, opt_str (map_of (metric_types m) name))) REQUIRED_METRIC_TYPES)))"

definition observe_service :: "world \<Rightarrow> string \<Rightarrow> unit act" where
  "observe_service w service =
     py_seq (check_live w service) (
     py_seq (check_ready w service) (
     py_bind (read_metrics w service) (\<lambda>m.
     py_seq (check_labels w service m)
       (if service = ''api'' then check_series w m else py_return ()))))"

definition check_observability_endpoints :: "world \<Rightarrow> unit act" where
  "check_observability_endpoints w = py_for (observe_service w) observed_names"

section \<open>An outage of the provider\<close>

fun all_ready :: "world \<Rightarrow> string list \<Rightarrow> bool act" where
  "all_ready w [] = py_return True"
| "all_ready w (service # services) =
     py_bind (service_is_ready w service) (\<lambda>b. if b then all_ready w services else py_return False)"

definition up_alone :: "string list \<Rightarrow> pystr list" where
  "up_alone services = map U ([''up'', ''-d'', ''--no-build'', ''--no-deps''] @ services)"

definition stop_provider :: "world \<Rightarrow> unit act" where
  "stop_provider w =
     py_seq (require_compose w (map U [''stop'', ''outbox-dispatcher'', ''outbox-dispatcher-b'']) 30 (U ''cannot stop dispatchers for outage scenario'')) (
     py_seq (require_compose w (map U [''stop'', ''provider-simulator'']) 30 (U ''cannot stop provider for outage scenario'')) (
     py_seq (require_compose w (up_alone [''outbox-dispatcher'']) 30 (U ''cannot start dispatcher during outage'')) (
     py_seq (wait_service_ready w ''outbox-dispatcher'') (
     py_bind (all_ready w [''api'', ''worker-a'', ''worker-b'', ''outbox-dispatcher'']) (\<lambda>b.
     check_that w ''provider-outage-keeps-runtime-ready'' ''observability'' b)))))"

text \<open>\<^verbatim>\<open>value >= 1\<close>\<close>

definition at_least_one :: "pyfloat \<Rightarrow> bool" where
  "at_least_one v = (case v of
     FNum neg m e \<Rightarrow> \<not> neg \<and> (if 0 \<le> e then 1 \<le> m * 2 ^ nat e else 2 ^ nat (- e) \<le> m)
   | FInf neg \<Rightarrow> \<not> neg
   | FNaN \<Rightarrow> False)"

definition pending_outbox :: "openmetrics \<Rightarrow> bool" where
  "pending_outbox m = (case map_of (samples m) (U ''outbox_pending'') of None \<Rightarrow> False | Some vs \<Rightarrow> list_ex at_least_one vs)"

text \<open>A payment whose request is pending: its operation, its process and the id of the request.\<close>

definition pending_payment :: "world \<Rightarrow> (pystr \<times> pystr \<times> pystr) act" where
  "pending_payment w =
     py_seq (require_compose w (map U [''stop'', ''outbox-dispatcher'']) 30 (U ''cannot prepare pending outage request'')) (
     py_bind (create_and_submit w ''providerRequest'' ''provider-outage'') (\<lambda>(operation_id, process_id).
     py_bind (external_request w operation_id) (\<lambda>external_rows.
     py_bind (py_lift (external_id_of external_rows)) (\<lambda>external_id.
     py_bind (read_metrics w ''api'') (\<lambda>m.
     py_seq (check_that w ''metrics-reflect-pending-outbox'' ''observability'' (pending_outbox m))
       (py_return (operation_id, process_id, external_id)))))))"

definition retry_query :: "pystr \<Rightarrow> pystr" where
  "retry_query external_sql = U ''SELECT state, attempt_count, next_attempt_at, last_error_code '' @
     U ''FROM autocheck.outbox '' @ U ''WHERE external_request_id = '' @ external_sql"

definition attempted :: "pydict list \<Rightarrow> bool res" where
  "attempted rows = (case rows of
     [d] \<Rightarrow> member_of (dget_none d (U ''state'')) {U ''RETRY_WAIT'', U ''DEAD''}
   | _ \<Rightarrow> Inr False)"

text \<open>\<^verbatim>\<open>str(row.get("last_error_code", "")).endswith(".retryable")\<close>\<close>

definition retryable :: "pydict \<Rightarrow> bool" where
  "retryable d = endswith (py_str (dget_def (PStr []) d (U ''last_error_code''))) (U ''.retryable'')"

text \<open>\<^verbatim>\<open>isinstance(v, int)\<close>, with the number.\<close>

definition int_of_val :: "pyval \<Rightarrow> int option" where
  "int_of_val v = (case v of PInt i \<Rightarrow> Some i | PBool b \<Rightarrow> Some (if b then 1 else 0) | _ \<Rightarrow> None)"

definition require_recovery_window :: "pydict list \<Rightarrow> unit res" where
  "require_recovery_window rows = (case rows of
     [row] \<Rightarrow>
       (let st = dget_none row (U ''state''); invalid = Inl (ContractError (U ''outage delivery has invalid attempt count'')) in
        case int_of_val (dget_none row (U ''attempt_count'')) of
          None \<Rightarrow> invalid
        | Some attempts \<Rightarrow>
            if \<not> (1 \<le> attempts \<and> attempts \<le> 4) then invalid
            else if py_eq st (ps ''DEAD'') \<and> attempts < 4
            then Inl (ContractError (U ''retryable outage exhausted before the attempt limit''))
            else res_bind (member_of st {U ''RETRY_WAIT'', U ''LEASED'', U ''DEAD''}) (\<lambda>known.
              if \<not> known then Inl (ContractError (U ''outage delivery has unexpected state''))
              else if \<not> py_eq st (ps ''LEASED'') \<and> \<not> retryable row
              then Inl (ContractError (U ''provider outage is not classified as retryable''))
              else if attempts = 4 \<or> py_eq st (ps ''LEASED'') \<and> 3 \<le> attempts
              then Inl (EnvironmentFailure (U ''checker missed the recovery window before the last Outbox attempt; '' @
                U ''rerun on a responsive Docker host''))
              else Inr ()))
   | _ \<Rightarrow> Inl (ContractError (U ''outage delivery is missing'')))"

definition retry_recorded :: "pydict list \<Rightarrow> bool res" where
  "retry_recorded rows = (case rows of
     [d] \<Rightarrow>
       if py_eq (dget_none d (U ''state'')) (ps ''RETRY_WAIT'')
       then res_bind (Week3_Http.py_int (dget_def (PInt 0) d (U ''attempt_count''))) (\<lambda>n.
         Inr (1 \<le> n \<and> dget_none d (U ''next_attempt_at'') \<noteq> PNone \<and> retryable d))
       else Inr False
   | _ \<Rightarrow> Inr False)"

text \<open>The loop that waits for the provider: it tries at least once, and then while rounds are left.\<close>

primrec provider_rounds :: "world \<Rightarrow> pystr \<Rightarrow> nat \<Rightarrow> unit act" where
  "provider_rounds w external_id 0 =
     py_bind (holds_now (py_bind (provider_audit w external_id) (\<lambda>r. py_return (hr_status r \<in> {200, 404})))) (\<lambda>b.
     if b then py_return () else py_raise (EnvironmentFailure (U ''provider did not become available before recovery'')))"
| "provider_rounds w external_id (Suc n) =
     py_bind (holds_now (py_bind (provider_audit w external_id) (\<lambda>r. py_return (hr_status r \<in> {200, 404})))) (\<lambda>b.
     if b then py_return () else provider_rounds w external_id n)"

definition restore_provider :: "world \<Rightarrow> pystr \<Rightarrow> pystr \<Rightarrow> pydict list \<Rightarrow> unit act" where
  "restore_provider w external_id query retry_rows =
     py_bind (Week4_Harness.psql_rows w query) (\<lambda>rows.
     py_seq (py_lift (require_recovery_window rows)) (
     py_bind (py_lift (retry_recorded retry_rows)) (\<lambda>recorded.
     py_seq (check_that w ''provider-outage-persists-retry'' ''reliability'' recorded) (
     py_seq (require_compose w (up_alone [''provider-simulator'']) 30 (U ''cannot restore provider'')) (
     py_bind (ask (\<lambda>n. v_rounds w n 30)) (\<lambda>rounds. provider_rounds w external_id rounds))))))"

definition unpause :: "world \<Rightarrow> unit act" where
  "unpause w = require_compose w (map U [''unpause'', ''outbox-dispatcher'']) 30 (U ''cannot unpause dispatcher'')"

text \<open>\<^verbatim>\<open>try: m finally: n\<close>: an exception of \<open>n\<close> takes the place of the outcome of \<open>m\<close>.\<close>

definition py_finally :: "'a act \<Rightarrow> unit act \<Rightarrow> 'a act" where
  "py_finally m n = (\<lambda>s. case m s of (r, s') \<Rightarrow> (case n s' of (Inl e, s'') \<Rightarrow> (Inl e, s'') | (Inr _, s'') \<Rightarrow> (r, s'')))"

definition retry_during_outage :: "world \<Rightarrow> pystr \<Rightarrow> unit act" where
  "retry_during_outage w external_id =
     py_seq (require_compose w (up_alone [''outbox-dispatcher'']) 30 (U ''cannot start delivery during outage'')) (
     py_bind (py_lift (sql_text external_id)) (\<lambda>external_sql.
     let query = retry_query external_sql in
     py_bind (poll_rows_for w 15 query attempted) (\<lambda>retry_rows.
     py_seq (require_compose w (map U [''pause'', ''outbox-dispatcher'']) 30 (U ''cannot pause retrying dispatcher''))
       (py_finally (restore_provider w external_id query retry_rows) (unpause w)))))"

definition check_recovery_once :: "world \<Rightarrow> pystr \<Rightarrow> pystr \<Rightarrow> pystr \<Rightarrow> unit act" where
  "check_recovery_once w operation_id process_id external_id =
     py_seq (require_compose w (up_alone [''outbox-dispatcher-b'']) 30 (U ''cannot resume concurrent dispatchers'')) (
     py_bind (wait_operation w operation_id ''COMPLETED'') (\<lambda>completed.
     py_bind (provider_audit w external_id) (\<lambda>audit.
     py_bind (response_json w audit) (\<lambda>body.
     check_that w ''provider-recovery-completes-once'' ''reliability''
       (one_row completed [(''process_id'', PStr process_id)] \<and> hr_status audit = 200 \<and> field_is body ''paymentCount'' (PInt 1))))))"

definition check_provider_outage_recovery :: "world \<Rightarrow> (pystr \<times> pystr) act" where
  "check_provider_outage_recovery w =
     py_seq (stop_provider w) (
     py_bind (pending_payment w) (\<lambda>(operation_id, process_id, external_id).
     py_seq (retry_during_outage w external_id) (
     py_seq (check_recovery_once w operation_id process_id external_id)
       (py_return (operation_id, process_id)))))"

section \<open>An outage of the database\<close>

text \<open>The loop, by the rounds that are left; \<open>seen\<close> is the last answer.\<close>

fun unready_rounds :: "world \<Rightarrow> nat \<Rightarrow> HttpResult option \<Rightarrow> HttpResult option act" where
  "unready_rounds w 0 seen = py_return seen"
| "unready_rounds w (Suc n) seen =
     py_bind (service_http w ''api'' ''/health/ready'') (\<lambda>ready.
     if hr_status ready = 503 then py_return (Some ready) else unready_rounds w n (Some ready))"

definition optional_json :: "world \<Rightarrow> HttpResult option \<Rightarrow> pydict option act" where
  "optional_json w r = (case r of None \<Rightarrow> py_return None | Some x \<Rightarrow> response_json w x)"

definition unready_but_live :: "HttpResult option \<Rightarrow> pydict option \<Rightarrow> HttpResult \<Rightarrow> pydict option \<Rightarrow> bool" where
  "unready_but_live ready ready_json live live_json =
     ((case ready of None \<Rightarrow> False | Some r \<Rightarrow> hr_status r = 503) \<and> field_is ready_json ''status'' (ps ''not_ready'') \<and>
      field_is ready_json ''code'' (ps ''dependency.unavailable'') \<and> hr_status live = 200 \<and> field_is live_json ''status'' (ps ''live''))"

definition check_postgres_readiness :: "world \<Rightarrow> unit act" where
  "check_postgres_readiness w =
     py_seq (require_compose w (map U [''stop'', ''postgres'']) 30 (U ''cannot stop PostgreSQL for readiness'')) (
     py_bind (ask (\<lambda>n. v_rounds w n 15)) (\<lambda>rounds.
     py_bind (unready_rounds w rounds None) (\<lambda>ready.
     py_bind (service_http w ''api'' ''/health/live'') (\<lambda>live.
     py_bind (optional_json w ready) (\<lambda>ready_json.
     py_bind (response_json w live) (\<lambda>live_json.
     py_seq (check_that w ''health-postgres-affects-ready-not-live'' ''observability'' (unready_but_live ready ready_json live live_json)) (
     py_seq (require_compose w (map U [''up'', ''-d'', ''--no-build'', ''postgres'']) 60 (U ''cannot restart PostgreSQL''))
       (wait_gateway_for w 120))))))))"

end
