(* ===== verification/Week4_Database.thy ===== *)
theory Week4_Database
  imports Week4_Observe
begin

text \<open>
  \<^verbatim>\<open>_check_database_contract\<close> and \<^verbatim>\<open>_check_runtime_database_principals\<close> of \<^verbatim>\<open>task/week4/autocheck/public_check.py\<close>: the rights of
  the role that the checker reads with, the stable views, the roles of the Python services (with the text of week 3), and
  which role each service is connected as.
\<close>

section \<open>The reading role\<close>

definition identity_query :: pystr where
  "identity_query = U ''SELECT current_user AS current_user, '' @ sql ''current_setting(`transaction_read_only`) AS transaction_read_only''"

definition check_identity :: "world \<Rightarrow> unit act" where
  "check_identity w =
     py_bind (Week4_Harness.psql_rows w identity_query) (\<lambda>identity.
     check_that w ''trusted-read-only-database-channel'' ''startup''
       (py_eq (rows_val identity) (PList [obj [(''current_user'', ps ''autocheck_reader''), (''transaction_read_only'', ps ''on'')]])))"

definition reader_role_query :: pystr where
  "reader_role_query = U ''SELECT rolsuper, rolcreaterole, rolcreatedb, rolreplication, rolbypassrls '' @
     U ''FROM pg_catalog.pg_roles WHERE rolname = current_user''"

definition check_reader_role :: "world \<Rightarrow> unit act" where
  "check_reader_role w =
     py_bind (Week4_Harness.psql_rows w reader_role_query) (\<lambda>reader_role.
     check_that w ''autocheck-reader-not-elevated'' ''security''
       (case reader_role of [d] \<Rightarrow> list_all (\<lambda>(flag, v). v = PBool False) d | _ \<Rightarrow> False))"

definition reader_memberships_query :: pystr where
  "reader_memberships_query = U ''SELECT granted.rolname AS granted_role '' @
     U ''FROM pg_catalog.pg_auth_members membership '' @
     U ''JOIN pg_catalog.pg_roles member ON member.oid = membership.member '' @
     U ''JOIN pg_catalog.pg_roles granted ON granted.oid = membership.roleid '' @ U ''WHERE member.rolname = current_user''"

definition reader_relations_query :: pystr where
  "reader_relations_query = U ''SELECT n.nspname AS schema_name, c.relname AS relation_name '' @
     U ''FROM pg_catalog.pg_class c '' @ U ''JOIN pg_catalog.pg_namespace n ON n.oid = c.relnamespace '' @
     sql ''WHERE c.relkind IN (`r`, `p`, `v`, `m`, `f`) '' @
     sql ''AND n.nspname NOT IN (`pg_catalog`, `information_schema`) '' @ sql ''AND n.nspname NOT LIKE `pg_toast%` '' @
     sql ''AND ((n.nspname <> `autocheck` '' @ sql ''AND has_table_privilege(current_user, c.oid, `SELECT`)) '' @
     sql ''OR has_table_privilege(current_user, c.oid, `INSERT`) '' @
     sql ''OR has_table_privilege(current_user, c.oid, `UPDATE`) '' @
     sql ''OR has_table_privilege(current_user, c.oid, `DELETE`) '' @
     sql ''OR has_table_privilege(current_user, c.oid, `TRUNCATE`) '' @
     sql ''OR has_table_privilege(current_user, c.oid, `REFERENCES`) '' @
     sql ''OR has_table_privilege(current_user, c.oid, `TRIGGER`))''"

definition reader_create_query :: pystr where
  "reader_create_query = U ''SELECT n.nspname AS schema_name FROM pg_catalog.pg_namespace n '' @
     sql ''WHERE n.nspname NOT LIKE `pg_%` '' @ sql ''AND n.nspname <> `information_schema` '' @
     sql ''AND has_schema_privilege(current_user, n.oid, `CREATE`)''"

definition reader_usage_query :: pystr where
  "reader_usage_query = U ''SELECT n.nspname AS schema_name FROM pg_catalog.pg_namespace n '' @
     sql ''WHERE n.nspname NOT LIKE `pg_%` '' @ sql ''AND n.nspname NOT IN (`information_schema`, `public`, `autocheck`) '' @
     sql ''AND has_schema_privilege(current_user, n.oid, `USAGE`)''"

definition reader_sequences_query :: pystr where
  "reader_sequences_query = U ''SELECT n.nspname AS schema_name, c.relname AS sequence_name '' @
     U ''FROM pg_catalog.pg_class c '' @ U ''JOIN pg_catalog.pg_namespace n ON n.oid = c.relnamespace '' @
     sql ''WHERE c.relkind = `S` AND n.nspname NOT LIKE `pg_%` '' @
     sql ''AND (has_sequence_privilege(current_user, c.oid, `USAGE`) '' @
     sql ''OR has_sequence_privilege(current_user, c.oid, `SELECT`) '' @
     sql ''OR has_sequence_privilege(current_user, c.oid, `UPDATE`))''"

definition reader_functions_query :: pystr where
  "reader_functions_query = U ''SELECT n.nspname AS schema_name, p.proname AS function_name, '' @
     U ''pg_catalog.oidvectortypes(p.proargtypes) AS argument_types '' @ U ''FROM pg_catalog.pg_proc p '' @
     U ''JOIN pg_catalog.pg_namespace n ON n.oid = p.pronamespace '' @ sql ''WHERE n.nspname NOT LIKE `pg_%` '' @
     sql ''AND n.nspname NOT IN (`information_schema`, `autocheck`) '' @
     sql ''AND has_function_privilege(current_user, p.oid, `EXECUTE`)''"

definition reader_database_query :: pystr where
  "reader_database_query = sql ''SELECT privilege FROM (VALUES (`CREATE`), (`TEMP`)) AS p(privilege) '' @
     U ''WHERE has_database_privilege(current_user, current_database(), privilege)''"

definition reader_excess :: "(string \<times> pystr) list" where
  "reader_excess = [(''autocheck-reader-no-memberships'', reader_memberships_query),
     (''autocheck-reader-no-excess-relation-privileges'', reader_relations_query),
     (''autocheck-reader-no-schema-create'', reader_create_query),
     (''autocheck-reader-no-unrelated-schema-usage'', reader_usage_query),
     (''autocheck-reader-no-sequence-privileges'', reader_sequences_query),
     (''autocheck-reader-no-application-function-execute'', reader_functions_query),
     (''autocheck-reader-no-database-create-or-temp'', reader_database_query)]"

definition check_reader :: "world \<Rightarrow> unit act" where
  "check_reader w =
     py_seq (check_identity w) (
     py_seq (check_reader_role w)
       (py_for (\<lambda>(name, query). check_no_rows (week4_methods w) w name ''security'' query) reader_excess))"

definition week4_contract :: contract where
  "week4_contract = \<lparr>c_week = ''week4'', c_views = Week4_Constants.REQUIRED_VIEWS, c_columns = Week4_Constants.REQUIRED_VIEW_COLUMNS,
     c_type = Week4_Constants.expected_column_type\<rparr>"

text \<open>The rest has the text of week 3, over the tables of this week.\<close>

definition check_stable_contract :: "world \<Rightarrow> unit act" where
  "check_stable_contract w = (let k = week4_methods w in
     py_seq (check_views k w week4_contract) (
     py_seq (check_contract_info k w week4_contract)
       (check_flows k w)))"

definition check_python_roles :: "world \<Rightarrow> unit act" where
  "check_python_roles w = (let k = week4_methods w in
     py_seq (check_roles k w) (
     py_seq (check_privileges k w) (
     py_seq (check_functions k w)
       (check_function_privileges k w))))"

definition check_database_contract :: "world \<Rightarrow> unit act" where
  "check_database_contract w =
     py_seq (check_reader w) (
     py_seq (check_stable_contract w)
       (check_python_roles w))"

section \<open>Who is connected\<close>

definition expected_principals :: "(string \<times> string) list" where
  "expected_principals = [(''api'', ''course_runtime''), (''worker-a'', ''workflow_worker''), (''worker-b'', ''workflow_worker''),
     (''outbox-dispatcher'', ''outbox_dispatcher''), (''outbox-dispatcher-b'', ''outbox_dispatcher''),
     (''inbox-reconciler'', ''inbox_reconciler''), (''inbox-reconciler-b'', ''inbox_reconciler'')]"

type_synonym addresses = "(string \<times> pystr set) list"

text \<open>\<^verbatim>\<open>service_ips[service]\<close>\<close>

definition ips_of :: "addresses \<Rightarrow> string \<Rightarrow> pystr set" where
  "ips_of ips service = (case map_of ips service of None \<Rightarrow> {} | Some s \<Rightarrow> s)"

definition service_ips :: "world \<Rightarrow> addresses act" where
  "service_ips w = py_map (\<lambda>service. py_bind (container_ips w (U service)) (\<lambda>s. py_return (service, s)))
     (map fst expected_principals @ [''receipt-adapter''])"

definition activity_query :: "pystr set \<Rightarrow> pystr" where
  "activity_query relevant = U ''SELECT client_addr::text AS client_addr, usename '' @
     U ''FROM pg_catalog.pg_stat_activity '' @ U ''WHERE client_addr IN ('' @
     join_str (U '', '') (map (\<lambda>address. sql ''`'' @ address @ sql ''`::inet'') (sorted_list_of_set relevant)) @ U '')''"

text \<open>The session that a row shows: its address and its role.\<close>

definition session_of :: "pydict \<Rightarrow> pystr \<times> pystr" where
  "session_of row = (py_str (dget_none row (U ''client_addr'')), py_str (dget_none row (U ''usename'')))"

text \<open>What has been seen: the sessions, and whether one of them is the adapter's.\<close>

type_synonym seen = "(pystr \<times> pystr) list \<times> bool"

definition note_rows :: "addresses \<Rightarrow> pydict list \<Rightarrow> seen \<Rightarrow> seen" where
  "note_rows ips rows = (\<lambda>(observed, adapter). (remdups (observed @ map session_of rows),
     adapter \<or> list_ex (\<lambda>row. fst (session_of row) \<in> ips_of ips ''receipt-adapter'') rows))"

definition all_seen :: "addresses \<Rightarrow> seen \<Rightarrow> bool" where
  "all_seen ips seen = list_all (\<lambda>(service, role).
     list_ex (\<lambda>(address, r). address \<in> ips_of ips service \<and> r = U role) (fst seen)) expected_principals"

text \<open>The loop, by the rounds that are left.\<close>

fun principal_rounds :: "world \<Rightarrow> addresses \<Rightarrow> pystr \<Rightarrow> nat \<Rightarrow> seen \<Rightarrow> seen act" where
  "principal_rounds w ips query 0 seen = py_return seen"
| "principal_rounds w ips query (Suc n) seen =
     py_bind (Week4_Harness.psql_rows w query) (\<lambda>rows.
     let seen' = note_rows ips rows seen in
     if all_seen ips seen' then py_return seen' else principal_rounds w ips query n seen')"

definition mismatches :: "addresses \<Rightarrow> (pystr \<times> pystr) list \<Rightarrow> pystr list" where
  "mismatches ips observed = sort (concat (map (\<lambda>(service, expected).
     map (\<lambda>(address, role). U service @ U '':'' @ role)
       (filter (\<lambda>(address, role). address \<in> ips_of ips service \<and> role \<noteq> U expected) observed)) expected_principals))"

definition check_runtime_database_principals :: "world \<Rightarrow> string \<Rightarrow> unit act" where
  "check_runtime_database_principals w pre =
     py_bind (service_ips w) (\<lambda>ips.
     py_bind (ask (\<lambda>n. v_rounds w n 5)) (\<lambda>rounds.
     py_bind (principal_rounds w ips (activity_query (\<Union>(snd ` set ips))) rounds ([], False)) (\<lambda>seen.
     py_seq (check w (pre @ ''runtime-database-principals-no-mismatch'') ''security'' (strs []) (strs (mismatches ips (fst seen))))
       (check w (pre @ ''adapter-has-no-runtime-database-session'') ''security'' (PBool False) (PBool (snd seen))))))"

section \<open>Facts\<close>

text \<open>
  What the loop has seen is nothing but sessions of rows: a mismatch that is reported was in a row, and a service that is
  connected as another role is found in whatever was observed.
\<close>

lemma mismatches_Nil_iff:
  "mismatches ips observed = [] \<longleftrightarrow>
     (\<forall>(service, role)\<in>set expected_principals. \<forall>(address, r)\<in>set observed. address \<in> ips_of ips service \<longrightarrow> r = U role)"
proof -
  have "sort xs = [] \<longleftrightarrow> xs = []" for xs :: "pystr list" by (metis length_0_conv length_sort)
  then show ?thesis by (auto simp: mismatches_def filter_empty_conv case_prod_beta)
qed

text \<open>An IPv6 zone may contain any characters but the slash and the per cent sign, so an address may close the quote it is put into.\<close>

lemma zone_may_quote: "ip_address (U ''fe80::1%'' @ sql ''`'')"
  by code_simp

end
