(* ===== verification/Week4_Scenarios.thy ===== *)
theory Week4_Scenarios
  imports Week4_Database
begin

text \<open>
  The scenarios of \<^verbatim>\<open>task/week4/autocheck/public_check.py\<close>: the diagnostic actions (\<^verbatim>\<open>_check_trace\<close>, \<^verbatim>\<open>_check_stalled\<close>), the
  snapshot of the evidence and the full restart (\<^verbatim>\<open>_restart_snapshot\<close>, \<^verbatim>\<open>_check_full_restart\<close>), the logs, and the delivery,
  review and recovery of week 3 with the second dispatcher and reconciler.
\<close>

section \<open>Delivery and review\<close>

definition dispatchers :: "string list" where
  "dispatchers = [''outbox-dispatcher'', ''outbox-dispatcher-b'']"

definition check_provider_path :: "world \<Rightarrow> (pystr \<times> pystr) act" where
  "check_provider_path w = provider_path (week4_methods w) w dispatchers ''cannot stop Outbox dispatchers'' ''cannot start Outbox dispatchers''"

text \<open>The callback and the decision are kept for their repetition after the restart.\<close>

definition keep_callback :: "pystr \<Rightarrow> pydict \<Rightarrow> HttpResult \<Rightarrow> pydict option \<Rightarrow> unit act" where
  "keep_callback url legacy first first_json = (case first_json of
     None \<Rightarrow> py_raise (ContractError (U ''adapter callback response is not an action envelope''))
   | Some d \<Rightarrow> py_modify (\<lambda>s. s\<lparr>restart_callback := Some (url, legacy, hr_status first, d)\<rparr>))"

definition keep_decision :: "pydict \<Rightarrow> pystr \<Rightarrow> HttpResult \<Rightarrow> pydict option \<Rightarrow> unit act" where
  "keep_decision d key accepted accepted_json = (case accepted_json of
     None \<Rightarrow> py_raise (ContractError (U ''manual response is not an action envelope''))
   | Some body \<Rightarrow> py_modify (\<lambda>s. s\<lparr>restart_manual := Some (d, key, hr_status accepted, body)\<rparr>))"

definition check_adapter_deduplication :: "world \<Rightarrow> (pystr \<times> pystr) act" where
  "check_adapter_deduplication w = adapter_deduplication (week4_methods w) w dispatchers
     ''cannot stop Outbox dispatchers for adapter scenario'' ''cannot restart Outbox dispatchers after adapter scenario'' keep_callback"

definition check_review :: "world \<Rightarrow> (pystr \<times> pystr) act" where
  "check_review w = review (week4_methods w) w keep_decision"

section \<open>The trace\<close>

text \<open>An action without an idempotency key.\<close>

definition diagnose :: "world \<Rightarrow> string \<Rightarrow> pydict \<Rightarrow> pystr \<Rightarrow> HttpResult act" where
  "diagnose w action d token = action_with w ''diagnostics'' action d token None []"

text \<open>\<^verbatim>\<open>v.get(k) if isinstance(v, dict) else None\<close>\<close>

definition part :: "pyval \<Rightarrow> string \<Rightarrow> pyval" where
  "part v k = (case v of PDict d \<Rightarrow> dget_none d (U k) | _ \<Rightarrow> PNone)"

text \<open>\<^verbatim>\<open>isinstance(v, list) and bool(v)\<close>, and \<^verbatim>\<open>isinstance(v, dict) and v.get(k) == x\<close>\<close>

definition is_full_list :: "pyval \<Rightarrow> bool" where
  "is_full_list v = (case v of PList xs \<Rightarrow> xs \<noteq> [] | _ \<Rightarrow> False)"

definition part_is :: "pyval \<Rightarrow> string \<Rightarrow> pystr \<Rightarrow> bool" where
  "part_is v k x = (case v of PDict d \<Rightarrow> py_eq (dget_none d (U k)) (PStr x) | _ \<Rightarrow> False)"

definition trace_parts :: "pystr set" where
  "trace_parts = U ` {''query'', ''dispatches'', ''operation'', ''operationEvents'', ''process'', ''steps'', ''jobs'', ''attempts'', ''outbox'',
     ''inbox'', ''receipts'', ''decisions''}"

definition has_parts :: "pyval \<Rightarrow> bool" where
  "has_parts v = (case v of PDict d \<Rightarrow> trace_parts \<subseteq> dkeys d | _ \<Rightarrow> False)"

definition trace_complete ::
    "HttpResult \<Rightarrow> pydict option \<Rightarrow> pystr list \<Rightarrow> pystr \<Rightarrow> pystr \<Rightarrow> pystr \<Rightarrow> string \<Rightarrow> bool" where
  "trace_complete r envelope errors identifier operation_id process_id evidence_key =
     (let result = json_field envelope ''result''; query = part result ''query'' in
      hr_status r = 200 \<and> field_is envelope ''status'' (ps ''ok'') \<and> field_is envelope ''outcome'' (ps ''FOUND'') \<and>
      errors = [] \<and> has_parts result \<and> part_is query ''identifier'' identifier \<and> is_full_list (part query ''matchedBy'') \<and>
      part_is (part result ''operation'') ''operationId'' operation_id \<and>
      part_is (part result ''process'') ''processId'' process_id \<and> is_full_list (part result evidence_key))"

definition check_one_trace :: "world \<Rightarrow> string \<Rightarrow> string \<times> pystr \<times> pystr \<times> pystr \<times> string \<Rightarrow> unit act" where
  "check_one_trace w pre = (\<lambda>(lab, identifier, operation_id, process_id, evidence_key).
     py_bind (diagnose w ''trace'' [(U ''identifier'', PStr identifier)] (a_diagnostics_token (v_self w))) (\<lambda>r.
     py_bind (response_json w r) (\<lambda>envelope.
     py_bind (py_lift (schema_errors w ''diagnostics-trace.result.schema.json'' (json_field envelope ''result''))) (\<lambda>errors.
     check_that w (pre @ ''trace-'' @ lab @ ''-complete'') ''observability''
       (trace_complete r envelope errors identifier operation_id process_id evidence_key)))))"

definition check_unknown_trace :: "world \<Rightarrow> string \<Rightarrow> unit act" where
  "check_unknown_trace w pre =
     py_bind (fresh_key w (U ''unknown-'') 12) (\<lambda>identifier.
     py_bind (diagnose w ''trace'' [(U ''identifier'', PStr identifier)] (a_diagnostics_token (v_self w))) (\<lambda>missing.
     py_bind (response_json w missing) (\<lambda>body.
     check_that w (pre @ ''trace-unknown-identifier'') ''observability'' (refused missing body 404 ''diagnostics.trace_not_found''))))"

definition process_of :: "pydict list \<Rightarrow> string \<Rightarrow> pystr res" where
  "process_of rows field = res_bind (first_row rows ''process_id'') (\<lambda>v. uuid_of v field)"

definition check_trace :: "world \<Rightarrow> pystr \<Rightarrow> pystr \<Rightarrow> string \<Rightarrow> unit act" where
  "check_trace w provider_operation manual_operation pre =
     py_bind (operation_rows w provider_operation) (\<lambda>provider_rows.
     py_bind (operation_rows w manual_operation) (\<lambda>manual_rows.
     if length provider_rows \<noteq> 1 \<or> length manual_rows \<noteq> 1 then py_raise (ContractError (U ''trace source operations are missing''))
     else py_bind (py_lift (process_of provider_rows ''provider processId'')) (\<lambda>provider_process.
       py_bind (py_lift (process_of manual_rows ''manual processId'')) (\<lambda>manual_process.
       py_bind (external_request w provider_operation) (\<lambda>external_rows.
       py_bind (py_lift (external_id_of external_rows)) (\<lambda>external_id.
       py_seq (check_one_trace w pre (''operation'', provider_operation, provider_operation, provider_process, ''receipts'')) (
       py_seq (check_one_trace w pre (''external'', external_id, provider_operation, provider_process, ''receipts'')) (
       py_seq (check_one_trace w pre (''manual'', manual_operation, manual_operation, manual_process, ''decisions''))
         (check_unknown_trace w pre)))))))))"

section \<open>The snapshot\<close>

definition restart_queries :: "pystr list \<Rightarrow> (string \<times> pystr) list" where
  "restart_queries operation_ids =
     (let values = join_str (U '', '') (map (\<lambda>v. sql ''`'' @ v @ sql ''`::uuid'') operation_ids);
          operation_filter = U ''SELECT operation_id FROM autocheck.operations WHERE operation_id IN ('' @ values @ U '')'';
          process_filter = U ''SELECT process_id FROM autocheck.operations WHERE operation_id IN ('' @ values @ U '')'';
          external_filter = U ''SELECT external_request_id FROM autocheck.external_requests '' @ U ''WHERE operation_id IN ('' @ values @ U '')''
      in [(''operations'', U ''SELECT operation_id, request_id, operation_kind, amount, currency, '' @
           U ''status, process_id, created_at, updated_at FROM autocheck.operations '' @
           U ''WHERE operation_id IN ('' @ values @ U '') ORDER BY operation_id''),
         (''operation_events'', U ''SELECT event_id, operation_id, event_type, payload_hash, occurred_at '' @
           U ''FROM autocheck.operation_events WHERE operation_id IN '' @
           U ''('' @ operation_filter @ U '') ORDER BY occurred_at, event_id''),
         (''action_dispatches'', U ''SELECT correlation_id, request_id, module, action, version, principal, '' @
           U ''payload_hash, status, outcome, occurred_at '' @ U ''FROM autocheck.action_dispatches WHERE request_id IN '' @
           U ''(SELECT request_id FROM autocheck.operations WHERE operation_id IN ('' @ values @ U '')) '' @
           U ''ORDER BY occurred_at, correlation_id''),
         (''processes'', U ''SELECT process_id, business_key, flow_name, flow_version, state, '' @
           U ''current_step_key, created_at, updated_at FROM autocheck.processes '' @
           U ''WHERE process_id IN ('' @ process_filter @ U '') ORDER BY process_id''),
         (''steps'', U ''SELECT step_instance_id, process_id, step_key, step_type, state, outcome, '' @
           U ''entered_at, completed_at FROM autocheck.steps WHERE process_id IN '' @
           U ''('' @ process_filter @ U '') ORDER BY entered_at, step_instance_id''),
         (''jobs'', U ''SELECT job_id, process_id, step_instance_id, execution_id, state, '' @
           U ''lease_owner, lease_version, lease_until, attempt_count, next_attempt_at '' @
           U ''FROM autocheck.jobs WHERE process_id IN '' @ U ''('' @ process_filter @ U '') ORDER BY job_id''),
         (''attempts'', U ''SELECT attempt_id, job_id, execution_id, lease_version, attempt_number, '' @
           U ''status, outcome, error_code, started_at, finished_at '' @ U ''FROM autocheck.attempts WHERE job_id IN '' @
           U ''(SELECT job_id FROM autocheck.jobs WHERE process_id IN '' @
           U ''('' @ process_filter @ U '')) ORDER BY started_at, attempt_id''),
         (''signals'', U ''SELECT message_id, process_id, signal_type, body_hash, status, received_at '' @
           U ''FROM autocheck.signals WHERE process_id IN '' @ U ''('' @ process_filter @ U '') ORDER BY received_at, message_id''),
         (''workflow_events'', U ''SELECT event_id, process_id, step_instance_id, event_type, occurred_at '' @
           U ''FROM autocheck.workflow_events WHERE process_id IN '' @ U ''('' @ process_filter @ U '') ORDER BY occurred_at, event_id''),
         (''external_requests'', U ''SELECT external_request_id, operation_id, state, payload_hash, created_at '' @
           U ''FROM autocheck.external_requests WHERE operation_id IN '' @
           U ''('' @ operation_filter @ U '') ORDER BY external_request_id''),
         (''outbox'', U ''SELECT outbox_id, external_request_id, state, attempt_count, lease_owner, '' @
           U ''lease_version, lease_until, next_attempt_at, last_error_code, created_at, '' @
           U ''delivered_at, dead_at FROM autocheck.outbox WHERE external_request_id IN '' @
           U ''('' @ external_filter @ U '') ORDER BY outbox_id''),
         (''receipts'', U ''SELECT message_id, external_request_id, message_version, outcome, '' @
           U ''signature_valid, body_hash, received_at, applied_at FROM autocheck.receipts '' @
           U ''WHERE external_request_id IN ('' @ external_filter @ U '') ORDER BY message_id''),
         (''inbox'', U ''SELECT message_id, body_hash, state, received_at, applied_at '' @
           U ''FROM autocheck.inbox WHERE message_id IN '' @
           U ''(SELECT message_id FROM autocheck.receipts WHERE external_request_id IN '' @
           U ''('' @ external_filter @ U '')) ORDER BY message_id''),
         (''decisions'', U ''SELECT decision_id, process_id, step_instance_id, source, principal, '' @
           U ''reason_hash, outcome, rule_version, created_at FROM autocheck.decisions '' @
           U ''WHERE process_id IN ('' @ process_filter @ U '') ORDER BY created_at, decision_id'')])"

type_synonym snapshot = "(string \<times> pydict list) list"

definition restart_snapshot :: "world \<Rightarrow> pystr list \<Rightarrow> snapshot act" where
  "restart_snapshot w operation_ids =
     py_map (\<lambda>(name, query). py_bind (Week4_Harness.psql_rows w query) (\<lambda>rows. py_return (name, rows))) (restart_queries operation_ids)"

text \<open>\<^verbatim>\<open>snapshot == before\<close>; both have the same tables in the same order.\<close>

definition same_snapshot :: "snapshot \<Rightarrow> snapshot \<Rightarrow> bool" where
  "same_snapshot a b = py_eq (obj (map (\<lambda>(name, rows). (name, rows_val rows)) a)) (obj (map (\<lambda>(name, rows). (name, rows_val rows)) b))"

definition without_dispatches :: "snapshot \<Rightarrow> snapshot" where
  "without_dispatches snap = filter (\<lambda>(name, rows). name \<noteq> ''action_dispatches'') snap"

section \<open>Stalled operations\<close>

definition registrations_query :: pystr where
  "registrations_query = U ''SELECT version, http_method, outcomes, enabled, is_default '' @
     U ''FROM autocheck.action_definitions '' @ sql ''WHERE module = `diagnostics` AND action = `stalled` AND version = 1''"

definition stalled_registration :: pyval where
  "stalled_registration = PList [obj [(''version'', PInt 1), (''http_method'', ps ''POST''), (''outcomes'', PList [ps ''FOUND'']),
     (''enabled'', PBool True), (''is_default'', PBool True)]]"

definition stalled_answered :: "HttpResult \<Rightarrow> pydict option \<Rightarrow> pystr list \<Rightarrow> bool" where
  "stalled_answered r envelope errors =
     (hr_status r = 200 \<and> is_json r \<and> field_is envelope ''status'' (ps ''ok'') \<and> field_is envelope ''outcome'' (ps ''FOUND'') \<and>
      (case part (json_field envelope ''meta'') ''correlationId'' of PStr t \<Rightarrow> t \<noteq> [] | _ \<Rightarrow> False) \<and> errors = [])"

text \<open>\<^verbatim>\<open>[self._uuid(item["operationId"], "operationId") for item in result["items"]]\<close>\<close>

definition stalled_identifiers :: "pyval \<Rightarrow> pystr list res" where
  "stalled_identifiers result =
     res_bind (res_bind (item_of result ''items'') py_iter) (\<lambda>items.
     res_map (\<lambda>item. res_bind (item_of item ''operationId'') (\<lambda>v. uuid_of v ''operationId'')) items)"

definition check_stalled_answer :: "world \<Rightarrow> unit act" where
  "check_stalled_answer w =
     py_bind (diagnose w ''stalled'' [] (a_diagnostics_token (v_self w))) (\<lambda>r.
     py_bind (response_json w r) (\<lambda>envelope.
     let result = json_field envelope ''result'' in
     py_bind (py_lift (schema_errors w ''diagnostics-stalled.result.schema.json'' result)) (\<lambda>errors.
     py_seq (check_that w ''stalled-response-contract'' ''observability'' (stalled_answered r envelope errors)) (
     py_bind (py_lift (stalled_identifiers result)) (\<lambda>identifiers.
     check_that w ''stalled-ordered-unique-operations'' ''observability'' (identifiers = sorted_list_of_set (set identifiers)))))))"

definition check_denied :: "world \<Rightarrow> string \<Rightarrow> HttpResult act \<Rightarrow> int \<Rightarrow> unit act" where
  "check_denied w lab m expected_status =
     py_bind m (\<lambda>denied.
     py_bind (response_json w denied) (\<lambda>body.
     check_that w (''stalled-'' @ lab) ''security'' (hr_status denied = expected_status \<and> field_is body ''status'' (ps ''error''))))"

definition stalled_without_token :: "world \<Rightarrow> HttpResult act" where
  "stalled_without_token w =
     py_seq h (py_bind (py_lift (receipt_bytes (PDict []))) (\<lambda>body.
       http w (U ''POST'') (U ''/api/diagnostics/stalled'') (Some body)
         [(U ''Content-Type'', U ''application/json''), (U ''X-Action-Version'', U ''1'')] 30))"

definition check_stalled_refusals :: "world \<Rightarrow> unit act" where
  "check_stalled_refusals w =
     py_seq (check_denied w ''no-token'' (stalled_without_token w) 401) (
     py_seq (check_denied w ''invalid-token'' (diagnose w ''stalled'' [] (U ''not-a-jwt'')) 401) (
     py_seq (check_denied w ''missing-policy'' (diagnose w ''stalled'' [] (a_client_token (v_self w))) 403) (
     py_bind (diagnose w ''stalled'' [(U ''unexpected'', PBool True)] (a_diagnostics_token (v_self w))) (\<lambda>invalid.
     py_bind (response_json w invalid) (\<lambda>body.
     check_that w ''stalled-invalid-payload'' ''observability'' (hr_status invalid = 422 \<and> field_is body ''status'' (ps ''error'') \<and>
       field_is body ''code'' (ps ''payload.invalid'')))))))"

definition check_stalled :: "world \<Rightarrow> pystr list \<Rightarrow> unit act" where
  "check_stalled w operation_ids =
     py_bind (Week4_Harness.psql_rows w registrations_query) (\<lambda>registrations.
     py_seq (check_that w ''stalled-registered-action'' ''observability'' (py_eq (rows_val registrations) stalled_registration)) (
     py_bind (restart_snapshot w operation_ids) (\<lambda>before.
     py_seq (check_stalled_answer w) (
     py_seq (check_stalled_refusals w) (
     py_bind (restart_snapshot w operation_ids) (\<lambda>after.
     check_that w ''stalled-preserves-business-evidence'' ''observability''
       (same_snapshot (without_dispatches after) (without_dispatches before))))))))"

section \<open>The logs\<close>

definition capture_logs :: "world \<Rightarrow> unit act" where
  "capture_logs w = py_bind (candidate_logs w) (\<lambda>out. py_modify (\<lambda>s. s\<lparr>captured_logs := captured_logs s @ [out]\<rparr>))"

text \<open>All logs so far as one text.\<close>

definition all_logs :: "world \<Rightarrow> pystr act" where
  "all_logs w = py_seq (capture_logs w) (py_read (\<lambda>s. join_str [10] (captured_logs s)))"

definition leaked_labels :: "pystr list \<Rightarrow> pystr \<Rightarrow> pystr list" where
  "leaked_labels secrets out = concat (map (\<lambda>(index, secret).
     if secret \<noteq> [] \<and> contains secret out then [U ''synthetic-secret-'' @ str_of_nat index] else []) (zip [1..<Suc (length secrets)] secrets))"

definition check_final_log_hygiene :: "world \<Rightarrow> unit act" where
  "check_final_log_hygiene w =
     py_bind (all_logs w) (\<lambda>out.
     py_seq (check w ''final-synthetic-secrets-not-in-logs'' ''security'' (strs []) (strs (leaked_labels (a_sensitive (v_self w)) out))) (
     py_bind (py_read forbidden_log_values) (\<lambda>values.
     py_bind (py_lift (leaked_messages values out)) (\<lambda>labels.
     check w ''final-full-messages-not-in-logs'' ''security'' (strs []) (strs labels)))))"

section \<open>The restart\<close>

definition restart_stack :: "world \<Rightarrow> unit act" where
  "restart_stack w =
     py_seq (capture_logs w) (
     py_seq (require_compose w (map U [''down'', ''--remove-orphans'']) 120 (U ''cannot recreate full application stack'')) (
     py_seq (require_compose w (map U [''up'', ''-d'', ''--no-build'']) 180 (U ''cannot restart full application stack'')) (
     py_seq (wait_gateway_for w 180) (
     py_seq (all_running w)
       (check_cli w ''cli-restart-completed'' ''recovery'')))))"

definition check_snapshot :: "world \<Rightarrow> string \<Rightarrow> pystr list \<Rightarrow> snapshot \<Rightarrow> unit act" where
  "check_snapshot w name operation_ids before =
     py_bind (restart_snapshot w operation_ids) (\<lambda>after. check_that w name ''recovery'' (same_snapshot after before))"

text \<open>The JSON of the answer is read only if the status is the same.\<close>

definition replay_callback :: "world \<Rightarrow> pystr \<times> pydict \<times> int \<times> pydict \<Rightarrow> unit act" where
  "replay_callback w = (\<lambda>(url, d, st, body).
     py_bind (post_callback (week4_methods w) url d) (\<lambda>repeated.
     py_bind (if hr_status repeated = st then response_json w repeated else py_return None) (\<lambda>repeated_json.
     check_that w ''callback-repeat-after-full-restart'' ''recovery''
       (hr_status repeated = st \<and> same_action_result (opt_dict repeated_json) (PDict body)))))"

definition replay_decision :: "world \<Rightarrow> pydict \<times> pystr \<times> int \<times> pydict \<Rightarrow> unit act" where
  "replay_decision w = (\<lambda>(d, key, st, body).
     py_bind (decide w d key) (\<lambda>repeated.
     py_bind (if hr_status repeated = st then response_json w repeated else py_return None) (\<lambda>repeated_json.
     check_that w ''manual-repeat-after-full-restart'' ''recovery''
       (hr_status repeated = st \<and> same_action_result (opt_dict repeated_json) (PDict body)))))"

definition replay :: "world \<Rightarrow> unit act" where
  "replay w = py_bind py_get (\<lambda>s. case (restart_callback s, restart_manual s) of
     (Some callback, Some decision) \<Rightarrow> py_seq (replay_callback w callback) (replay_decision w decision)
   | _ \<Rightarrow> py_raise (ContractError (U ''restart replay evidence is unavailable'')))"

text \<open>\<^verbatim>\<open>operation_ids[1], operation_ids[-1]\<close>\<close>

definition traced_ids :: "pystr list \<Rightarrow> (pystr \<times> pystr) res" where
  "traced_ids operation_ids = (case operation_ids of _ # x # _ \<Rightarrow> Inr (x, last operation_ids) | _ \<Rightarrow> Inl IndexError)"

definition check_resumes :: "world \<Rightarrow> unit act" where
  "check_resumes w =
     py_bind (create_and_submit w ''providerRequest'' ''full-restart-sentinel'') (\<lambda>(sentinel_operation, _).
     py_bind (wait_operation w sentinel_operation ''COMPLETED'') (\<lambda>completed.
     check_that w ''full-restart-processing-resumes'' ''recovery'' (one_row completed [(''status'', ps ''COMPLETED'')])))"

text \<open>The number of rows of \<^verbatim>\<open>before["operations"]\<close>.\<close>

definition operations_in :: "snapshot \<Rightarrow> int" where
  "operations_in snap = (case map_of snap ''operations'' of None \<Rightarrow> 0 | Some rows \<Rightarrow> int (length rows))"

definition check_full_restart :: "world \<Rightarrow> pystr list \<Rightarrow> unit act" where
  "check_full_restart w operation_ids =
     py_bind (restart_snapshot w operation_ids) (\<lambda>before.
     py_seq (check w ''full-restart-snapshot-complete'' ''recovery'' (PInt (int (length operation_ids))) (PInt (operations_in before))) (
     py_seq (restart_stack w) (
     py_seq (check_snapshot w ''full-restart-preserves-evidence'' operation_ids before) (
     py_seq (replay w) (
     py_seq (check_snapshot w ''full-restart-replays-preserve-evidence'' operation_ids before) (
     py_bind (py_lift (traced_ids operation_ids)) (\<lambda>(provider_operation, manual_operation).
     py_seq (check_trace w provider_operation manual_operation ''post-restart-'')
       (check_resumes w))))))))"

section \<open>Recovery\<close>

definition check_recreate_and_hygiene :: "world \<Rightarrow> pystr list \<Rightarrow> unit act" where
  "check_recreate_and_hygiene w operation_ids = recreate_and_hygiene (week4_methods w) w
     [''inbox-reconciler'', ''inbox-reconciler-b'', ''outbox-dispatcher'', ''outbox-dispatcher-b'']
     Week4_Constants.PYTHON_SERVICES (capture_logs w) (all_logs w) operation_ids"

end
