(* ===== verification/Week4_Run.thy ===== *)
theory Week4_Run
  imports Week4_Scenarios
begin

text \<open>
  \<^verbatim>\<open>execute\<close>, \<^verbatim>\<open>cleanup\<close> and \<^verbatim>\<open>main\<close> of \<^verbatim>\<open>task/week4/autocheck/public_check.py\<close>; \<^verbatim>\<open>main\<close> has the text of week 3, over the checker of
  this week.
\<close>

definition execute :: "world \<Rightarrow> unit act" where
  "execute w =
     py_seq (check_admission_and_start w) (
     py_seq (check_database_contract w) (
     py_seq (check_runtime_database_principals w ''startup-'') (
     py_seq (check_observability_endpoints w) (
     py_bind (check_provider_outage_recovery w) (\<lambda>(outage_operation, _).
     py_bind (check_provider_path w) (\<lambda>(provider_operation, _).
     py_bind (check_adapter_deduplication w) (\<lambda>(adapter_operation, _).
     py_bind (check_review w) (\<lambda>(manual_operation, _).
     let operation_ids = [outage_operation, provider_operation, adapter_operation, manual_operation] in
     py_seq (check_runtime_database_principals w ''post-workload-'') (
     py_seq (check_trace w provider_operation manual_operation '''') (
     py_seq (check_recreate_and_hygiene w operation_ids) (
     py_seq (check_postgres_readiness w) (
     py_seq (check_full_restart w operation_ids) (
     py_seq (check_stalled w operation_ids)
       (check_final_log_hygiene w))))))))))))))"

definition remove_image :: "world \<Rightarrow> pystr \<Rightarrow> unit act" where
  "remove_image w img =
     py_bind (run w [U ''docker'', U ''image'', U ''rm'', img] 60) (\<lambda>removed.
     if cmd_ok removed then py_return () else py_raise (EnvironmentFailure (U ''isolated checker image cleanup failed'')))"

definition cleanup :: "world \<Rightarrow> unit act" where
  "cleanup w = py_bind py_get (\<lambda>s.
     if \<not> cleanup_armed s \<or> v_keep_stack w \<or> harness s = None then py_return ()
     else py_bind (compose w (map U [''down'', ''--volumes'', ''--remove-orphans'']) 600) (\<lambda>result.
       if \<not> cmd_ok result then py_raise (EnvironmentFailure (U ''isolated Docker cleanup failed''))
       else py_bind (py_read isolated_images) (\<lambda>images. py_for (remove_image w) (sorted_list_of_set images))))"

definition week4_program :: program where
  "week4_program = \<lparr>pr_week = ''week-4'', pr_construct = new_checker, pr_execute = execute, pr_cleanup = cleanup,
     pr_report = Week4_Report.build_report\<rparr>"

definition validated_report_path :: "place \<Rightarrow> pystr \<Rightarrow> pystr res" where
  [week4_same]: "validated_report_path = Week3_Run.validated_report_path"

definition write_report :: "place \<Rightarrow> pystr \<Rightarrow> pyval \<Rightarrow> unit res" where
  [week4_same]: "write_report = Week3_Run.write_report"

definition main :: "(pyexn \<Rightarrow> pystr) \<Rightarrow> place \<Rightarrow> pystr \<times> pystr \<times> pystr \<Rightarrow> (pystr \<Rightarrow> unit res) \<Rightarrow> world \<Rightarrow> args \<Rightarrow> int res" where
  "main class_name pl stamps emit w a = main_of week4_program class_name pl stamps emit w a"

end
