(* ===== verification/Week4_Laws.thy ===== *)
theory Week4_Laws
  imports Week4_Run
begin

text \<open>
  Laws of parts of \<^verbatim>\<open>task/week4/autocheck/public_check.py\<close> that the scenarios rely on: when an outage may end, where a probe
  may be sent, and which images the checker removes.
\<close>

section \<open>The window of the outage\<close>

text \<open>The dispatcher has an attempt left after the one that may be under way.\<close>

definition in_recovery_window :: "pydict list \<Rightarrow> bool" where
  "in_recovery_window rows = (case rows of
     [row] \<Rightarrow> (case int_of_val (dget_none row (U ''attempt_count'')) of
         None \<Rightarrow> False
       | Some n \<Rightarrow> dget_none row (U ''state'') = ps ''RETRY_WAIT'' \<and> retryable row \<and> 1 \<le> n \<and> n \<le> 3 \<or>
           dget_none row (U ''state'') = ps ''LEASED'' \<and> 1 \<le> n \<and> n \<le> 2)
   | _ \<Rightarrow> False)"

text \<open>The last attempt has been made or may be under way; a retry that waits, or is given up, has an error of its own.\<close>

definition window_missed :: "pydict list \<Rightarrow> bool" where
  "window_missed rows = (case rows of
     [row] \<Rightarrow> (case int_of_val (dget_none row (U ''attempt_count'')) of
         None \<Rightarrow> False
       | Some n \<Rightarrow> (dget_none row (U ''state'') = ps ''RETRY_WAIT'' \<or> dget_none row (U ''state'') = ps ''DEAD'') \<and> retryable row \<and> n = 4 \<or>
           dget_none row (U ''state'') = ps ''LEASED'' \<and> (n = 3 \<or> n = 4))
   | _ \<Rightarrow> False)"

lemma py_eq_text: "py_eq v (ps t) \<longleftrightarrow> v = ps t"
  by (cases v) (auto simp: ps_def)

lemma member_of_texts: "member_of v names = Inr b \<longleftrightarrow> hashable v \<and> b = (\<exists>t\<in>names. v = PStr t)"
  by (cases v) (auto simp: member_of_def)

lemma states_differ: "ps ''RETRY_WAIT'' \<noteq> ps ''LEASED''" "ps ''RETRY_WAIT'' \<noteq> ps ''DEAD''" "ps ''LEASED'' \<noteq> ps ''DEAD''"
  by (simp_all add: ps_def)

lemma hashable_text: "hashable (ps t)"
  by (simp add: ps_def)

text \<open>
  C27. The outage is ended in time: \<^verbatim>\<open>_require_recovery_window\<close> returns exactly when the only delivery has an attempt left after
  the one that may be under way, and it reports a failure of the environment exactly when that attempt has been made or may
  be under way. Everything else (no or several rows, a count outside 1 to 4, another state, an error that is not retryable,
  a delivery that is given up early) is a failure of the submission or, for a state that cannot be hashed, of the checker.
\<close>

theorem recovery_window_iff:
  "(require_recovery_window rows = Inr () \<longleftrightarrow> in_recovery_window rows) \<and>
   ((\<exists>m. require_recovery_window rows = Inl (EnvironmentFailure m)) \<longleftrightarrow> window_missed rows)"
proof (cases "\<exists>row n. rows = [row] \<and> int_of_val (dget_none row (U ''attempt_count'')) = Some n")
  case False
  then show ?thesis
    by (auto simp: require_recovery_window_def in_recovery_window_def window_missed_def Let_def split: list.splits option.splits)
next
  case True
  then obtain row n where r: "rows = [row]" "int_of_val (dget_none row (U ''attempt_count'')) = Some n" by blast
  have known: "(\<exists>t\<in>{U ''RETRY_WAIT'', U ''LEASED'', U ''DEAD''}. v = PStr t) \<longleftrightarrow> v \<in> {ps ''RETRY_WAIT'', ps ''LEASED'', ps ''DEAD''}" for v
    by (auto simp: ps_def)
  let ?st = "dget_none row (U ''state'')"
  have m: "member_of ?st {U ''RETRY_WAIT'', U ''LEASED'', U ''DEAD''} =
      (if hashable ?st then Inr (?st \<in> {ps ''RETRY_WAIT'', ps ''LEASED'', ps ''DEAD''}) else Inl TypeError)"
    using known [of ?st] by (cases ?st) (auto simp: member_of_def)
  consider "?st = ps ''RETRY_WAIT''" | "?st = ps ''LEASED''" | "?st = ps ''DEAD''"
    | "?st \<notin> {ps ''RETRY_WAIT'', ps ''LEASED'', ps ''DEAD''}" by blast
  then show ?thesis
    by cases (use r m states_differ states_differ [symmetric] in
      \<open>auto simp: require_recovery_window_def in_recovery_window_def window_missed_def Let_def py_eq_text hashable_text\<close>)
qed

section \<open>Where a probe is sent\<close>

lemma loopback_url_shape:
  "\<exists>rest. loopback_url port parsed = U ''http://127.0.0.1:'' @ str_of_int port @ rest \<and> hd (rest @ [47]) \<in> {47, 63}"
  by (auto simp: loopback_url_def U_def split: list.splits if_splits)

text \<open>A request is sent only for the address that the service has inside the stack.\<close>

lemma checked_target_Inr:
  assumes "checked_target netloc_ok service url = Inr parsed"
  shows "url_scheme parsed = U ''http'' \<and> url_hostname parsed = Some (U service) \<and> url_username parsed = None \<and>
    url_password parsed = None \<and> url_fragment parsed = [] \<and>
    (\<exists>port. url_port parsed = Inr port \<and> map_of Week4_Constants.INTERNAL_PORTS (U service) = Some (port_or_80 port))"
  using assms unfolding checked_target_def split_target_def
  by (auto simp: ditem_def split: prod.splits sum.splits if_splits option.splits)

text \<open>
  C28. Whatever address and path a scenario asks for, a probe either raises and sends nothing or sends exactly one request,
  and that to the port of 127.0.0.1 that was published for the service named in the address: the part of the address that is
  kept begins with a path or a query, so it cannot change the host.
\<close>

theorem probes_stay_local:
  "case Week4_Harness.internal_http w service verb url body headers s of (r, t) \<Rightarrow>
     t = s \<and> (\<exists>e. r = Inl e) \<or>
     (\<exists>parsed port rest rq. t = s\<lparr>tick := Suc (tick s)\<rparr> \<and> r = direct_result service (v_http w (tick s) rq) \<and>
        checked_target (v_netloc_ok w) service url = Inr parsed \<and> url_hostname parsed = Some (U service) \<and>
        map_of (a_probe_ports (v_self w)) (U service) = Some port \<and>
        rq_url rq = U ''http://127.0.0.1:'' @ str_of_int port @ rest \<and> hd (rest @ [47]) \<in> {47, 63})"
proof -
  obtain r t where i: "Week4_Harness.internal_http w service verb url body headers s = (r, t)"
    by (cases "Week4_Harness.internal_http w service verb url body headers s")
  show ?thesis
  proof (cases "t = s \<and> (\<exists>e. r = Inl e)")
    case True
    then show ?thesis unfolding i by simp
  next
    case False
    with i obtain parsed port data where p: "checked_target (v_netloc_ok w) service url = Inr parsed"
      "map_of (a_probe_ports (v_self w)) (U service) = Some port"
      "t = s\<lparr>tick := Suc (tick s)\<rparr>" "r = direct_result service (v_http w (tick s) \<lparr>rq_url = loopback_url port parsed, rq_method = U verb,
         rq_body = data, rq_headers = headers, rq_timeout = 15\<rparr>)"
      unfolding Week4_Harness.internal_http_def h_def probe_port_def ditem_def
      by (auto simp: py_seq_def py_bind_def ask_res_def ask_def split: option.splits sum.splits)
    obtain rest where "loopback_url port parsed = U ''http://127.0.0.1:'' @ str_of_int port @ rest" "hd (rest @ [47]) \<in> {47, 63}"
      using loopback_url_shape by blast
    with p checked_target_Inr [OF p(1)] show ?thesis unfolding i prod.case by (intro disjI2 exI conjI) auto
  qed
qed

section \<open>The images of the run\<close>

definition foreign_free :: "(pystr \<times> pystr list) list \<Rightarrow> bool" where
  "foreign_free groups \<longleftrightarrow> (\<forall>(key, names)\<in>set groups. U ''provider-simulator'' \<notin> set names)"

lemma group_service_free:
  assumes "foreign_free groups"
  shows "foreign_free (group_service x groups)"
proof -
  obtain name service where x: "x = (name, service)" by (cases x)
  have "foreign_free (add_member key name groups)" if "name \<noteq> U ''provider-simulator''" for key
  proof -
    have "U ''provider-simulator'' \<notin> set ((case map_of groups key of None \<Rightarrow> [] | Some names \<Rightarrow> names) @ [name])"
      using assms that map_of_SomeD [of groups key] by (cases "map_of groups key") (fastforce simp: foreign_free_def)+
    then show ?thesis using assms set_dput [of key _ groups] unfolding foreign_free_def add_member_def by fastforce
  qed
  with assms x show ?thesis by (cases service) (auto simp: group_service_def)
qed

lemma fold_group_service_free: "foreign_free groups \<Longrightarrow> foreign_free (fold group_service services groups)"
  by (induction services arbitrary: groups) (simp_all add: group_service_free)

lemma isolated_of_names: "U ''provider-simulator'' \<notin> fst ` set (isolated_of project services)"
proof -
  let ?groups = "fold group_service services []"
  have "foreign_free ?groups" by (rule fold_group_service_free) (simp add: foreign_free_def)
  define gs where "gs = map snd ?groups"
  from \<open>foreign_free ?groups\<close> have free: "names \<in> set gs \<Longrightarrow> U ''provider-simulator'' \<notin> set names" for names
    by (auto simp: foreign_free_def gs_def)
  have "isolated_of project services = concat (map (\<lambda>(index, names). if list_ex (is_built services) names
      then map (\<lambda>name. (name, project @ U ''-build-'' @ str_of_nat index @ U '':check'')) names else []) (zip [1..<Suc (length gs)] gs))"
    by (simp add: isolated_of_def Let_def gs_def del: upt_Suc)
  then show ?thesis by (auto simp del: upt_Suc split: if_splits dest!: set_zip_rightD free)
qed

lemma isolated_of_tags:
  "snd ` set (isolated_of project services) \<subseteq> range (\<lambda>i. project @ U ''-build-'' @ str_of_nat i @ U '':check'')"
  by (auto simp: isolated_of_def Let_def simp del: upt_Suc split: if_splits)

lemma write_override_images:
  "isolated_images (snd (Week4_Setup.write_override w config s)) = snd ` set (isolated_in (a_project (v_self w)) config)"
  unfolding Week4_Setup.write_override_def
  by (auto simp: py_seq_def py_bind_def py_read_def write_text_def ask_res_def ask_def split: sum.splits)

text \<open>
  C29. The images that the checker removes are its own: \<^verbatim>\<open>_write_override\<close> notes only tags made from the name of the project, and
  never isolates the image of the provider, whatever the configuration of the submission says.
\<close>

theorem images_are_own:
  "isolated_images (snd (Week4_Setup.write_override w config s)) \<subseteq>
     range (\<lambda>i. a_project (v_self w) @ U ''-build-'' @ str_of_nat i @ U '':check'') \<and>
   U ''provider-simulator'' \<notin> fst ` set (isolated_in (a_project (v_self w)) config)"
proof (cases "services_of config")
  case None
  then show ?thesis unfolding write_override_images isolated_in_def by simp
next
  case (Some services)
  with isolated_of_tags isolated_of_names show ?thesis unfolding write_override_images isolated_in_def by simp
qed

end
