(* ===== verification/Week4_Complete.thy ===== *)
theory Week4_Complete
  imports Week3_Accept Week4_Run
begin

text \<open>
  The plan of every group of checks of \<^verbatim>\<open>task/week4/autocheck/public_check.py\<close> and of \<^verbatim>\<open>execute\<close>. What both weeks share comes from
  the locale \<open>planned\<close>, interpreted here on the methods of week 4.
\<close>

section \<open>The harness\<close>

lemma adds4_same [plan_rules, quiet_rules]:
  "adds (Week4_Harness.run_with w cmd timeout extra) []" "adds (Week4_Harness.run w cmd timeout) []"
  "adds (Week4_Harness.require_docker_result w r message) []" "adds (Week4_Harness.compose_with w args override timeout extra) []"
  "adds (Week4_Harness.compose w args timeout) []" "adds (Week4_Harness.require_compose w args timeout message) []"
  "adds (Week4_Harness.container_id w service) []" "adds (Week4_Harness.image_id w service) []"
  "adds (Week4_Harness.main_process_executable w service) []" "adds (Week4_Harness.http w verb path body headers timeout) []"
  "adds (Week4_Harness.wait_gateway_for w timeout) []" "adds (Week4_Harness.action_with w modul action d token key extra) []"
  "adds (Week4_Harness.runtime_config w) []"
  unfolding week4_same by (rule plan_rules)+

lemma adds4_candidate_config [plan_rules, quiet_rules]: "adds (Week4_Harness.candidate_config w extra) []"
  unfolding Week4_Harness.candidate_config_def by (rule quiet_rules)

lemma adds4_service_state [plan_rules, quiet_rules]: "adds (service_state w service) []"
  unfolding service_state_def Let_def by (rule quiet_rules | simp)+

lemma adds4_container_ips [plan_rules, quiet_rules]: "adds (container_ips w service) []"
  unfolding container_ips_def by (rule quiet_rules | simp)+

lemma adds4_detect [plan_rules, quiet_rules]: "adds (Week4_Harness.detect_python_runtime w service) []"
  unfolding Week4_Harness.detect_python_runtime_def Let_def by (rule quiet_rules adds_modify | simp)+

lemma adds4_psql_rows [plan_rules, quiet_rules]: "adds (Week4_Harness.psql_rows w query) []"
  unfolding Week4_Harness.psql_rows_def by (rule quiet_rules | simp)+

lemma adds4_internal_http [plan_rules, quiet_rules]: "adds (Week4_Harness.internal_http w service verb url body headers) []"
  unfolding Week4_Harness.internal_http_def by (rule quiet_rules | simp)+

lemma adds4_write_override [plan_rules, quiet_rules]: "adds (Week4_Setup.write_override w config) []"
  unfolding Week4_Setup.write_override_def by (rule quiet_rules adds_modify | simp)+

lemma adds4_preflight [plan_rules, quiet_rules]: "adds (preflight_compose_features w) []"
  unfolding preflight_compose_features_def Let_def by (rule quiet_rules | simp)+

lemma adds4_create_and_submit [plan_rules, quiet_rules]: "adds (Week4_Setup.create_and_submit w payload_name lab) []"
  unfolding Week4_Setup.create_and_submit_def by (rule quiet_rules | simp)+

interpretation week4_groups: planned "week4_methods w"
  by unfold_locales (simp_all add: week4_methods_def adds4_psql_rows adds4_internal_http adds4_create_and_submit)

lemma adds4_record [plan_rules]: "adds (Week4_Setup.record_check w name phase expected actual) [plan_name name]"
  unfolding week4_same by (rule adds_record_check)

lemma adds4_queries [plan_rules, quiet_rules]:
  "adds (Week4_Setup.find_compose w) []" "adds (Week4_Setup.poll_rows_for w timeout query holds) []"
  "adds (Week4_Setup.operation_rows w operation_id) []" "adds (Week4_Setup.wait_operation w operation_id st) []"
  "adds (Week4_Setup.external_request w operation_id) []" "adds (Week4_Setup.provider_audit w external_id) []"
  unfolding week4_same
  by (rule adds_find_compose_in week4_groups.adds_poll_rows_for week4_groups.adds_operation_rows week4_groups.adds_wait_operation
    week4_groups.adds_external_request week4_groups.adds_provider_audit)+

section \<open>Admission\<close>

lemma adds4_require_tool [plan_rules, quiet_rules]: "adds (require_tool w cmd timeout message) []"
  unfolding require_tool_def by (rule quiet_rules | simp)+

lemma adds4_open_harness [plan_rules, quiet_rules]: "adds (Week4_Admission.open_harness w) []"
  unfolding Week4_Admission.open_harness_def by (rule quiet_rules adds_modify | simp)+

lemma adds4_read_config [plan_rules, quiet_rules]: "adds cmd [] \<Longrightarrow> adds (Week4_Admission.read_config w cmd invalid not_json) []"
  unfolding Week4_Admission.read_config_def by (rule quiet_rules | assumption)+

lemma adds4_reference_values [plan_rules, quiet_rules]: "adds (reference_values w) []"
  unfolding reference_values_def reference_value_def Let_def by (rule quiet_rules | simp)+

lemma adds4_check_references [plan_rules]: "adds (check_references w) (plan [''compose-environment-contract''])"
  unfolding check_references_def by (rule adds_eq, (rule plan_rules)+) (simp_all add: plan_simps)

lemma adds4_check_compose [plan_rules]:
  "adds (Week4_Admission.check_compose w) (plan [''compose-environment-contract'', ''compose-contract''])"
  unfolding Week4_Admission.check_compose_def by (rule adds_eq, (rule plan_rules)+) (simp_all add: plan_simps)

lemma adds4_check_runtime_compose [plan_rules]: "adds (Week4_Admission.check_runtime_compose w) (plan [''runtime-compose-contract''])"
  unfolding Week4_Admission.check_runtime_compose_def by (rule adds_eq, (rule plan_rules)+) (simp_all add: plan_simps)

lemma adds4_build_stack [plan_rules, quiet_rules]: "adds (Week4_Admission.build_stack w) []"
  unfolding Week4_Admission.build_stack_def by (rule quiet_rules | simp)+

lemma adds4_all_running [plan_rules, quiet_rules]: "adds (all_running w) []"
  unfolding all_running_def by (rule quiet_rules | simp)+

lemma adds4_check_cli [plan_rules]: "adds (check_cli w name phase) [plan_name (U name)]"
  unfolding check_cli_def by (rule adds_eq, (rule plan_rules)+) (simp_all add: plan_simps)

lemma adds4_start_stack [plan_rules, quiet_rules]: "adds (Week4_Admission.start_stack w) []"
  unfolding Week4_Admission.start_stack_def by (rule quiet_rules | simp)+

lemma adds4_check_python_image [plan_rules]: "adds (Week4_Admission.check_python_image w) (plan [''python-single-image''])"
  unfolding Week4_Admission.check_python_image_def by (rule adds_eq, (rule plan_rules)+) (simp_all add: plan_simps)

lemma adds4_check_python_version [plan_rules]: "adds (Week4_Admission.check_python_version w service) [plan_name (U ''python-version-'' @ service)]"
  unfolding Week4_Admission.check_python_version_def by (rule adds_eq, (rule plan_rules)+) (simp_all add: plan_simps)

definition version_names :: "string list" where
  "version_names = [''python-version-outbox-dispatcher'', ''python-version-outbox-dispatcher-b'', ''python-version-receipt-adapter'',
     ''python-version-inbox-reconciler'', ''python-version-inbox-reconciler-b'']"

lemma adds4_python_versions [plan_rules]:
  "adds (py_for (Week4_Admission.check_python_version w) Week4_Constants.PYTHON_SERVICES) (plan version_names)"
  unfolding Week4_Constants.PYTHON_SERVICES_def list.map py_for.simps
  by (rule adds_eq, (rule plan_rules)+) (simp_all add: plan_simps version_names_def U_append [symmetric])

definition admission4_names :: "string list" where
  "admission4_names = [''compose-environment-contract'', ''compose-contract'', ''runtime-compose-contract'', ''cli-startup-completed'',
     ''python-single-image''] @ version_names"

lemma adds4_check_admission_and_start [plan_rules]: "adds (Week4_Admission.check_admission_and_start w) (plan admission4_names)"
  unfolding Week4_Admission.check_admission_and_start_def by (rule adds_eq, (rule plan_rules)+) (simp_all add: plan_simps admission4_names_def)

section \<open>The database\<close>

lemma adds4_check_identity [plan_rules]: "adds (check_identity w) (plan [''trusted-read-only-database-channel''])"
  unfolding check_identity_def by (rule adds_eq, (rule plan_rules)+) (simp_all add: plan_simps)

lemma adds4_check_reader_role [plan_rules]: "adds (check_reader_role w) (plan [''autocheck-reader-not-elevated''])"
  unfolding check_reader_role_def by (rule adds_eq, (rule plan_rules)+) (simp_all add: plan_simps)

definition reader_names :: "string list" where
  "reader_names = [''trusted-read-only-database-channel'', ''autocheck-reader-not-elevated''] @ map fst reader_excess"

lemma adds4_check_reader [plan_rules]: "adds (check_reader w) (plan reader_names)"
  unfolding check_reader_def reader_excess_def py_for.simps prod.case
  by (rule adds_eq, (rule week4_groups.adds_check_no_rows plan_rules)+) (simp_all add: plan_simps reader_names_def reader_excess_def)

lemma adds4_check_database_contract [plan_rules]:
  "adds (Week4_Database.check_database_contract w) (plan (reader_names @ database_names ''week4''))"
  unfolding Week4_Database.check_database_contract_def check_stable_contract_def check_python_roles_def Let_def
  by (rule adds_eq, (rule week4_groups.adds_check_views week4_groups.adds_check_contract_info week4_groups.adds_check_flows week4_groups.adds_check_roles
    week4_groups.adds_check_privileges week4_groups.adds_check_functions week4_groups.adds_check_function_privileges plan_rules)+)
    (simp_all add: plan_simps database_names_def week4_contract_def)

lemma adds4_principal_rounds [plan_rules]: "adds (principal_rounds w ips query n seen) []"
proof (induction n arbitrary: seen)
  case (Suc n)
  show ?case unfolding principal_rounds.simps Let_def by (rule quiet_rules Suc.IH)+
qed (simp only: principal_rounds.simps adds_return)

lemma adds4_service_ips [plan_rules]: "adds (service_ips w) []"
  unfolding service_ips_def by (rule quiet_rules)+

definition principal_names :: "string \<Rightarrow> string list" where
  "principal_names pre = [pre @ ''runtime-database-principals-no-mismatch'', pre @ ''adapter-has-no-runtime-database-session'']"

lemma adds4_check_principals [plan_rules]: "adds (check_runtime_database_principals w pre) (plan (principal_names pre))"
  unfolding check_runtime_database_principals_def
  by (rule adds_eq, (rule plan_rules)+) (simp_all add: plan_simps principal_names_def)

section \<open>Observability\<close>

lemma adds4_service_http [plan_rules, quiet_rules]: "adds (service_http w service path) []"
  unfolding service_http_def by (rule quiet_rules)+

lemma adds4_service_is_ready [plan_rules, quiet_rules]: "adds (service_is_ready w service) []"
  unfolding service_is_ready_def by (rule quiet_rules)+

lemma adds4_read_metrics [plan_rules, quiet_rules]: "adds (read_metrics w service) []"
  unfolding read_metrics_def by (rule quiet_rules)+

lemma adds4_holds_now [plan_rules, quiet_rules]: "adds m [] \<Longrightarrow> adds (holds_now m) []"
  unfolding holds_now_def by (rule quiet_rules | assumption)+

lemma adds4_ready_rounds [plan_rules, quiet_rules]: "adds (ready_rounds w service n) []"
proof (induction n)
  case (Suc n)
  show ?case unfolding ready_rounds.simps by (rule quiet_rules Suc.IH)+
qed (simp only: ready_rounds.simps adds_raise)

lemma adds4_wait_service_ready [plan_rules, quiet_rules]: "adds (wait_service_ready w service) []"
  unfolding wait_service_ready_def by (rule quiet_rules)+

definition service_names4 :: "string \<Rightarrow> string list" where
  "service_names4 service = [''health-live-'' @ service, ''health-ready-'' @ service, ''metrics-bounded-labels-'' @ service,
     ''metrics-bounded-label-values-'' @ service] @
     (if service = ''api'' then [''metrics-required-series'', ''metrics-required-types''] else [])"

lemma adds4_series: "adds (if service = ''api'' then check_series w m else py_return ())
    (plan (if service = ''api'' then [''metrics-required-series'', ''metrics-required-types''] else []))"
proof (cases "service = ''api''")
  case True
  have "adds (check_series w m) (plan [''metrics-required-series'', ''metrics-required-types''])"
    unfolding check_series_def by (rule adds_eq, (rule plan_rules)+) (simp_all add: plan_simps)
  with True show ?thesis by simp
next
  case False
  then show ?thesis by (simp only: if_False plan_simps adds_return)
qed

lemma adds4_observe_service: "adds (observe_service w service) (plan (service_names4 service))"
  unfolding observe_service_def check_live_def check_ready_def check_labels_def
  by (rule adds_eq, (rule adds4_series plan_rules)+) (simp_all add: plan_simps service_names4_def)

definition observability_names :: "string list" where
  "observability_names = concat (map service_names4 observed_names)"

lemma plan_concat: "plan (concat xss) = concat (map plan xss)"
  by (induction xss) (simp_all add: plan_simps)

lemma adds4_check_observability [plan_rules]: "adds (check_observability_endpoints w) (plan observability_names)"
  unfolding check_observability_endpoints_def observability_names_def plan_concat map_map o_def
  by (rule adds_for) (rule adds4_observe_service)

section \<open>The outage of the provider\<close>

lemma adds4_all_ready [plan_rules, quiet_rules]: "adds (all_ready w services) []"
proof (induction services)
  case (Cons service services)
  show ?case unfolding all_ready.simps by (rule quiet_rules Cons.IH)+
qed (simp only: all_ready.simps adds_return)

lemma adds4_stop_provider [plan_rules]: "adds (stop_provider w) (plan [''provider-outage-keeps-runtime-ready''])"
  unfolding stop_provider_def by (rule adds_eq, (rule plan_rules)+) (simp_all add: plan_simps)

lemma adds4_pending_payment [plan_rules]: "adds (pending_payment w) (plan [''metrics-reflect-pending-outbox''])"
  unfolding pending_payment_def by (rule adds_eq, (rule plan_rules)+) (simp_all add: plan_simps)

lemma adds4_provider_rounds [plan_rules, quiet_rules]: "adds (provider_rounds w external_id n) []"
proof (induction n)
  case 0
  show ?case unfolding provider_rounds.simps by (rule quiet_rules)+
next
  case (Suc n)
  show ?case unfolding provider_rounds.simps by (rule quiet_rules Suc.IH)+
qed

lemma adds4_unpause [plan_rules, quiet_rules]: "adds (unpause w) []"
  unfolding unpause_def by (rule quiet_rules)

lemma plan_guarded: "plan [''provider-outage-persists-retry''] = [guarded]"
  by code_simp

lemma adds4_restore_provider [plan_rules]: "adds (restore_provider w external_id query retry_rows) [guarded]"
  unfolding restore_provider_def
  by (rule adds_eq, (rule plan_rules)+) (simp add: plan_guarded [symmetric] plan_simps)

text \<open>A clause \<^verbatim>\<open>finally\<close> around the one check for which the plans allow it.\<close>

lemma adds_guarded [plan_rules]:
  assumes m: "adds m [guarded]" and n: "adds n []"
  shows "adds (py_finally m n) [guarded]"
proof (rule adds_intro)
  fix s
  obtain r s1 where ms: "m s = (r, s1)" by (cases "m s")
  obtain q s2 where ns: "n s1 = (q, s2)" by (cases "n s1")
  from addsE [OF m ms] obtain cs where cs: "checks s1 = checks s @ cs" "follows [guarded] cs r" by blast
  have same: "checks s2 = checks s1" using n ns by (metis adds_Nil_iff snd_conv)
  show "\<exists>cs. checks (snd (py_finally m n s)) = checks s @ cs \<and> follows [guarded] cs (fst (py_finally m n s))"
  proof (cases q)
    case (Inr u)
    with ms ns cs same show ?thesis by (intro exI [of _ cs]) (simp add: py_finally_def)
  next
    case (Inl e)
    have "follows [guarded] cs (Inl e)" using cs(2)
      by (cases r) (auto simp: follows_def prefix_Cons map_eq_Cons_conv)
    with ms ns cs(1) same Inl show ?thesis by (intro exI [of _ cs]) (simp add: py_finally_def)
  qed
qed

lemma adds4_retry_during_outage [plan_rules]: "adds (retry_during_outage w external_id) [guarded]"
  unfolding retry_during_outage_def Let_def by (rule adds_eq, (rule plan_rules)+) simp

lemma adds4_check_recovery_once [plan_rules]:
  "adds (check_recovery_once w operation_id process_id external_id) (plan [''provider-recovery-completes-once''])"
  unfolding check_recovery_once_def by (rule adds_eq, (rule plan_rules)+) (simp_all add: plan_simps)

definition outage_names :: "string list" where
  "outage_names = [''provider-outage-keeps-runtime-ready'', ''metrics-reflect-pending-outbox'', ''provider-outage-persists-retry'',
     ''provider-recovery-completes-once'']"

lemma adds4_check_provider_outage [plan_rules]: "adds (check_provider_outage_recovery w) (plan outage_names)"
  unfolding check_provider_outage_recovery_def
  by (rule adds_eq, (rule plan_rules)+) (simp_all add: plan_guarded [symmetric] plan_simps outage_names_def)

lemma adds4_unready_rounds [plan_rules, quiet_rules]: "adds (unready_rounds w n seen) []"
proof (induction n arbitrary: seen)
  case (Suc n)
  show ?case unfolding unready_rounds.simps by (rule quiet_rules Suc.IH)+
qed (simp only: unready_rounds.simps adds_return)

lemma adds4_optional_json [plan_rules, quiet_rules]: "adds (optional_json w r) []"
  unfolding optional_json_def by (rule quiet_rules)+

lemma adds4_check_postgres_readiness [plan_rules]:
  "adds (check_postgres_readiness w) (plan [''health-postgres-affects-ready-not-live''])"
  unfolding check_postgres_readiness_def by (rule adds_eq, (rule plan_rules)+) (simp_all add: plan_simps)

section \<open>Delivery, review, recovery\<close>

lemma adds4_keep [plan_rules]: "adds (keep_callback url legacy r body) []" "adds (keep_decision d key r body) []"
  unfolding keep_callback_def keep_decision_def by (rule quiet_rules adds_modify | simp)+

lemma adds4_check_provider_path [plan_rules]: "adds (Week4_Scenarios.check_provider_path w) (plan provider_names)"
  unfolding Week4_Scenarios.check_provider_path_def by (rule week4_groups.adds_provider_path)

lemma adds4_check_adapter [plan_rules]: "adds (Week4_Scenarios.check_adapter_deduplication w) (plan adapter_names)"
  unfolding Week4_Scenarios.check_adapter_deduplication_def by (rule week4_groups.adds_adapter_deduplication) (rule adds4_keep)

lemma adds4_check_review [plan_rules]: "adds (Week4_Scenarios.check_review w) (plan review_names)"
  unfolding Week4_Scenarios.check_review_def by (rule week4_groups.adds_review) (rule adds4_keep)

lemma adds4_capture_logs [plan_rules, quiet_rules]: "adds (capture_logs w) []"
  unfolding capture_logs_def by (rule quiet_rules adds_candidate_logs adds_modify | simp)+

lemma adds4_all_logs [plan_rules, quiet_rules]: "adds (all_logs w) []"
  unfolding all_logs_def by (rule quiet_rules)+

lemma adds4_check_recreate: "adds (Week4_Scenarios.check_recreate_and_hygiene w [a, b, c, d]) (plan (recovery_names 5))"
  using week4_groups.adds_recreate_and_hygiene [OF adds4_capture_logs adds4_all_logs, of w w _ _ w w "[a, b, c, d]"]
  by (simp add: Week4_Scenarios.check_recreate_and_hygiene_def eval_nat_numeral)

section \<open>Diagnostics and restart\<close>

lemma adds4_diagnose [plan_rules, quiet_rules]: "adds (diagnose w action d token) []"
  unfolding diagnose_def by (rule quiet_rules)

lemma adds4_check_one_trace:
  "adds (check_one_trace w pre (lab, identifier, operation_id, process_id, evidence_key)) (plan [pre @ ''trace-'' @ lab @ ''-complete''])"
  unfolding check_one_trace_def prod.case by (rule adds_eq, (rule plan_rules)+) (simp_all add: plan_simps)

lemma adds4_check_unknown_trace [plan_rules]: "adds (check_unknown_trace w pre) (plan [pre @ ''trace-unknown-identifier''])"
  unfolding check_unknown_trace_def by (rule adds_eq, (rule plan_rules)+) (simp_all add: plan_simps)

definition trace_names :: "string \<Rightarrow> string list" where
  "trace_names pre = map ((@) pre) [''trace-operation-complete'', ''trace-external-complete'', ''trace-manual-complete'',
     ''trace-unknown-identifier'']"

lemma adds4_check_trace [plan_rules]: "adds (check_trace w provider_operation manual_operation pre) (plan (trace_names pre))"
  unfolding check_trace_def
  by (rule adds_eq, (rule adds4_check_one_trace plan_rules)+) (simp_all add: plan_simps trace_names_def)

lemma adds4_restart_snapshot [plan_rules, quiet_rules]: "adds (restart_snapshot w ids) []"
  unfolding restart_snapshot_def by (rule quiet_rules)+

lemma adds4_check_stalled_answer [plan_rules]:
  "adds (check_stalled_answer w) (plan [''stalled-response-contract'', ''stalled-ordered-unique-operations''])"
  unfolding check_stalled_answer_def Let_def by (rule adds_eq, (rule plan_rules)+) (simp_all add: plan_simps)

lemma adds4_check_denied [plan_rules]: "adds m [] \<Longrightarrow> adds (check_denied w lab m st) [plan_name (U (''stalled-'' @ lab))]"
  unfolding check_denied_def by (rule adds_eq, (rule plan_rules | assumption)+) (simp_all add: plan_simps)

lemma adds4_without_token [plan_rules, quiet_rules]: "adds (stalled_without_token w) []"
  unfolding stalled_without_token_def by (rule quiet_rules)+

lemma adds4_check_stalled_refusals [plan_rules]: "adds (check_stalled_refusals w)
    (plan [''stalled-no-token'', ''stalled-invalid-token'', ''stalled-missing-policy'', ''stalled-invalid-payload''])"
  unfolding check_stalled_refusals_def by (rule adds_eq, (rule plan_rules)+) (simp_all add: plan_simps)

definition stalled_names :: "string list" where
  "stalled_names = [''stalled-registered-action'', ''stalled-response-contract'', ''stalled-ordered-unique-operations'',
     ''stalled-no-token'', ''stalled-invalid-token'', ''stalled-missing-policy'', ''stalled-invalid-payload'',
     ''stalled-preserves-business-evidence'']"

lemma adds4_check_stalled [plan_rules]: "adds (check_stalled w ids) (plan stalled_names)"
  unfolding check_stalled_def by (rule adds_eq, (rule plan_rules)+) (simp_all add: plan_simps stalled_names_def)

definition final_names :: "string list" where
  "final_names = [''final-synthetic-secrets-not-in-logs'', ''final-full-messages-not-in-logs'']"

lemma adds4_check_final_log_hygiene [plan_rules]: "adds (check_final_log_hygiene w) (plan final_names)"
  unfolding check_final_log_hygiene_def by (rule adds_eq, (rule plan_rules)+) (simp_all add: plan_simps final_names_def)

lemma adds4_restart_stack [plan_rules]: "adds (restart_stack w) (plan [''cli-restart-completed''])"
  unfolding restart_stack_def by (rule adds_eq, (rule plan_rules)+) (simp_all add: plan_simps)

lemma adds4_check_snapshot [plan_rules]: "adds (check_snapshot w name ids before) [plan_name (U name)]"
  unfolding check_snapshot_def by (rule adds_eq, (rule plan_rules)+) (simp_all add: plan_simps)

lemma adds4_replay_callback [plan_rules]: "adds (replay_callback w x) (plan [''callback-repeat-after-full-restart''])"
  unfolding replay_callback_def
  by (rule adds_eq, (rule week4_groups.adds_post_callback plan_rules)+) (simp_all add: plan_simps)

lemma adds4_replay_decision [plan_rules]: "adds (replay_decision w y) (plan [''manual-repeat-after-full-restart''])"
  unfolding replay_decision_def
  by (rule adds_eq, (rule week4_groups.adds_decide plan_rules)+) (simp_all add: plan_simps)

lemma adds4_replay [plan_rules]:
  "adds (replay w) (plan [''callback-repeat-after-full-restart'', ''manual-repeat-after-full-restart''])"
  unfolding replay_def
  by (rule adds_eq, (rule plan_rules)+) (simp_all add: plan_simps)

lemma adds4_check_resumes [plan_rules]: "adds (check_resumes w) (plan [''full-restart-processing-resumes''])"
  unfolding check_resumes_def by (rule adds_eq, (rule plan_rules)+) (simp_all add: plan_simps)

definition restart_names :: "string list" where
  "restart_names = [''full-restart-snapshot-complete'', ''cli-restart-completed'', ''full-restart-preserves-evidence'',
     ''callback-repeat-after-full-restart'', ''manual-repeat-after-full-restart'', ''full-restart-replays-preserve-evidence''] @
     trace_names ''post-restart-'' @ [''full-restart-processing-resumes'']"

lemma adds4_check_full_restart [plan_rules]: "adds (check_full_restart w ids) (plan restart_names)"
  unfolding check_full_restart_def by (rule adds_eq, (rule plan_rules)+) (simp_all add: plan_simps restart_names_def)

section \<open>The run\<close>

definition week4_names :: "string list" where
  "week4_names = admission4_names @ reader_names @ database_names ''week4'' @ principal_names ''startup-'' @ observability_names @
     outage_names @ provider_names @ adapter_names @ review_names @ principal_names ''post-workload-'' @ trace_names [] @
     recovery_names 5 @ [''health-postgres-affects-ready-not-live''] @ restart_names @ stalled_names @ final_names"

lemma adds4_execute: "adds (Week4_Run.execute w) (plan week4_names)"
  unfolding Week4_Run.execute_def Let_def
  by (rule adds_eq, (rule adds4_check_recreate plan_rules)+) (simp add: plan_simps week4_names_def)

end
