(* ===== verification/Week4_Accept.thy ===== *)
theory Week4_Accept
  imports Week4_Complete
begin

text \<open>
  What a run of \<^verbatim>\<open>task/week4/autocheck/public_check.py\<close> means: the checks of a run that returned or was refused, and the exit
  codes.
\<close>

section \<open>Parts that returned\<close>

text \<open>A Compose command of the run with these variables that ended with the exit code 0, and what it printed.\<close>

definition printed_with :: "world \<Rightarrow> pystr list \<Rightarrow> bool \<Rightarrow> (pystr \<times> pystr) list \<Rightarrow> pystr \<Rightarrow> bool" where
  "printed_with w args override extra out \<longleftrightarrow> (\<exists>n inv f err. inv_command inv = compose_line w f override args \<and>
     inv_env inv = environment w extra \<and> v_exec w n inv = Inr (Completed 0 out err))"

lemma compose_printed_with:
  assumes "Week4_Harness.compose_with w args override timeout extra s = (Inr r, t)" "cmd_ok r"
  shows "printed_with w args override extra (stdout r)"
proof -
  from assms(1) obtain f s1 where "Week3_Session.run_with w (compose_line w f override args) timeout extra s1 = (Inr r, t)"
    unfolding week4_same Week3_Session.compose_with_def by (auto simp: py_Inr)
  from run_with_Inr [OF this] obtain n inv oc where "inv_command inv = compose_line w f override args"
    "inv_env inv = environment w extra" "v_exec w n inv = Inr oc" "command_result (compose_line w f override args) oc = Inr r" by force
  with command_result_ok [OF this(4) assms(2)] show ?thesis unfolding printed_with_def by blast
qed

lemma require4_Inr: "Week4_Harness.require_docker_result w r message s = (Inr u, t) \<Longrightarrow> cmd_ok r"
  unfolding week4_same by (rule require_docker_Inr)

lemma read_config4_Inr:
  assumes "Week4_Admission.read_config w cmd invalid not_json s = (Inr v, t)"
  shows "\<exists>r s1. cmd s = (Inr r, s1) \<and> cmd_ok r \<and> parse_json (v_depth w) not_json (stdout r) = Inr v"
  using assms require4_Inr unfolding Week4_Admission.read_config_def by (fastforce simp: py_Inr)

lemma candidate_printed:
  assumes "Week4_Admission.read_config w (Week4_Harness.candidate_config w extra) invalid not_json s = (Inr v, t)"
  shows "\<exists>out. printed_with w config_args False (dict_of ((U ''COURSE_GATEWAY_PORT'', U ''8080'') # extra)) out \<and>
    parse_json (v_depth w) not_json out = Inr v"
proof -
  from read_config4_Inr [OF assms] obtain r s1 where r: "Week4_Harness.candidate_config w extra s = (Inr r, s1)" "cmd_ok r"
    "parse_json (v_depth w) not_json (stdout r) = Inr v" by blast
  from r(1) [unfolded Week4_Harness.candidate_config_def] r(2)
  have "printed_with w (map U [''config'', ''--format'', ''json'', ''--no-env-resolution'']) False
      (dict_of ((U ''COURSE_GATEWAY_PORT'', U ''8080'') # extra)) (stdout r)" by (rule compose_printed_with)
  with r(3) show ?thesis unfolding config_args_def by blast
qed

section \<open>Acceptance\<close>

text \<open>
  The three configurations: that of the submission; that with marked variables, which shows every service what it must
  refer to; and that with the override.
\<close>

definition candidate_admitted :: "world \<Rightarrow> bool" where
  "candidate_admitted w \<longleftrightarrow> (\<exists>n out config. printed_with w config_args False [(U ''COURSE_GATEWAY_PORT'', U ''8080'')] out \<and>
     parse_json (v_depth w) ''candidate Compose config is not JSON'' out = Inr (PDict config) \<and>
     Week4_Contract.compose_contract_findings (v_netloc_ok w) (fs_resolve (v_fs w n)) config (a_repo (v_self w)) = Inr [] \<and>
     Week4_Compose.secret_distribution_findings config (Week4_Admission.secret_table (v_self w)) = Inr [])"

definition references_admitted :: "world \<Rightarrow> bool" where
  "references_admitted w \<longleftrightarrow> (\<exists>vals out config.
     printed_with w config_args False (dict_of ((U ''COURSE_GATEWAY_PORT'', U ''8080'') # vals)) out \<and>
     parse_json (v_depth w) ''candidate Compose reference config is not JSON'' out = Inr (PDict config) \<and>
     map fst vals = map fst REQUIRED_ENV_RECIPIENTS \<and> environment_reference_findings config vals = Inr [])"

definition runtime_admitted :: "world \<Rightarrow> bool" where
  "runtime_admitted w \<longleftrightarrow> (\<exists>out config. printed_with w config_args True [] out \<and>
     parse_json (v_depth w) ''effective Compose config is not JSON'' out = Inr (PDict config) \<and>
     Week4_Contract.runtime_compose_findings config (a_gateway_port (v_self w)) (a_probe_ports (v_self w)) = Inr [])"

text \<open>The logs captured in the run: none of them contains a text that must stay secret, and the last one is a log of the stack.\<close>

definition captured_clean :: "world \<Rightarrow> session \<Rightarrow> bool" where
  "captured_clean w t \<longleftrightarrow> captured_logs t \<noteq> [] \<and>
     (\<exists>out err. compose_printed w (map U [''logs'', ''--no-color'']) True out err \<and> last (captured_logs t) = lines_of out err) \<and>
     list_all (\<lambda>out. list_all (\<lambda>secret. secret = [] \<or> \<not> contains secret out) (a_sensitive (v_self w))) (captured_logs t)"

lemma as_config_Inr: "as_config v = Inr d \<longleftrightarrow> v = PDict d"
  by (cases v) (auto simp: as_config_def)

lemma dict_of_single [simp]: "dict_of [(k, v)] = [(k, v)]"
  by (simp add: dict_of_def)

lemma py_map_values:
  assumes "\<And>x s y t. f x s = (Inr y, t) \<Longrightarrow> g y = h' x"
  shows "py_map f xs s = (Inr ys, t) \<Longrightarrow> map g ys = map h' xs"
  using assms by (induction xs arbitrary: s ys) (fastforce simp: py_Inr)+

lemma reference_values_names:
  assumes "reference_values w s = (Inr vals, t)"
  shows "map fst vals = map fst REQUIRED_ENV_RECIPIENTS"
proof -
  let ?vs = "map fst REQUIRED_ENV_RECIPIENTS"
  have f: "\<And>x s y t. reference_value w x s = (Inr y, t) \<Longrightarrow> fst y = snd x"
    by (auto simp: reference_value_def py_Inr split: prod.splits if_splits)
  from assms have p: "py_map (reference_value w) (zip [1..<Suc (length ?vs)] ?vs) s = (Inr vals, t)"
    unfolding reference_values_def Let_def .
  have "map fst vals = map snd (zip [1..<Suc (length ?vs)] ?vs)"
    by (rule py_map_values [where f = "reference_value w" and g = fst and h' = snd]) (erule f, rule p)
  also have "\<dots> = ?vs" by (rule map_snd_zip) (simp del: upt_Suc)
  finally show ?thesis .
qed

lemma check_references_Inr:
  assumes "check_references w s = (Inr u, t)"
  shows "references_admitted w"
proof -
  from assms obtain vals v found s1 s2 where
    r: "reference_values w s = (Inr vals, s1)"
    and c: "Week4_Admission.read_config w (Week4_Harness.candidate_config w vals) ''candidate Compose environment references are invalid''
      ''candidate Compose reference config is not JSON'' s1 = (Inr v, s2)"
    and f: "res_bind (as_config v) (\<lambda>config. environment_reference_findings config vals) = Inr found"
    and k: "check w ''compose-environment-contract'' ''admission'' (strs []) (strs found) s2 = (Inr u, t)"
    unfolding check_references_def by (auto simp: py_Inr)
  from f check_no_findings [OF k] obtain config where "v = PDict config" "environment_reference_findings config vals = Inr []"
    by (auto simp: res_bind_eq_Inr as_config_Inr)
  with candidate_printed [OF c] reference_values_names [OF r] show ?thesis unfolding references_admitted_def by blast
qed

lemma check_compose4_Inr:
  assumes "Week4_Admission.check_compose w s = (Inr u, t)"
  shows "candidate_admitted w \<and> references_admitted w"
proof -
  from assms obtain v config found s1 s2 s3 s4 where
    c: "Week4_Admission.read_config w (Week4_Harness.candidate_config w []) ''candidate Compose config is invalid''
      ''candidate Compose config is not JSON'' s = (Inr v, s1)"
    and r: "check_references w s1 = (Inr (), s2)" and v: "as_config v = Inr config"
    and f: "ask_res (\<lambda>n. Week4_Admission.compose_findings w n config) s2 = (Inr found, s3)"
    and k: "check w ''compose-contract'' ''admission'' (strs []) (strs found) s3 = (Inr (), s4)"
    unfolding Week4_Admission.check_compose_def by (auto simp: py_Inr)
  from f obtain n where "Week4_Admission.compose_findings w n config = Inr found" by (auto simp: ask_res_def ask_def py_Inr)
  with check_no_findings [OF k]
  have "Week4_Contract.compose_contract_findings (v_netloc_ok w) (fs_resolve (v_fs w n)) config (a_repo (v_self w)) = Inr []"
    "Week4_Compose.secret_distribution_findings config (Week4_Admission.secret_table (v_self w)) = Inr []"
    by (simp_all add: Week4_Admission.compose_findings_def)
  moreover from candidate_printed [OF c] v obtain out where "printed_with w config_args False [(U ''COURSE_GATEWAY_PORT'', U ''8080'')] out"
    "parse_json (v_depth w) ''candidate Compose config is not JSON'' out = Inr (PDict config)" by (auto simp: as_config_Inr)
  ultimately have "candidate_admitted w" unfolding candidate_admitted_def by blast
  with check_references_Inr [OF r] show ?thesis by blast
qed

lemma check_runtime4_Inr:
  assumes "Week4_Admission.check_runtime_compose w s = (Inr u, t)"
  shows "runtime_admitted w"
proof -
  from assms obtain v found s1 where
    c: "Week4_Admission.read_config w (Week4_Harness.runtime_config w) ''effective Compose config is invalid''
      ''effective Compose config is not JSON'' s = (Inr v, s1)"
    and f: "res_bind (as_config v) (\<lambda>config. Week4_Contract.runtime_compose_findings config (a_gateway_port (v_self w)) (a_probe_ports (v_self w))) = Inr found"
    and k: "check w ''runtime-compose-contract'' ''admission'' (strs []) (strs found) s1 = (Inr u, t)"
    unfolding Week4_Admission.check_runtime_compose_def by (auto simp: py_Inr)
  from f check_no_findings [OF k] obtain config where v: "v = PDict config"
    "Week4_Contract.runtime_compose_findings config (a_gateway_port (v_self w)) (a_probe_ports (v_self w)) = Inr []"
    by (auto simp: res_bind_eq_Inr as_config_Inr)
  from read_config4_Inr [OF c] obtain r s0 where r: "Week4_Harness.runtime_config w s = (Inr r, s0)" "cmd_ok r"
    "parse_json (v_depth w) ''effective Compose config is not JSON'' (stdout r) = Inr v" by blast
  from r(1) have "Week4_Harness.compose_with w config_args True 30 [] s = (Inr r, s0)"
    unfolding week4_same Week3_Session.runtime_config_def Week3_Session.compose_def .
  from compose_printed_with [OF this r(2)] r(3) v show ?thesis unfolding runtime_admitted_def by blast
qed

text \<open>What does not stand in a joined text stands in none of its parts.\<close>

lemma join_str_part: "x \<in> set xs \<Longrightarrow> \<exists>a b. join_str sep xs = a @ x @ b"
proof (induction sep xs rule: join_str.induct)
  case (3 sep p q ps)
  show ?case
  proof (cases "x = p")
    case True
    then show ?thesis by (intro exI [of _ "[]"] exI [of _ "sep @ join_str sep (q # ps)"]) simp
  next
    case False
    with 3 obtain a b where "join_str sep (q # ps) = a @ x @ b" by auto
    then show ?thesis by (intro exI [of _ "p @ sep @ a"] exI [of _ b]) simp
  qed
qed (auto intro: exI [of _ "[]"])

lemma contains_join: "x \<in> set xs \<Longrightarrow> contains needle x \<Longrightarrow> contains needle (join_str sep xs)"
  unfolding contains_iff using join_str_part [of x xs sep] by (metis append.assoc)

lemma leaked_labels_Nil: "leaked_labels secrets out = [] \<longleftrightarrow> list_all (\<lambda>secret. secret = [] \<or> \<not> contains secret out) secrets"
proof -
  have "leaked_labels secrets out = [] \<longleftrightarrow> (\<forall>x\<in>set (zip [1..<Suc (length secrets)] secrets). snd x = [] \<or> \<not> contains (snd x) out)"
    unfolding leaked_labels_def concat_eq_Nil_conv by (auto simp del: upt_Suc)
  also have "\<dots> \<longleftrightarrow> (\<forall>secret\<in>snd ` set (zip [1..<Suc (length secrets)] secrets). secret = [] \<or> \<not> contains secret out)" by blast
  also have "snd ` set (zip [1..<Suc (length secrets)] secrets) = set secrets"
    by (simp add: set_map [symmetric] del: set_map upt_Suc)
  finally show ?thesis by (simp add: list_all_iff)
qed

lemma check_captured: "check w name phase expected actual s = (r, t) \<Longrightarrow> captured_logs t = captured_logs s"
  by (auto simp: check_def Week3_Setup.record_check_def py_bind_def py_seq_def split: prod.splits sum.splits if_splits)

lemma candidate_logs_captured: "candidate_logs w s = (r, t) \<Longrightarrow> captured_logs t = captured_logs s"
  unfolding candidate_logs_def Week3_Session.compose_def Week3_Session.compose_with_def Week3_Session.run_with_def
    Week3_Session.require_docker_result_def Week3_Session.run_def h_def ask_res_def ask_def
  by (auto simp: py_bind_def py_seq_def split: prod.splits sum.splits if_splits option.splits)

lemma final_log_hygiene_Inr:
  assumes "check_final_log_hygiene w s = (Inr u, t)"
  shows "captured_clean w t"
proof -
  from assms obtain out s1 s2 s3 labels where l: "all_logs w s = (Inr out, s1)"
    and k: "check w ''final-synthetic-secrets-not-in-logs'' ''security'' (strs []) (strs (leaked_labels (a_sensitive (v_self w)) out)) s1 = (Inr (), s2)"
    and m: "check w ''final-full-messages-not-in-logs'' ''security'' (strs []) (strs labels) s2 = (Inr u, t)"
    unfolding check_final_log_hygiene_def by (auto simp: py_Inr py_read_def)
  from l obtain o' s0 where c: "candidate_logs w s = (Inr o', s0)" "s1 = s0\<lparr>captured_logs := captured_logs s0 @ [o']\<rparr>"
    "out = join_str [10] (captured_logs s1)" unfolding all_logs_def capture_logs_def py_read_def by (auto simp: py_Inr)
  from check_captured [OF k] check_captured [OF m] have t: "captured_logs t = captured_logs s1" by simp
  from candidate_logs_Inr [OF c(1)] obtain a b where "compose_printed w (map U [''logs'', ''--no-color'']) True a b" "o' = lines_of a b" by blast
  moreover have "secret = [] \<or> \<not> contains secret x" if "x \<in> set (captured_logs t)" "secret \<in> set (a_sensitive (v_self w))" for x secret
  proof -
    from check_no_findings [OF k] that(2) have "secret = [] \<or> \<not> contains secret out"
      by (simp add: leaked_labels_Nil list_all_iff)
    with contains_join [of x "captured_logs s1" secret "[10]"] that(1) t c(3) show ?thesis by auto
  qed
  ultimately show ?thesis unfolding captured_clean_def list_all_iff using t c(2) by auto
qed

lemma execute4_accepts:
  assumes "Week4_Run.execute w s = (Inr u, t)"
  shows "candidate_admitted w \<and> references_admitted w \<and> runtime_admitted w \<and> captured_clean w t"
proof -
  from assms obtain s1 s2 where a: "Week4_Admission.check_admission_and_start w s = (Inr (), s1)"
    and f: "check_final_log_hygiene w s2 = (Inr (), t)"
    unfolding Week4_Run.execute_def Let_def by (auto simp: py_Inr)
  from a obtain s3 s4 s5 where "Week4_Admission.check_compose w s3 = (Inr (), s4)" "Week4_Admission.check_runtime_compose w s4 = (Inr (), s5)"
    unfolding Week4_Admission.check_admission_and_start_def by (auto simp: py_Inr)
  from check_compose4_Inr [OF this(1)] check_runtime4_Inr [OF this(2)] final_log_hygiene_Inr [OF f] show ?thesis by blast
qed

section \<open>The program\<close>

lemma build_report4_Inr: "list_all named items \<Longrightarrow> \<exists>report. Week4_Report.build_report begun finished st items cmds = Inr report"
proof -
  assume "list_all named items"
  then have "\<exists>vs. failed_checks items = Inr vs"
    unfolding failed_checks_def by (induction items) (auto simp: named_def ditem_def split: option.splits)
  then show ?thesis by (auto simp: Week4_Report.build_report_def)
qed

lemma adds4_new_checker: "adds (Week4_Setup.new_checker w a) []"
  unfolding Week4_Setup.new_checker_def new_token_def read_schema_def by (rule quiet_rules)+

lemma adds4_cleanup: "adds (Week4_Run.cleanup w) []"
  unfolding Week4_Run.cleanup_def remove_image_def by (rule quiet_rules)+

interpretation week4_run: checker_program week4_program "plan week4_names"
  by unfold_locales (simp_all add: week4_program_def adds4_new_checker adds4_execute adds4_cleanup build_report4_Inr)

lemma week4_plan: "plan week4_names = map U week4_names"
  by code_simp

text \<open>The run of week 4, from the construction of the checker to the end of its clean-up; \<open>s1\<close> is the state before the clean-up.\<close>

definition week4_completed :: "world \<Rightarrow> args \<Rightarrow> world \<Rightarrow> session \<Rightarrow> session \<Rightarrow> bool" where
  "week4_completed w a w' s1 t \<longleftrightarrow> (\<exists>self s. w' = w\<lparr>v_self := self\<rparr> \<and> Week4_Setup.new_checker w a initial_session = (Inr self, s) \<and>
     Week4_Run.execute w' s = (Inr (), s1) \<and> Week4_Run.cleanup w' s1 = (Inr (), t))"

lemma week4_completed_iff: "week4_run.completed w a self t \<longleftrightarrow> (\<exists>s1. week4_completed w a (w\<lparr>v_self := self\<rparr>) s1 t)"
proof -
  have "self = self'" if "w\<lparr>v_self := self\<rparr> = w\<lparr>v_self := self'\<rparr>" for self'
    using arg_cong [OF that, of v_self] by simp
  then show ?thesis unfolding week4_completed_def week4_run.completed_def by (auto simp: week4_program_def)
qed

lemma week4_completed_accepts:
  "week4_completed w a w' s1 t \<Longrightarrow> candidate_admitted w' \<and> references_admitted w' \<and> runtime_admitted w' \<and> captured_clean w' s1"
  by (auto simp: week4_completed_def dest: execute4_accepts)

lemma week4_completed_plan: "week4_completed w a w' s1 t \<Longrightarrow> map label (checks t) = map U week4_names \<and> list_all check_passed (checks t)"
proof -
  assume c: "week4_completed w a w' s1 t"
  then obtain self where "w' = w\<lparr>v_self := self\<rparr>" unfolding week4_completed_def by blast
  with c have "week4_run.completed w a self t" unfolding week4_completed_iff by blast
  from week4_run.completed_plan [OF this] show ?thesis by (simp add: week4_plan)
qed

section \<open>Properties of a run\<close>

text \<open>
  C22. Every run of the checker of week 4 follows its plan of 139 checks. A run that returns has recorded exactly these
  checks, in this order, and all passed. A run that raises has recorded the first ones of them, of which at most the last
  failed, and a failed check is raised as a \<^verbatim>\<open>ContractError\<close>, with one exception: the check of the outage
  stands in a \<^verbatim>\<open>try\<close> whose \<^verbatim>\<open>finally\<close> may raise another error in its place.
\<close>

theorem week4_run_follows_plan:
  "case Week4_Run.execute w s of (r, t) \<Rightarrow> \<exists>cs. checks t = checks s @ cs \<and> (case r of
     Inr _ \<Rightarrow> map label cs = map U week4_names \<and> list_all check_passed cs
   | Inl e \<Rightarrow> prefix (map label cs) (map U week4_names) \<and> list_all check_passed (butlast cs) \<and>
       (cs = [] \<or> check_passed (last cs) \<or> is_ContractError e \<or> label (last cs) = U ''provider-outage-persists-retry''))"
proof -
  obtain r t where e: "Week4_Run.execute w s = (r, t)" by (cases "Week4_Run.execute w s")
  from addsE [OF adds4_execute e] obtain cs where "checks t = checks s @ cs" "follows (plan week4_names) cs r" by blast
  then show ?thesis unfolding e prod.case
    by (intro exI [of _ cs]) (auto simp: follows_def week4_plan guarded_def split: sum.splits)
qed

text \<open>
  C21. The exit code 0 of week 4 means acceptance, and nothing less gives it: the program ends with 0 exactly when the checker
  was constructed, the whole run and the clean-up returned, so that all 139 checks are recorded and passed, the three Compose
  configurations printed by Docker have no findings (the one with marked variables shows every required reference), no log
  captured in the run holds a text that must stay secret, and the report has no forbidden key, is written and announced.
\<close>

theorem week4_exit_zero_iff:
  "Week4_Run.main class_name pl stamps emit w a = Inr 0 \<longleftrightarrow>
     (\<exists>w' s1 t report. week4_completed w a w' s1 t \<and> map label (checks t) = map U week4_names \<and> list_all check_passed (checks t) \<and>
        candidate_admitted w' \<and> references_admitted w' \<and> runtime_admitted w' \<and> captured_clean w' s1 \<and>
        Week4_Report.build_report (fst stamps) (fst (snd stamps)) (U ''passed'') (checks t) (commands t) = Inr report \<and>
        \<not> report_has_forbidden_keys report \<and> Week4_Run.write_report pl (arg_output a) report = Inr () \<and>
        emit (U ''week-4 public check: passed'') = Inr ())"
proof -
  have msg: "U (pr_week week4_program) @ U '' public check: passed'' = U ''week-4 public check: passed''"
    by (simp add: week4_program_def U_append [symmetric])
  have rep: "pr_report week4_program = Week4_Report.build_report" by (simp add: week4_program_def)
  define final where "final t report \<longleftrightarrow>
    Week4_Report.build_report (fst stamps) (fst (snd stamps)) (U ''passed'') (checks t) (commands t) = Inr report \<and>
    \<not> report_has_forbidden_keys report \<and> Week3_Run.write_report pl (arg_output a) report = Inr () \<and>
    emit (U ''week-4 public check: passed'') = Inr ()" for t :: session and report
  have "Week4_Run.main class_name pl stamps emit w a = Inr 0 \<longleftrightarrow> (\<exists>self t report. week4_run.completed w a self t \<and> final t report)"
    unfolding Week4_Run.main_def week4_run.main_zero_iff msg rep final_def ..
  also have "\<dots> \<longleftrightarrow> (\<exists>w' s1 t report. week4_completed w a w' s1 t \<and> final t report)"
    unfolding week4_completed_iff by (auto simp: week4_completed_def) blast+
  finally show ?thesis using week4_completed_accepts week4_completed_plan unfolding final_def week4_same by blast
qed

text \<open>The program ends with 0, 1 or 2: no exception leaves it, unless printing its last line fails.\<close>

theorem week4_exit_codes:
  "Week4_Run.main class_name pl stamps emit w a \<in> {Inr 0, Inr 1, Inr 2} \<or>
   (\<exists>t e. emit t = Inl e \<and> Week4_Run.main class_name pl stamps emit w a = Inl e)"
  unfolding Week4_Run.main_def by (rule week4_run.main_codes)

end
